(* ===== verification/Prelude.thy ===== *)
theory Prelude
  imports Complex_Main "HOL-Library.AList" "HOL-Library.Sublist"
begin

text \<open>
  What every component of the Bursar development shares: the model of Go values that
  cross component boundaries (\<open>any\<close>, \<open>map[string]any\<close>), Go's byte strings and the
  functions of the packages \<open>strings\<close> and \<open>unicode\<close> the code calls, Go maps as association
  lists, and the two sequencing combinators for code in the style
  \<open>if err != nil { return err }\<close>. The collections \<open>go_simps\<close> (unfolding of the
  combinators) and \<open>map_simps\<close> (association lists as maps) carry the component proofs.
\<close>

named_theorems go_simps \<open>unfolding rules for the error-passing combinators\<close>
named_theorems map_simps \<open>association lists read as maps\<close>

section \<open>Go maps\<close>

text \<open>
  A Go map is an association list with distinct keys, read with \<^const>\<open>map_of\<close> and
  written with \<^const>\<open>AList.update\<close>. The order of the list stands for the order in
  which a \<open>range\<close> loop visits the entries, which Go leaves open: a definition that ranges
  over a map follows the list, so a theorem for every list holds for every visiting order.
  A nil map and an empty map behave alike in every read the code makes.
\<close>

type_synonym 'v gomap = "(string \<times> 'v) list"

definition map_wf :: "'v gomap \<Rightarrow> bool" where
  "map_wf m \<longleftrightarrow> distinct (map fst m)"

definition has_key :: "'v gomap \<Rightarrow> string \<Rightarrow> bool" where
  "has_key m k \<longleftrightarrow> map_of m k \<noteq> None"

definition map_keys :: "'v gomap \<Rightarrow> string list" where
  "map_keys m = map fst m"

definition map_put :: "string \<Rightarrow> 'v \<Rightarrow> 'v gomap \<Rightarrow> 'v gomap" where
  "map_put k v m = AList.update k v m"

lemma map_of_put [simp, map_simps]: "map_of (map_put k v m) = (map_of m)(k \<mapsto> v)"
  by (simp add: map_put_def update_conv')

lemma map_wf_put [simp, intro]: "map_wf m \<Longrightarrow> map_wf (map_put k v m)"
  by (simp add: map_wf_def map_put_def distinct_update)

lemma map_wf_Nil [simp]: "map_wf []"
  by (simp add: map_wf_def)

lemma map_wf_Cons [simp]: "map_wf ((k, v) # m) \<longleftrightarrow> k \<notin> fst ` set m \<and> map_wf m"
  by (simp add: map_wf_def)

lemma has_key_iff [map_simps]: "has_key m k \<longleftrightarrow> k \<in> fst ` set m"
  by (simp add: has_key_def map_of_eq_None_iff)

lemma map_keys_set [simp]: "set (map_keys m) = fst ` set m"
  by (simp add: map_keys_def)

lemma map_wf_entry: "map_wf m \<Longrightarrow> (k, v) \<in> set m \<Longrightarrow> map_of m k = Some v"
  by (simp add: map_wf_def)

text \<open>A map read through its entries does not depend on their order.\<close>

lemma map_of_perm:
  assumes "map_wf m" and "set m = set m'" and "map_wf m'"
  shows "map_of m = map_of m'"
  using assms by (simp add: map_wf_def map_of_inject_set)

section \<open>Dynamically typed values\<close>

text \<open>
  The values of type \<open>any\<close> the code inspects: \<open>VDec\<close> is a \<open>decimal.Decimal\<close>, \<open>VInt\<close> a value
  of one of Go's integer types, \<open>VNum\<close> a \<open>json.Number\<close> (its text), \<open>VFloat\<close> a \<open>float64\<close>
  (its value and the text the verb \<open>%g\<close> prints for it, or \<open>None\<close> when it is not finite), \<open>VTime\<close> a
  \<open>time.Time\<close> (nanoseconds since the Unix epoch), \<open>VArr\<close> and \<open>VObj\<close> an \<open>[]any\<close> and a \<open>map[string]any\<close>,
  and \<open>VOther\<close> a value of any other type, by the type's name.
\<close>

datatype goval =
    VNil
  | VStr string
  | VBool bool
  | VDec rat
  | VInt int
  | VNum string
  | VFloat "(rat \<times> string) option"
  | VTime int
  | VArr "goval list"
  | VObj "(string \<times> goval) list"
  | VOther string

section \<open>Byte strings\<close>

definition byte :: "char \<Rightarrow> nat" where
  "byte c = of_char c"

definition is_digit_byte :: "char \<Rightarrow> bool" where
  "is_digit_byte c \<longleftrightarrow> 48 \<le> byte c \<and> byte c \<le> 57"

definition is_lower_byte :: "char \<Rightarrow> bool" where
  "is_lower_byte c \<longleftrightarrow> 97 \<le> byte c \<and> byte c \<le> 122"

definition is_upper_byte :: "char \<Rightarrow> bool" where
  "is_upper_byte c \<longleftrightarrow> 65 \<le> byte c \<and> byte c \<le> 90"

text \<open>
  \<open>unicode.IsSpace\<close> of a rune below 256, and the UTF-8 encodings of every rune for which
  it holds; \<open>strings.TrimSpace\<close> removes these encodings at both ends.
\<close>

definition is_space_byte :: "char \<Rightarrow> bool" where
  "is_space_byte c \<longleftrightarrow> byte c \<in> {9, 10, 11, 12, 13, 32, 133, 160}"

definition utf8 :: "nat list \<Rightarrow> string" where
  "utf8 bs = map char_of bs"

definition space_encodings :: "string list" where
  "space_encodings =
     map (\<lambda>b. utf8 [b]) [9, 10, 11, 12, 13, 32] @
     map utf8 [[194, 133], [194, 160], [225, 154, 128]] @
     map (\<lambda>b. utf8 [226, 128, b]) ([128..<139] @ [168, 169, 175]) @
     map utf8 [[226, 129, 159], [227, 128, 128]]"

text \<open>The length of the first encoding in \<open>ws\<close> that \<open>s\<close> starts with, 0 if there is none.\<close>

definition lead_len :: "string list \<Rightarrow> string \<Rightarrow> nat" where
  "lead_len ws s = (case find (\<lambda>w. take (length w) s = w) ws of None \<Rightarrow> 0 | Some w \<Rightarrow> length w)"

function strip_front :: "string list \<Rightarrow> string \<Rightarrow> string" where
  "strip_front ws s =
     (let n = lead_len ws s in if n = 0 \<or> s = [] then s else strip_front ws (drop n s))"
  by pat_completeness auto
termination
  by (relation "measure (\<lambda>(ws, s). length s)") auto

declare strip_front.simps [simp del]

definition trim_space :: "string \<Rightarrow> string" where
  "trim_space s =
     rev (strip_front (map rev space_encodings) (rev (strip_front space_encodings s)))"

lemma strip_front_length: "length (strip_front ws s) \<le> length s"
proof (induction ws s rule: strip_front.induct)
  case (1 ws s)
  show ?case
  proof (cases "lead_len ws s = 0 \<or> s = []")
    case True
    then show ?thesis by (subst strip_front.simps) (auto simp: Let_def)
  next
    case False
    with "1.IH" [OF refl] have "length (strip_front ws (drop (lead_len ws s) s)) \<le> length s"
      by (auto simp: le_diff_conv intro: order_trans)
    with False show ?thesis by (subst strip_front.simps) (auto simp: Let_def)
  qed
qed

lemma trim_space_length: "length (trim_space s) \<le> length s"
  unfolding trim_space_def
  by (metis length_rev order_trans strip_front_length)

lemma strip_front_Nil [simp]: "strip_front ws [] = []"
  by (simp add: strip_front.simps)

lemma trim_space_Nil [simp]: "trim_space [] = []"
  by (simp add: trim_space_def)

text \<open>A text that starts and ends with a printable ASCII character is not changed by
  \<open>TrimSpace\<close>.\<close>

definition graphic :: "char \<Rightarrow> bool" where
  "graphic c \<longleftrightarrow> 33 \<le> byte c \<and> byte c \<le> 126"

lemma space_encodings_not_graphic:
  "list_all (\<lambda>w. w \<noteq> [] \<and> \<not> graphic (hd w) \<and> \<not> graphic (last w)) space_encodings"
  by code_simp

lemma lead_len_0: "(\<And>w. w \<in> set ws \<Longrightarrow> w \<noteq> [] \<and> hd w \<noteq> hd s) \<Longrightarrow> s \<noteq> [] \<Longrightarrow> lead_len ws s = 0"
proof -
  assume ws: "\<And>w. w \<in> set ws \<Longrightarrow> w \<noteq> [] \<and> hd w \<noteq> hd s" and s: "s \<noteq> []"
  have "take (length w) s \<noteq> w" if "w \<in> set ws" for w
    using ws [OF that] s by (metis hd_take length_greater_0_conv)
  then show ?thesis by (simp add: lead_len_def find_None_iff [THEN iffD2])
qed

lemma trim_space_graphic:
  assumes "s \<noteq> []" and "graphic (hd s)" and "graphic (last s)"
  shows "trim_space s = s"
proof -
  have enc: "w \<noteq> []" "\<not> graphic (hd w)" "\<not> graphic (last w)" if "w \<in> set space_encodings" for w
    using space_encodings_not_graphic that by (auto simp: list_all_iff)
  have "lead_len space_encodings s = 0"
    using assms enc by (intro lead_len_0) metis+
  then have front: "strip_front space_encodings s = s" by (simp add: strip_front.simps)
  have "lead_len (map rev space_encodings) (rev s) = 0"
    using assms by (intro lead_len_0) (auto simp: hd_rev dest: enc)
  then have "strip_front (map rev space_encodings) (rev s) = rev s" by (simp add: strip_front.simps)
  with front show ?thesis by (simp add: trim_space_def)
qed

lemma strip_front_stop: "lead_len ws s = 0 \<or> s = [] \<Longrightarrow> strip_front ws s = s"
  by (subst strip_front.simps) (auto simp: Let_def)

lemma strip_front_step: "lead_len ws s \<noteq> 0 \<Longrightarrow> s \<noteq> [] \<Longrightarrow> strip_front ws s = strip_front ws (drop (lead_len ws s) s)"
  by (subst strip_front.simps) (auto simp: Let_def)

lemma strip_front_done:
  "(strip_front ws s = [] \<or> lead_len ws (strip_front ws s) = 0) \<and> (\<exists>u. s = u @ strip_front ws s)"
proof (induction ws s rule: strip_front.induct)
  case (1 ws s)
  show ?case
  proof (cases "lead_len ws s = 0 \<or> s = []")
    case True
    then show ?thesis by (auto simp: strip_front_stop)
  next
    case False
    with "1.IH" [OF refl] obtain u where "drop (lead_len ws s) s = u @ strip_front ws s"
      "strip_front ws s = [] \<or> lead_len ws (strip_front ws s) = 0"
      by (auto simp: strip_front_step)
    then show ?thesis by (metis append_assoc append_take_drop_id)
  qed
qed

lemma lead_len_append: "lead_len ws (u @ v) = 0 \<Longrightarrow> list_all (\<lambda>w. w \<noteq> []) ws \<Longrightarrow> lead_len ws u = 0"
proof -
  assume "lead_len ws (u @ v) = 0" and "list_all (\<lambda>w. w \<noteq> []) ws"
  then have no: "take (length w) (u @ v) \<noteq> w" if "w \<in> set ws" for w
    using that by (fastforce simp: lead_len_def find_None_iff find_Some_iff list_all_iff in_set_conv_nth split: option.splits)
  have "take (length w) u \<noteq> w" if "w \<in> set ws" for w
  proof
    assume *: "take (length w) u = w"
    then have "length w \<le> length u" by (metis length_take min.absorb_iff2 min.commute)
    with * no [OF that] show False by simp
  qed
  then show ?thesis by (simp add: lead_len_def find_None_iff [THEN iffD2])
qed

lemma trim_space_idem: "trim_space (trim_space s) = trim_space s"
proof -
  let ?E = space_encodings
  define v where "v = strip_front ?E s"
  define t where "t = strip_front (map rev ?E) (rev v)"
  have nonempty: "list_all (\<lambda>w. w \<noteq> []) ?E" by code_simp
  obtain u where "rev v = u @ t" using strip_front_done [of "map rev ?E" "rev v"] by (auto simp: t_def)
  then have v: "v = rev t @ rev u" by (metis rev_append rev_rev_ident)
  have "v = [] \<or> lead_len ?E v = 0" using strip_front_done [of ?E s] by (auto simp: v_def)
  then have "rev t = [] \<or> lead_len ?E (rev t) = 0" using lead_len_append [OF _ nonempty, of "rev t" "rev u"] v by auto
  then have front: "strip_front ?E (rev t) = rev t" by (auto simp: strip_front_stop)
  have "t = [] \<or> lead_len (map rev ?E) t = 0"
    using strip_front_done [of "map rev ?E" "rev v"] by (auto simp: t_def)
  then have "strip_front (map rev ?E) t = t" by (auto simp: strip_front_stop)
  with front show ?thesis by (simp add: trim_space_def v_def [symmetric] t_def [symmetric])
qed

section \<open>Calls that may fail\<close>

text \<open>
  A Go function \<open>f() (T, error)\<close> that returns the zero value beside every error is modelled
  by a sum, the error on the left; \<open>bind_err\<close> is \<open>v, err := f(); if err != nil { return err }\<close>.
\<close>

definition bind_err :: "'e + 'a \<Rightarrow> ('a \<Rightarrow> 'e + 'b) \<Rightarrow> 'e + 'b" where
  "bind_err r f = (case r of Inl e \<Rightarrow> Inl e | Inr x \<Rightarrow> f x)"

lemma bind_err_simps [simp, go_simps]:
  "bind_err (Inl e) f = Inl e"
  "bind_err (Inr x) f = f x"
  by (simp_all add: bind_err_def)

lemma bind_err_Inr_iff [go_simps]:
  "bind_err r f = Inr y \<longleftrightarrow> (\<exists>x. r = Inr x \<and> f x = Inr y)"
  by (cases r) simp_all

lemma bind_err_Inl_iff [go_simps]:
  "bind_err r f = Inl e \<longleftrightarrow> r = Inl e \<or> (\<exists>x. r = Inr x \<and> f x = Inl e)"
  by (cases r) simp_all

lemma bind_err_cong [fundef_cong]:
  "r = r' \<Longrightarrow> (\<And>x. r' = Inr x \<Longrightarrow> f x = f' x) \<Longrightarrow> bind_err r f = bind_err r' f'"
  by (cases r') simp_all

text \<open>A check \<open>if bad { return err }\<close>.\<close>

definition guard_err :: "bool \<Rightarrow> 'e \<Rightarrow> 'e + 'a \<Rightarrow> 'e + 'a" where
  "guard_err ok e r = (if ok then r else Inl e)"

lemma guard_err_simps [simp, go_simps]:
  "guard_err True e r = r"
  "guard_err False e r = Inl e"
  by (simp_all add: guard_err_def)

lemma guard_err_Inr_iff [go_simps]: "guard_err ok e r = Inr y \<longleftrightarrow> ok \<and> r = Inr y"
  by (simp add: guard_err_def)

lemma guard_err_cong [fundef_cong]:
  "ok = ok' \<Longrightarrow> e = e' \<Longrightarrow> (ok' \<Longrightarrow> r = r') \<Longrightarrow> guard_err ok e r = guard_err ok' e' r'"
  by (simp add: guard_err_def)

text \<open>A loop that maps a fallible function over a slice and stops at the first error.\<close>

fun map_err :: "('a \<Rightarrow> 'e + 'b) \<Rightarrow> 'a list \<Rightarrow> 'e + 'b list" where
  "map_err f [] = Inr []"
| "map_err f (x # xs) =
     bind_err (f x) (\<lambda>y. bind_err (map_err f xs) (\<lambda>ys. Inr (y # ys)))"

lemma map_err_cong [fundef_cong]:
  "xs = ys \<Longrightarrow> (\<And>x. x \<in> set ys \<Longrightarrow> f x = g x) \<Longrightarrow> map_err f xs = map_err g ys"
  by (induction ys arbitrary: xs) auto

lemma map_err_Inr_iff: "map_err f xs = Inr ys \<longleftrightarrow> list_all2 (\<lambda>x y. f x = Inr y) xs ys"
proof (induction xs arbitrary: ys)
  case Nil
  then show ?case by auto
next
  case (Cons x xs)
  then show ?case by (cases ys) (auto simp: bind_err_Inr_iff)
qed

lemma map_err_Inl:
  "map_err f xs = Inl e \<Longrightarrow> \<exists>ys x zs. xs = ys @ x # zs \<and> (\<forall>y \<in> set ys. \<exists>b. f y = Inr b) \<and> f x = Inl e"
proof (induction xs)
  case Nil
  then show ?case by simp
next
  case (Cons x xs)
  then consider "f x = Inl e" | b where "f x = Inr b" "map_err f xs = Inl e"
    by (auto simp: bind_err_Inl_iff)
  then show ?case
  proof cases
    case 1
    then show ?thesis by (intro exI [of _ "[]"]) auto
  next
    case 2
    with Cons.IH obtain ys z zs where "xs = ys @ z # zs" "\<forall>y \<in> set ys. \<exists>b. f y = Inr b" "f z = Inl e"
      by blast
    with 2 show ?thesis by (intro exI [of _ "x # ys"]) auto
  qed
qed

section \<open>Insertion sort\<close>

text \<open>
  \<open>sort.Slice\<close> and \<open>sort.Strings\<close> order a slice by a strict order; every use in the code
  compares distinct keys, or elements that are equal whenever neither is less, so the result
  is the unique sorted permutation, computed here by insertion.
\<close>

fun str_less :: "string \<Rightarrow> string \<Rightarrow> bool" where
  "str_less [] [] = False"
| "str_less [] (c # cs) = True"
| "str_less (c # cs) [] = False"
| "str_less (c # cs) (d # ds) =
     (byte c < byte d \<or> (byte c = byte d \<and> str_less cs ds))"

fun insert_by :: "('a \<Rightarrow> 'a \<Rightarrow> bool) \<Rightarrow> 'a \<Rightarrow> 'a list \<Rightarrow> 'a list" where
  "insert_by lt x [] = [x]"
| "insert_by lt x (y # ys) = (if lt y x then y # insert_by lt x ys else x # y # ys)"

definition sort_by :: "('a \<Rightarrow> 'a \<Rightarrow> bool) \<Rightarrow> 'a list \<Rightarrow> 'a list" where
  "sort_by lt xs = foldr (insert_by lt) xs []"

lemma set_insert_by [simp]: "set (insert_by lt x xs) = insert x (set xs)"
  by (induction xs) auto

lemma length_insert_by [simp]: "length (insert_by lt x xs) = Suc (length xs)"
  by (induction xs) auto

lemma set_sort_by [simp]: "set (sort_by lt xs) = set xs"
  by (induction xs) (auto simp: sort_by_def)

lemma length_sort_by [simp]: "length (sort_by lt xs) = length xs"
  by (induction xs) (auto simp: sort_by_def)

end
