(* ===== verification/Errors.thy ===== *)
theory Errors
  imports Prelude
begin

text \<open>
  The structured failures of \<open>src/golang/errors.go\<close>: error codes and categories, the
  \<open>BursarError\<close> with its cause chain, the constructors every component uses, the search of a
  chain for a \<open>BursarError\<close> (Go's \<open>errors.As\<close>) and what is derived from it, the retry
  decision, the HTTP status and the public message.
\<close>

section \<open>Codes and categories\<close>

datatype ErrorCategory =
    ErrorCategoryUnset
  | ErrorCategoryInvalidRequest
  | ErrorCategoryPaymentRequired
  | ErrorCategoryForbidden
  | ErrorCategoryNotFound
  | ErrorCategoryConflict
  | ErrorCategoryRateLimited
  | ErrorCategoryUnavailable
  | ErrorCategoryInternal
  | ErrorCategoryOther string

datatype ErrorCode =
    ErrorCodeUnset
  | ErrorCodeAutoRechargeDisabled
  | ErrorCodeAutoRechargeNotConfigured
  | ErrorCodeBilling
  | ErrorCodeBursar
  | ErrorCodeImport
  | ErrorCodeCapabilityNotConfigured
  | ErrorCodeCapabilityNotSupported
  | ErrorCodeCapReached
  | ErrorCodeCatalogNotLoaded
  | ErrorCodeConcurrencyLimitReached
  | ErrorCodeConfig
  | ErrorCodeCredit
  | ErrorCodeExpression
  | ErrorCodeFeatureNotEntitled
  | ErrorCodeInsufficientCredits
  | ErrorCodeLeaseExpired
  | ErrorCodeLeaseNotFound
  | ErrorCodeOperationNotAllowed
  | ErrorCodePaymentMethodRequired
  | ErrorCodeProviderCapabilityNotSupported
  | ErrorCodeProviderResponseInvalid
  | ErrorCodeQuotaExceeded
  | ErrorCodeRefundRejected
  | ErrorCodeStoreClosed
  | ErrorCodeStore
  | ErrorCodeStoreTimeout
  | ErrorCodeStoreUnavailable
  | ErrorCodeCommerceNotConfigured
  | ErrorCodeUnknownOffer
  | ErrorCodeInvalidOfferQuantity
  | ErrorCodeActiveSubscription
  | ErrorCodeCheckoutConflict
  | ErrorCodeCheckoutCompleted
  | ErrorCodeCommerceResourceNotFound
  | ErrorCodeProviderSelectionFailed
  | ErrorCodeQuoteChanged
  | ErrorCodePlanChangePolicyMissing
  | ErrorCodeCoreBillingDataUnavailable
  | ErrorCodeOther string

text \<open>The stable text of a code, as declared beside each constant.\<close>

fun error_code_text :: "ErrorCode \<Rightarrow> string" where
  "error_code_text ErrorCodeUnset = ''''"
| "error_code_text ErrorCodeAutoRechargeDisabled = ''AUTO_RECHARGE_DISABLED''"
| "error_code_text ErrorCodeAutoRechargeNotConfigured = ''AUTO_RECHARGE_NOT_CONFIGURED''"
| "error_code_text ErrorCodeBilling = ''BILLING_ERROR''"
| "error_code_text ErrorCodeBursar = ''BURSAR_ERROR''"
| "error_code_text ErrorCodeImport = ''BURSAR_IMPORT_ERROR''"
| "error_code_text ErrorCodeCapabilityNotConfigured = ''CAPABILITY_NOT_CONFIGURED''"
| "error_code_text ErrorCodeCapabilityNotSupported = ''CAPABILITY_NOT_SUPPORTED''"
| "error_code_text ErrorCodeCapReached = ''CAP_REACHED''"
| "error_code_text ErrorCodeCatalogNotLoaded = ''CATALOG_NOT_LOADED''"
| "error_code_text ErrorCodeConcurrencyLimitReached = ''CONCURRENCY_LIMIT_REACHED''"
| "error_code_text ErrorCodeConfig = ''CONFIG_ERROR''"
| "error_code_text ErrorCodeCredit = ''CREDIT_ERROR''"
| "error_code_text ErrorCodeExpression = ''EXPRESSION_ERROR''"
| "error_code_text ErrorCodeFeatureNotEntitled = ''FEATURE_NOT_ENTITLED''"
| "error_code_text ErrorCodeInsufficientCredits = ''INSUFFICIENT_CREDITS''"
| "error_code_text ErrorCodeLeaseExpired = ''LEASE_EXPIRED''"
| "error_code_text ErrorCodeLeaseNotFound = ''LEASE_NOT_FOUND''"
| "error_code_text ErrorCodeOperationNotAllowed = ''OPERATION_NOT_ALLOWED''"
| "error_code_text ErrorCodePaymentMethodRequired = ''PAYMENT_METHOD_REQUIRED''"
| "error_code_text ErrorCodeProviderCapabilityNotSupported = ''PROVIDER_CAPABILITY_NOT_SUPPORTED''"
| "error_code_text ErrorCodeProviderResponseInvalid = ''PROVIDER_RESPONSE_INVALID''"
| "error_code_text ErrorCodeQuotaExceeded = ''QUOTA_EXCEEDED''"
| "error_code_text ErrorCodeRefundRejected = ''REFUND_REJECTED''"
| "error_code_text ErrorCodeStoreClosed = ''STORE_CLOSED''"
| "error_code_text ErrorCodeStore = ''STORE_ERROR''"
| "error_code_text ErrorCodeStoreTimeout = ''STORE_TIMEOUT''"
| "error_code_text ErrorCodeStoreUnavailable = ''STORE_UNAVAILABLE''"
| "error_code_text ErrorCodeCommerceNotConfigured = ''COMMERCE_NOT_CONFIGURED''"
| "error_code_text ErrorCodeUnknownOffer = ''UNKNOWN_OFFER''"
| "error_code_text ErrorCodeInvalidOfferQuantity = ''INVALID_OFFER_QUANTITY''"
| "error_code_text ErrorCodeActiveSubscription = ''ACTIVE_SUBSCRIPTION''"
| "error_code_text ErrorCodeCheckoutConflict = ''CHECKOUT_CONFLICT''"
| "error_code_text ErrorCodeCheckoutCompleted = ''CHECKOUT_COMPLETED''"
| "error_code_text ErrorCodeCommerceResourceNotFound = ''COMMERCE_RESOURCE_NOT_FOUND''"
| "error_code_text ErrorCodeProviderSelectionFailed = ''PROVIDER_SELECTION_FAILED''"
| "error_code_text ErrorCodeQuoteChanged = ''QUOTE_CHANGED''"
| "error_code_text ErrorCodePlanChangePolicyMissing = ''PLAN_CHANGE_POLICY_MISSING''"
| "error_code_text ErrorCodeCoreBillingDataUnavailable = ''CORE_BILLING_DATA_UNAVAILABLE''"
| "error_code_text (ErrorCodeOther s) = s"

section \<open>Errors\<close>

text \<open>
  A Go error is a \<open>BursarError\<close> or an error of another type, which shows its message and
  the errors its \<open>Unwrap\<close> returns (none, one, or the several of \<open>errors.Join\<close>).
\<close>

datatype go_error =
    BursarError (Message: string) (Code: ErrorCode) (Category: ErrorCategory) (Retryable: bool)
      (Indeterminate: bool) (Details: "goval gomap") (cause: "go_error option")
  | PlainError string "go_error list"

record ErrorOptions =
  opt_Code :: ErrorCode
  opt_Category :: ErrorCategory
  opt_Retryable :: bool
  opt_Indeterminate :: bool
  opt_Details :: "goval gomap"
  opt_Cause :: "go_error option"

text \<open>The zero value \<open>ErrorOptions{}\<close>.\<close>

definition no_options :: ErrorOptions where
  "no_options = \<lparr>opt_Code = ErrorCodeUnset, opt_Category = ErrorCategoryUnset,
     opt_Retryable = False, opt_Indeterminate = False, opt_Details = [], opt_Cause = None\<rparr>"

abbreviation code_category :: "ErrorCode \<Rightarrow> ErrorCategory \<Rightarrow> ErrorOptions" where
  "code_category c k \<equiv> no_options\<lparr>opt_Code := c, opt_Category := k\<rparr>"

record SerializedError =
  ser_Message :: string
  ser_Code :: ErrorCode
  ser_Category :: ErrorCategory
  ser_Retryable :: bool
  ser_Indeterminate :: bool
  ser_Details :: "goval gomap"

definition firstErrorCode :: "ErrorCode \<Rightarrow> ErrorCode \<Rightarrow> ErrorCode" where
  "firstErrorCode v fallback = (if error_code_text v = '''' then fallback else v)"

definition firstErrorCategory :: "ErrorCategory \<Rightarrow> ErrorCategory \<Rightarrow> ErrorCategory" where
  "firstErrorCategory v fallback =
     (if v = ErrorCategoryUnset \<or> v = ErrorCategoryOther '''' then fallback else v)"

definition NewError :: "string \<Rightarrow> ErrorOptions \<Rightarrow> go_error" where
  "NewError message options =
     BursarError message
       (firstErrorCode (opt_Code options) ErrorCodeBursar)
       (firstErrorCategory (opt_Category options) ErrorCategoryInternal)
       (opt_Retryable options) (opt_Indeterminate options) (opt_Details options) (opt_Cause options)"

definition newConfigError :: "string \<Rightarrow> go_error option \<Rightarrow> go_error" where
  "newConfigError message c =
     NewError message ((code_category ErrorCodeConfig ErrorCategoryInvalidRequest)\<lparr>opt_Cause := c\<rparr>)"

definition newExpressionError :: "string \<Rightarrow> go_error option \<Rightarrow> go_error" where
  "newExpressionError message c =
     NewError message ((code_category ErrorCodeExpression ErrorCategoryInvalidRequest)\<lparr>opt_Cause := c\<rparr>)"

definition NewStoreError :: "string \<Rightarrow> ErrorOptions \<Rightarrow> go_error" where
  "NewStoreError message options =
     NewError message (options\<lparr>opt_Code := firstErrorCode (opt_Code options) ErrorCodeStore,
       opt_Category := firstErrorCategory (opt_Category options) ErrorCategoryUnavailable\<rparr>)"

definition NewStoreUnavailableError :: "string \<Rightarrow> go_error option \<Rightarrow> go_error" where
  "NewStoreUnavailableError message c =
     NewError message ((code_category ErrorCodeStoreUnavailable ErrorCategoryUnavailable)
       \<lparr>opt_Retryable := True, opt_Cause := c\<rparr>)"

definition NewStoreTimeoutError :: "string \<Rightarrow> go_error option \<Rightarrow> go_error" where
  "NewStoreTimeoutError message c =
     NewError message ((code_category ErrorCodeStoreTimeout ErrorCategoryUnavailable)
       \<lparr>opt_Retryable := True, opt_Cause := c\<rparr>)"

definition errorf :: "ErrorCode \<Rightarrow> ErrorCategory \<Rightarrow> string \<Rightarrow> go_error" where
  "errorf c k message = NewError message (code_category c k)"

text \<open>The constructor most guards of the SDK use.\<close>

definition invalid_request :: "string \<Rightarrow> go_error" where
  "invalid_request message = errorf ErrorCodeConfig ErrorCategoryInvalidRequest message"

definition BursarError_Is :: "go_error \<Rightarrow> go_error \<Rightarrow> bool" where
  "BursarError_Is e target =
     (case (e, target) of
        (BursarError _ c _ _ _ _ _, BursarError _ d _ _ _ _ _) \<Rightarrow> error_code_text d \<noteq> '''' \<and> c = d
      | _ \<Rightarrow> False)"

definition Serialize :: "go_error option \<Rightarrow> SerializedError" where
  "Serialize e =
     (case e of
        Some (BursarError m c k r i d _) \<Rightarrow>
          \<lparr>ser_Message = m, ser_Code = c, ser_Category = k, ser_Retryable = r,
           ser_Indeterminate = i, ser_Details = d\<rparr>
      | _ \<Rightarrow>
          \<lparr>ser_Message = ''unknown Bursar error'', ser_Code = ErrorCodeBursar,
           ser_Category = ErrorCategoryInternal, ser_Retryable = False,
           ser_Indeterminate = False, ser_Details = []\<rparr>)"

text \<open>\<open>errors.As\<close>: the first \<open>BursarError\<close> of the chain, in depth-first order.\<close>

fun AsBursarError :: "go_error \<Rightarrow> go_error option"
  and as_first :: "go_error list \<Rightarrow> go_error option" where
  "AsBursarError (BursarError m c k r i d e) = Some (BursarError m c k r i d e)"
| "AsBursarError (PlainError m es) = as_first es"
| "as_first [] = None"
| "as_first (e # es) = (case AsBursarError e of Some b \<Rightarrow> Some b | None \<Rightarrow> as_first es)"

definition IsRetryableError :: "go_error \<Rightarrow> bool" where
  "IsRetryableError e = (case AsBursarError e of Some b \<Rightarrow> Retryable b | None \<Rightarrow> False)"

definition category_status :: "ErrorCategory \<Rightarrow> int" where
  "category_status k =
     (case k of
        ErrorCategoryInvalidRequest \<Rightarrow> 400
      | ErrorCategoryPaymentRequired \<Rightarrow> 402
      | ErrorCategoryForbidden \<Rightarrow> 403
      | ErrorCategoryNotFound \<Rightarrow> 404
      | ErrorCategoryConflict \<Rightarrow> 409
      | ErrorCategoryRateLimited \<Rightarrow> 429
      | ErrorCategoryUnavailable \<Rightarrow> 503
      | _ \<Rightarrow> 500)"

definition ErrorHTTPStatus :: "go_error \<Rightarrow> int" where
  "ErrorHTTPStatus e = (case AsBursarError e of None \<Rightarrow> 500 | Some b \<Rightarrow> category_status (Category b))"

definition PublicErrorMessage :: "go_error \<Rightarrow> string" where
  "PublicErrorMessage e =
     (case AsBursarError e of
        None \<Rightarrow> ''Billing service is temporarily unavailable. Please try again.''
      | Some b \<Rightarrow>
        (case Category b of
           ErrorCategoryInvalidRequest \<Rightarrow> ''The billing request is invalid.''
         | ErrorCategoryPaymentRequired \<Rightarrow> ''Payment is required to continue.''
         | ErrorCategoryForbidden \<Rightarrow> ''Your current plan does not allow this operation.''
         | ErrorCategoryNotFound \<Rightarrow> ''The requested billing resource was not found.''
         | ErrorCategoryConflict \<Rightarrow> ''The request conflicts with the current billing state.''
         | ErrorCategoryRateLimited \<Rightarrow> ''A billing or usage limit has been reached.''
         | _ \<Rightarrow> ''Billing service is temporarily unavailable. Please try again.''))"

lemmas error_defs =
  NewError_def newConfigError_def newExpressionError_def NewStoreError_def
  NewStoreUnavailableError_def NewStoreTimeoutError_def errorf_def invalid_request_def
  firstErrorCode_def firstErrorCategory_def no_options_def

section \<open>Lemmas\<close>

lemma AsBursarError_is_BursarError:
  "AsBursarError e = Some b \<Longrightarrow> \<exists>m c k r i d x. b = BursarError m c k r i d x"
  "as_first es = Some b \<Longrightarrow> \<exists>m c k r i d x. b = BursarError m c k r i d x"
  by (induction e and es rule: AsBursarError_as_first.induct) (auto split: option.splits)

lemma as_first_append:
  "as_first (es @ fs) = (case as_first es of Some b \<Rightarrow> Some b | None \<Rightarrow> as_first fs)"
  by (induction es) (auto split: option.splits)

lemma AsBursarError_NewError [simp]: "AsBursarError (NewError m o1) = Some (NewError m o1)"
  by (simp add: NewError_def)

lemma Retryable_NewError [simp]: "Retryable (NewError m o1) = opt_Retryable o1"
  by (simp add: NewError_def)

lemma Category_NewError [simp]:
  "Category (NewError m o1) = firstErrorCategory (opt_Category o1) ErrorCategoryInternal"
  by (simp add: NewError_def)

lemma Code_NewError [simp]:
  "Code (NewError m o1) = firstErrorCode (opt_Code o1) ErrorCodeBursar"
  by (simp add: NewError_def)

lemma IsRetryable_NewError [simp]: "IsRetryableError (NewError m o1) = opt_Retryable o1"
  by (simp add: IsRetryableError_def)

lemma Category_invalid_request [simp]: "Category (invalid_request m) = ErrorCategoryInvalidRequest"
  by (simp add: error_defs)

lemma Code_invalid_request [simp]: "Code (invalid_request m) = ErrorCodeConfig"
  by (simp add: error_defs)

lemma Category_newConfigError [simp]: "Category (newConfigError m c) = ErrorCategoryInvalidRequest"
  by (simp add: error_defs)

lemma Code_newConfigError [simp]: "Code (newConfigError m c) = ErrorCodeConfig"
  by (simp add: error_defs)

lemma Category_newExpressionError [simp]:
  "Category (newExpressionError m c) = ErrorCategoryInvalidRequest"
  by (simp add: error_defs)

lemma Code_newExpressionError [simp]: "Code (newExpressionError m c) = ErrorCodeExpression"
  by (simp add: error_defs)

end
