(* ===== verification/Decimal.thy ===== *)
theory Decimal
  imports Errors
begin

text \<open>
  The interface to the package \<open>github.com/shopspring/decimal\<close>, which is not part of the
  repository. The type \<open>Amount\<close> of the code is its \<open>decimal.Decimal\<close>. A decimal is modelled by
  its value, a rational number, on which the package's \<open>Add\<close>, \<open>Sub\<close>, \<open>Mul\<close>, \<open>Neg\<close> and
  its comparisons are exact. Every operation of the package that rounds, or that reads or prints
  digits, is a parameter: a field of the record \<open>decimal_pkg\<close>, with the documented behaviour of
  the package as the assumptions of the locale \<open>decimal_package\<close>. Every definition that uses
  such an operation takes the record.
\<close>

type_synonym amount = rat

section \<open>The decimal package\<close>

record decimal_pkg =
  dec_round :: "amount \<Rightarrow> int \<Rightarrow> amount"               \<comment> \<open>\<open>Round(places)\<close>\<close>
  dec_div_round :: "amount \<Rightarrow> amount \<Rightarrow> int \<Rightarrow> amount" \<comment> \<open>\<open>DivRound(d2, precision)\<close>\<close>
  dec_truncate :: "amount \<Rightarrow> int \<Rightarrow> amount"            \<comment> \<open>\<open>Truncate(precision)\<close>\<close>
  dec_ceil :: "amount \<Rightarrow> amount"
  dec_floor :: "amount \<Rightarrow> amount"
  dec_mod :: "amount \<Rightarrow> amount \<Rightarrow> amount"
  dec_int_part :: "amount \<Rightarrow> int"                       \<comment> \<open>\<open>IntPart\<close>, an \<open>int64\<close>\<close>
  dec_from_string :: "string \<Rightarrow> amount option"          \<comment> \<open>\<open>NewFromString\<close>, \<open>None\<close> the error\<close>
  dec_to_string :: "amount \<Rightarrow> string"                   \<comment> \<open>\<open>String\<close>\<close>
  dec_string_fixed :: "amount \<Rightarrow> int \<Rightarrow> string"        \<comment> \<open>\<open>StringFixed(places)\<close>\<close>

definition pow10 :: "int \<Rightarrow> rat" where
  "pow10 n = (if 0 \<le> n then 10 ^ nat n else 1 / 10 ^ nat (- n))"

text \<open>Rounding to a number of fractional places: to the nearest, ties away from zero; toward
  zero; and the smallest number of places a decimal needs.\<close>

definition half_away :: "rat \<Rightarrow> int" where
  "half_away x = (if x < 0 then - \<lfloor>- x + 1 / 2\<rfloor> else \<lfloor>x + 1 / 2\<rfloor>)"

definition toward_zero :: "rat \<Rightarrow> int" where
  "toward_zero x = (if x < 0 then - \<lfloor>- x\<rfloor> else \<lfloor>x\<rfloor>)"

definition round_away :: "rat \<Rightarrow> int \<Rightarrow> rat" where
  "round_away x n = of_int (half_away (x * pow10 n)) / pow10 n"

lemma pow10_pos [simp]: "0 < pow10 n"
  by (simp add: pow10_def)

lemma pow10_nonzero [simp]: "pow10 n \<noteq> 0"
  using pow10_pos [of n] by linarith

lemma abs_pow10 [simp]: "\<bar>pow10 n\<bar> = pow10 n"
  by (simp add: less_imp_le)

lemma pow10_numeral [simp]: "pow10 (numeral k) = 10 ^ numeral k"
  by (simp add: pow10_def)

lemma pow10_0 [simp]: "pow10 0 = 1"
  by (simp add: pow10_def)

lemma half_away_of_int [simp]: "half_away (of_int k) = k"
proof -
  have "\<lfloor>(of_int j :: rat) + 1 / 2\<rfloor> = j" for j
    by linarith
  from this [of k] this [of "- k"] show ?thesis
    by (simp add: half_away_def)
qed

lemma half_away_near: "\<bar>of_int (half_away x) - x\<bar> \<le> 1 / 2"
proof -
  have near: "\<bar>of_int \<lfloor>y + 1 / 2\<rfloor> - y\<bar> \<le> 1 / 2" for y :: rat
    unfolding abs_le_iff by linarith
  show ?thesis
  proof (cases "x < 0")
    case True
    have "\<bar>of_int (half_away x) - x\<bar> = \<bar>- (of_int \<lfloor>- x + 1 / 2\<rfloor> - (- x))\<bar>"
      using True by (simp add: half_away_def)
    with near [of "- x"] show ?thesis by (simp only: abs_minus_cancel)
  next
    case False
    with near [of x] show ?thesis by (simp only: half_away_def if_False)
  qed
qed

lemma half_away_neg: "half_away (- x) = - half_away x"
proof (cases "x = 0")
  case True
  with half_away_of_int [of 0] show ?thesis by simp
qed (auto simp: half_away_def)

lemma half_away_mono: "x \<le> y \<Longrightarrow> half_away x \<le> half_away y"
proof -
  assume le: "x \<le> y"
  consider "y < 0" | "x < 0" "0 \<le> y" | "0 \<le> x" using le by linarith
  then show ?thesis
  proof cases
    case 1
    with le have "\<lfloor>- y + 1 / 2\<rfloor> \<le> \<lfloor>- x + 1 / 2\<rfloor>" by (intro floor_mono) simp
    with 1 le show ?thesis by (simp add: half_away_def)
  next
    case 2
    then have "0 \<le> \<lfloor>- x + 1 / 2\<rfloor>" "0 \<le> \<lfloor>y + 1 / 2\<rfloor>" by linarith+
    then have "- \<lfloor>- x + 1 / 2\<rfloor> \<le> \<lfloor>y + 1 / 2\<rfloor>" by linarith
    moreover have "half_away x = - \<lfloor>- x + 1 / 2\<rfloor>" "half_away y = \<lfloor>y + 1 / 2\<rfloor>"
      using 2 by (simp_all add: half_away_def)
    ultimately show ?thesis by (simp only:)
  next
    case 3
    with le have "\<lfloor>x + 1 / 2\<rfloor> \<le> \<lfloor>y + 1 / 2\<rfloor>" by (intro floor_mono) simp
    with 3 le show ?thesis by (simp add: half_away_def)
  qed
qed

lemma round_away_near: "\<bar>round_away x n - x\<bar> \<le> 1 / (2 * pow10 n)"
proof -
  have "round_away x n - x = (of_int (half_away (x * pow10 n)) - x * pow10 n) / pow10 n"
    by (simp add: round_away_def diff_divide_distrib)
  moreover have "\<bar>\<dots>\<bar> = \<bar>of_int (half_away (x * pow10 n)) - x * pow10 n\<bar> / pow10 n"
    using pow10_pos [of n] by (simp only: abs_divide abs_of_pos)
  moreover have "\<dots> \<le> (1 / 2) / pow10 n"
    by (intro divide_right_mono half_away_near) (simp add: less_imp_le)
  ultimately show ?thesis by simp
qed

lemma round_away_grid: "round_away (of_int k / pow10 n) n = of_int k / pow10 n"
  by (simp add: round_away_def)

lemma round_away_mono: "x \<le> y \<Longrightarrow> round_away x n \<le> round_away y n"
  unfolding round_away_def
  by (intro divide_right_mono of_int_le_iff [THEN iffD2] half_away_mono mult_right_mono)
     (simp_all add: less_imp_le)

lemma round_away_neg: "round_away (- x) n = - round_away x n"
  by (simp add: round_away_def half_away_neg)

lemma round_away_zero [simp]: "round_away 0 n = 0"
  using half_away_of_int [of 0] by (simp add: round_away_def)

text \<open>
  What the documentation of the package says of the operations the code uses. \<open>Round\<close> and
  \<open>DivRound\<close> round to the nearest, ties away from zero; \<open>Truncate\<close>, \<open>Ceil\<close> and \<open>Floor\<close> are
  exact; \<open>Mod\<close> has the sign of the dividend; \<open>IntPart\<close> is the integer part where it fits an
  \<open>int64\<close>; a canonical decimal string is always readable; and \<open>StringFixed\<close> is readable and
  denotes the rounded value.
\<close>

definition decimal_text :: "string \<Rightarrow> bool" where
  "decimal_text s =
     (let t = (case s of c # cs \<Rightarrow> if c = CHR ''-'' then cs else s | [] \<Rightarrow> []);
          whole = takeWhile is_digit_byte t; rest = dropWhile is_digit_byte t
      in whole \<noteq> [] \<and> (hd whole = CHR ''0'' \<longrightarrow> length whole = 1) \<and>
         (case rest of
            [] \<Rightarrow> True
          | c # cs \<Rightarrow> c = CHR ''.'' \<and> cs \<noteq> [] \<and> list_all is_digit_byte cs))"

locale decimal_package =
  fixes D :: decimal_pkg
  assumes round_spec: "dec_round D x n = round_away x n"
    and div_round_spec: "y \<noteq> 0 \<Longrightarrow> dec_div_round D x y n = round_away (x / y) n"
    and truncate_spec: "dec_truncate D x 0 = of_int (toward_zero x)"
    and ceil_spec: "dec_ceil D x = of_int \<lceil>x\<rceil>"
    and floor_spec: "dec_floor D x = of_int \<lfloor>x\<rfloor>"
    and mod_spec: "y \<noteq> 0 \<Longrightarrow> dec_mod D x y = x - y * of_int (toward_zero (x / y))"
    and int_part_spec: "\<bar>x\<bar> < 2 ^ 63 \<Longrightarrow> dec_int_part D x = toward_zero x"
    and from_string_total: "decimal_text s \<Longrightarrow> dec_from_string D s \<noteq> None"
    and string_fixed_text: "0 < n \<Longrightarrow> decimal_text (dec_string_fixed D x n)"
    and string_fixed_value: "0 < n \<Longrightarrow> dec_from_string D (dec_string_fixed D x n) = Some (round_away x n)"
begin

lemmas decimal_specs =
  round_spec div_round_spec truncate_spec ceil_spec floor_spec mod_spec

end

end
