(* ===== verification/Decimal_Reference.thy ===== *)
theory Decimal_Reference
  imports Decimal
begin

text \<open>
  A reference implementation of the decimal package's documented behaviour: reading and
  printing of digits and the rounding operations. The interpretation at the end shows that the
  assumptions of \<open>decimal_package\<close> can be met together, and the concrete record lets the
  definitions of the development be evaluated.
\<close>

section \<open>Digits\<close>

definition digit_char :: "nat \<Rightarrow> char" where
  "digit_char d = char_of (48 + d)"

definition digit_value :: "char \<Rightarrow> nat" where
  "digit_value c = byte c - 48"

definition digits_value :: "string \<Rightarrow> nat" where
  "digits_value s = foldl (\<lambda>n c. 10 * n + digit_value c) 0 s"

fun show_nat :: "nat \<Rightarrow> string" where
  "show_nat k = (if k < 10 then [digit_char k] else show_nat (k div 10) @ [digit_char (k mod 10)])"

declare show_nat.simps [simp del]

fun show_padded :: "nat \<Rightarrow> nat \<Rightarrow> string" where
  "show_padded 0 k = []"
| "show_padded (Suc n) k = show_padded n (k div 10) @ [digit_char (k mod 10)]"

lemma byte_digit_char: "d < 10 \<Longrightarrow> byte (digit_char d) = 48 + d"
  by (simp add: byte_def digit_char_def)

lemma digit_char_digit [simp]: "d < 10 \<Longrightarrow> is_digit_byte (digit_char d)"
  by (simp add: is_digit_byte_def byte_digit_char)

lemma digit_value_char [simp]: "d < 10 \<Longrightarrow> digit_value (digit_char d) = d"
  by (simp add: digit_value_def byte_digit_char)

lemma digits_value_Nil [simp]: "digits_value [] = 0"
  by (simp add: digits_value_def)

lemma digits_value_snoc [simp]: "digits_value (s @ [c]) = 10 * digits_value s + digit_value c"
  by (simp add: digits_value_def)

lemma digits_value_append: "digits_value (s @ t) = digits_value s * 10 ^ length t + digits_value t"
proof (induction t rule: rev_induct)
  case (snoc c t)
  have "digits_value (s @ t @ [c]) = 10 * digits_value (s @ t) + digit_value c"
    using digits_value_snoc [of "s @ t" c] by simp
  with snoc show ?case by (simp add: algebra_simps)
qed simp

lemma length_show_padded [simp]: "length (show_padded n k) = n"
  by (induction n arbitrary: k) simp_all

lemma show_padded_digits: "list_all is_digit_byte (show_padded n k)"
  by (induction n arbitrary: k) simp_all

lemma digits_value_padded: "digits_value (show_padded n k) = k mod 10 ^ n"
proof (induction n arbitrary: k)
  case (Suc n)
  have "k mod 10 ^ Suc n = 10 * (k div 10 mod 10 ^ n) + k mod 10"
    by (simp add: mod_mult2_eq)
  with Suc show ?case by simp
qed simp

lemma show_nat_digits: "list_all is_digit_byte (show_nat k)"
proof (induction k rule: show_nat.induct)
  case (1 k)
  then show ?case by (subst show_nat.simps) simp
qed

lemma digits_value_show_nat [simp]: "digits_value (show_nat k) = k"
proof (induction k rule: show_nat.induct)
  case (1 k)
  then show ?case by (subst show_nat.simps) (simp add: digits_value_def)
qed

lemma show_nat_not_Nil [simp]: "show_nat k \<noteq> []"
  by (subst show_nat.simps) simp

lemma show_nat_lead: "hd (show_nat k) = CHR ''0'' \<Longrightarrow> length (show_nat k) = 1"
proof (induction k rule: show_nat.induct)
  case (1 k)
  show ?case
  proof (cases "k < 10")
    case True
    then show ?thesis by (subst show_nat.simps) simp
  next
    case False
    then have eq: "show_nat k = show_nat (k div 10) @ [digit_char (k mod 10)]"
      by (subst show_nat.simps) simp
    with "1.prems" have h: "hd (show_nat (k div 10)) = CHR ''0''" by simp
    with "1.IH" [OF False] have "length (show_nat (k div 10)) = 1" by simp
    with h have "show_nat (k div 10) = [CHR ''0'']" by (cases "show_nat (k div 10)") auto
    then have "k div 10 = 0"
      using digits_value_show_nat [of "k div 10"]
      by (simp add: digits_value_def digit_value_def byte_def)
    with False show ?thesis by simp
  qed
qed

section \<open>Reading and printing\<close>

definition read_exponent :: "string \<Rightarrow> int option" where
  "read_exponent s =
     (case s of
        [] \<Rightarrow> Some 0
      | c # cs \<Rightarrow>
          if c \<noteq> CHR ''e'' \<and> c \<noteq> CHR ''E'' then None
          else let neg = (cs \<noteq> [] \<and> hd cs = CHR ''-'');
                   ds = (if cs \<noteq> [] \<and> (hd cs = CHR ''-'' \<or> hd cs = CHR ''+'') then tl cs else cs)
               in if ds \<noteq> [] \<and> list_all is_digit_byte ds
                  then Some ((if neg then -1 else 1) * int (digits_value ds)) else None)"

definition ref_from_string :: "string \<Rightarrow> amount option" where
  "ref_from_string s =
     (let neg = (s \<noteq> [] \<and> hd s = CHR ''-'');
          t = (if s \<noteq> [] \<and> (hd s = CHR ''-'' \<or> hd s = CHR ''+'') then tl s else s);
          whole = takeWhile is_digit_byte t; r = dropWhile is_digit_byte t;
          point = (r \<noteq> [] \<and> hd r = CHR ''.'');
          frac = (if point then takeWhile is_digit_byte (tl r) else []);
          rest = (if point then dropWhile is_digit_byte (tl r) else r)
      in if whole @ frac = [] then None
         else map_option (\<lambda>e. (if neg then -1 else 1) *
                of_nat (digits_value (whole @ frac)) / 10 ^ length frac * pow10 e)
                (read_exponent rest))"

definition ref_string_fixed :: "amount \<Rightarrow> int \<Rightarrow> string" where
  "ref_string_fixed x n =
     (let k = half_away (x * pow10 n); p = nat n; m = nat \<bar>k\<bar>
      in (if k < 0 then ''-'' else []) @ show_nat (m div 10 ^ p) @
         (if p = 0 then [] else ''.'' @ show_padded p m))"

text \<open>The least number of places, at most 64, at which the value is a whole number.\<close>

definition places :: "amount \<Rightarrow> int" where
  "places x = (case find (\<lambda>n. x * 10 ^ n = of_int \<lfloor>x * 10 ^ n\<rfloor>) [0..<65] of
                 Some n \<Rightarrow> int n | None \<Rightarrow> 64)"

definition ref_decimal :: decimal_pkg where
  "ref_decimal = \<lparr>
     dec_round = round_away,
     dec_div_round = (\<lambda>x y n. round_away (x / y) n),
     dec_truncate = (\<lambda>x n. of_int (toward_zero (x * pow10 n)) / pow10 n),
     dec_ceil = (\<lambda>x. of_int \<lceil>x\<rceil>),
     dec_floor = (\<lambda>x. of_int \<lfloor>x\<rfloor>),
     dec_mod = (\<lambda>x y. x - y * of_int (toward_zero (x / y))),
     dec_int_part = toward_zero,
     dec_from_string = ref_from_string,
     dec_to_string = (\<lambda>x. ref_string_fixed x (places x)),
     dec_string_fixed = ref_string_fixed\<rparr>"

lemma digit_not_sign: "is_digit_byte c \<Longrightarrow> c \<noteq> CHR ''-'' \<and> c \<noteq> CHR ''+'' \<and> c \<noteq> CHR ''.''"
  by (auto simp: is_digit_byte_def byte_def)

lemma span_digits:
  assumes "list_all is_digit_byte s" and "r = [] \<or> \<not> is_digit_byte (hd r)"
  shows "takeWhile is_digit_byte (s @ r) = s" and "dropWhile is_digit_byte (s @ r) = r"
proof -
  from assms(1) have all: "\<forall>x \<in> set s. is_digit_byte x" by (simp add: list_all_iff)
  moreover from assms(2) have "takeWhile is_digit_byte r = [] \<and> dropWhile is_digit_byte r = r"
    by (cases r) auto
  ultimately show "takeWhile is_digit_byte (s @ r) = s" "dropWhile is_digit_byte (s @ r) = r"
    by simp_all
qed

lemma point_not_digit [simp]: "\<not> is_digit_byte (CHR ''.'')"
  by (simp add: is_digit_byte_def byte_def)

text \<open>Reading what \<open>StringFixed\<close> prints, for a whole part and a fraction of digits.\<close>

lemma ref_from_string_fixed:
  assumes "list_all is_digit_byte w" "w \<noteq> []" "list_all is_digit_byte f"
  shows "ref_from_string ((if neg then ''-'' else []) @ w @ ''.'' @ f) =
    Some ((if neg then -1 else 1) * of_nat (digits_value (w @ f)) / 10 ^ length f)"
proof -
  let ?s = "(if neg then ''-'' else []) @ w @ ''.'' @ f"
  from assms(1,2) obtain c cs where w: "w = c # cs" and "is_digit_byte c"
    by (cases w) auto
  then have c: "c \<noteq> CHR ''-''" "c \<noteq> CHR ''+''" using digit_not_sign by blast+
  have t: "(if ?s \<noteq> [] \<and> (hd ?s = CHR ''-'' \<or> hd ?s = CHR ''+'') then tl ?s else ?s) = w @ ''.'' @ f"
    using w c by auto
  have n: "(?s \<noteq> [] \<and> hd ?s = CHR ''-'') = neg" using w c by auto
  have sp: "takeWhile is_digit_byte (w @ ''.'' @ f) = w"
    "dropWhile is_digit_byte (w @ ''.'' @ f) = ''.'' @ f"
    "takeWhile is_digit_byte (tl (''.'' @ f)) = f" "dropWhile is_digit_byte (tl (''.'' @ f)) = []"
    using span_digits [OF assms(1), of "''.'' @ f"] span_digits [OF assms(3), of "[]"] by simp_all
  show ?thesis
    unfolding ref_from_string_def Let_def t n sp using assms(2)
    by (simp add: sp(3,4) [simplified] read_exponent_def)
qed

lemma decimal_text_fixed:
  assumes "list_all is_digit_byte w" "w \<noteq> []" "hd w = CHR ''0'' \<Longrightarrow> length w = 1"
    and "list_all is_digit_byte f" "f \<noteq> []"
  shows "decimal_text ((if neg then ''-'' else []) @ w @ ''.'' @ f)"
proof -
  from assms(1,2) obtain c cs where w: "w = c # cs" "is_digit_byte c" by (cases w) auto
  then have "(case (if neg then ''-'' else []) @ w @ ''.'' @ f of
      c # cs \<Rightarrow> if c = CHR ''-'' then cs else (if neg then ''-'' else []) @ w @ ''.'' @ f | [] \<Rightarrow> [])
      = w @ ''.'' @ f"
    using digit_not_sign [of c] by auto
  moreover have "takeWhile is_digit_byte (w @ ''.'' @ f) = w"
    "dropWhile is_digit_byte (w @ ''.'' @ f) = ''.'' @ f"
    using span_digits [OF assms(1), of "''.'' @ f"] by simp_all
  ultimately show ?thesis
    unfolding decimal_text_def Let_def using assms by simp
qed

lemma decimal_text_readable:
  assumes "decimal_text s"
  shows "ref_from_string s \<noteq> None"
proof -
  let ?t = "case s of c # cs \<Rightarrow> if c = CHR ''-'' then cs else s | [] \<Rightarrow> []"
  let ?u = "if s \<noteq> [] \<and> (hd s = CHR ''-'' \<or> hd s = CHR ''+'') then tl s else s"
  have whole: "takeWhile is_digit_byte ?t \<noteq> []"
    and rest: "case dropWhile is_digit_byte ?t of [] \<Rightarrow> True
      | c # cs \<Rightarrow> c = CHR ''.'' \<and> cs \<noteq> [] \<and> list_all is_digit_byte cs"
    using assms by (auto simp: decimal_text_def Let_def)
  have tu: "?t = ?u"
  proof (cases s)
    case (Cons c cs)
    have "c \<noteq> CHR ''+''"
    proof
      assume "c = CHR ''+''"
      with whole Cons show False by (simp add: is_digit_byte_def byte_def)
    qed
    with Cons show ?thesis by simp
  qed simp
  have whole': "takeWhile is_digit_byte ?u \<noteq> []"
    and rest': "case dropWhile is_digit_byte ?u of [] \<Rightarrow> True
      | c # cs \<Rightarrow> c = CHR ''.'' \<and> cs \<noteq> [] \<and> list_all is_digit_byte cs"
    using whole rest unfolding tu .
  let ?r = "dropWhile is_digit_byte ?u"
  have "(if ?r \<noteq> [] \<and> hd ?r = CHR ''.'' then dropWhile is_digit_byte (tl ?r) else ?r) = []"
    using rest' by (cases ?r) (auto simp: list_all_iff)
  then show ?thesis
    unfolding ref_from_string_def Let_def using whole' by (simp only:) (simp add: read_exponent_def)
qed

lemma fixed_value:
  fixes k :: int and n :: nat
  assumes "0 < n"
  shows "(if k < 0 then -1 else 1) * of_nat (digits_value
      (show_nat (nat \<bar>k\<bar> div 10 ^ n) @ show_padded n (nat \<bar>k\<bar>))) / 10 ^ n = (of_int k / 10 ^ n :: rat)"
proof -
  have "digits_value (show_nat (nat \<bar>k\<bar> div 10 ^ n) @ show_padded n (nat \<bar>k\<bar>)) = nat \<bar>k\<bar>"
    by (simp add: digits_value_append digits_value_padded div_mult_mod_eq)
  then show ?thesis by simp
qed

interpretation ref: decimal_package ref_decimal
proof
  fix x :: amount and n :: int assume n: "0 < n"
  let ?k = "half_away (x * pow10 n)" and ?p = "nat n"
  have p: "0 < ?p" "pow10 n = 10 ^ ?p" using n by (simp_all add: pow10_def)
  have eq: "ref_string_fixed x n = (if ?k < 0 then ''-'' else []) @ show_nat (nat \<bar>?k\<bar> div 10 ^ ?p)
      @ ''.'' @ show_padded ?p (nat \<bar>?k\<bar>)"
    using n by (simp add: ref_string_fixed_def Let_def)
  have ne: "show_padded ?p (nat \<bar>?k\<bar>) \<noteq> []"
    using p(1) length_show_padded [of ?p "nat \<bar>?k\<bar>"] by (auto simp del: length_show_padded)
  show "decimal_text (dec_string_fixed ref_decimal x n)"
    using decimal_text_fixed [OF show_nat_digits show_nat_not_Nil show_nat_lead show_padded_digits ne]
    by (simp add: ref_decimal_def eq)
  show "dec_from_string ref_decimal (dec_string_fixed ref_decimal x n) = Some (round_away x n)"
    using ref_from_string_fixed [OF show_nat_digits show_nat_not_Nil show_padded_digits]
      fixed_value [OF p(1), of ?k]
    by (simp add: ref_decimal_def eq round_away_def p(2))
qed (use decimal_text_readable in \<open>simp_all add: ref_decimal_def\<close>)

end
