(* ===== verification/Amount.thy ===== *)
theory Amount
  imports Decimal_Reference
begin

text \<open>
  Money: \<open>src/golang/amount.go\<close> and \<open>src/golang/breakdown.go\<close>. Reading an amount, quantising it
  to the six places of the ledger, the guards on amounts, the two divisions of the expression
  language, and the cost breakdown the pricing engine returns.
\<close>

section \<open>amount.go\<close>

definition MoneyDecimalPlaces :: int where
  "MoneyDecimalPlaces = 6"

text \<open>\<open>decimalStringPattern\<close> is \<^const>\<open>decimal_text\<close>: an optional minus sign, a whole part
  without a leading zero, and a fraction that is not empty.\<close>

definition ParseDecimalString :: "decimal_pkg \<Rightarrow> string \<Rightarrow> go_error + amount" where
  "ParseDecimalString D v =
     (if \<not> decimal_text v
      then Inl (newConfigError ''decimal values must be base-10 decimal strings'' None)
      else case dec_from_string D v of
             None \<Rightarrow> Inl (newConfigError ''decimal value is invalid'' (Some (PlainError ''decimal'' [])))
           | Some parsed \<Rightarrow> Inr parsed)"

definition NewAmount :: "decimal_pkg \<Rightarrow> string \<Rightarrow> go_error + amount" where
  "NewAmount D v = ParseDecimalString D v"

definition QuantizeMoney :: "decimal_pkg \<Rightarrow> amount \<Rightarrow> amount" where
  "QuantizeMoney D v = dec_round D v MoneyDecimalPlaces"

definition requirePositiveAmount :: "amount \<Rightarrow> string \<Rightarrow> go_error + amount" where
  "requirePositiveAmount v operation =
     (if \<not> v > 0 then Inl (invalid_request (operation @ '' amount must be positive'')) else Inr v)"

definition requireNonNegativeAmount :: "amount \<Rightarrow> string \<Rightarrow> go_error + amount" where
  "requireNonNegativeAmount v operation =
     (if v < 0 then Inl (invalid_request (operation @ '' amount must be non-negative'')) else Inr v)"

definition decimalDiv :: "decimal_pkg \<Rightarrow> amount \<Rightarrow> amount \<Rightarrow> go_error + amount" where
  "decimalDiv D left right =
     (if right = 0 then Inl (newExpressionError ''division by zero'' None)
      else Inr (dec_div_round D left right 32))"

definition decimalTruncDiv :: "decimal_pkg \<Rightarrow> amount \<Rightarrow> amount \<Rightarrow> go_error + amount" where
  "decimalTruncDiv D left right =
     bind_err (decimalDiv D left right) (\<lambda>quotient. Inr (dec_truncate D quotient 0))"

section \<open>breakdown.go\<close>

record CostBreakdown =
  ModelCredits :: amount
  ToolCredits :: amount
  SearchCredits :: amount
  CacheSavings :: amount
  FixedCredits :: amount
  OperationCredits :: amount
  Total :: amount
  Breakdown :: "goval gomap"

record CostBreakdownInput =
  in_ModelCredits :: amount
  in_ToolCredits :: amount
  in_SearchCredits :: amount
  in_CacheSavings :: amount
  in_FixedCredits :: amount
  in_OperationCredits :: amount
  in_Breakdown :: "goval gomap"

definition MakeCostBreakdown :: "decimal_pkg \<Rightarrow> CostBreakdownInput \<Rightarrow> CostBreakdown" where
  "MakeCostBreakdown D input =
     (let modelCredits = QuantizeMoney D (in_ModelCredits input);
          toolCredits = QuantizeMoney D (in_ToolCredits input);
          searchCredits = QuantizeMoney D (in_SearchCredits input);
          cacheSavings = QuantizeMoney D (in_CacheSavings input);
          fixedCredits = QuantizeMoney D (in_FixedCredits input);
          operationCredits = QuantizeMoney D (in_OperationCredits input);
          total = modelCredits + toolCredits + searchCredits + fixedCredits + operationCredits
                    + cacheSavings;
          total = (if total < 0 then 0 else total)
      in \<lparr>ModelCredits = modelCredits, ToolCredits = toolCredits, SearchCredits = searchCredits,
          CacheSavings = cacheSavings, FixedCredits = fixedCredits,
          OperationCredits = operationCredits, Total = QuantizeMoney D total,
          Breakdown = in_Breakdown input\<rparr>)"

section \<open>Money on the grid of six places\<close>

definition money :: "amount \<Rightarrow> bool" where
  "money x \<longleftrightarrow> (x * 10 ^ 6 \<in> \<int>)"

lemma money_iff: "money x \<longleftrightarrow> (\<exists>k. x = of_int k / 10 ^ 6)"
  unfolding money_def Ints_def by (auto simp: field_simps)

lemma money_add [intro]: "money x \<Longrightarrow> money y \<Longrightarrow> money (x + y)"
  by (simp add: money_def distrib_right)

lemma money_neg [simp]: "money (- x) \<longleftrightarrow> money x"
  by (simp add: money_def minus_in_Ints_iff)

lemma money_0 [simp]: "money 0"
  by (simp add: money_def)

context decimal_package
begin

lemma quantize_eq: "QuantizeMoney D x = round_away x 6"
  by (simp add: QuantizeMoney_def MoneyDecimalPlaces_def round_spec)

lemma quantize_money [simp, intro]: "money (QuantizeMoney D x)"
  by (auto simp: quantize_eq money_iff round_away_def)

lemma quantize_id: "money x \<Longrightarrow> QuantizeMoney D x = x"
  using round_away_grid [of _ 6] unfolding money_iff quantize_eq pow10_numeral by metis

lemma quantize_neg: "QuantizeMoney D (- x) = - QuantizeMoney D x"
  by (simp add: quantize_eq round_away_neg)

lemma quantize_mono: "x \<le> y \<Longrightarrow> QuantizeMoney D x \<le> QuantizeMoney D y"
  by (simp add: quantize_eq round_away_mono)

lemma quantize_0 [simp]: "QuantizeMoney D 0 = 0"
  by (simp add: quantize_eq)

lemma quantize_near: "\<bar>QuantizeMoney D x - x\<bar> \<le> 1 / (2 * 10 ^ 6)"
  using round_away_near [of x 6] by (simp add: quantize_eq)

lemma quantize_nonneg: "0 \<le> x \<Longrightarrow> 0 \<le> QuantizeMoney D x"
  using quantize_mono [of 0 x] by simp

lemma quantize_small:
  assumes "\<bar>x\<bar> < 1 / (2 * 10 ^ 6)"
  shows "QuantizeMoney D x = 0"
proof -
  obtain k where k: "QuantizeMoney D x = of_int k / 10 ^ 6"
    using quantize_money [of x] unfolding money_iff by blast
  have "\<bar>QuantizeMoney D x\<bar> < 1 / 10 ^ 6"
    using assms quantize_near [of x] by (simp add: abs_if split: if_splits)
  then have "\<bar>of_int k :: rat\<bar> < 1" by (simp add: k)
  then have "k = 0" by linarith
  with k show ?thesis by simp
qed

lemma parse_total: "decimal_text s \<Longrightarrow> \<exists>x. ParseDecimalString D s = Inr x"
  using from_string_total [of s] by (auto simp: ParseDecimalString_def)

lemma div_near:
  assumes "decimalDiv D x y = Inr q"
  shows "\<bar>q - x / y\<bar> \<le> 1 / (2 * 10 ^ 32)"
  using assms round_away_near [of "x / y" 32]
  by (auto simp: decimalDiv_def div_round_spec split: if_splits)

lemma trunc_div_value:
  assumes "decimalTruncDiv D x y = Inr q"
  shows "q = of_int (toward_zero (round_away (x / y) 32))"
  using assms
  by (auto simp: decimalTruncDiv_def decimalDiv_def div_round_spec truncate_spec split: if_splits)

lemma breakdown_total:
  fixes i :: CostBreakdownInput
  defines "b \<equiv> MakeCostBreakdown D i"
  shows "Total b = max 0 (ModelCredits b + ToolCredits b + SearchCredits b + FixedCredits b
           + OperationCredits b + CacheSavings b)"
proof -
  let ?q = "QuantizeMoney D"
  let ?s = "?q (in_ModelCredits i) + ?q (in_ToolCredits i) + ?q (in_SearchCredits i)
    + ?q (in_FixedCredits i) + ?q (in_OperationCredits i) + ?q (in_CacheSavings i)"
  have "money ?s" by (intro money_add quantize_money)
  then have "?q (if ?s < 0 then 0 else ?s) = max 0 ?s"
    by (simp add: quantize_id max_def)
  then show ?thesis by (simp add: b_def MakeCostBreakdown_def Let_def)
qed

lemma breakdown_money: "money (Total (MakeCostBreakdown D i))"
  by (simp add: MakeCostBreakdown_def Let_def)

lemma breakdown_nonneg: "0 \<le> Total (MakeCostBreakdown D i)"
  by (simp add: breakdown_total)

text \<open>No value of the grid is nearer to \<open>x\<close> than the quantised one.\<close>

lemma quantize_nearest:
  assumes "money z"
  shows "\<bar>QuantizeMoney D x - x\<bar> \<le> \<bar>z - x\<bar>"
proof (rule ccontr)
  assume "\<not> ?thesis"
  then have "\<bar>z - x\<bar> < \<bar>QuantizeMoney D x - x\<bar>" by simp
  with quantize_near [of x] have "\<bar>z - QuantizeMoney D x\<bar> < 1 / 10 ^ 6" by (simp add: abs_if split: if_splits)
  moreover obtain j k where z: "z = of_int j / 10 ^ 6" and q: "QuantizeMoney D x = of_int k / 10 ^ 6"
    using assms quantize_money [of x] unfolding money_iff by blast
  ultimately have "\<bar>of_int (j - k) :: rat\<bar> < 1" by (simp add: diff_divide_distrib [symmetric])
  then have "\<bar>j - k\<bar> < 1" by linarith
  with z q \<open>\<not> ?thesis\<close> show False by simp
qed

end

section \<open>Properties\<close>

text \<open>
  \<open>QuantizeMoney\<close> rounds to money with six decimal places: the result is on the grid, it is
  within half a unit of the last place of its argument, no other value of the grid is nearer,
  money that is on the grid is left as it is, and the rounding is monotone and symmetric in the sign
  (so quantising never turns a charge into a credit).
\<close>

theorem QuantizeMoney_correct:
  assumes "decimal_package D"
  shows "money (QuantizeMoney D x) \<and> \<bar>QuantizeMoney D x - x\<bar> \<le> 1 / (2 * 10 ^ 6) \<and>
    (\<forall>z. money z \<longrightarrow> \<bar>QuantizeMoney D x - x\<bar> \<le> \<bar>z - x\<bar>) \<and>
    QuantizeMoney D (QuantizeMoney D x) = QuantizeMoney D x \<and>
    (x \<le> y \<longrightarrow> QuantizeMoney D x \<le> QuantizeMoney D y) \<and>
    QuantizeMoney D (- x) = - QuantizeMoney D x"
  using assms
  by (blast intro: decimal_package.quantize_money decimal_package.quantize_near
      decimal_package.quantize_nearest decimal_package.quantize_mono decimal_package.quantize_neg
      decimal_package.quantize_id)

theorem QuantizeMoney_correct_witness:
  "QuantizeMoney ref_decimal (1 / 3) = 333333 / 10 ^ 6 \<and>
   \<bar>QuantizeMoney ref_decimal (1 / 3) - 1 / 3\<bar> \<le> \<bar>333334 / 10 ^ 6 - 1 / 3\<bar>"
proof -
  have "QuantizeMoney ref_decimal (1 / 3) = 333333 / 10 ^ 6" by code_simp
  moreover have "money (333334 / 10 ^ 6)" by (simp add: money_def)
  ultimately show ?thesis
    using QuantizeMoney_correct [OF ref.decimal_package_axioms, of "1 / 3" 0] by blast
qed

text \<open>
  C12. The total of a cost breakdown is the sum of its quantised components with the cache savings
  added, or zero where that sum is negative: it is never negative, it is money on the grid of six
  places, and it is the sum of the components as they are reported (no rounding step between the
  components and the total loses a unit).
\<close>

theorem MakeCostBreakdown_total:
  assumes "decimal_package D" and "b = MakeCostBreakdown D input"
  shows "Total b = max 0 (ModelCredits b + ToolCredits b + SearchCredits b + FixedCredits b
           + OperationCredits b + CacheSavings b) \<and>
    money (Total b) \<and> 0 \<le> Total b \<and>
    ModelCredits b = QuantizeMoney D (in_ModelCredits input) \<and>
    ToolCredits b = QuantizeMoney D (in_ToolCredits input) \<and>
    SearchCredits b = QuantizeMoney D (in_SearchCredits input) \<and>
    FixedCredits b = QuantizeMoney D (in_FixedCredits input) \<and>
    OperationCredits b = QuantizeMoney D (in_OperationCredits input) \<and>
    CacheSavings b = QuantizeMoney D (in_CacheSavings input)"
  using assms decimal_package.breakdown_total [OF assms(1), of input]
    decimal_package.breakdown_money [OF assms(1), of input]
    decimal_package.breakdown_nonneg [OF assms(1), of input]
  by (simp_all add: MakeCostBreakdown_def Let_def)

theorem MakeCostBreakdown_total_witness:
  "Total (MakeCostBreakdown ref_decimal \<lparr>in_ModelCredits = 1, in_ToolCredits = 2, in_SearchCredits = 0,
     in_CacheSavings = - 5, in_FixedCredits = 0, in_OperationCredits = 1, in_Breakdown = []\<rparr>) = 0"
proof -
  let ?input = "\<lparr>in_ModelCredits = 1, in_ToolCredits = 2, in_SearchCredits = 0,
     in_CacheSavings = - 5, in_FixedCredits = 0, in_OperationCredits = 1, in_Breakdown = []\<rparr>"
  have q: "QuantizeMoney ref_decimal 1 = 1" "QuantizeMoney ref_decimal 2 = 2"
    "QuantizeMoney ref_decimal (- 5) = - 5" "QuantizeMoney ref_decimal 0 = 0"
    by (rule ref.quantize_id; simp add: money_def)+
  show ?thesis
    using MakeCostBreakdown_total [OF ref.decimal_package_axioms refl, of ?input] by (simp add: q)
qed

end
