(* ===== verification/Config_Types.thy ===== *)
theory Config_Types
  imports Amount
begin

text \<open>
  The validated catalogue configuration, the types of \<open>src/golang/config.go\<close>. A Go pointer that
  may be nil is an option, a map an association list. Only \<open>Charge\<close> is a datatype with
  selectors rather than a record, because a charge of type \<open>sum\<close> contains charges.
\<close>

section \<open>Time\<close>

record Duration =
  dur_Unit :: string
  dur_Count :: int

record BillingInterval =
  bi_Unit :: string
  bi_Count :: int

record Window =
  win_Type :: string
  win_Unit :: string
  win_Count :: int
  win_Timezone :: string
  win_Duration :: "Duration option"
  win_Interval :: "BillingInterval option"

definition no_window :: "string \<Rightarrow> Window" where
  "no_window t = \<lparr>win_Type = t, win_Unit = [], win_Count = 0, win_Timezone = [],
     win_Duration = None, win_Interval = None\<rparr>"

record Availability =
  av_StartsAt :: "string option"
  av_EndsAt :: "string option"
  av_Regions :: "string list"

record ExpiryPolicy =
  exp_Type :: string
  exp_Interval :: "BillingInterval option"
  exp_Timezone :: string
  exp_Window :: "Window option"
  exp_At :: "string option"

definition no_expiry :: "string \<Rightarrow> ExpiryPolicy" where
  "no_expiry t = \<lparr>exp_Type = t, exp_Interval = None, exp_Timezone = [], exp_Window = None, exp_At = None\<rparr>"

section \<open>Pricing\<close>

record MeasureDefinition =
  mea_Unit :: string

record DimensionDefinition =
  dim_Type :: string
  dim_Required :: bool

text \<open>A \<open>MatcherScalar\<close> is one of \<^const>\<open>VStr\<close>, \<^const>\<open>VBool\<close> and \<^const>\<open>VDec\<close>, or
  \<^const>\<open>VNil\<close> where the field is not set.\<close>

type_synonym MatcherScalar = goval

record DimensionMatcher =
  dm_Op :: string
  dm_Value :: MatcherScalar
  dm_Values :: "MatcherScalar list"
  dm_GT :: "amount option"
  dm_GTE :: "amount option"
  dm_LT :: "amount option"
  dm_LTE :: "amount option"

definition new_matcher :: "string \<Rightarrow> DimensionMatcher" where
  "new_matcher op = \<lparr>dm_Op = op, dm_Value = VNil, dm_Values = [], dm_GT = None, dm_GTE = None,
     dm_LT = None, dm_LTE = None\<rparr>"

record GraduatedTier =
  gt_UpTo :: "amount option"
  gt_Rate :: amount

datatype Charge =
  Charge
    (ch_Type: string)
    (ch_Amount: amount)
    (ch_Measure: string)
    (ch_Rate: amount)
    (ch_UnitSize: amount)
    (ch_Units: amount)
    (ch_Rounding: string)
    (ch_Tiers: "GraduatedTier list")
    (ch_Formula: string)
    (ch_Components: "Charge list")

record PriceRule =
  pr_When :: "DimensionMatcher gomap"
  pr_Charge :: Charge

record UnmatchedPolicy =
  un_Action :: string
  un_Charge :: "Charge option"

record OperationPricing =
  op_Rules :: "PriceRule list"
  op_Unmatched :: UnmatchedPolicy

record OperationDefinition =
  od_Measures :: "MeasureDefinition gomap"
  od_Dimensions :: "DimensionDefinition gomap"

record RateCard =
  rc_Extends :: "string option"
  rc_Operations :: "OperationPricing gomap"

record PricingConfig =
  pc_Operations :: "OperationDefinition gomap"
  pc_RateCards :: "RateCard gomap"

section \<open>Credits, entitlements and admission\<close>

record BucketDefinition =
  bd_Priority :: int
  bd_Expiry :: ExpiryPolicy

record CreditPolicy =
  cp_Type :: string
  cp_Limit :: "amount option"

record GrantAward =
  ga_Recipient :: string
  ga_Amount :: amount
  ga_Bucket :: string
  ga_Expiry :: "ExpiryPolicy option"

record GrantProgram =
  gp_Trigger :: string
  gp_Awards :: "GrantAward list"
  gp_Availability :: "Availability option"
  gp_EligibilityPlans :: "string list"
  gp_EligibilityRegions :: "string list"
  gp_MaxAwardsPerSubject :: int
  gp_IdempotencyScope :: string

record CreditDisplay =
  cd_Currency :: string
  cd_UnitsPerMajor :: amount

record CreditsConfig =
  cc_Buckets :: "BucketDefinition gomap"
  cc_DefaultBucket :: "string option"
  cc_Policies :: "CreditPolicy gomap"
  cc_GrantPrograms :: "GrantProgram gomap"
  cc_Display :: "CreditDisplay option"

record FeatureDefinition =
  fd_Type :: string
  fd_Default :: goval
  fd_Values :: "string list"
  fd_Minimum :: "int option"
  fd_Maximum :: "int option"
  fd_Pattern :: "string option"

record EntitlementsConfig =
  ec_Features :: "FeatureDefinition gomap"

record OperationAdmission =
  oa_MaxInFlight :: int

record AdmissionPolicy =
  ap_MaxInFlight :: "int option"
  ap_Operations :: "OperationAdmission gomap"

record AdmissionConfig =
  ac_Policies :: "AdmissionPolicy gomap"

section \<open>Plans\<close>

record CreditAllowance =
  ca_Amount :: amount
  ca_Priority :: int
  ca_Window :: Window

record QuotaDefinition =
  qd_Operation :: string
  qd_Measure :: string
  qd_Limit :: amount
  qd_Window :: Window
  qd_Enforcement :: string
  qd_EmitAtPercent :: "int list"

record PlanEvolution =
  pe_DefaultRollout :: string

record PlanDefinition =
  pd_DisplayName :: string
  pd_Rank :: int
  pd_Description :: "string option"
  pd_RateCard :: "string option"
  pd_AllowedOperations :: "string list"
  pd_Features :: "goval gomap"
  pd_CreditAllowance :: "CreditAllowance option"
  pd_Quotas :: "QuotaDefinition gomap"
  pd_CreditPolicy :: "string option"
  pd_AdmissionPolicy :: "string option"
  pd_Evolution :: PlanEvolution

section \<open>Commerce\<close>

record ProviderDefinition =
  prov_Type :: string
  prov_Adapter :: "string option"

record ProviderReference =
  ref_Type :: string
  ref_PriceID :: "string option"
  ref_ProductID :: "string option"
  ref_ObjectKind :: "string option"
  ref_ExternalID :: "string option"

record OfferPrice =
  ofp_AmountMinor :: int
  ofp_Currency :: string
  ofp_TaxBehavior :: string

record OfferQuantity =
  oq_Minimum :: int
  oq_Maximum :: int
  oq_Default :: int

record CycleGrant =
  cg_Amount :: amount
  cg_Bucket :: string
  cg_Renewal :: string
  cg_Expiry :: ExpiryPolicy

record CommerceOffer =
  of_Type :: string
  of_DisplayName :: string
  of_Description :: "string option"
  of_SortOrder :: int
  of_Availability :: "Availability option"
  of_Price :: OfferPrice
  of_Providers :: "ProviderReference gomap"
  of_Plan :: "string option"
  of_BillingInterval :: "BillingInterval option"
  of_Trial :: "BillingInterval option"
  of_CycleGrant :: "CycleGrant option"
  of_CreditsPerUnit :: "amount option"
  of_Quantity :: "OfferQuantity option"
  of_Bucket :: "string option"
  of_Expiry :: "ExpiryPolicy option"
  of_LotBehavior :: string

record SubscriptionChangePolicy =
  scp_Effective :: string
  scp_Proration :: string
  scp_PaymentFailure :: string

record DecimalRange =
  dr_Minimum :: amount
  dr_Maximum :: amount
  dr_Default :: amount

record AutoRechargeLimits =
  arl_MaxPurchases :: int
  arl_Window :: Window
  arl_MaxChargeMinor :: int
  arl_Cooldown :: Duration
  arl_MaxConsecutiveFailure :: int
  arl_FailureAction :: string

record AutoRechargeGuardrails =
  arg_EligibleTopups :: "string list"
  arg_BalanceBelow :: DecimalRange
  arg_RearmAbove :: amount
  arg_Quantity :: OfferQuantity
  arg_Limits :: AutoRechargeLimits

record CommerceConfig =
  com_Providers :: "ProviderDefinition gomap"
  com_Offers :: "CommerceOffer gomap"
  com_SubscriptionChanges :: "SubscriptionChangePolicy gomap"
  com_AutoRecharge :: "AutoRechargeGuardrails option"

record PlanRollout =
  plr_Effective :: string
  plr_IncludePinned :: bool

record CatalogRollout =
  clr_Plans :: "PlanRollout gomap"

record CatalogConfig =
  cat_DefaultPlan :: "string option"

record BursarConfig =
  cfg_Version :: int
  cfg_Catalog :: CatalogConfig
  cfg_Pricing :: "PricingConfig option"
  cfg_Credits :: CreditsConfig
  cfg_Entitlements :: EntitlementsConfig
  cfg_Admission :: AdmissionConfig
  cfg_Plans :: "PlanDefinition gomap"
  cfg_Commerce :: CommerceConfig

end
