(* ===== verification/Config_Values.thy ===== *)
theory Config_Values
  imports Config_Types
begin

text \<open>
  Reading raw configuration values, \<open>src/golang/config.go\<close>: the checked conversions from
  \<open>any\<close> (\<open>configObject\<close>, \<open>configInt64\<close>, \<open>configDecimal\<close> and the like), identifiers,
  durations, windows, availabilities and expiry policies. A read of a missing key gives
  \<^const>\<open>VNil\<close>, as in Go. The time zone database and the reader of RFC 3339 timestamps are
  parameters, the fields of \<open>host\<close>.
\<close>

record host =
  host_LoadLocation :: "string \<Rightarrow> bool"          \<comment> \<open>the zone is known to \<open>time.LoadLocation\<close>\<close>
  host_ParseTime :: "string \<Rightarrow> int option"       \<comment> \<open>\<open>time.Parse(time.RFC3339, s)\<close>, an instant\<close>

definition raw_get :: "goval gomap \<Rightarrow> string \<Rightarrow> goval" where
  "raw_get raw key = (case map_of raw key of Some v \<Rightarrow> v | None \<Rightarrow> VNil)"

text \<open>The test \<open>input, ok := raw[key]; ok && input != nil\<close>.\<close>

definition raw_set :: "goval gomap \<Rightarrow> string \<Rightarrow> bool" where
  "raw_set raw key \<longleftrightarrow> raw_get raw key \<noteq> VNil"

definition fmt_nat :: "nat \<Rightarrow> string" where
  "fmt_nat n = show_nat n"

definition indexed_path :: "string \<Rightarrow> nat \<Rightarrow> string" where
  "indexed_path path index = path @ ''['' @ fmt_nat index @ '']''"

section \<open>Checked conversions\<close>

definition configObject :: "goval \<Rightarrow> string \<Rightarrow> go_error + goval gomap" where
  "configObject v path =
     (case v of VObj m \<Rightarrow> Inr m | _ \<Rightarrow> Inl (newConfigError (path @ '' must be an object'') None))"

definition configArray :: "goval \<Rightarrow> string \<Rightarrow> go_error + goval list" where
  "configArray v path =
     (case v of VArr xs \<Rightarrow> Inr xs | _ \<Rightarrow> Inl (newConfigError (path @ '' must be an array'') None))"

definition configString :: "goval \<Rightarrow> string \<Rightarrow> go_error + string" where
  "configString v path =
     (case v of VStr s \<Rightarrow> Inr s | _ \<Rightarrow> Inl (newConfigError (path @ '' must be a string'') None))"

definition configBool :: "goval \<Rightarrow> string \<Rightarrow> go_error + bool" where
  "configBool v path =
     (case v of VBool b \<Rightarrow> Inr b | _ \<Rightarrow> Inl (newConfigError (path @ '' must be boolean'') None))"

definition max_int64 :: int where
  "max_int64 = 2 ^ 63 - 1"

definition safeIntegerMax :: int where
  "safeIntegerMax = 9007199254740991"

text \<open>\<open>strconv.ParseInt(s, 10, 64)\<close>, which \<open>json.Number.Int64\<close> calls.\<close>

definition parse_int64 :: "string \<Rightarrow> int option" where
  "parse_int64 s =
     (let signed = (s \<noteq> [] \<and> (hd s = CHR ''-'' \<or> hd s = CHR ''+''));
          ds = (if signed then tl s else s);
          n = (if s \<noteq> [] \<and> hd s = CHR ''-'' then -1 else 1) * int (digits_value ds)
      in if ds = [] \<or> \<not> list_all is_digit_byte ds \<or> n > max_int64 \<or> n < - (2 ^ 63) then None
         else Some n)"

definition configInt64 :: "goval \<Rightarrow> string \<Rightarrow> go_error + int" where
  "configInt64 v path =
     bind_err
       (case v of
          VNum text \<Rightarrow>
            (case parse_int64 text of
               None \<Rightarrow> Inl (newConfigError (path @ '' must be an integer'') (Some (PlainError ''strconv'' [])))
             | Some n \<Rightarrow> Inr n)
        | VInt n \<Rightarrow>
            (if n > max_int64
             then Inl (newConfigError (path @ '' is outside the platform integer range'') None)
             else Inr n)
        | VFloat None \<Rightarrow> Inl (newConfigError (path @ '' must be an integer'') None)
        | VFloat (Some (x, _)) \<Rightarrow>
            (if of_int \<lfloor>x\<rfloor> \<noteq> x then Inl (newConfigError (path @ '' must be an integer'') None)
             else if x > of_int safeIntegerMax \<or> x < - of_int safeIntegerMax
             then Inl (newConfigError (path @ '' is outside the safe integer range'') None)
             else Inr \<lfloor>x\<rfloor>)
        | _ \<Rightarrow> Inl (newConfigError (path @ '' must be an integer'') None))
     (\<lambda>parsed.
        if parsed > safeIntegerMax \<or> parsed < - safeIntegerMax
        then Inl (newConfigError (path @ '' is outside the safe integer range'') None)
        else Inr parsed)"

text \<open>On the 64-bit platforms the package supports \<open>int(parsed)\<close> is \<open>parsed\<close>.\<close>

definition configInteger :: "goval \<Rightarrow> string \<Rightarrow> go_error + int" where
  "configInteger v path = configInt64 v path"

definition configDecimal :: "decimal_pkg \<Rightarrow> goval \<Rightarrow> string \<Rightarrow> go_error + amount" where
  "configDecimal D v path =
     (case v of
        VStr s \<Rightarrow>
          (case NewAmount D s of
             Inl e \<Rightarrow> Inl (newConfigError (path @ '' must be a valid decimal string'') (Some e))
           | Inr parsed \<Rightarrow> Inr parsed)
      | _ \<Rightarrow> Inl (newConfigError (path @ '' must be a decimal string'') None))"

definition configIdentifierPattern :: "string \<Rightarrow> bool" where
  "configIdentifierPattern s =
     (case s of
        [] \<Rightarrow> False
      | c # cs \<Rightarrow> is_lower_byte c \<and>
          list_all (\<lambda>d. is_lower_byte d \<or> is_digit_byte d \<or> d = CHR ''_'') cs)"

definition configRegionPattern :: "string \<Rightarrow> bool" where
  "configRegionPattern s =
     (length s \<ge> 2 \<and> list_all is_upper_byte (take 2 s) \<and>
      (let rest = drop 2 s in
         rest = [] \<or>
         (hd rest = CHR ''-'' \<and> 1 \<le> length (tl rest) \<and> length (tl rest) \<le> 3 \<and>
          list_all (\<lambda>d. is_upper_byte d \<or> is_digit_byte d) (tl rest))))"

definition validateConfigIdentifier :: "string \<Rightarrow> string \<Rightarrow> go_error option" where
  "validateConfigIdentifier v path =
     (if \<not> configIdentifierPattern v
      then Some (newConfigError (path @ '' must be a non-empty snake_case identifier'') None)
      else None)"

fun option_err :: "'e option \<Rightarrow> 'e + unit" where
  "option_err None = Inr ()"
| "option_err (Some e) = Inl e"

definition validateConfigIdentifiers :: "goval gomap \<Rightarrow> string \<Rightarrow> go_error + unit" where
  "validateConfigIdentifiers values path =
     bind_err (map_err (\<lambda>(key, _). option_err (validateConfigIdentifier key (path @ ''.'' @ key))) values)
       (\<lambda>_. Inr ())"

definition sortedConfigKeys :: "goval gomap \<Rightarrow> string list" where
  "sortedConfigKeys values = sort_by str_less (map_keys values)"

definition configOptionalString ::
  "goval gomap \<Rightarrow> string \<Rightarrow> string \<Rightarrow> go_error + string option" where
  "configOptionalString raw key path =
     (if \<not> raw_set raw key then Inr None
      else bind_err (configString (raw_get raw key) path) (\<lambda>parsed. Inr (Some parsed)))"

definition configOptionalInt ::
  "goval gomap \<Rightarrow> string \<Rightarrow> string \<Rightarrow> go_error + int option" where
  "configOptionalInt raw key path =
     (if \<not> raw_set raw key then Inr None
      else bind_err (configInteger (raw_get raw key) path) (\<lambda>parsed. Inr (Some parsed)))"

definition configMap :: "goval gomap \<Rightarrow> string \<Rightarrow> string \<Rightarrow> go_error + goval gomap" where
  "configMap raw key path =
     (if \<not> raw_set raw key then Inr [] else configObject (raw_get raw key) path)"

text \<open>A loop over the items of an array, with the path of each item.\<close>

definition map_indexed :: "(nat \<Rightarrow> 'a \<Rightarrow> 'e + 'b) \<Rightarrow> 'a list \<Rightarrow> 'e + 'b list" where
  "map_indexed f xs = map_err (\<lambda>(i, x). f i x) (enumerate 0 xs)"

definition configSliceStrings :: "goval \<Rightarrow> string \<Rightarrow> go_error + string list" where
  "configSliceStrings v path =
     bind_err (configArray v path) (\<lambda>items.
       map_indexed (\<lambda>index item. configString item (indexed_path path index)) items)"

section \<open>Durations, windows and expiry\<close>

definition parseDuration :: "goval \<Rightarrow> string \<Rightarrow> go_error + Duration" where
  "parseDuration v path =
     bind_err (configObject v path) (\<lambda>raw.
     bind_err (configString (raw_get raw ''unit'') (path @ ''.unit'')) (\<lambda>unit.
     bind_err (configInteger (raw_get raw ''count'') (path @ ''.count'')) (\<lambda>count.
       Inr \<lparr>dur_Unit = unit, dur_Count = count\<rparr>)))"

text \<open>An optional integer with the default 1, and an optional time zone with the default UTC.\<close>

definition count_or_one :: "goval gomap \<Rightarrow> string \<Rightarrow> go_error + int" where
  "count_or_one raw path =
     (if raw_set raw ''count'' then configInteger (raw_get raw ''count'') (path @ ''.count'') else Inr 1)"

definition parseBillingInterval :: "goval \<Rightarrow> string \<Rightarrow> go_error + BillingInterval" where
  "parseBillingInterval v path =
     bind_err (configObject v path) (\<lambda>raw.
     bind_err (configString (raw_get raw ''unit'') (path @ ''.unit'')) (\<lambda>unit.
     bind_err (count_or_one raw path) (\<lambda>count.
       Inr \<lparr>bi_Unit = unit, bi_Count = count\<rparr>)))"

definition zone_error :: go_error where
  "zone_error = PlainError ''unknown time zone'' []"

definition parseTimezone :: "host \<Rightarrow> goval \<Rightarrow> string \<Rightarrow> go_error + string" where
  "parseTimezone H v path =
     bind_err (configString v path) (\<lambda>zone.
       if zone = '''' \<or> zone = ''Local''
       then Inl (newConfigError (path @ '' must be a valid IANA timezone'') None)
       else if \<not> host_LoadLocation H zone
       then Inl (newConfigError (path @ '' must be a valid IANA timezone'') (Some zone_error))
       else Inr zone)"

definition zone_or_utc :: "host \<Rightarrow> goval gomap \<Rightarrow> string \<Rightarrow> go_error + string" where
  "zone_or_utc H raw path =
     (if raw_set raw ''timezone'' then parseTimezone H (raw_get raw ''timezone'') (path @ ''.timezone'')
      else Inr ''UTC'')"

definition assignment_zone :: "host \<Rightarrow> goval gomap \<Rightarrow> string \<Rightarrow> go_error + string" where
  "assignment_zone H raw path =
     (case (if raw_set raw ''timezone''
            then parseTimezone H (raw_get raw ''timezone'') (path @ ''.timezone'')
            else if host_LoadLocation H ''UTC'' then Inr ''UTC'' else Inl zone_error) of
        Inl e \<Rightarrow> Inl (newConfigError (path @ ''.timezone must be a valid IANA timezone'') (Some e))
      | Inr timezone \<Rightarrow> Inr timezone)"

definition parseWindow :: "host \<Rightarrow> goval \<Rightarrow> string \<Rightarrow> go_error + Window" where
  "parseWindow H v path =
     bind_err (configObject v path) (\<lambda>raw.
     bind_err (configString (raw_get raw ''type'') (path @ ''.type'')) (\<lambda>typeValue.
       if typeValue = ''rolling'' then
         bind_err (parseDuration (raw_get raw ''duration'') (path @ ''.duration'')) (\<lambda>duration.
           Inr ((no_window ''rolling'')\<lparr>win_Duration := Some duration\<rparr>))
       else if typeValue = ''plan_assignment'' then
         bind_err (parseBillingInterval (raw_get raw ''interval'') (path @ ''.interval'')) (\<lambda>interval.
         bind_err (assignment_zone H raw path) (\<lambda>timezone.
           Inr ((no_window ''plan_assignment'')
             \<lparr>win_Interval := Some interval, win_Timezone := timezone\<rparr>)))
       else if typeValue = ''calendar'' then
         bind_err (configString (raw_get raw ''unit'') (path @ ''.unit'')) (\<lambda>unit.
         bind_err (count_or_one raw path) (\<lambda>count.
         bind_err (zone_or_utc H raw path) (\<lambda>timezone.
           Inr ((no_window ''calendar'')
             \<lparr>win_Unit := unit, win_Count := count, win_Timezone := timezone\<rparr>))))
       else Inl (newConfigError (path @ ''.type must be calendar, rolling, or plan_assignment'') None)))"

fun check_regions :: "string \<Rightarrow> string list \<Rightarrow> string list \<Rightarrow> go_error + unit" where
  "check_regions path seen [] = Inr ()"
| "check_regions path seen (region # regions) =
     (if \<not> configRegionPattern region
      then Inl (newConfigError (path @ ''.regions must contain uppercase ISO-style region codes'') None)
      else if region \<in> set seen
      then Inl (newConfigError (path @ ''.regions must not contain duplicates'') None)
      else check_regions path (region # seen) regions)"

definition parseAvailability :: "host \<Rightarrow> goval \<Rightarrow> string \<Rightarrow> go_error + Availability" where
  "parseAvailability H v path =
     bind_err (configObject v path) (\<lambda>raw.
     bind_err (configOptionalString raw ''starts_at'' (path @ ''.starts_at'')) (\<lambda>startsAt.
     bind_err (configOptionalString raw ''ends_at'' (path @ ''.ends_at'')) (\<lambda>endsAt.
     bind_err (if raw_set raw ''regions'' then configSliceStrings (raw_get raw ''regions'') (path @ ''.regions'')
               else Inr []) (\<lambda>regions.
     bind_err (check_regions path [] regions) (\<lambda>_.
       let ordered = (case (Option.bind startsAt (host_ParseTime H), Option.bind endsAt (host_ParseTime H)) of
                        (Some start, Some end) \<Rightarrow> start < end | _ \<Rightarrow> True)
       in if \<not> ordered
          then Inl (newConfigError (path @ ''.ends_at must be later than starts_at'') None)
          else Inr \<lparr>av_StartsAt = startsAt, av_EndsAt = endsAt, av_Regions = regions\<rparr>)))))"

definition parseExpiry :: "host \<Rightarrow> goval \<Rightarrow> string \<Rightarrow> go_error + ExpiryPolicy" where
  "parseExpiry H v path =
     bind_err (configObject v path) (\<lambda>raw.
     bind_err (configString (raw_get raw ''type'') (path @ ''.type'')) (\<lambda>typeValue.
       if typeValue = ''never'' \<or> typeValue = ''subscription_end'' then Inr (no_expiry typeValue)
       else if typeValue = ''after_grant'' then
         bind_err (parseBillingInterval (raw_get raw ''interval'') (path @ ''.interval'')) (\<lambda>interval.
         bind_err (zone_or_utc H raw path) (\<lambda>timezone.
           Inr ((no_expiry typeValue)\<lparr>exp_Interval := Some interval, exp_Timezone := timezone\<rparr>)))
       else if typeValue = ''end_of_window'' then
         bind_err (parseWindow H (raw_get raw ''window'') (path @ ''.window'')) (\<lambda>window.
           if win_Type window = ''rolling''
           then Inl (newConfigError (path @ '' cannot use a rolling window'') None)
           else Inr ((no_expiry typeValue)\<lparr>exp_Window := Some window\<rparr>))
       else if typeValue = ''fixed_at'' then
         bind_err (configString (raw_get raw ''at'') (path @ ''.at'')) (\<lambda>instant.
           Inr ((no_expiry typeValue)\<lparr>exp_At := Some instant\<rparr>))
       else Inl (newConfigError (path @ ''.type is invalid'') None)))"

section \<open>Writing them back\<close>

definition canonicalDuration :: "Duration \<Rightarrow> goval" where
  "canonicalDuration v = VObj [(''unit'', VStr (dur_Unit v)), (''count'', VInt (dur_Count v))]"

definition canonicalInterval :: "BillingInterval \<Rightarrow> goval" where
  "canonicalInterval v = VObj [(''unit'', VStr (bi_Unit v)), (''count'', VInt (bi_Count v))]"

text \<open>An assignment \<open>result[key] = f(x)\<close> guarded by a pointer that is not nil.\<close>

definition put_some :: "string \<Rightarrow> ('a \<Rightarrow> goval) \<Rightarrow> 'a option \<Rightarrow> goval gomap \<Rightarrow> goval gomap" where
  "put_some key f x result = (case x of None \<Rightarrow> result | Some a \<Rightarrow> map_put key (f a) result)"

definition canonicalWindow :: "Window \<Rightarrow> goval" where
  "canonicalWindow v =
     (if win_Type v = ''rolling'' then
        VObj (put_some ''duration'' canonicalDuration (win_Duration v) [(''type'', VStr ''rolling'')])
      else if win_Type v = ''plan_assignment'' then
        VObj (put_some ''interval'' canonicalInterval (win_Interval v)
          [(''type'', VStr ''plan_assignment''), (''timezone'', VStr (win_Timezone v))])
      else VObj [(''type'', VStr ''calendar''), (''unit'', VStr (win_Unit v)),
                 (''count'', VInt (win_Count v)), (''timezone'', VStr (win_Timezone v))])"

definition canonicalExpiry :: "ExpiryPolicy \<Rightarrow> goval" where
  "canonicalExpiry v =
     (let result = [(''type'', VStr (exp_Type v))] in
      VObj (if exp_Type v = ''after_grant'' then
              map_put ''timezone'' (VStr (exp_Timezone v))
                (put_some ''interval'' canonicalInterval (exp_Interval v) result)
            else if exp_Type v = ''end_of_window'' then
              put_some ''window'' canonicalWindow (exp_Window v) result
            else if exp_Type v = ''fixed_at'' then put_some ''at'' VStr (exp_At v) result
            else result))"

definition canonicalAvailability :: "Availability \<Rightarrow> goval" where
  "canonicalAvailability v =
     VObj (put_some ''ends_at'' VStr (av_EndsAt v) (put_some ''starts_at'' VStr (av_StartsAt v)
       [(''regions'', VArr (map VStr (av_Regions v)))]))"

section \<open>Lemmas\<close>

lemmas parse_defs =
  configObject_def configString_def configArray_def configBool_def raw_get_def raw_set_def

lemma configInt64_bound:
  assumes "configInt64 v path = Inr n"
  shows "\<bar>n\<bar> \<le> safeIntegerMax"
  using assms by (auto simp: configInt64_def bind_err_Inr_iff split: if_splits)

lemma configInteger_VInt:
  "\<bar>n\<bar> \<le> safeIntegerMax \<Longrightarrow> configInteger (VInt n) path = Inr n"
  by (auto simp: configInteger_def configInt64_def safeIntegerMax_def max_int64_def abs_le_iff)

lemma map_err_Inr_map:
  "(\<And>x. x \<in> set xs \<Longrightarrow> f (g x) = Inr x) \<Longrightarrow> map_err f (map g xs) = Inr xs"
  by (induction xs) auto

lemma parseBillingInterval_canonical:
  assumes "parseBillingInterval v path = Inr i"
  shows "parseBillingInterval (canonicalInterval i) path' = Inr i"
proof -
  from assms have "\<bar>bi_Count i\<bar> \<le> safeIntegerMax"
    by (auto simp: parseBillingInterval_def count_or_one_def bind_err_Inr_iff configInteger_def
        safeIntegerMax_def split: if_splits dest!: configInt64_bound)
  then show ?thesis
    by (simp add: parseBillingInterval_def canonicalInterval_def parse_defs count_or_one_def
        configInteger_VInt)
qed

lemma parseDuration_canonical:
  assumes "parseDuration v path = Inr d"
  shows "parseDuration (canonicalDuration d) path' = Inr d"
proof -
  from assms have "\<bar>dur_Count d\<bar> \<le> safeIntegerMax"
    by (auto simp: parseDuration_def bind_err_Inr_iff configInteger_def dest!: configInt64_bound)
  then show ?thesis
    by (simp add: parseDuration_def canonicalDuration_def parse_defs configInteger_VInt)
qed

lemma parseTimezone_ok:
  assumes "parseTimezone H v path = Inr z"
  shows "parseTimezone H (VStr z) path' = Inr z"
  using assms by (auto simp: parseTimezone_def bind_err_Inr_iff configString_def split: if_splits)

lemma parseTimezone_utc: "host_LoadLocation H ''UTC'' \<Longrightarrow> parseTimezone H (VStr ''UTC'') path = Inr ''UTC''"
  by (simp add: parseTimezone_def configString_def)

lemma zone_or_utc_ok:
  assumes "zone_or_utc H raw path = Inr z" and "host_LoadLocation H ''UTC''"
  shows "parseTimezone H (VStr z) path' = Inr z"
  using assms by (auto simp: zone_or_utc_def parseTimezone_def configString_def bind_err_Inr_iff split: if_splits)

lemma assignment_zone_ok:
  assumes "assignment_zone H raw path = Inr z"
  shows "parseTimezone H (VStr z) path' = Inr z"
  using assms parseTimezone_ok parseTimezone_utc
  by (auto simp: assignment_zone_def split: if_splits sum.splits)

lemma count_or_one_bound: "count_or_one raw path = Inr n \<Longrightarrow> \<bar>n\<bar> \<le> safeIntegerMax"
  by (auto simp: count_or_one_def configInteger_def safeIntegerMax_def split: if_splits
      dest!: configInt64_bound)

lemma parseWindow_cases:
  assumes "parseWindow H v path = Inr w"
  obtains (rolling) raw d where "parseDuration (raw_get raw ''duration'') (path @ ''.duration'') = Inr d"
      "w = (no_window ''rolling'')\<lparr>win_Duration := Some d\<rparr>"
    | (plan_assignment) raw i z where
      "parseBillingInterval (raw_get raw ''interval'') (path @ ''.interval'') = Inr i"
      "w = (no_window ''plan_assignment'')\<lparr>win_Interval := Some i, win_Timezone := z\<rparr>"
      "assignment_zone H raw path = Inr z"
    | (calendar) raw u n z where "count_or_one raw path = Inr n" "zone_or_utc H raw path = Inr z"
      "w = (no_window ''calendar'')\<lparr>win_Unit := u, win_Count := n, win_Timezone := z\<rparr>"
proof -
  from assms obtain raw t where raw: "configObject v path = Inr raw"
    and t: "configString (raw_get raw ''type'') (path @ ''.type'') = Inr t"
    by (auto simp: parseWindow_def bind_err_Inr_iff)
  have "t \<in> {''rolling'', ''plan_assignment'', ''calendar''}"
  proof (rule ccontr)
    assume "\<not> ?thesis"
    with assms raw t show False by (simp add: parseWindow_def)
  qed
  then consider "t = ''rolling''" | "t = ''plan_assignment''" | "t = ''calendar''" by blast
  then show thesis
  proof cases
    case 1
    with assms raw t show ?thesis by (auto simp: parseWindow_def bind_err_Inr_iff intro: rolling)
  next
    case 2
    with assms raw t show ?thesis
      by (auto simp: parseWindow_def bind_err_Inr_iff intro: plan_assignment)
  next
    case 3
    with assms raw t show ?thesis by (auto simp: parseWindow_def bind_err_Inr_iff intro: calendar)
  qed
qed

text \<open>
  The canonical form of a parsed window, expiry policy or availability parses to the value it was
  made from.
\<close>

lemma parseWindow_canonical:
  assumes "parseWindow H v path = Inr w" and utc: "host_LoadLocation H ''UTC''"
  shows "parseWindow H (canonicalWindow w) path' = Inr w"
  using assms(1)
proof (cases rule: parseWindow_cases)
  case (rolling raw d)
  then show ?thesis
    by (simp add: parseWindow_def canonicalWindow_def no_window_def put_some_def map_put_def parse_defs
        parseDuration_canonical)
next
  case (plan_assignment raw i z)
  from assignment_zone_ok [OF plan_assignment(3)] plan_assignment(1,2) show ?thesis
    by (simp add: parseWindow_def canonicalWindow_def no_window_def put_some_def map_put_def parse_defs
        parseBillingInterval_canonical assignment_zone_def)
next
  case (calendar raw u n z)
  from zone_or_utc_ok [OF calendar(2) utc] have "parseTimezone H (VStr z) p = Inr z" for p .
  with calendar(3) count_or_one_bound [OF calendar(1)] show ?thesis
    by (simp add: parseWindow_def canonicalWindow_def no_window_def parse_defs count_or_one_def
        zone_or_utc_def configInteger_VInt)
qed

lemma parseExpiry_cases:
  assumes "parseExpiry H v path = Inr e"
  obtains (plain) "e = no_expiry ''never'' \<or> e = no_expiry ''subscription_end''"
    | (after_grant) raw i z where
      "parseBillingInterval (raw_get raw ''interval'') (path @ ''.interval'') = Inr i"
      "zone_or_utc H raw path = Inr z"
      "e = (no_expiry ''after_grant'')\<lparr>exp_Interval := Some i, exp_Timezone := z\<rparr>"
    | (end_of_window) raw w where "parseWindow H (raw_get raw ''window'') (path @ ''.window'') = Inr w"
      "win_Type w \<noteq> ''rolling''" "e = (no_expiry ''end_of_window'')\<lparr>exp_Window := Some w\<rparr>"
    | (fixed_at) s where "e = (no_expiry ''fixed_at'')\<lparr>exp_At := Some s\<rparr>"
proof -
  from assms obtain raw t where raw: "configObject v path = Inr raw"
    and t: "configString (raw_get raw ''type'') (path @ ''.type'') = Inr t"
    by (auto simp: parseExpiry_def bind_err_Inr_iff)
  have "t \<in> {''never'', ''subscription_end'', ''after_grant'', ''end_of_window'', ''fixed_at''}"
  proof (rule ccontr)
    assume "\<not> ?thesis"
    with assms raw t show False by (simp add: parseExpiry_def)
  qed
  then consider "t = ''never'' \<or> t = ''subscription_end''" | "t = ''after_grant''"
    | "t = ''end_of_window''" | "t = ''fixed_at''"
    unfolding insert_iff empty_iff by argo
  then show thesis
  proof cases
    case 1
    with assms raw t show ?thesis by (auto simp: parseExpiry_def intro: plain)
  next
    case 2
    with assms raw t show ?thesis by (auto simp: parseExpiry_def bind_err_Inr_iff intro: after_grant)
  next
    case 3
    with assms raw t show ?thesis
      by (auto simp: parseExpiry_def bind_err_Inr_iff split: if_splits intro: end_of_window)
  next
    case 4
    with assms raw t show ?thesis by (auto simp: parseExpiry_def bind_err_Inr_iff intro: fixed_at)
  qed
qed

lemma parseExpiry_canonical:
  assumes "parseExpiry H v path = Inr e" and utc: "host_LoadLocation H ''UTC''"
  shows "parseExpiry H (canonicalExpiry e) path' = Inr e"
  using assms(1)
proof (cases rule: parseExpiry_cases)
  case plain
  then show ?thesis
    by (auto simp: parseExpiry_def canonicalExpiry_def no_expiry_def parse_defs)
next
  case (after_grant raw i z)
  from zone_or_utc_ok [OF after_grant(2) utc] have "parseTimezone H (VStr z) p = Inr z" for p .
  with after_grant show ?thesis
    by (simp add: parseExpiry_def canonicalExpiry_def no_expiry_def parse_defs put_some_def map_put_def
        zone_or_utc_def parseBillingInterval_canonical)
next
  case (end_of_window raw w)
  with parseWindow_canonical [OF end_of_window(1) utc] show ?thesis
    by (simp add: parseExpiry_def canonicalExpiry_def no_expiry_def parse_defs put_some_def map_put_def)
next
  case (fixed_at s)
  then show ?thesis
    by (simp add: parseExpiry_def canonicalExpiry_def no_expiry_def parse_defs put_some_def map_put_def)
qed

end
