(* ===== verification/Expr_Parser.thy ===== *)
theory Expr_Parser
  imports Amount
begin

text \<open>
  The pricing expression language, first half of \<open>src/golang/expr.go\<close>: tokens and the
  tokenizer, the syntax tree, the recursive-descent parser and the arity check of calls. The
  parser's position in the token slice is the list of tokens still to be read. The methods of
  the parser call each other in a cycle that passes through \<open>booleanExpression\<close>: every level of
  the grammar is a definition that takes the next tighter level as an argument, and
  \<open>booleanExpression\<close> closes the cycle with fuel, one unit per level of nesting. The loops carry
  fuel too, one unit per token. \<open>OutOfFuel\<close> is the outcome when there is none left; it is
  proved that the parser, as it is called, never reaches it.
\<close>

section \<open>Tokens\<close>

datatype expressionTokenType =
    tokenNumber | tokenIdentifier | tokenPlus | tokenMinus | tokenMultiply | tokenDivide
  | tokenIntDivide | tokenModulo | tokenPower | tokenLeftParen | tokenRightParen | tokenComma
  | tokenEqual | tokenNotEqual | tokenLess | tokenLessEqual | tokenGreater | tokenGreaterEq
  | tokenIn | tokenNot | tokenAnd | tokenOr | tokenIf | tokenElse

text \<open>The conversion \<open>expressionTokenType(text)\<close> on the texts the tokenizer converts.\<close>

definition operator_tokens :: "(string \<times> expressionTokenType) list" where
  "operator_tokens =
    [(''+'', tokenPlus), (''-'', tokenMinus), (''*'', tokenMultiply), (''/'', tokenDivide),
     (''//'', tokenIntDivide), (''%'', tokenModulo), (''**'', tokenPower), (''('', tokenLeftParen),
     ('')'', tokenRightParen), ('','', tokenComma), (''=='', tokenEqual), (''!='', tokenNotEqual),
     (''<'', tokenLess), (''<='', tokenLessEqual), (''>'', tokenGreater), (''>='', tokenGreaterEq),
     (''in'', tokenIn), (''not'', tokenNot), (''and'', tokenAnd), (''or'', tokenOr),
     (''if'', tokenIf), (''else'', tokenElse)]"

record expressionToken =
  tok_type :: expressionTokenType
  tok_value :: string

definition text_token :: "string \<Rightarrow> expressionToken" where
  "text_token s = \<lparr>tok_type = the (map_of operator_tokens s), tok_value = s\<rparr>"

definition quoted :: "string \<Rightarrow> string" where
  "quoted s = CHR 0x27 # s @ [CHR 0x27]"

definition isExpressionNumberStart :: "char \<Rightarrow> bool" where
  "isExpressionNumberStart c \<longleftrightarrow> is_digit_byte c \<or> c = CHR ''.''"

definition isExpressionWordStart :: "char \<Rightarrow> bool" where
  "isExpressionWordStart c \<longleftrightarrow> is_lower_byte c \<or> is_upper_byte c \<or> c = CHR ''_''"

definition is_word_byte :: "char \<Rightarrow> bool" where
  "is_word_byte c \<longleftrightarrow> is_lower_byte c \<or> is_upper_byte c \<or> is_digit_byte c \<or> c = CHR ''_''"

definition containsExpressionDigit :: "string \<Rightarrow> bool" where
  "containsExpressionDigit v \<longleftrightarrow> list_ex is_digit_byte v"

definition bad_number :: "string \<Rightarrow> go_error option \<Rightarrow> go_error" where
  "bad_number v c = newExpressionError (''invalid number literal: '' @ quoted v) c"

text \<open>The first loop of \<open>readExpressionNumber\<close>: what it read, and what is left.\<close>

fun scan_mantissa :: "string \<Rightarrow> bool \<Rightarrow> string \<Rightarrow> go_error + (string \<times> string)" where
  "scan_mantissa acc dotSeen [] = Inr (acc, [])"
| "scan_mantissa acc dotSeen (c # cs) =
     (if \<not> is_digit_byte c \<and> c \<noteq> CHR ''.'' then Inr (acc, c # cs)
      else if c = CHR ''.'' then
        (if dotSeen then Inl (bad_number (acc @ ''.'') None) else scan_mantissa (acc @ [c]) True cs)
      else scan_mantissa (acc @ [c]) dotSeen cs)"

text \<open>Its second loop, an optional exponent after the mantissa \<open>v\<close>.\<close>

definition scan_exponent :: "string \<Rightarrow> string \<Rightarrow> go_error + (string \<times> string)" where
  "scan_exponent v rest =
     (case rest of
        [] \<Rightarrow> Inr (v, rest)
      | c # cs \<Rightarrow>
          if c = CHR ''e'' \<or> c = CHR ''E'' then
            let sign = (case cs of d # ds \<Rightarrow> if d = CHR ''+'' \<or> d = CHR ''-'' then [d] else [] | [] \<Rightarrow> []);
                body = drop (length sign) cs;
                ds = takeWhile is_digit_byte body
            in if ds = [] then Inl (bad_number (v @ c # sign) None)
               else Inr (v @ c # sign @ ds, dropWhile is_digit_byte body)
          else Inr (v, rest))"

definition readExpressionNumber :: "decimal_pkg \<Rightarrow> string \<Rightarrow> go_error + (string \<times> string)" where
  "readExpressionNumber D s =
     bind_err (scan_mantissa [] False s) (\<lambda>(v, rest).
       if v = ''.'' \<or> \<not> containsExpressionDigit v then Inl (bad_number v None)
       else bind_err (scan_exponent v rest) (\<lambda>(v, rest).
         case dec_from_string D v of
           None \<Rightarrow> Inl (bad_number v (Some (PlainError ''decimal'' [])))
         | Some _ \<Rightarrow> Inr (v, rest)))"

definition readExpressionWord :: "string \<Rightarrow> string \<times> string" where
  "readExpressionWord s = (takeWhile is_word_byte s, dropWhile is_word_byte s)"

definition word_token :: "string \<Rightarrow> expressionToken" where
  "word_token v =
     (if v = ''true'' then \<lparr>tok_type = tokenNumber, tok_value = ''1''\<rparr>
      else if v = ''false'' then \<lparr>tok_type = tokenNumber, tok_value = ''0''\<rparr>
      else if v \<in> set [''and'', ''or'', ''if'', ''else'', ''in'', ''not''] then text_token v
      else \<lparr>tok_type = tokenIdentifier, tok_value = v\<rparr>)"

lemma scan_mantissa_length:
  "scan_mantissa acc dot s = Inr (v, rest) \<Longrightarrow> length rest \<le> length s"
  by (induction acc dot s rule: scan_mantissa.induct) (auto split: if_splits)

lemma scan_mantissa_progress:
  assumes "scan_mantissa acc dot (c # cs) = Inr (v, rest)" and "isExpressionNumberStart c"
  shows "length rest < Suc (length cs)"
  using assms
  by (auto simp: isExpressionNumberStart_def less_Suc_eq_le split: if_splits dest: scan_mantissa_length)

lemma scan_exponent_length:
  assumes "scan_exponent v s = Inr (w, rest)"
  shows "length rest \<le> length s"
proof -
  have "length (dropWhile is_digit_byte (drop n cs)) \<le> length (c # cs)" for n and c :: char and cs
    using length_dropWhile_le [of is_digit_byte "drop n cs"] by simp
  with assms show ?thesis
    by (cases s) (auto simp: scan_exponent_def Let_def split: if_splits)
qed

lemma readExpressionNumber_progress:
  assumes "readExpressionNumber D (c # cs) = Inr (v, rest)" and "isExpressionNumberStart c"
  shows "length rest < Suc (length cs)"
proof -
  from assms(1) obtain w r where r: "scan_mantissa [] False (c # cs) = Inr (w, r)"
    and "length rest \<le> length r"
    by (auto simp: readExpressionNumber_def bind_err_Inr_iff split: if_splits option.splits
        dest: scan_exponent_length)
  with scan_mantissa_progress [OF r assms(2)] show ?thesis by simp
qed

lemma readExpressionWord_progress:
  "(v, rest) = readExpressionWord (c # cs) \<Longrightarrow> isExpressionWordStart c \<Longrightarrow> length rest \<le> length cs"
  by (auto simp: readExpressionWord_def isExpressionWordStart_def is_word_byte_def less_Suc_eq_le
      length_dropWhile_le)

definition pair_texts :: "string list" where
  "pair_texts = [''**'', ''//'', ''=='', ''!='', ''<='', ''>='']"

definition single_texts :: "char list" where
  "single_texts = ''(),+-*/%<>''"

function tokenizePricingExpression ::
  "decimal_pkg \<Rightarrow> string \<Rightarrow> go_error + expressionToken list" where
  "tokenizePricingExpression D [] = Inr []"
| "tokenizePricingExpression D (c # cs) =
     (if is_space_byte c then tokenizePricingExpression D cs
      else if cs \<noteq> [] \<and> [c, hd cs] \<in> set pair_texts then
        bind_err (tokenizePricingExpression D (tl cs)) (\<lambda>ts. Inr (text_token [c, hd cs] # ts))
      else if c \<in> set single_texts then
        bind_err (tokenizePricingExpression D cs) (\<lambda>ts. Inr (text_token [c] # ts))
      else if isExpressionNumberStart c then
        bind_err (readExpressionNumber D (c # cs)) (\<lambda>(v, rest).
          bind_err (tokenizePricingExpression D rest) (\<lambda>ts.
            Inr (\<lparr>tok_type = tokenNumber, tok_value = v\<rparr> # ts)))
      else if isExpressionWordStart c then
        (let (v, rest) = readExpressionWord (c # cs) in
          bind_err (tokenizePricingExpression D rest) (\<lambda>ts. Inr (word_token v # ts)))
      else Inl (newExpressionError (''unexpected character: '' @ quoted [c]) None))"
  by pat_completeness auto
termination
  by (relation "measure (\<lambda>(D, s). length s)")
    (auto dest: readExpressionNumber_progress readExpressionWord_progress simp: less_Suc_eq_le)

section \<open>Syntax trees\<close>

datatype expressionNode =
    NumberNode string
  | IdentifierNode string
  | BinaryNode string expressionNode expressionNode
  | UnaryNode string expressionNode
  | CallNode string "expressionNode list"
  | TernaryNode expressionNode expressionNode expressionNode
      \<comment> \<open>condition, then, otherwise\<close>
  | ComparisonNode string expressionNode expressionNode
  | BooleanNode string expressionNode expressionNode

section \<open>The parser\<close>

datatype parse_stop = ParseError go_error | OutOfFuel

type_synonym 'a parsed = "parse_stop + ('a \<times> expressionToken list)"

abbreviation parse_error :: "string \<Rightarrow> parse_stop + 'a" where
  "parse_error m \<equiv> Inl (ParseError (newExpressionError m None))"

definition peekValue :: "expressionToken list \<Rightarrow> string" where
  "peekValue ts = (case ts of [] \<Rightarrow> ''EOF'' | t # _ \<Rightarrow> tok_value t)"

definition tok_check :: "expressionTokenType list \<Rightarrow> expressionToken list \<Rightarrow> bool" where
  "tok_check types ts = (case ts of [] \<Rightarrow> False | t # _ \<Rightarrow> tok_type t \<in> set types)"

text \<open>\<open>match\<close> followed by \<open>previous\<close>: the token that matched and the tokens after it.\<close>

definition tok_match ::
  "expressionTokenType list \<Rightarrow> expressionToken list \<Rightarrow> (expressionToken \<times> expressionToken list) option" where
  "tok_match types ts =
     (case ts of [] \<Rightarrow> None | t # ts' \<Rightarrow> if tok_type t \<in> set types then Some (t, ts') else None)"

definition consume ::
  "expressionTokenType \<Rightarrow> string \<Rightarrow> expressionToken list \<Rightarrow> expressionToken parsed" where
  "consume ty message ts =
     (case tok_match [ty] ts of None \<Rightarrow> parse_error message | Some r \<Rightarrow> Inr r)"

definition allowedExpressionFunctions :: "string list" where
  "allowedExpressionFunctions =
     [''ceil'', ''floor'', ''min'', ''max'', ''round'', ''if'', ''tier'', ''clamp'', ''percentile'']"

abbreviation comparison_tokens :: "expressionTokenType list" where
  "comparison_tokens \<equiv>
     [tokenEqual, tokenNotEqual, tokenLess, tokenLessEqual, tokenGreater, tokenGreaterEq, tokenIn]"

definition power_message :: string where
  "power_message =
     ''exponentiation operator '' @ quoted ''**'' @ '' is not allowed in pricing expressions''"

text \<open>
  The shape of the loops of \<open>booleanExpression\<close>, \<open>andExpression\<close>, \<open>addition\<close> and
  \<open>multiplication\<close>: while an operator of the level matches, parse the right operand and extend
  the tree to the left.
\<close>

primrec left_loop ::
  "(expressionToken list \<Rightarrow> expressionNode parsed) \<Rightarrow> expressionTokenType list \<Rightarrow>
   (string \<Rightarrow> expressionNode \<Rightarrow> expressionNode \<Rightarrow> expressionNode) \<Rightarrow>
   nat \<Rightarrow> expressionNode \<Rightarrow> expressionToken list \<Rightarrow> expressionNode parsed" where
  "left_loop next_level types node 0 left ts = Inl OutOfFuel"
| "left_loop next_level types node (Suc n) left ts =
     (case tok_match types ts of
        None \<Rightarrow> Inr (left, ts)
      | Some (t, ts) \<Rightarrow>
          bind_err (next_level ts) (\<lambda>(right, ts).
            left_loop next_level types node n (node (tok_value t) left right) ts))"

text \<open>\<open>parse\<close>, with \<open>boolean\<close> the parser of a boolean expression.\<close>

definition parse_expr ::
  "(expressionToken list \<Rightarrow> expressionNode parsed) \<Rightarrow> expressionToken list \<Rightarrow> expressionNode parsed" where
  "parse_expr boolean ts =
     bind_err (boolean ts) (\<lambda>(expression, ts).
       case tok_match [tokenIf] ts of
         None \<Rightarrow> Inr (expression, ts)
       | Some (_, ts) \<Rightarrow>
           bind_err (boolean ts) (\<lambda>(condition, ts).
           bind_err (consume tokenElse (''expected '' @ quoted ''else'' @ '' in ternary expression'') ts) (\<lambda>(_, ts).
           bind_err (boolean ts) (\<lambda>(otherwise, ts).
             Inr (TernaryNode condition expression otherwise, ts)))))"

primrec arg_loop ::
  "(expressionToken list \<Rightarrow> expressionNode parsed) \<Rightarrow> nat \<Rightarrow> expressionNode list \<Rightarrow>
   expressionToken list \<Rightarrow> expressionNode list parsed" where
  "arg_loop boolean 0 arguments ts = Inl OutOfFuel"
| "arg_loop boolean (Suc n) arguments ts =
     bind_err (boolean ts) (\<lambda>(argument, ts).
       case tok_match [tokenComma] ts of
         None \<Rightarrow> Inr (arguments @ [argument], ts)
       | Some (_, ts) \<Rightarrow> arg_loop boolean n (arguments @ [argument]) ts)"

definition callArguments ::
  "(expressionToken list \<Rightarrow> expressionNode parsed) \<Rightarrow> expressionToken list \<Rightarrow> expressionNode list parsed" where
  "callArguments boolean ts =
     bind_err (if tok_check [tokenRightParen] ts then Inr ([], ts)
               else arg_loop boolean (Suc (length ts)) [] ts) (\<lambda>(arguments, ts).
     bind_err (consume tokenRightParen (''expected '' @ quoted '')'') ts) (\<lambda>(_, ts).
       Inr (arguments, ts)))"

definition primary ::
  "(expressionToken list \<Rightarrow> expressionNode parsed) \<Rightarrow> expressionToken list \<Rightarrow> expressionNode parsed" where
  "primary boolean ts =
     (if tok_check [tokenPower] ts then parse_error power_message
      else case tok_match [tokenNumber] ts of
        Some (t, ts) \<Rightarrow> Inr (NumberNode (tok_value t), ts)
      | None \<Rightarrow>
     (case tok_match [tokenIdentifier] ts of
        Some (t, ts) \<Rightarrow>
          (case tok_match [tokenLeftParen] ts of
             None \<Rightarrow> Inr (IdentifierNode (tok_value t), ts)
           | Some (_, ts) \<Rightarrow>
               if tok_value t \<notin> set allowedExpressionFunctions
               then parse_error (''disallowed function: '' @ tok_value t)
               else bind_err (callArguments boolean ts) (\<lambda>(arguments, ts).
                      Inr (CallNode (tok_value t) arguments, ts)))
      | None \<Rightarrow>
     (case tok_match [tokenIf] ts of
        Some (_, ts) \<Rightarrow>
          (case tok_match [tokenLeftParen] ts of
             Some (_, ts) \<Rightarrow>
               bind_err (callArguments boolean ts) (\<lambda>(arguments, ts). Inr (CallNode ''if'' arguments, ts))
           | None \<Rightarrow> parse_error (''unexpected token: '' @ quoted (peekValue ts)))
      | None \<Rightarrow>
     (case tok_match [tokenLeftParen] ts of
        Some (_, ts) \<Rightarrow>
          bind_err (parse_expr boolean ts) (\<lambda>(expression, ts).
          bind_err (consume tokenRightParen (''expected '' @ quoted '')'') ts) (\<lambda>(_, ts).
            Inr (expression, ts)))
      | None \<Rightarrow> parse_error (''unexpected token: '' @ quoted (peekValue ts))))))"

text \<open>The two prefix operators, \<open>unary\<close> and \<open>notExpression\<close>, call themselves.\<close>

primrec prefix_loop ::
  "(expressionToken list \<Rightarrow> expressionNode parsed) \<Rightarrow> expressionTokenType list \<Rightarrow>
   (string \<Rightarrow> expressionNode \<Rightarrow> expressionNode) \<Rightarrow> nat \<Rightarrow>
   expressionToken list \<Rightarrow> expressionNode parsed" where
  "prefix_loop next_level types node 0 ts = Inl OutOfFuel"
| "prefix_loop next_level types node (Suc n) ts =
     (case tok_match types ts of
        None \<Rightarrow> next_level ts
      | Some (t, ts) \<Rightarrow>
          bind_err (prefix_loop next_level types node n ts) (\<lambda>(operand, ts).
            Inr (node (tok_value t) operand, ts)))"

definition unary ::
  "(expressionToken list \<Rightarrow> expressionNode parsed) \<Rightarrow> expressionToken list \<Rightarrow> expressionNode parsed" where
  "unary boolean ts = prefix_loop (primary boolean) [tokenPlus, tokenMinus] UnaryNode (Suc (length ts)) ts"

definition multiplication ::
  "(expressionToken list \<Rightarrow> expressionNode parsed) \<Rightarrow> expressionToken list \<Rightarrow> expressionNode parsed" where
  "multiplication boolean ts =
     bind_err (unary boolean ts) (\<lambda>(left, ts).
     bind_err (left_loop (unary boolean) [tokenMultiply, tokenDivide, tokenIntDivide, tokenModulo]
                 BinaryNode (Suc (length ts)) left ts) (\<lambda>(left, ts).
       if tok_check [tokenPower] ts then parse_error power_message else Inr (left, ts)))"

definition addition ::
  "(expressionToken list \<Rightarrow> expressionNode parsed) \<Rightarrow> expressionToken list \<Rightarrow> expressionNode parsed" where
  "addition boolean ts =
     bind_err (multiplication boolean ts) (\<lambda>(left, ts).
       left_loop (multiplication boolean) [tokenPlus, tokenMinus] BinaryNode (Suc (length ts)) left ts)"

definition comparison_right ::
  "(expressionToken list \<Rightarrow> expressionNode parsed) \<Rightarrow> expressionNode \<Rightarrow> string \<Rightarrow>
   expressionToken list \<Rightarrow> expressionNode parsed" where
  "comparison_right boolean left operation ts =
     bind_err (addition boolean ts) (\<lambda>(right, ts).
       if tok_check (comparison_tokens @ [tokenNot]) ts
       then parse_error ''chained comparisons are not supported''
       else Inr (ComparisonNode operation left right, ts))"

definition comparison ::
  "(expressionToken list \<Rightarrow> expressionNode parsed) \<Rightarrow> expressionToken list \<Rightarrow> expressionNode parsed" where
  "comparison boolean ts =
     bind_err (addition boolean ts) (\<lambda>(left, ts).
       case tok_match [tokenNot] ts of
         Some (_, ts) \<Rightarrow>
           (case tok_match [tokenIn] ts of
              None \<Rightarrow> parse_error (''expected '' @ quoted ''in'' @ '' after '' @ quoted ''not'')
            | Some (_, ts) \<Rightarrow> comparison_right boolean left ''not in'' ts)
       | None \<Rightarrow>
           (case tok_match comparison_tokens ts of
              Some (t, ts) \<Rightarrow> comparison_right boolean left (tok_value t) ts
            | None \<Rightarrow> Inr (left, ts)))"

definition notExpression ::
  "(expressionToken list \<Rightarrow> expressionNode parsed) \<Rightarrow> expressionToken list \<Rightarrow> expressionNode parsed" where
  "notExpression boolean ts = prefix_loop (comparison boolean) [tokenNot] (\<lambda>_. UnaryNode ''not'') (Suc (length ts)) ts"

definition andExpression ::
  "(expressionToken list \<Rightarrow> expressionNode parsed) \<Rightarrow> expressionToken list \<Rightarrow> expressionNode parsed" where
  "andExpression boolean ts =
     bind_err (notExpression boolean ts) (\<lambda>(left, ts).
       left_loop (notExpression boolean) [tokenAnd] (\<lambda>_. BooleanNode ''and'') (Suc (length ts)) left ts)"

primrec booleanExpression :: "nat \<Rightarrow> expressionToken list \<Rightarrow> expressionNode parsed" where
  "booleanExpression 0 ts = Inl OutOfFuel"
| "booleanExpression (Suc n) ts =
     bind_err (andExpression (booleanExpression n) ts) (\<lambda>(left, ts).
       left_loop (andExpression (booleanExpression n)) [tokenOr] (\<lambda>_. BooleanNode ''or'')
         (Suc (length ts)) left ts)"

section \<open>Calls\<close>

definition call_arity_error :: "string \<Rightarrow> nat \<Rightarrow> go_error option" where
  "call_arity_error name argumentCount =
     (if name = ''if'' \<or> name = ''clamp'' then
        (if argumentCount \<noteq> 3
         then Some (newExpressionError (name @ ''() requires exactly 3 arguments'') None) else None)
      else if name = ''tier'' then
        (if argumentCount < 4 \<or> argumentCount mod 2 \<noteq> 0
         then Some (newExpressionError
           ''tier() requires an even number of arguments >= 4 (value, threshold, rate, ..., default)'' None)
         else None)
      else if name = ''percentile'' then
        (if argumentCount < 2
         then Some (newExpressionError
           ''percentile() requires at least 2 arguments (p, v1, [v2, ...])'' None)
         else None)
      else if name = ''min'' \<or> name = ''max'' then
        (if argumentCount < 1
         then Some (newExpressionError (name @ ''() requires at least 1 argument'') None) else None)
      else if name = ''ceil'' \<or> name = ''floor'' then
        (if argumentCount \<noteq> 1
         then Some (newExpressionError (name @ ''() requires exactly 1 argument'') None) else None)
      else if name = ''round'' then
        (if argumentCount \<noteq> 1 \<and> argumentCount \<noteq> 2
         then Some (newExpressionError ''round() requires 1 or 2 arguments: round(x[, ndigits])'' None)
         else None)
      else None)"

text \<open>A walk that returns the first error of several walks.\<close>

fun first_error :: "('a \<Rightarrow> go_error option) \<Rightarrow> 'a list \<Rightarrow> go_error option" where
  "first_error f [] = None"
| "first_error f (x # xs) = (case f x of Some e \<Rightarrow> Some e | None \<Rightarrow> first_error f xs)"

lemma first_error_cong [fundef_cong]:
  "xs = ys \<Longrightarrow> (\<And>x. x \<in> set ys \<Longrightarrow> f x = g x) \<Longrightarrow> first_error f xs = first_error g ys"
  by (induction ys arbitrary: xs) (auto split: option.splits)

lemma first_error_None_iff [simp]: "first_error f xs = None \<longleftrightarrow> (\<forall>x \<in> set xs. f x = None)"
  by (induction xs) (auto split: option.splits)

fun validateExpressionCalls :: "expressionNode \<Rightarrow> go_error option" where
  "validateExpressionCalls (CallNode name args) =
     (case call_arity_error name (length args) of
        Some e \<Rightarrow> Some e
      | None \<Rightarrow> first_error validateExpressionCalls args)"
| "validateExpressionCalls (UnaryNode _ operand) = validateExpressionCalls operand"
| "validateExpressionCalls (BinaryNode _ left right) =
     (case validateExpressionCalls left of Some e \<Rightarrow> Some e | None \<Rightarrow> validateExpressionCalls right)"
| "validateExpressionCalls (ComparisonNode _ left right) =
     (case validateExpressionCalls left of Some e \<Rightarrow> Some e | None \<Rightarrow> validateExpressionCalls right)"
| "validateExpressionCalls (BooleanNode _ left right) =
     (case validateExpressionCalls left of Some e \<Rightarrow> Some e | None \<Rightarrow> validateExpressionCalls right)"
| "validateExpressionCalls (TernaryNode condition after otherwise) =
     (case validateExpressionCalls condition of
        Some e \<Rightarrow> Some e
      | None \<Rightarrow> (case validateExpressionCalls after of
          Some e \<Rightarrow> Some e | None \<Rightarrow> validateExpressionCalls otherwise))"
| "validateExpressionCalls _ = None"

definition out_of_fuel :: go_error where
  "out_of_fuel = PlainError ''out of fuel'' []"

definition parse_tokens :: "expressionToken list \<Rightarrow> expressionNode parsed" where
  "parse_tokens ts = parse_expr (booleanExpression (Suc (length ts))) ts"

definition parsePricingExpression :: "decimal_pkg \<Rightarrow> string \<Rightarrow> go_error + expressionNode" where
  "parsePricingExpression D source =
     bind_err (tokenizePricingExpression D source) (\<lambda>tokens.
       case parse_tokens tokens of
         Inl (ParseError e) \<Rightarrow> Inl e
       | Inl OutOfFuel \<Rightarrow> Inl out_of_fuel
       | Inr (node, rest) \<Rightarrow>
           if rest \<noteq> []
           then Inl (newExpressionError
             (''unexpected token after expression: '' @ quoted (tok_value (hd rest))) None)
           else (case validateExpressionCalls node of Some e \<Rightarrow> Inl e | None \<Rightarrow> Inr node))"

section \<open>The parser consumes its input and does not run out of fuel\<close>

text \<open>
  On inputs of less than \<open>k\<close> tokens the parser does not run out of fuel, and where it succeeds
  it has read at least one token.
\<close>

definition reads :: "nat \<Rightarrow> (expressionToken list \<Rightarrow> 'a parsed) \<Rightarrow> bool" where
  "reads k p \<longleftrightarrow>
     (\<forall>ts. length ts < k \<longrightarrow>
        p ts \<noteq> Inl OutOfFuel \<and> (\<forall>x rest. p ts = Inr (x, rest) \<longrightarrow> length rest < length ts))"

lemma readsI:
  assumes "\<And>ts. length ts < k \<Longrightarrow> p ts \<noteq> Inl OutOfFuel"
    and "\<And>ts x rest. length ts < k \<Longrightarrow> p ts = Inr (x, rest) \<Longrightarrow> length rest < length ts"
  shows "reads k p"
  using assms by (simp add: reads_def)

lemma reads_fuel: "reads k p \<Longrightarrow> length ts < k \<Longrightarrow> p ts \<noteq> Inl OutOfFuel"
  by (simp add: reads_def)

lemma reads_less: "reads k p \<Longrightarrow> p ts = Inr (x, rest) \<Longrightarrow> length ts < k \<Longrightarrow> length rest < length ts"
  by (auto simp: reads_def)

lemma reads_mono: "reads k p \<Longrightarrow> j \<le> k \<Longrightarrow> reads j p"
  by (auto simp: reads_def)

lemma tok_match_Some [simp]:
  "tok_match types ts = Some (t, rest) \<longleftrightarrow> ts = t # rest \<and> tok_type t \<in> set types"
  by (cases ts) (auto simp: tok_match_def)

lemma tok_match_None [simp]: "tok_match types ts = None \<longleftrightarrow> \<not> tok_check types ts"
  by (cases ts) (auto simp: tok_match_def tok_check_def)

lemma tok_check_Cons [simp]: "tok_check types (t # ts) \<longleftrightarrow> tok_type t \<in> set types"
  by (simp add: tok_check_def)

lemma tok_check_Nil [simp]: "\<not> tok_check types []"
  by (simp add: tok_check_def)

lemma tok_match_Cons [simp]:
  "tok_match types (t # ts) = (if tok_type t \<in> set types then Some (t, ts) else None)"
  by (simp add: tok_match_def)

lemma tok_match_stop [simp]: "\<not> tok_check types ts \<Longrightarrow> tok_match types ts = None"
  by simp

lemma consume_Inr [simp]:
  "consume ty m ts = Inr (t, rest) \<longleftrightarrow> ts = t # rest \<and> tok_type t = ty"
  by (cases ts) (auto simp: consume_def tok_match_def)

lemma consume_fuel [simp]: "consume ty m ts \<noteq> Inl OutOfFuel"
  by (simp add: consume_def split: option.splits)

lemma left_loop_fuel:
  assumes "reads k p"
  shows "length ts < k \<Longrightarrow> length ts < n \<Longrightarrow> left_loop p types node n left ts \<noteq> Inl OutOfFuel"
proof (induction n arbitrary: left ts)
  case (Suc n)
  have "p r = Inl OutOfFuel \<Longrightarrow> False" if "ts = t # r" for t r
    using reads_fuel [OF assms, of r] Suc.prems(1) that by simp
  moreover have "left_loop p types node n l q = Inl OutOfFuel \<Longrightarrow> False"
    if "ts = t # r" "p r = Inr (x, q)" for t r x q l
    using reads_less [OF assms that(2)] Suc.prems that(1) Suc.IH [of q l] by simp
  ultimately show ?case
    by (auto simp: bind_err_Inl_iff split: option.splits; blast)
qed simp

lemma left_loop_length:
  assumes "reads k p"
  shows "left_loop p types node n left ts = Inr (x, rest) \<Longrightarrow> length ts < k \<Longrightarrow> length rest \<le> length ts"
proof (induction n arbitrary: left ts)
  case (Suc n)
  have "length rest \<le> length q"
    if "ts = t # r" "p r = Inr (y, q)" "left_loop p types node n l q = Inr (x, rest)" for t r y q l
    using reads_less [OF assms that(2)] Suc.prems(2) that(1) Suc.IH [OF that(3)] by simp
  with Suc.prems reads_less [OF assms] show ?case
    by (fastforce simp: bind_err_Inr_iff split: option.splits)
qed simp

lemma prefix_loop_fuel:
  assumes "reads k p"
  shows "length ts < k \<Longrightarrow> length ts < n \<Longrightarrow> prefix_loop p types node n ts \<noteq> Inl OutOfFuel"
proof (induction n arbitrary: ts)
  case (Suc n)
  then show ?case
    using reads_fuel [OF assms] by (cases ts) (auto simp: bind_err_Inl_iff split: option.splits)
qed simp

lemma prefix_loop_length:
  assumes "reads k p"
  shows "prefix_loop p types node n ts = Inr (x, rest) \<Longrightarrow> length ts < k \<Longrightarrow> length rest < length ts"
proof (induction n arbitrary: ts x)
  case (Suc n)
  show ?case
  proof (cases "tok_match types ts")
    case None
    with Suc.prems reads_less [OF assms] show ?thesis by simp
  next
    case (Some m)
    with Suc.prems Suc.IH [of "tl ts"] show ?thesis
      by (cases m) (fastforce simp: bind_err_Inr_iff)
  qed
qed simp

lemma arg_loop_fuel:
  assumes "reads k p"
  shows "length ts < k \<Longrightarrow> length ts < n \<Longrightarrow> arg_loop p n args ts \<noteq> Inl OutOfFuel"
proof (induction n arbitrary: args ts)
  case (Suc n)
  have "p ts \<noteq> Inl OutOfFuel" using reads_fuel [OF assms Suc.prems(1)] .
  moreover have "arg_loop p n as r \<noteq> Inl OutOfFuel" if "p ts = Inr (x, t # r)" for x t r as
    using reads_less [OF assms that Suc.prems(1)] Suc.prems Suc.IH [of r] by simp
  ultimately show ?case
    by (auto simp: bind_err_Inl_iff split: option.splits)
qed simp

lemma arg_loop_length:
  assumes "reads k p"
  shows "arg_loop p n args ts = Inr (x, rest) \<Longrightarrow> length ts < k \<Longrightarrow> length rest < length ts"
proof (induction n arbitrary: args ts)
  case (Suc n)
  then obtain a r where r: "p ts = Inr (a, r)" by (auto simp: bind_err_Inr_iff)
  then have l: "length r < length ts" using reads_less [OF assms] Suc.prems by blast
  show ?case
  proof (cases "tok_match [tokenComma] r")
    case None
    with Suc.prems r l show ?thesis by simp
  next
    case (Some m)
    with Suc.prems r l Suc.IH [of "args @ [a]" "snd m"] show ?thesis by (cases m) auto
  qed
qed simp

text \<open>Each level of the grammar, from the inside out.\<close>

lemma parse_expr_reads:
  assumes "reads k p"
  shows "reads k (parse_expr p)"
proof (rule readsI)
  fix ts :: "expressionToken list" assume ts: "length ts < k"
  have "p ts \<noteq> Inl OutOfFuel" using reads_fuel [OF assms ts] .
  moreover have "p r1 \<noteq> Inl OutOfFuel" if "p ts = Inr (x, t # r1)" for x t r1
    using reads_less [OF assms that ts] reads_fuel [OF assms, of r1] ts by simp
  moreover have "p r2 \<noteq> Inl OutOfFuel" if "p ts = Inr (x, t # r1)" "p r1 = Inr (y, u # r2)" for x t r1 y u r2
    using reads_less [OF assms that(1) ts] reads_less [OF assms that(2)] reads_fuel [OF assms, of r2] ts by simp
  ultimately show "parse_expr p ts \<noteq> Inl OutOfFuel"
    by (auto simp: parse_expr_def bind_err_Inl_iff split: option.splits)
next
  fix ts :: "expressionToken list" and x rest
  assume ts: "length ts < k" and ok: "parse_expr p ts = Inr (x, rest)"
  from ok obtain e r where r: "p ts = Inr (e, r)" by (auto simp: parse_expr_def bind_err_Inr_iff)
  have l: "length r < length ts" using reads_less [OF assms r ts] .
  have "length rest \<le> length r"
    if "r = t # r1" "p r1 = Inr (c, u # r2)" "p r2 = Inr (y, rest)" for t r1 c u r2 y
    using reads_less [OF assms that(2)] reads_less [OF assms that(3)] that(1) l ts by simp
  with ok r l show "length rest < length ts"
    by (fastforce simp: parse_expr_def bind_err_Inr_iff split: option.splits)
qed

lemma callArguments_fuel:
  assumes "reads k p" and "length ts < k"
  shows "callArguments p ts \<noteq> Inl OutOfFuel"
  using arg_loop_fuel [OF assms(1,2), of "Suc (length ts)"]
  by (auto simp: callArguments_def bind_err_Inl_iff)

lemma callArguments_length:
  assumes "reads k p" and "length ts < k" and "callArguments p ts = Inr (x, rest)"
  shows "length rest < length ts"
  using assms(3) arg_loop_length [OF assms(1) _ assms(2), of "Suc (length ts)"]
  by (fastforce simp: callArguments_def bind_err_Inr_iff split: if_splits)

lemma primary_reads:
  assumes "reads k p"
  shows "reads (Suc k) (primary p)"
proof (rule readsI)
  fix ts :: "expressionToken list" assume "length ts < Suc k"
  then show "primary p ts \<noteq> Inl OutOfFuel"
    using callArguments_fuel [OF assms] reads_fuel [OF parse_expr_reads [OF assms]]
    by (cases ts) (auto simp: primary_def bind_err_Inl_iff split: option.splits)
next
  fix ts :: "expressionToken list" and x rest
  assume ts: "length ts < Suc k" and ok: "primary p ts = Inr (x, rest)"
  obtain t r where t: "ts = t # r"
    using ok by (cases ts) (auto simp: primary_def tok_match_def)
  have "rest = r \<or> (\<exists>u r2 as. r = u # r2 \<and> callArguments p r2 = Inr (as, rest)) \<or>
      (\<exists>y u. parse_expr p r = Inr (y, u # rest))"
    using ok unfolding t primary_def
    by (auto simp: bind_err_Inr_iff split: if_splits option.splits)
  then consider "rest = r" | u r2 as where "r = u # r2" "callArguments p r2 = Inr (as, rest)"
    | y u where "parse_expr p r = Inr (y, u # rest)"
    by blast
  then show "length rest < length ts"
  proof cases
    case 2
    with callArguments_length [OF assms _ this(2)] ts t show ?thesis by simp
  next
    case 3
    with reads_less [OF parse_expr_reads [OF assms] 3] ts t show ?thesis by simp
  qed (use t in simp)
qed

lemma unary_reads: "reads k p \<Longrightarrow> reads (Suc k) (unary p)"
  unfolding unary_def
  using prefix_loop_fuel [OF primary_reads] prefix_loop_length [OF primary_reads]
  by (intro readsI) (blast intro: lessI)+

text \<open>An operand followed by the loop of a level.\<close>

lemma left_level_reads:
  assumes "reads k p"
    and level: "\<And>ts. q ts = bind_err (p ts) (\<lambda>(left, ts). left_loop p types node (Suc (length ts)) left ts)"
  shows "reads k q"
proof (rule readsI)
  fix ts :: "expressionToken list" assume ts: "length ts < k"
  show "q ts \<noteq> Inl OutOfFuel"
  proof (cases "p ts")
    case (Inl e)
    with reads_fuel [OF assms(1) ts] show ?thesis by (simp add: level)
  next
    case (Inr m)
    then obtain l r where r: "p ts = Inr (l, r)" by (cases m) simp
    from reads_less [OF assms(1) r ts] ts show ?thesis
      using left_loop_fuel [OF assms(1), of r "Suc (length r)" types node l] by (simp add: level r)
  qed
next
  fix ts :: "expressionToken list" and x rest
  assume ts: "length ts < k" and ok: "q ts = Inr (x, rest)"
  then obtain l r where r: "p ts = Inr (l, r)" "left_loop p types node (Suc (length r)) l r = Inr (x, rest)"
    by (auto simp: level bind_err_Inr_iff)
  from reads_less [OF assms(1) r(1) ts] left_loop_length [OF assms(1) r(2)] ts
  show "length rest < length ts" by simp
qed

lemma multiplication_reads:
  assumes "reads k p"
  shows "reads (Suc k) (multiplication p)"
proof -
  let ?q = "\<lambda>ts. bind_err (unary p ts) (\<lambda>(left, ts). left_loop (unary p)
    [tokenMultiply, tokenDivide, tokenIntDivide, tokenModulo] BinaryNode (Suc (length ts)) left ts)"
  have q: "reads (Suc k) ?q" by (rule left_level_reads [OF unary_reads [OF assms] refl])
  have eq: "multiplication p ts = bind_err (?q ts) (\<lambda>(left, ts).
      if tok_check [tokenPower] ts then parse_error power_message else Inr (left, ts))" for ts
    by (cases "unary p ts") (simp_all add: multiplication_def split: prod.splits)
  show ?thesis
  proof (rule readsI)
    fix ts :: "expressionToken list" assume "length ts < Suc k"
    from reads_fuel [OF q this] show "multiplication p ts \<noteq> Inl OutOfFuel"
      unfolding eq by (cases "?q ts") (auto split: if_splits)
  next
    fix ts :: "expressionToken list" and x rest
    assume ts: "length ts < Suc k" and "multiplication p ts = Inr (x, rest)"
    then show "length rest < length ts"
      using reads_less [OF q _ ts] unfolding eq by (cases "?q ts") (auto split: if_splits)
  qed
qed

lemma addition_reads: "reads k p \<Longrightarrow> reads (Suc k) (addition p)"
  by (rule left_level_reads [OF multiplication_reads]) (auto simp: addition_def)

lemma comparison_right_reads: "reads k p \<Longrightarrow> reads (Suc k) (comparison_right p left op)"
  using reads_fuel [OF addition_reads] reads_less [OF addition_reads]
  by (intro readsI) (auto simp: comparison_right_def bind_err_Inl_iff bind_err_Inr_iff split: if_splits)

lemma comparison_reads:
  assumes "reads k p"
  shows "reads (Suc k) (comparison p)"
proof (rule readsI)
  fix ts :: "expressionToken list" assume ts: "length ts < Suc k"
  have "comparison_right p l op r \<noteq> Inl OutOfFuel" if "addition p ts = Inr (y, t # r)" for y t r l op
    using reads_less [OF addition_reads [OF assms] that ts] ts
    by (intro reads_fuel [OF comparison_right_reads [OF assms]]) simp
  moreover have "comparison_right p l op r \<noteq> Inl OutOfFuel" if "addition p ts = Inr (y, t # u # r)" for y t u r l op
    using reads_less [OF addition_reads [OF assms] that ts] ts
    by (intro reads_fuel [OF comparison_right_reads [OF assms]]) simp
  ultimately show "comparison p ts \<noteq> Inl OutOfFuel"
    using reads_fuel [OF addition_reads [OF assms] ts]
    by (auto simp: comparison_def bind_err_Inl_iff split: option.splits)
next
  fix ts :: "expressionToken list" and x rest
  assume ts: "length ts < Suc k" and ok: "comparison p ts = Inr (x, rest)"
  then obtain l r where r: "addition p ts = Inr (l, r)" by (auto simp: comparison_def bind_err_Inr_iff)
  have less: "length r < length ts" using reads_less [OF addition_reads [OF assms] r ts] .
  have "length rest < length q" if "comparison_right p l op q = Inr (x, rest)" "length q \<le> length r" for op q
    using reads_less [OF comparison_right_reads [OF assms] that(1)] that(2) less ts by simp
  with ok r less show "length rest < length ts"
    by (fastforce simp: comparison_def split: option.splits)
qed

lemma notExpression_reads: "reads k p \<Longrightarrow> reads (Suc k) (notExpression p)"
  unfolding notExpression_def
  using prefix_loop_fuel [OF comparison_reads] prefix_loop_length [OF comparison_reads]
  by (intro readsI) (blast intro: lessI)+

lemma andExpression_reads: "reads k p \<Longrightarrow> reads (Suc k) (andExpression p)"
  by (rule left_level_reads [OF notExpression_reads]) (auto simp: andExpression_def)

lemma booleanExpression_reads: "reads k (booleanExpression k)"
proof (induction k)
  case (Suc k)
  show ?case
    by (rule left_level_reads [OF andExpression_reads [OF Suc.IH]]) auto
qed (simp add: reads_def)

lemma parse_tokens_total:
  "parse_tokens ts \<noteq> Inl OutOfFuel"
  "parse_tokens ts = Inr (x, rest) \<Longrightarrow> length rest < length ts"
  using parse_expr_reads [OF booleanExpression_reads [of "Suc (length ts)"]]
  by (auto simp: reads_def parse_tokens_def)

section \<open>Printing and parsing\<close>

text \<open>
  The tokens of a tree written with parentheses around every operator, and the trees that can
  be written at all: those whose operators and function names are the ones of the language.
\<close>

abbreviation symbol :: "expressionTokenType \<Rightarrow> string \<Rightarrow> expressionToken" where
  "symbol ty s \<equiv> \<lparr>tok_type = ty, tok_value = s\<rparr>"

abbreviation open_paren :: expressionToken where
  "open_paren \<equiv> symbol tokenLeftParen ''(''"

abbreviation close_paren :: expressionToken where
  "close_paren \<equiv> symbol tokenRightParen '')''"

definition mul_texts :: "string list" where
  "mul_texts = [''*'', ''/'', ''//'', ''%'']"

definition add_texts :: "string list" where
  "add_texts = [''+'', ''-'']"

definition cmp_texts :: "string list" where
  "cmp_texts = [''=='', ''!='', ''<'', ''<='', ''>'', ''>='', ''in'']"

fun commas :: "expressionToken list list \<Rightarrow> expressionToken list" where
  "commas [] = []"
| "commas [ts] = ts"
| "commas (ts # us # uss) = ts @ symbol tokenComma '','' # commas (us # uss)"

fun print_tokens :: "expressionNode \<Rightarrow> expressionToken list" where
  "print_tokens (NumberNode v) = [symbol tokenNumber v]"
| "print_tokens (IdentifierNode v) = [symbol tokenIdentifier v]"
| "print_tokens (UnaryNode op e) = open_paren # text_token op # print_tokens e @ [close_paren]"
| "print_tokens (BinaryNode op l r) =
     open_paren # print_tokens l @ text_token op # print_tokens r @ [close_paren]"
| "print_tokens (BooleanNode op l r) =
     open_paren # print_tokens l @ text_token op # print_tokens r @ [close_paren]"
| "print_tokens (ComparisonNode op l r) =
     open_paren # print_tokens l @
       (if op = ''not in'' then [text_token ''not'', text_token ''in''] else [text_token op]) @
       print_tokens r @ [close_paren]"
| "print_tokens (TernaryNode c a e) =
     open_paren # print_tokens a @ text_token ''if'' # print_tokens c @
       text_token ''else'' # print_tokens e @ [close_paren]"
| "print_tokens (CallNode name args) =
     (if name = ''if'' then text_token ''if'' else symbol tokenIdentifier name) #
       open_paren # commas (map print_tokens args) @ [close_paren]"

fun printable :: "expressionNode \<Rightarrow> bool" where
  "printable (NumberNode v) = True"
| "printable (IdentifierNode v) = True"
| "printable (UnaryNode op e) = (op \<in> set (''not'' # add_texts) \<and> printable e)"
| "printable (BinaryNode op l r) = (op \<in> set (add_texts @ mul_texts) \<and> printable l \<and> printable r)"
| "printable (BooleanNode op l r) = (op \<in> {''and'', ''or''} \<and> printable l \<and> printable r)"
| "printable (ComparisonNode op l r) =
     (op \<in> set (''not in'' # cmp_texts) \<and> printable l \<and> printable r)"
| "printable (TernaryNode c a e) = (printable c \<and> printable a \<and> printable e)"
| "printable (CallNode name args) =
     (name \<in> set allowedExpressionFunctions \<and> list_all printable args)"

text \<open>What each level does with an operand of the next tighter level that no operator of its
  own follows.\<close>

lemma primary_start:
  "primary p ts = Inr (e, r) \<Longrightarrow>
     tok_check [tokenNumber, tokenIdentifier, tokenIf, tokenLeftParen] ts"
  by (cases ts) (auto simp: primary_def bind_err_Inr_iff split: if_splits option.splits)

lemma unary_atom:
  assumes "primary p ts = Inr (e, r)"
  shows "unary p ts = Inr (e, r)"
proof -
  have "\<not> tok_check [tokenPlus, tokenMinus] ts"
    using primary_start [OF assms] by (cases ts) auto
  with assms show ?thesis by (simp add: unary_def)
qed

lemma left_loop_stop: "\<not> tok_check types r \<Longrightarrow> left_loop p types node (Suc n) e r = Inr (e, r)"
  by simp

lemma left_loop_one:
  assumes "p ts = Inr (e, r)" and "\<not> tok_check types r" and "tok_type t \<in> set types"
  shows "left_loop p types node (Suc (Suc n)) l (t # ts) = Inr (node (tok_value t) l e, r)"
  using assms by simp

lemma multiplication_atom:
  assumes "unary p ts = Inr (e, r)"
    and "\<not> tok_check [tokenMultiply, tokenDivide, tokenIntDivide, tokenModulo] r"
    and "\<not> tok_check [tokenPower] r"
  shows "multiplication p ts = Inr (e, r)"
  using assms by (simp add: multiplication_def left_loop_stop del: left_loop.simps)

lemma addition_atom:
  assumes "multiplication p ts = Inr (e, r)" and "\<not> tok_check [tokenPlus, tokenMinus] r"
  shows "addition p ts = Inr (e, r)"
  using assms by (simp add: addition_def left_loop_stop del: left_loop.simps)

lemma comparison_atom:
  assumes "addition p ts = Inr (e, r)" and "\<not> tok_check (comparison_tokens @ [tokenNot]) r"
  shows "comparison p ts = Inr (e, r)"
proof -
  have "\<not> tok_check [tokenNot] r" "\<not> tok_check comparison_tokens r"
    using assms(2) by (cases r; simp)+
  with assms(1) show ?thesis by (simp add: comparison_def)
qed

lemma notExpression_atom:
  assumes "comparison p ts = Inr (e, r)" and "\<not> tok_check [tokenNot] ts"
  shows "notExpression p ts = Inr (e, r)"
  using assms by (simp add: notExpression_def)

lemma andExpression_atom:
  assumes "notExpression p ts = Inr (e, r)" and "\<not> tok_check [tokenAnd] r"
  shows "andExpression p ts = Inr (e, r)"
  using assms by (simp add: andExpression_def left_loop_stop del: left_loop.simps)

lemma booleanExpression_atom:
  assumes "andExpression (booleanExpression n) ts = Inr (e, r)" and "\<not> tok_check [tokenOr] r"
  shows "booleanExpression (Suc n) ts = Inr (e, r)"
  using assms by (simp add: left_loop_stop del: left_loop.simps)

text \<open>The tokens that end every level: \<open>closing\<close> is what follows a complete operand inside
  parentheses, an argument list or a ternary.\<close>

definition closing :: "expressionToken list \<Rightarrow> bool" where
  "closing r \<longleftrightarrow> r = [] \<or> tok_type (hd r) \<in> {tokenRightParen, tokenComma, tokenIf, tokenElse}"

lemma closing_Cons [simp]:
  "closing (t # r) \<longleftrightarrow> tok_type t \<in> {tokenRightParen, tokenComma, tokenIf, tokenElse}"
  by (simp add: closing_def)

lemma closing_check:
  assumes "closing r" "\<forall>ty \<in> set types. ty \<notin> {tokenRightParen, tokenComma, tokenIf, tokenElse}"
  shows "\<not> tok_check types r"
  using assms by (cases r) auto

lemmas level_atoms =
  unary_atom [THEN multiplication_atom] unary_atom [THEN multiplication_atom, THEN addition_atom]

lemma boolean_of_not:
  assumes "notExpression (booleanExpression n) ts = Inr (e, r)" "closing r"
  shows "booleanExpression (Suc n) ts = Inr (e, r)"
  using assms by (intro booleanExpression_atom andExpression_atom) (simp_all add: closing_check)

lemma boolean_of_addition:
  assumes "addition (booleanExpression n) ts = Inr (e, r)" "closing r" "\<not> tok_check [tokenNot] ts"
  shows "booleanExpression (Suc n) ts = Inr (e, r)"
  using assms by (intro boolean_of_not notExpression_atom comparison_atom) (simp_all add: closing_check)

lemma primary_not_not: "primary p ts = Inr (e, r) \<Longrightarrow> \<not> tok_check [tokenNot] ts"
  by (drule primary_start) (cases ts; auto)

lemma boolean_atom:
  assumes "primary (booleanExpression n) ts = Inr (e, r)" "closing r"
  shows "booleanExpression (Suc n) ts = Inr (e, r)"
  using assms
  by (intro boolean_of_addition level_atoms) (simp_all add: closing_check primary_not_not)

lemma boolean_sign:
  assumes "primary (booleanExpression n) ts = Inr (e, r)" "closing r" "tok_type t \<in> {tokenPlus, tokenMinus}"
  shows "booleanExpression (Suc n) (t # ts) = Inr (UnaryNode (tok_value t) e, r)"
proof -
  have "\<not> tok_check [tokenPlus, tokenMinus] ts" using primary_start [OF assms(1)] by (cases ts) auto
  with assms have "unary (booleanExpression n) (t # ts) = Inr (UnaryNode (tok_value t) e, r)"
    by (auto simp: unary_def)
  with assms(2,3) show ?thesis
    by (intro boolean_of_addition addition_atom multiplication_atom) (auto simp: closing_check)
qed

lemma boolean_not:
  assumes "primary (booleanExpression n) ts = Inr (e, r)" "closing r" "tok_type t = tokenNot"
  shows "booleanExpression (Suc n) (t # ts) = Inr (UnaryNode ''not'' e, r)"
proof -
  have "comparison (booleanExpression n) ts = Inr (e, r)"
    using assms by (intro comparison_atom level_atoms) (simp_all add: closing_check)
  with assms primary_not_not [OF assms(1)] show ?thesis
    by (intro boolean_of_not) (simp_all add: notExpression_def)
qed

lemma boolean_mul:
  assumes "primary (booleanExpression n) ts = Inr (l, t # us)" "primary (booleanExpression n) us = Inr (e, r)"
    and "closing r" "tok_type t \<in> {tokenMultiply, tokenDivide, tokenIntDivide, tokenModulo}"
  shows "booleanExpression (Suc n) ts = Inr (BinaryNode (tok_value t) l e, r)"
proof -
  have "left_loop (unary (booleanExpression n)) [tokenMultiply, tokenDivide, tokenIntDivide, tokenModulo]
      BinaryNode (Suc (length (t # us))) l (t # us) = Inr (BinaryNode (tok_value t) l e, r)"
    using assms by (simp only: length_Cons, intro left_loop_one) (auto simp: closing_check intro: unary_atom)
  with assms have "multiplication (booleanExpression n) ts = Inr (BinaryNode (tok_value t) l e, r)"
    by (simp add: multiplication_def unary_atom closing_check del: left_loop.simps)
  with assms show ?thesis
    by (intro boolean_of_addition addition_atom) (simp_all add: closing_check primary_not_not)
qed

lemma boolean_add:
  assumes "primary (booleanExpression n) ts = Inr (l, t # us)" "primary (booleanExpression n) us = Inr (e, r)"
    and "closing r" "tok_type t \<in> {tokenPlus, tokenMinus}"
  shows "booleanExpression (Suc n) ts = Inr (BinaryNode (tok_value t) l e, r)"
proof -
  have l: "multiplication (booleanExpression n) ts = Inr (l, t # us)"
    using assms(1,4) by (intro level_atoms) auto
  have "multiplication (booleanExpression n) us = Inr (e, r)"
    using assms(2,3) by (intro level_atoms) (simp_all add: closing_check)
  with assms(3,4) have "left_loop (multiplication (booleanExpression n)) [tokenPlus, tokenMinus]
      BinaryNode (Suc (length (t # us))) l (t # us) = Inr (BinaryNode (tok_value t) l e, r)"
    by (simp only: length_Cons, intro left_loop_one) (auto simp: closing_check)
  with l have "addition (booleanExpression n) ts = Inr (BinaryNode (tok_value t) l e, r)"
    by (simp add: addition_def del: left_loop.simps)
  with assms show ?thesis
    by (intro boolean_of_addition) (simp_all add: primary_not_not)
qed

lemma boolean_cmp:
  assumes "primary (booleanExpression n) ts = Inr (l, t # us)" "primary (booleanExpression n) us = Inr (e, r)"
    and "closing r" "tok_type t \<in> set comparison_tokens"
  shows "booleanExpression (Suc n) ts = Inr (ComparisonNode (tok_value t) l e, r)"
proof -
  have "addition (booleanExpression n) ts = Inr (l, t # us)"
    using assms(1,4) by (intro level_atoms) auto
  moreover have "addition (booleanExpression n) us = Inr (e, r)"
    using assms(2,3) by (intro level_atoms) (simp_all add: closing_check)
  ultimately have "comparison (booleanExpression n) ts = Inr (ComparisonNode (tok_value t) l e, r)"
    using assms(3,4) by (auto simp: comparison_def comparison_right_def closing_check)
  with assms show ?thesis
    by (intro boolean_of_not notExpression_atom) (simp_all add: primary_not_not)
qed

lemma boolean_not_in:
  assumes "primary (booleanExpression n) ts = Inr (l, t # u # us)" "primary (booleanExpression n) us = Inr (e, r)"
    and "closing r" "tok_type t = tokenNot" "tok_type u = tokenIn"
  shows "booleanExpression (Suc n) ts = Inr (ComparisonNode ''not in'' l e, r)"
proof -
  have "addition (booleanExpression n) ts = Inr (l, t # u # us)"
    using assms(1,4) by (intro level_atoms) auto
  moreover have "addition (booleanExpression n) us = Inr (e, r)"
    using assms(2,3) by (intro level_atoms) (simp_all add: closing_check)
  ultimately have "comparison (booleanExpression n) ts = Inr (ComparisonNode ''not in'' l e, r)"
    using assms(3-5) by (auto simp: comparison_def comparison_right_def closing_check)
  with assms show ?thesis
    by (intro boolean_of_not notExpression_atom) (simp_all add: primary_not_not)
qed

lemma not_atom:
  assumes "primary p ts = Inr (e, r)"
    and "closing r \<or> tok_check [tokenAnd, tokenOr] r"
  shows "notExpression p ts = Inr (e, r)"
  using assms
  by (intro notExpression_atom comparison_atom level_atoms) (cases r; auto simp: primary_not_not)+

lemma boolean_and:
  assumes "primary (booleanExpression n) ts = Inr (l, t # us)" "primary (booleanExpression n) us = Inr (e, r)"
    and "closing r" "tok_type t = tokenAnd"
  shows "booleanExpression (Suc n) ts = Inr (BooleanNode ''and'' l e, r)"
proof -
  have "left_loop (notExpression (booleanExpression n)) [tokenAnd] (\<lambda>_. BooleanNode ''and'')
      (Suc (length (t # us))) l (t # us) = Inr (BooleanNode ''and'' l e, r)"
    using assms not_atom [OF assms(2)]
    by (simp only: length_Cons, intro left_loop_one) (auto simp: closing_check)
  with assms not_atom [OF assms(1)]
  have "andExpression (booleanExpression n) ts = Inr (BooleanNode ''and'' l e, r)"
    by (simp add: andExpression_def del: left_loop.simps)
  with assms show ?thesis by (intro booleanExpression_atom) (simp_all add: closing_check)
qed

lemma boolean_or:
  assumes "primary (booleanExpression n) ts = Inr (l, t # us)" "primary (booleanExpression n) us = Inr (e, r)"
    and "closing r" "tok_type t = tokenOr"
  shows "booleanExpression (Suc n) ts = Inr (BooleanNode ''or'' l e, r)"
proof -
  have l: "andExpression (booleanExpression n) ts = Inr (l, t # us)"
    using assms not_atom [OF assms(1)] by (intro andExpression_atom) auto
  have "andExpression (booleanExpression n) us = Inr (e, r)"
    using assms not_atom [OF assms(2)] by (intro andExpression_atom) (auto simp: closing_check)
  with assms have "left_loop (andExpression (booleanExpression n)) [tokenOr] (\<lambda>_. BooleanNode ''or'')
      (Suc (length (t # us))) l (t # us) = Inr (BooleanNode ''or'' l e, r)"
    by (simp only: length_Cons, intro left_loop_one) (auto simp: closing_check)
  with l show ?thesis by (simp del: left_loop.simps)
qed

text \<open>Parentheses, ternaries and argument lists.\<close>

lemma primary_paren:
  assumes "booleanExpression n ts = Inr (e, close_paren # r)"
  shows "primary (booleanExpression n) (open_paren # ts) = Inr (e, r)"
  using assms by (simp add: primary_def parse_expr_def consume_def)

lemma primary_ternary:
  assumes "booleanExpression n ts = Inr (a, t # us)" "booleanExpression n us = Inr (c, u # vs)"
    and "booleanExpression n vs = Inr (e, close_paren # r)"
    and "tok_type t = tokenIf" "tok_type u = tokenElse"
  shows "primary (booleanExpression n) (open_paren # ts) = Inr (TernaryNode c a e, r)"
  using assms by (simp add: primary_def parse_expr_def consume_def)

lemma print_tokens_start:
  "tok_check [tokenNumber, tokenIdentifier, tokenIf, tokenLeftParen] (print_tokens e @ r)"
  by (cases e) (auto simp: text_token_def operator_tokens_def)

lemma print_tokens_not_Nil [simp]: "print_tokens e \<noteq> []"
  by (cases e) auto

lemma commas_length:
  "\<forall>ts \<in> set tss. ts \<noteq> [] \<Longrightarrow> length tss \<le> length (commas tss)"
  "ts \<in> set tss \<Longrightarrow> length ts \<le> length (commas tss)"
  by (induction tss rule: commas.induct) (auto simp: Suc_le_eq)

lemma arg_loop_print:
  assumes "\<And>a x. a \<in> set args \<Longrightarrow> closing x \<Longrightarrow> p (print_tokens a @ x) = Inr (a, x)"
    and "args \<noteq> []" and "length args \<le> n"
  shows "arg_loop p n acc (commas (map print_tokens args) @ close_paren # r) = Inr (acc @ args, close_paren # r)"
  using assms
proof (induction args arbitrary: acc n)
  case (Cons a as)
  then obtain m where n: "n = Suc m" by (cases n) auto
  show ?case
  proof (cases as)
    case Nil
    with Cons.prems(1) [of a "close_paren # r"] show ?thesis by (simp add: n)
  next
    case (Cons b bs)
    with Cons.prems(1) [of a "symbol tokenComma '','' # commas (map print_tokens as) @ close_paren # r"]
      Cons.IH [of m "acc @ [a]"] Cons.prems n
    show ?thesis by simp
  qed
qed simp

lemma callArguments_print:
  assumes "\<And>a x. a \<in> set args \<Longrightarrow> closing x \<Longrightarrow> p (print_tokens a @ x) = Inr (a, x)"
  shows "callArguments p (commas (map print_tokens args) @ close_paren # r) = Inr (args, r)"
proof (cases args)
  case Nil
  then show ?thesis by (simp add: callArguments_def consume_def)
next
  case (Cons a as)
  let ?ts = "commas (map print_tokens args) @ close_paren # r"
  obtain x where "?ts = print_tokens a @ x" using Cons by (cases as) auto
  then have "tok_check [tokenNumber, tokenIdentifier, tokenIf, tokenLeftParen] ?ts"
    using print_tokens_start [of a x] by (simp only:)
  then have "\<not> tok_check [tokenRightParen] ?ts" by (cases ?ts) auto
  moreover have "length args \<le> Suc (length ?ts)"
    using commas_length(1) [of "map print_tokens args"] by simp
  then have "arg_loop p (Suc (length ?ts)) [] ?ts = Inr (args, close_paren # r)"
    using arg_loop_print [OF assms, of args "Suc (length ?ts)" "[]" r] Cons by simp
  ultimately show ?thesis by (simp add: callArguments_def consume_def del: arg_loop.simps)
qed

lemma text_token_type [simp]: "tok_type (text_token s) = the (map_of operator_tokens s)"
  by (simp add: text_token_def)

lemma text_token_value [simp]: "tok_value (text_token s) = s"
  by (simp add: text_token_def)

lemma primary_print:
  "printable e \<Longrightarrow> length (print_tokens e) \<le> n \<Longrightarrow> \<not> tok_check [tokenLeftParen] r \<Longrightarrow>
   primary (booleanExpression n) (print_tokens e @ r) = Inr (e, r)"
proof (induction e arbitrary: n r)
  case (NumberNode v)
  then show ?case by (simp add: primary_def)
next
  case (IdentifierNode v)
  then show ?case by (simp add: primary_def)
next
  case (BinaryNode op a b)
  then obtain m where n: "n = Suc m" by (cases n) auto
  let ?P = "booleanExpression m"
  have "primary ?P (print_tokens a @ text_token op # print_tokens b @ close_paren # r) =
      Inr (a, text_token op # print_tokens b @ close_paren # r)"
    using BinaryNode n by (auto simp: operator_tokens_def add_texts_def mul_texts_def)
  moreover have "primary ?P (print_tokens b @ close_paren # r) = Inr (b, close_paren # r)"
    using BinaryNode n by auto
  ultimately have "booleanExpression (Suc m) (print_tokens a @ text_token op # print_tokens b @ close_paren # r) =
      Inr (BinaryNode op a b, close_paren # r)"
    using BinaryNode.prems(1) boolean_add [of m _ a "text_token op"] boolean_mul [of m _ a "text_token op"]
    by (auto simp: operator_tokens_def add_texts_def mul_texts_def simp del: booleanExpression.simps)
  from primary_paren [OF this] show ?case by (simp add: n del: booleanExpression.simps)
next
  case (UnaryNode op a)
  then obtain m where n: "n = Suc m" by (cases n) auto
  have "primary (booleanExpression m) (print_tokens a @ close_paren # r) = Inr (a, close_paren # r)"
    using UnaryNode n by auto
  then have "booleanExpression (Suc m) (text_token op # print_tokens a @ close_paren # r) =
      Inr (UnaryNode op a, close_paren # r)"
    using UnaryNode.prems(1) boolean_sign [of m _ a _ "text_token op"] boolean_not [of m _ a _ "text_token op"]
    by (auto simp: operator_tokens_def add_texts_def simp del: booleanExpression.simps)
  from primary_paren [OF this] show ?case by (simp add: n del: booleanExpression.simps)
next
  case (BooleanNode op a b)
  then obtain m where n: "n = Suc m" by (cases n) auto
  let ?P = "booleanExpression m"
  have "primary ?P (print_tokens a @ text_token op # print_tokens b @ close_paren # r) =
      Inr (a, text_token op # print_tokens b @ close_paren # r)"
    using BooleanNode n by (auto simp: operator_tokens_def)
  moreover have "primary ?P (print_tokens b @ close_paren # r) = Inr (b, close_paren # r)"
    using BooleanNode n by auto
  ultimately have "booleanExpression (Suc m) (print_tokens a @ text_token op # print_tokens b @ close_paren # r) =
      Inr (BooleanNode op a b, close_paren # r)"
    using BooleanNode.prems(1) boolean_and [of m _ a "text_token op"] boolean_or [of m _ a "text_token op"]
    by (auto simp: operator_tokens_def simp del: booleanExpression.simps)
  from primary_paren [OF this] show ?case by (simp add: n del: booleanExpression.simps)
next
  case (ComparisonNode op a b)
  then obtain m where n: "n = Suc m" by (cases n) auto
  let ?P = "booleanExpression m"
  let ?op = "if op = ''not in'' then [text_token ''not'', text_token ''in''] else [text_token op]"
  have "primary ?P (print_tokens a @ ?op @ print_tokens b @ close_paren # r) =
      Inr (a, ?op @ print_tokens b @ close_paren # r)"
    using ComparisonNode n by (auto simp: operator_tokens_def cmp_texts_def)
  moreover have "primary ?P (print_tokens b @ close_paren # r) = Inr (b, close_paren # r)"
    using ComparisonNode n by auto
  ultimately have "booleanExpression (Suc m) (print_tokens a @ ?op @ print_tokens b @ close_paren # r) =
      Inr (ComparisonNode op a b, close_paren # r)"
  proof (cases "op = ''not in''")
    case True
    assume "primary ?P (print_tokens a @ ?op @ print_tokens b @ close_paren # r) =
      Inr (a, ?op @ print_tokens b @ close_paren # r)"
      and b: "primary ?P (print_tokens b @ close_paren # r) = Inr (b, close_paren # r)"
    moreover have "tok_type (text_token ''not'') = tokenNot" "tok_type (text_token ''in'') = tokenIn"
      by (simp_all add: operator_tokens_def)
    ultimately show ?thesis
      using True boolean_not_in [of m _ a "text_token ''not''" "text_token ''in''", OF _ b]
      by (simp del: booleanExpression.simps text_token_type)
  next
    case False
    assume a: "primary ?P (print_tokens a @ ?op @ print_tokens b @ close_paren # r) =
      Inr (a, ?op @ print_tokens b @ close_paren # r)"
      and b: "primary ?P (print_tokens b @ close_paren # r) = Inr (b, close_paren # r)"
    have "tok_type (text_token op) \<in> set comparison_tokens"
      using False ComparisonNode.prems(1) by (auto simp: operator_tokens_def cmp_texts_def)
    with boolean_cmp [of m _ a "text_token op", OF _ b] a show ?thesis
      using False by (simp del: booleanExpression.simps text_token_type)
  qed
  from primary_paren [OF this] show ?case by (simp add: n del: booleanExpression.simps)
next
  case (TernaryNode c a e)
  then obtain m where n: "n = Suc m" by (cases n) auto
  have b: "booleanExpression (Suc m) (print_tokens x @ y) = Inr (x, y)"
    if "primary (booleanExpression m) (print_tokens x @ y) = Inr (x, y)" "closing y" for x y
    using boolean_atom [OF that] .
  have "closing (text_token ''if'' # y)" "closing (text_token ''else'' # y)" for y
    by (simp_all add: operator_tokens_def)
  then have "booleanExpression (Suc m) (print_tokens a @ text_token ''if'' # y) = Inr (a, text_token ''if'' # y)"
    "booleanExpression (Suc m) (print_tokens c @ text_token ''else'' # y) = Inr (c, text_token ''else'' # y)"
    "booleanExpression (Suc m) (print_tokens e @ close_paren # y) = Inr (e, close_paren # y)" for y
    using TernaryNode n by (auto intro!: b simp del: booleanExpression.simps simp: operator_tokens_def)
  from primary_ternary [OF this] show ?case
    by (simp add: n operator_tokens_def del: booleanExpression.simps)
next
  case (CallNode name args)
  then obtain m where n: "n = Suc m" by (cases n) auto
  have "booleanExpression (Suc m) (print_tokens a @ x) = Inr (a, x)" if "a \<in> set args" "closing x" for a x
  proof -
    have "length (print_tokens a) \<le> m"
      using commas_length(2) [of "print_tokens a" "map print_tokens args"] that CallNode.prems(2) n by simp
    moreover have "\<not> tok_check [tokenLeftParen] x" using that(2) by (simp add: closing_check)
    ultimately show ?thesis
      using CallNode.IH [OF that(1)] CallNode.prems(1) that by (intro boolean_atom) (auto simp: list_all_iff)
  qed
  then have "callArguments (booleanExpression (Suc m)) (commas (map print_tokens args) @ close_paren # r) = Inr (args, r)"
    by (rule callArguments_print)
  with CallNode.prems(1) show ?case
    by (simp add: n primary_def operator_tokens_def del: booleanExpression.simps)
qed

lemma parse_print_tokens:
  assumes "printable e"
  shows "parse_tokens (print_tokens e) = Inr (e, [])"
proof -
  have "primary (booleanExpression (length (print_tokens e))) (print_tokens e @ []) = Inr (e, [])"
    using assms by (intro primary_print) simp_all
  then have "booleanExpression (Suc (length (print_tokens e))) (print_tokens e) = Inr (e, [])"
    by (intro boolean_atom) (simp_all add: closing_def)
  then show ?thesis by (simp add: parse_tokens_def parse_expr_def del: booleanExpression.simps)
qed

section \<open>Properties\<close>

text \<open>
  C24. The parser of pricing expressions returns on every token sequence: the fuel it is started
  with is never exhausted, whatever the nesting, so each outcome is a tree or a reported error,
  and where it succeeds it has read at least one token.
\<close>

theorem parser_terminates:
  "parse_tokens ts \<noteq> Inl OutOfFuel \<and>
   (\<forall>node rest. parse_tokens ts = Inr (node, rest) \<longrightarrow> length rest < length ts)"
  using parse_tokens_total by blast

theorem parser_terminates_witness:
  "length (snd (NumberNode ''1'', [close_paren])) < length [symbol tokenNumber ''1'', close_paren]"
proof -
  have "parse_tokens [symbol tokenNumber ''1'', close_paren] = Inr (NumberNode ''1'', [close_paren])"
    by code_simp
  with parser_terminates [of "[symbol tokenNumber ''1'', close_paren]"] show ?thesis by auto
qed

text \<open>
  C25. Printing a tree with parentheses around every operator and parsing the tokens gives the
  tree back, for every tree built from the operators and functions of the language: each
  precedence level, the left-associative loops, ternaries, calls and both spellings of \<open>if\<close>
  are reached.
\<close>

theorem parse_print_roundtrip:
  assumes "printable e"
  shows "parse_tokens (print_tokens e) = Inr (e, [])"
  by (rule parse_print_tokens [OF assms])

theorem parse_print_roundtrip_witness:
  "parse_tokens (print_tokens (CallNode ''max'' [BinaryNode ''*'' (IdentifierNode ''n'') (NumberNode ''2''),
     ComparisonNode ''not in'' (NumberNode ''1'') (IdentifierNode ''m'')])) =
   Inr (CallNode ''max'' [BinaryNode ''*'' (IdentifierNode ''n'') (NumberNode ''2''),
     ComparisonNode ''not in'' (NumberNode ''1'') (IdentifierNode ''m'')], [])"
  by (rule parse_print_roundtrip)
     (simp add: mul_texts_def add_texts_def cmp_texts_def allowedExpressionFunctions_def)

end
