(* ===== verification/Expr_Eval.thy ===== *)
theory Expr_Eval
  imports Expr_Parser
begin

text \<open>
  The pricing expression language, second half of \<open>src/golang/expr.go\<close>: the variables of an
  expression, its evaluation with exact decimals, the built-in functions, and the two exported
  operations \<open>ValidateExpression\<close> and \<open>EvaluateExpression\<close>. A slice index out of range, which
  panics in Go, is the error \<open>index_panic\<close>; it is proved not to occur in an expression that
  passed the arity check of the parser.
\<close>

section \<open>Variables\<close>

text \<open>The set of variables is a \<open>map[string]struct{}\<close>: its list of entries stands for the
  order in which Go ranges over it, on which only the choice of the reported variable depends.\<close>

fun collectExpressionVariables :: "expressionNode \<Rightarrow> unit gomap \<Rightarrow> unit gomap" where
  "collectExpressionVariables (IdentifierNode name) variables = map_put name () variables"
| "collectExpressionVariables (UnaryNode _ operand) variables =
     collectExpressionVariables operand variables"
| "collectExpressionVariables (BinaryNode _ left right) variables =
     collectExpressionVariables right (collectExpressionVariables left variables)"
| "collectExpressionVariables (CallNode _ args) variables =
     fold collectExpressionVariables args variables"
| "collectExpressionVariables (TernaryNode condition after otherwise) variables =
     collectExpressionVariables otherwise
       (collectExpressionVariables after (collectExpressionVariables condition variables))"
| "collectExpressionVariables (ComparisonNode _ left right) variables =
     collectExpressionVariables right (collectExpressionVariables left variables)"
| "collectExpressionVariables (BooleanNode _ left right) variables =
     collectExpressionVariables right (collectExpressionVariables left variables)"
| "collectExpressionVariables (NumberNode _) variables = variables"

definition validateExpressionVariables :: "expressionNode \<Rightarrow> amount gomap \<Rightarrow> go_error option" where
  "validateExpressionVariables node variables =
     first_error (\<lambda>(variable, _).
         if has_key variables variable then None
         else Some (newExpressionError (''undefined variable: '' @ quoted variable) None))
       (collectExpressionVariables node [])"

definition ValidateExpression :: "decimal_pkg \<Rightarrow> string \<Rightarrow> string list \<Rightarrow> go_error option" where
  "ValidateExpression D expression knownVariables =
     (case parsePricingExpression D expression of
        Inl e \<Rightarrow> Some e
      | Inr node \<Rightarrow>
          let variables = collectExpressionVariables node [] in
          if length variables = 0
          then Some (newExpressionError
            ''expression references no variables -- must use at least one metric'' None)
          else first_error (\<lambda>(variable, _).
                 if variable \<in> set knownVariables then None
                 else Some (newExpressionError (''unknown variable: '' @ quoted variable) None))
               variables)"

lemma first_error_member: "first_error f xs = Some e \<Longrightarrow> \<exists>x \<in> set xs. f x = Some e"
  by (induction xs) (auto split: option.splits)

section \<open>Built-in functions\<close>

definition index_panic :: go_error where
  "index_panic = PlainError ''runtime error: index out of range'' []"

definition slice_at :: "'a list \<Rightarrow> int \<Rightarrow> go_error + 'a" where
  "slice_at xs i = (if 0 \<le> i \<and> i < int (length xs) then Inr (xs ! nat i) else Inl index_panic)"

text \<open>The conversion \<open>int32(n)\<close>, which keeps the low 32 bits.\<close>

definition int32 :: "int \<Rightarrow> int" where
  "int32 n = (n + 2 ^ 31) mod 2 ^ 32 - 2 ^ 31"

definition requireArg :: "string \<Rightarrow> amount list \<Rightarrow> nat \<Rightarrow> go_error + amount" where
  "requireArg name args index =
     (if length args \<le> index
      then Inl (newExpressionError (name @ ''() received an invalid number of arguments'') None)
      else Inr (args ! index))"

text \<open>The loop of \<open>tier\<close> over pairs of a threshold and a rate; the last argument is the default.\<close>

fun tier_loop :: "amount \<Rightarrow> amount list \<Rightarrow> amount option" where
  "tier_loop v (threshold # rate # rest) =
     (if rest = [] then None else if v < threshold then Some rate else tier_loop v rest)"
| "tier_loop v _ = None"

definition percentile_call :: "decimal_pkg \<Rightarrow> amount \<Rightarrow> amount list \<Rightarrow> go_error + amount" where
  "percentile_call D percentage rest =
     (if percentage < 0 \<or> percentage > 100
      then Inl (newExpressionError ''percentile() p must be between 0 and 100'' None)
      else let values = sort rest in
        if length values = 1 then slice_at values 0
        else bind_err (decimalDiv D percentage 100) (\<lambda>rank.
          let rank = rank * of_int (int (length values) - 1);
              lower = dec_floor D rank;
              lowerIndex = dec_int_part D lower;
              upperIndex = (if lowerIndex + 1 \<ge> int (length values) then int (length values) - 1
                            else lowerIndex + 1);
              fraction = rank - lower
          in bind_err (slice_at values lowerIndex) (\<lambda>low.
             bind_err (slice_at values upperIndex) (\<lambda>high.
               Inr (low * (1 - fraction) + high * fraction)))))"

definition evaluateExpressionCall :: "decimal_pkg \<Rightarrow> string \<Rightarrow> amount list \<Rightarrow> go_error + amount" where
  "evaluateExpressionCall D name args =
     (if name = ''ceil'' then bind_err (requireArg name args 0) (\<lambda>v. Inr (dec_ceil D v))
      else if name = ''floor'' then bind_err (requireArg name args 0) (\<lambda>v. Inr (dec_floor D v))
      else if name = ''min'' \<or> name = ''max'' then
        (case args of
           [] \<Rightarrow> Inl (newExpressionError (name @ ''() requires at least 1 argument'') None)
         | a # rest \<Rightarrow>
             Inr (fold (\<lambda>candidate v.
               if (name = ''min'' \<and> candidate < v) \<or> (name = ''max'' \<and> candidate > v)
               then candidate else v) rest a))
      else if name = ''round'' then
        bind_err (requireArg name args 0) (\<lambda>v.
          let places = (if length args = 2 then int32 (dec_int_part D (args ! 1)) else 0)
          in Inr (dec_round D v places))
      else if name = ''if'' then
        bind_err (requireArg name args 0) (\<lambda>condition.
          if condition = 0 then requireArg name args 2 else requireArg name args 1)
      else if name = ''tier'' then
        bind_err (requireArg name args 0) (\<lambda>v.
          case tier_loop v (tl args) of
            Some rate \<Rightarrow> Inr rate
          | None \<Rightarrow> Inr (last args))
      else if name = ''clamp'' then
        bind_err (requireArg name args 0) (\<lambda>v.
        bind_err (requireArg name args 1) (\<lambda>minimum.
        bind_err (requireArg name args 2) (\<lambda>maximum.
          Inr (if v < minimum then minimum else if v > maximum then maximum else v))))
      else if name = ''percentile'' then
        bind_err (requireArg name args 0) (\<lambda>percentage. percentile_call D percentage (tl args))
      else Inl (newExpressionError (''disallowed function: '' @ name) None))"

section \<open>Evaluation\<close>

definition truth :: "bool \<Rightarrow> amount" where
  "truth b = (if b then 1 else 0)"

definition unary_value :: "string \<Rightarrow> amount \<Rightarrow> amount" where
  "unary_value op v =
     (if op = ''-'' then - v
      else if op = ''not'' then (if v = 0 then 1 else 0)
      else v)"

definition binary_value :: "decimal_pkg \<Rightarrow> string \<Rightarrow> amount \<Rightarrow> amount \<Rightarrow> go_error + amount" where
  "binary_value D op left right =
     (if op = ''+'' then Inr (left + right)
      else if op = ''-'' then Inr (left - right)
      else if op = ''*'' then Inr (left * right)
      else if op = ''/'' then decimalDiv D left right
      else if op = ''//'' then decimalTruncDiv D left right
      else if op = ''%'' then
        (if right = 0 then Inl (newExpressionError ''modulo by zero'' None)
         else Inr (dec_mod D left right))
      else Inl (newExpressionError ''invalid expression node'' None))"

definition compare_values :: "decimal_pkg \<Rightarrow> string \<Rightarrow> amount \<Rightarrow> amount \<Rightarrow> bool" where
  "compare_values D op left right =
     (if op = ''=='' then left = right
      else if op = ''!='' then left \<noteq> right
      else if op = ''<'' then left < right
      else if op = ''<='' then left \<le> right
      else if op = ''>'' then left > right
      else if op = ''>='' then left \<ge> right
      else if op = ''in'' then sublist (dec_to_string D right) (dec_to_string D left)
      else if op = ''not in'' then \<not> sublist (dec_to_string D right) (dec_to_string D left)
      else False)"

fun evaluateExpressionNode :: "decimal_pkg \<Rightarrow> expressionNode \<Rightarrow> amount gomap \<Rightarrow> go_error + amount" where
  "evaluateExpressionNode D (NumberNode v) variables =
     (case dec_from_string D v of
        None \<Rightarrow> Inl (newExpressionError ''invalid number literal'' (Some (PlainError ''decimal'' [])))
      | Some parsed \<Rightarrow> Inr parsed)"
| "evaluateExpressionNode D (IdentifierNode name) variables =
     Inr (case map_of variables name of Some v \<Rightarrow> v | None \<Rightarrow> 0)"
| "evaluateExpressionNode D (UnaryNode op operand) variables =
     bind_err (evaluateExpressionNode D operand variables) (\<lambda>operand. Inr (unary_value op operand))"
| "evaluateExpressionNode D (BinaryNode op left right) variables =
     bind_err (evaluateExpressionNode D left variables) (\<lambda>left.
     bind_err (evaluateExpressionNode D right variables) (\<lambda>right. binary_value D op left right))"
| "evaluateExpressionNode D (ComparisonNode op left right) variables =
     bind_err (evaluateExpressionNode D left variables) (\<lambda>left.
     bind_err (evaluateExpressionNode D right variables) (\<lambda>right.
       Inr (truth (compare_values D op left right))))"
| "evaluateExpressionNode D (BooleanNode op left right) variables =
     bind_err (evaluateExpressionNode D left variables) (\<lambda>l.
       if op = ''and'' then
         (if l = 0 then Inr l else evaluateExpressionNode D right variables)
       else if l \<noteq> 0 then Inr l
       else evaluateExpressionNode D right variables)"
| "evaluateExpressionNode D (TernaryNode condition after otherwise) variables =
     bind_err (evaluateExpressionNode D condition variables) (\<lambda>c.
       if c = 0 then evaluateExpressionNode D otherwise variables
       else evaluateExpressionNode D after variables)"
| "evaluateExpressionNode D (CallNode name args) variables =
     bind_err (map_err (\<lambda>argumentNode. evaluateExpressionNode D argumentNode variables) args)
       (\<lambda>arguments. evaluateExpressionCall D name arguments)"

definition EvaluateExpression :: "decimal_pkg \<Rightarrow> string \<Rightarrow> amount gomap \<Rightarrow> go_error + amount" where
  "EvaluateExpression D expression variables =
     (if length variables = 0
      then Inl (newExpressionError ''cannot evaluate: variables dict is empty'' None)
      else bind_err (parsePricingExpression D expression) (\<lambda>node.
        case validateExpressionVariables node variables of
          Some e \<Rightarrow> Inl e
        | None \<Rightarrow> evaluateExpressionNode D node variables))"

section \<open>The variables of an expression\<close>

text \<open>The variables as a set, by structural recursion, and the walk computes it.\<close>

fun vars_of :: "expressionNode \<Rightarrow> string set" where
  "vars_of (NumberNode _) = {}"
| "vars_of (IdentifierNode name) = {name}"
| "vars_of (UnaryNode _ e) = vars_of e"
| "vars_of (BinaryNode _ l r) = vars_of l \<union> vars_of r"
| "vars_of (CallNode _ args) = (\<Union>a \<in> set args. vars_of a)"
| "vars_of (TernaryNode c a e) = vars_of c \<union> vars_of a \<union> vars_of e"
| "vars_of (ComparisonNode _ l r) = vars_of l \<union> vars_of r"
| "vars_of (BooleanNode _ l r) = vars_of l \<union> vars_of r"

lemma keys_put [simp]: "fst ` set (map_put k v m) = insert k (fst ` set m)"
  unfolding dom_map_of_conv_image_fst [symmetric] by simp

lemma fold_keys:
  assumes "\<And>x m. x \<in> set xs \<Longrightarrow> fst ` set (f x m) = V x \<union> fst ` set m"
  shows "fst ` set (fold f xs m) = (\<Union>x \<in> set xs. V x) \<union> fst ` set m"
  using assms by (induction xs arbitrary: m) auto

lemma collect_keys: "fst ` set (collectExpressionVariables e m) = vars_of e \<union> fst ` set m"
  by (induction e arbitrary: m) (simp_all add: fold_keys Un_ac insert_is_Un [symmetric])

lemma collect_wf [simp]: "map_wf m \<Longrightarrow> map_wf (collectExpressionVariables e m)"
proof (induction e arbitrary: m)
  case (CallNode name args)
  then show ?case
  proof (induction args arbitrary: m)
    case (Cons a as)
    then show ?case by auto
  qed simp
qed auto

lemma validateExpressionVariables_None:
  "validateExpressionVariables e m = None \<longleftrightarrow> vars_of e \<subseteq> fst ` set m"
proof -
  have "validateExpressionVariables e m = None \<longleftrightarrow>
      (\<forall>k \<in> fst ` set (collectExpressionVariables e []). has_key m k)"
    by (auto simp: validateExpressionVariables_def split: if_splits prod.splits)
  then show ?thesis by (auto simp: collect_keys has_key_iff)
qed

lemma evaluate_frame:
  "(\<And>k. k \<in> vars_of e \<Longrightarrow> map_of m k = map_of m' k) \<Longrightarrow>
   evaluateExpressionNode D e m = evaluateExpressionNode D e m'"
proof (induction e)
  case (CallNode name args)
  then have "map_err (\<lambda>a. evaluateExpressionNode D a m) args = map_err (\<lambda>a. evaluateExpressionNode D a m') args"
    by (intro map_err_cong) auto
  then show ?case by simp
qed (simp_all cong: if_cong)

section \<open>Built-in functions, on every number of arguments they accept\<close>

definition is_expression_error :: "go_error \<Rightarrow> bool" where
  "is_expression_error e \<longleftrightarrow>
     (case AsBursarError e of Some b \<Rightarrow> Code b = ErrorCodeExpression | None \<Rightarrow> False)"

lemma newExpressionError_is [simp]: "is_expression_error (newExpressionError m c)"
  by (simp add: is_expression_error_def newExpressionError_def firstErrorCode_def)

lemma index_panic_is_not [simp]: "\<not> is_expression_error index_panic"
  by (simp add: is_expression_error_def index_panic_def)

text \<open>Results whose error, if there is one, is an expression error.\<close>

definition fails_cleanly :: "go_error + 'a \<Rightarrow> bool" where
  "fails_cleanly r \<longleftrightarrow> (\<forall>e. r = Inl e \<longrightarrow> is_expression_error e)"

lemma clean_Inr: "fails_cleanly (Inr x)"
  by (simp add: fails_cleanly_def)

lemma clean_error: "fails_cleanly (Inl (newExpressionError m c))"
  by (simp add: fails_cleanly_def)

lemma clean_bind:
  "fails_cleanly r \<Longrightarrow> (\<And>x. r = Inr x \<Longrightarrow> fails_cleanly (f x)) \<Longrightarrow> fails_cleanly (bind_err r f)"
  by (auto simp: fails_cleanly_def bind_err_Inl_iff)

lemma clean_if:
  "(b \<Longrightarrow> fails_cleanly x) \<Longrightarrow> (\<not> b \<Longrightarrow> fails_cleanly y) \<Longrightarrow> fails_cleanly (if b then x else y)"
  by simp

lemma clean_option:
  "(x = None \<Longrightarrow> fails_cleanly r) \<Longrightarrow> (\<And>a. x = Some a \<Longrightarrow> fails_cleanly (f a)) \<Longrightarrow>
   fails_cleanly (case x of None \<Rightarrow> r | Some a \<Rightarrow> f a)"
  by (cases x) auto

lemma clean_list:
  "(xs = [] \<Longrightarrow> fails_cleanly r) \<Longrightarrow> (\<And>y ys. xs = y # ys \<Longrightarrow> fails_cleanly (f y ys)) \<Longrightarrow>
   fails_cleanly (case xs of [] \<Rightarrow> r | y # ys \<Rightarrow> f y ys)"
  by (cases xs) auto

lemmas clean_intros = clean_Inr clean_error clean_bind clean_if clean_option clean_list

lemma clean_map:
  "(\<And>x. x \<in> set xs \<Longrightarrow> fails_cleanly (f x)) \<Longrightarrow> fails_cleanly (map_err f xs)"
  by (induction xs) (auto intro!: clean_intros)

lemma convex_bounds:
  fixes a b f :: rat
  assumes "0 \<le> f" "f \<le> 1" "l \<le> a" "a \<le> u" "l \<le> b" "b \<le> u"
  shows "l \<le> a * (1 - f) + b * f" "a * (1 - f) + b * f \<le> u"
proof -
  have "l * (1 - f) + l * f \<le> a * (1 - f) + b * f"
    using assms by (intro add_mono mult_right_mono) auto
  then show "l \<le> a * (1 - f) + b * f" by (simp add: algebra_simps)
  have "a * (1 - f) + b * f \<le> u * (1 - f) + u * f"
    using assms by (intro add_mono mult_right_mono) auto
  then show "a * (1 - f) + b * f \<le> u" by (simp add: algebra_simps)
qed

lemma toward_zero_of_int [simp]: "toward_zero (of_int k) = k"
  using floor_of_int [of "- k", where 'a = rat] by (simp add: toward_zero_def)

lemma min_max_call:
  "evaluateExpressionCall D ''min'' (a # xs) = Inr (Min (set (a # xs)))"
  "evaluateExpressionCall D ''max'' (a # xs) = Inr (Max (set (a # xs)))"
proof -
  have "(\<lambda>c v :: amount. if c < v then c else v) = min" "(\<lambda>c v :: amount. if v < c then c else v) = max"
    by (auto simp: min_def max_def fun_eq_iff)
  then show "evaluateExpressionCall D ''min'' (a # xs) = Inr (Min (set (a # xs)))"
    "evaluateExpressionCall D ''max'' (a # xs) = Inr (Max (set (a # xs)))"
    unfolding Min.set_eq_fold Max.set_eq_fold by (simp_all add: evaluateExpressionCall_def)
qed

lemma clamp_call:
  "evaluateExpressionCall D ''clamp'' [v, lo, hi] =
     Inr (if v < lo then lo else if v > hi then hi else v)"
  by (simp add: evaluateExpressionCall_def requireArg_def)

lemma tier_call:
  assumes "length rates \<noteq> 0"
  shows "evaluateExpressionCall D ''tier'' (v # concat (map (\<lambda>(t, r). [t, r]) rates) @ [d]) =
    Inr (case find (\<lambda>(t, r). v < t) rates of Some (t, r) \<Rightarrow> r | None \<Rightarrow> d)"
proof -
  have "tier_loop v (concat (map (\<lambda>(t, r). [t, r]) rates) @ [d]) =
      map_option snd (find (\<lambda>(t, r). v < t) rates)"
    by (induction rates) auto
  then show ?thesis
    by (auto simp: evaluateExpressionCall_def requireArg_def split: option.splits)
qed

context decimal_package
begin

lemma rank_bounds:
  assumes "0 \<le> p" "p \<le> 100"
  shows "0 \<le> round_away (p / 100) 32" "round_away (p / 100) 32 \<le> 1"
proof -
  show "0 \<le> round_away (p / 100) 32"
    using round_away_mono [of 0 "p / 100" 32] assms by simp
  have "round_away 1 32 = 1" using round_away_grid [of "10 ^ 32" 32] by simp
  then show "round_away (p / 100) 32 \<le> 1"
    using round_away_mono [of "p / 100" 1 32] assms by simp
qed

text \<open>A percentile of a non-empty list exists and lies between its extremes.\<close>

lemma percentile_value:
  assumes p: "0 \<le> p" "p \<le> 100" and xs: "xs \<noteq> []" "length xs < 2 ^ 63"
  shows "\<exists>v. percentile_call D p xs = Inr v \<and> Min (set xs) \<le> v \<and> v \<le> Max (set xs)"
proof (cases "length xs = 1")
  case True
  then obtain x where "xs = [x]" by (cases xs) auto
  with p show ?thesis by (simp add: percentile_call_def slice_at_def)
next
  case False
  let ?n = "length xs" and ?s = "sort xs"
  define rank where "rank = round_away (p / 100) 32 * (of_nat ?n - 1)"
  define k where "k = \<lfloor>rank\<rfloor>"
  define u where "u = (if k + 1 \<ge> int ?n then int ?n - 1 else k + 1)"
  have n: "1 < ?n" using False xs(1) by (cases xs) auto
  then have n1: "(0 :: rat) \<le> of_nat ?n - 1" by simp
  have "0 \<le> rank" "rank \<le> 1 * (of_nat ?n - 1)"
    unfolding rank_def using rank_bounds [OF p] n1
    by (intro mult_nonneg_nonneg mult_right_mono; simp)+
  then have k: "0 \<le> k" "k < int ?n" and "0 \<le> u" "u < int ?n"
    unfolding k_def u_def using n by (auto simp: floor_le_iff le_floor_iff) linarith+
  have f: "0 \<le> rank - of_int k" "rank - of_int k \<le> 1" unfolding k_def by linarith+
  have ip: "dec_int_part D (of_int k) = k"
  proof -
    have "\<bar>of_int k :: rat\<bar> < 2 ^ 63" using k xs(2) by (simp add: abs_if)
    from int_part_spec [OF this] show ?thesis by simp
  qed
  have "slice_at ?s k = Inr (?s ! nat k)" "slice_at ?s u = Inr (?s ! nat u)"
    using k \<open>0 \<le> u\<close> \<open>u < int ?n\<close> by (simp_all add: slice_at_def)
  then have "percentile_call D p xs =
      Inr (?s ! nat k * (1 - (rank - of_int k)) + ?s ! nat u * (rank - of_int k))"
    using p n ip False
    by (simp add: percentile_call_def Let_def decimalDiv_def div_round_spec floor_spec
        rank_def [symmetric] k_def [symmetric]) (auto simp: u_def split: if_splits)
  moreover have "?s ! nat k \<in> set xs" "?s ! nat u \<in> set xs"
    using k \<open>0 \<le> u\<close> \<open>u < int ?n\<close> by (metis nat_less_iff length_sort nth_mem set_sort)+
  ultimately show ?thesis
    using convex_bounds [OF f, of "Min (set xs)" _ "Max (set xs)"] by auto
qed

lemma percentile_clean:
  assumes "xs \<noteq> []" "length xs < 2 ^ 63"
  shows "fails_cleanly (percentile_call D p xs)"
proof (cases "0 \<le> p \<and> p \<le> 100")
  case True
  with percentile_value [OF _ _ assms] show ?thesis by (metis clean_Inr)
next
  case False
  then show ?thesis by (auto simp: percentile_call_def intro: clean_intros)
qed

lemma division_clean:
  "fails_cleanly (decimalDiv D x y)" "fails_cleanly (decimalTruncDiv D x y)"
  unfolding decimalTruncDiv_def decimalDiv_def by (intro clean_intros)+

lemma call_clean:
  assumes "call_arity_error name (length args) = None" "length args < 2 ^ 63"
  shows "fails_cleanly (evaluateExpressionCall D name args)"
proof -
  have "fails_cleanly (requireArg name args i)" for i
    unfolding requireArg_def by (intro clean_intros)
  moreover have "tl args \<noteq> []" if "name = ''percentile''"
    using assms(1) that by (cases args) (auto simp: call_arity_error_def split: if_splits)
  ultimately show ?thesis
    unfolding evaluateExpressionCall_def Let_def
    using assms(2) by (intro clean_intros percentile_clean) simp_all
qed

lemma evaluate_clean:
  "validateExpressionCalls e = None \<Longrightarrow> size e < 2 ^ 63 \<Longrightarrow>
   fails_cleanly (evaluateExpressionNode D e m)"
proof (induction e)
  case (CallNode name args)
  have sz: "size a < size (CallNode name args)" if "a \<in> set args" for a
    using size_list_estimation' [OF that order_refl, of size] by simp
  have len: "length xs = length args" if "map_err (\<lambda>a. evaluateExpressionNode D a m) args = Inr xs" for xs
    using that by (auto simp: map_err_Inr_iff dest: list_all2_lengthD)
  have "length args \<le> size_list size args" by (induction args) auto
  then have n: "length args < 2 ^ 63" using CallNode.prems(2) by simp
  from CallNode.prems(1) have ar: "call_arity_error name (length args) = None"
    and sub: "\<forall>a \<in> set args. validateExpressionCalls a = None"
    by (auto split: option.splits)
  have "fails_cleanly (map_err (\<lambda>a. evaluateExpressionNode D a m) args)"
    using CallNode.IH sub sz CallNode.prems(2) by (intro clean_map) (meson order_less_trans)
  with len ar n show ?case by (auto intro!: clean_intros call_clean)
next
  case (BinaryNode op l r)
  then show ?case
    by (auto simp: binary_value_def split: option.splits intro!: clean_intros division_clean)
qed (auto split: option.splits intro!: clean_intros)

end

section \<open>Properties\<close>

lemma parsePricingExpression_calls:
  "parsePricingExpression D s = Inr node \<Longrightarrow> validateExpressionCalls node = None"
proof -
  assume "parsePricingExpression D s = Inr node"
  then obtain ts where "(case parse_tokens ts of Inl (ParseError e) \<Rightarrow> Inl e | Inl OutOfFuel \<Rightarrow> Inl out_of_fuel
      | Inr (node, rest) \<Rightarrow>
          if rest \<noteq> []
          then Inl (newExpressionError
            (''unexpected token after expression: '' @ quoted (tok_value (hd rest))) None)
          else (case validateExpressionCalls node of Some e \<Rightarrow> Inl e | None \<Rightarrow> Inr node)) = Inr node"
    unfolding parsePricingExpression_def bind_err_Inr_iff by blast
  then show "validateExpressionCalls node = None"
    by (cases "parse_tokens ts") (auto split: parse_stop.splits if_splits option.splits)
qed

text \<open>
  C26. Evaluating an expression that parsed either gives a value or an expression error: no call
  reaches an argument it does not have, and the interpolation of \<open>percentile\<close> never indexes
  outside its values, for every assignment of the variables. (The bound on the size of the tree
  says that its argument lists fit in memory, which every Go slice does.)
\<close>

theorem evaluation_never_panics:
  assumes "decimal_package D" and "parsePricingExpression D s = Inr node" and "size node < 2 ^ 63"
    and "evaluateExpressionNode D node m = Inl e"
  shows "is_expression_error e"
  using decimal_package.evaluate_clean [OF assms(1) parsePricingExpression_calls [OF assms(2)] assms(3)]
    assms(4)
  by (simp add: fails_cleanly_def)

theorem evaluation_never_panics_witness:
  "evaluateExpressionNode ref_decimal (BinaryNode ''/'' (IdentifierNode ''n'') (NumberNode ''0'')) [] =
     Inl (newExpressionError ''division by zero'' None) \<and>
   is_expression_error (newExpressionError ''division by zero'' None)"
proof -
  have p: "parsePricingExpression ref_decimal ''n/0'' =
      Inr (BinaryNode ''/'' (IdentifierNode ''n'') (NumberNode ''0''))"
    by code_simp
  have e: "evaluateExpressionNode ref_decimal (BinaryNode ''/'' (IdentifierNode ''n'') (NumberNode ''0'')) [] =
      Inl (newExpressionError ''division by zero'' None)"
    by code_simp
  show ?thesis
    using evaluation_never_panics [OF ref.decimal_package_axioms p _ e] e by simp
qed

text \<open>
  An expression that \<open>ValidateExpression\<close> accepts for a list of known metrics evaluates
  without an undefined variable wherever those metrics are given: \<open>EvaluateExpression\<close> is then
  the value of the parsed tree, and it depends on no variable but those of the tree.
\<close>

theorem validated_expression_evaluates:
  assumes "ValidateExpression D s known = None" and "set known \<subseteq> fst ` set m"
  shows "\<exists>node. parsePricingExpression D s = Inr node \<and>
    EvaluateExpression D s m = evaluateExpressionNode D node m \<and>
    (\<forall>m'. (\<forall>k \<in> set known. map_of m' k = map_of m k) \<longrightarrow>
      EvaluateExpression D s m' = EvaluateExpression D s m)"
proof -
  from assms(1) obtain node where node: "parsePricingExpression D s = Inr node"
    by (auto simp: ValidateExpression_def split: sum.splits)
  with assms(1) have ne: "collectExpressionVariables node [] \<noteq> []"
    and known: "\<forall>k \<in> fst ` set (collectExpressionVariables node []). k \<in> set known"
    by (auto simp: ValidateExpression_def Let_def split: if_splits prod.splits)
  then have vs: "vars_of node \<subseteq> set known" "vars_of node \<noteq> {}"
    using collect_keys [of node "[]"] by auto
  have ev: "EvaluateExpression D s m' = evaluateExpressionNode D node m'"
    if "set known \<subseteq> fst ` set m'" for m'
  proof -
    have "validateExpressionVariables node m' = None" "m' \<noteq> []"
      using vs that by (auto simp: validateExpressionVariables_None)
    with node show ?thesis by (simp add: EvaluateExpression_def)
  qed
  have "EvaluateExpression D s m' = EvaluateExpression D s m"
    if eq: "\<forall>k \<in> set known. map_of m' k = map_of m k" for m'
  proof -
    have "set known \<subseteq> fst ` set m'"
    proof
      fix k assume k: "k \<in> set known"
      with assms(2) have "map_of m k \<noteq> None" by (auto simp: map_of_eq_None_iff)
      with eq k have "map_of m' k \<noteq> None" by simp
      then show "k \<in> fst ` set m'" by (simp add: map_of_eq_None_iff)
    qed
    moreover have "evaluateExpressionNode D node m' = evaluateExpressionNode D node m"
      using vs(1) eq by (intro evaluate_frame) auto
    ultimately show ?thesis using ev assms(2) by simp
  qed
  with node ev assms(2) show ?thesis by blast
qed

theorem validated_expression_evaluates_witness:
  "EvaluateExpression ref_decimal ''n+1'' [(''n'', 4), (''m'', 9)] =
   EvaluateExpression ref_decimal ''n+1'' [(''n'', 4)]"
proof -
  have v: "ValidateExpression ref_decimal ''n+1'' [''n''] = None" by code_simp
  have k: "set [''n''] \<subseteq> fst ` set [(''n'', 4 :: amount)]" by simp
  have "\<forall>x \<in> set [''n'']. map_of [(''n'', 4), (''m'', 9)] x = map_of [(''n'', 4 :: amount)] x" by simp
  with validated_expression_evaluates [OF v k] show ?thesis by (elim exE conjE allE impE)
qed

text \<open>
  The built-in functions on the argument counts the parser admits: \<open>min\<close> and \<open>max\<close> are
  the extremes of their arguments, \<open>clamp\<close> stays within its bounds, \<open>tier\<close> takes the rate of the
  first threshold above the value and the default when there is none, and a percentile lies
  between the smallest and the largest of its values.
\<close>

theorem builtin_functions:
  assumes "decimal_package D" and "rates \<noteq> []" and "lo \<le> hi"
    and "0 \<le> p" "p \<le> 100" "length (a # xs) < 2 ^ 63"
  shows "evaluateExpressionCall D ''min'' (a # xs) = Inr (Min (set (a # xs))) \<and>
    evaluateExpressionCall D ''max'' (a # xs) = Inr (Max (set (a # xs))) \<and>
    (\<exists>c. evaluateExpressionCall D ''clamp'' [v, lo, hi] = Inr c \<and> lo \<le> c \<and> c \<le> hi \<and>
       (lo \<le> v \<and> v \<le> hi \<longrightarrow> c = v)) \<and>
    evaluateExpressionCall D ''tier'' (v # concat (map (\<lambda>(t, r). [t, r]) rates) @ [d]) =
      Inr (case find (\<lambda>(t, r). v < t) rates of Some (t, r) \<Rightarrow> r | None \<Rightarrow> d) \<and>
    (\<exists>q. evaluateExpressionCall D ''percentile'' (p # a # xs) = Inr q \<and>
       Min (set (a # xs)) \<le> q \<and> q \<le> Max (set (a # xs)))"
proof (intro conjI)
  show "\<exists>q. evaluateExpressionCall D ''percentile'' (p # a # xs) = Inr q \<and>
      Min (set (a # xs)) \<le> q \<and> q \<le> Max (set (a # xs))"
    using decimal_package.percentile_value [OF assms(1,4,5) _ assms(6)]
    by (simp add: evaluateExpressionCall_def requireArg_def)
qed (use assms(2,3) min_max_call tier_call in \<open>auto simp: clamp_call\<close>)

theorem builtin_functions_witness:
  "evaluateExpressionCall ref_decimal ''max'' [3, 7] = Inr (Max (set [3, 7])) \<and>
   (\<exists>q. evaluateExpressionCall ref_decimal ''percentile'' [50, 3, 7] = Inr q \<and>
      Min (set [3, 7]) \<le> q \<and> q \<le> Max (set [3, 7]))"
  using builtin_functions [OF ref.decimal_package_axioms, of "[(0, 0)]" 0 1 50 3 "[7]" 0 0] by simp

end
