(* ===== verification/Pricing_Config.thy ===== *)
theory Pricing_Config
  imports Config_Values Expr_Eval
begin

text \<open>
  Parsing and validating the \<open>pricing\<close> section of a configuration, \<open>src/golang/config.go\<close>:
  matchers, tiers, charges, operations, rate cards and their inheritance; the resolution of an
  operation through a chain of rate cards; and the canonical form of the section.
\<close>

section \<open>Matchers\<close>

definition decimal_error :: go_error where
  "decimal_error = PlainError ''decimal'' []"

definition configMatcherDecimal :: "decimal_pkg \<Rightarrow> goval \<Rightarrow> string \<Rightarrow> go_error + amount" where
  "configMatcherDecimal D v path =
     (case v of
        VStr s \<Rightarrow>
          (case dec_from_string D s of
             None \<Rightarrow> Inl (newConfigError (path @ '' must be a decimal'') (Some decimal_error))
           | Some parsed \<Rightarrow> Inr parsed)
      | VNum s \<Rightarrow>
          (case dec_from_string D s of
             None \<Rightarrow> Inl (newConfigError (path @ '' must be a decimal'') (Some decimal_error))
           | Some parsed \<Rightarrow> Inr parsed)
      | VInt n \<Rightarrow> Inr (of_int n)
      | VFloat None \<Rightarrow> Inl (newConfigError (path @ '' must be finite'') None)
      | VFloat (Some (_, text)) \<Rightarrow>
          (case dec_from_string D text of None \<Rightarrow> Inl decimal_error | Some parsed \<Rightarrow> Inr parsed)
      | _ \<Rightarrow> Inl (newConfigError (path @ '' must be a decimal string or number'') None))"

definition parseMatcherScalar ::
  "decimal_pkg \<Rightarrow> goval \<Rightarrow> DimensionDefinition \<Rightarrow> string \<Rightarrow> go_error + MatcherScalar" where
  "parseMatcherScalar D v definition path =
     (if dim_Type definition = ''boolean'' then
        bind_err (configBool v (path @ '' matcher values'')) (\<lambda>b. Inr (VBool b))
      else if dim_Type definition = ''number'' then
        bind_err (configMatcherDecimal D v (path @ '' matcher values'')) (\<lambda>x. Inr (VDec x))
      else if dim_Type definition = ''string'' then
        bind_err (configString v (path @ '' matcher values'')) (\<lambda>s. Inr (VStr s))
      else Inl (newConfigError (path @ '' references an invalid dimension type'') None))"

definition optional_bound ::
  "decimal_pkg \<Rightarrow> goval gomap \<Rightarrow> string \<Rightarrow> string \<Rightarrow> go_error + amount option" where
  "optional_bound D raw path key =
     (if raw_set raw key
      then bind_err (configDecimal D (raw_get raw key) (path @ ''.'' @ key)) (\<lambda>x. Inr (Some x))
      else Inr None)"

definition check_range :: "DimensionMatcher \<Rightarrow> string \<Rightarrow> go_error + DimensionMatcher" where
  "check_range matcher path =
     (if dm_GT matcher = None \<and> dm_GTE matcher = None \<and> dm_LT matcher = None \<and> dm_LTE matcher = None
      then Inl (newConfigError (path @ '' range matcher requires at least one bound'') None)
      else if dm_GT matcher \<noteq> None \<and> dm_GTE matcher \<noteq> None
      then Inl (newConfigError (path @ '' range matcher cannot combine gt and gte'') None)
      else if dm_LT matcher \<noteq> None \<and> dm_LTE matcher \<noteq> None
      then Inl (newConfigError (path @ '' range matcher cannot combine lt and lte'') None)
      else
        let lower = (case dm_GT matcher of None \<Rightarrow> dm_GTE matcher | Some x \<Rightarrow> Some x);
            upper = (case dm_LT matcher of None \<Rightarrow> dm_LTE matcher | Some x \<Rightarrow> Some x)
        in case (lower, upper) of
             (Some l, Some u) \<Rightarrow>
               if \<not> l < u
               then Inl (newConfigError (path @ '' range matcher lower bound must be less than upper bound'') None)
               else Inr matcher
           | _ \<Rightarrow> Inr matcher)"

text \<open>The four bounds are read in the order of a \<open>range\<close> over a map, which Go leaves open; the
  order chosen here decides only which of several bad bounds is reported.\<close>

definition parseDimensionMatcher ::
  "decimal_pkg \<Rightarrow> goval \<Rightarrow> DimensionDefinition \<Rightarrow> string \<Rightarrow> go_error + DimensionMatcher" where
  "parseDimensionMatcher D v definition path =
     bind_err (configObject v path) (\<lambda>raw.
     bind_err (configString (raw_get raw ''op'') (path @ ''.op'')) (\<lambda>op.
       let matcher = new_matcher op in
       if op = ''eq'' then
         bind_err (parseMatcherScalar D (raw_get raw ''value'') definition path) (\<lambda>parsed.
           Inr (matcher\<lparr>dm_Value := parsed\<rparr>))
       else if op = ''in'' \<or> op = ''not_in'' then
         bind_err (configArray (raw_get raw ''values'') (path @ ''.values'')) (\<lambda>items.
         bind_err (map_indexed (\<lambda>index item.
             parseMatcherScalar D item definition (indexed_path (path @ ''.values'') index)) items) (\<lambda>parsed.
           Inr (matcher\<lparr>dm_Values := parsed\<rparr>)))
       else if op = ''prefix'' then
         guard_err (dim_Type definition = ''string'')
           (newConfigError (path @ '' prefix matcher requires a string dimension'') None)
           (bind_err (configString (raw_get raw ''value'') (path @ ''.value'')) (\<lambda>parsed.
             Inr (matcher\<lparr>dm_Value := VStr parsed\<rparr>)))
       else if op = ''range'' then
         guard_err (dim_Type definition = ''number'')
           (newConfigError (path @ '' range matcher requires a number dimension'') None)
           (bind_err (optional_bound D raw path ''gt'') (\<lambda>gt.
            bind_err (optional_bound D raw path ''gte'') (\<lambda>gte.
            bind_err (optional_bound D raw path ''lt'') (\<lambda>lt.
            bind_err (optional_bound D raw path ''lte'') (\<lambda>lte.
              check_range (matcher\<lparr>dm_GT := gt, dm_GTE := gte, dm_LT := lt, dm_LTE := lte\<rparr>) path)))))
       else Inl (newConfigError (path @ ''.op is invalid'') None)))"

section \<open>Tiers and charges\<close>

definition tiers_end_error :: go_error where
  "tiers_end_error =
     newConfigError ''graduated and volume tiers must end with exactly one open-ended tier'' None"

definition parse_tier :: "decimal_pkg \<Rightarrow> string \<Rightarrow> nat \<Rightarrow> goval \<Rightarrow> go_error + GraduatedTier" where
  "parse_tier D path index input =
     (let tierPath = indexed_path path index in
      bind_err (configObject input tierPath) (\<lambda>raw.
      bind_err (configDecimal D (raw_get raw ''rate'') (tierPath @ ''.rate'')) (\<lambda>rate.
      bind_err (optional_bound D raw tierPath ''up_to'') (\<lambda>upTo.
        Inr \<lparr>gt_UpTo = upTo, gt_Rate = rate\<rparr>))))"

text \<open>The loop over \<open>tiers[:len(tiers)-1]\<close>, with the previous bound.\<close>

fun check_tier_bounds :: "amount option \<Rightarrow> GraduatedTier list \<Rightarrow> go_error option" where
  "check_tier_bounds previous [] = None"
| "check_tier_bounds previous (t # ts) =
     (case gt_UpTo t of
        None \<Rightarrow> Some tiers_end_error
      | Some bound \<Rightarrow>
          if (case previous of None \<Rightarrow> False | Some p \<Rightarrow> \<not> p < bound)
          then Some (newConfigError ''graduated and volume tier bounds must be strictly increasing'' None)
          else check_tier_bounds (Some bound) ts)"

definition parseTiers :: "decimal_pkg \<Rightarrow> goval \<Rightarrow> string \<Rightarrow> go_error + GraduatedTier list" where
  "parseTiers D v path =
     bind_err (configArray v path) (\<lambda>inputs.
     bind_err (map_indexed (parse_tier D path) inputs) (\<lambda>tiers.
       if tiers = [] \<or> gt_UpTo (last tiers) \<noteq> None then Inl tiers_end_error
       else case check_tier_bounds None (butlast tiers) of
              Some e \<Rightarrow> Inl e
            | None \<Rightarrow> Inr tiers))"

definition new_charge :: "string \<Rightarrow> Charge" where
  "new_charge t = Charge t 0 [] 0 0 0 [] [] [] []"

definition decimal_or ::
  "decimal_pkg \<Rightarrow> goval gomap \<Rightarrow> string \<Rightarrow> string \<Rightarrow> amount \<Rightarrow> go_error + amount" where
  "decimal_or D raw path key fallback =
     (if raw_set raw key then configDecimal D (raw_get raw key) (path @ ''.'' @ key) else Inr fallback)"

definition string_or ::
  "goval gomap \<Rightarrow> string \<Rightarrow> string \<Rightarrow> string \<Rightarrow> go_error + string" where
  "string_or raw path key fallback =
     (if raw_set raw key then configString (raw_get raw key) (path @ ''.'' @ key) else Inr fallback)"

lemma map_indexed_cong [fundef_cong]:
  "xs = ys \<Longrightarrow> (\<And>i x. x \<in> set ys \<Longrightarrow> f i x = g i x) \<Longrightarrow> map_indexed f xs = map_indexed g ys"
  unfolding map_indexed_def by (intro map_err_cong) (auto simp: enumerate_eq_zip dest: set_zip_rightD)

function parseCharge :: "decimal_pkg \<Rightarrow> goval \<Rightarrow> string \<Rightarrow> nat \<Rightarrow> go_error + Charge" where
  "parseCharge D v path depth =
     (if depth > 64
      then Inl (newConfigError (path @ '' exceeds the maximum nested charge depth'') None)
      else bind_err (configObject v path) (\<lambda>raw.
        bind_err (configString (raw_get raw ''type'') (path @ ''.type'')) (\<lambda>typeValue.
          if typeValue = ''flat'' then
            bind_err (configDecimal D (raw_get raw ''amount'') (path @ ''.amount'')) (\<lambda>a.
              Inr (Charge typeValue a [] 0 0 0 [] [] [] []))
          else if typeValue = ''per_unit'' then
            bind_err (configString (raw_get raw ''measure'') (path @ ''.measure'')) (\<lambda>measure.
            bind_err (configDecimal D (raw_get raw ''rate'') (path @ ''.rate'')) (\<lambda>rate.
            bind_err (decimal_or D raw path ''unit_size'' 1) (\<lambda>unitSize.
              guard_err (unitSize > 0)
                (newConfigError (path @ ''.unit_size must be greater than zero'') None)
                (Inr (Charge typeValue 0 measure rate unitSize 0 [] [] [] [])))))
          else if typeValue = ''package'' then
            bind_err (configString (raw_get raw ''measure'') (path @ ''.measure'')) (\<lambda>measure.
            bind_err (configDecimal D (raw_get raw ''units'') (path @ ''.units'')) (\<lambda>units.
            bind_err (configDecimal D (raw_get raw ''amount'') (path @ ''.amount'')) (\<lambda>a.
            bind_err (string_or raw path ''rounding'' ''ceil'') (\<lambda>rounding.
              guard_err (units > 0)
                (newConfigError (path @ ''.units must be greater than zero'') None)
                (Inr (Charge typeValue a measure 0 0 units rounding [] [] []))))))
          else if typeValue = ''graduated'' \<or> typeValue = ''volume'' then
            bind_err (configString (raw_get raw ''measure'') (path @ ''.measure'')) (\<lambda>measure.
            bind_err (parseTiers D (raw_get raw ''tiers'') (path @ ''.tiers'')) (\<lambda>tiers.
              Inr (Charge typeValue 0 measure 0 0 0 [] tiers [] [])))
          else if typeValue = ''expression'' then
            bind_err (configString (raw_get raw ''formula'') (path @ ''.formula'')) (\<lambda>formula.
              Inr (Charge typeValue 0 [] 0 0 0 [] [] formula []))
          else if typeValue = ''sum'' then
            bind_err (configArray (raw_get raw ''components'') (path @ ''.components'')) (\<lambda>inputs.
            bind_err (map_indexed (\<lambda>index input.
                parseCharge D input (indexed_path (path @ ''.components'') index) (depth + 1)) inputs) (\<lambda>components.
              Inr (Charge typeValue 0 [] 0 0 0 [] [] [] components)))
          else Inl (newConfigError (''unsupported charge type '' @ quoted typeValue) None))))"
  by pat_completeness auto
termination
  by (relation "measure (\<lambda>(D, v, path, depth). 65 - depth)") auto

declare parseCharge.simps [simp del]

fun chargeMeasures :: "Charge \<Rightarrow> unit gomap \<Rightarrow> unit gomap" where
  "chargeMeasures (Charge ty a me rate us un ro ti fo components) result =
     fold chargeMeasures components
       (if me \<noteq> [] then map_put me () result else result)"

fun validateExpressionCharge ::
  "decimal_pkg \<Rightarrow> string list \<Rightarrow> Charge \<Rightarrow> go_error option" where
  "validateExpressionCharge D known (Charge ty a me rate us un ro ti formula components) =
     (case (if ty = ''expression'' then ValidateExpression D formula known else None) of
        Some e \<Rightarrow> Some e
      | None \<Rightarrow> first_error (validateExpressionCharge D known) components)"

definition validatePricingCharge ::
  "decimal_pkg \<Rightarrow> Charge \<Rightarrow> OperationDefinition \<Rightarrow> string \<Rightarrow> go_error option" where
  "validatePricingCharge D charge definition operationKey =
     (case first_error (\<lambda>(measure, _).
          if has_key (od_Measures definition) measure then None
          else Some (newConfigError (''pricing for operation '' @ quoted operationKey @
                 '' references undeclared measures '' @ measure) None))
        (chargeMeasures charge []) of
        Some e \<Rightarrow> Some e
      | None \<Rightarrow>
          validateExpressionCharge D (sort_by str_less (map_keys (od_Measures definition))) charge)"

section \<open>Operations and rate cards\<close>

text \<open>A loop that fills a map from the entries of another.\<close>

definition map_entries :: "(string \<Rightarrow> 'a \<Rightarrow> 'e + 'b) \<Rightarrow> 'a gomap \<Rightarrow> 'e + 'b gomap" where
  "map_entries f m = map_err (\<lambda>(k, v). bind_err (f k v) (\<lambda>w. Inr (k, w))) m"

definition in_key_order :: "goval gomap \<Rightarrow> goval gomap" where
  "in_key_order m = map (\<lambda>k. (k, raw_get m k)) (sortedConfigKeys m)"

definition parse_measure :: "string \<Rightarrow> string \<Rightarrow> goval \<Rightarrow> go_error + MeasureDefinition" where
  "parse_measure path name v =
     bind_err (configObject v (path @ ''.measures.'' @ name)) (\<lambda>definition.
     bind_err (configString (raw_get definition ''unit'') (path @ ''.measures.'' @ name @ ''.unit'')) (\<lambda>unit.
     bind_err (option_err (validateConfigIdentifier unit (path @ ''.measures.'' @ name @ ''.unit''))) (\<lambda>_.
       Inr \<lparr>mea_Unit = unit\<rparr>)))"

definition parse_dimension ::
  "string \<Rightarrow> string \<Rightarrow> MeasureDefinition gomap \<Rightarrow> string \<Rightarrow> goval \<Rightarrow> go_error + DimensionDefinition" where
  "parse_dimension path operationKey declared name v =
     guard_err (\<not> has_key declared name)
       (newConfigError (''operation '' @ quoted operationKey @ '' reuses names as measures and dimensions'') None)
       (bind_err (configObject v (path @ ''.dimensions.'' @ name)) (\<lambda>definition.
        bind_err (configString (raw_get definition ''type'') (path @ ''.dimensions.'' @ name @ ''.type'')) (\<lambda>typeValue.
        bind_err (if raw_set definition ''required''
                  then configBool (raw_get definition ''required'') (path @ ''.dimensions.'' @ name @ ''.required'')
                  else Inr True) (\<lambda>required.
          Inr \<lparr>dim_Type = typeValue, dim_Required = required\<rparr>))))"

definition parse_operation :: "string \<Rightarrow> goval \<Rightarrow> go_error + OperationDefinition" where
  "parse_operation operationKey v =
     (let path = ''pricing.operations.'' @ operationKey in
      bind_err (configObject v path) (\<lambda>operationRaw.
      bind_err (configMap operationRaw ''measures'' (path @ ''.measures'')) (\<lambda>measuresRaw.
      bind_err (configMap operationRaw ''dimensions'' (path @ ''.dimensions'')) (\<lambda>dimensionsRaw.
      bind_err (validateConfigIdentifiers measuresRaw (path @ ''.measures'')) (\<lambda>_.
      bind_err (validateConfigIdentifiers dimensionsRaw (path @ ''.dimensions'')) (\<lambda>_.
      guard_err (measuresRaw \<noteq> []) (newConfigError (path @ ''.measures must not be empty'') None)
        (bind_err (map_entries (parse_measure path) measuresRaw) (\<lambda>measures.
         bind_err (map_entries (parse_dimension path operationKey measures) dimensionsRaw) (\<lambda>dimensions.
           Inr \<lparr>od_Measures = measures, od_Dimensions = dimensions\<rparr>)))))))))"

definition parse_checked_charge ::
  "decimal_pkg \<Rightarrow> OperationDefinition \<Rightarrow> string \<Rightarrow> goval \<Rightarrow> string \<Rightarrow> go_error + Charge" where
  "parse_checked_charge D definition operationKey v path =
     bind_err (parseCharge D v path 0) (\<lambda>charge.
     bind_err (option_err (validatePricingCharge D charge definition operationKey)) (\<lambda>_. Inr charge))"

definition parse_rule ::
  "decimal_pkg \<Rightarrow> OperationDefinition \<Rightarrow> string \<Rightarrow> string \<Rightarrow> nat \<Rightarrow> goval \<Rightarrow> go_error + PriceRule" where
  "parse_rule D definition operationKey operationPath index ruleInput =
     (let rulePath = indexed_path (operationPath @ ''.rules'') index in
      bind_err (configObject ruleInput rulePath) (\<lambda>ruleRaw.
      bind_err (configObject (raw_get ruleRaw ''when'') (rulePath @ ''.when'')) (\<lambda>whenRaw.
      bind_err (map_entries (\<lambda>name matcherInput.
          case map_of (od_Dimensions definition) name of
            None \<Rightarrow> Inl (newConfigError (rulePath @ '' matches undeclared dimension '' @ quoted name) None)
          | Some dimension \<Rightarrow>
              parseDimensionMatcher D matcherInput dimension (rulePath @ ''.when.'' @ name)) whenRaw) (\<lambda>when.
      bind_err (parse_checked_charge D definition operationKey (raw_get ruleRaw ''charge'') (rulePath @ ''.charge'')) (\<lambda>charge.
        Inr \<lparr>pr_When = when, pr_Charge = charge\<rparr>)))))"

definition parse_unmatched ::
  "decimal_pkg \<Rightarrow> OperationDefinition \<Rightarrow> string \<Rightarrow> string \<Rightarrow> goval gomap \<Rightarrow> go_error + UnmatchedPolicy" where
  "parse_unmatched D definition operationKey operationPath operationRaw =
     bind_err (configObject (raw_get operationRaw ''unmatched'') (operationPath @ ''.unmatched'')) (\<lambda>unmatchedRaw.
     bind_err (configString (raw_get unmatchedRaw ''action'') (operationPath @ ''.unmatched.action'')) (\<lambda>action.
       if action = ''charge'' then
         bind_err (parse_checked_charge D definition operationKey (raw_get unmatchedRaw ''charge'')
             (operationPath @ ''.unmatched.charge'')) (\<lambda>charge.
           Inr \<lparr>un_Action = action, un_Charge = Some charge\<rparr>)
       else Inr \<lparr>un_Action = action, un_Charge = None\<rparr>))"

definition parse_operation_pricing ::
  "decimal_pkg \<Rightarrow> OperationDefinition gomap \<Rightarrow> string \<Rightarrow> string \<Rightarrow> goval \<Rightarrow> go_error + OperationPricing" where
  "parse_operation_pricing D operations cardKey operationKey input =
     (case map_of operations operationKey of
        None \<Rightarrow> Inl (newConfigError (''rate card '' @ quoted cardKey @ '' references unknown operation '' @
                 quoted operationKey) None)
      | Some definition \<Rightarrow>
          let operationPath = ''pricing.rate_cards.'' @ cardKey @ ''.operations.'' @ operationKey in
          bind_err (configObject input operationPath) (\<lambda>operationRaw.
          bind_err (if raw_set operationRaw ''rules''
                    then configArray (raw_get operationRaw ''rules'') (operationPath @ ''.rules'')
                    else Inr []) (\<lambda>rulesRaw.
          bind_err (map_indexed (parse_rule D definition operationKey operationPath) rulesRaw) (\<lambda>rules.
          bind_err (parse_unmatched D definition operationKey operationPath operationRaw) (\<lambda>unmatched.
            Inr \<lparr>op_Rules = rules, op_Unmatched = unmatched\<rparr>)))))"

definition parse_rate_card ::
  "decimal_pkg \<Rightarrow> OperationDefinition gomap \<Rightarrow> string \<Rightarrow> goval \<Rightarrow> go_error + RateCard" where
  "parse_rate_card D operations cardKey v =
     (let path = ''pricing.rate_cards.'' @ cardKey in
      bind_err (configObject v path) (\<lambda>cardRaw.
      bind_err (configOptionalString cardRaw ''extends'' (path @ ''.extends'')) (\<lambda>extends.
      bind_err (configMap cardRaw ''operations'' (path @ ''.operations'')) (\<lambda>operationPricesRaw.
      bind_err (map_entries (parse_operation_pricing D operations cardKey) operationPricesRaw) (\<lambda>operationPrices.
        Inr \<lparr>rc_Extends = extends, rc_Operations = operationPrices\<rparr>)))))"

section \<open>Inheritance of rate cards\<close>

lemma unseen_decreases:
  assumes "map_of m k = Some v" and "k \<notin> S"
  shows "card (fst ` set m - insert k S) < card (fst ` set m - S)"
proof (rule psubset_card_mono)
  have "k \<in> fst ` set m" using assms(1) by (force dest: map_of_SomeD)
  with assms(2) show "fst ` set m - insert k S \<subset> fst ` set m - S" by blast
qed simp

text \<open>
  The recursive \<open>visit\<close> of \<open>validateRateCardInheritance\<close>. It returns the set \<open>visited\<close>; the set
  \<open>visiting\<close> is passed down, which is what adding a key before the recursive call and deleting
  it after the call comes to.
\<close>

function visit_card ::
  "RateCard gomap \<Rightarrow> string list \<Rightarrow> string list \<Rightarrow> string \<Rightarrow> go_error + string list" where
  "visit_card cards visiting visited key =
     (if key \<in> set visiting
      then Inl (newConfigError (''pricing rate-card inheritance cycle includes '' @ quoted key) None)
      else if key \<in> set visited then Inr visited
      else case map_of cards key of
             None \<Rightarrow> Inl (newConfigError (''unknown rate card '' @ quoted key) None)
           | Some c \<Rightarrow>
               (case rc_Extends c of
                  None \<Rightarrow> Inr (key # visited)
                | Some parent \<Rightarrow>
                    bind_err (visit_card cards (key # visiting) visited parent) (\<lambda>visited.
                      Inr (key # visited))))"
  by pat_completeness auto
termination
  by (relation "measure (\<lambda>(cards, visiting, visited, key). card (fst ` set cards - set visiting))")
     (auto intro: unseen_decreases)

declare visit_card.simps [simp del]

fun visit_all :: "RateCard gomap \<Rightarrow> string list \<Rightarrow> string list \<Rightarrow> go_error + string list" where
  "visit_all cards visited [] = Inr visited"
| "visit_all cards visited (key # keys) =
     bind_err (visit_card cards [] visited key) (\<lambda>visited. visit_all cards visited keys)"

definition validateRateCardInheritance :: "PricingConfig \<Rightarrow> go_error + unit" where
  "validateRateCardInheritance pricing =
     bind_err (visit_all (pc_RateCards pricing) [] (map_keys (pc_RateCards pricing))) (\<lambda>_. Inr ())"

definition parsePricing :: "decimal_pkg \<Rightarrow> goval \<Rightarrow> go_error + PricingConfig" where
  "parsePricing D v =
     bind_err (configObject v ''pricing'') (\<lambda>raw.
     bind_err (configMap raw ''operations'' ''pricing.operations'') (\<lambda>operationsRaw.
     bind_err (configMap raw ''rate_cards'' ''pricing.rate_cards'') (\<lambda>cardsRaw.
     bind_err (validateConfigIdentifiers operationsRaw ''pricing.operations'') (\<lambda>_.
     bind_err (validateConfigIdentifiers cardsRaw ''pricing.rate_cards'') (\<lambda>_.
     guard_err (\<not> (operationsRaw = [] \<or> cardsRaw = []))
       (newConfigError ''pricing.operations and pricing.rate_cards must not be empty'' None)
       (bind_err (map_entries parse_operation (in_key_order operationsRaw)) (\<lambda>operations.
        bind_err (map_entries (parse_rate_card D operations) (in_key_order cardsRaw)) (\<lambda>rateCards.
          let pricing = \<lparr>pc_Operations = operations, pc_RateCards = rateCards\<rparr> in
          bind_err (validateRateCardInheritance pricing) (\<lambda>_. Inr pricing)))))))))"

text \<open>The loop of \<open>ResolvesOperation\<close>; \<open>seen\<close> grows with every turn.\<close>

function resolves_loop :: "RateCard gomap \<Rightarrow> string \<Rightarrow> string list \<Rightarrow> string \<Rightarrow> bool" where
  "resolves_loop cards operation seen key =
     (if key = [] then False
      else if key \<in> set seen then False
      else case map_of cards key of
             None \<Rightarrow> False
           | Some c \<Rightarrow>
               if has_key (rc_Operations c) operation then True
               else (case rc_Extends c of
                       None \<Rightarrow> False
                     | Some parent \<Rightarrow> resolves_loop cards operation (key # seen) parent))"
  by pat_completeness auto
termination
  by (relation "measure (\<lambda>(cards, operation, seen, key). card (fst ` set cards - set seen))")
     (auto intro: unseen_decreases)

declare resolves_loop.simps [simp del]

definition ResolvesOperation :: "PricingConfig option \<Rightarrow> string \<Rightarrow> string \<Rightarrow> bool" where
  "ResolvesOperation pricing cardKey operation =
     (case pricing of None \<Rightarrow> False | Some p \<Rightarrow> resolves_loop (pc_RateCards p) operation [] cardKey)"

section \<open>The canonical form\<close>

definition amountConfigString :: "decimal_pkg \<Rightarrow> amount \<Rightarrow> string" where
  "amountConfigString D v = dec_string_fixed D (QuantizeMoney D v) MoneyDecimalPlaces"

abbreviation amount_value :: "decimal_pkg \<Rightarrow> amount \<Rightarrow> goval" where
  "amount_value D v \<equiv> VStr (amountConfigString D v)"

definition canonicalMatcherScalar :: "decimal_pkg \<Rightarrow> MatcherScalar \<Rightarrow> goval" where
  "canonicalMatcherScalar D v = (case v of VDec a \<Rightarrow> amount_value D a | _ \<Rightarrow> v)"

definition canonicalMatcher :: "decimal_pkg \<Rightarrow> DimensionMatcher \<Rightarrow> goval" where
  "canonicalMatcher D v =
     (let result = [(''op'', VStr (dm_Op v))] in
      VObj (if dm_Op v = ''eq'' \<or> dm_Op v = ''prefix'' then
              map_put ''value'' (canonicalMatcherScalar D (dm_Value v)) result
            else if dm_Op v = ''in'' \<or> dm_Op v = ''not_in'' then
              map_put ''values'' (VArr (map (canonicalMatcherScalar D) (dm_Values v))) result
            else if dm_Op v = ''range'' then
              put_some ''lte'' (amount_value D) (dm_LTE v) (put_some ''lt'' (amount_value D) (dm_LT v)
                (put_some ''gte'' (amount_value D) (dm_GTE v) (put_some ''gt'' (amount_value D) (dm_GT v) result)))
            else result))"

definition canonical_tier :: "decimal_pkg \<Rightarrow> GraduatedTier \<Rightarrow> goval" where
  "canonical_tier D t =
     VObj (put_some ''up_to'' (amount_value D) (gt_UpTo t) [(''rate'', amount_value D (gt_Rate t))])"

fun canonicalCharge :: "decimal_pkg \<Rightarrow> Charge \<Rightarrow> goval" where
  "canonicalCharge D (Charge ty am me rate us un ro ti fo co) =
     VObj ((''type'', VStr ty) #
       (if ty = ''flat'' then [(''amount'', amount_value D am)]
        else if ty = ''per_unit'' then
          [(''measure'', VStr me), (''rate'', amount_value D rate), (''unit_size'', amount_value D us)]
        else if ty = ''package'' then
          [(''measure'', VStr me), (''units'', amount_value D un), (''amount'', amount_value D am),
           (''rounding'', VStr ro)]
        else if ty = ''graduated'' \<or> ty = ''volume'' then
          [(''measure'', VStr me), (''tiers'', VArr (map (canonical_tier D) ti))]
        else if ty = ''expression'' then [(''formula'', VStr fo)]
        else if ty = ''sum'' then [(''components'', VArr (map (canonicalCharge D) co))]
        else []))"

definition canonical_rule :: "decimal_pkg \<Rightarrow> PriceRule \<Rightarrow> goval" where
  "canonical_rule D rule =
     VObj [(''when'', VObj (map (\<lambda>(name, matcher). (name, canonicalMatcher D matcher)) (pr_When rule))),
           (''charge'', canonicalCharge D (pr_Charge rule))]"

definition canonical_operation_price :: "decimal_pkg \<Rightarrow> OperationPricing \<Rightarrow> goval" where
  "canonical_operation_price D price =
     VObj [(''rules'', VArr (map (canonical_rule D) (op_Rules price))),
           (''unmatched'', VObj (put_some ''charge'' (canonicalCharge D) (un_Charge (op_Unmatched price))
             [(''action'', VStr (un_Action (op_Unmatched price)))]))]"

definition canonical_rate_card :: "decimal_pkg \<Rightarrow> RateCard \<Rightarrow> goval" where
  "canonical_rate_card D c =
     VObj (put_some ''extends'' VStr (rc_Extends c)
       [(''operations'', VObj (map (\<lambda>(operation, price). (operation, canonical_operation_price D price))
          (rc_Operations c)))])"

definition canonical_operation :: "OperationDefinition \<Rightarrow> goval" where
  "canonical_operation operation =
     VObj [(''measures'', VObj (map (\<lambda>(name, d). (name, VObj [(''unit'', VStr (mea_Unit d))]))
              (od_Measures operation))),
           (''dimensions'', VObj (map (\<lambda>(name, d).
              (name, VObj [(''type'', VStr (dim_Type d)), (''required'', VBool (dim_Required d))]))
              (od_Dimensions operation)))]"

definition canonicalPricing :: "decimal_pkg \<Rightarrow> PricingConfig \<Rightarrow> goval" where
  "canonicalPricing D v =
     VObj [(''operations'', VObj (map (\<lambda>(key, operation). (key, canonical_operation operation)) (pc_Operations v))),
           (''rate_cards'', VObj (map (\<lambda>(key, c). (key, canonical_rate_card D c)) (pc_RateCards v)))]"

section \<open>What the parser guarantees of tiers and charges\<close>

definition tiers_wf :: "GraduatedTier list \<Rightarrow> bool" where
  "tiers_wf ts \<longleftrightarrow>
     (\<exists>bs rs r. length bs = length rs \<and> sorted_wrt (<) bs \<and>
        ts = map2 (\<lambda>b q. \<lparr>gt_UpTo = Some b, gt_Rate = q\<rparr>) bs rs @ [\<lparr>gt_UpTo = None, gt_Rate = r\<rparr>])"

lemma check_tier_bounds_None:
  "check_tier_bounds p ts = None \<Longrightarrow>
   \<exists>bs rs. length bs = length rs \<and> sorted_wrt (<) bs \<and> (\<forall>q b. p = Some q \<longrightarrow> b \<in> set bs \<longrightarrow> q < b) \<and>
     ts = map2 (\<lambda>b r. \<lparr>gt_UpTo = Some b, gt_Rate = r\<rparr>) bs rs"
proof (induction p ts rule: check_tier_bounds.induct)
  case (1 p)
  show ?case by (intro exI [of _ "[]"]) simp
next
  case (2 p t ts)
  from 2(2) obtain b where b: "gt_UpTo t = Some b" and lt: "\<forall>q. p = Some q \<longrightarrow> q < b"
    and rest: "check_tier_bounds (Some b) ts = None"
    by (auto split: option.splits if_splits)
  have "\<not> (case p of None \<Rightarrow> False | Some q \<Rightarrow> \<not> q < b)" using lt by (cases p) auto
  from 2(1) [OF b this rest] obtain bs rs where bs: "length bs = length rs" "sorted_wrt (<) bs"
    "\<forall>c \<in> set bs. b < c" "ts = map2 (\<lambda>b r. \<lparr>gt_UpTo = Some b, gt_Rate = r\<rparr>) bs rs"
    by auto
  have "t = \<lparr>gt_UpTo = Some b, gt_Rate = gt_Rate t\<rparr>" using b by (cases t) simp
  with bs lt show ?case
    by (intro exI [of _ "b # bs"] exI [of _ "gt_Rate t # rs"]) (auto intro: order_less_trans)
qed

lemma parseTiers_wf:
  assumes "parseTiers D v path = Inr ts"
  shows "tiers_wf ts"
proof -
  from assms have ne: "ts \<noteq> []" and lst: "gt_UpTo (last ts) = None"
    and chk: "check_tier_bounds None (butlast ts) = None"
    by (auto simp: parseTiers_def bind_err_Inr_iff split: if_splits option.splits)
  from check_tier_bounds_None [OF chk] obtain bs rs where "length bs = length rs" "sorted_wrt (<) bs"
    "butlast ts = map2 (\<lambda>b r. \<lparr>gt_UpTo = Some b, gt_Rate = r\<rparr>) bs rs" by auto
  moreover have "last ts = \<lparr>gt_UpTo = None, gt_Rate = gt_Rate (last ts)\<rparr>"
    using lst by (cases "last ts") simp
  ultimately show ?thesis
    unfolding tiers_wf_def using append_butlast_last_id [OF ne] by metis
qed

text \<open>Divisors are positive and tiers are well-formed, in every component of a charge.\<close>

fun charge_wf :: "Charge \<Rightarrow> bool" where
  "charge_wf (Charge ty am me rate us un ro ti fo co) \<longleftrightarrow>
     ty \<in> set [''flat'', ''per_unit'', ''package'', ''graduated'', ''volume'', ''expression'', ''sum''] \<and>
     (ty = ''per_unit'' \<longrightarrow> us > 0) \<and> (ty = ''package'' \<longrightarrow> un > 0) \<and>
     (ty = ''graduated'' \<or> ty = ''volume'' \<longrightarrow> tiers_wf ti) \<and>
     list_all charge_wf co"

abbreviation charge_types :: "string list" where
  "charge_types \<equiv> [''flat'', ''per_unit'', ''package'', ''graduated'', ''volume'', ''expression'', ''sum'']"

lemma parseCharge_cases:
  assumes "parseCharge D v path d = Inr c"
  obtains (flat) a where "c = Charge ''flat'' a [] 0 0 0 [] [] [] []"
    | (per_unit) me rate us where "us > 0" "c = Charge ''per_unit'' 0 me rate us 0 [] [] [] []"
    | (package) me un a ro where "un > 0" "c = Charge ''package'' a me 0 0 un ro [] [] []"
    | (tiers) ty me ti u p where "ty = ''graduated'' \<or> ty = ''volume''" "parseTiers D u p = Inr ti"
        "c = Charge ty 0 me 0 0 0 [] ti [] []"
    | (expression) fo where "c = Charge ''expression'' 0 [] 0 0 0 [] [] fo []"
    | (sum) inputs co where "map_indexed (\<lambda>i x. parseCharge D x
          (indexed_path (path @ ''.components'') i) (d + 1)) inputs = Inr co"
        "c = Charge ''sum'' 0 [] 0 0 0 [] [] [] co"
proof -
  have d: "\<not> 64 < d"
    using assms by (rule contrapos_pn) (simp add: parseCharge.simps [of D v path d])
  obtain raw where raw: "configObject v path = Inr raw"
    using assms d by (cases "configObject v path") (simp_all add: parseCharge.simps [of D v path d])
  obtain t where t: "configString (raw_get raw ''type'') (path @ ''.type'') = Inr t"
    using assms d raw
    by (cases "configString (raw_get raw ''type'') (path @ ''.type'')") (simp_all add: parseCharge.simps [of D v path d])
  note step = assms [unfolded parseCharge.simps [of D v path d] raw t bind_err_simps if_not_P [OF d]]
  have "t \<in> set charge_types"
  proof (rule ccontr)
    assume "\<not> ?thesis"
    then have "t \<noteq> ''flat''" "t \<noteq> ''per_unit''" "t \<noteq> ''package''" "t \<noteq> ''graduated''"
      "t \<noteq> ''volume''" "t \<noteq> ''expression''" "t \<noteq> ''sum''" by simp_all
    with step show False by (simp only: if_False simp_thms) simp
  qed
  then consider "t = ''flat''" | "t = ''per_unit''" | "t = ''package''" | "t = ''graduated''"
    | "t = ''volume''" | "t = ''expression''" | "t = ''sum''"
    unfolding list.set insert_iff empty_iff by argo
  then show thesis
  proof cases
    case 1
    with step show ?thesis by (auto simp: bind_err_Inr_iff intro: flat)
  next
    case 2
    with step show ?thesis by (auto simp: bind_err_Inr_iff guard_err_Inr_iff intro: per_unit)
  next
    case 3
    with step show ?thesis by (auto simp: bind_err_Inr_iff guard_err_Inr_iff intro: package)
  next
    case 4
    with step obtain me ti where
      "parseTiers D (raw_get raw ''tiers'') (path @ ''.tiers'') = Inr ti" "c = Charge t 0 me 0 0 0 [] ti [] []"
      by (auto simp: bind_err_Inr_iff)
    with 4 show ?thesis by (intro tiers) simp_all
  next
    case 5
    with step obtain me ti where
      "parseTiers D (raw_get raw ''tiers'') (path @ ''.tiers'') = Inr ti" "c = Charge t 0 me 0 0 0 [] ti [] []"
      by (auto simp: bind_err_Inr_iff)
    with 5 show ?thesis by (intro tiers) simp_all
  next
    case 6
    with step show ?thesis by (auto simp: bind_err_Inr_iff intro: expression)
  next
    case 7
    with step show ?thesis by (auto simp: bind_err_Inr_iff intro: sum)
  qed
qed

lemma map_indexed_members:
  assumes "map_indexed f xs = Inr ys" "y \<in> set ys"
  obtains i x where "f i x = Inr y"
proof -
  from assms(1) have "list_all2 (\<lambda>x y. (case x of (i, x) \<Rightarrow> f i x) = Inr y) (enumerate 0 xs) ys"
    by (simp add: map_indexed_def map_err_Inr_iff)
  moreover obtain n where "n < length ys" "y = ys ! n" using assms(2) by (auto simp: in_set_conv_nth)
  ultimately have "(case enumerate 0 xs ! n of (i, x) \<Rightarrow> f i x) = Inr y"
    by (simp add: list_all2_conv_all_nth)
  with that show thesis by (cases "enumerate 0 xs ! n") auto
qed

lemma map_indexed_map:
  assumes "\<And>i x. x \<in> set xs \<Longrightarrow> f i (g x) = Inr x"
  shows "map_indexed f (map g xs) = Inr xs"
proof -
  have "map_err (\<lambda>(i, x). f i x) (enumerate n (map g xs)) = Inr xs" for n
    using assms by (induction xs arbitrary: n) auto
  then show ?thesis by (simp add: map_indexed_def)
qed

lemma parseCharge_wf: "parseCharge D v path d = Inr c \<Longrightarrow> charge_wf c"
proof (induction c arbitrary: v path d)
  case (Charge ty am me rate us un ro ti fo co)
  from Charge.prems show ?case
  proof (cases rule: parseCharge_cases)
    case (sum inputs co')
    then have "charge_wf x" if "x \<in> set co" for x
      using Charge.IH [of x] that by (auto elim!: map_indexed_members [OF sum(1)])
    with sum show ?thesis by (auto simp: list_all_iff)
  qed (auto dest: parseTiers_wf)
qed

section \<open>Round trip of the canonical form\<close>

fun charge_money :: "Charge \<Rightarrow> bool" where
  "charge_money (Charge ty am me rate us un ro ti fo co) \<longleftrightarrow>
     money am \<and> money rate \<and> money us \<and> money un \<and>
     list_all (\<lambda>t. money (gt_Rate t) \<and> (\<forall>b. gt_UpTo t = Some b \<longrightarrow> money b)) ti \<and>
     list_all charge_money co"

context decimal_package
begin

lemma configDecimal_canonical:
  "configDecimal D (amount_value D x) path = Inr (QuantizeMoney D x)"
proof -
  let ?s = "amountConfigString D x"
  have "decimal_text ?s" "dec_from_string D ?s = Some (round_away (QuantizeMoney D x) 6)"
    by (simp_all add: amountConfigString_def MoneyDecimalPlaces_def string_fixed_text string_fixed_value)
  moreover have "round_away (QuantizeMoney D x) 6 = QuantizeMoney D x"
    using quantize_id [OF quantize_money] by (simp add: quantize_eq)
  ultimately show ?thesis
    by (simp add: configDecimal_def NewAmount_def ParseDecimalString_def)
qed

lemma parse_tier_canonical:
  assumes "money (gt_Rate t)" "\<And>b. gt_UpTo t = Some b \<Longrightarrow> money b"
  shows "parse_tier D path i (canonical_tier D t) = Inr t"
  using assms
  by (cases t; cases "gt_UpTo t")
     (simp_all add: parse_tier_def canonical_tier_def put_some_def map_put_def parse_defs optional_bound_def
       configDecimal_canonical quantize_id)

lemma parseTiers_canonical:
  assumes "parseTiers D v p = Inr ti"
    and "list_all (\<lambda>t. money (gt_Rate t) \<and> (\<forall>b. gt_UpTo t = Some b \<longrightarrow> money b)) ti"
  shows "parseTiers D (VArr (map (canonical_tier D) ti)) path = Inr ti"
proof -
  have "map_indexed (parse_tier D path) (map (canonical_tier D) ti) = Inr ti"
    using assms(2) by (intro map_indexed_map parse_tier_canonical) (auto simp: list_all_iff)
  with assms(1) show ?thesis
    by (auto simp: parseTiers_def configArray_def bind_err_Inr_iff split: if_splits option.splits)
qed

lemma parseCharge_canonical:
  "parseCharge D v path d = Inr c \<Longrightarrow> charge_money c \<Longrightarrow> parseCharge D (canonicalCharge D c) path' d = Inr c"
proof (induction c arbitrary: v path d path')
  case (Charge ty am me rate us un ro ti fo co)
  have d: "\<not> 64 < d" using Charge.prems(1) by (subst (asm) parseCharge.simps) (simp split: if_splits)
  note simps = parseCharge.simps [of D "VObj m" path' d for m]
    parse_defs configDecimal_canonical quantize_id decimal_or_def string_or_def
  from Charge.prems(1) show ?case
  proof (cases rule: parseCharge_cases)
    case (tiers ty' me' ti' u p)
    then have "parseTiers D (VArr (map (canonical_tier D) ti)) q = Inr ti" for q
      using Charge.prems(2) parseTiers_canonical [OF tiers(2)] by simp
    moreover note d tiers(3)
    ultimately show ?thesis using tiers(1) by (elim disjE) (simp_all add: simps)
  next
    case (sum inputs co')
    have "parseCharge D (canonicalCharge D x) q (d + 1) = Inr x" if "x \<in> set co" for x q
    proof -
      from sum that obtain i y where "parseCharge D y (indexed_path (path @ ''.components'') i) (d + 1) = Inr x"
        by (auto elim!: map_indexed_members [OF sum(1)])
      with Charge.IH [OF that this] Charge.prems(2) that show ?thesis by (auto simp: list_all_iff)
    qed
    then have "map_indexed (\<lambda>i x. parseCharge D x (indexed_path (path' @ ''.components'') i) (d + 1))
        (map (canonicalCharge D) co) = Inr co"
      by (intro map_indexed_map) simp
    with sum d show ?thesis by (simp add: simps)
  qed (use Charge.prems(2) d in \<open>simp_all add: simps\<close>)
qed

end

context decimal_package
begin

lemma parse_canonical_per_unit:
  "parseCharge D (canonicalCharge D (Charge ''per_unit'' 0 me rate us 0 [] [] [] [])) path 0 =
   guard_err (QuantizeMoney D us > 0) (newConfigError (path @ ''.unit_size must be greater than zero'') None)
     (Inr (Charge ''per_unit'' 0 me (QuantizeMoney D rate) (QuantizeMoney D us) 0 [] [] [] []))"
  by (simp add: parseCharge.simps parse_defs configDecimal_canonical decimal_or_def)

end

section \<open>Chains of rate cards\<close>

text \<open>
  \<open>grounded cards n k\<close>: the chain of parents from the card \<open>k\<close> stays in the map and ends after
  \<open>n\<close> steps at a card that extends no other.
\<close>

inductive grounded :: "RateCard gomap \<Rightarrow> nat \<Rightarrow> string \<Rightarrow> bool" for cards where
  root: "map_of cards k = Some c \<Longrightarrow> rc_Extends c = None \<Longrightarrow> grounded cards 0 k"
| step: "map_of cards k = Some c \<Longrightarrow> rc_Extends c = Some p \<Longrightarrow> grounded cards n p \<Longrightarrow>
    grounded cards (Suc n) k"

inductive_cases grounded_zeroE: "grounded cards 0 k"
inductive_cases grounded_SucE: "grounded cards (Suc n) k"

lemma grounded_unique: "grounded cards n k \<Longrightarrow> grounded cards m k \<Longrightarrow> n = m"
proof (induction arbitrary: m rule: grounded.induct)
  case (root k c)
  from root(3) show ?case by (cases rule: grounded.cases) (use root(1,2) in simp_all)
next
  case (step k c p n)
  from step.prems show ?case
  proof (cases rule: grounded.cases)
    case (step c' p' m')
    with step.hyps(1,2) have "grounded cards m' p" by simp
    with step.IH \<open>m = Suc m'\<close> show ?thesis by blast
  qed (use step.hyps in simp)
qed

lemma visit_card_grounded:
  "visit_card cards visiting visited key = Inr vs \<Longrightarrow> \<forall>k \<in> set visited. \<exists>n. grounded cards n k \<Longrightarrow>
   key \<in> set vs \<and> set visited \<subseteq> set vs \<and> (\<forall>k \<in> set vs. \<exists>n. grounded cards n k)"
proof (induction cards visiting visited key arbitrary: vs rule: visit_card.induct)
  case (1 cards visiting visited key)
  note unfold = visit_card.simps [of cards visiting visited key]
  show ?case
  proof (cases "key \<in> set visited")
    case True
    with 1(2,3) show ?thesis unfolding unfold by (simp split: if_splits)
  next
    case False
    with 1(2) obtain c where nv: "key \<notin> set visiting" and c: "map_of cards key = Some c"
      unfolding unfold by (auto split: if_splits option.splits)
    show ?thesis
    proof (cases "rc_Extends c")
      case None
      with 1(2,3) False nv c have "vs = key # visited" unfolding unfold by simp
      with None c 1(3) show ?thesis by (auto intro: grounded.root)
    next
      case (Some p)
      with 1(2) False nv c obtain ws where ws: "visit_card cards (key # visiting) visited p = Inr ws"
        "vs = key # ws" unfolding unfold by (auto simp: bind_err_Inr_iff)
      note IH = 1(1) [OF nv False c Some ws(1) 1(3)]
      then obtain m where "grounded cards m p" by blast
      then have "grounded cards (Suc m) key" by (rule grounded.step [OF c Some])
      with IH ws(2) show ?thesis by auto
    qed
  qed
qed

lemma visit_card_complete:
  "grounded cards n key \<Longrightarrow> \<forall>k \<in> set visiting. \<exists>m > n. grounded cards m k \<Longrightarrow>
   \<exists>vs. visit_card cards visiting visited key = Inr vs"
proof (induction n key arbitrary: visiting rule: grounded.induct)
  case (root k c)
  then have g: "grounded cards 0 k" by (blast intro: grounded.root)
  then have "k \<notin> set visiting" using root.prems grounded_unique [OF g] by blast
  with root show ?case by (subst visit_card.simps) simp
next
  case (step k c p n)
  then have g: "grounded cards (Suc n) k" by (blast intro: grounded.step)
  then have nv: "k \<notin> set visiting" using step.prems grounded_unique [OF g] by blast
  have "\<forall>j \<in> set (k # visiting). \<exists>m > n. grounded cards m j"
    using step.prems g by (auto intro: Suc_lessD)
  from step.IH [OF this] obtain vs where "visit_card cards (k # visiting) visited p = Inr vs" ..
  with step.hyps nv show ?case by (subst visit_card.simps) simp
qed

lemma visit_all_grounded:
  "visit_all cards visited keys = Inr vs \<Longrightarrow> \<forall>k \<in> set visited. \<exists>n. grounded cards n k \<Longrightarrow>
   set visited \<subseteq> set vs \<and> set keys \<subseteq> set vs \<and> (\<forall>k \<in> set vs. \<exists>n. grounded cards n k)"
proof (induction cards visited keys rule: visit_all.induct)
  case (2 cards visited key keys)
  from 2(2) obtain ws where ws: "visit_card cards [] visited key = Inr ws" "visit_all cards ws keys = Inr vs"
    by (auto simp: bind_err_Inr_iff)
  from visit_card_grounded [OF ws(1) 2(3)] 2(1) [OF ws(1,2)] show ?case by auto
qed auto

lemma visit_all_complete:
  "\<forall>k \<in> set keys. \<exists>n. grounded cards n k \<Longrightarrow> \<exists>vs. visit_all cards visited keys = Inr vs"
proof (induction keys arbitrary: visited)
  case (Cons k keys)
  then obtain n where "grounded cards n k" by auto
  then obtain ws where "visit_card cards [] visited k = Inr ws"
    using visit_card_complete [of cards n k "[]"] by auto
  with Cons show ?case by simp
qed simp

lemma validateRateCardInheritance_iff:
  "validateRateCardInheritance p = Inr () \<longleftrightarrow>
   (\<forall>k \<in> fst ` set (pc_RateCards p). \<exists>n. grounded (pc_RateCards p) n k)"
proof -
  let ?cards = "pc_RateCards p"
  have "validateRateCardInheritance p = Inr () \<longleftrightarrow> (\<exists>vs. visit_all ?cards [] (map_keys ?cards) = Inr vs)"
    by (simp add: validateRateCardInheritance_def bind_err_Inr_iff)
  also have "\<dots> \<longleftrightarrow> (\<forall>k \<in> set (map_keys ?cards). \<exists>n. grounded ?cards n k)"
    using visit_all_grounded [of ?cards "[]" "map_keys ?cards"] visit_all_complete [of "map_keys ?cards" ?cards "[]"]
    by (simp del: map_keys_set) blast
  finally show ?thesis by simp
qed

lemma parsePricing_inheritance:
  "parsePricing D v = Inr p \<Longrightarrow> validateRateCardInheritance p = Inr ()"
  by (auto simp: parsePricing_def bind_err_Inr_iff guard_err_Inr_iff Let_def)

section \<open>Properties\<close>

text \<open>
  C27. \<open>validateRateCardInheritance\<close> accepts a pricing section exactly when the chain of parents
  of every rate card stays within the section and ends: every cycle and every unknown parent is
  rejected, however the map is ordered, and nothing else is.
\<close>

theorem inheritance_validation_exact:
  "validateRateCardInheritance p = Inr () \<longleftrightarrow>
   (\<forall>k \<in> fst ` set (pc_RateCards p). \<exists>n. grounded (pc_RateCards p) n k)"
  by (rule validateRateCardInheritance_iff)

theorem inheritance_validation_exact_witness:
  "\<exists>n. grounded [(''pro'', \<lparr>rc_Extends = Some ''base'', rc_Operations = []\<rparr>),
     (''base'', \<lparr>rc_Extends = None, rc_Operations = []\<rparr>)] n ''pro''"
proof -
  let ?cards = "[(''pro'', \<lparr>rc_Extends = Some ''base'', rc_Operations = []\<rparr>),
     (''base'', \<lparr>rc_Extends = None, rc_Operations = []\<rparr>)]"
  have "validateRateCardInheritance \<lparr>pc_Operations = [], pc_RateCards = ?cards\<rparr> = Inr ()" by code_simp
  then show ?thesis
    using inheritance_validation_exact [of "\<lparr>pc_Operations = [], pc_RateCards = ?cards\<rparr>"] by simp
qed

text \<open>
  C14. Every charge the parser accepts has positive divisors and well-formed tiers at every level
  of nesting: at most one open tier, the last, after strictly increasing bounds. So no division of
  a per-unit or package charge is by zero, and a graduated or volume charge always has a tier for
  the quantity.
\<close>

theorem parsed_charges_well_formed:
  assumes "parseCharge D v path d = Inr c"
  shows "charge_wf c"
  by (rule parseCharge_wf [OF assms])

theorem parsed_charges_well_formed_witness:
  "charge_wf (Charge ''per_unit'' 0 ''n'' 3 2 0 [] [] [] [])"
proof -
  have "parseCharge ref_decimal (VObj [(''type'', VStr ''per_unit''), (''measure'', VStr ''n''),
      (''rate'', VStr ''3''), (''unit_size'', VStr ''2'')]) [] 0 =
    Inr (Charge ''per_unit'' 0 ''n'' 3 2 0 [] [] [] [])"
    by code_simp
  then show ?thesis by (rule parsed_charges_well_formed)
qed

text \<open>
  C28. The canonical form of a charge whose amounts have at most six decimal places parses back to
  the charge, at any nesting the parser accepted: publishing a catalogue in canonical form does
  not change the prices of such a charge.
\<close>

theorem canonical_charge_roundtrip:
  assumes "decimal_package D" and "parseCharge D v path d = Inr c" and "charge_money c"
  shows "parseCharge D (canonicalCharge D c) path' d = Inr c"
  by (rule decimal_package.parseCharge_canonical [OF assms])

theorem canonical_charge_roundtrip_witness:
  "parseCharge ref_decimal (canonicalCharge ref_decimal (Charge ''flat'' 2 [] 0 0 0 [] [] [] [])) [] 0 =
   Inr (Charge ''flat'' 2 [] 0 0 0 [] [] [] [])"
proof (rule canonical_charge_roundtrip [OF ref.decimal_package_axioms])
  show "parseCharge ref_decimal (VObj [(''type'', VStr ''flat''), (''amount'', VStr ''2'')]) [] 0 =
      Inr (Charge ''flat'' 2 [] 0 0 0 [] [] [] [])"
    by code_simp
qed (simp add: money_def)

text \<open>
  C29. The canonical form is lossy beyond six decimal places. The rate of a per-unit charge below
  half a millionth of a credit becomes zero, so the charge becomes free; and a unit size below half
  a millionth becomes zero, so that the canonical form of an accepted charge is rejected.
\<close>

theorem canonical_charge_loses_small_rates:
  assumes "decimal_package D" and "\<bar>small\<bar> < 1 / (2 * 10 ^ 6)"
  shows "parseCharge D (canonicalCharge D (Charge ''per_unit'' 0 me small 1 0 [] [] [] [])) path 0 =
      Inr (Charge ''per_unit'' 0 me 0 1 0 [] [] [] []) \<and>
    parseCharge D (canonicalCharge D (Charge ''per_unit'' 0 me rate small 0 [] [] [] [])) path 0 =
      Inl (newConfigError (path @ ''.unit_size must be greater than zero'') None)"
  using decimal_package.quantize_small [OF assms] decimal_package.quantize_id [OF assms(1), of 1]
  by (simp add: decimal_package.parse_canonical_per_unit [OF assms(1)] money_def del: canonicalCharge.simps)

theorem canonical_charge_loses_small_rates_witness:
  "parseCharge ref_decimal (VObj [(''type'', VStr ''per_unit''), (''measure'', VStr ''n''),
       (''rate'', VStr ''0.0000004'')]) [] 0 =
     Inr (Charge ''per_unit'' 0 ''n'' (4 / 10 ^ 7) 1 0 [] [] [] []) \<and>
   parseCharge ref_decimal
       (canonicalCharge ref_decimal (Charge ''per_unit'' 0 ''n'' (4 / 10 ^ 7) 1 0 [] [] [] [])) [] 0 =
     Inr (Charge ''per_unit'' 0 ''n'' 0 1 0 [] [] [] [])"
proof
  show "parseCharge ref_decimal (VObj [(''type'', VStr ''per_unit''), (''measure'', VStr ''n''),
       (''rate'', VStr ''0.0000004'')]) [] 0 =
     Inr (Charge ''per_unit'' 0 ''n'' (4 / 10 ^ 7) 1 0 [] [] [] [])"
    by code_simp
qed (use canonical_charge_loses_small_rates [OF ref.decimal_package_axioms, of "4 / 10 ^ 7"] in simp)

end
