(* ===== verification/Config_Sections.thy ===== *)
theory Config_Sections
  imports Pricing_Config
begin

text \<open>
  The sections of a configuration that do not price: credits with their buckets, policies and grant
  programs, entitlements and admission, \<open>src/golang/config.go\<close>, and their canonical forms. The regular
  expression package is a parameter, the record \<open>regex_pkg\<close>.
\<close>

record regex_pkg =
  rx_Compile :: "string \<Rightarrow> go_error option"             \<comment> \<open>the error of \<open>regexp2.Compile\<close>\<close>
  rx_Match :: "string \<Rightarrow> string \<Rightarrow> go_error + bool"     \<comment> \<open>\<open>MatchString\<close> of a compiled pattern\<close>

text \<open>A value with a default where the key is absent or null.\<close>

definition value_or :: "goval gomap \<Rightarrow> string \<Rightarrow> 'a \<Rightarrow> (goval \<Rightarrow> go_error + 'a) \<Rightarrow> go_error + 'a" where
  "value_or raw key fallback read = (if raw_set raw key then read (raw_get raw key) else Inr fallback)"

text \<open>A pointer field: nil where the key is absent or null.\<close>

definition optional_value :: "goval gomap \<Rightarrow> string \<Rightarrow> (goval \<Rightarrow> go_error + 'a) \<Rightarrow> go_error + 'a option" where
  "optional_value raw key read =
     (if raw_set raw key then bind_err (read (raw_get raw key)) (\<lambda>x. Inr (Some x)) else Inr None)"

section \<open>Credits\<close>

definition parse_bucket :: "host \<Rightarrow> string \<Rightarrow> goval \<Rightarrow> go_error + BucketDefinition" where
  "parse_bucket H key v =
     (let path = ''credits.buckets.'' @ key in
      bind_err (configObject v path) (\<lambda>bucket.
      bind_err (configInteger (raw_get bucket ''priority'') (path @ ''.priority'')) (\<lambda>priority.
      let expiryInput = (if raw_set bucket ''expiry'' then raw_get bucket ''expiry''
                         else VObj [(''type'', VStr ''never'')]) in
      bind_err (parseExpiry H expiryInput (path @ ''.expiry'')) (\<lambda>expiry.
        if exp_Type expiry = ''subscription_end''
        then Inl (newConfigError (path @ ''.expiry cannot be subscription_end'') None)
        else Inr \<lparr>bd_Priority = priority, bd_Expiry = expiry\<rparr>))))"

fun check_priorities :: "(int \<times> string) list \<Rightarrow> BucketDefinition gomap \<Rightarrow> go_error + unit" where
  "check_priorities seen [] = Inr ()"
| "check_priorities seen ((key, bucket) # rest) =
     (case map_of seen (bd_Priority bucket) of
        Some previous \<Rightarrow>
          Inl (newConfigError (''credits bucket priorities must be unique ('' @ previous @ '' and '' @ key @ '')'') None)
      | None \<Rightarrow> check_priorities ((bd_Priority bucket, key) # seen) rest)"

definition parse_credit_policy :: "decimal_pkg \<Rightarrow> string \<Rightarrow> goval \<Rightarrow> go_error + CreditPolicy" where
  "parse_credit_policy D key v =
     (let path = ''credits.policies.'' @ key in
      bind_err (configObject v path) (\<lambda>policy.
      bind_err (configString (raw_get policy ''type'') (path @ ''.type'')) (\<lambda>typeValue.
        if typeValue = ''credit_line'' then
          bind_err (configDecimal D (raw_get policy ''limit'') (path @ ''.limit'')) (\<lambda>limit.
            Inr \<lparr>cp_Type = typeValue, cp_Limit = Some limit\<rparr>)
        else Inr \<lparr>cp_Type = typeValue, cp_Limit = None\<rparr>)))"

definition parse_award ::
  "decimal_pkg \<Rightarrow> host \<Rightarrow> BucketDefinition gomap \<Rightarrow> string \<Rightarrow> string \<Rightarrow> nat \<Rightarrow> goval \<Rightarrow> go_error + GrantAward" where
  "parse_award D H buckets key path index input =
     (let awardPath = indexed_path (path @ ''.awards'') index in
      bind_err (configObject input awardPath) (\<lambda>awardRaw.
      bind_err (value_or awardRaw ''recipient'' ''subject'' (\<lambda>v. configString v (awardPath @ ''.recipient''))) (\<lambda>recipient.
      bind_err (configDecimal D (raw_get awardRaw ''amount'') (awardPath @ ''.amount'')) (\<lambda>amount.
      bind_err (configString (raw_get awardRaw ''bucket'') (awardPath @ ''.bucket'')) (\<lambda>bucket.
        if \<not> has_key buckets bucket
        then Inl (newConfigError (''grant program '' @ quoted key @ '' references unknown bucket '' @ quoted bucket) None)
        else
          bind_err (optional_value awardRaw ''expiry'' (\<lambda>v.
            bind_err (parseExpiry H v (awardPath @ ''.expiry'')) (\<lambda>parsed.
              if exp_Type parsed = ''subscription_end''
              then Inl (newConfigError (''grant program '' @ quoted key @ '' cannot use subscription_end expiry'') None)
              else Inr parsed))) (\<lambda>expiry.
            Inr \<lparr>ga_Recipient = recipient, ga_Amount = amount, ga_Bucket = bucket, ga_Expiry = expiry\<rparr>))))))"

definition parseGrantProgram ::
  "decimal_pkg \<Rightarrow> host \<Rightarrow> BucketDefinition gomap \<Rightarrow> string \<Rightarrow> goval \<Rightarrow> go_error + GrantProgram" where
  "parseGrantProgram D H buckets key v =
     (let path = ''credits.grant_programs.'' @ key in
      bind_err (configObject v path) (\<lambda>raw.
      bind_err (configString (raw_get raw ''trigger'') (path @ ''.trigger'')) (\<lambda>trigger.
      bind_err (configArray (raw_get raw ''awards'') (path @ ''.awards'')) (\<lambda>awardsRaw.
      bind_err (map_indexed (parse_award D H buckets key path) awardsRaw) (\<lambda>awards.
      bind_err (configMap raw ''eligibility'' (path @ ''.eligibility'')) (\<lambda>eligibilityRaw.
      bind_err (value_or eligibilityRaw ''plans'' [] (\<lambda>v. configSliceStrings v (path @ ''.eligibility.plans''))) (\<lambda>plans.
      bind_err (value_or eligibilityRaw ''regions'' [] (\<lambda>v. configSliceStrings v (path @ ''.eligibility.regions''))) (\<lambda>regions.
      bind_err (check_regions (path @ ''.eligibility'') [] regions) (\<lambda>_.
        if trigger \<noteq> ''referral_completed'' \<and> list_ex (\<lambda>award. ga_Recipient award = ''referrer'') awards
        then Inl (newConfigError (''grant program '' @ quoted key @ '' referrer awards require referral_completed'') None)
        else
      bind_err (value_or raw ''max_awards_per_subject'' 1 (\<lambda>v. configInteger v (path @ ''.max_awards_per_subject''))) (\<lambda>maxAwards.
      bind_err (value_or raw ''idempotency_scope'' ''subject'' (\<lambda>v. configString v (path @ ''.idempotency_scope''))) (\<lambda>idempotencyScope.
      bind_err (optional_value raw ''availability'' (\<lambda>v. parseAvailability H v (path @ ''.availability''))) (\<lambda>availability.
        Inr \<lparr>gp_Trigger = trigger, gp_Awards = awards, gp_Availability = availability,
             gp_EligibilityPlans = plans, gp_EligibilityRegions = regions,
             gp_MaxAwardsPerSubject = maxAwards, gp_IdempotencyScope = idempotencyScope\<rparr>))))))))))))"

text \<open>\<open>strings.ToUpper\<close> of a text in ASCII; the schema admits no other currency.\<close>

definition to_upper :: "string \<Rightarrow> string" where
  "to_upper s = map (\<lambda>c. if is_lower_byte c then char_of (byte c - 32) else c) s"

definition parse_display :: "decimal_pkg \<Rightarrow> goval \<Rightarrow> go_error + CreditDisplay" where
  "parse_display D input =
     bind_err (configObject input ''credits.display'') (\<lambda>displayRaw.
     bind_err (configString (raw_get displayRaw ''currency'') ''credits.display.currency'') (\<lambda>currency.
     bind_err (configDecimal D (raw_get displayRaw ''units_per_major'') ''credits.display.units_per_major'') (\<lambda>units.
       Inr \<lparr>cd_Currency = to_upper currency, cd_UnitsPerMajor = units\<rparr>)))"

text \<open>The three loops over identifiers range over a Go map, so their order is open; only which error is
  reported first depends on it.\<close>

definition parseCredits :: "decimal_pkg \<Rightarrow> host \<Rightarrow> goval \<Rightarrow> go_error + CreditsConfig" where
  "parseCredits D H v =
     bind_err (configObject v ''credits'') (\<lambda>raw.
     bind_err (configMap raw ''buckets'' ''credits.buckets'') (\<lambda>bucketsRaw.
     bind_err (configMap raw ''policies'' ''credits.policies'') (\<lambda>policiesRaw.
     bind_err (configMap raw ''grant_programs'' ''credits.grant_programs'') (\<lambda>programsRaw.
     bind_err (validateConfigIdentifiers bucketsRaw ''credits.buckets'') (\<lambda>_.
     bind_err (validateConfigIdentifiers policiesRaw ''credits.policies'') (\<lambda>_.
     bind_err (validateConfigIdentifiers programsRaw ''credits.grant_programs'') (\<lambda>_.
     bind_err (map_entries (parse_bucket H) (in_key_order bucketsRaw)) (\<lambda>buckets.
     bind_err (check_priorities [] buckets) (\<lambda>_.
     bind_err (configOptionalString raw ''default_bucket'' ''credits.default_bucket'') (\<lambda>defaultBucket.
       if \<not> pred_option (has_key buckets) defaultBucket
       then Inl (newConfigError ''credits.default_bucket references an unknown bucket'' None)
       else
     bind_err (map_entries (parse_credit_policy D) (in_key_order policiesRaw)) (\<lambda>policies.
     bind_err (map_entries (parseGrantProgram D H buckets) (in_key_order programsRaw)) (\<lambda>grantPrograms.
     bind_err (optional_value raw ''display'' (parse_display D)) (\<lambda>display.
       Inr \<lparr>cc_Buckets = buckets, cc_DefaultBucket = defaultBucket, cc_Policies = policies,
            cc_GrantPrograms = grantPrograms, cc_Display = display\<rparr>)))))))))))))"

section \<open>Entitlements\<close>

definition no_feature :: "string \<Rightarrow> goval \<Rightarrow> FeatureDefinition" where
  "no_feature t d = \<lparr>fd_Type = t, fd_Default = d, fd_Values = [], fd_Minimum = None, fd_Maximum = None,
     fd_Pattern = None\<rparr>"

fun check_enum :: "string \<Rightarrow> string \<Rightarrow> string list \<Rightarrow> bool \<Rightarrow> string list \<Rightarrow> go_error + unit" where
  "check_enum path defaultValue seen found [] =
     (if found then Inr () else Inl (newConfigError (path @ ''.default must be one of values'') None))"
| "check_enum path defaultValue seen found (item # items) =
     (if item \<in> set seen then Inl (newConfigError (path @ ''.values must be unique'') None)
      else check_enum path defaultValue (item # seen) (found \<or> item = defaultValue) items)"

definition parse_integer_feature :: "string \<Rightarrow> goval gomap \<Rightarrow> go_error + FeatureDefinition" where
  "parse_integer_feature path rawFeature =
     bind_err (configInteger (raw_get rawFeature ''default'') (path @ ''.default'')) (\<lambda>defaultValue.
     bind_err (configOptionalInt rawFeature ''minimum'' (path @ ''.minimum'')) (\<lambda>minimum.
     bind_err (configOptionalInt rawFeature ''maximum'' (path @ ''.maximum'')) (\<lambda>maximum.
       if (case (minimum, maximum) of (Some lo, Some hi) \<Rightarrow> lo > hi | _ \<Rightarrow> False)
       then Inl (newConfigError (path @ ''.minimum cannot exceed maximum'') None)
       else if \<not> pred_option (\<lambda>lo. lo \<le> defaultValue) minimum
       then Inl (newConfigError (path @ ''.default is below minimum'') None)
       else if \<not> pred_option (\<lambda>hi. defaultValue \<le> hi) maximum
       then Inl (newConfigError (path @ ''.default exceeds maximum'') None)
       else Inr ((no_feature ''integer'' (VInt defaultValue))\<lparr>fd_Minimum := minimum, fd_Maximum := maximum\<rparr>))))"

definition parse_feature :: "regex_pkg \<Rightarrow> string \<Rightarrow> goval \<Rightarrow> go_error + FeatureDefinition" where
  "parse_feature X key v =
     (let path = ''entitlements.features.'' @ key in
      bind_err (configObject v path) (\<lambda>rawFeature.
      bind_err (configString (raw_get rawFeature ''type'') (path @ ''.type'')) (\<lambda>typeValue.
      let definition = no_feature typeValue (raw_get rawFeature ''default'') in
        if typeValue = ''boolean'' then
          bind_err (configBool (fd_Default definition) (path @ ''.default'')) (\<lambda>_. Inr definition)
        else if typeValue = ''enum'' then
          bind_err (configSliceStrings (raw_get rawFeature ''values'') (path @ ''.values'')) (\<lambda>values.
          bind_err (configString (fd_Default definition) (path @ ''.default'')) (\<lambda>defaultValue.
          bind_err (check_enum path defaultValue [] False values) (\<lambda>_.
            Inr (definition\<lparr>fd_Values := values\<rparr>))))
        else if typeValue = ''integer'' then parse_integer_feature path rawFeature
        else if typeValue = ''string'' then
          bind_err (configString (fd_Default definition) (path @ ''.default'')) (\<lambda>_.
          bind_err (configOptionalString rawFeature ''pattern'' (path @ ''.pattern'')) (\<lambda>pattern.
            case pattern of
              None \<Rightarrow> Inr definition
            | Some p \<Rightarrow>
                (case rx_Compile X p of
                   Some err \<Rightarrow> Inl (newConfigError (path @ ''.pattern must be a valid regular expression'') (Some err))
                 | None \<Rightarrow> Inr (definition\<lparr>fd_Pattern := Some p\<rparr>))))
        else Inl (newConfigError (path @ ''.type is invalid'') None))))"

definition parseEntitlements :: "regex_pkg \<Rightarrow> goval \<Rightarrow> go_error + EntitlementsConfig" where
  "parseEntitlements X v =
     (if v = VNil then Inr \<lparr>ec_Features = []\<rparr>
      else
        bind_err (configObject v ''entitlements'') (\<lambda>raw.
        bind_err (configMap raw ''features'' ''entitlements.features'') (\<lambda>featuresRaw.
        bind_err (validateConfigIdentifiers featuresRaw ''entitlements.features'') (\<lambda>_.
        bind_err (map_entries (parse_feature X) (in_key_order featuresRaw)) (\<lambda>features.
          Inr \<lparr>ec_Features = features\<rparr>)))))"

section \<open>Admission\<close>

definition parse_operation_admission :: "string \<Rightarrow> string \<Rightarrow> goval \<Rightarrow> go_error + OperationAdmission" where
  "parse_operation_admission path operation input =
     bind_err (configObject input (path @ ''.operations.'' @ operation)) (\<lambda>definition.
     bind_err (configInteger (raw_get definition ''max_in_flight'')
        (path @ ''.operations.'' @ operation @ ''.max_in_flight'')) (\<lambda>limit.
       Inr \<lparr>oa_MaxInFlight = limit\<rparr>))"

definition parse_admission_policy :: "string \<Rightarrow> goval \<Rightarrow> go_error + AdmissionPolicy" where
  "parse_admission_policy key v =
     (let path = ''admission.policies.'' @ key in
      bind_err (configObject v path) (\<lambda>policyRaw.
      bind_err (configOptionalInt policyRaw ''max_in_flight'' (path @ ''.max_in_flight'')) (\<lambda>maxInFlight.
      bind_err (configMap policyRaw ''operations'' (path @ ''.operations'')) (\<lambda>operationsRaw.
      bind_err (validateConfigIdentifiers operationsRaw (path @ ''.operations'')) (\<lambda>_.
      bind_err (map_entries (parse_operation_admission path) operationsRaw) (\<lambda>operations.
        Inr \<lparr>ap_MaxInFlight = maxInFlight, ap_Operations = operations\<rparr>))))))"

definition parseAdmission :: "goval \<Rightarrow> go_error + AdmissionConfig" where
  "parseAdmission v =
     (if v = VNil then Inr \<lparr>ac_Policies = []\<rparr>
      else
        bind_err (configObject v ''admission'') (\<lambda>raw.
        bind_err (configMap raw ''policies'' ''admission.policies'') (\<lambda>policiesRaw.
        bind_err (validateConfigIdentifiers policiesRaw ''admission.policies'') (\<lambda>_.
        bind_err (map_entries parse_admission_policy (in_key_order policiesRaw)) (\<lambda>policies.
          Inr \<lparr>ac_Policies = policies\<rparr>)))))"

section \<open>Canonical forms\<close>

text \<open>A Go map built entry by entry from another one.\<close>

definition map_values :: "('a \<Rightarrow> goval) \<Rightarrow> 'a gomap \<Rightarrow> goval" where
  "map_values f m = VObj (map (\<lambda>(k, v). (k, f v)) m)"

definition canonical_strings :: "string list \<Rightarrow> goval" where
  "canonical_strings xs = VArr (map VStr xs)"

definition canonical_bucket :: "BucketDefinition \<Rightarrow> goval" where
  "canonical_bucket bucket =
     VObj [(''priority'', VInt (bd_Priority bucket)), (''expiry'', canonicalExpiry (bd_Expiry bucket))]"

definition canonical_policy :: "decimal_pkg \<Rightarrow> CreditPolicy \<Rightarrow> goval" where
  "canonical_policy D policy =
     VObj (put_some ''limit'' (\<lambda>x. VStr (amountConfigString D x)) (cp_Limit policy) [(''type'', VStr (cp_Type policy))])"

definition canonical_award :: "decimal_pkg \<Rightarrow> GrantAward \<Rightarrow> goval" where
  "canonical_award D award =
     VObj (put_some ''expiry'' canonicalExpiry (ga_Expiry award)
       [(''recipient'', VStr (ga_Recipient award)), (''amount'', VStr (amountConfigString D (ga_Amount award))),
        (''bucket'', VStr (ga_Bucket award))])"

definition canonical_program :: "decimal_pkg \<Rightarrow> GrantProgram \<Rightarrow> goval" where
  "canonical_program D program =
     VObj (put_some ''availability'' canonicalAvailability (gp_Availability program)
       [(''trigger'', VStr (gp_Trigger program)),
        (''awards'', VArr (map (canonical_award D) (gp_Awards program))),
        (''eligibility'', VObj [(''plans'', canonical_strings (gp_EligibilityPlans program)),
           (''regions'', canonical_strings (gp_EligibilityRegions program))]),
        (''max_awards_per_subject'', VInt (gp_MaxAwardsPerSubject program)),
        (''idempotency_scope'', VStr (gp_IdempotencyScope program))])"

definition canonicalCredits :: "decimal_pkg \<Rightarrow> CreditsConfig \<Rightarrow> goval" where
  "canonicalCredits D v =
     VObj (put_some ''display'' (\<lambda>d. VObj [(''currency'', VStr (cd_Currency d)),
              (''units_per_major'', VStr (amountConfigString D (cd_UnitsPerMajor d)))]) (cc_Display v)
       (put_some ''default_bucket'' VStr (cc_DefaultBucket v)
         [(''buckets'', map_values canonical_bucket (cc_Buckets v)),
          (''policies'', map_values (canonical_policy D) (cc_Policies v)),
          (''grant_programs'', map_values (canonical_program D) (cc_GrantPrograms v))]))"

definition canonical_feature :: "FeatureDefinition \<Rightarrow> goval" where
  "canonical_feature definition =
     VObj (put_some ''pattern'' VStr (fd_Pattern definition)
       (put_some ''maximum'' VInt (fd_Maximum definition)
       (put_some ''minimum'' VInt (fd_Minimum definition)
       ((if fd_Values definition \<noteq> [] then map_put ''values'' (canonical_strings (fd_Values definition)) else id)
         [(''type'', VStr (fd_Type definition)), (''default'', fd_Default definition)]))))"

definition canonicalEntitlements :: "EntitlementsConfig \<Rightarrow> goval" where
  "canonicalEntitlements v = VObj [(''features'', map_values canonical_feature (ec_Features v))]"

definition canonical_admission_policy :: "AdmissionPolicy \<Rightarrow> goval" where
  "canonical_admission_policy policy =
     VObj (put_some ''max_in_flight'' VInt (ap_MaxInFlight policy)
       [(''operations'', map_values (\<lambda>d. VObj [(''max_in_flight'', VInt (oa_MaxInFlight d))]) (ap_Operations policy))])"

definition canonicalAdmission :: "AdmissionConfig \<Rightarrow> goval" where
  "canonicalAdmission v = VObj [(''policies'', map_values canonical_admission_policy (ac_Policies v))]"

end
