(* ===== verification/Config_Commerce.thy ===== *)
theory Config_Commerce
  imports Config_Sections
begin

text \<open>
  The commerce section of a configuration, \<open>src/golang/config.go\<close>: payment providers, subscription and
  top-up offers with their provider references, policies for subscription changes, the guardrails of
  automatic recharges, and their canonical form.
\<close>

section \<open>Provider references\<close>

definition no_reference :: "string \<Rightarrow> ProviderReference" where
  "no_reference t = \<lparr>ref_Type = t, ref_PriceID = None, ref_ProductID = None, ref_ObjectKind = None,
     ref_ExternalID = None\<rparr>"

definition parseProviderReference :: "goval \<Rightarrow> string \<Rightarrow> go_error + ProviderReference" where
  "parseProviderReference v path =
     bind_err (configObject v path) (\<lambda>raw.
     bind_err (configString (raw_get raw ''type'') (path @ ''.type'')) (\<lambda>typeValue.
       if typeValue = ''stripe_price'' then
         bind_err (configString (raw_get raw ''price_id'') (path @ ''.price_id'')) (\<lambda>priceID.
           Inr ((no_reference typeValue)\<lparr>ref_PriceID := Some priceID\<rparr>))
       else if typeValue = ''dodo_product'' then
         bind_err (configString (raw_get raw ''product_id'') (path @ ''.product_id'')) (\<lambda>productID.
           Inr ((no_reference typeValue)\<lparr>ref_ProductID := Some productID\<rparr>))
       else if typeValue = ''custom_object'' then
         bind_err (configString (raw_get raw ''object_kind'') (path @ ''.object_kind'')) (\<lambda>objectKind.
         bind_err (configString (raw_get raw ''external_id'') (path @ ''.external_id'')) (\<lambda>externalID.
           Inr ((no_reference typeValue)\<lparr>ref_ObjectKind := Some objectKind, ref_ExternalID := Some externalID\<rparr>)))
       else Inl (newConfigError (path @ ''.type is invalid'') None)))"

definition providerReferenceExternalID :: "ProviderReference \<Rightarrow> string" where
  "providerReferenceExternalID reference =
     (case ref_PriceID reference of
        Some i \<Rightarrow> i
      | None \<Rightarrow>
          (case ref_ProductID reference of
             Some i \<Rightarrow> i
           | None \<Rightarrow> (case ref_ExternalID reference of Some i \<Rightarrow> i | None \<Rightarrow> '''')))"

definition providerReferenceCompatible :: "ProviderDefinition \<Rightarrow> ProviderReference \<Rightarrow> bool" where
  "providerReferenceCompatible provider reference \<longleftrightarrow>
     (prov_Type provider = ''stripe'' \<and> ref_Type reference = ''stripe_price'') \<or>
     (prov_Type provider = ''dodo'' \<and> ref_Type reference = ''dodo_product'') \<or>
     (prov_Type provider = ''custom'' \<and> ref_Type reference = ''custom_object'')"

definition parse_provider :: "string \<Rightarrow> goval \<Rightarrow> go_error + ProviderDefinition" where
  "parse_provider key v =
     (let path = ''commerce.providers.'' @ key in
      bind_err (configObject v path) (\<lambda>providerRaw.
      bind_err (configString (raw_get providerRaw ''type'') (path @ ''.type'')) (\<lambda>typeValue.
        if typeValue = ''custom'' then
          bind_err (configString (raw_get providerRaw ''adapter'') (path @ ''.adapter'')) (\<lambda>adapter.
            Inr \<lparr>prov_Type = typeValue, prov_Adapter = Some adapter\<rparr>)
        else Inr \<lparr>prov_Type = typeValue, prov_Adapter = None\<rparr>)))"

text \<open>The loop over the references of an offer; \<open>seen\<close> is the set shared by all offers.\<close>

fun parse_references ::
  "ProviderDefinition gomap \<Rightarrow> string \<Rightarrow> string list \<Rightarrow> goval gomap \<Rightarrow>
   go_error + (ProviderReference gomap \<times> string list)" where
  "parse_references providers path seen [] = Inr ([], seen)"
| "parse_references providers path seen ((providerKey, input) # rest) =
     (case map_of providers providerKey of
        None \<Rightarrow> Inl (newConfigError (path @ '' references unknown provider'') None)
      | Some provider \<Rightarrow>
          bind_err (parseProviderReference input (path @ ''.providers.'' @ providerKey)) (\<lambda>reference.
            if \<not> providerReferenceCompatible provider reference
            then Inl (newConfigError (path @ '' has incompatible provider reference'') None)
            else
              let uniqueKey = providerKey @ ''/'' @ providerReferenceExternalID reference in
              if uniqueKey \<in> set seen
              then Inl (newConfigError (''duplicate provider object reference '' @ uniqueKey) None)
              else bind_err (parse_references providers path (uniqueKey # seen) rest) (\<lambda>(references, seen').
                     Inr ((providerKey, reference) # references, seen'))))"

section \<open>Offers\<close>

definition parseOfferQuantity :: "goval \<Rightarrow> string \<Rightarrow> go_error + OfferQuantity" where
  "parseOfferQuantity v path =
     (if v = VNil then Inr \<lparr>oq_Minimum = 1, oq_Maximum = 1, oq_Default = 1\<rparr>
      else
        bind_err (configObject v path) (\<lambda>raw.
        bind_err (value_or raw ''minimum'' 1 (\<lambda>v. configInteger v (path @ ''.minimum''))) (\<lambda>minimum.
        bind_err (value_or raw ''maximum'' 1 (\<lambda>v. configInteger v (path @ ''.maximum''))) (\<lambda>maximum.
        bind_err (value_or raw ''default'' 1 (\<lambda>v. configInteger v (path @ ''.default''))) (\<lambda>defaultValue.
          if minimum > maximum \<or> defaultValue < minimum \<or> defaultValue > maximum
          then Inl (newConfigError (path @ '' requires minimum <= default <= maximum'') None)
          else Inr \<lparr>oq_Minimum = minimum, oq_Maximum = maximum, oq_Default = defaultValue\<rparr>)))))"

definition parseCycleGrant ::
  "decimal_pkg \<Rightarrow> host \<Rightarrow> CreditsConfig \<Rightarrow> goval \<Rightarrow> string \<Rightarrow> go_error + CycleGrant" where
  "parseCycleGrant D H credits v path =
     bind_err (configObject v path) (\<lambda>raw.
     bind_err (configDecimal D (raw_get raw ''amount'') (path @ ''.amount'')) (\<lambda>amount.
     bind_err (configString (raw_get raw ''bucket'') (path @ ''.bucket'')) (\<lambda>bucket.
       if \<not> has_key (cc_Buckets credits) bucket
       then Inl (newConfigError (path @ '' references unknown bucket'') None)
       else
     bind_err (configString (raw_get raw ''renewal'') (path @ ''.renewal'')) (\<lambda>renewal.
     let expiryInput = (if raw_set raw ''expiry'' then raw_get raw ''expiry''
                        else VObj [(''type'', VStr ''subscription_end'')]) in
     bind_err (parseExpiry H expiryInput (path @ ''.expiry'')) (\<lambda>expiry.
       Inr \<lparr>cg_Amount = amount, cg_Bucket = bucket, cg_Renewal = renewal, cg_Expiry = expiry\<rparr>)))))"

definition currency_code :: "string \<Rightarrow> bool" where
  "currency_code s \<longleftrightarrow> length s = 3 \<and> list_all is_upper_byte s"

definition parse_price :: "goval gomap \<Rightarrow> string \<Rightarrow> go_error + OfferPrice" where
  "parse_price raw path =
     bind_err (configObject (raw_get raw ''price'') (path @ ''.price'')) (\<lambda>priceRaw.
     bind_err (configInt64 (raw_get priceRaw ''amount_minor'') (path @ ''.price.amount_minor'')) (\<lambda>amountMinor.
     bind_err (configString (raw_get priceRaw ''currency'') (path @ ''.price.currency'')) (\<lambda>currency.
       if \<not> currency_code currency
       then Inl (newConfigError (path @ ''.price.currency must be an uppercase ISO-4217 currency code'') None)
       else
     bind_err (value_or priceRaw ''tax_behavior'' ''unspecified'' (\<lambda>v. configString v (path @ ''.price.tax_behavior''))) (\<lambda>taxBehavior.
       Inr \<lparr>ofp_AmountMinor = amountMinor, ofp_Currency = currency, ofp_TaxBehavior = taxBehavior\<rparr>))))"

definition complete_subscription ::
  "decimal_pkg \<Rightarrow> host \<Rightarrow> CreditsConfig \<Rightarrow> string \<Rightarrow> goval gomap \<Rightarrow> CommerceOffer \<Rightarrow> go_error + CommerceOffer" where
  "complete_subscription D H credits path raw offer =
     bind_err (configString (raw_get raw ''plan'') (path @ ''.plan'')) (\<lambda>plan.
     bind_err (parseBillingInterval (raw_get raw ''billing_interval'') (path @ ''.billing_interval'')) (\<lambda>billingInterval.
     bind_err (optional_value raw ''trial'' (\<lambda>v. parseBillingInterval v (path @ ''.trial''))) (\<lambda>trial.
     bind_err (optional_value raw ''cycle_grant'' (\<lambda>v. parseCycleGrant D H credits v (path @ ''.cycle_grant''))) (\<lambda>grant.
       Inr (offer\<lparr>of_Plan := Some plan, of_BillingInterval := Some billingInterval, of_Trial := trial,
              of_CycleGrant := grant\<rparr>)))))"

definition complete_topup ::
  "decimal_pkg \<Rightarrow> host \<Rightarrow> CreditsConfig \<Rightarrow> string \<Rightarrow> goval gomap \<Rightarrow> CommerceOffer \<Rightarrow> go_error + CommerceOffer" where
  "complete_topup D H credits path raw offer =
     bind_err (configDecimal D (raw_get raw ''credits_per_unit'') (path @ ''.credits_per_unit'')) (\<lambda>creditsPerUnit.
     bind_err (configString (raw_get raw ''bucket'') (path @ ''.bucket'')) (\<lambda>bucket.
       if \<not> has_key (cc_Buckets credits) bucket
       then Inl (newConfigError (path @ ''.bucket references unknown bucket'') None)
       else
     bind_err (parseOfferQuantity (raw_get raw ''quantity'') (path @ ''.quantity'')) (\<lambda>quantity.
     bind_err (value_or raw ''lot_behavior'' ''separate_lots'' (\<lambda>v. configString v (path @ ''.lot_behavior''))) (\<lambda>lotBehavior.
     bind_err (optional_value raw ''expiry'' (\<lambda>v.
        bind_err (parseExpiry H v (path @ ''.expiry'')) (\<lambda>expiry.
          if exp_Type expiry = ''subscription_end''
          then Inl (newConfigError (path @ '' top-up cannot use subscription_end expiry'') None)
          else Inr expiry))) (\<lambda>expiry.
       Inr (offer\<lparr>of_CreditsPerUnit := Some creditsPerUnit, of_Bucket := Some bucket, of_Quantity := Some quantity,
              of_LotBehavior := lotBehavior, of_Expiry := expiry\<rparr>))))))"

definition new_offer ::
  "string \<Rightarrow> string \<Rightarrow> string option \<Rightarrow> int \<Rightarrow> Availability option \<Rightarrow> OfferPrice \<Rightarrow>
   ProviderReference gomap \<Rightarrow> CommerceOffer" where
  "new_offer typeValue displayName description sortOrder availability price references =
     \<lparr>of_Type = typeValue, of_DisplayName = displayName, of_Description = description,
      of_SortOrder = sortOrder, of_Availability = availability, of_Price = price, of_Providers = references,
      of_Plan = None, of_BillingInterval = None, of_Trial = None, of_CycleGrant = None,
      of_CreditsPerUnit = None, of_Quantity = None, of_Bucket = None, of_Expiry = None,
      of_LotBehavior = ''''\<rparr>"

definition parseCommerceOffer ::
  "decimal_pkg \<Rightarrow> host \<Rightarrow> ProviderDefinition gomap \<Rightarrow> CreditsConfig \<Rightarrow> string list \<Rightarrow> string \<Rightarrow> goval \<Rightarrow>
   go_error + (CommerceOffer \<times> string list)" where
  "parseCommerceOffer D H providers credits seen key v =
     (let path = ''commerce.offers.'' @ key in
      bind_err (configObject v path) (\<lambda>raw.
      bind_err (configString (raw_get raw ''type'') (path @ ''.type'')) (\<lambda>typeValue.
      bind_err (configString (raw_get raw ''display_name'') (path @ ''.display_name'')) (\<lambda>displayName.
      bind_err (configOptionalString raw ''description'' (path @ ''.description'')) (\<lambda>description.
      bind_err (value_or raw ''sort_order'' 0 (\<lambda>v. configInteger v (path @ ''.sort_order''))) (\<lambda>sortOrder.
      bind_err (optional_value raw ''availability'' (\<lambda>v. parseAvailability H v (path @ ''.availability''))) (\<lambda>availability.
      bind_err (parse_price raw path) (\<lambda>price.
      bind_err (configObject (raw_get raw ''providers'') (path @ ''.providers'')) (\<lambda>referencesRaw.
      bind_err (parse_references providers path seen referencesRaw) (\<lambda>(references, seen').
      let offer = new_offer typeValue displayName description sortOrder availability price references in
      bind_err (if typeValue = ''subscription'' then complete_subscription D H credits path raw offer
                else if typeValue = ''topup'' then complete_topup D H credits path raw offer
                else Inl (newConfigError (path @ ''.type is invalid'') None)) (\<lambda>offer.
        Inr (offer, seen'))))))))))))"

fun parse_offers ::
  "decimal_pkg \<Rightarrow> host \<Rightarrow> ProviderDefinition gomap \<Rightarrow> CreditsConfig \<Rightarrow> string list \<Rightarrow> goval gomap \<Rightarrow>
   go_error + CommerceOffer gomap" where
  "parse_offers D H providers credits seen [] = Inr []"
| "parse_offers D H providers credits seen ((key, v) # rest) =
     bind_err (parseCommerceOffer D H providers credits seen key v) (\<lambda>(offer, seen').
     bind_err (parse_offers D H providers credits seen' rest) (\<lambda>offers. Inr ((key, offer) # offers)))"

section \<open>Subscription changes and automatic recharges\<close>

definition parse_change_policy :: "string \<Rightarrow> goval \<Rightarrow> go_error + SubscriptionChangePolicy" where
  "parse_change_policy classification input =
     (let path = ''commerce.subscription_changes.'' @ classification in
      bind_err (configObject input path) (\<lambda>policyRaw.
      bind_err (configString (raw_get policyRaw ''effective'') (path @ ''.effective'')) (\<lambda>effective.
      bind_err (configString (raw_get policyRaw ''proration'') (path @ ''.proration'')) (\<lambda>proration.
      bind_err (value_or policyRaw ''payment_failure'' ''prevent_change'' (\<lambda>v. configString v (path @ ''.payment_failure''))) (\<lambda>paymentFailure.
        Inr \<lparr>scp_Effective = effective, scp_Proration = proration, scp_PaymentFailure = paymentFailure\<rparr>)))))"

definition change_classifications :: "string list" where
  "change_classifications = [''upgrade'', ''downgrade'', ''lateral'', ''cadence_change'']"

definition parseSubscriptionChanges :: "goval \<Rightarrow> go_error + SubscriptionChangePolicy gomap" where
  "parseSubscriptionChanges v =
     (if v = VNil then Inr []
      else bind_err (configObject v ''commerce.subscription_changes'') (\<lambda>raw.
        map_entries parse_change_policy
          (map (\<lambda>c. (c, raw_get raw c)) (filter (raw_set raw) change_classifications))))"

fun check_topups :: "CommerceOffer gomap \<Rightarrow> string \<Rightarrow> string list \<Rightarrow> go_error + unit" where
  "check_topups offers currency [] = Inr ()"
| "check_topups offers currency (key # keys) =
     (case map_of offers key of
        None \<Rightarrow> Inl (newConfigError (''commerce.auto_recharge references non-top-up offer '' @ quoted key) None)
      | Some offer \<Rightarrow>
          if of_Type offer \<noteq> ''topup''
          then Inl (newConfigError (''commerce.auto_recharge references non-top-up offer '' @ quoted key) None)
          else if currency = '''' then check_topups offers (ofp_Currency (of_Price offer)) keys
          else if currency \<noteq> ofp_Currency (of_Price offer)
          then Inl (newConfigError ''commerce.auto_recharge eligible top-ups must use one currency'' None)
          else check_topups offers currency keys)"

definition parse_decimal_range :: "decimal_pkg \<Rightarrow> goval \<Rightarrow> go_error + DecimalRange" where
  "parse_decimal_range D v =
     bind_err (configObject v ''commerce.auto_recharge.balance_below'') (\<lambda>thresholdRaw.
     bind_err (configDecimal D (raw_get thresholdRaw ''minimum'') ''commerce.auto_recharge.balance_below.minimum'') (\<lambda>minimum.
     bind_err (configDecimal D (raw_get thresholdRaw ''maximum'') ''commerce.auto_recharge.balance_below.maximum'') (\<lambda>maximum.
     bind_err (configDecimal D (raw_get thresholdRaw ''default'') ''commerce.auto_recharge.balance_below.default'') (\<lambda>defaultValue.
       if minimum > maximum \<or> defaultValue < minimum \<or> defaultValue > maximum
       then Inl (newConfigError ''commerce.auto_recharge.balance_below requires minimum <= default <= maximum'' None)
       else Inr \<lparr>dr_Minimum = minimum, dr_Maximum = maximum, dr_Default = defaultValue\<rparr>))))"

definition quantity_fits :: "CommerceOffer gomap \<Rightarrow> OfferQuantity \<Rightarrow> string \<Rightarrow> bool" where
  "quantity_fits offers quantity key \<longleftrightarrow>
     (case Option.bind (map_of offers key) of_Quantity of
        None \<Rightarrow> False
      | Some q \<Rightarrow> oq_Minimum q \<le> oq_Minimum quantity \<and> oq_Maximum quantity \<le> oq_Maximum q)"

definition parse_recharge_limits :: "host \<Rightarrow> goval gomap \<Rightarrow> go_error + AutoRechargeLimits" where
  "parse_recharge_limits H raw =
     bind_err (configObject (raw_get raw ''limits'') ''commerce.auto_recharge.limits'') (\<lambda>limitsRaw.
     bind_err (configInteger (raw_get limitsRaw ''max_purchases'') ''commerce.auto_recharge.limits.max_purchases'') (\<lambda>maxPurchases.
     bind_err (parseWindow H (raw_get limitsRaw ''window'') ''commerce.auto_recharge.limits.window'') (\<lambda>window.
       if win_Type window = ''plan_assignment''
       then Inl (newConfigError ''commerce.auto_recharge.limits.window must be calendar or rolling'' None)
       else
     bind_err (configInt64 (raw_get limitsRaw ''max_charge_minor'') ''commerce.auto_recharge.limits.max_charge_minor'') (\<lambda>maxChargeMinor.
     bind_err (parseDuration (raw_get limitsRaw ''cooldown'') ''commerce.auto_recharge.limits.cooldown'') (\<lambda>cooldown.
     bind_err (value_or limitsRaw ''max_consecutive_failures'' 3
        (\<lambda>v. configInteger v ''commerce.auto_recharge.limits.max_consecutive_failures'')) (\<lambda>maxConsecutiveFailures.
       Inr \<lparr>arl_MaxPurchases = maxPurchases, arl_Window = window, arl_MaxChargeMinor = maxChargeMinor,
            arl_Cooldown = cooldown, arl_MaxConsecutiveFailure = maxConsecutiveFailures,
            arl_FailureAction = ''pause''\<rparr>))))))"

definition parseAutoRecharge ::
  "decimal_pkg \<Rightarrow> host \<Rightarrow> CommerceOffer gomap \<Rightarrow> goval \<Rightarrow> go_error + AutoRechargeGuardrails" where
  "parseAutoRecharge D H offers v =
     bind_err (configObject v ''commerce.auto_recharge'') (\<lambda>raw.
     bind_err (configSliceStrings (raw_get raw ''eligible_topups'') ''commerce.auto_recharge.eligible_topups'') (\<lambda>eligibleTopups.
     bind_err (check_topups offers '''' eligibleTopups) (\<lambda>_.
     bind_err (parse_decimal_range D (raw_get raw ''balance_below'')) (\<lambda>balanceBelow.
     bind_err (configDecimal D (raw_get raw ''rearm_above'') ''commerce.auto_recharge.rearm_above'') (\<lambda>rearmAbove.
       if \<not> rearmAbove > dr_Maximum balanceBelow
       then Inl (newConfigError ''commerce.auto_recharge.rearm_above must exceed balance_below.maximum'' None)
       else
     bind_err (parseOfferQuantity (raw_get raw ''quantity'') ''commerce.auto_recharge.quantity'') (\<lambda>quantity.
       case find (\<lambda>key. \<not> quantity_fits offers quantity key) eligibleTopups of
         Some key \<Rightarrow> Inl (newConfigError (''commerce.auto_recharge.quantity must fit commerce.offers.'' @ key @ ''.quantity'') None)
       | None \<Rightarrow>
     bind_err (parse_recharge_limits H raw) (\<lambda>limits.
       Inr \<lparr>arg_EligibleTopups = eligibleTopups, arg_BalanceBelow = balanceBelow, arg_RearmAbove = rearmAbove,
            arg_Quantity = quantity, arg_Limits = limits\<rparr>)))))))"

definition parseCommerce :: "decimal_pkg \<Rightarrow> host \<Rightarrow> goval \<Rightarrow> CreditsConfig \<Rightarrow> go_error + CommerceConfig" where
  "parseCommerce D H v credits =
     (if v = VNil
      then Inr \<lparr>com_Providers = [], com_Offers = [], com_SubscriptionChanges = [], com_AutoRecharge = None\<rparr>
      else
        bind_err (configObject v ''commerce'') (\<lambda>raw.
        bind_err (configMap raw ''providers'' ''commerce.providers'') (\<lambda>providersRaw.
        bind_err (configMap raw ''offers'' ''commerce.offers'') (\<lambda>offersRaw.
        bind_err (validateConfigIdentifiers providersRaw ''commerce.providers'') (\<lambda>_.
        bind_err (validateConfigIdentifiers offersRaw ''commerce.offers'') (\<lambda>_.
        bind_err (map_entries parse_provider (in_key_order providersRaw)) (\<lambda>providers.
        bind_err (parse_offers D H providers credits [] (in_key_order offersRaw)) (\<lambda>offers.
        bind_err (parseSubscriptionChanges (raw_get raw ''subscription_changes'')) (\<lambda>changes.
        bind_err (optional_value raw ''auto_recharge'' (parseAutoRecharge D H offers)) (\<lambda>autoRecharge.
          Inr \<lparr>com_Providers = providers, com_Offers = offers, com_SubscriptionChanges = changes,
               com_AutoRecharge = autoRecharge\<rparr>))))))))))"

section \<open>The canonical form\<close>

definition canonicalProviderReference :: "ProviderReference \<Rightarrow> goval" where
  "canonicalProviderReference v =
     VObj (put_some ''external_id'' VStr (ref_ExternalID v)
       (put_some ''object_kind'' VStr (ref_ObjectKind v)
       (put_some ''product_id'' VStr (ref_ProductID v)
       (put_some ''price_id'' VStr (ref_PriceID v) [(''type'', VStr (ref_Type v))]))))"

definition canonical_quantity :: "OfferQuantity \<Rightarrow> goval" where
  "canonical_quantity q =
     VObj [(''minimum'', VInt (oq_Minimum q)), (''maximum'', VInt (oq_Maximum q)), (''default'', VInt (oq_Default q))]"

definition canonical_cycle_grant :: "decimal_pkg \<Rightarrow> CycleGrant \<Rightarrow> goval" where
  "canonical_cycle_grant D g =
     VObj [(''amount'', VStr (amountConfigString D (cg_Amount g))), (''bucket'', VStr (cg_Bucket g)),
           (''renewal'', VStr (cg_Renewal g)), (''expiry'', canonicalExpiry (cg_Expiry g))]"

definition canonical_offer :: "decimal_pkg \<Rightarrow> CommerceOffer \<Rightarrow> goval" where
  "canonical_offer D offer =
     (let price = of_Price offer;
          common = put_some ''availability'' canonicalAvailability (of_Availability offer)
            (put_some ''description'' VStr (of_Description offer)
              [(''type'', VStr (of_Type offer)), (''display_name'', VStr (of_DisplayName offer)),
               (''sort_order'', VInt (of_SortOrder offer)),
               (''price'', VObj [(''amount_minor'', VInt (ofp_AmountMinor price)),
                  (''currency'', VStr (ofp_Currency price)), (''tax_behavior'', VStr (ofp_TaxBehavior price))]),
               (''providers'', map_values canonicalProviderReference (of_Providers offer))])
      in VObj (if of_Type offer = ''subscription'' then
                 put_some ''cycle_grant'' (canonical_cycle_grant D) (of_CycleGrant offer)
                   (put_some ''trial'' canonicalInterval (of_Trial offer)
                   (put_some ''billing_interval'' canonicalInterval (of_BillingInterval offer)
                   (put_some ''plan'' VStr (of_Plan offer) common)))
               else
                 map_put ''lot_behavior'' (VStr (of_LotBehavior offer))
                   (put_some ''expiry'' canonicalExpiry (of_Expiry offer)
                   (put_some ''bucket'' VStr (of_Bucket offer)
                   (put_some ''quantity'' canonical_quantity (of_Quantity offer)
                   (put_some ''credits_per_unit'' (\<lambda>x. VStr (amountConfigString D x)) (of_CreditsPerUnit offer) common))))))"

definition canonical_recharge :: "decimal_pkg \<Rightarrow> AutoRechargeGuardrails \<Rightarrow> goval" where
  "canonical_recharge D auto =
     (let below = arg_BalanceBelow auto; limits = arg_Limits auto in
      VObj [(''eligible_topups'', canonical_strings (arg_EligibleTopups auto)),
            (''balance_below'', VObj [(''minimum'', VStr (amountConfigString D (dr_Minimum below))),
               (''maximum'', VStr (amountConfigString D (dr_Maximum below))),
               (''default'', VStr (amountConfigString D (dr_Default below)))]),
            (''rearm_above'', VStr (amountConfigString D (arg_RearmAbove auto))),
            (''quantity'', canonical_quantity (arg_Quantity auto)),
            (''limits'', VObj [(''max_purchases'', VInt (arl_MaxPurchases limits)),
               (''window'', canonicalWindow (arl_Window limits)),
               (''max_charge_minor'', VInt (arl_MaxChargeMinor limits)),
               (''cooldown'', canonicalDuration (arl_Cooldown limits)),
               (''max_consecutive_failures'', VInt (arl_MaxConsecutiveFailure limits)),
               (''failure_action'', VStr (arl_FailureAction limits))])])"

definition canonicalCommerce :: "decimal_pkg \<Rightarrow> CommerceConfig \<Rightarrow> goval" where
  "canonicalCommerce D v =
     VObj (put_some ''auto_recharge'' (canonical_recharge D) (com_AutoRecharge v)
       ((if com_SubscriptionChanges v \<noteq> []
         then map_put ''subscription_changes'' (map_values (\<lambda>p. VObj [(''effective'', VStr (scp_Effective p)),
                (''proration'', VStr (scp_Proration p)), (''payment_failure'', VStr (scp_PaymentFailure p))])
                (com_SubscriptionChanges v))
         else id)
         [(''providers'', map_values (\<lambda>p. VObj (put_some ''adapter'' VStr (prov_Adapter p) [(''type'', VStr (prov_Type p))]))
             (com_Providers v)),
          (''offers'', map_values (canonical_offer D) (com_Offers v))]))"

end
