(* ===== verification/Config_Plans.thy ===== *)
theory Config_Plans
  imports Config_Commerce
begin

text \<open>
  The plans of a configuration, \<open>src/golang/config.go\<close>: features, quotas, the credit allowance and the
  references of a plan to the other sections, and their canonical form.
\<close>

section \<open>Parts of a plan\<close>

definition mapBucketPriorities :: "BucketDefinition gomap \<Rightarrow> int list" where
  "mapBucketPriorities buckets = map (\<lambda>(_, bucket). bd_Priority bucket) buckets"

definition validatePlanFeatureValue ::
  "regex_pkg \<Rightarrow> goval \<Rightarrow> FeatureDefinition \<Rightarrow> string \<Rightarrow> go_error + goval" where
  "validatePlanFeatureValue X v definition path =
     (if fd_Type definition = ''boolean'' then
        bind_err (configBool v path) (\<lambda>b. Inr (VBool b))
      else if fd_Type definition = ''integer'' then
        bind_err (configInteger v path) (\<lambda>integer.
          if \<not> pred_option (\<lambda>lo. lo \<le> integer) (fd_Minimum definition)
          then Inl (newConfigError (path @ '' is below the feature minimum'') None)
          else if \<not> pred_option (\<lambda>hi. integer \<le> hi) (fd_Maximum definition)
          then Inl (newConfigError (path @ '' exceeds the feature maximum'') None)
          else Inr (VInt integer))
      else if fd_Type definition = ''enum'' then
        bind_err (configString v path) (\<lambda>stringValue.
          if stringValue \<in> set (fd_Values definition) then Inr (VStr stringValue)
          else Inl (newConfigError (path @ '' has an invalid enum value'') None))
      else if fd_Type definition = ''string'' then
        bind_err (configString v path) (\<lambda>stringValue.
          case fd_Pattern definition of
            None \<Rightarrow> Inr (VStr stringValue)
          | Some pattern \<Rightarrow>
              (case rx_Compile X pattern of
                 Some err \<Rightarrow> Inl (newConfigError (path @ '' does not match the feature pattern'') (Some err))
               | None \<Rightarrow>
                   (case rx_Match X pattern stringValue of
                      Inl err \<Rightarrow> Inl (newConfigError (path @ '' does not match the feature pattern'') (Some err))
                    | Inr matched \<Rightarrow>
                        if matched then Inr (VStr stringValue)
                        else Inl (newConfigError (path @ '' does not match the feature pattern'') None))))
      else Inl (newConfigError (path @ '' has an invalid feature definition'') None))"

fun thresholds_ok :: "int option \<Rightarrow> int list \<Rightarrow> bool" where
  "thresholds_ok previous [] = True"
| "thresholds_ok previous (t # ts) =
     (1 \<le> t \<and> t \<le> 100 \<and> pred_option (\<lambda>p. p < t) previous \<and> thresholds_ok (Some t) ts)"

definition measure_declared :: "PricingConfig option \<Rightarrow> string \<Rightarrow> string \<Rightarrow> bool" where
  "measure_declared pricing operation measureKey \<longleftrightarrow>
     (case pricing of
        None \<Rightarrow> False
      | Some p \<Rightarrow>
          (case map_of (pc_Operations p) operation of
             None \<Rightarrow> False
           | Some definition \<Rightarrow>
               (case map_of (od_Measures definition) measureKey of None \<Rightarrow> False | Some m \<Rightarrow> mea_Unit m \<noteq> '''')))"

definition parseQuota ::
  "decimal_pkg \<Rightarrow> host \<Rightarrow> PricingConfig option \<Rightarrow> goval \<Rightarrow> string \<Rightarrow> go_error + QuotaDefinition" where
  "parseQuota D H pricing v path =
     bind_err (configObject v path) (\<lambda>raw.
     bind_err (configString (raw_get raw ''operation'') (path @ ''.operation'')) (\<lambda>operation.
     bind_err (configString (raw_get raw ''measure'') (path @ ''.measure'')) (\<lambda>measureKey.
       if \<not> measure_declared pricing operation measureKey
       then Inl (newConfigError (path @ '' references an unknown operation measure'') None)
       else
     bind_err (configDecimal D (raw_get raw ''limit'') (path @ ''.limit'')) (\<lambda>limit.
     bind_err (parseWindow H (raw_get raw ''window'') (path @ ''.window'')) (\<lambda>window.
     bind_err (configString (raw_get raw ''enforcement'') (path @ ''.enforcement'')) (\<lambda>enforcement.
     bind_err (value_or raw ''emit_at_percent'' [100] (\<lambda>v.
        bind_err (configArray v (path @ ''.emit_at_percent'')) (\<lambda>values.
          map_indexed (\<lambda>index threshold. configInteger threshold (indexed_path (path @ ''.emit_at_percent'') index)) values))) (\<lambda>emitAtPercent.
       if \<not> thresholds_ok None emitAtPercent
       then Inl (newConfigError (path @ ''.emit_at_percent must be unique, increasing, and between 1 and 100'') None)
       else Inr \<lparr>qd_Operation = operation, qd_Measure = measureKey, qd_Limit = limit, qd_Window = window,
                 qd_Enforcement = enforcement, qd_EmitAtPercent = emitAtPercent\<rparr>)))))))"

definition parseCreditAllowance :: "decimal_pkg \<Rightarrow> host \<Rightarrow> goval \<Rightarrow> string \<Rightarrow> go_error + CreditAllowance" where
  "parseCreditAllowance D H v path =
     bind_err (configObject v path) (\<lambda>raw.
     bind_err (configDecimal D (raw_get raw ''amount'') (path @ ''.amount'')) (\<lambda>amount.
     bind_err (configInteger (raw_get raw ''priority'') (path @ ''.priority'')) (\<lambda>priority.
       if priority < 0 then Inl (newConfigError (path @ ''.priority must be non-negative'') None)
       else
     bind_err (parseWindow H (raw_get raw ''window'') (path @ ''.window'')) (\<lambda>window.
       Inr \<lparr>ca_Amount = amount, ca_Priority = priority, ca_Window = window\<rparr>))))"

section \<open>Plans\<close>

definition subscription_plans :: "CommerceOffer gomap \<Rightarrow> string list" where
  "subscription_plans offers =
     List.map_filter (\<lambda>(_, offer). if of_Type offer = ''subscription'' then of_Plan offer else None) offers"

fun check_operations ::
  "PricingConfig option \<Rightarrow> string option \<Rightarrow> string \<Rightarrow> string list \<Rightarrow> string list \<Rightarrow> go_error + unit" where
  "check_operations pricing rateCard key seen [] = Inr ()"
| "check_operations pricing rateCard key seen (operation # rest) =
     (let path = ''plans.'' @ key in
      if operation \<in> set seen
      then Inl (newConfigError (path @ ''.allowed_operations must not contain duplicates'') None)
      else
        bind_err (option_err (validateConfigIdentifier operation (path @ ''.allowed_operations''))) (\<lambda>_.
          if \<not> pred_option (\<lambda>p. has_key (pc_Operations p) operation) pricing \<or> pricing = None
          then Inl (newConfigError (''plans.'' @ key @ '' references unknown operation '' @ quoted operation) None)
          else if rateCard = None \<or> \<not> ResolvesOperation pricing (the rateCard) operation
          then Inl (newConfigError (''plans.'' @ key @ '' enables '' @ quoted operation @ '' without pricing'') None)
          else check_operations pricing rateCard key (operation # seen) rest))"

definition parse_plan_feature ::
  "regex_pkg \<Rightarrow> EntitlementsConfig \<Rightarrow> string \<Rightarrow> string \<Rightarrow> goval \<Rightarrow> go_error + goval" where
  "parse_plan_feature X entitlements key featureKey featureValue =
     (case map_of (ec_Features entitlements) featureKey of
        None \<Rightarrow> Inl (newConfigError (''plans.'' @ key @ '' references unknown feature '' @ quoted featureKey) None)
      | Some definition \<Rightarrow>
          validatePlanFeatureValue X featureValue definition (''plans.'' @ key @ ''.features.'' @ featureKey))"

definition parse_plan_allowance ::
  "decimal_pkg \<Rightarrow> host \<Rightarrow> CreditsConfig \<Rightarrow> string \<Rightarrow> goval \<Rightarrow> go_error + CreditAllowance" where
  "parse_plan_allowance D H credits key input =
     bind_err (parseCreditAllowance D H input (''plans.'' @ key @ ''.credit_allowance'')) (\<lambda>parsed.
       if ca_Priority parsed \<in> set (mapBucketPriorities (cc_Buckets credits))
       then Inl (newConfigError (''plans.'' @ key @ ''.credit_allowance.priority conflicts with credit bucket priority '' @
              fmt_nat (nat (ca_Priority parsed))) None)
       else if cc_DefaultBucket credits = None
       then Inl (newConfigError (''plans.'' @ key @ ''.credit_allowance requires credits.default_bucket'') None)
       else Inr parsed)"

definition parse_rollout :: "string list \<Rightarrow> string \<Rightarrow> goval gomap \<Rightarrow> go_error + string" where
  "parse_rollout subscriptionPlans key planRaw =
     (let path = ''plans.'' @ key;
          backed = (key \<in> set subscriptionPlans) in
      bind_err (value_or planRaw ''evolution'' (if backed then ''next_renewal'' else ''immediate'') (\<lambda>input.
        bind_err (configObject input (path @ ''.evolution'')) (\<lambda>evolution.
          configString (raw_get evolution ''default_rollout'') (path @ ''.evolution.default_rollout'')))) (\<lambda>defaultRollout.
        if defaultRollout \<notin> {''immediate'', ''next_renewal'', ''new_assignments_only''}
        then Inl (newConfigError (path @ ''.evolution.default_rollout is invalid'') None)
        else if defaultRollout = ''next_renewal'' \<and> \<not> backed
        then Inl (newConfigError (path @ ''.evolution.default_rollout=next_renewal requires a subscription offer'') None)
        else Inr defaultRollout))"

definition parse_plan ::
  "decimal_pkg \<Rightarrow> host \<Rightarrow> regex_pkg \<Rightarrow> PricingConfig option \<Rightarrow> CreditsConfig \<Rightarrow> EntitlementsConfig \<Rightarrow>
   AdmissionConfig \<Rightarrow> string list \<Rightarrow> string \<Rightarrow> goval \<Rightarrow> go_error + PlanDefinition" where
  "parse_plan D H X pricing credits entitlements admission subscriptionPlans key v =
     (let path = ''plans.'' @ key in
      bind_err (configObject v path) (\<lambda>planRaw.
      bind_err (configString (raw_get planRaw ''display_name'') (path @ ''.display_name'')) (\<lambda>displayName.
      bind_err (value_or planRaw ''rank'' 0 (\<lambda>v. configInteger v (path @ ''.rank''))) (\<lambda>rank.
      bind_err (configOptionalString planRaw ''description'' (path @ ''.description'')) (\<lambda>description.
      bind_err (configOptionalString planRaw ''rate_card'' (path @ ''.rate_card'')) (\<lambda>rateCard.
        if rateCard \<noteq> None \<and> (pricing = None \<or> \<not> has_key (pc_RateCards (the pricing)) (the rateCard))
        then Inl (newConfigError (''plans.'' @ key @ ''.rate_card references unknown rate card '' @ quoted (the rateCard)) None)
        else
      bind_err (value_or planRaw ''allowed_operations'' [] (\<lambda>v. configSliceStrings v (path @ ''.allowed_operations''))) (\<lambda>allowedOperations.
      bind_err (check_operations pricing rateCard key [] allowedOperations) (\<lambda>_.
      bind_err (configMap planRaw ''features'' (path @ ''.features'')) (\<lambda>featuresRaw.
      bind_err (validateConfigIdentifiers featuresRaw (path @ ''.features'')) (\<lambda>_.
      bind_err (map_entries (parse_plan_feature X entitlements key) featuresRaw) (\<lambda>features.
      bind_err (configMap planRaw ''quotas'' (path @ ''.quotas'')) (\<lambda>quotasRaw.
      bind_err (validateConfigIdentifiers quotasRaw (path @ ''.quotas'')) (\<lambda>_.
      bind_err (map_entries (\<lambda>quotaKey quotaInput. parseQuota D H pricing quotaInput (path @ ''.quotas.'' @ quotaKey)) quotasRaw) (\<lambda>quotas.
      bind_err (configOptionalString planRaw ''credit_policy'' (path @ ''.credit_policy'')) (\<lambda>creditPolicy.
        if \<not> pred_option (has_key (cc_Policies credits)) creditPolicy
        then Inl (newConfigError (path @ ''.credit_policy references unknown policy'') None)
        else
      bind_err (configOptionalString planRaw ''admission_policy'' (path @ ''.admission_policy'')) (\<lambda>admissionPolicy.
        if \<not> pred_option (has_key (ac_Policies admission)) admissionPolicy
        then Inl (newConfigError (path @ ''.admission_policy references unknown policy'') None)
        else
      bind_err (optional_value planRaw ''credit_allowance'' (parse_plan_allowance D H credits key)) (\<lambda>allowance.
      bind_err (parse_rollout subscriptionPlans key planRaw) (\<lambda>defaultRollout.
        Inr \<lparr>pd_DisplayName = displayName, pd_Rank = rank, pd_Description = description, pd_RateCard = rateCard,
             pd_AllowedOperations = allowedOperations, pd_Features = features, pd_CreditAllowance = allowance,
             pd_Quotas = quotas, pd_CreditPolicy = creditPolicy, pd_AdmissionPolicy = admissionPolicy,
             pd_Evolution = \<lparr>pe_DefaultRollout = defaultRollout\<rparr>\<rparr>))))))))))))))))))"

definition parsePlans ::
  "decimal_pkg \<Rightarrow> host \<Rightarrow> regex_pkg \<Rightarrow> goval \<Rightarrow> PricingConfig option \<Rightarrow> CreditsConfig \<Rightarrow> EntitlementsConfig \<Rightarrow>
   AdmissionConfig \<Rightarrow> CommerceConfig \<Rightarrow> go_error + PlanDefinition gomap" where
  "parsePlans D H X v pricing credits entitlements admission commerce =
     (if v = VNil then Inr []
      else
        bind_err (configObject v ''plans'') (\<lambda>raw.
        bind_err (validateConfigIdentifiers raw ''plans'') (\<lambda>_.
          map_entries (parse_plan D H X pricing credits entitlements admission
            (subscription_plans (com_Offers commerce))) (in_key_order raw))))"

section \<open>The canonical form\<close>

definition canonical_quota :: "decimal_pkg \<Rightarrow> QuotaDefinition \<Rightarrow> goval" where
  "canonical_quota D quota =
     VObj [(''operation'', VStr (qd_Operation quota)), (''measure'', VStr (qd_Measure quota)),
           (''limit'', VStr (amountConfigString D (qd_Limit quota))), (''window'', canonicalWindow (qd_Window quota)),
           (''enforcement'', VStr (qd_Enforcement quota)),
           (''emit_at_percent'', VArr (map VInt (qd_EmitAtPercent quota)))]"

definition canonical_allowance :: "decimal_pkg \<Rightarrow> CreditAllowance \<Rightarrow> goval" where
  "canonical_allowance D a =
     VObj [(''amount'', VStr (amountConfigString D (ca_Amount a))), (''priority'', VInt (ca_Priority a)),
           (''window'', canonicalWindow (ca_Window a))]"

definition canonical_plan :: "decimal_pkg \<Rightarrow> PlanDefinition \<Rightarrow> goval" where
  "canonical_plan D plan =
     VObj (put_some ''admission_policy'' VStr (pd_AdmissionPolicy plan)
       (put_some ''credit_policy'' VStr (pd_CreditPolicy plan)
       (put_some ''credit_allowance'' (canonical_allowance D) (pd_CreditAllowance plan)
       (put_some ''rate_card'' VStr (pd_RateCard plan)
       (put_some ''description'' VStr (pd_Description plan)
         [(''display_name'', VStr (pd_DisplayName plan)), (''rank'', VInt (pd_Rank plan)),
          (''allowed_operations'', canonical_strings (pd_AllowedOperations plan)),
          (''features'', VObj (pd_Features plan)),
          (''quotas'', map_values (canonical_quota D) (pd_Quotas plan)),
          (''evolution'', VObj [(''default_rollout'', VStr (pe_DefaultRollout (pd_Evolution plan)))])])))))"

definition canonicalPlans :: "decimal_pkg \<Rightarrow> PlanDefinition gomap \<Rightarrow> goval" where
  "canonicalPlans D plans = map_values (canonical_plan D) plans"

end
