(* ===== verification/Config_Load.thy ===== *)
theory Config_Load
  imports Config_Plans
begin

text \<open>
  Loading and printing a whole configuration, \<open>src/golang/config.go\<close>: \<open>parseBursarConfig\<close> with the references between
  sections, the normalisation of raw values, \<open>LoadConfigFromMap\<close>, the canonical form, and the rollout manifest. The
  validator for the embedded JSON schema is a third-party package and a parameter. The functions that turn the bytes of a
  JSON or YAML document into such a map are not modelled.
\<close>

section \<open>The whole configuration\<close>

text \<open>The packages the loader calls.\<close>

record config_pkgs =
  pk_decimal :: decimal_pkg
  pk_host :: host
  pk_regex :: regex_pkg
  pk_schema :: "goval gomap \<Rightarrow> go_error option"        \<comment> \<open>the error of \<open>compiledConfigSchema.Validate\<close>\<close>

fun check_admission :: "PricingConfig \<Rightarrow> AdmissionPolicy gomap \<Rightarrow> go_error + unit" where
  "check_admission pricing [] = Inr ()"
| "check_admission pricing ((policyKey, policy) # rest) =
     (case find (\<lambda>operation. \<not> has_key (pc_Operations pricing) operation) (map_keys (ap_Operations policy)) of
        Some operation \<Rightarrow>
          Inl (newConfigError (''admission policy '' @ quoted policyKey @ '' references unknown operation '' @ operation) None)
      | None \<Rightarrow> check_admission pricing rest)"

text \<open>A lookup of a missing plan gives the zero plan, whose name is empty.\<close>

definition plan_name :: "PlanDefinition gomap \<Rightarrow> string \<Rightarrow> string" where
  "plan_name plans key = (case map_of plans key of None \<Rightarrow> '''' | Some p \<Rightarrow> pd_DisplayName p)"

fun check_offers :: "PlanDefinition gomap \<Rightarrow> CommerceOffer gomap \<Rightarrow> go_error + unit" where
  "check_offers plans [] = Inr ()"
| "check_offers plans ((offerKey, offer) # rest) =
     (if of_Type offer = ''subscription'' \<and>
         (case of_Plan offer of None \<Rightarrow> True | Some plan \<Rightarrow> plan_name plans plan = '''')
      then Inl (newConfigError (''commerce.offers.'' @ offerKey @ ''.plan references unknown plan'') None)
      else check_offers plans rest)"

fun check_programs :: "PlanDefinition gomap \<Rightarrow> GrantProgram gomap \<Rightarrow> go_error + unit" where
  "check_programs plans [] = Inr ()"
| "check_programs plans ((programKey, program) # rest) =
     (case find (\<lambda>plan. \<not> has_key plans plan) (gp_EligibilityPlans program) of
        Some plan \<Rightarrow>
          Inl (newConfigError (''grant program '' @ quoted programKey @ '' references unknown plans '' @ plan) None)
      | None \<Rightarrow> check_programs plans rest)"

definition parseBursarConfig :: "config_pkgs \<Rightarrow> goval gomap \<Rightarrow> go_error + BursarConfig" where
  "parseBursarConfig P raw =
     (let D = pk_decimal P; H = pk_host P; X = pk_regex P in
      bind_err (configInteger (raw_get raw ''version'') ''version'') (\<lambda>version.
        if version \<noteq> 1 then Inl (newConfigError ''version must equal 1'' None)
        else
      bind_err (configMap raw ''catalog'' ''catalog'') (\<lambda>catalogRaw.
      bind_err (configOptionalString catalogRaw ''default_plan'' ''catalog.default_plan'') (\<lambda>defaultPlan.
      bind_err (parseCredits D H (raw_get raw ''credits'')) (\<lambda>credits.
      bind_err (parseEntitlements X (raw_get raw ''entitlements'')) (\<lambda>entitlements.
      bind_err (parseAdmission (raw_get raw ''admission'')) (\<lambda>admission.
      bind_err (optional_value raw ''pricing'' (parsePricing D)) (\<lambda>pricing.
      bind_err (case pricing of None \<Rightarrow> Inr () | Some p \<Rightarrow> check_admission p (ac_Policies admission)) (\<lambda>_.
      bind_err (parseCommerce D H (raw_get raw ''commerce'') credits) (\<lambda>commerce.
      bind_err (parsePlans D H X (raw_get raw ''plans'') pricing credits entitlements admission commerce) (\<lambda>plans.
      bind_err (check_offers plans (com_Offers commerce)) (\<lambda>_.
      bind_err (check_programs plans (cc_GrantPrograms credits)) (\<lambda>_.
        if \<not> pred_option (has_key plans) defaultPlan
        then Inl (newConfigError (''catalog.default_plan references unknown plan '' @ quoted (the defaultPlan)) None)
        else if plans \<noteq> [] \<and> defaultPlan = None
        then Inl (newConfigError ''catalog.default_plan is required when plans are configured'' None)
        else Inr \<lparr>cfg_Version = 1, cfg_Catalog = \<lparr>cat_DefaultPlan = defaultPlan\<rparr>, cfg_Pricing = pricing,
                  cfg_Credits = credits, cfg_Entitlements = entitlements, cfg_Admission = admission,
                  cfg_Plans = plans, cfg_Commerce = commerce\<rparr>)))))))))))))"

text \<open>
  The model's values already have the shapes \<open>canonicalJSONValue\<close> produces: a typed slice or a map with
  a string key type is a \<^const>\<open>VArr\<close> or a \<^const>\<open>VObj\<close>, so what remains is the detached copy. A
  value of another type is returned as it is.
\<close>

fun canonicalJSONValue :: "goval \<Rightarrow> goval" where
  "canonicalJSONValue (VObj m) = VObj (map (\<lambda>(k, v). (k, canonicalJSONValue v)) m)"
| "canonicalJSONValue (VArr xs) = VArr (map canonicalJSONValue xs)"
| "canonicalJSONValue v = v"

definition canonicalJSONMap :: "goval gomap \<Rightarrow> goval gomap" where
  "canonicalJSONMap m = (case canonicalJSONValue (VObj m) of VObj converted \<Rightarrow> converted | _ \<Rightarrow> [])"

definition validateConfigStructure :: "config_pkgs \<Rightarrow> goval gomap \<Rightarrow> go_error option" where
  "validateConfigStructure P data =
     (case pk_schema P data of
        None \<Rightarrow> None
      | Some err \<Rightarrow> Some (newConfigError ''configuration does not match the Bursar schema'' (Some err)))"

text \<open>\<open>None\<close> is a nil map.\<close>

definition load_config_from_map :: "config_pkgs \<Rightarrow> goval gomap option \<Rightarrow> go_error + BursarConfig" where
  "load_config_from_map P data =
     (case data of
        None \<Rightarrow> Inl (newConfigError ''configuration must be an object'' None)
      | Some m \<Rightarrow>
          let normalized = canonicalJSONMap m in
          bind_err (option_err (validateConfigStructure P normalized)) (\<lambda>_. parseBursarConfig P normalized))"

definition LoadConfigFromMap :: "config_pkgs \<Rightarrow> goval gomap \<Rightarrow> go_error + BursarConfig" where
  "LoadConfigFromMap P m = load_config_from_map P (Some m)"

definition canonical_config :: "decimal_pkg \<Rightarrow> BursarConfig \<Rightarrow> goval gomap" where
  "canonical_config D config =
     canonicalJSONMap
       ([(''version'', VInt (cfg_Version config)), (''credits'', canonicalCredits D (cfg_Credits config)),
         (''catalog'', VObj (put_some ''default_plan'' VStr (cat_DefaultPlan (cfg_Catalog config)) []))] @
        put_some ''pricing'' (canonicalPricing D) (cfg_Pricing config) [] @
        [(''entitlements'', canonicalEntitlements (cfg_Entitlements config)),
         (''admission'', canonicalAdmission (cfg_Admission config)),
         (''plans'', canonicalPlans D (cfg_Plans config)),
         (''commerce'', canonicalCommerce D (cfg_Commerce config))])"

definition CanonicalParsedBursarConfigDict :: "config_pkgs \<Rightarrow> BursarConfig \<Rightarrow> goval gomap" where
  "CanonicalParsedBursarConfigDict P config = canonical_config (pk_decimal P) config"

definition CanonicalBursarConfigDict :: "config_pkgs \<Rightarrow> goval gomap option \<Rightarrow> go_error + goval gomap" where
  "CanonicalBursarConfigDict P data =
     bind_err (load_config_from_map P data) (\<lambda>config. Inr (CanonicalParsedBursarConfigDict P config))"

section \<open>Rollouts\<close>

definition rollout_kinds :: "string list" where
  "rollout_kinds = [''immediate'', ''next_renewal'', ''new_assignments_only'']"

definition parse_plan_rollout :: "string \<Rightarrow> goval \<Rightarrow> go_error + PlanRollout" where
  "parse_plan_rollout key input =
     (let path = ''rollout.plans.'' @ key in
      bind_err (option_err (validateConfigIdentifier key path)) (\<lambda>_.
      bind_err (configObject input path) (\<lambda>raw.
        case find (\<lambda>field. field \<notin> {''effective'', ''include_pinned'', ''includePinned''}) (map_keys raw) of
          Some field \<Rightarrow> Inl (newConfigError (path @ '' contains unknown field '' @ quoted field) None)
        | None \<Rightarrow>
      bind_err (configString (raw_get raw ''effective'') (path @ ''.effective'')) (\<lambda>effective.
        if effective \<notin> set rollout_kinds
        then Inl (newConfigError (path @ ''.effective must be immediate, next_renewal, or new_assignments_only'') None)
        else if has_key raw ''include_pinned'' \<and> has_key raw ''includePinned''
        then Inl (newConfigError (path @ '' must not set both include_pinned and includePinned'') None)
        else
      bind_err (if raw_set raw ''include_pinned'' then configBool (raw_get raw ''include_pinned'') (path @ ''.include_pinned'')
                else if raw_set raw ''includePinned'' then configBool (raw_get raw ''includePinned'') (path @ ''.includePinned'')
                else Inr False) (\<lambda>includePinned.
        Inr \<lparr>plr_Effective = effective, plr_IncludePinned = includePinned\<rparr>)))))"

definition LoadCatalogRollout :: "goval gomap option \<Rightarrow> go_error + CatalogRollout" where
  "LoadCatalogRollout v =
     (case v of
        None \<Rightarrow> Inr \<lparr>clr_Plans = []\<rparr>
      | Some m \<Rightarrow>
          (case find (\<lambda>key. key \<noteq> ''plans'') (map_keys m) of
             Some key \<Rightarrow> Inl (newConfigError (''rollout contains unknown field '' @ quoted key) None)
           | None \<Rightarrow>
               bind_err (configMap m ''plans'' ''rollout.plans'') (\<lambda>plansRaw.
               bind_err (map_entries parse_plan_rollout plansRaw) (\<lambda>plans. Inr \<lparr>clr_Plans = plans\<rparr>))))"

fun check_rollout :: "BursarConfig \<Rightarrow> PlanRollout gomap \<Rightarrow> go_error + unit" where
  "check_rollout config [] = Inr ()"
| "check_rollout config ((key, policy) # rest) =
     (if \<not> has_key (cfg_Plans config) key
      then Inl (newConfigError (''rollout.plans references unknown plan '' @ quoted key) None)
      else if plr_Effective policy = ''next_renewal'' \<and> key \<notin> set (subscription_plans (com_Offers (cfg_Commerce config)))
      then Inl (newConfigError (''rollout.plans.'' @ key @ ''.effective=next_renewal requires a subscription offer'') None)
      else check_rollout config rest)"

definition ValidateCatalogRollout :: "BursarConfig option \<Rightarrow> CatalogRollout \<Rightarrow> go_error + CatalogRollout" where
  "ValidateCatalogRollout config rollout =
     (case config of
        None \<Rightarrow> Inl (newConfigError ''catalog configuration is required'' None)
      | Some c \<Rightarrow> bind_err (check_rollout c (clr_Plans rollout)) (\<lambda>_. Inr rollout))"

definition CanonicalCatalogRolloutDict :: "goval gomap option \<Rightarrow> go_error + goval gomap" where
  "CanonicalCatalogRolloutDict v =
     bind_err (LoadCatalogRollout v) (\<lambda>rollout.
       Inr [(''plans'', map_values (\<lambda>policy. VObj [(''effective'', VStr (plr_Effective policy)),
              (''include_pinned'', VBool (plr_IncludePinned policy))]) (clr_Plans rollout))])"

end
