(* ===== verification/Engine.thy ===== *)
theory Engine
  imports Pricing_Config
begin

text \<open>
  Pricing a usage event: \<open>src/golang/metrics.go\<close> and \<open>src/golang/engine.go\<close>. An engine is the
  configuration it holds; \<open>None\<close> stands for a nil engine and for an engine without configuration,
  which every operation treats alike.
\<close>

section \<open>Usage metrics\<close>

record UsageMetrics =
  um_Operation :: string
  um_Measures :: "amount gomap"
  um_Dimensions :: "goval gomap"
  um_Metadata :: "goval gomap"

definition validate_measure :: "string \<times> amount \<Rightarrow> go_error option" where
  "validate_measure = (\<lambda>(name, v).
     if trim_space name = '''' then Some (invalid_request ''usage measure names must not be empty'')
     else if v < 0
     then Some (invalid_request (''usage measure '' @ quoted name @ '' must be non-negative''))
     else None)"

definition validate_dimension :: "string \<times> goval \<Rightarrow> go_error option" where
  "validate_dimension = (\<lambda>(name, v).
     if trim_space name = '''' then Some (invalid_request ''usage dimension names must not be empty'')
     else (case v of
             VStr _ \<Rightarrow> None
           | VBool _ \<Rightarrow> None
           | VDec _ \<Rightarrow> None
           | _ \<Rightarrow> Some (invalid_request (''usage dimension '' @ quoted name @
                    '' must be a string, bool, or decimal.Decimal''))))"

definition UsageMetrics_Validate :: "UsageMetrics \<Rightarrow> go_error option" where
  "UsageMetrics_Validate m =
     (if trim_space (um_Operation m) = ''''
      then Some (invalid_request ''usage operation must be a non-empty string'')
      else case first_error validate_measure (um_Measures m) of
             Some e \<Rightarrow> Some e
           | None \<Rightarrow> first_error validate_dimension (um_Dimensions m))"

section \<open>Matching rules\<close>

type_synonym PricingEngine = "BursarConfig option"

definition NewPricingEngine :: "BursarConfig option \<Rightarrow> go_error + PricingEngine" where
  "NewPricingEngine config =
     (case config of
        None \<Rightarrow> Inl (newConfigError ''pricing configuration is required'' None)
      | Some c \<Rightarrow> Inr (Some c))"

definition validateRuntimeDimension ::
  "goval \<Rightarrow> DimensionDefinition \<Rightarrow> string \<Rightarrow> go_error + MatcherScalar" where
  "validateRuntimeDimension v definition name =
     (if dim_Type definition = ''string'' then
        (case v of VStr s \<Rightarrow> Inr (VStr s)
         | _ \<Rightarrow> Inl (newConfigError (''dimension '' @ quoted name @ '' must be string'') None))
      else if dim_Type definition = ''boolean'' then
        (case v of VBool b \<Rightarrow> Inr (VBool b)
         | _ \<Rightarrow> Inl (newConfigError (''dimension '' @ quoted name @ '' must be boolean'') None))
      else if dim_Type definition = ''number'' then
        (case v of VDec x \<Rightarrow> Inr (VDec x)
         | _ \<Rightarrow> Inl (newConfigError (''dimension '' @ quoted name @ '' must be decimal.Decimal'') None))
      else Inl (newConfigError (''dimension '' @ quoted name @ '' has an invalid type'') None))"

definition equalMatcherScalars :: "MatcherScalar \<Rightarrow> MatcherScalar \<Rightarrow> bool" where
  "equalMatcherScalars left right =
     (case (left, right) of
        (VDec x, VDec y) \<Rightarrow> x = y
      | (VStr s, VStr t) \<Rightarrow> s = t
      | (VBool b, VBool c) \<Rightarrow> b = c
      | _ \<Rightarrow> False)"

definition in_range :: "DimensionMatcher \<Rightarrow> amount \<Rightarrow> bool" where
  "in_range matcher a \<longleftrightarrow>
     (case dm_GT matcher of Some b \<Rightarrow> a > b | None \<Rightarrow> True) \<and>
     (case dm_GTE matcher of Some b \<Rightarrow> a \<ge> b | None \<Rightarrow> True) \<and>
     (case dm_LT matcher of Some b \<Rightarrow> a < b | None \<Rightarrow> True) \<and>
     (case dm_LTE matcher of Some b \<Rightarrow> a \<le> b | None \<Rightarrow> True)"

definition matchesDimension :: "DimensionMatcher \<Rightarrow> MatcherScalar \<Rightarrow> bool" where
  "matchesDimension matcher v =
     (if dm_Op matcher = ''eq'' then equalMatcherScalars v (dm_Value matcher)
      else if dm_Op matcher = ''in'' then list_ex (equalMatcherScalars v) (dm_Values matcher)
      else if dm_Op matcher = ''not_in'' then \<not> list_ex (equalMatcherScalars v) (dm_Values matcher)
      else if dm_Op matcher = ''prefix'' then
        (case (v, dm_Value matcher) of
           (VStr s, VStr p) \<Rightarrow> length p \<le> length s \<and> take (length p) s = p
         | _ \<Rightarrow> False)
      else if dm_Op matcher = ''range'' then
        (case v of VDec a \<Rightarrow> in_range matcher a | _ \<Rightarrow> False)
      else False)"

definition engine_matches :: "PriceRule \<Rightarrow> MatcherScalar gomap \<Rightarrow> bool" where
  "engine_matches rule dimensions =
     list_all (\<lambda>(name, matcher).
       case map_of dimensions name of None \<Rightarrow> False | Some v \<Rightarrow> matchesDimension matcher v)
     (pr_When rule)"

section \<open>Rate cards\<close>

definition resolveRateCard :: "PricingConfig \<Rightarrow> string \<Rightarrow> go_error + string" where
  "resolveRateCard pricing requested =
     (if requested \<noteq> '''' then
        (if has_key (pc_RateCards pricing) requested then Inr requested
         else Inl (newConfigError (''unknown rate card '' @ quoted requested) None))
      else (case map_keys (pc_RateCards pricing) of
              [key] \<Rightarrow> Inr key
            | _ \<Rightarrow> Inl (newConfigError ''rateCard is required when more than one rate card is configured'' None)))"

definition cycle_error :: go_error where
  "cycle_error = newConfigError ''pricing rate-card inheritance cycle detected'' None"

definition no_price_error :: "string \<Rightarrow> string \<Rightarrow> go_error" where
  "no_price_error cardKey operation =
     newConfigError (''rate card '' @ quoted cardKey @ '' has no price for operation '' @ quoted operation) None"

function operation_pricing_loop ::
  "RateCard gomap \<Rightarrow> string \<Rightarrow> string \<Rightarrow> string list \<Rightarrow> string \<Rightarrow> go_error + OperationPricing" where
  "operation_pricing_loop cards cardKey operation seen key =
     (if key \<in> set seen then Inl cycle_error
      else case map_of cards key of
             None \<Rightarrow> Inl (newConfigError (''unknown rate card '' @ quoted key) None)
           | Some c \<Rightarrow>
               (case map_of (rc_Operations c) operation of
                  Some price \<Rightarrow> Inr price
                | None \<Rightarrow>
                    (case rc_Extends c of
                       None \<Rightarrow> Inl (no_price_error cardKey operation)
                     | Some parent \<Rightarrow>
                         operation_pricing_loop cards cardKey operation (key # seen) parent)))"
  by pat_completeness auto
termination
  by (relation "measure (\<lambda>(cards, cardKey, operation, seen, key). card (fst ` set cards - set seen))")
     (auto intro: unseen_decreases)

declare operation_pricing_loop.simps [simp del]

definition operationPricing :: "PricingConfig \<Rightarrow> string \<Rightarrow> string \<Rightarrow> go_error + OperationPricing" where
  "operationPricing pricing cardKey operation =
     operation_pricing_loop (pc_RateCards pricing) cardKey operation [] cardKey"

section \<open>Charges\<close>

definition requiredMeasure :: "amount gomap \<Rightarrow> string \<Rightarrow> go_error + amount" where
  "requiredMeasure measured name =
     (case map_of measured name of
        None \<Rightarrow> Inl (newConfigError (''price charge references missing usage measure '' @ quoted name) None)
      | Some v \<Rightarrow> Inr v)"

fun graduated_loop :: "amount \<Rightarrow> amount \<Rightarrow> amount \<Rightarrow> GraduatedTier list \<Rightarrow> amount" where
  "graduated_loop remaining previous acc [] = acc"
| "graduated_loop remaining previous acc (t # ts) =
     (let units = (case gt_UpTo t of
                     None \<Rightarrow> remaining
                   | Some upTo \<Rightarrow> if remaining < upTo - previous then remaining else upTo - previous);
          acc' = (if units > 0 then acc + units * gt_Rate t else acc);
          remaining' = (if units > 0 then remaining - units else remaining)
      in if \<not> remaining' > 0 then acc'
         else graduated_loop remaining' (case gt_UpTo t of None \<Rightarrow> previous | Some upTo \<Rightarrow> upTo) acc' ts)"

definition volume_tier :: "amount \<Rightarrow> GraduatedTier list \<Rightarrow> GraduatedTier" where
  "volume_tier measured tiers =
     (case find (\<lambda>t. case gt_UpTo t of None \<Rightarrow> True | Some upTo \<Rightarrow> measured \<le> upTo) tiers of
        Some t \<Rightarrow> t
      | None \<Rightarrow> last tiers)"

definition round_packages :: "decimal_pkg \<Rightarrow> string \<Rightarrow> amount \<Rightarrow> go_error + amount" where
  "round_packages D rounding packages =
     (if rounding = ''ceil'' then Inr (dec_ceil D packages)
      else if rounding = ''floor'' then Inr (dec_floor D packages)
      else if rounding = ''nearest'' then Inr (dec_round D packages 0)
      else Inl (newConfigError (''unsupported package rounding '' @ quoted rounding) None))"

fun evaluateCharge :: "decimal_pkg \<Rightarrow> Charge \<Rightarrow> amount gomap \<Rightarrow> go_error + amount" where
  "evaluateCharge D (Charge ty am me rate us un ro ti fo co) measured =
     (if ty = ''flat'' then Inr am
      else if ty = ''per_unit'' then
        bind_err (requiredMeasure measured me) (\<lambda>q.
        bind_err (decimalDiv D q us) (\<lambda>units. Inr (units * rate)))
      else if ty = ''package'' then
        bind_err (requiredMeasure measured me) (\<lambda>q.
        bind_err (decimalDiv D q un) (\<lambda>packages.
        bind_err (round_packages D ro packages) (\<lambda>packages. Inr (packages * am))))
      else if ty = ''graduated'' then
        bind_err (requiredMeasure measured me) (\<lambda>remaining. Inr (graduated_loop remaining 0 0 ti))
      else if ty = ''volume'' then
        bind_err (requiredMeasure measured me) (\<lambda>q.
          if ti = [] then Inl (newConfigError ''volume charge requires at least one tier'' None)
          else Inr (q * gt_Rate (volume_tier q ti)))
      else if ty = ''expression'' then EvaluateExpression D fo measured
      else if ty = ''sum'' then
        bind_err (map_err (\<lambda>component. evaluateCharge D component measured) co) (\<lambda>values.
          Inr (fold (\<lambda>v acc. acc + v) values 0))
      else Inl (newConfigError (''unsupported charge type '' @ quoted ty) None))"

section \<open>Calculate\<close>

definition undeclared :: "string \<Rightarrow> string \<Rightarrow> string \<Rightarrow> go_error" where
  "undeclared operation kind name =
     newConfigError (''operation '' @ quoted operation @ '' received undeclared '' @ kind @ '' '' @ quoted name) None"

text \<open>The loop over the declared dimensions: absent optional ones are left out.\<close>

fun runtime_dimensions ::
  "string \<Rightarrow> goval gomap \<Rightarrow> DimensionDefinition gomap \<Rightarrow> go_error + MatcherScalar gomap" where
  "runtime_dimensions operation supplied [] = Inr []"
| "runtime_dimensions operation supplied ((name, definition) # rest) =
     (if \<not> raw_set supplied name then
        (if dim_Required definition
         then Inl (newConfigError (''operation '' @ quoted operation @ '' requires dimension '' @ quoted name) None)
         else runtime_dimensions operation supplied rest)
      else bind_err (validateRuntimeDimension (raw_get supplied name) definition name) (\<lambda>parsed.
           bind_err (runtime_dimensions operation supplied rest) (\<lambda>ds. Inr ((name, parsed) # ds))))"

definition runtime_measures ::
  "amount gomap \<Rightarrow> MeasureDefinition gomap \<Rightarrow> go_error + amount gomap" where
  "runtime_measures supplied declared =
     map_err (\<lambda>(name, _).
       let v = (case map_of supplied name of Some x \<Rightarrow> x | None \<Rightarrow> 0) in
       if v < 0
       then Inl (newConfigError (''usage measure '' @ quoted name @ '' must be finite and non-negative'') None)
       else Inr (name, v)) declared"

definition select_charge :: "OperationPricing \<Rightarrow> MatcherScalar gomap \<Rightarrow> Charge option" where
  "select_charge price dimensions =
     (case find (\<lambda>rule. engine_matches rule dimensions) (op_Rules price) of
        Some rule \<Rightarrow> Some (pr_Charge rule)
      | None \<Rightarrow>
          if un_Action (op_Unmatched price) = ''charge'' then un_Charge (op_Unmatched price) else None)"

definition requested_card :: "string list \<Rightarrow> string" where
  "requested_card options = (case options of [rateCard] \<Rightarrow> rateCard | _ \<Rightarrow> '''')"

text \<open>\<open>options\<close> are the rate cards of the \<open>PricingOptions\<close> values supplied.\<close>

definition Calculate ::
  "decimal_pkg \<Rightarrow> PricingEngine \<Rightarrow> UsageMetrics \<Rightarrow> string list \<Rightarrow> go_error + CostBreakdown" where
  "Calculate D engine metrics options =
     (case engine of
        None \<Rightarrow> Inl (newConfigError ''pricing engine is not configured'' None)
      | Some config \<Rightarrow>
          if length options > 1
          then Inl (newConfigError ''at most one PricingOptions value may be supplied'' None)
          else case UsageMetrics_Validate metrics of
            Some e \<Rightarrow> Inl e
          | None \<Rightarrow>
         (case cfg_Pricing config of
            None \<Rightarrow> Inl (newConfigError ''usage pricing not configured'' None)
          | Some pricing \<Rightarrow>
         (case map_of (pc_Operations pricing) (um_Operation metrics) of
            None \<Rightarrow> Inl (newConfigError (''unknown usage operation '' @ quoted (um_Operation metrics)) None)
          | Some operation \<Rightarrow>
              bind_err (map_err (\<lambda>(name, _). if has_key (od_Measures operation) name then Inr ()
                  else Inl (undeclared (um_Operation metrics) ''measure'' name)) (um_Measures metrics)) (\<lambda>_.
              bind_err (map_err (\<lambda>(name, _). if has_key (od_Dimensions operation) name then Inr ()
                  else Inl (undeclared (um_Operation metrics) ''dimension'' name)) (um_Dimensions metrics)) (\<lambda>_.
              bind_err (runtime_dimensions (um_Operation metrics) (um_Dimensions metrics) (od_Dimensions operation)) (\<lambda>dimensions.
              bind_err (runtime_measures (um_Measures metrics) (od_Measures operation)) (\<lambda>measured.
              bind_err (resolveRateCard pricing (requested_card options)) (\<lambda>cardKey.
              bind_err (operationPricing pricing cardKey (um_Operation metrics)) (\<lambda>price.
                case select_charge price dimensions of
                  None \<Rightarrow> Inl (newConfigError (''no price rule matched operation '' @ quoted (um_Operation metrics) @
                            '' in rate card '' @ quoted cardKey) None)
                | Some selected \<Rightarrow>
                    bind_err (evaluateCharge D selected measured) (\<lambda>v.
                      if v < 0
                      then Inl (newConfigError (''price charge for '' @ quoted (um_Operation metrics) @
                             '' produced a negative credit cost'') None)
                      else Inr (MakeCostBreakdown D \<lparr>in_ModelCredits = 0, in_ToolCredits = 0,
                        in_SearchCredits = 0, in_CacheSavings = 0, in_FixedCredits = 0,
                        in_OperationCredits = QuantizeMoney D v,
                        in_Breakdown = [(''operation'', VStr (um_Operation metrics)),
                          (''rateCard'', VStr cardKey), (''chargeType'', VStr (ch_Type selected)),
                          (''measures'', VObj (map (\<lambda>(name, a). (name, VStr (dec_to_string D a))) measured)),
                          (''dimensions'', VObj (um_Dimensions metrics))]\<rparr>)))))))))))"

definition CalculateBatch ::
  "decimal_pkg \<Rightarrow> PricingEngine \<Rightarrow> UsageMetrics list \<Rightarrow> string list \<Rightarrow> go_error + CostBreakdown list" where
  "CalculateBatch D engine metrics options =
     (if length options > 1
      then Inl (newConfigError ''at most one PricingOptions value may be supplied'' None)
      else map_err (\<lambda>item. Calculate D engine item options) metrics)"

definition GetRateCardForPlan :: "PricingEngine \<Rightarrow> string \<Rightarrow> string option" where
  "GetRateCardForPlan engine planID =
     (case engine of
        None \<Rightarrow> None
      | Some config \<Rightarrow>
          if planID = '''' then None
          else (case map_of (cfg_Plans config) planID of None \<Rightarrow> None | Some plan \<Rightarrow> pd_RateCard plan))"

section \<open>Resolution of an operation\<close>

text \<open>The card and its ancestors, for a chain that ends after \<open>n\<close> steps.\<close>

fun card_chain :: "RateCard gomap \<Rightarrow> nat \<Rightarrow> string \<Rightarrow> string list" where
  "card_chain cards 0 k = [k]"
| "card_chain cards (Suc n) k =
     k # (case map_of cards k of
            None \<Rightarrow> []
          | Some c \<Rightarrow> (case rc_Extends c of None \<Rightarrow> [] | Some p \<Rightarrow> card_chain cards n p))"

definition card_price :: "RateCard gomap \<Rightarrow> string \<Rightarrow> string \<Rightarrow> OperationPricing option" where
  "card_price cards operation k = Option.bind (map_of cards k) (\<lambda>c. map_of (rc_Operations c) operation)"

fun first_price :: "RateCard gomap \<Rightarrow> string \<Rightarrow> string list \<Rightarrow> OperationPricing option" where
  "first_price cards operation [] = None"
| "first_price cards operation (k # ks) =
     (case card_price cards operation k of Some p \<Rightarrow> Some p | None \<Rightarrow> first_price cards operation ks)"

lemma operation_pricing_loop_grounded:
  "grounded cards n key \<Longrightarrow> \<forall>k \<in> set seen. \<exists>m > n. grounded cards m k \<Longrightarrow>
   operation_pricing_loop cards cardKey operation seen key =
     (case first_price cards operation (card_chain cards n key) of
        Some p \<Rightarrow> Inr p | None \<Rightarrow> Inl (no_price_error cardKey operation))"
proof (induction n key arbitrary: seen rule: grounded.induct)
  case (root k c)
  then have g: "grounded cards 0 k" by (blast intro: grounded.root)
  then have "k \<notin> set seen" using root.prems grounded_unique [OF g] by blast
  with root show ?case
    by (subst operation_pricing_loop.simps) (simp add: card_price_def split: option.splits)
next
  case (step k c p n)
  then have g: "grounded cards (Suc n) k" by (blast intro: grounded.step)
  then have nv: "k \<notin> set seen" using step.prems grounded_unique [OF g] by blast
  have "\<forall>j \<in> set (k # seen). \<exists>m > n. grounded cards m j"
    using step.prems g by (auto intro: Suc_lessD)
  note IH = step.IH [OF this]
  show ?case
    using step.hyps nv IH
    by (subst operation_pricing_loop.simps) (simp add: card_price_def split: option.splits)
qed

lemma operationPricing_grounded:
  "grounded (pc_RateCards p) n k \<Longrightarrow>
   operationPricing p k operation =
     (case first_price (pc_RateCards p) operation (card_chain (pc_RateCards p) n k) of
        Some price \<Rightarrow> Inr price | None \<Rightarrow> Inl (no_price_error k operation))"
  by (simp add: operationPricing_def operation_pricing_loop_grounded)

lemma resolves_loop_iff:
  assumes "\<not> has_key cards []"
  shows "resolves_loop cards operation seen key \<longleftrightarrow>
    (\<exists>price. operation_pricing_loop cards cardKey operation seen key = Inr price)"
  using assms
proof (induction cards operation seen key rule: resolves_loop.induct)
  case (1 cards operation seen key)
  show ?case
    by (subst resolves_loop.simps, subst operation_pricing_loop.simps)
       (use 1 in \<open>auto simp: has_key_def split: option.splits\<close>)
qed

section \<open>Tiered charges\<close>

text \<open>
  The marginal price of a quantity \<open>q\<close>: each tier prices the part of the quantity between the
  previous bound and its own.
\<close>

fun marginal :: "amount \<Rightarrow> amount \<Rightarrow> GraduatedTier list \<Rightarrow> amount" where
  "marginal q previous [] = 0"
| "marginal q previous (t # ts) =
     (case gt_UpTo t of
        None \<Rightarrow> max 0 (q - previous) * gt_Rate t
      | Some b \<Rightarrow> max 0 (min q b - previous) * gt_Rate t + marginal q b ts)"

fun bounded_above :: "amount \<Rightarrow> GraduatedTier list \<Rightarrow> bool" where
  "bounded_above previous [] = False"
| "bounded_above previous (t # ts) =
     (case gt_UpTo t of None \<Rightarrow> ts = [] | Some b \<Rightarrow> previous < b \<and> bounded_above b ts)"

lemma marginal_zero: "bounded_above p ts \<Longrightarrow> q \<le> p \<Longrightarrow> marginal q p ts = 0"
  by (induction p ts rule: bounded_above.induct) (auto simp: max_def min_def split: option.splits)

lemma graduated_loop_marginal:
  "bounded_above p ts \<Longrightarrow> p \<le> q \<Longrightarrow> graduated_loop (q - p) p acc ts = acc + marginal q p ts"
proof (induction p ts arbitrary: acc rule: bounded_above.induct)
  case (2 p t ts)
  show ?case
  proof (cases "gt_UpTo t")
    case None
    with 2 show ?thesis by (simp add: Let_def)
  next
    case (Some b)
    with 2(2) have b: "p < b" "bounded_above b ts" by simp_all
    show ?thesis
    proof (cases "q < b")
      case True
      with b Some 2(3) show ?thesis
        by (simp add: Let_def marginal_zero)
    next
      case False
      show ?thesis
      proof (cases "q = b")
        case True
        with b Some 2(3) show ?thesis by (simp add: Let_def marginal_zero)
      next
        case neq: False
        with 2(1) [OF Some b(2), of "acc + (b - p) * gt_Rate t"] False b Some 2(3)
        show ?thesis by (simp add: Let_def min_def)
      qed
    qed
  qed
qed simp

lemma marginal_mono:
  "bounded_above p ts \<Longrightarrow> \<forall>t \<in> set ts. 0 \<le> gt_Rate t \<Longrightarrow> q \<le> r \<Longrightarrow> marginal q p ts \<le> marginal r p ts"
proof (induction p ts rule: bounded_above.induct)
  case (2 p t ts)
  show ?case
  proof (cases "gt_UpTo t")
    case None
    with 2 show ?thesis by (auto intro!: mult_right_mono)
  next
    case (Some b)
    with 2 have "marginal q b ts \<le> marginal r b ts" by auto
    moreover have "max 0 (min q b - p) * gt_Rate t \<le> max 0 (min r b - p) * gt_Rate t"
      using 2 by (intro mult_right_mono) auto
    ultimately show ?thesis using Some by simp
  qed
qed simp

lemma tiers_wf_bounded:
  assumes "tiers_wf ts" and "\<And>b. gt_UpTo (hd ts) = Some b \<Longrightarrow> p < b"
  shows "bounded_above p ts"
proof -
  from assms(1) obtain bs rs r where "length bs = length rs" "sorted_wrt (<) bs"
    and ts: "ts = map2 (\<lambda>b q. \<lparr>gt_UpTo = Some b, gt_Rate = q\<rparr>) bs rs @ [\<lparr>gt_UpTo = None, gt_Rate = r\<rparr>]"
    unfolding tiers_wf_def by blast
  moreover have "bs \<noteq> [] \<Longrightarrow> p < hd bs"
    using assms(2) ts calculation(1) by (cases bs; cases rs) auto
  ultimately show ?thesis
  proof (induction bs rs arbitrary: p ts rule: list_induct2)
    case (Cons b bs q rs)
    have "bs \<noteq> [] \<Longrightarrow> b < hd bs" using Cons.prems(1) by (cases bs) auto
    with Cons.IH [of _ b] Cons.prems show ?case by simp
  qed simp
qed

lemma volume_tier_first:
  assumes "tiers_wf ts"
  shows "\<exists>us vs. ts = us @ volume_tier q ts # vs \<and>
    (\<forall>t \<in> set us. \<exists>b. gt_UpTo t = Some b \<and> b < q) \<and>
    (\<forall>b. gt_UpTo (volume_tier q ts) = Some b \<longrightarrow> q \<le> b)"
proof -
  let ?P = "\<lambda>t :: GraduatedTier. case gt_UpTo t of None \<Rightarrow> True | Some upTo \<Rightarrow> q \<le> upTo"
  from assms have "ts \<noteq> []" "gt_UpTo (last ts) = None" by (auto simp: tiers_wf_def)
  then have "\<exists>t \<in> set ts. ?P t" by (intro bexI [of _ "last ts"]) auto
  then have "find ?P ts \<noteq> None" by (auto simp: find_None_iff)
  then obtain t where t: "find ?P ts = Some t" by auto
  then obtain i where i: "i < length ts" "?P (ts ! i)" "t = ts ! i" "\<forall>j<i. \<not> ?P (ts ! j)"
    by (auto simp: find_Some_iff)
  have "volume_tier q ts = t" using t by (simp add: volume_tier_def)
  moreover have "ts = take i ts @ t # drop (Suc i) ts" using i by (simp add: id_take_nth_drop)
  moreover have "\<exists>b. gt_UpTo u = Some b \<and> b < q" if "u \<in> set (take i ts)" for u
    using that i(4) i(1) by (auto simp: in_set_conv_nth split: option.splits)
  ultimately show ?thesis using i(2,3) by (intro exI [of _ "take i ts"] exI [of _ "drop (Suc i) ts"]) auto
qed

section \<open>Evaluating a validated charge\<close>

lemma charge_measures_keys:
  "fst ` set (chargeMeasures c m) = fst ` set (chargeMeasures c []) \<union> fst ` set m"
proof (induction c arbitrary: m)
  case (Charge ty am me rate us un ro ti fo co)
  have "fst ` set (fold chargeMeasures co m) = (\<Union>x \<in> set co. fst ` set (chargeMeasures x [])) \<union> fst ` set m" for m
    by (rule fold_keys) (rule Charge)
  then show ?case by auto
qed

text \<open>The measures a charge names, and the formulas it contains.\<close>

lemma validated_charge_parts:
  assumes "validatePricingCharge D (Charge ty am me rate us un ro ti fo co) definition key = None"
  shows "me \<noteq> [] \<Longrightarrow> has_key (od_Measures definition) me"
    and "ty = ''expression'' \<Longrightarrow>
      ValidateExpression D fo (sort_by str_less (map_keys (od_Measures definition))) = None"
    and "x \<in> set co \<Longrightarrow> validatePricingCharge D x definition key = None"
proof -
  let ?c = "Charge ty am me rate us un ro ti fo co"
  let ?known = "sort_by str_less (map_keys (od_Measures definition))"
  from assms have keys: "\<forall>k \<in> fst ` set (chargeMeasures ?c []). has_key (od_Measures definition) k"
    and ex: "validateExpressionCharge D ?known ?c = None"
    by (auto simp: validatePricingCharge_def split: option.splits if_splits prod.splits)
  have sub: "fst ` set (fold chargeMeasures co m) = (\<Union>x \<in> set co. fst ` set (chargeMeasures x [])) \<union> fst ` set m" for m
    by (intro fold_keys charge_measures_keys)
  show "me \<noteq> [] \<Longrightarrow> has_key (od_Measures definition) me"
    using keys by (simp add: sub)
  show "ty = ''expression'' \<Longrightarrow> ValidateExpression D fo ?known = None"
    using ex by (simp split: option.splits)
  assume x: "x \<in> set co"
  have "\<forall>k \<in> fst ` set (chargeMeasures x []). has_key (od_Measures definition) k"
    using keys x by (auto simp: sub)
  moreover have "validateExpressionCharge D ?known x = None"
    using ex x by (auto split: option.splits if_splits)
  ultimately show "validatePricingCharge D x definition key = None"
    by (auto simp: validatePricingCharge_def split: option.splits)
qed

text \<open>The package charges of a charge round in one of the three supported ways, charges that
  read a measure name one, and the trees of its formulas fit in memory.\<close>

fun charge_supported :: "decimal_pkg \<Rightarrow> Charge \<Rightarrow> bool" where
  "charge_supported D (Charge ty am me rate us un ro ti fo co) \<longleftrightarrow>
     (ty = ''package'' \<longrightarrow> ro \<in> set [''ceil'', ''floor'', ''nearest'']) \<and>
     (ty \<in> set [''per_unit'', ''package'', ''graduated'', ''volume''] \<longrightarrow> me \<noteq> []) \<and>
     (\<forall>node. parsePricingExpression D fo = Inr node \<longrightarrow> size node < 2 ^ 63) \<and>
     list_all (charge_supported D) co"

lemma tiers_wf_not_Nil: "tiers_wf ts \<Longrightarrow> ts \<noteq> []"
  by (auto simp: tiers_wf_def)

lemma requiredMeasure_declared:
  assumes "map fst measured = map fst declared" "has_key declared me"
  obtains q where "requiredMeasure measured me = Inr q"
proof -
  have "fst ` set measured = fst ` set declared" using assms(1) by (metis set_map)
  with assms(2) obtain q where "map_of measured me = Some q"
    by (metis has_key_def has_key_iff not_None_eq)
  with that show thesis by (simp add: requiredMeasure_def)
qed

lemma decimalDiv_pos: "y > 0 \<Longrightarrow> \<exists>q. decimalDiv D x y = Inr q"
  by (simp add: decimalDiv_def)

context decimal_package
begin

lemma evaluateCharge_clean:
  assumes "map fst measured = map fst (od_Measures definition)"
  shows "charge_wf c \<Longrightarrow> charge_supported D c \<Longrightarrow> validatePricingCharge D c definition key = None \<Longrightarrow>
    fails_cleanly (evaluateCharge D c measured)"
proof (induction c)
  case (Charge ty am me rate us un ro ti fo co)
  note parts = validated_charge_parts [OF Charge.prems(3)]
  have q: "\<exists>q. requiredMeasure measured me = Inr q"
    if "ty \<in> set [''per_unit'', ''package'', ''graduated'', ''volume'']"
    using that Charge.prems(2) parts(1) requiredMeasure_declared [OF assms] by (metis charge_supported.simps)
  have expression: "fails_cleanly (EvaluateExpression D fo measured)" if "ty = ''expression''"
  proof -
    from parts(2) [OF that] obtain node where node: "parsePricingExpression D fo = Inr node"
      by (auto simp: ValidateExpression_def split: sum.splits)
    moreover have "size node < 2 ^ 63" using Charge.prems(2) node by auto
    ultimately have "fails_cleanly (evaluateExpressionNode D node measured)"
      by (intro evaluate_clean parsePricingExpression_calls)
    then show ?thesis using node
      by (auto simp: EvaluateExpression_def validateExpressionVariables_def fails_cleanly_def
          split: option.splits if_splits dest!: first_error_member)
  qed
  have "fails_cleanly (map_err (\<lambda>x. evaluateCharge D x measured) co)"
    using Charge.IH Charge.prems parts(3) by (intro clean_map) (auto simp: list_all_iff)
  moreover have "fails_cleanly (round_packages D ro n)" if "ty = ''package''" for n
    using that Charge.prems(2) by (auto simp: round_packages_def intro: clean_intros)
  moreover have "ti \<noteq> []" if "ty = ''volume''" using that Charge.prems(1) tiers_wf_not_Nil by auto
  moreover have "fails_cleanly (requiredMeasure measured me)"
    if "ty \<in> set [''per_unit'', ''package'', ''graduated'', ''volume'']"
    using q [OF that] by (auto intro: clean_Inr)
  moreover have "ty \<in> set charge_types" using Charge.prems(1) by simp
  ultimately show ?case
    using expression division_clean unfolding evaluateCharge.simps
    by (intro clean_intros) (simp_all add: clean_Inr)
qed

end

section \<open>What a successful calculation has done\<close>

lemma runtime_measures_keys:
  "runtime_measures supplied declared = Inr ms \<Longrightarrow> map fst ms = map fst declared \<and> (\<forall>(k, v) \<in> set ms. 0 \<le> v)"
proof (induction declared arbitrary: ms)
  case (Cons d ds)
  then show ?case
    by (cases d) (auto simp: runtime_measures_def bind_err_Inr_iff Let_def not_less split: if_splits)
qed (simp add: runtime_measures_def)

lemma Calculate_Inr:
  assumes "Calculate D engine metrics options = Inr b"
  obtains config pricing operation dimensions measured cardKey price selected v
  where "engine = Some config" "cfg_Pricing config = Some pricing"
    "map_of (pc_Operations pricing) (um_Operation metrics) = Some operation"
    "runtime_dimensions (um_Operation metrics) (um_Dimensions metrics) (od_Dimensions operation) = Inr dimensions"
    "runtime_measures (um_Measures metrics) (od_Measures operation) = Inr measured"
    "resolveRateCard pricing (requested_card options) = Inr cardKey"
    "operationPricing pricing cardKey (um_Operation metrics) = Inr price"
    "select_charge price dimensions = Some selected"
    "evaluateCharge D selected measured = Inr v" "0 \<le> v"
    "OperationCredits b = QuantizeMoney D (QuantizeMoney D v)"
    "Total b = Total (MakeCostBreakdown D \<lparr>in_ModelCredits = 0, in_ToolCredits = 0,
       in_SearchCredits = 0, in_CacheSavings = 0, in_FixedCredits = 0,
       in_OperationCredits = QuantizeMoney D v, in_Breakdown = []\<rparr>)"
  using assms unfolding Calculate_def
  by (auto simp: bind_err_Inr_iff MakeCostBreakdown_def Let_def not_less split: option.splits if_splits)

section \<open>Properties\<close>

text \<open>
  C30. In a pricing section that parsed, the price of an operation on a rate card is the one of
  the nearest card of its chain of parents that prices the operation, and where none does the
  error says so: the resolution loop of the engine never meets a cycle or an unknown card.
\<close>

theorem operation_resolution:
  assumes "parsePricing D v = Inr p" and "has_key (pc_RateCards p) k"
  shows "\<exists>n. grounded (pc_RateCards p) n k \<and>
    operationPricing p k operation =
      (case first_price (pc_RateCards p) operation (card_chain (pc_RateCards p) n k) of
         Some price \<Rightarrow> Inr price | None \<Rightarrow> Inl (no_price_error k operation))"
proof -
  from parsePricing_inheritance [OF assms(1)] assms(2) obtain n where "grounded (pc_RateCards p) n k"
    unfolding validateRateCardInheritance_iff has_key_iff by blast
  with operationPricing_grounded [OF this] show ?thesis by blast
qed

definition sample_pricing :: goval where
  "sample_pricing = VObj
     [(''operations'', VObj [(''chat'', VObj [(''measures'', VObj [(''n'', VObj [(''unit'', VStr ''t'')])])])]),
      (''rate_cards'', VObj
         [(''pro'', VObj [(''extends'', VStr ''base'')]),
          (''base'', VObj [(''operations'', VObj [(''chat'', VObj
             [(''unmatched'', VObj [(''action'', VStr ''charge''),
                (''charge'', VObj [(''type'', VStr ''flat''), (''amount'', VStr ''2'')])])])])])])]"

definition sample_parsed :: PricingConfig where
  "sample_parsed =
     \<lparr>pc_Operations = [(''chat'', \<lparr>od_Measures = [(''n'', \<lparr>mea_Unit = ''t''\<rparr>)], od_Dimensions = []\<rparr>)],
      pc_RateCards =
        [(''base'', \<lparr>rc_Extends = None, rc_Operations = [(''chat'', \<lparr>op_Rules = [], op_Unmatched =
            \<lparr>un_Action = ''charge'', un_Charge = Some (Charge ''flat'' 2 [] 0 0 0 [] [] [] [])\<rparr>\<rparr>)]\<rparr>),
         (''pro'', \<lparr>rc_Extends = Some ''base'', rc_Operations = []\<rparr>)]\<rparr>"

lemma sample_parses: "parsePricing ref_decimal sample_pricing = Inr sample_parsed"
  by code_simp

theorem operation_resolution_witness:
  "\<exists>n. grounded (pc_RateCards sample_parsed) n ''pro'' \<and>
    operationPricing sample_parsed ''pro'' ''chat'' =
      (case first_price (pc_RateCards sample_parsed) ''chat'' (card_chain (pc_RateCards sample_parsed) n ''pro'') of
         Some price \<Rightarrow> Inr price | None \<Rightarrow> Inl (no_price_error ''pro'' ''chat''))"
  by (rule operation_resolution [OF sample_parses]) code_simp

text \<open>
  \<open>ResolvesOperation\<close>, the check plans are validated with, agrees with the engine: it holds
  exactly when the engine finds a price, for every set of rate cards (cyclic ones included) with no
  card under the empty name.
\<close>

theorem resolves_agrees_with_engine:
  assumes "\<not> has_key (pc_RateCards p) []"
  shows "ResolvesOperation (Some p) k operation \<longleftrightarrow> (\<exists>price. operationPricing p k operation = Inr price)"
  using resolves_loop_iff [OF assms] by (simp add: ResolvesOperation_def operationPricing_def)

theorem resolves_agrees_with_engine_witness:
  "ResolvesOperation (Some sample_parsed) ''pro'' ''chat'' \<and>
   (\<exists>price. operationPricing sample_parsed ''pro'' ''chat'' = Inr price)"
proof -
  have "ResolvesOperation (Some sample_parsed) ''pro'' ''chat''" by code_simp
  moreover have "\<not> has_key (pc_RateCards sample_parsed) []" by code_simp
  ultimately show ?thesis using resolves_agrees_with_engine by blast
qed

text \<open>
  C9. A graduated charge is the marginal price: with well-formed tiers whose first bound is
  positive, the loop of the engine adds, for each tier, its rate times the part of the quantity that
  lies in the tier, and with rates that are not negative a larger quantity never costs less.
\<close>

theorem graduated_charge_is_marginal:
  assumes "tiers_wf ts" and "\<forall>b. gt_UpTo (hd ts) = Some b \<longrightarrow> 0 < b" and "0 \<le> q"
    and "map_of measured me = Some q"
  shows "evaluateCharge D (Charge ''graduated'' am me rate us un ro ts fo co) measured = Inr (marginal q 0 ts) \<and>
    (\<forall>r. (\<forall>t \<in> set ts. 0 \<le> gt_Rate t) \<longrightarrow> q \<le> r \<longrightarrow> marginal q 0 ts \<le> marginal r 0 ts)"
proof -
  have b: "bounded_above 0 ts" using tiers_wf_bounded [OF assms(1), of 0] assms(2) by blast
  from graduated_loop_marginal [OF b assms(3), of 0] assms(4)
  have "evaluateCharge D (Charge ''graduated'' am me rate us un ro ts fo co) measured = Inr (marginal q 0 ts)"
    by (simp add: requiredMeasure_def)
  with marginal_mono [OF b] show ?thesis by blast
qed

theorem graduated_charge_is_marginal_witness:
  "evaluateCharge ref_decimal (Charge ''graduated'' 0 ''n'' 0 0 0 []
     [\<lparr>gt_UpTo = Some 10, gt_Rate = 2\<rparr>, \<lparr>gt_UpTo = None, gt_Rate = 1\<rparr>] [] []) [(''n'', 15)] = Inr 25"
proof -
  let ?ts = "[\<lparr>gt_UpTo = Some 10, gt_Rate = 2\<rparr>, \<lparr>gt_UpTo = None, gt_Rate = 1\<rparr>] :: GraduatedTier list"
  have "tiers_wf ?ts"
    unfolding tiers_wf_def by (intro exI [of _ "[10]"] exI [of _ "[2]"] exI [of _ 1]) simp
  from graduated_charge_is_marginal [OF this, of 15 "[(''n'', 15)]" "''n''" ref_decimal 0 0 0 0 "[]" "[]" "[]"]
  show ?thesis by (simp add: max_def min_def)
qed

text \<open>
  A volume charge prices the whole quantity at the rate of the first tier whose bound is not
  exceeded; with well-formed tiers there always is one.
\<close>

theorem volume_charge_first_tier:
  assumes "tiers_wf ts" and "map_of measured me = Some q"
  shows "\<exists>us t vs. ts = us @ t # vs \<and> (\<forall>u \<in> set us. \<exists>b. gt_UpTo u = Some b \<and> b < q) \<and>
    (\<forall>b. gt_UpTo t = Some b \<longrightarrow> q \<le> b) \<and>
    evaluateCharge D (Charge ''volume'' am me rate us' un ro ts fo co) measured = Inr (q * gt_Rate t)"
proof -
  have "evaluateCharge D (Charge ''volume'' am me rate us' un ro ts fo co) measured =
      Inr (q * gt_Rate (volume_tier q ts))"
    using assms tiers_wf_not_Nil by (simp add: requiredMeasure_def)
  with volume_tier_first [OF assms(1), of q] show ?thesis by blast
qed

theorem volume_charge_first_tier_witness:
  "evaluateCharge ref_decimal (Charge ''volume'' 0 ''n'' 0 0 0 []
     [\<lparr>gt_UpTo = None, gt_Rate = 3\<rparr>] [] []) [(''n'', 5)] = Inr 15"
proof -
  have wf: "tiers_wf [\<lparr>gt_UpTo = None, gt_Rate = 3\<rparr>]"
    unfolding tiers_wf_def by (intro exI [of _ "[]"] exI [of _ 3]) simp
  from volume_charge_first_tier [OF wf, of "[(''n'', 5)]" "''n''" 5 ref_decimal 0 0 0 0 "[]" "[]" "[]"]
  show ?thesis by (auto simp: append_eq_Cons_conv Cons_eq_append_conv)
qed



text \<open>
  C32. A successful \<open>Calculate\<close> charges the evaluated price of the selected charge, rounded to
  six places: the price is not negative, the total is the quantised price, so it is money on the
  grid within half a unit of the last place of the exact price.
\<close>

theorem Calculate_total:
  assumes "decimal_package D" and "Calculate D engine metrics options = Inr b"
  shows "\<exists>config pricing operation measured dimensions cardKey price selected v.
    engine = Some config \<and> cfg_Pricing config = Some pricing \<and>
    map_of (pc_Operations pricing) (um_Operation metrics) = Some operation \<and>
    runtime_measures (um_Measures metrics) (od_Measures operation) = Inr measured \<and>
    runtime_dimensions (um_Operation metrics) (um_Dimensions metrics) (od_Dimensions operation) = Inr dimensions \<and>
    resolveRateCard pricing (requested_card options) = Inr cardKey \<and>
    operationPricing pricing cardKey (um_Operation metrics) = Inr price \<and>
    select_charge price dimensions = Some selected \<and>
    evaluateCharge D selected measured = Inr v \<and> 0 \<le> v \<and>
    Total b = QuantizeMoney D v \<and> OperationCredits b = QuantizeMoney D v \<and>
    money (Total b) \<and> 0 \<le> Total b \<and> \<bar>Total b - v\<bar> \<le> 1 / (2 * 10 ^ 6)"
proof (rule Calculate_Inr [OF assms(2)])
  fix config pricing operation dimensions measured cardKey price selected v
  assume steps: "engine = Some config" "cfg_Pricing config = Some pricing"
    "map_of (pc_Operations pricing) (um_Operation metrics) = Some operation"
    "runtime_dimensions (um_Operation metrics) (um_Dimensions metrics) (od_Dimensions operation) = Inr dimensions"
    "runtime_measures (um_Measures metrics) (od_Measures operation) = Inr measured"
    "resolveRateCard pricing (requested_card options) = Inr cardKey"
    "operationPricing pricing cardKey (um_Operation metrics) = Inr price"
    "select_charge price dimensions = Some selected"
    "evaluateCharge D selected measured = Inr v" "0 \<le> v"
    and op: "OperationCredits b = QuantizeMoney D (QuantizeMoney D v)"
    and total: "Total b = Total (MakeCostBreakdown D \<lparr>in_ModelCredits = 0, in_ToolCredits = 0,
       in_SearchCredits = 0, in_CacheSavings = 0, in_FixedCredits = 0,
       in_OperationCredits = QuantizeMoney D v, in_Breakdown = []\<rparr>)"
  note q = decimal_package.quantize_money [OF assms(1)] decimal_package.quantize_id [OF assms(1)]
    decimal_package.quantize_nonneg [OF assms(1) \<open>0 \<le> v\<close>] decimal_package.quantize_0 [OF assms(1)]
  have "Total b = QuantizeMoney D v"
    unfolding total using q by (simp add: MakeCostBreakdown_def Let_def)
  then show ?thesis
    using steps op q decimal_package.quantize_near [OF assms(1), of v] by auto
qed

definition sample_config :: BursarConfig where
  "sample_config = \<lparr>cfg_Version = 1, cfg_Catalog = \<lparr>cat_DefaultPlan = None\<rparr>, cfg_Pricing = Some sample_parsed,
     cfg_Credits = \<lparr>cc_Buckets = [], cc_DefaultBucket = None, cc_Policies = [], cc_GrantPrograms = [],
       cc_Display = None\<rparr>, cfg_Entitlements = \<lparr>ec_Features = []\<rparr>, cfg_Admission = \<lparr>ac_Policies = []\<rparr>,
     cfg_Plans = [], cfg_Commerce = \<lparr>com_Providers = [], com_Offers = [], com_SubscriptionChanges = [],
       com_AutoRecharge = None\<rparr>\<rparr>"

definition sample_usage :: UsageMetrics where
  "sample_usage = \<lparr>um_Operation = ''chat'', um_Measures = [(''n'', 3)], um_Dimensions = [], um_Metadata = []\<rparr>"

lemma sample_calculates: "\<exists>b. Calculate ref_decimal (Some sample_config) sample_usage [''pro''] = Inr b"
proof -
  have v: "UsageMetrics_Validate sample_usage = None" by code_simp
  have r: "resolveRateCard sample_parsed (requested_card [''pro'']) = Inr ''pro''" by code_simp
  have o: "operationPricing sample_parsed ''pro'' ''chat'' = Inr \<lparr>op_Rules = [], op_Unmatched =
      \<lparr>un_Action = ''charge'', un_Charge = Some (Charge ''flat'' 2 [] 0 0 0 [] [] [] [])\<rparr>\<rparr>" by code_simp
  show ?thesis
    using v r o
    by (simp add: Calculate_def sample_config_def sample_usage_def sample_parsed_def has_key_def
        runtime_measures_def select_charge_def)
qed

theorem Calculate_total_witness:
  "\<exists>b. Calculate ref_decimal (Some sample_config) sample_usage [''pro''] = Inr b \<and> money (Total b) \<and> 0 \<le> Total b"
  using sample_calculates Calculate_total [OF ref.decimal_package_axioms, of "Some sample_config" sample_usage "[''pro'']"]
  by blast

text \<open>
  A batch is priced all or nothing: \<open>CalculateBatch\<close> succeeds exactly when every event
  does, with the result of each in order, and it fails with the error of the first event that
  fails.
\<close>

theorem CalculateBatch_all_or_nothing:
  assumes "length options \<le> 1"
  shows "(CalculateBatch D engine ms options = Inr bs \<longleftrightarrow>
      list_all2 (\<lambda>m b. Calculate D engine m options = Inr b) ms bs) \<and>
    (CalculateBatch D engine ms options = Inl e \<longrightarrow>
      (\<exists>us m vs. ms = us @ m # vs \<and> (\<forall>u \<in> set us. \<exists>b. Calculate D engine u options = Inr b) \<and>
        Calculate D engine m options = Inl e))"
  using assms map_err_Inr_iff [of "\<lambda>m. Calculate D engine m options" ms bs]
    map_err_Inl [of "\<lambda>m. Calculate D engine m options" ms e]
  by (simp add: CalculateBatch_def)

theorem CalculateBatch_all_or_nothing_witness:
  "\<exists>b. CalculateBatch ref_decimal (Some sample_config) [sample_usage, sample_usage] [''pro''] = Inr [b, b]"
  using sample_calculates
    CalculateBatch_all_or_nothing [of "[''pro'']" ref_decimal "Some sample_config" "[sample_usage, sample_usage]"]
  by auto

end
