(* ===== verification/Config_Closed.thy ===== *)
theory Config_Closed
  imports Config_Load Engine
begin

text \<open>
  What the loader guarantees of a configuration it accepts: every reference between sections resolves,
  and the numeric constraints that span fields hold. In particular every operation a plan allows has
  a price under the plan's rate card.
\<close>

section \<open>Loops over maps\<close>

lemma map_entries_keys: "map_entries f m = Inr r \<Longrightarrow> map fst r = map fst m"
  unfolding map_entries_def
  by (induction m arbitrary: r) (auto simp: bind_err_Inr_iff)

lemma map_entries_member:
  "map_entries f m = Inr r \<Longrightarrow> (k, y) \<in> set r \<Longrightarrow> \<exists>x. (k, x) \<in> set m \<and> f k x = Inr y"
  unfolding map_entries_def
proof (induction m arbitrary: r)
  case (Cons p m)
  then show ?case by (cases p) (fastforce simp: bind_err_Inr_iff)
qed simp

lemma map_entries_all:
  "map_entries f m = Inr r \<Longrightarrow> (\<And>k x y. f k x = Inr y \<Longrightarrow> P k y) \<Longrightarrow> list_all (\<lambda>(k, y). P k y) r"
  by (auto simp: list_all_iff dest!: map_entries_member)

lemma map_indexed_all:
  "map_indexed f xs = Inr ys \<Longrightarrow> (\<And>i x y. f i x = Inr y \<Longrightarrow> P y) \<Longrightarrow> list_all P ys"
  by (auto simp: list_all_iff dest: map_indexed_members)

lemma optional_value_all:
  "optional_value raw key read = Inr r \<Longrightarrow> (\<And>v x. read v = Inr x \<Longrightarrow> P x) \<Longrightarrow> pred_option P r"
  by (auto simp: optional_value_def bind_err_Inr_iff split: if_splits)

lemma in_key_order_keys [simp]: "map fst (in_key_order m) = sortedConfigKeys m"
  by (simp add: in_key_order_def comp_def)

section \<open>Credits\<close>

definition expiry_grantable :: "ExpiryPolicy \<Rightarrow> bool" where
  "expiry_grantable e \<longleftrightarrow> exp_Type e \<noteq> ''subscription_end''"

definition award_closed :: "BucketDefinition gomap \<Rightarrow> string \<Rightarrow> GrantAward \<Rightarrow> bool" where
  "award_closed buckets trigger a \<longleftrightarrow>
     has_key buckets (ga_Bucket a) \<and> pred_option expiry_grantable (ga_Expiry a) \<and>
     (ga_Recipient a = ''referrer'' \<longrightarrow> trigger = ''referral_completed'')"

definition program_closed :: "BucketDefinition gomap \<Rightarrow> GrantProgram \<Rightarrow> bool" where
  "program_closed buckets p \<longleftrightarrow>
     list_all (award_closed buckets (gp_Trigger p)) (gp_Awards p) \<and>
     distinct (gp_EligibilityRegions p) \<and> list_all configRegionPattern (gp_EligibilityRegions p)"

definition credits_closed :: "CreditsConfig \<Rightarrow> bool" where
  "credits_closed c \<longleftrightarrow>
     distinct (mapBucketPriorities (cc_Buckets c)) \<and>
     list_all (\<lambda>(_, b). expiry_grantable (bd_Expiry b)) (cc_Buckets c) \<and>
     pred_option (has_key (cc_Buckets c)) (cc_DefaultBucket c) \<and>
     list_all (\<lambda>(_, p). program_closed (cc_Buckets c) p) (cc_GrantPrograms c)"

lemma check_priorities_distinct:
  "check_priorities seen buckets = Inr u \<Longrightarrow>
   distinct (mapBucketPriorities buckets) \<and> set (mapBucketPriorities buckets) \<inter> fst ` set seen = {}"
proof (induction seen buckets arbitrary: u rule: check_priorities.induct)
  case (2 seen key bucket rest)
  then have none: "map_of seen (bd_Priority bucket) = None"
    and rest: "check_priorities ((bd_Priority bucket, key) # seen) rest = Inr u"
    by (auto split: option.splits)
  from "2.IH" [OF this] none show ?case by (auto simp: mapBucketPriorities_def map_of_eq_None_iff)
qed (simp add: mapBucketPriorities_def)

lemma check_regions_ok:
  "check_regions path seen regions = Inr u \<Longrightarrow>
   distinct regions \<and> set regions \<inter> set seen = {} \<and> list_all configRegionPattern regions"
  by (induction path seen regions arbitrary: u rule: check_regions.induct) (auto split: if_splits)

lemma parse_award_closed:
  assumes "parse_award D H buckets key path i v = Inr a"
  shows "has_key buckets (ga_Bucket a) \<and> pred_option expiry_grantable (ga_Expiry a)"
proof -
  from assms obtain raw e where a: "has_key buckets (ga_Bucket a)" and "ga_Expiry a = e"
    and e: "optional_value raw ''expiry'' (\<lambda>v.
            bind_err (parseExpiry H v (indexed_path (path @ ''.awards'') i @ ''.expiry'')) (\<lambda>parsed.
              if exp_Type parsed = ''subscription_end''
              then Inl (newConfigError (''grant program '' @ quoted key @ '' cannot use subscription_end expiry'') None)
              else Inr parsed)) = Inr e"
    by (auto simp: parse_award_def Let_def bind_err_Inr_iff split: if_splits)
  moreover have "pred_option expiry_grantable e"
    by (rule optional_value_all [OF e]) (auto simp: bind_err_Inr_iff expiry_grantable_def split: if_splits)
  ultimately show ?thesis by simp
qed

lemma parseGrantProgram_closed:
  assumes "parseGrantProgram D H buckets key v = Inr p"
  shows "program_closed buckets p"
proof -
  let ?path = "''credits.grant_programs.'' @ key"
  from assms obtain raws where awards: "map_indexed (parse_award D H buckets key ?path) raws = Inr (gp_Awards p)"
    and regions: "check_regions (?path @ ''.eligibility'') [] (gp_EligibilityRegions p) = Inr ()"
    and referrer: "\<not> (gp_Trigger p \<noteq> ''referral_completed'' \<and> list_ex (\<lambda>a. ga_Recipient a = ''referrer'') (gp_Awards p))"
    by (auto simp: parseGrantProgram_def Let_def bind_err_Inr_iff split: if_splits)
  have "list_all (\<lambda>a. has_key buckets (ga_Bucket a) \<and> pred_option expiry_grantable (ga_Expiry a)) (gp_Awards p)"
    by (rule map_indexed_all [OF awards]) (rule parse_award_closed)
  then show ?thesis
    using check_regions_ok [OF regions] referrer
    by (auto simp: program_closed_def award_closed_def list_all_iff list_ex_iff)
qed

lemma parse_bucket_grantable: "parse_bucket H key v = Inr b \<Longrightarrow> expiry_grantable (bd_Expiry b)"
  by (auto simp: parse_bucket_def Let_def bind_err_Inr_iff expiry_grantable_def split: if_splits)

lemma parseCredits_closed:
  assumes "parseCredits D H v = Inr c"
  shows "credits_closed c"
proof -
  from assms obtain bucketsRaw programsRaw where
    buckets: "map_entries (parse_bucket H) (in_key_order bucketsRaw) = Inr (cc_Buckets c)"
    and priorities: "check_priorities [] (cc_Buckets c) = Inr ()"
    and default: "pred_option (has_key (cc_Buckets c)) (cc_DefaultBucket c)"
    and programs: "map_entries (parseGrantProgram D H (cc_Buckets c)) (in_key_order programsRaw) = Inr (cc_GrantPrograms c)"
    by (auto simp: parseCredits_def bind_err_Inr_iff split: if_splits)
  then show ?thesis
    using check_priorities_distinct [OF priorities]
      map_entries_all [OF buckets, of "\<lambda>_ b. expiry_grantable (bd_Expiry b)"]
      map_entries_all [OF programs, of "\<lambda>_ p. program_closed (cc_Buckets c) p"]
    by (auto simp: credits_closed_def parse_bucket_grantable parseGrantProgram_closed)
qed

section \<open>Commerce\<close>

definition quantity_ok :: "OfferQuantity \<Rightarrow> bool" where
  "quantity_ok q \<longleftrightarrow> oq_Minimum q \<le> oq_Default q \<and> oq_Default q \<le> oq_Maximum q"

definition reference_closed :: "ProviderDefinition gomap \<Rightarrow> string \<Rightarrow> ProviderReference \<Rightarrow> bool" where
  "reference_closed providers key r \<longleftrightarrow>
     (case map_of providers key of None \<Rightarrow> False | Some p \<Rightarrow> providerReferenceCompatible p r)"

definition offer_closed :: "ProviderDefinition gomap \<Rightarrow> BucketDefinition gomap \<Rightarrow> CommerceOffer \<Rightarrow> bool" where
  "offer_closed providers buckets o' \<longleftrightarrow>
     list_all (\<lambda>(k, r). reference_closed providers k r) (of_Providers o') \<and>
     currency_code (ofp_Currency (of_Price o')) \<and>
     (of_Type o' = ''subscription'' \<and> of_Plan o' \<noteq> None \<and> of_BillingInterval o' \<noteq> None \<and>
        pred_option (\<lambda>g. has_key buckets (cg_Bucket g)) (of_CycleGrant o') \<or>
      of_Type o' = ''topup'' \<and> of_CreditsPerUnit o' \<noteq> None \<and>
        (case of_Bucket o' of None \<Rightarrow> False | Some b \<Rightarrow> has_key buckets b) \<and>
        (case of_Quantity o' of None \<Rightarrow> False | Some q \<Rightarrow> quantity_ok q) \<and>
        pred_option expiry_grantable (of_Expiry o'))"

definition provider_objects :: "CommerceOffer \<Rightarrow> string list" where
  "provider_objects o' = map (\<lambda>(k, r). k @ ''/'' @ providerReferenceExternalID r) (of_Providers o')"

definition recharge_closed :: "CommerceOffer gomap \<Rightarrow> AutoRechargeGuardrails \<Rightarrow> bool" where
  "recharge_closed offers g \<longleftrightarrow>
     (\<exists>currency. list_all (\<lambda>k. case map_of offers k of
          None \<Rightarrow> False
        | Some o' \<Rightarrow> of_Type o' = ''topup'' \<and> ofp_Currency (of_Price o') = currency) (arg_EligibleTopups g)) \<and>
     list_all (quantity_fits offers (arg_Quantity g)) (arg_EligibleTopups g) \<and> quantity_ok (arg_Quantity g) \<and>
     dr_Minimum (arg_BalanceBelow g) \<le> dr_Default (arg_BalanceBelow g) \<and>
     dr_Default (arg_BalanceBelow g) \<le> dr_Maximum (arg_BalanceBelow g) \<and>
     dr_Maximum (arg_BalanceBelow g) < arg_RearmAbove g \<and>
     win_Type (arl_Window (arg_Limits g)) \<noteq> ''plan_assignment''"

definition commerce_closed :: "BucketDefinition gomap \<Rightarrow> CommerceConfig \<Rightarrow> bool" where
  "commerce_closed buckets c \<longleftrightarrow>
     list_all (\<lambda>(_, o'). offer_closed (com_Providers c) buckets o') (com_Offers c) \<and>
     distinct (concat (map (\<lambda>(_, o'). provider_objects o') (com_Offers c))) \<and>
     pred_option (recharge_closed (com_Offers c)) (com_AutoRecharge c)"

lemma parse_references_closed:
  "parse_references providers path seen raws = Inr (rs, seen') \<Longrightarrow>
   list_all (\<lambda>(k, r). reference_closed providers k r) rs \<and>
   (let ks = map (\<lambda>(k, r). k @ ''/'' @ providerReferenceExternalID r) rs
    in distinct ks \<and> set ks \<inter> set seen = {} \<and> set seen' = set ks \<union> set seen)"
proof (induction providers path seen raws arbitrary: rs seen' rule: parse_references.induct)
  case (2 providers path seen key input rest)
  from "2.prems" obtain p r rs1 where p: "map_of providers key = Some p"
    and r: "parseProviderReference input (path @ ''.providers.'' @ key) = Inr r"
    and ok: "providerReferenceCompatible p r" "key @ ''/'' @ providerReferenceExternalID r \<notin> set seen"
    and rest: "parse_references providers path ((key @ ''/'' @ providerReferenceExternalID r) # seen) rest = Inr (rs1, seen')"
    and rs: "rs = (key, r) # rs1"
    by (auto simp: bind_err_Inr_iff Let_def split: option.splits if_splits)
  from "2.IH" [OF p r _ refl _ rest] ok have "list_all (\<lambda>(k, r). reference_closed providers k r) rs1 \<and>
      (let ks = map (\<lambda>(k, r). k @ ''/'' @ providerReferenceExternalID r) rs1
       in distinct ks \<and> set ks \<inter> set ((key @ ''/'' @ providerReferenceExternalID r) # seen) = {} \<and>
         set seen' = set ks \<union> set ((key @ ''/'' @ providerReferenceExternalID r) # seen))"
    by simp
  with rs p ok show ?case by (auto simp: Let_def reference_closed_def)
qed simp

lemma parse_price_currency: "parse_price raw path = Inr p \<Longrightarrow> currency_code (ofp_Currency p)"
  by (auto simp: parse_price_def bind_err_Inr_iff split: if_splits)

lemma parseOfferQuantity_ok: "parseOfferQuantity v path = Inr q \<Longrightarrow> quantity_ok q"
  by (auto simp: parseOfferQuantity_def bind_err_Inr_iff quantity_ok_def split: if_splits)

lemma parseCycleGrant_bucket: "parseCycleGrant D H credits v path = Inr g \<Longrightarrow> has_key (cc_Buckets credits) (cg_Bucket g)"
  by (auto simp: parseCycleGrant_def bind_err_Inr_iff Let_def split: if_splits)

lemma complete_subscription_closed:
  assumes "complete_subscription D H credits path raw offer = Inr o'"
  shows "of_Plan o' \<noteq> None \<and> of_BillingInterval o' \<noteq> None \<and>
    pred_option (\<lambda>g. has_key (cc_Buckets credits) (cg_Bucket g)) (of_CycleGrant o') \<and>
    of_Type o' = of_Type offer \<and> of_Providers o' = of_Providers offer \<and> of_Price o' = of_Price offer"
proof -
  from assms obtain plan interval trial grant where
    g: "optional_value raw ''cycle_grant'' (\<lambda>v. parseCycleGrant D H credits v (path @ ''.cycle_grant'')) = Inr grant"
    and o': "o' = offer\<lparr>of_Plan := Some plan, of_BillingInterval := Some interval, of_Trial := trial, of_CycleGrant := grant\<rparr>"
    by (auto simp: complete_subscription_def bind_err_Inr_iff)
  have "pred_option (\<lambda>g. has_key (cc_Buckets credits) (cg_Bucket g)) grant"
    by (rule optional_value_all [OF g]) (rule parseCycleGrant_bucket)
  then show ?thesis by (simp add: o')
qed

lemma complete_topup_closed:
  assumes "complete_topup D H credits path raw offer = Inr o'"
  shows "of_CreditsPerUnit o' \<noteq> None \<and>
    (\<exists>b. of_Bucket o' = Some b \<and> has_key (cc_Buckets credits) b) \<and>
    (\<exists>q. of_Quantity o' = Some q \<and> quantity_ok q) \<and> pred_option expiry_grantable (of_Expiry o') \<and>
    of_Type o' = of_Type offer \<and> of_Providers o' = of_Providers offer \<and> of_Price o' = of_Price offer"
proof -
  from assms obtain c b q l expiry where b: "has_key (cc_Buckets credits) b"
    and q: "parseOfferQuantity (raw_get raw ''quantity'') (path @ ''.quantity'') = Inr q"
    and e: "optional_value raw ''expiry'' (\<lambda>v.
        bind_err (parseExpiry H v (path @ ''.expiry'')) (\<lambda>expiry.
          if exp_Type expiry = ''subscription_end''
          then Inl (newConfigError (path @ '' top-up cannot use subscription_end expiry'') None)
          else Inr expiry)) = Inr expiry"
    and o': "o' = offer\<lparr>of_CreditsPerUnit := Some c, of_Bucket := Some b, of_Quantity := Some q,
              of_LotBehavior := l, of_Expiry := expiry\<rparr>"
    by (auto simp: complete_topup_def bind_err_Inr_iff split: if_splits)
  have "pred_option expiry_grantable expiry"
    by (rule optional_value_all [OF e]) (auto simp: bind_err_Inr_iff expiry_grantable_def split: if_splits)
  with b parseOfferQuantity_ok [OF q] show ?thesis by (simp add: o')
qed

lemma parseCommerceOffer_closed:
  assumes "parseCommerceOffer D H providers credits seen key v = Inr (o', seen')"
  shows "offer_closed providers (cc_Buckets credits) o' \<and> distinct (provider_objects o') \<and>
    set (provider_objects o') \<inter> set seen = {} \<and> set seen' = set (provider_objects o') \<union> set seen"
proof -
  let ?path = "''commerce.offers.'' @ key"
  from assms obtain raw t n d so av price refsRaw rs where
    refs: "parse_references providers ?path seen refsRaw = Inr (rs, seen')"
    and price: "parse_price raw ?path = Inr price"
    and fin: "(if t = ''subscription'' then complete_subscription D H credits ?path raw (new_offer t n d so av price rs)
       else if t = ''topup'' then complete_topup D H credits ?path raw (new_offer t n d so av price rs)
       else Inl (newConfigError (?path @ ''.type is invalid'') None)) = Inr o'"
    unfolding parseCommerceOffer_def Let_def bind_err_Inr_iff
    by (elim exE conjE) (auto simp: bind_err_Inr_iff split: prod.splits)
  define offer where "offer = new_offer t n d so av price rs"
  have offer: "of_Type offer = t" "of_Providers offer = rs" "of_Price offer = price"
    by (simp_all add: offer_def new_offer_def)
  note parsed = parse_references_closed [OF refs] parse_price_currency [OF price] offer fin [folded offer_def]
  show ?thesis
  proof (cases "t = ''subscription''")
    case True
    with complete_subscription_closed [of D H credits ?path raw offer o'] parsed show ?thesis
      by (simp add: offer_closed_def provider_objects_def Let_def)
  next
    case False
    with parsed have "t = ''topup''" "complete_topup D H credits ?path raw offer = Inr o'"
      by (simp_all split: if_splits)
    with complete_topup_closed [of D H credits ?path raw offer o'] parsed show ?thesis
      by (auto simp: offer_closed_def provider_objects_def Let_def)
  qed
qed

lemma parse_offers_closed:
  "parse_offers D H providers credits seen raws = Inr offers \<Longrightarrow>
   list_all (\<lambda>(_, o'). offer_closed providers (cc_Buckets credits) o') offers \<and>
   distinct (concat (map (\<lambda>(_, o'). provider_objects o') offers)) \<and>
   set (concat (map (\<lambda>(_, o'). provider_objects o') offers)) \<inter> set seen = {}"
proof (induction D H providers credits seen raws arbitrary: offers rule: parse_offers.induct)
  case (2 D H providers credits seen key v rest)
  then obtain o' seen' os where one: "parseCommerceOffer D H providers credits seen key v = Inr (o', seen')"
    and more: "parse_offers D H providers credits seen' rest = Inr os" and offers: "offers = (key, o') # os"
    by (auto simp: bind_err_Inr_iff)
  from parseCommerceOffer_closed [OF one] "2.IH" [OF one refl more] show ?case
    by (auto simp: offers)
qed simp

lemma check_topups_currency:
  assumes "\<And>k o'. map_of offers k = Some o' \<Longrightarrow> ofp_Currency (of_Price o') \<noteq> ''''"
    and "check_topups offers currency keys = Inr u"
  shows "\<exists>c. (currency = '''' \<or> c = currency) \<and> list_all (\<lambda>k. case map_of offers k of
          None \<Rightarrow> False
        | Some o' \<Rightarrow> of_Type o' = ''topup'' \<and> ofp_Currency (of_Price o') = c) keys"
  using assms(2)
proof (induction keys arbitrary: currency)
  case (Cons key keys)
  from Cons.prems obtain o' where o': "map_of offers key = Some o'" and t: "of_Type o' = ''topup''"
    and cur: "currency = '''' \<or> currency = ofp_Currency (of_Price o')"
    and rest: "check_topups offers (ofp_Currency (of_Price o')) keys = Inr u"
    by (auto split: option.splits if_splits)
  from Cons.IH [OF rest] assms(1) [OF o'] show ?case using o' t cur by auto
qed auto

lemma parse_decimal_range_ordered:
  "parse_decimal_range D v = Inr r \<Longrightarrow> dr_Minimum r \<le> dr_Default r \<and> dr_Default r \<le> dr_Maximum r"
  by (auto simp: parse_decimal_range_def bind_err_Inr_iff split: if_splits)

lemma parse_recharge_limits_window:
  "parse_recharge_limits H raw = Inr l \<Longrightarrow> win_Type (arl_Window l) \<noteq> ''plan_assignment''"
  by (auto simp: parse_recharge_limits_def bind_err_Inr_iff split: if_splits)

lemma parseAutoRecharge_closed:
  assumes "\<And>k o'. map_of offers k = Some o' \<Longrightarrow> ofp_Currency (of_Price o') \<noteq> ''''"
    and "parseAutoRecharge D H offers v = Inr g"
  shows "recharge_closed offers g"
proof -
  from assms(2) obtain raw where
    topups: "check_topups offers '''' (arg_EligibleTopups g) = Inr ()"
    and below: "parse_decimal_range D (raw_get raw ''balance_below'') = Inr (arg_BalanceBelow g)"
    and rearm: "arg_RearmAbove g > dr_Maximum (arg_BalanceBelow g)"
    and quantity: "parseOfferQuantity (raw_get raw ''quantity'') ''commerce.auto_recharge.quantity'' = Inr (arg_Quantity g)"
    and fits: "find (\<lambda>key. \<not> quantity_fits offers (arg_Quantity g) key) (arg_EligibleTopups g) = None"
    and limits: "parse_recharge_limits H raw = Inr (arg_Limits g)"
    by (auto simp: parseAutoRecharge_def bind_err_Inr_iff split: if_splits option.splits)
  show ?thesis
    using check_topups_currency [OF assms(1) topups] fits rearm
      parseOfferQuantity_ok [OF quantity] parse_decimal_range_ordered [OF below] parse_recharge_limits_window [OF limits]
    by (simp add: recharge_closed_def find_None_iff list_all_iff)
qed

lemma offers_currency:
  assumes "list_all (\<lambda>(_, o'). offer_closed providers buckets o') offers" and "map_of offers k = Some o'"
  shows "ofp_Currency (of_Price o') \<noteq> ''''"
proof -
  from assms(2) have "(k, o') \<in> set offers" by (rule map_of_SomeD)
  with assms(1) have "offer_closed providers buckets o'" by (auto simp: list_all_iff)
  then show ?thesis by (auto simp: offer_closed_def currency_code_def)
qed

lemma parseCommerce_closed:
  assumes "parseCommerce D H v credits = Inr c"
  shows "commerce_closed (cc_Buckets credits) c"
proof (cases "v = VNil")
  case True
  with assms show ?thesis by (auto simp: parseCommerce_def commerce_closed_def)
next
  case False
  with assms obtain raw offersRaw where
    offers: "parse_offers D H (com_Providers c) credits [] offersRaw = Inr (com_Offers c)"
    and auto: "optional_value raw ''auto_recharge'' (parseAutoRecharge D H (com_Offers c)) = Inr (com_AutoRecharge c)"
    by (auto simp: parseCommerce_def bind_err_Inr_iff)
  note closed = parse_offers_closed [OF offers]
  have "pred_option (recharge_closed (com_Offers c)) (com_AutoRecharge c)"
  proof (rule optional_value_all [OF auto])
    fix v g
    assume "parseAutoRecharge D H (com_Offers c) v = Inr g"
    with offers_currency [OF conjunct1 [OF closed]] show "recharge_closed (com_Offers c) g"
      by (rule parseAutoRecharge_closed)
  qed
  with closed show ?thesis by (simp add: commerce_closed_def)
qed

section \<open>Plans\<close>

definition quota_closed :: "PricingConfig option \<Rightarrow> QuotaDefinition \<Rightarrow> bool" where
  "quota_closed pricing q \<longleftrightarrow>
     measure_declared pricing (qd_Operation q) (qd_Measure q) \<and>
     sorted_wrt (<) (qd_EmitAtPercent q) \<and> list_all (\<lambda>t. 1 \<le> t \<and> t \<le> 100) (qd_EmitAtPercent q)"

definition operation_closed :: "PricingConfig option \<Rightarrow> string option \<Rightarrow> string \<Rightarrow> bool" where
  "operation_closed pricing rateCard operation \<longleftrightarrow>
     (case (pricing, rateCard) of
        (Some p, Some key) \<Rightarrow> has_key (pc_Operations p) operation \<and> ResolvesOperation pricing key operation
      | _ \<Rightarrow> False)"

definition plan_closed ::
  "PricingConfig option \<Rightarrow> CreditsConfig \<Rightarrow> EntitlementsConfig \<Rightarrow> AdmissionConfig \<Rightarrow> string list \<Rightarrow>
   string \<Rightarrow> PlanDefinition \<Rightarrow> bool" where
  "plan_closed pricing credits entitlements admission subscriptionPlans key p \<longleftrightarrow>
     pred_option (\<lambda>rateCard. case pricing of None \<Rightarrow> False | Some pr \<Rightarrow> has_key (pc_RateCards pr) rateCard) (pd_RateCard p) \<and>
     list_all (operation_closed pricing (pd_RateCard p)) (pd_AllowedOperations p) \<and>
     distinct (pd_AllowedOperations p) \<and>
     list_all (\<lambda>(k, _). has_key (ec_Features entitlements) k) (pd_Features p) \<and>
     list_all (\<lambda>(_, q). quota_closed pricing q) (pd_Quotas p) \<and>
     pred_option (has_key (cc_Policies credits)) (pd_CreditPolicy p) \<and>
     pred_option (has_key (ac_Policies admission)) (pd_AdmissionPolicy p) \<and>
     pred_option (\<lambda>a. 0 \<le> ca_Priority a \<and> ca_Priority a \<notin> set (mapBucketPriorities (cc_Buckets credits)) \<and>
       cc_DefaultBucket credits \<noteq> None) (pd_CreditAllowance p) \<and>
     pe_DefaultRollout (pd_Evolution p) \<in> {''immediate'', ''next_renewal'', ''new_assignments_only''} \<and>
     (pe_DefaultRollout (pd_Evolution p) = ''next_renewal'' \<longrightarrow> key \<in> set subscriptionPlans)"

lemma thresholds_increasing:
  "thresholds_ok previous ts \<Longrightarrow>
   sorted_wrt (<) ts \<and> list_all (\<lambda>t. 1 \<le> t \<and> t \<le> 100) ts \<and> pred_option (\<lambda>p. \<forall>t \<in> set ts. p < t) previous"
proof (induction previous ts rule: thresholds_ok.induct)
  case (2 previous t ts)
  then show ?case by (cases previous) (auto intro: less_trans)
qed (simp add: option.pred_True)

lemma parseQuota_closed: "parseQuota D H pricing v path = Inr q \<Longrightarrow> quota_closed pricing q"
  using thresholds_increasing [of None "qd_EmitAtPercent q"]
  by (auto simp: parseQuota_def bind_err_Inr_iff quota_closed_def split: if_splits)

lemma check_operations_closed:
  "check_operations pricing rateCard key seen ops = Inr u \<Longrightarrow>
   list_all (operation_closed pricing rateCard) ops \<and> distinct ops \<and> set ops \<inter> set seen = {}"
proof (induction ops arbitrary: seen)
  case (Cons operation rest)
  then have new: "operation \<notin> set seen" and op: "operation_closed pricing rateCard operation"
    by (auto simp: Let_def bind_err_Inr_iff operation_closed_def split: if_splits option.splits)
  from Cons.prems new have "check_operations pricing rateCard key (operation # seen) rest = Inr u"
    by (auto simp: Let_def bind_err_Inr_iff split: if_splits)
  from Cons.IH [OF this] op new show ?case by auto
qed simp

lemma parse_plan_allowance_closed:
  "parse_plan_allowance D H credits key v = Inr a \<Longrightarrow>
   0 \<le> ca_Priority a \<and> ca_Priority a \<notin> set (mapBucketPriorities (cc_Buckets credits)) \<and> cc_DefaultBucket credits \<noteq> None"
  by (auto simp: parse_plan_allowance_def parseCreditAllowance_def bind_err_Inr_iff split: if_splits)

lemma parse_rollout_closed:
  "parse_rollout subs key raw = Inr r \<Longrightarrow>
   r \<in> {''immediate'', ''next_renewal'', ''new_assignments_only''} \<and> (r = ''next_renewal'' \<longrightarrow> key \<in> set subs)"
  unfolding parse_rollout_def Let_def bind_err_Inr_iff by (elim exE conjE) (simp split: if_splits)

lemma parse_plan_Inr:
  assumes "parse_plan D H X pricing credits entitlements admission subs key v = Inr p"
  obtains planRaw featuresRaw quotasRaw where
    "\<not> (pd_RateCard p \<noteq> None \<and> (pricing = None \<or> \<not> has_key (pc_RateCards (the pricing)) (the (pd_RateCard p))))"
    and "check_operations pricing (pd_RateCard p) key [] (pd_AllowedOperations p) = Inr ()"
    and "map_entries (parse_plan_feature X entitlements key) featuresRaw = Inr (pd_Features p)"
    and "map_entries (\<lambda>quotaKey quotaInput. parseQuota D H pricing quotaInput
           ((''plans.'' @ key) @ ''.quotas.'' @ quotaKey)) quotasRaw = Inr (pd_Quotas p)"
    and "pred_option (has_key (cc_Policies credits)) (pd_CreditPolicy p)"
    and "pred_option (has_key (ac_Policies admission)) (pd_AdmissionPolicy p)"
    and "optional_value planRaw ''credit_allowance'' (parse_plan_allowance D H credits key) = Inr (pd_CreditAllowance p)"
    and "parse_rollout subs key planRaw = Inr (pe_DefaultRollout (pd_Evolution p))"
  using assms unfolding parse_plan_def Let_def bind_err_Inr_iff
  by (elim exE conjE) (auto simp: bind_err_Inr_iff split: if_splits)

lemma parse_plan_closed:
  assumes "parse_plan D H X pricing credits entitlements admission subs key v = Inr p"
  shows "plan_closed pricing credits entitlements admission subs key p"
  using assms
proof (rule parse_plan_Inr)
  fix planRaw featuresRaw quotasRaw
  assume card: "\<not> (pd_RateCard p \<noteq> None \<and> (pricing = None \<or> \<not> has_key (pc_RateCards (the pricing)) (the (pd_RateCard p))))"
    and ops: "check_operations pricing (pd_RateCard p) key [] (pd_AllowedOperations p) = Inr ()"
    and features: "map_entries (parse_plan_feature X entitlements key) featuresRaw = Inr (pd_Features p)"
    and quotas: "map_entries (\<lambda>quotaKey quotaInput. parseQuota D H pricing quotaInput
           ((''plans.'' @ key) @ ''.quotas.'' @ quotaKey)) quotasRaw = Inr (pd_Quotas p)"
    and policies: "pred_option (has_key (cc_Policies credits)) (pd_CreditPolicy p)"
      "pred_option (has_key (ac_Policies admission)) (pd_AdmissionPolicy p)"
    and allowance: "optional_value planRaw ''credit_allowance'' (parse_plan_allowance D H credits key) = Inr (pd_CreditAllowance p)"
    and rollout: "parse_rollout subs key planRaw = Inr (pe_DefaultRollout (pd_Evolution p))"
  have "pred_option (\<lambda>rateCard. case pricing of None \<Rightarrow> False | Some pr \<Rightarrow> has_key (pc_RateCards pr) rateCard) (pd_RateCard p)"
    using card by (cases "pd_RateCard p"; cases pricing) simp_all
  moreover have "list_all (\<lambda>(k, _). has_key (ec_Features entitlements) k) (pd_Features p)"
    by (rule map_entries_all [OF features, where P = "\<lambda>k _. has_key (ec_Features entitlements) k"])
      (auto simp: parse_plan_feature_def has_key_def split: option.splits)
  moreover have "list_all (\<lambda>(_, q). quota_closed pricing q) (pd_Quotas p)"
    by (rule map_entries_all [OF quotas]) (rule parseQuota_closed)
  moreover have "pred_option (\<lambda>a. 0 \<le> ca_Priority a \<and>
      ca_Priority a \<notin> set (mapBucketPriorities (cc_Buckets credits)) \<and> cc_DefaultBucket credits \<noteq> None) (pd_CreditAllowance p)"
    by (rule optional_value_all [OF allowance]) (rule parse_plan_allowance_closed)
  ultimately show ?thesis
    using check_operations_closed [OF ops] policies parse_rollout_closed [OF rollout] by (simp add: plan_closed_def)
qed

section \<open>The whole configuration\<close>

definition config_closed :: "BursarConfig \<Rightarrow> bool" where
  "config_closed c \<longleftrightarrow>
     cfg_Version c = 1 \<and>
     credits_closed (cfg_Credits c) \<and>
     commerce_closed (cc_Buckets (cfg_Credits c)) (cfg_Commerce c) \<and>
     list_all (\<lambda>(key, p). plan_closed (cfg_Pricing c) (cfg_Credits c) (cfg_Entitlements c) (cfg_Admission c)
        (subscription_plans (com_Offers (cfg_Commerce c))) key p) (cfg_Plans c) \<and>
     pred_option (has_key (cfg_Plans c)) (cat_DefaultPlan (cfg_Catalog c)) \<and>
     (cfg_Plans c = [] \<or> cat_DefaultPlan (cfg_Catalog c) \<noteq> None) \<and>
     list_all (\<lambda>plan. has_key (cfg_Plans c) plan) (subscription_plans (com_Offers (cfg_Commerce c))) \<and>
     list_all (\<lambda>(_, g). list_all (has_key (cfg_Plans c)) (gp_EligibilityPlans g)) (cc_GrantPrograms (cfg_Credits c)) \<and>
     pred_option (\<lambda>p. list_all (\<lambda>(_, a). list_all (has_key (pc_Operations p)) (map_keys (ap_Operations a)))
        (ac_Policies (cfg_Admission c))) (cfg_Pricing c)"

lemma check_admission_closed:
  "check_admission pricing policies = Inr u \<Longrightarrow>
   list_all (\<lambda>(_, a). list_all (has_key (pc_Operations pricing)) (map_keys (ap_Operations a))) policies"
  by (induction pricing policies rule: check_admission.induct)
    (auto simp: find_None_iff list_all_iff split: option.splits)

lemma check_offers_closed:
  "check_offers plans offers = Inr u \<Longrightarrow> list_all (has_key plans) (subscription_plans offers)"
  by (induction plans offers rule: check_offers.induct)
    (auto simp: subscription_plans_def map_filter_def plan_name_def has_key_def split: if_splits option.splits)

lemma check_programs_closed:
  "check_programs plans programs = Inr u \<Longrightarrow>
   list_all (\<lambda>(_, g). list_all (has_key plans) (gp_EligibilityPlans g)) programs"
  by (induction plans programs rule: check_programs.induct)
    (auto simp: find_None_iff list_all_iff split: option.splits)

lemma if_Inl_eq_Inr: "(if b then Inl e else x) = Inr y \<longleftrightarrow> \<not> b \<and> x = Inr y"
  by simp

lemma parseBursarConfig_fields:
  assumes "parseBursarConfig P raw = Inr c"
  shows "cfg_Version c = 1 \<and>
    parseCredits (pk_decimal P) (pk_host P) (raw_get raw ''credits'') = Inr (cfg_Credits c) \<and>
    optional_value raw ''pricing'' (parsePricing (pk_decimal P)) = Inr (cfg_Pricing c) \<and>
    (case cfg_Pricing c of None \<Rightarrow> Inr () | Some p \<Rightarrow> check_admission p (ac_Policies (cfg_Admission c))) = Inr () \<and>
    parseCommerce (pk_decimal P) (pk_host P) (raw_get raw ''commerce'') (cfg_Credits c) = Inr (cfg_Commerce c) \<and>
    parsePlans (pk_decimal P) (pk_host P) (pk_regex P) (raw_get raw ''plans'') (cfg_Pricing c) (cfg_Credits c)
      (cfg_Entitlements c) (cfg_Admission c) (cfg_Commerce c) = Inr (cfg_Plans c) \<and>
    check_offers (cfg_Plans c) (com_Offers (cfg_Commerce c)) = Inr () \<and>
    check_programs (cfg_Plans c) (cc_GrantPrograms (cfg_Credits c)) = Inr () \<and>
    pred_option (has_key (cfg_Plans c)) (cat_DefaultPlan (cfg_Catalog c)) \<and>
    \<not> (cfg_Plans c \<noteq> [] \<and> cat_DefaultPlan (cfg_Catalog c) = None)"
  using assms unfolding parseBursarConfig_def Let_def bind_err_Inr_iff if_Inl_eq_Inr
  by (elim exE conjE) (simp only: sum.inject not_not, hypsubst, simp split: option.splits)

lemma parsePlans_closed:
  assumes "parsePlans D H X v pricing credits entitlements admission commerce = Inr plans"
  shows "list_all (\<lambda>(key, p). plan_closed pricing credits entitlements admission
      (subscription_plans (com_Offers commerce)) key p) plans"
proof (cases "v = VNil")
  case True
  with assms show ?thesis by (simp add: parsePlans_def)
next
  case False
  with assms obtain raw where "map_entries (parse_plan D H X pricing credits entitlements admission
      (subscription_plans (com_Offers commerce))) raw = Inr plans"
    by (auto simp: parsePlans_def bind_err_Inr_iff)
  then show ?thesis by (rule map_entries_all) (rule parse_plan_closed)
qed

lemma parseBursarConfig_closed:
  assumes "parseBursarConfig P raw = Inr c"
  shows "config_closed c"
  using parseBursarConfig_fields [OF assms]
proof (elim conjE)
  assume admission: "(case cfg_Pricing c of None \<Rightarrow> Inr ()
      | Some p \<Rightarrow> check_admission p (ac_Policies (cfg_Admission c))) = Inr ()"
    and default: "\<not> (cfg_Plans c \<noteq> [] \<and> cat_DefaultPlan (cfg_Catalog c) = None)"
    and parsed: "cfg_Version c = 1" "pred_option (has_key (cfg_Plans c)) (cat_DefaultPlan (cfg_Catalog c))"
    and sections: "parseCredits (pk_decimal P) (pk_host P) (raw_get raw ''credits'') = Inr (cfg_Credits c)"
      "parseCommerce (pk_decimal P) (pk_host P) (raw_get raw ''commerce'') (cfg_Credits c) = Inr (cfg_Commerce c)"
      "parsePlans (pk_decimal P) (pk_host P) (pk_regex P) (raw_get raw ''plans'') (cfg_Pricing c) (cfg_Credits c)
        (cfg_Entitlements c) (cfg_Admission c) (cfg_Commerce c) = Inr (cfg_Plans c)"
    and checks: "check_offers (cfg_Plans c) (com_Offers (cfg_Commerce c)) = Inr ()"
      "check_programs (cfg_Plans c) (cc_GrantPrograms (cfg_Credits c)) = Inr ()"
  have "pred_option (\<lambda>p. list_all (\<lambda>(_, a). list_all (has_key (pc_Operations p)) (map_keys (ap_Operations a)))
      (ac_Policies (cfg_Admission c))) (cfg_Pricing c)"
    using admission check_admission_closed by (cases "cfg_Pricing c") auto
  moreover have "cfg_Plans c = [] \<or> cat_DefaultPlan (cfg_Catalog c) \<noteq> None"
    using default by simp
  ultimately show ?thesis
    using parsed parseCredits_closed [OF sections(1)] parseCommerce_closed [OF sections(2)]
      parsePlans_closed [OF sections(3)] check_offers_closed [OF checks(1)] check_programs_closed [OF checks(2)]
    by (simp add: config_closed_def)
qed

lemma LoadConfigFromMap_parses:
  "LoadConfigFromMap P m = Inr c \<Longrightarrow> parseBursarConfig P (canonicalJSONMap m) = Inr c"
  unfolding LoadConfigFromMap_def load_config_from_map_def Let_def option.case bind_err_Inr_iff
  by (elim exE conjE)

section \<open>Prices of allowed operations\<close>

lemma validateConfigIdentifiers_keys:
  "validateConfigIdentifiers m path = Inr u \<Longrightarrow> [] \<notin> set (map_keys m)"
proof (induction m arbitrary: u)
  case (Cons e m)
  then show ?case
    by (cases e) (auto simp: validateConfigIdentifiers_def bind_err_Inr_iff validateConfigIdentifier_def
        configIdentifierPattern_def split: if_splits)
qed (simp add: map_keys_def)

lemma in_key_order_key_set: "set (map fst (in_key_order m)) = set (map_keys m)"
  by (simp add: sortedConfigKeys_def)

lemma parsePricing_no_empty_card:
  assumes "parsePricing D v = Inr p"
  shows "\<not> has_key (pc_RateCards p) []"
proof -
  from assms obtain cardsRaw operations where
    "validateConfigIdentifiers cardsRaw ''pricing.rate_cards'' = Inr ()"
    and "map_entries (parse_rate_card D operations) (in_key_order cardsRaw) = Inr (pc_RateCards p)"
    unfolding parsePricing_def guard_err_def Let_def bind_err_Inr_iff
    by (elim exE conjE) (auto simp: bind_err_Inr_iff split: if_splits)
  from validateConfigIdentifiers_keys [OF this(1)] map_entries_keys [OF this(2)] show ?thesis
    by (metis has_key_iff image_set in_key_order_key_set)
qed

end
