(* ===== verification/Credit_Types.thy ===== *)
theory Credit_Types
  imports Engine
begin

text \<open>
  The values that cross the boundary between the credits service and its store:
  \<open>src/golang/credit_types.go\<close>. A Go struct is a record with a prefix on its fields, an embedded
  \<open>OperationUsageOptions\<close> is a field, a pointer is an \<open>option\<close>, a named string type is a
  \<open>string\<close>. A \<open>time.Time\<close> is its number of nanoseconds since the Unix epoch and a
  \<open>time.Duration\<close> its number of nanoseconds, both as \<open>int\<close>; where the code can leave the range of
  \<open>int64\<close> the wrap-around is written out.
\<close>

section \<open>Instants and durations\<close>

type_synonym gotime = int
type_synonym duration = int

text \<open>The zero \<open>time.Time\<close> is midnight on 1 January of year 1.\<close>

definition zero_time :: gotime where
  "zero_time = - 62135596800 * 10 ^ 9"

definition second :: duration where "second = 10 ^ 9"
definition hour :: duration where "hour = 3600 * second"

text \<open>A value of type \<open>int64\<close> after an operation that may have overflowed.\<close>

definition wrap64 :: "int \<Rightarrow> int" where
  "wrap64 x = (x + 2 ^ 63) mod 2 ^ 64 - 2 ^ 63"

lemma wrap64_range: "- (2 ^ 63) \<le> wrap64 x" "wrap64 x < 2 ^ 63"
  using pos_mod_bound [of "2 ^ 64 :: int" "x + 2 ^ 63"] pos_mod_sign [of "2 ^ 64 :: int" "x + 2 ^ 63"]
  by (simp_all add: wrap64_def)

lemma wrap64_id: "- (2 ^ 63) \<le> x \<Longrightarrow> x < 2 ^ 63 \<Longrightarrow> wrap64 x = x"
  by (simp add: wrap64_def)

text \<open>\<open>Time.Sub\<close> saturates at the limits of \<open>time.Duration\<close>.\<close>

definition time_sub :: "gotime \<Rightarrow> gotime \<Rightarrow> duration" where
  "time_sub t u = max (- (2 ^ 63)) (min (2 ^ 63 - 1) (t - u))"

section \<open>Metadata\<close>

text \<open>\<open>CreditMetadata\<close>: a nil map and an empty map are the same list.\<close>

type_synonym CreditMetadata = "goval gomap"

definition CreditMetadata_Clone :: "CreditMetadata \<Rightarrow> CreditMetadata" where
  "CreditMetadata_Clone m = m"

definition BillingModeStrict :: string where "BillingModeStrict = ''strict''"
definition BillingModeOverdraft :: string where "BillingModeOverdraft = ''overdraft''"
definition CreditPolicyStrictPrepaid :: string where "CreditPolicyStrictPrepaid = ''strict_prepaid''"
definition CreditPolicyOverdraft :: string where "CreditPolicyOverdraft = ''overdraft''"

section \<open>Balances and grants\<close>

record BalanceResult =
  br_UserID :: string
  br_Balance :: amount
  br_LifetimePurchased :: amount

record AddCreditsOptions =
  aco_Type :: string
  aco_Metadata :: CreditMetadata
  aco_ExpiresAt :: "gotime option"
  aco_Bucket :: string
  aco_IdempotencyKey :: string

record AddCreditsResult =
  acr_EntryID :: string
  acr_UserID :: string
  acr_Amount :: amount
  acr_NewBalance :: amount
  acr_LifetimePurchased :: amount
  acr_Bucket :: string
  acr_Idempotent :: bool

record AvailableResult =
  av_UserID :: string
  av_Balance :: amount
  av_Reserved :: amount
  av_Available :: amount

record DeductionResult =
  dr_EntryID :: string
  dr_UsageChargeID :: string
  dr_UserID :: string
  dr_Amount :: amount
  dr_BalanceAfter :: "amount option"
  dr_AllowanceConsumed :: amount
  dr_Idempotent :: bool
  dr_ErrorCode :: string
  dr_BucketBreakdown :: "amount gomap"

datatype PostDeductionSource =
    PostDeductionSourceRaw
  | PostDeductionSourceDeduct
  | PostDeductionSourceSettle

record PostDeductionContext =
  pdc_UserID :: string
  pdc_Source :: PostDeductionSource
  pdc_Deduction :: DeductionResult

record RefundResult =
  rf_RefundEntryID :: string
  rf_OriginalEntryID :: string
  rf_UserID :: string
  rf_Amount :: "amount option"
  rf_NewBalance :: "amount option"
  rf_ErrorCode :: string
  rf_BucketBreakdown :: "amount gomap"

record RevokeCreditsResult =
  rv_UserID :: string
  rv_EntryType :: string
  rv_Revoked :: amount
  rv_BalanceAfter :: amount

section \<open>Usage, leases and settlement\<close>

record OperationUsageOptions =
  ou_Feature :: string
  ou_Model :: string
  ou_Region :: string
  ou_Measures :: "amount gomap"
  ou_Dimensions :: "goval gomap"

record DeductWithAllowanceOptions =
  dwa_Usage :: OperationUsageOptions
  dwa_IdempotencyKey :: string
  dwa_Operation :: string
  dwa_Metadata :: CreditMetadata

record RecordUsageOptions =
  ruo_Usage :: OperationUsageOptions
  ruo_IdempotencyKey :: string
  ruo_Metadata :: CreditMetadata

record UsageRecordResult =
  ur_UsageID :: string
  ur_UserID :: string
  ur_Requested :: amount
  ur_Idempotent :: bool
  ur_ErrorCode :: string

record CreateLeaseOptions =
  clo_Usage :: OperationUsageOptions
  clo_IdempotencyKey :: string
  clo_BillingMode :: string
  clo_Floor :: amount
  clo_MaxConcurrent :: "int option"
  clo_OverdraftFloor :: "amount option"
  clo_TTL :: duration
  clo_Metadata :: CreditMetadata

record SettleLeaseOptions =
  slo_Usage :: OperationUsageOptions
  slo_IdempotencyKey :: string
  slo_Metadata :: CreditMetadata

record LeaseResult =
  lr_LeaseID :: string
  lr_UserID :: string
  lr_Amount :: "amount option"
  lr_Available :: amount
  lr_ReservedTotal :: amount
  lr_MinimumBalance :: "amount option"
  lr_BillingMode :: string
  lr_ExpiresAt :: "gotime option"
  lr_ErrorCode :: string

record LeasePricingContext =
  lpc_CatalogVersion :: int
  lpc_PlanID :: string
  lpc_PlanKey :: string
  lpc_RateCard :: string

record ReleaseResult =
  rl_LeaseID :: string
  rl_UserID :: string
  rl_Released :: bool
  rl_Reason :: string

record BucketBalance =
  bb_BucketKey :: string
  bb_Label :: string
  bb_Priority :: int
  bb_Expires :: bool
  bb_Balance :: amount

record BucketBalancesResult =
  bbr_UserID :: string
  bbr_Buckets :: "BucketBalance list"
  bbr_TotalBalance :: amount

record CanAffordResult =
  ca_Affordable :: bool
  ca_Spendable :: amount
  ca_WorstCase :: amount
  ca_Reason :: string

record AllowanceResult =
  al_PlanID :: string
  al_AllowanceRemaining :: amount
  al_PeriodStart :: gotime
  al_PeriodEnd :: gotime

section \<open>Catalogue, plans and quotas\<close>

record CatalogRevision =
  rev_ID :: string
  rev_Config :: "goval gomap"
  rev_Version :: int

record CatalogRevisionSummary =
  crs_ID :: string
  crs_Version :: int
  crs_Label :: string
  crs_Active :: bool
  crs_CreatedAt :: gotime

type_synonym Entitlement = goval

record PlanAllowancePolicy =
  pap_Amount :: amount
  pap_Priority :: int
  pap_ResetUnit :: string
  pap_ResetCount :: int
  pap_ResetAnchor :: string
  pap_ResetTimezone :: string

record PlanCreditPolicy =
  pcp_Type :: string
  pcp_CreditLimit :: "amount option"

type_synonym PlanAdmissionOperation = "int option"

record PlanAdmissionPolicy =
  pad_MaxInFlight :: "int option"
  pad_Operations :: "PlanAdmissionOperation gomap"

record GetUserPlanResult =
  gup_UserID :: string
  gup_PlanID :: string
  gup_PlanKey :: string
  gup_PlanLabel :: string
  gup_Allowance :: "PlanAllowancePolicy option"
  gup_Entitlements :: "Entitlement gomap"
  gup_RateCard :: string
  gup_CreditPolicy :: "PlanCreditPolicy option"
  gup_Admission :: "PlanAdmissionPolicy option"
  gup_AllowedOperations :: "string list"
  gup_PlanAssignedAt :: "gotime option"
  gup_PlanAssignmentEndsAt :: "gotime option"
  gup_AssignmentSourceType :: string
  gup_AssignmentSourceID :: string
  gup_CatalogRevisionPinned :: bool
  gup_CatalogVersion :: "int option"

record CheckFeatureResult =
  cf_UserID :: string
  cf_Feature :: string
  cf_Value :: goval
  cf_HasFeature :: bool

text \<open>\<open>SetUserPlanOptions\<close> has the one field \<open>PlanAssignedAt\<close>.\<close>

type_synonym SetUserPlanOptions = "gotime option"

record SetUserPlanResult =
  sup_UserID :: string
  sup_PlanID :: string
  sup_PlanKey :: string
  sup_PlanAssignedAt :: gotime
  sup_AssignmentState :: string

type_synonym UnsetUserPlanResult = string
type_synonym PlanMigrationStartResult = string

record PlanMigrationBatchResult =
  pmb_Migrated :: int
  pmb_Done :: bool
  pmb_NextCursor :: string

record QuotaState =
  qs_UserID :: string
  qs_QuotaKey :: string
  qs_Operation :: string
  qs_Measure :: string
  qs_Limit :: amount
  qs_Consumed :: amount
  qs_Reserved :: amount
  qs_Remaining :: amount
  qs_Overage :: amount
  qs_Enforcement :: string
  qs_WindowStart :: gotime
  qs_WindowEnd :: gotime
  qs_EmitAtPercent :: "goval list"

text \<open>A \<open>*float64\<close> that is handed on to an event is kept as a value, \<^const>\<open>VNil\<close> for nil.\<close>

record QuotaEvent =
  qe_EventID :: string
  qe_QuotaKey :: string
  qe_Operation :: string
  qe_Measure :: string
  qe_EventType :: string
  qe_ThresholdPercent :: goval
  qe_IdempotencyKey :: string
  qe_UsageChargeID :: string
  qe_CreatedAt :: gotime

record ListQuotaEventsOptions =
  lqe_After :: "gotime option"
  lqe_AfterID :: string
  lqe_Limit :: int
  lqe_IdempotencyKey :: string

record SweepResult =
  sw_ExpiredCount :: int
  sw_ExpiredAmount :: amount
  sw_DryRun :: bool
  sw_ExpiredByBucket :: "amount gomap"

record ExecuteGrantProgramRequest =
  egp_Trigger :: string
  egp_ProgramKey :: string
  egp_SubjectID :: string
  egp_EventKey :: string
  egp_ReferrerSubjectID :: string
  egp_Region :: string
  egp_Metadata :: CreditMetadata

record GrantProgramAwardResult =
  gpa_GrantEventID :: string
  gpa_GrantAwardID :: string
  gpa_RecipientSubjectID :: string
  gpa_LedgerEntryID :: string
  gpa_Amount :: amount
  gpa_Idempotent :: bool
  gpa_ErrorCode :: string

section \<open>Ledger and receipts\<close>

record LedgerEntry =
  le_EntryID :: string
  le_AccountID :: string
  le_ActorUserID :: string
  le_Amount :: amount
  le_EntryType :: string
  le_Operation :: string
  le_ReferenceEntryID :: string
  le_IdempotencyKey :: string
  le_Metadata :: CreditMetadata
  le_CreatedAt :: gotime

record LedgerCursor =
  lc_CreatedAt :: gotime
  lc_EntryID :: string

record LedgerPage =
  lp_Items :: "LedgerEntry list"
  lp_NextCursor :: "LedgerCursor option"

record ListLedgerEntriesOptions =
  lle_EntryTypes :: "string list"
  lle_From :: "gotime option"
  lle_To :: "gotime option"
  lle_Limit :: int
  lle_Cursor :: "LedgerCursor option"

record UsageCharge =
  uc_UsageID :: string
  uc_AccountID :: string
  uc_Operation :: string
  uc_Requested :: amount
  uc_Charged :: amount
  uc_AllowanceRequested :: amount
  uc_AllowanceCovered :: amount
  uc_BillingDisposition :: string
  uc_Feature :: string
  uc_Model :: string
  uc_Region :: string
  uc_EventAt :: gotime
  uc_IdempotencyKey :: string
  uc_Metadata :: CreditMetadata
  uc_CreatedAt :: gotime

record UsageChargeCursor =
  ucc_EventAt :: gotime
  ucc_UsageID :: string

record UsageChargePage =
  ucp_Items :: "UsageCharge list"
  ucp_NextCursor :: "UsageChargeCursor option"

record ListUsageChargesOptions =
  luc_From :: "gotime option"
  luc_To :: "gotime option"
  luc_Limit :: int
  luc_Cursor :: "UsageChargeCursor option"
  luc_IncludeRecordOnly :: "bool option"

section \<open>Reports\<close>

record SpendByUserRow =
  su_UserID :: string
  su_TotalSpend :: amount
  su_EntryCount :: int

record SpendByModelRow =
  sm_Model :: string
  sm_TotalSpend :: amount
  sm_EntryCount :: int

record TopUserRow =
  tu_UserID :: string
  tu_TotalSpend :: amount

record DailySpendRow =
  ds_Date :: gotime
  ds_TotalSpend :: amount
  ds_EntryCount :: int

record AggregateStats =
  ag_TotalCreditsConsumed :: amount
  ag_ActiveUsers :: int
  ag_AverageDailySpend :: amount
  ag_TopModel :: string
  ag_TopUser :: string

section \<open>Teams\<close>

record CreateTeamOptions =
  cto_IdempotencyKey :: string
  cto_InitialBalance :: amount

record CreateTeamResult =
  ctr_TeamID :: string
  ctr_Name :: string
  ctr_Idempotent :: bool

record TeamBalanceResult =
  tb_TeamID :: string
  tb_Name :: string
  tb_Balance :: amount
  tb_MemberCount :: int

record AddTeamMemberOptions =
  atm_Role :: string
  atm_SpendCap :: "amount option"

record AddTeamMemberResult =
  atr_TeamID :: string
  atr_UserID :: string
  atr_Role :: string

record TeamMember =
  tm_UserID :: string
  tm_Role :: string
  tm_SpendCap :: "amount option"
  tm_TotalSpent :: amount

record TeamDeductionOptions =
  tdo_IdempotencyKey :: string
  tdo_Operation :: string
  tdo_Metadata :: CreditMetadata

record TeamDeductionResult =
  tdr_EntryID :: string
  tdr_TeamID :: string
  tdr_UserID :: string
  tdr_Amount :: amount
  tdr_TeamBalanceAfter :: "amount option"
  tdr_Idempotent :: bool
  tdr_ErrorCode :: string

section \<open>Service options\<close>

record PricedUsageOptions =
  puo_IdempotencyKey :: string
  puo_Feature :: string
  puo_Metadata :: CreditMetadata

record PricedUsageRecordOptions =
  pur_IdempotencyKey :: string
  pur_Metadata :: CreditMetadata

record PricedTeamDeductionOptions =
  ptd_IdempotencyKey :: string
  ptd_Metadata :: CreditMetadata

record ReserveOptions =
  ro_Usage :: OperationUsageOptions
  ro_IdempotencyKey :: string
  ro_OperationType :: string
  ro_BillingMode :: string
  ro_TTL :: duration
  ro_Metadata :: CreditMetadata

record SettleOptions =
  so_Usage :: OperationUsageOptions
  so_IdempotencyKey :: string
  so_Metadata :: CreditMetadata

record CanAffordOptions =
  cao_Feature :: string
  cao_BillingMode :: string
  cao_OperationType :: string

record GrantSubscriptionCycleOptions =
  gsc_Bucket :: string
  gsc_ExpiresAt :: "gotime option"
  gsc_TTLDays :: int
  gsc_PlanKey :: string
  gsc_IdempotencyKey :: string
  gsc_Metadata :: CreditMetadata

text \<open>
  The two kinds of billed operation differ in the type of the estimate and of what the work
  reports: an amount, or usage metrics. The work itself is application code; what the service
  learns of a run is its outcome, a result with what it used, or an error. \<open>None\<close> is a nil callback.
\<close>

record 'e BeginOptions =
  bo_Estimate :: 'e
  bo_OperationKey :: string
  bo_OperationType :: string
  bo_BillingMode :: string
  bo_TTL :: duration
  bo_Feature :: string
  bo_Metadata :: CreditMetadata

type_synonym BeginBilledOperationOptions = "amount BeginOptions"
type_synonym BeginBilledUsageOperationOptions = "UsageMetrics BeginOptions"

record 'e RunOptions = "'e BeginOptions" +
  bo_DoWork :: "(go_error + (goval \<times> 'e)) option"
  bo_SettlementAttempts :: int

type_synonym RunBilledOptions = "amount RunOptions"
type_synonym RunBilledUsageOptions = "UsageMetrics RunOptions"

record RunBilledResult =
  rb_Result :: goval
  rb_Deduction :: DeductionResult

section \<open>Zero values\<close>

definition zero_Balance :: BalanceResult where
  "zero_Balance = \<lparr>br_UserID = '''', br_Balance = 0, br_LifetimePurchased = 0\<rparr>"

definition zero_AddCredits :: AddCreditsResult where
  "zero_AddCredits = \<lparr>acr_EntryID = '''', acr_UserID = '''', acr_Amount = 0, acr_NewBalance = 0,
     acr_LifetimePurchased = 0, acr_Bucket = '''', acr_Idempotent = False\<rparr>"

definition zero_Available :: AvailableResult where
  "zero_Available = \<lparr>av_UserID = '''', av_Balance = 0, av_Reserved = 0, av_Available = 0\<rparr>"

definition zero_Deduction :: DeductionResult where
  "zero_Deduction = \<lparr>dr_EntryID = '''', dr_UsageChargeID = '''', dr_UserID = '''', dr_Amount = 0,
     dr_BalanceAfter = None, dr_AllowanceConsumed = 0, dr_Idempotent = False, dr_ErrorCode = '''',
     dr_BucketBreakdown = []\<rparr>"

definition zero_Refund :: RefundResult where
  "zero_Refund = \<lparr>rf_RefundEntryID = '''', rf_OriginalEntryID = '''', rf_UserID = '''',
     rf_Amount = None, rf_NewBalance = None, rf_ErrorCode = '''', rf_BucketBreakdown = []\<rparr>"

definition zero_Revoke :: RevokeCreditsResult where
  "zero_Revoke = \<lparr>rv_UserID = '''', rv_EntryType = '''', rv_Revoked = 0, rv_BalanceAfter = 0\<rparr>"

definition zero_Usage :: OperationUsageOptions where
  "zero_Usage = \<lparr>ou_Feature = '''', ou_Model = '''', ou_Region = '''', ou_Measures = [],
     ou_Dimensions = []\<rparr>"

definition zero_UsageRecord :: UsageRecordResult where
  "zero_UsageRecord = \<lparr>ur_UsageID = '''', ur_UserID = '''', ur_Requested = 0,
     ur_Idempotent = False, ur_ErrorCode = ''''\<rparr>"

definition zero_Lease :: LeaseResult where
  "zero_Lease = \<lparr>lr_LeaseID = '''', lr_UserID = '''', lr_Amount = None, lr_Available = 0,
     lr_ReservedTotal = 0, lr_MinimumBalance = None, lr_BillingMode = '''', lr_ExpiresAt = None,
     lr_ErrorCode = ''''\<rparr>"

definition zero_Release :: ReleaseResult where
  "zero_Release = \<lparr>rl_LeaseID = '''', rl_UserID = '''', rl_Released = False, rl_Reason = ''''\<rparr>"

definition zero_Buckets :: BucketBalancesResult where
  "zero_Buckets = \<lparr>bbr_UserID = '''', bbr_Buckets = [], bbr_TotalBalance = 0\<rparr>"

definition zero_CanAfford :: CanAffordResult where
  "zero_CanAfford = \<lparr>ca_Affordable = False, ca_Spendable = 0, ca_WorstCase = 0, ca_Reason = ''''\<rparr>"

definition zero_UserPlan :: GetUserPlanResult where
  "zero_UserPlan = \<lparr>gup_UserID = '''', gup_PlanID = '''', gup_PlanKey = '''', gup_PlanLabel = '''',
     gup_Allowance = None, gup_Entitlements = [], gup_RateCard = '''', gup_CreditPolicy = None,
     gup_Admission = None, gup_AllowedOperations = [], gup_PlanAssignedAt = None,
     gup_PlanAssignmentEndsAt = None, gup_AssignmentSourceType = '''', gup_AssignmentSourceID = '''',
     gup_CatalogRevisionPinned = False, gup_CatalogVersion = None\<rparr>"

definition zero_CheckFeature :: CheckFeatureResult where
  "zero_CheckFeature = \<lparr>cf_UserID = '''', cf_Feature = '''', cf_Value = VNil, cf_HasFeature = False\<rparr>"

definition zero_SetUserPlan :: SetUserPlanResult where
  "zero_SetUserPlan = \<lparr>sup_UserID = '''', sup_PlanID = '''', sup_PlanKey = '''',
     sup_PlanAssignedAt = zero_time, sup_AssignmentState = ''''\<rparr>"

definition zero_MigrationBatch :: PlanMigrationBatchResult where
  "zero_MigrationBatch = \<lparr>pmb_Migrated = 0, pmb_Done = False, pmb_NextCursor = ''''\<rparr>"

definition zero_Sweep :: SweepResult where
  "zero_Sweep = \<lparr>sw_ExpiredCount = 0, sw_ExpiredAmount = 0, sw_DryRun = False, sw_ExpiredByBucket = []\<rparr>"

definition zero_LedgerPage :: LedgerPage where
  "zero_LedgerPage = \<lparr>lp_Items = [], lp_NextCursor = None\<rparr>"

definition zero_ChargePage :: UsageChargePage where
  "zero_ChargePage = \<lparr>ucp_Items = [], ucp_NextCursor = None\<rparr>"

definition zero_Stats :: AggregateStats where
  "zero_Stats = \<lparr>ag_TotalCreditsConsumed = 0, ag_ActiveUsers = 0, ag_AverageDailySpend = 0,
     ag_TopModel = '''', ag_TopUser = ''''\<rparr>"

definition zero_CreateTeam :: CreateTeamResult where
  "zero_CreateTeam = \<lparr>ctr_TeamID = '''', ctr_Name = '''', ctr_Idempotent = False\<rparr>"

definition zero_AddMember :: AddTeamMemberResult where
  "zero_AddMember = \<lparr>atr_TeamID = '''', atr_UserID = '''', atr_Role = ''''\<rparr>"

definition zero_TeamDeduction :: TeamDeductionResult where
  "zero_TeamDeduction = \<lparr>tdr_EntryID = '''', tdr_TeamID = '''', tdr_UserID = '''', tdr_Amount = 0,
     tdr_TeamBalanceAfter = None, tdr_Idempotent = False, tdr_ErrorCode = ''''\<rparr>"

definition zero_Breakdown :: CostBreakdown where
  "zero_Breakdown = \<lparr>ModelCredits = 0, ToolCredits = 0, SearchCredits = 0, CacheSavings = 0,
     FixedCredits = 0, OperationCredits = 0, Total = 0, Breakdown = []\<rparr>"

definition zero_RunBilled :: RunBilledResult where
  "zero_RunBilled = \<lparr>rb_Result = VNil, rb_Deduction = zero_Deduction\<rparr>"

end
