(* ===== verification/Go_Effects.thy ===== *)
theory Go_Effects
  imports Errors
begin

text \<open>
  Go functions \<open>f(...) (T, error)\<close> that act on a state. Such a function returns a value beside
  its error even when it fails (a denied deduction carries the store's answer), so an operation
  yields both. The combinators are the shapes of the code: \<open>return v, nil\<close>, \<open>return v, err\<close>,
  the call followed by \<open>if err != nil { return zero, err }\<close>, a check that yields an error, and
  a statement that changes the state only. The locale \<open>op_frame\<close> carries what all operations of
  a service have in common: a relation between the states before and after, closed under these
  combinators.
\<close>

type_synonym ('w, 'r) op = "'w \<Rightarrow> ('r \<times> go_error option) \<times> 'w"

definition return_ok :: "'r \<Rightarrow> ('w, 'r) op" where
  "return_ok r = (\<lambda>w. ((r, None), w))"

definition return_err :: "'r \<Rightarrow> go_error \<Rightarrow> ('w, 'r) op" where
  "return_err r e = (\<lambda>w. ((r, Some e), w))"

text \<open>\<open>x, err := m()\<close>, with the error handled by what follows.\<close>

definition bind_op :: "('w, 'a) op \<Rightarrow> ('a \<Rightarrow> go_error option \<Rightarrow> ('w, 'b) op) \<Rightarrow> ('w, 'b) op" where
  "bind_op m k = (\<lambda>w. case m w of ((x, e), w') \<Rightarrow> k x e w')"

text \<open>\<open>x, err := m(); if err != nil { return zero, err }\<close>.\<close>

definition try_op :: "('w, 'a) op \<Rightarrow> 'b \<Rightarrow> ('a \<Rightarrow> ('w, 'b) op) \<Rightarrow> ('w, 'b) op" where
  "try_op m z k = bind_op m (\<lambda>x e. case e of None \<Rightarrow> k x | Some err \<Rightarrow> return_err z err)"

text \<open>The same for a call that does not touch the state.\<close>

definition require :: "go_error + 'a \<Rightarrow> 'b \<Rightarrow> ('a \<Rightarrow> ('w, 'b) op) \<Rightarrow> ('w, 'b) op" where
  "require r z k = (case r of Inl e \<Rightarrow> return_err z e | Inr x \<Rightarrow> k x)"

text \<open>\<open>if err := check(); err != nil { return z, err }\<close>.\<close>

definition reject :: "go_error option \<Rightarrow> 'b \<Rightarrow> ('w, 'b) op \<Rightarrow> ('w, 'b) op" where
  "reject check z k = (case check of None \<Rightarrow> k | Some e \<Rightarrow> return_err z e)"

definition perform :: "('w \<Rightarrow> 'w) \<Rightarrow> ('w, 'b) op \<Rightarrow> ('w, 'b) op" where
  "perform f m = (\<lambda>w. m (f w))"

text \<open>A read of the state.\<close>

definition inspect :: "('w \<Rightarrow> ('w, 'b) op) \<Rightarrow> ('w, 'b) op" where
  "inspect k = (\<lambda>w. k w w)"

text \<open>The result of an operation on a state, by its three parts.\<close>

abbreviation result_of :: "('r \<times> go_error option) \<times> 'w \<Rightarrow> 'r" where
  "result_of x \<equiv> fst (fst x)"

abbreviation error_of :: "('r \<times> go_error option) \<times> 'w \<Rightarrow> go_error option" where
  "error_of x \<equiv> snd (fst x)"

abbreviation state_of :: "('r \<times> go_error option) \<times> 'w \<Rightarrow> 'w" where
  "state_of x \<equiv> snd x"

named_theorems op_simps \<open>unfolding rules for the operations' combinators\<close>

lemma run_ops [op_simps]:
  "return_ok r w = ((r, None), w)"
  "return_err r e w = ((r, Some e), w)"
  "bind_op m k w = (case m w of ((x, e), w') \<Rightarrow> k x e w')"
  "perform f n w = n (f w)"
  "inspect h w = h w w"
  by (simp_all add: return_ok_def return_err_def bind_op_def perform_def inspect_def)

lemma run_require [op_simps]:
  "require (Inl e) z k = return_err z e"
  "require (Inr x) z k = k x"
  by (simp_all add: require_def)

lemma run_try [op_simps]:
  "try_op m z k w = (case m w of ((x, None), w') \<Rightarrow> k x w' | ((x, Some e), w') \<Rightarrow> ((z, Some e), w'))"
  by (simp add: try_op_def bind_op_def return_err_def split: prod.split option.split)

text \<open>\<open>errors.Join\<close>.\<close>

fun error_text :: "go_error \<Rightarrow> string" where
  "error_text (BursarError m c k r i d e) = m"
| "error_text (PlainError m es) = m"

fun join_texts :: "string list \<Rightarrow> string" where
  "join_texts [] = []"
| "join_texts [t] = t"
| "join_texts (t # u # ts) = t @ CHR 0x0A # join_texts (u # ts)"

definition errors_Join :: "go_error list \<Rightarrow> go_error option" where
  "errors_Join errs = (if errs = [] then None else Some (PlainError (join_texts (map error_text errs)) errs))"

section \<open>Relations kept by operations\<close>

definition keeps :: "('w \<Rightarrow> 'w \<Rightarrow> bool) \<Rightarrow> ('w, 'r) op \<Rightarrow> bool" where
  "keeps R m \<longleftrightarrow> (\<forall>w. R w (state_of (m w)))"

locale op_frame =
  fixes R :: "'w \<Rightarrow> 'w \<Rightarrow> bool"
  assumes frame_refl: "R w w"
    and frame_trans: "R u v \<Longrightarrow> R v w \<Longrightarrow> R u w"
begin

lemma keeps_return: "keeps R (return_ok r)" "keeps R (return_err r e)"
  by (simp_all add: keeps_def op_simps frame_refl)

lemma keeps_bind:
  assumes "keeps R m" and "\<And>x e. keeps R (k x e)"
  shows "keeps R (bind_op m k)"
  using assms unfolding keeps_def
  by (auto simp: op_simps split: prod.split intro: frame_trans)

lemma keeps_try:
  assumes "keeps R m" and "\<And>x. keeps R (k x)"
  shows "keeps R (try_op m z k)"
  unfolding try_op_def using assms by (intro keeps_bind) (auto split: option.split intro: keeps_return)

lemma keeps_try_result:
  assumes "keeps R m" and "\<And>w x v. m w = ((x, None), v) \<Longrightarrow> keeps R (k x)"
  shows "keeps R (try_op m z k)"
  unfolding keeps_def
proof
  fix w
  obtain x e v where m: "m w = ((x, e), v)" by (metis prod.collapse)
  then have "R w v" using assms(1) by (metis keeps_def snd_conv)
  then show "R w (state_of (try_op m z k w))"
    using m assms(2) [of w x v] by (cases e) (auto simp: op_simps keeps_def intro: frame_trans)
qed

lemma keeps_require: "(\<And>x. r = Inr x \<Longrightarrow> keeps R (k x)) \<Longrightarrow> keeps R (require r z k)"
  by (cases r) (simp_all add: op_simps keeps_return)

lemma keeps_perform: "(\<And>w. R w (f w)) \<Longrightarrow> keeps R m \<Longrightarrow> keeps R (perform f m)"
  unfolding keeps_def op_simps by (blast intro: frame_trans)

lemma keeps_inspect: "(\<And>w. keeps R (k w)) \<Longrightarrow> keeps R (inspect k)"
  by (simp add: keeps_def op_simps)

lemma keeps_if: "(b \<Longrightarrow> keeps R m) \<Longrightarrow> (\<not> b \<Longrightarrow> keeps R n) \<Longrightarrow> keeps R (if b then m else n)"
  by simp

lemma keeps_option:
  "(x = None \<Longrightarrow> keeps R m) \<Longrightarrow> (\<And>y. x = Some y \<Longrightarrow> keeps R (k y)) \<Longrightarrow>
   keeps R (case x of None \<Rightarrow> m | Some y \<Rightarrow> k y)"
  by (cases x) auto

lemma keeps_prod:
  "(\<And>y z. x = (y, z) \<Longrightarrow> keeps R (k y z)) \<Longrightarrow> keeps R (case x of (y, z) \<Rightarrow> k y z)"
  by (cases x) auto

lemma keeps_sum:
  "(\<And>y. x = Inl y \<Longrightarrow> keeps R (k y)) \<Longrightarrow> (\<And>y. x = Inr y \<Longrightarrow> keeps R (h y)) \<Longrightarrow>
   keeps R (case x of Inl y \<Rightarrow> k y | Inr y \<Rightarrow> h y)"
  by (cases x) auto

lemmas keeps_rules =
  keeps_return keeps_bind keeps_try keeps_require keeps_perform keeps_inspect keeps_if
  keeps_option keeps_prod keeps_sum

end

section \<open>Weakest preconditions\<close>

text \<open>\<open>wp m Q w\<close>: run from \<open>w\<close>, the operation ends with a result, an error and a state that satisfy
  \<open>Q\<close>. Every operation returns, so there is no partial reading of it.\<close>

definition wp :: "('w, 'r) op \<Rightarrow> ('r \<Rightarrow> go_error option \<Rightarrow> 'w \<Rightarrow> bool) \<Rightarrow> 'w \<Rightarrow> bool" where
  "wp m Q w = (case m w of ((r, e), w') \<Rightarrow> Q r e w')"

lemma wp_run: "wp m Q w \<longleftrightarrow> Q (result_of (m w)) (error_of (m w)) (state_of (m w))"
  by (simp add: wp_def split: prod.split)

named_theorems wp_simps \<open>weakest preconditions of the combinators\<close>

lemma wp_combinators [wp_simps]:
  "wp (return_ok r) Q w = Q r None w"
  "wp (return_err r e) Q w = Q r (Some e) w"
  "wp (perform f m) Q w = wp m Q (f w)"
  "wp (inspect h) Q w = wp (h w) Q w"
  "wp (bind_op n k) Q w = wp n (\<lambda>x e. wp (k x e) Q) w"
  by (simp_all add: wp_def op_simps split: prod.split)

lemma wp_require [wp_simps]:
  "wp (require r z k) Q w = (case r of Inl e \<Rightarrow> Q z (Some e) w | Inr x \<Rightarrow> wp (k x) Q w)"
  by (cases r) (simp_all add: op_simps wp_combinators)

lemma wp_try [wp_simps]:
  "wp (try_op n z k) Q w =
     wp n (\<lambda>x e w'. case e of None \<Rightarrow> wp (k x) Q w' | Some err \<Rightarrow> Q z (Some err) w') w"
  by (simp add: wp_def op_simps split: prod.split option.split)

lemma wp_mono: "wp m Q w \<Longrightarrow> (\<And>r e v. Q r e v \<Longrightarrow> Q' r e v) \<Longrightarrow> wp m Q' w"
  by (simp add: wp_run)

lemma wp_conj: "wp m (\<lambda>r e v. P r e v \<and> Q r e v) w \<longleftrightarrow> wp m P w \<and> wp m Q w"
  by (simp add: wp_run)

end
