(* ===== verification/Credit_Store.thy ===== *)
theory Credit_Store
  imports Credit_Types Go_Effects
begin

text \<open>
  The persistence contract of the credits service, \<open>src/golang/credit_store.go\<close>: the checks on
  texts, keys, durations, limits and billing modes, and the interface \<open>CreditStore\<close>. A store is a
  record of its methods over an abstract state; the methods are grouped as the comments of the
  interface group them. \<open>store_move\<close> says which calls a client of the store may make: the state of
  the store changes only by calls whose arguments satisfy what the methods ask for.
\<close>

section \<open>Checks\<close>

definition defaultLeaseTTL :: duration where "defaultLeaseTTL = 600 * second"
definition defaultPageSize :: int where "defaultPageSize = 50"
definition maxPageSize :: int where "maxPageSize = 500"
definition maxLedgerPageSize :: int where "maxLedgerPageSize = 200"
definition maxMaintenanceBatchSize :: int where "maxMaintenanceBatchSize = 1000"
definition maxIdempotencyKeyLength :: nat where "maxIdempotencyKeyLength = 255"

definition show_int :: "int \<Rightarrow> string" where
  "show_int i = (if i < 0 then CHR ''-'' # show_nat (nat (- i)) else show_nat (nat i))"

definition requireText :: "string \<Rightarrow> string \<Rightarrow> go_error + string" where
  "requireText v field =
     (let trimmed = trim_space v
      in if trimmed = '''' then Inl (invalid_request (field @ '' must not be empty'')) else Inr trimmed)"

definition requireStableKey :: "string \<Rightarrow> string \<Rightarrow> go_error + string" where
  "requireStableKey v field =
     bind_err (requireText v field) (\<lambda>trimmed.
       if length trimmed > maxIdempotencyKeyLength
       then Inl (invalid_request (field @ '' must be at most '' @ show_nat maxIdempotencyKeyLength @ '' characters''))
       else Inr trimmed)"

definition requirePositiveDuration :: "duration \<Rightarrow> string \<Rightarrow> go_error + duration" where
  "requirePositiveDuration v field =
     (if v \<le> 0 then Inl (invalid_request (field @ '' must be positive''))
      else if v mod second \<noteq> 0
      then Inl (invalid_request (field @ '' must be an exact number of seconds''))
      else Inr v)"

definition requireBoundedLimit :: "int \<Rightarrow> int \<Rightarrow> int \<Rightarrow> string \<Rightarrow> go_error + int" where
  "requireBoundedLimit v fallback maximum field =
     (if v = 0 then Inr fallback
      else if v < 1 \<or> v > maximum
      then Inl (invalid_request (field @ '' must be between 1 and '' @ show_int maximum))
      else Inr v)"

definition requireBillingMode :: "string \<Rightarrow> go_error + string" where
  "requireBillingMode mode =
     (if mode = '''' then Inr BillingModeStrict
      else if mode \<noteq> BillingModeStrict \<and> mode \<noteq> BillingModeOverdraft
      then Inl (invalid_request (''billing mode must be '' @ quoted BillingModeStrict @ '' or '' @
             quoted BillingModeOverdraft))
      else Inr mode)"

section \<open>The interface\<close>

type_synonym ('s, 'r) rpc = "'s \<Rightarrow> ('r \<times> go_error option) \<times> 's"

record 's AccountingStore =
  st_GetBalance :: "string \<Rightarrow> ('s, BalanceResult) rpc"
  st_AddCredits :: "string \<Rightarrow> amount \<Rightarrow> AddCreditsOptions \<Rightarrow> ('s, AddCreditsResult) rpc"
  st_DeductWithAllowance ::
    "string \<Rightarrow> amount \<Rightarrow> DeductWithAllowanceOptions \<Rightarrow> ('s, DeductionResult) rpc"
  st_RecordUsage ::
    "string \<Rightarrow> string \<Rightarrow> amount \<Rightarrow> RecordUsageOptions \<Rightarrow> ('s, UsageRecordResult) rpc"

record 's LeaseStore =
  st_CreateLease ::
    "string \<Rightarrow> amount \<Rightarrow> string \<Rightarrow> CreateLeaseOptions \<Rightarrow> ('s, LeaseResult) rpc"
  st_SettleLease ::
    "string \<Rightarrow> string \<Rightarrow> amount \<Rightarrow> SettleLeaseOptions \<Rightarrow> ('s, DeductionResult) rpc"
  st_GetLeasePricingContext :: "string \<Rightarrow> string \<Rightarrow> ('s, LeasePricingContext option) rpc"
  st_ReleaseLease :: "string \<Rightarrow> string \<Rightarrow> ('s, ReleaseResult) rpc"
  st_RenewLease :: "string \<Rightarrow> string \<Rightarrow> duration \<Rightarrow> ('s, LeaseResult) rpc"
  st_ExpireLeases :: "int \<Rightarrow> ('s, int) rpc"
  st_GetAvailable :: "string \<Rightarrow> ('s, AvailableResult) rpc"
  st_GetBucketBalances :: "string \<Rightarrow> ('s, BucketBalancesResult) rpc"
  st_ExecuteGrantProgram ::
    "ExecuteGrantProgramRequest \<Rightarrow> ('s, GrantProgramAwardResult list) rpc"

record 's CatalogStore =
  st_GetActiveCatalog :: "('s, CatalogRevision option) rpc"
  st_PublishAndActivateCatalog ::
    "goval gomap \<Rightarrow> string \<Rightarrow> CatalogRollout \<Rightarrow> ('s, string) rpc"
  st_GetCatalogHistory :: "('s, CatalogRevisionSummary list) rpc"
  st_GetCatalogRevision :: "int \<Rightarrow> ('s, CatalogRevision option) rpc"
  st_ActivateCatalogRevision :: "int \<Rightarrow> CatalogRollout \<Rightarrow> ('s, string) rpc"
  st_PublishCatalogDraft :: "goval gomap \<Rightarrow> string \<Rightarrow> ('s, string) rpc"

record 's PlanStore =
  st_GetUserPlan :: "string \<Rightarrow> ('s, GetUserPlanResult) rpc"
  st_CheckFeature :: "string \<Rightarrow> string \<Rightarrow> ('s, CheckFeatureResult) rpc"
  st_SetUserPlan :: "string \<Rightarrow> string \<Rightarrow> SetUserPlanOptions \<Rightarrow> ('s, SetUserPlanResult) rpc"
  st_UnsetUserPlan :: "string \<Rightarrow> ('s, UnsetUserPlanResult) rpc"
  st_SetPlanRevisionPin :: "string \<Rightarrow> bool \<Rightarrow> ('s, bool) rpc"
  st_ApplyDuePlanChanges :: "int \<Rightarrow> ('s, int) rpc"
  st_StartPlanMigration :: "string \<Rightarrow> string \<Rightarrow> ('s, PlanMigrationStartResult) rpc"
  st_MigratePlanBatch :: "string \<Rightarrow> int \<Rightarrow> ('s, PlanMigrationBatchResult) rpc"
  st_GetQuotaState :: "string \<Rightarrow> string \<Rightarrow> ('s, QuotaState list) rpc"
  st_CheckAllowance :: "string \<Rightarrow> ('s, AllowanceResult option) rpc"
  st_ListQuotaEvents :: "string \<Rightarrow> ListQuotaEventsOptions \<Rightarrow> ('s, QuotaEvent list) rpc"

record 's CorrectionStore =
  st_RefundCredits :: "string \<Rightarrow> amount option \<Rightarrow> string \<Rightarrow> CreditMetadata \<Rightarrow> string \<Rightarrow>
    ('s, RefundResult) rpc"
  st_SweepExpiredCredits :: "bool \<Rightarrow> string \<Rightarrow> int \<Rightarrow> ('s, SweepResult) rpc"
  st_RevokeCreditsByEntryType :: "string \<Rightarrow> string \<Rightarrow> ('s, RevokeCreditsResult) rpc"

text \<open>\<open>UsageAnalyticsStore\<close> and \<open>UsageChargeStore\<close> of \<open>credit_types.go\<close> are the parts of the
  reporting methods that can be served by another backend.\<close>

record 's UsageAnalyticsStore =
  st_SpendByUser :: "gotime \<Rightarrow> gotime \<Rightarrow> ('s, SpendByUserRow list) rpc"
  st_SpendByModel :: "gotime \<Rightarrow> gotime \<Rightarrow> ('s, SpendByModelRow list) rpc"
  st_TopUsers :: "int \<Rightarrow> gotime \<Rightarrow> gotime \<Rightarrow> ('s, TopUserRow list) rpc"
  st_DailySpend :: "gotime \<Rightarrow> gotime \<Rightarrow> ('s, DailySpendRow list) rpc"
  st_AggregateStats :: "gotime \<Rightarrow> gotime \<Rightarrow> ('s, AggregateStats) rpc"

type_synonym 's UsageChargeStore =
  "string \<Rightarrow> ListUsageChargesOptions \<Rightarrow> ('s, UsageChargePage) rpc"

record 's LedgerStore =
  st_ListLedgerEntries :: "string \<Rightarrow> ListLedgerEntriesOptions \<Rightarrow> ('s, LedgerPage) rpc"
  st_ListUsageEntries :: "string \<Rightarrow> ListLedgerEntriesOptions \<Rightarrow> ('s, LedgerPage) rpc"
  st_GetLedgerEntry :: "string \<Rightarrow> string \<Rightarrow> ('s, LedgerEntry option) rpc"

record 's TeamStore =
  st_CreateTeam :: "string \<Rightarrow> string \<Rightarrow> CreateTeamOptions \<Rightarrow> ('s, CreateTeamResult) rpc"
  st_GetTeamBalance :: "string \<Rightarrow> ('s, TeamBalanceResult option) rpc"
  st_AddTeamMember ::
    "string \<Rightarrow> string \<Rightarrow> AddTeamMemberOptions \<Rightarrow> ('s, AddTeamMemberResult) rpc"
  st_GetTeamMembers :: "string \<Rightarrow> ('s, TeamMember list) rpc"
  st_RemoveTeamMember :: "string \<Rightarrow> string \<Rightarrow> ('s, bool) rpc"
  st_DeductTeam ::
    "string \<Rightarrow> string \<Rightarrow> amount \<Rightarrow> TeamDeductionOptions \<Rightarrow> ('s, TeamDeductionResult) rpc"

record 's CreditStore =
  st_Close :: "('s, unit) rpc"
  st_accounting :: "'s AccountingStore"
  st_leases :: "'s LeaseStore"
  st_catalog :: "'s CatalogStore"
  st_plans :: "'s PlanStore"
  st_corrections :: "'s CorrectionStore"
  st_analytics :: "'s UsageAnalyticsStore"
  st_charges :: "'s UsageChargeStore"
  st_ledger :: "'s LedgerStore"
  st_teams :: "'s TeamStore"

section \<open>What a client may ask of a store\<close>

text \<open>A text is clean when it is not empty and has no white space at its ends; a key the store
  accepts is also at most 255 bytes long.\<close>

definition stable_key :: "string \<Rightarrow> bool" where
  "stable_key k \<longleftrightarrow> k \<noteq> '''' \<and> length k \<le> 255"

definition billing_mode :: "string \<Rightarrow> bool" where
  "billing_mode m \<longleftrightarrow> m = ''strict'' \<or> m = ''overdraft''"

text \<open>The lease options of an admission: a valid mode and key, a time to live in whole seconds,
  and a floor that is zero for a strict lease and never positive.\<close>

definition lease_options_ok :: "CreateLeaseOptions \<Rightarrow> bool" where
  "lease_options_ok options \<longleftrightarrow>
     stable_key (clo_IdempotencyKey options) \<and> billing_mode (clo_BillingMode options) \<and>
     clo_TTL options > 0 \<and> clo_TTL options mod second = 0 \<and> clo_Floor options \<le> 0 \<and>
     clo_OverdraftFloor options =
       (if clo_BillingMode options = ''overdraft'' then Some (clo_Floor options) else None) \<and>
     (clo_BillingMode options = ''strict'' \<longrightarrow> clo_Floor options = 0)"

inductive store_move :: "'s CreditStore \<Rightarrow> 's \<Rightarrow> 's \<Rightarrow> bool" for store where
  grant: "money a \<Longrightarrow> store_move store s (state_of (st_AddCredits (st_accounting store) u a options s))"
| charge: "money a \<Longrightarrow> 0 \<le> a \<Longrightarrow>
    store_move store s (state_of (st_DeductWithAllowance (st_accounting store) u a doptions s))"
| receipt: "store_move store s (state_of (st_RecordUsage (st_accounting store) u opn a uoptions s))"
| admit: "money a \<Longrightarrow> 0 \<le> a \<Longrightarrow> lease_options_ok loptions \<Longrightarrow>
    store_move store s (state_of (st_CreateLease (st_leases store) u a opn loptions s))"
| settle: "money a \<Longrightarrow> 0 \<le> a \<Longrightarrow> trim_space (slo_IdempotencyKey soptions) \<noteq> '''' \<Longrightarrow>
    length (trim_space (slo_IdempotencyKey soptions)) \<le> 255 \<Longrightarrow>
    store_move store s (state_of (st_SettleLease (st_leases store) u l a soptions s))"
| pricing_context: "store_move store s (state_of (st_GetLeasePricingContext (st_leases store) u l s))"
| release: "store_move store s (state_of (st_ReleaseLease (st_leases store) u l s))"
| renew: "store_move store s (state_of (st_RenewLease (st_leases store) u l ttl s))"
| balance: "store_move store s (state_of (st_GetBalance (st_accounting store) u s))"
| available: "store_move store s (state_of (st_GetAvailable (st_leases store) u s))"
| buckets: "store_move store s (state_of (st_GetBucketBalances (st_leases store) u s))"
| grant_program: "store_move store s (state_of (st_ExecuteGrantProgram (st_leases store) request s))"
| active_catalog: "store_move store s (state_of (st_GetActiveCatalog (st_catalog store) s))"
| publish: "store_move store s
    (state_of (st_PublishAndActivateCatalog (st_catalog store) config label rollout s))"
| draft: "store_move store s (state_of (st_PublishCatalogDraft (st_catalog store) config label s))"
| history: "store_move store s (state_of (st_GetCatalogHistory (st_catalog store) s))"
| revision: "store_move store s (state_of (st_GetCatalogRevision (st_catalog store) version s))"
| activate: "store_move store s
    (state_of (st_ActivateCatalogRevision (st_catalog store) version rollout s))"
| user_plan: "store_move store s (state_of (st_GetUserPlan (st_plans store) u s))"
| feature: "store_move store s (state_of (st_CheckFeature (st_plans store) u f s))"
| set_plan: "store_move store s (state_of (st_SetUserPlan (st_plans store) u plan assigned s))"
| unset_plan: "store_move store s (state_of (st_UnsetUserPlan (st_plans store) u s))"
| pin: "store_move store s (state_of (st_SetPlanRevisionPin (st_plans store) u pinned s))"
| due_changes: "store_move store s (state_of (st_ApplyDuePlanChanges (st_plans store) limit s))"
| migration: "store_move store s (state_of (st_StartPlanMigration (st_plans store) from to s))"
| migration_batch: "store_move store s (state_of (st_MigratePlanBatch (st_plans store) m limit s))"
| quota_state: "store_move store s (state_of (st_GetQuotaState (st_plans store) u q s))"
| allowance: "store_move store s (state_of (st_CheckAllowance (st_plans store) u s))"
| quota_events: "store_move store s (state_of (st_ListQuotaEvents (st_plans store) u qoptions s))"
| refund: "store_move store s
    (state_of (st_RefundCredits (st_corrections store) entry amt reason metadata key s))"
| sweep: "store_move store s (state_of (st_SweepExpiredCredits (st_corrections store) dry u limit s))"
| revoke: "store_move store s (state_of (st_RevokeCreditsByEntryType (st_corrections store) u ty s))"
| ledger: "store_move store s (state_of (st_ListLedgerEntries (st_ledger store) u lpoptions s))"
| usage_ledger: "store_move store s (state_of (st_ListUsageEntries (st_ledger store) u lpoptions s))"
| ledger_entry: "store_move store s (state_of (st_GetLedgerEntry (st_ledger store) u entry s))"
| team: "store_move store s (state_of (st_CreateTeam (st_teams store) u name toptions s))"
| team_balance: "store_move store s (state_of (st_GetTeamBalance (st_teams store) t s))"
| member: "store_move store s (state_of (st_AddTeamMember (st_teams store) t u moptions s))"
| members: "store_move store s (state_of (st_GetTeamMembers (st_teams store) t s))"
| remove_member: "store_move store s (state_of (st_RemoveTeamMember (st_teams store) t u s))"
| team_charge: "store_move store s (state_of (st_DeductTeam (st_teams store) t u a tdoptions s))"

section \<open>Lemmas\<close>

lemma requireText_Inr: "requireText v f = Inr k \<longleftrightarrow> k = trim_space v \<and> k \<noteq> ''''"
  by (auto simp: requireText_def Let_def)

lemma requireStableKey_Inr:
  "requireStableKey v f = Inr k \<longleftrightarrow> k = trim_space v \<and> stable_key k"
  by (auto simp: requireStableKey_def bind_err_Inr_iff requireText_Inr stable_key_def
        maxIdempotencyKeyLength_def)

lemma requirePositiveDuration_Inr:
  "requirePositiveDuration v f = Inr d \<longleftrightarrow> d = v \<and> v > 0 \<and> v mod second = 0"
  by (auto simp: requirePositiveDuration_def)

lemma requireBillingMode_Inr:
  "requireBillingMode m = Inr n \<Longrightarrow> billing_mode n"
  by (auto simp: requireBillingMode_def billing_mode_def BillingModeStrict_def BillingModeOverdraft_def
        split: if_splits)

lemma requireBoundedLimit_range:
  "requireBoundedLimit v fallback maximum f = Inr n \<Longrightarrow> 1 \<le> fallback \<Longrightarrow> fallback \<le> maximum \<Longrightarrow>
   1 \<le> n \<and> n \<le> maximum"
  by (auto simp: requireBoundedLimit_def split: if_splits)

end
