(* ===== verification/Credit_Events.thy ===== *)
theory Credit_Events
  imports Credit_Types "HOL-Library.Word"
begin

text \<open>
  Credit lifecycle events and the in-process emitter, \<open>src/golang/credit_events.go\<close>. Handlers are
  application code; a handler is known by a value of an arbitrary type, and what \<open>Emit\<close> does is the
  list of the calls it makes. A panic in a handler is recovered, so every call is made. The
  listeners of a type are kept in a Go map, so the order of the calls is open.
\<close>

datatype CreditEventType =
    CreditEventDeducted
  | CreditEventDeductFailed
  | CreditEventAdded
  | CreditEventRefunded
  | CreditEventRefundFailed
  | CreditEventExpired
  | CreditEventLowBalance
  | CreditEventPlanChanged
  | CreditEventReserved
  | CreditEventReservationReleased
  | CreditEventLeaseExpired
  | CreditEventOverdraft
  | CreditEventCycleRenewed
  | CreditEventRevoked
  | CreditEventQuotaBlocked
  | CreditEventQuotaThreshold
  | CreditEventOther string

record CreditEvent =
  ev_Type :: CreditEventType
  ev_Timestamp :: gotime
  ev_UserID :: string
  ev_Data :: CreditMetadata

section \<open>The emitter\<close>

type_synonym ('k, 'v) assoc = "('k \<times> 'v) list"

record 'h CreditEventEmitter =
  em_listeners :: "(CreditEventType, (64 word, 'h) assoc) assoc"
  em_nextID :: "64 word"

definition NewCreditEventEmitter :: "'h CreditEventEmitter" where
  "NewCreditEventEmitter = \<lparr>em_listeners = [], em_nextID = 0\<rparr>"

definition listeners_of :: "'h CreditEventEmitter \<Rightarrow> CreditEventType \<Rightarrow> (64 word, 'h) assoc" where
  "listeners_of e ty = (case map_of (em_listeners e) ty of None \<Rightarrow> [] | Some hs \<Rightarrow> hs)"

text \<open>\<open>On\<close> also returns the identifier its unsubscribe function passes to \<open>off\<close>; \<open>None\<close> is a nil
  emitter or a nil handler, and then the function does nothing.\<close>

definition emitter_On ::
  "'h CreditEventEmitter \<Rightarrow> CreditEventType \<Rightarrow> 'h option \<Rightarrow> 64 word option \<times> 'h CreditEventEmitter" where
  "emitter_On e ty handler =
     (case handler of
        None \<Rightarrow> (None, e)
      | Some h \<Rightarrow>
          let i = em_nextID e + 1 in
          (Some i, e\<lparr>em_nextID := i,
             em_listeners := AList.update ty (AList.update i h (listeners_of e ty)) (em_listeners e)\<rparr>))"

definition emitter_off ::
  "CreditEventType \<Rightarrow> 64 word \<Rightarrow> 'h CreditEventEmitter \<Rightarrow> 'h CreditEventEmitter" where
  "emitter_off ty i e =
     (case map_of (em_listeners e) ty of
        None \<Rightarrow> e
      | Some handlers \<Rightarrow>
          let handlers' = AList.delete i handlers in
          if handlers' = [] then e\<lparr>em_listeners := AList.delete ty (em_listeners e)\<rparr>
          else e\<lparr>em_listeners := AList.update ty handlers' (em_listeners e)\<rparr>)"

definition emitter_Clear :: "CreditEventType \<Rightarrow> 'h CreditEventEmitter \<Rightarrow> 'h CreditEventEmitter" where
  "emitter_Clear ty e = e\<lparr>em_listeners := AList.delete ty (em_listeners e)\<rparr>"

definition emitter_ClearAll :: "'h CreditEventEmitter \<Rightarrow> 'h CreditEventEmitter" where
  "emitter_ClearAll e = e\<lparr>em_listeners := []\<rparr>"

text \<open>The calls of \<open>Emit\<close>, at the instant \<open>now\<close>.\<close>

definition emitter_Emit ::
  "gotime \<Rightarrow> 'h CreditEventEmitter \<Rightarrow> CreditEvent \<Rightarrow> ('h \<times> CreditEvent) list" where
  "emitter_Emit now e event =
     (let event = (if ev_Timestamp event = zero_time then event\<lparr>ev_Timestamp := now\<rparr> else event);
          event = event\<lparr>ev_Data := CreditMetadata_Clone (ev_Data event)\<rparr>
      in map (\<lambda>(_, handler). (handler, event)) (listeners_of e (ev_Type event)))"

section \<open>The invariant of the emitter\<close>

text \<open>Every type with an entry has a listener, and the identifiers handed out are at most the
  last one, which stays below the largest 64-bit value for the life of a process.\<close>

definition emitter_wf :: "'h CreditEventEmitter \<Rightarrow> bool" where
  "emitter_wf e \<longleftrightarrow> distinct (map fst (em_listeners e)) \<and>
     (\<forall>(ty, hs) \<in> set (em_listeners e). hs \<noteq> [] \<and> distinct (map fst hs) \<and>
        (\<forall>i \<in> fst ` set hs. i \<le> em_nextID e))"

lemma listeners_of_update [simp]:
  "listeners_of (e\<lparr>em_listeners := AList.update ty hs (em_listeners e)\<rparr>) ty' =
     (if ty' = ty then hs else listeners_of e ty')"
  by (simp add: listeners_of_def update_conv')

lemma listeners_of_delete [simp]:
  "listeners_of (e\<lparr>em_listeners := AList.delete ty (em_listeners e)\<rparr>) ty' =
     (if ty' = ty then [] else listeners_of e ty')"
  by (simp add: listeners_of_def delete_conv')

lemma listeners_of_nextID [simp]: "listeners_of (e\<lparr>em_nextID := i\<rparr>) ty = listeners_of e ty"
  by (simp add: listeners_of_def)

lemma listeners_of_off:
  "listeners_of (emitter_off ty i e) ty' =
     (if ty' = ty then AList.delete i (listeners_of e ty) else listeners_of e ty')"
  by (auto simp: emitter_off_def Let_def listeners_of_def update_conv' delete_conv' split: option.splits)

lemma listeners_of_On:
  "emitter_On e ty (Some h) = (r, e') \<Longrightarrow>
   listeners_of e' ty' =
     (if ty' = ty then AList.update (em_nextID e + 1) h (listeners_of e ty) else listeners_of e ty')"
  by (auto simp: emitter_On_def Let_def listeners_of_def update_conv' split: option.splits)

lemma emitter_wf_listeners:
  "emitter_wf e \<Longrightarrow> distinct (map fst (listeners_of e ty)) \<and> (\<forall>i \<in> fst ` set (listeners_of e ty). i \<le> em_nextID e)"
  unfolding listeners_of_def
  by (auto simp: emitter_wf_def split: option.splits dest!: map_of_SomeD) (fastforce+)

lemma update_fresh: "k \<notin> fst ` set xs \<Longrightarrow> AList.update k v xs = xs @ [(k, v)]"
  by (induction xs) auto

lemma delete_snoc: "k \<notin> fst ` set xs \<Longrightarrow> AList.delete k (xs @ [(k, v)]) = xs"
  by (induction xs) (auto simp: AList.delete_eq)

lemma word_less_next: "x < - 1 \<Longrightarrow> x < x + 1" for x :: "64 word"
proof -
  assume "x < - 1"
  then have "1 + x \<noteq> 0" by (metis add_eq_0_iff less_irrefl)
  then show ?thesis using unatSuc [of x] by (simp add: word_less_nat_alt add.commute)
qed

lemma fresh_id:
  assumes "emitter_wf e" and "em_nextID e < - 1"
  shows "em_nextID e + 1 \<notin> fst ` set (listeners_of e ty)"
  using emitter_wf_listeners [OF assms(1), of ty] word_less_next [OF assms(2)]
  by (meson leD)

lemma emitter_wf_update:
  assumes wf: "emitter_wf e" and new: "hs \<noteq> []" "distinct (map fst hs)" "\<forall>i \<in> fst ` set hs. i \<le> n"
    and n: "em_nextID e \<le> n"
  shows "emitter_wf (e\<lparr>em_listeners := AList.update ty hs (em_listeners e), em_nextID := n\<rparr>)"
proof -
  let ?ls = "AList.update ty hs (em_listeners e)"
  have d: "distinct (map fst ?ls)" using wf by (simp add: emitter_wf_def distinct_update)
  have "gs \<noteq> [] \<and> distinct (map fst gs) \<and> (\<forall>i \<in> fst ` set gs. i \<le> n)" if "(t, gs) \<in> set ?ls" for t gs
  proof (cases "t = ty")
    case True
    then have "gs = hs" using map_of_is_SomeI [OF d that] by (simp add: update_conv')
    then show ?thesis using new by simp
  next
    case False
    then have "(t, gs) \<in> set (em_listeners e)"
      using map_of_is_SomeI [OF d that] by (auto simp: update_conv' dest: map_of_SomeD)
    then show ?thesis using wf n by (fastforce simp: emitter_wf_def intro: order_trans)
  qed
  with d show ?thesis by (auto simp: emitter_wf_def)
qed

lemma On_wf:
  assumes "emitter_wf e" and "em_nextID e < - 1" and "emitter_On e ty h = (r, e')"
  shows "emitter_wf e'"
proof (cases h)
  case None
  then show ?thesis using assms by (simp add: emitter_On_def)
next
  case (Some f)
  let ?i = "em_nextID e + 1"
  have "AList.update ?i f (listeners_of e ty) = listeners_of e ty @ [(?i, f)]"
    using fresh_id [OF assms(1,2)] by (simp add: update_fresh)
  then have "emitter_wf (e\<lparr>em_listeners := AList.update ty (AList.update ?i f (listeners_of e ty)) (em_listeners e),
      em_nextID := ?i\<rparr>)"
    using emitter_wf_listeners [OF assms(1), of ty] fresh_id [OF assms(1,2), of ty]
      word_less_next [OF assms(2)]
    by (intro emitter_wf_update assms(1)) (auto intro: order_trans)
  moreover have "emitter_wf e' \<longleftrightarrow> emitter_wf (e\<lparr>em_listeners := em_listeners e', em_nextID := em_nextID e'\<rparr>)"
    by (simp add: emitter_wf_def)
  ultimately show ?thesis using assms(3) Some by (auto simp: emitter_On_def Let_def)
qed

lemma off_wf:
  assumes "emitter_wf e"
  shows "emitter_wf (emitter_off ty i e)"
proof (cases "map_of (em_listeners e) ty")
  case None
  then show ?thesis using assms by (simp add: emitter_off_def)
next
  case (Some hs)
  then have hs: "(ty, hs) \<in> set (em_listeners e)" by (rule map_of_SomeD)
  have "emitter_wf (e\<lparr>em_listeners := AList.delete ty (em_listeners e)\<rparr>)"
    using assms by (auto simp: emitter_wf_def AList.delete_eq distinct_map_filter)
  moreover have "emitter_wf (e\<lparr>em_listeners := AList.update ty (AList.delete i hs) (em_listeners e),
      em_nextID := em_nextID e\<rparr>)" if "AList.delete i hs \<noteq> []"
    using assms hs that
    by (intro emitter_wf_update) (fastforce simp: emitter_wf_def AList.delete_eq distinct_map_filter)+
  ultimately show ?thesis using Some by (simp add: emitter_off_def Let_def)
qed


definition sample_event :: CreditEvent where
  "sample_event = \<lparr>ev_Type = CreditEventAdded, ev_Timestamp = 1, ev_UserID = ''u1'', ev_Data = []\<rparr>"


end
