(* ===== verification/Low_Balance.thy ===== *)
theory Low_Balance
  imports Credit_Types
begin

text \<open>
  The edge-triggered low-balance notifications of \<open>src/golang/credits.go\<close>: for each tracked user,
  the thresholds the balance is already known to be at or below, kept in a map bounded by a list
  in order of last use (\<open>lowBalanceState\<close>, \<open>lowBalanceOrder\<close>, \<open>lowBalanceUsers\<close>). An element of the
  list is known by its value, the user: the values are distinct in every state the code reaches.
\<close>

section \<open>State and operations\<close>

record LowBalanceTracker =
  lb_state :: "unit gomap gomap"
  lb_order :: "string list"
  lb_users :: "string gomap"

definition empty_tracker :: LowBalanceTracker where
  "empty_tracker = \<lparr>lb_state = [], lb_order = [], lb_users = []\<rparr>"

definition map_delete :: "string \<Rightarrow> 'v gomap \<Rightarrow> 'v gomap" where
  "map_delete k m = AList.delete k m"

text \<open>The loop \<open>for Len() > maxTracked\<close>: it drops the front of the list.\<close>

fun evict :: "int \<Rightarrow> string list \<Rightarrow> LowBalanceTracker \<Rightarrow> LowBalanceTracker" where
  "evict maxTracked [] t = t\<lparr>lb_order := []\<rparr>"
| "evict maxTracked (oldest # rest) t =
     (if int (length (oldest # rest)) > maxTracked
      then evict maxTracked rest
             (t\<lparr>lb_users := map_delete oldest (lb_users t), lb_state := map_delete oldest (lb_state t)\<rparr>)
      else t\<lparr>lb_order := oldest # rest\<rparr>)"

definition lowBalanceStateForUserLocked ::
  "int \<Rightarrow> string \<Rightarrow> LowBalanceTracker \<Rightarrow> unit gomap \<times> LowBalanceTracker" where
  "lowBalanceStateForUserLocked maxTracked userID t =
     (case map_of (lb_users t) userID of
        Some element \<Rightarrow>
          ((case map_of (lb_state t) userID of None \<Rightarrow> [] | Some below \<Rightarrow> below),
           t\<lparr>lb_order := remove1 element (lb_order t) @ [element]\<rparr>)
      | None \<Rightarrow>
          ([], evict maxTracked (lb_order t @ [userID])
                 (t\<lparr>lb_state := map_put userID [] (lb_state t),
                    lb_users := map_put userID userID (lb_users t)\<rparr>)))"

definition threshold_key :: "decimal_pkg \<Rightarrow> amount \<Rightarrow> string" where
  "threshold_key D threshold = dec_string_fixed D threshold MoneyDecimalPlaces"

text \<open>The loop over the thresholds: the keys below and the lowest threshold newly reached.\<close>

fun threshold_loop ::
  "decimal_pkg \<Rightarrow> amount \<Rightarrow> amount list \<Rightarrow> unit gomap \<Rightarrow> amount option \<Rightarrow> unit gomap \<times> amount option" where
  "threshold_loop D balanceAfter [] below fire = (below, fire)"
| "threshold_loop D balanceAfter (threshold # rest) below fire =
     (let key = threshold_key D threshold in
      if balanceAfter \<le> threshold then
        (if has_key below key then threshold_loop D balanceAfter rest below fire
         else threshold_loop D balanceAfter rest (map_put key () below)
                (case fire of
                   None \<Rightarrow> Some threshold
                 | Some f \<Rightarrow> Some (if threshold < f then threshold else f)))
      else threshold_loop D balanceAfter rest (map_delete key below) fire)"

text \<open>
  \<open>emitLowBalance\<close> up to the notification: the threshold to report, if any, and the new state. The
  map \<open>below\<close> is shared with the entry of \<open>lowBalanceState\<close>, if the user still has one.
\<close>

definition emitLowBalance ::
  "decimal_pkg \<Rightarrow> amount list \<Rightarrow> int \<Rightarrow> string \<Rightarrow> amount \<Rightarrow> amount \<Rightarrow> LowBalanceTracker \<Rightarrow>
   amount option \<times> LowBalanceTracker" where
  "emitLowBalance D thresholds maxTracked userID balanceBefore balanceAfter t =
     (if thresholds = [] then
        (if balanceBefore > 0 \<and> balanceAfter \<le> 0 then Some 0 else None, t)
      else
        let (below, t') = lowBalanceStateForUserLocked maxTracked userID t;
            (below', fire) = threshold_loop D balanceAfter thresholds below None
        in (fire, if has_key (lb_state t') userID
                  then t'\<lparr>lb_state := map_put userID below' (lb_state t')\<rparr> else t'))"

fun rearm_loop :: "decimal_pkg \<Rightarrow> amount \<Rightarrow> amount list \<Rightarrow> unit gomap \<Rightarrow> unit gomap" where
  "rearm_loop D balance [] below = below"
| "rearm_loop D balance (threshold # rest) below =
     rearm_loop D balance rest
       (if balance > threshold then map_delete (threshold_key D threshold) below else below)"

definition rearmLowBalance ::
  "decimal_pkg \<Rightarrow> amount list \<Rightarrow> string \<Rightarrow> amount \<Rightarrow> LowBalanceTracker \<Rightarrow> LowBalanceTracker" where
  "rearmLowBalance D thresholds userID balance t =
     (if thresholds = [] then t
      else case map_of (lb_state t) userID of
        None \<Rightarrow> t
      | Some below \<Rightarrow>
          let below' = rearm_loop D balance thresholds below;
              t' = t\<lparr>lb_state := map_put userID below' (lb_state t)\<rparr>
          in if below' = [] then
               (let t'' = t'\<lparr>lb_state := map_delete userID (lb_state t')\<rparr> in
                case map_of (lb_users t'') userID of
                  Some element \<Rightarrow> t''\<lparr>lb_order := remove1 element (lb_order t''),
                                      lb_users := map_delete userID (lb_users t'')\<rparr>
                | None \<Rightarrow> t'')
             else t')"

section \<open>The invariant\<close>

text \<open>The list, the map of its elements and the map of states track the same users, each once, no
  more than the limit.\<close>

definition tracker_wf :: "int \<Rightarrow> LowBalanceTracker \<Rightarrow> bool" where
  "tracker_wf maxTracked t \<longleftrightarrow>
     distinct (lb_order t) \<and> int (length (lb_order t)) \<le> maxTracked \<and>
     (\<forall>u. map_of (lb_users t) u = (if u \<in> set (lb_order t) then Some u else None)) \<and>
     (\<forall>u. has_key (lb_state t) u \<longleftrightarrow> u \<in> set (lb_order t))"

lemma map_of_delete [simp, map_simps]: "map_of (map_delete k m) = (map_of m)(k := None)"
  by (simp add: map_delete_def delete_conv')

lemma has_key_delete [simp]: "has_key (map_delete k m) j \<longleftrightarrow> j \<noteq> k \<and> has_key m j"
  by (simp add: has_key_def)

lemma has_key_put [simp]: "has_key (map_put k v m) j \<longleftrightarrow> j = k \<or> has_key m j"
  by (auto simp: has_key_def)

lemma evict_wf:
  assumes "0 \<le> maxTracked" and "distinct order"
    and "\<forall>u. map_of (lb_users t) u = (if u \<in> set order then Some u else None)"
    and "\<forall>u. has_key (lb_state t) u \<longleftrightarrow> u \<in> set order"
  shows "tracker_wf maxTracked (evict maxTracked order t)"
  using assms
proof (induction order arbitrary: t)
  case Nil
  then show ?case by (simp add: tracker_wf_def)
next
  case (Cons oldest rest)
  let ?t = "t\<lparr>lb_users := map_delete oldest (lb_users t), lb_state := map_delete oldest (lb_state t)\<rparr>"
  have "tracker_wf maxTracked (evict maxTracked rest ?t)"
    using Cons.prems by (intro Cons.IH) auto
  then show ?case using Cons.prems by (simp add: tracker_wf_def)
qed

lemma evict_order:
  "0 \<le> maxTracked \<Longrightarrow>
   lb_order (evict maxTracked order t) = drop (length order - nat maxTracked) order"
proof (induction order arbitrary: t)
  case (Cons oldest rest)
  then show ?case by (cases "length rest - nat maxTracked = 0") (auto simp: Suc_diff_le)
qed simp

lemma evict_subset: "set (lb_order (evict maxTracked order t)) \<subseteq> set order"
  by (induction order arbitrary: t) (simp_all add: subset_insertI2)

lemma evict_state:
  "u \<in> set (lb_order (evict maxTracked order t)) \<Longrightarrow> distinct order \<Longrightarrow>
   map_of (lb_state (evict maxTracked order t)) u = map_of (lb_state t) u"
proof (induction order arbitrary: t)
  case (Cons oldest rest)
  have "u \<in> set rest" if "int (length (oldest # rest)) > maxTracked"
    using Cons.prems that evict_subset [of maxTracked rest] by auto
  with Cons show ?case by (auto split: if_splits)
qed simp

lemma touch_wf:
  assumes "1 \<le> maxTracked" and "tracker_wf maxTracked t"
  shows "tracker_wf maxTracked (snd (lowBalanceStateForUserLocked maxTracked u t))"
proof (cases "u \<in> set (lb_order t)")
  case True
  then have "map_of (lb_users t) u = Some u" using assms(2) by (simp add: tracker_wf_def)
  moreover have "0 < length (lb_order t)" using True by (cases "lb_order t") auto
  ultimately show ?thesis using assms(2) True
    by (auto simp: lowBalanceStateForUserLocked_def tracker_wf_def length_remove1)
next
  case False
  then have none: "map_of (lb_users t) u = None" using assms(2) by (simp add: tracker_wf_def)
  show ?thesis
    unfolding lowBalanceStateForUserLocked_def none option.case snd_conv
    using assms False by (intro evict_wf) (auto simp: tracker_wf_def)
qed

text \<open>The users tracked, in the order of their last use: the user moves to the end, and the oldest
  ones are dropped when there are too many.\<close>

definition lru_touch :: "int \<Rightarrow> string \<Rightarrow> string list \<Rightarrow> string list" where
  "lru_touch maxTracked u order =
     (let order' = removeAll u order @ [u] in drop (length order' - nat maxTracked) order')"

lemma touch_order:
  assumes "1 \<le> maxTracked" and "tracker_wf maxTracked t"
  shows "lb_order (snd (lowBalanceStateForUserLocked maxTracked u t)) = lru_touch maxTracked u (lb_order t)"
proof (cases "u \<in> set (lb_order t)")
  case True
  have "length (removeAll u (lb_order t)) < length (lb_order t)"
    using True by (rule length_removeAll_less)
  then have "length (removeAll u (lb_order t) @ [u]) - nat maxTracked = 0"
    using assms unfolding tracker_wf_def length_append list.size by linarith
  then have "lru_touch maxTracked u (lb_order t) = removeAll u (lb_order t) @ [u]"
    by (simp only: lru_touch_def Let_def drop_0)
  then show ?thesis using assms True
    by (simp add: lowBalanceStateForUserLocked_def tracker_wf_def distinct_remove1_removeAll)
next
  case False
  then show ?thesis using assms
    by (simp add: lowBalanceStateForUserLocked_def tracker_wf_def lru_touch_def evict_order Let_def)
qed

lemma lru_touch_last: "1 \<le> maxTracked \<Longrightarrow> u \<in> set (lru_touch maxTracked u order)"
  by (simp add: lru_touch_def Let_def)

text \<open>The thresholds a user is known to be at or below, by their keys.\<close>

definition marks :: "LowBalanceTracker \<Rightarrow> string \<Rightarrow> string set" where
  "marks t u = (case map_of (lb_state t) u of None \<Rightarrow> {} | Some below \<Rightarrow> {k. has_key below k})"

lemma touch_state:
  assumes "1 \<le> maxTracked" and "tracker_wf maxTracked t"
    and "lowBalanceStateForUserLocked maxTracked u t = (below, t')"
  shows "{k. has_key below k} = marks t u" and "has_key (lb_state t') u"
    and "\<forall>v \<in> set (lb_order t'). v \<noteq> u \<longrightarrow> map_of (lb_state t') v = map_of (lb_state t) v"
proof -
  note order = touch_order [OF assms(1,2), of u]
  show "has_key (lb_state t') u"
    using touch_wf [OF assms(1,2), of u] order lru_touch_last [OF assms(1), of u "lb_order t"] assms(3)
    by (simp add: tracker_wf_def)
  show "{k. has_key below k} = marks t u"
  proof (cases "u \<in> set (lb_order t)")
    case True
    then show ?thesis using assms(2,3)
      by (auto simp: lowBalanceStateForUserLocked_def tracker_wf_def marks_def has_key_def split: option.splits)
  next
    case False
    then have "map_of (lb_users t) u = None" "\<not> has_key (lb_state t) u"
      using assms(2) by (simp_all add: tracker_wf_def)
    then show ?thesis using assms(3) by (auto simp: lowBalanceStateForUserLocked_def marks_def has_key_def)
  qed
  show "\<forall>v \<in> set (lb_order t'). v \<noteq> u \<longrightarrow> map_of (lb_state t') v = map_of (lb_state t) v"
  proof (cases "u \<in> set (lb_order t)")
    case True
    then show ?thesis using assms(2,3) by (auto simp: lowBalanceStateForUserLocked_def tracker_wf_def)
  next
    case False
    then have none: "map_of (lb_users t) u = None" and "distinct (lb_order t @ [u])"
      using assms(2) by (simp_all add: tracker_wf_def)
    then show ?thesis using assms(3)
      by (auto simp: lowBalanceStateForUserLocked_def evict_state)
  qed
qed

section \<open>The thresholds reached\<close>

definition newly_reached ::
  "decimal_pkg \<Rightarrow> amount list \<Rightarrow> amount \<Rightarrow> string set \<Rightarrow> amount set" where
  "newly_reached D thresholds balance known =
     {x \<in> set thresholds. balance \<le> x \<and> threshold_key D x \<notin> known}"

definition is_lowest :: "amount option \<Rightarrow> amount set \<Rightarrow> bool" where
  "is_lowest f N \<longleftrightarrow> (case f of None \<Rightarrow> N = {} | Some x \<Rightarrow> x \<in> N \<and> (\<forall>y \<in> N. x \<le> y))"

lemma is_lowest_insert:
  "is_lowest f N \<Longrightarrow>
   is_lowest (case f of None \<Rightarrow> Some x | Some y \<Rightarrow> Some (if x < y then x else y)) (insert x N)"
  by (auto simp: is_lowest_def split: option.splits)

lemma is_lowest_unique: "is_lowest f N \<Longrightarrow> is_lowest g N \<Longrightarrow> f = g"
  by (force simp: is_lowest_def split: option.splits)

lemma threshold_loop_spec:
  assumes "inj_on (threshold_key D) (set ts)" and "is_lowest fire N"
    and "threshold_loop D balance ts below fire = (below', fire')"
  shows "{k. has_key below' k} =
           ({k. has_key below k} - threshold_key D ` set ts) \<union> threshold_key D ` {x \<in> set ts. balance \<le> x}
         \<and> is_lowest fire' (N \<union> newly_reached D ts balance {k. has_key below k})"
  using assms
proof (induction ts arbitrary: below fire N)
  case Nil
  then show ?case by (simp add: newly_reached_def)
next
  case (Cons x ts)
  let ?K = "{k. has_key below k}" and ?k = "threshold_key D x"
  have inj: "inj_on (threshold_key D) (set ts)" using Cons.prems(1) by simp
  have key: "threshold_key D y = ?k \<longleftrightarrow> y = x" if "y \<in> set ts" for y
    using Cons.prems(1) that by (auto simp: inj_on_def)
  consider (known) "balance \<le> x" "?k \<in> ?K" | (fresh) "balance \<le> x" "?k \<notin> ?K" | (above) "\<not> balance \<le> x"
    by blast
  then show ?case
  proof cases
    case known
    have "newly_reached D (x # ts) balance ?K = newly_reached D ts balance ?K"
      using known by (auto simp: newly_reached_def)
    then show ?thesis using Cons.IH [OF inj Cons.prems(2), of below] Cons.prems(3) known key
      by (auto simp: Let_def)
  next
    case fresh
    have new: "newly_reached D (x # ts) balance ?K = insert x (newly_reached D ts balance (insert ?k ?K))"
      using fresh key by (auto simp: newly_reached_def)
    have put: "{k. has_key (map_put ?k () below) k} = insert ?k ?K" by auto
    have "threshold_loop D balance ts (map_put ?k () below)
        (case fire of None \<Rightarrow> Some x | Some f \<Rightarrow> Some (if x < f then x else f)) = (below', fire')"
      using Cons.prems(3) fresh by (simp add: Let_def)
    from Cons.IH [OF inj is_lowest_insert [OF Cons.prems(2)] this]
    show ?thesis unfolding put new using fresh key by auto
  next
    case above
    have new: "newly_reached D (x # ts) balance ?K = newly_reached D ts balance (?K - {?k})"
      using above key by (auto simp: newly_reached_def)
    have del: "{k. has_key (map_delete ?k below) k} = ?K - {?k}" by auto
    have "threshold_loop D balance ts (map_delete ?k below) fire = (below', fire')"
      using Cons.prems(3) above by (simp add: Let_def)
    from Cons.IH [OF inj Cons.prems(2) this]
    show ?thesis unfolding del new using above key by auto
  qed
qed

lemma rearm_loop_spec:
  "{k. has_key (rearm_loop D balance ts below) k} =
     {k. has_key below k} - threshold_key D ` {x \<in> set ts. x < balance}"
  by (induction ts arbitrary: below) auto

context decimal_package
begin

lemma threshold_key_inj: "\<forall>x \<in> X. money x \<Longrightarrow> inj_on (threshold_key D) X"
  by (rule inj_onI)
     (metis MoneyDecimalPlaces_def option.inject quantize_eq quantize_id string_fixed_value
        threshold_key_def zero_less_numeral)

end

lemma emit_spec:
  assumes D: "decimal_package D" and ts: "\<forall>x \<in> set ts. money x" "ts \<noteq> []"
    and wf: "1 \<le> maxTracked" "tracker_wf maxTracked t"
    and known: "marks t u \<subseteq> threshold_key D ` set ts"
    and emit: "emitLowBalance D ts maxTracked u before after t = (fire, t')"
  shows "tracker_wf maxTracked t'" "lb_order t' = lru_touch maxTracked u (lb_order t)"
    "marks t' u = threshold_key D ` {x \<in> set ts. after \<le> x}"
    "is_lowest fire (newly_reached D ts after (marks t u))"
    "\<forall>v \<in> set (lb_order t'). v \<noteq> u \<longrightarrow> marks t' v = marks t v"
proof -
  obtain below s where touch: "lowBalanceStateForUserLocked maxTracked u t = (below, s)" by fastforce
  obtain below' f where loop: "threshold_loop D after ts below None = (below', f)" by fastforce
  note state = touch_state [OF wf touch]
  have swf: "tracker_wf maxTracked s" using touch_wf [OF wf, of u] touch by simp
  have order: "lb_order s = lru_touch maxTracked u (lb_order t)" using touch_order [OF wf, of u] touch by simp
  have res: "fire = f" "t' = s\<lparr>lb_state := map_put u below' (lb_state s)\<rparr>"
    using emit ts(2) touch loop state(2) by (simp_all add: emitLowBalance_def)
  have inj: "inj_on (threshold_key D) (set ts)" using decimal_package.threshold_key_inj [OF D ts(1)] .
  have "is_lowest None {}" by (simp add: is_lowest_def)
  note spec = threshold_loop_spec [OF inj this loop, unfolded state(1)]
  show "tracker_wf maxTracked t'" using swf state(2) res by (auto simp: tracker_wf_def)
  show "lb_order t' = lru_touch maxTracked u (lb_order t)" using order res by simp
  show "marks t' u = threshold_key D ` {x \<in> set ts. after \<le> x}"
    using spec known res by (auto simp: marks_def)
  show "is_lowest fire (newly_reached D ts after (marks t u))" using spec res by simp
  show "\<forall>v \<in> set (lb_order t'). v \<noteq> u \<longrightarrow> marks t' v = marks t v"
    using state(3) res by (auto simp: marks_def)
qed

lemma rearm_spec:
  assumes wf: "tracker_wf maxTracked t"
  shows "tracker_wf maxTracked (rearmLowBalance D ts u balance t)"
    and "marks (rearmLowBalance D ts u balance t) v =
      (if v = u then marks t u - threshold_key D ` {x \<in> set ts. x < balance} else marks t v)"
proof -
  let ?t = "rearmLowBalance D ts u balance t"
  have "tracker_wf maxTracked ?t \<and> marks ?t v =
      (if v = u then marks t u - threshold_key D ` {x \<in> set ts. x < balance} else marks t v)"
  proof (cases "ts = [] \<or> map_of (lb_state t) u = None")
    case True
    then have "?t = t" by (auto simp: rearmLowBalance_def)
    moreover have "marks t u - threshold_key D ` {x \<in> set ts. x < balance} = marks t u"
      using True by (auto simp: marks_def)
    ultimately show ?thesis using wf by simp
  next
    case False
    then obtain below where below: "map_of (lb_state t) u = Some below" by auto
    let ?b = "rearm_loop D balance ts below"
    have u: "u \<in> set (lb_order t)" "map_of (lb_users t) u = Some u"
      using wf below by (auto simp: tracker_wf_def has_key_def)
    have spec: "{k. has_key ?b k} = marks t u - threshold_key D ` {x \<in> set ts. x < balance}"
      unfolding rearm_loop_spec by (simp add: marks_def below)
    show ?thesis
    proof (cases "?b = []")
      case True
      then have t: "?t = t\<lparr>lb_state := map_delete u (map_put u [] (lb_state t)),
          lb_order := remove1 u (lb_order t), lb_users := map_delete u (lb_users t)\<rparr>"
        using False below u by (simp add: rearmLowBalance_def)
      have "marks t u - threshold_key D ` {x \<in> set ts. x < balance} = {}"
        using spec True by (simp add: has_key_def)
      then show ?thesis using wf unfolding t
        by (auto simp: tracker_wf_def marks_def length_remove1)
    next
      case nonempty: False
      then have t: "?t = t\<lparr>lb_state := map_put u ?b (lb_state t)\<rparr>"
        using False below by (simp add: rearmLowBalance_def Let_def)
      show ?thesis using wf u spec unfolding t by (auto simp: tracker_wf_def marks_def)
    qed
  qed
  then show "tracker_wf maxTracked ?t" and "marks ?t v =
      (if v = u then marks t u - threshold_key D ` {x \<in> set ts. x < balance} else marks t v)"
    by blast+
qed

text \<open>C10. Refinement of the low-balance state. For thresholds on the money grid and a tracker in a
  well-formed state, \<open>emitLowBalance\<close> keeps the tracker well formed, moves the user to the end of
  the bounded list of recently used users, leaves the user with exactly the thresholds the new
  balance is at or below, reports the lowest threshold that was not known before (none when there is
  none), and changes nothing for the other users that stay tracked.\<close>

theorem low_balance_refinement:
  assumes "decimal_package D" and "\<forall>x \<in> set ts. money x" and "ts \<noteq> []"
    and "1 \<le> maxTracked" and "tracker_wf maxTracked t"
    and "marks t u \<subseteq> threshold_key D ` set ts"
    and "emitLowBalance D ts maxTracked u before after t = (fire, t')"
  shows "tracker_wf maxTracked t' \<and> lb_order t' = lru_touch maxTracked u (lb_order t) \<and>
    marks t' u = threshold_key D ` {x \<in> set ts. after \<le> x} \<and>
    is_lowest fire (newly_reached D ts after (marks t u)) \<and>
    (\<forall>v \<in> set (lb_order t'). v \<noteq> u \<longrightarrow> marks t' v = marks t v)"
  using emit_spec [OF assms] by blast

lemma empty_tracker_wf: "0 \<le> maxTracked \<Longrightarrow> tracker_wf maxTracked empty_tracker"
  by (simp add: tracker_wf_def empty_tracker_def has_key_def)

lemma money_of_int [simp]: "money (of_int k)" "money (numeral n)"
  by (simp_all add: money_def)

theorem low_balance_refinement_witness:
  "is_lowest (fst (emitLowBalance ref_decimal [10, 5] 1 ''u1'' 20 7 empty_tracker))
     (newly_reached ref_decimal [10, 5] 7 {})"
proof -
  obtain fire t' where e: "emitLowBalance ref_decimal [10, 5] 1 ''u1'' 20 7 empty_tracker = (fire, t')"
    by fastforce
  have "marks empty_tracker ''u1'' = {}" by (simp add: marks_def empty_tracker_def)
  then show ?thesis
    using low_balance_refinement [OF ref.decimal_package_axioms _ _ _ empty_tracker_wf _ e] e by simp
qed

text \<open>Low-balance notifications are edge triggered: after a deduction to the balance \<open>a1\<close> and a
  grant that brings the balance to \<open>b\<close>, a deduction to \<open>a2\<close> reports a threshold only if \<open>a2\<close> is at or below
  it and the first deduction or the grant left the balance above it, and then the lowest such one.
  Without a rise above a threshold it is reported once.\<close>

theorem low_balance_edge_triggered:
  assumes "decimal_package D" and "\<forall>x \<in> set ts. money x" and "ts \<noteq> []"
    and "1 \<le> maxTracked" and "tracker_wf maxTracked t"
    and "marks t u \<subseteq> threshold_key D ` set ts"
    and "emitLowBalance D ts maxTracked u b1 a1 t = (fire1, t1)"
    and "emitLowBalance D ts maxTracked u b2 a2 (rearmLowBalance D ts u b t1) = (fire2, t2)"
  shows "is_lowest fire2 {x \<in> set ts. a2 \<le> x \<and> (x < a1 \<or> x < b)}"
proof -
  let ?r = "rearmLowBalance D ts u b t1"
  note first = emit_spec [OF assms(1-7)]
  note re = rearm_spec [OF first(1), of D ts u b]
  have inj: "inj_on (threshold_key D) (set ts)"
    using decimal_package.threshold_key_inj [OF assms(1,2)] .
  have marks: "marks ?r u = threshold_key D ` {x \<in> set ts. a1 \<le> x} - threshold_key D ` {x \<in> set ts. x < b}"
    using re(2) [of u] first(3) by simp
  then have "newly_reached D ts a2 (marks ?r u) = {x \<in> set ts. a2 \<le> x \<and> (x < a1 \<or> x < b)}"
    using inj unfolding newly_reached_def by (auto simp: inj_on_def not_le)
  moreover have "is_lowest fire2 (newly_reached D ts a2 (marks ?r u))"
    using marks by (intro emit_spec(4) [OF assms(1-4) re(1) _ assms(8)]) auto
  ultimately show ?thesis by simp
qed

theorem low_balance_edge_triggered_witness:
  "\<exists>fire1 t1 fire2 t2.
     emitLowBalance ref_decimal [10, 5] 1 ''u1'' 20 7 empty_tracker = (fire1, t1) \<and>
     emitLowBalance ref_decimal [10, 5] 1 ''u1'' 7 6 (rearmLowBalance ref_decimal [10, 5] ''u1'' 0 t1) = (fire2, t2) \<and>
     fire2 = None"
proof -
  obtain fire1 t1 where e1: "emitLowBalance ref_decimal [10, 5] 1 ''u1'' 20 7 empty_tracker = (fire1, t1)"
    by fastforce
  obtain fire2 t2 where e2:
    "emitLowBalance ref_decimal [10, 5] 1 ''u1'' 7 6 (rearmLowBalance ref_decimal [10, 5] ''u1'' 0 t1) = (fire2, t2)"
    by fastforce
  have "marks empty_tracker ''u1'' = {}" by (simp add: marks_def empty_tracker_def)
  then have "is_lowest fire2 {x \<in> set [10, 5]. 6 \<le> x \<and> (x < 7 \<or> x < 0)}"
    using low_balance_edge_triggered [OF ref.decimal_package_axioms _ _ _ empty_tracker_wf _ e1 e2] by simp
  then have "fire2 = None" by (auto simp: is_lowest_def split: option.splits)
  with e1 e2 show ?thesis by blast
qed

lemma tracker_wf_put:
  "tracker_wf m t \<Longrightarrow> has_key (lb_state t) u \<Longrightarrow> tracker_wf m (t\<lparr>lb_state := map_put u b (lb_state t)\<rparr>)"
  by (auto simp: tracker_wf_def)

lemma emit_wf:
  assumes "1 \<le> maxTracked" and "tracker_wf maxTracked t"
  shows "tracker_wf maxTracked (snd (emitLowBalance D ts maxTracked u before after t))"
  using assms(2) touch_wf [OF assms, of u]
  by (auto simp: emitLowBalance_def Let_def intro: tracker_wf_put split: prod.split)

end
