(* ===== verification/Service_World.thy ===== *)
theory Service_World
  imports Credit_Store Credit_Events Low_Balance
begin

text \<open>
  The state the credits service acts on, and the effects it has. A world holds the state of the
  store, the calls made into application code so far (events to the sink, the low-balance callback,
  post-deduction hooks), the clock, the low-balance tracker, the registered hooks and the cache of
  the catalogue. Callbacks are application code: the model records that they are called and with
  what; a panic or an error of a callback is discarded by the code, so it has no other effect here.
  The clock is a sequence of readings, one for each time the code asks.
\<close>

section \<open>Effects\<close>

datatype effect =
    Emitted CreditEvent
  | LowBalanceTriggered CreditEvent
  | HookRun string PostDeductionContext

record CatalogCache =
  cc_revision :: "CatalogRevision option"
  cc_config :: "BursarConfig option"
  cc_engine :: PricingEngine
  cc_versionEngines :: "(int \<times> PricingEngine) list"
  cc_loadedAt :: gotime

definition empty_cache :: CatalogCache where
  "empty_cache = \<lparr>cc_revision = None, cc_config = None, cc_engine = None, cc_versionEngines = [],
     cc_loadedAt = zero_time\<rparr>"

record 's world =
  w_store :: 's
  w_trace :: "effect list"
  w_clock :: "nat \<Rightarrow> gotime"
  w_tick :: nat
  w_tracker :: LowBalanceTracker
  w_hooks :: "(64 word \<times> string) list"
  w_nextHook :: "64 word"
  w_cache :: CatalogCache

definition now_reading :: "'s world \<Rightarrow> gotime" where
  "now_reading w = w_clock w (w_tick w)"

definition tick :: "'s world \<Rightarrow> 's world" where
  "tick w = w\<lparr>w_tick := Suc (w_tick w)\<rparr>"

definition append_effect :: "effect \<Rightarrow> 's world \<Rightarrow> 's world" where
  "append_effect x w = w\<lparr>w_trace := w_trace w @ [x]\<rparr>"

text \<open>A call of a method of the store.\<close>

definition store_call :: "('s, 'r) rpc \<Rightarrow> ('s world, 'r) op" where
  "store_call f = (\<lambda>w. case f (w_store w) of (r, s) \<Rightarrow> (r, w\<lparr>w_store := s\<rparr>))"

lemma wp_store_call [wp_simps]:
  "wp (store_call f) Q w = (case f (w_store w) of ((r, e), s) \<Rightarrow> Q r e (w\<lparr>w_store := s\<rparr>))"
  by (simp add: wp_def store_call_def split: prod.split)

section \<open>The service\<close>

text \<open>
  The fields of \<open>CreditsService\<close> that do not change after construction. \<open>sv_events\<close> and
  \<open>sv_lowBalanceHandler\<close> say whether a sink and a handler are configured.
\<close>

record 's CatalogService =
  cs_store :: "'s CreditStore option"
  cs_cacheTTL :: duration

record 's CreditsService =
  sv_store :: "'s CreditStore option"
  sv_catalog :: "'s CatalogService option"
  sv_analytics :: "'s UsageAnalyticsStore option"
  sv_usageStore :: "'s UsageChargeStore option"
  sv_policy :: string
  sv_overdraftFloor :: amount
  sv_maxConcurrent :: "int option"
  sv_defaultLeaseTTL :: duration
  sv_events :: bool
  sv_lowBalance :: "amount list"
  sv_lowBalanceHandler :: bool
  sv_lowBalanceMaxTracked :: int
  sv_lazyExpiry :: bool

section \<open>Events\<close>

definition emitCreditEvent ::
  "bool \<Rightarrow> CreditEventType \<Rightarrow> string \<Rightarrow> CreditMetadata \<Rightarrow> 's world \<Rightarrow> 's world" where
  "emitCreditEvent sink eventType userID data w =
     (if \<not> sink then w
      else append_effect (Emitted \<lparr>ev_Type = eventType, ev_Timestamp = now_reading w, ev_UserID = userID,
                             ev_Data = CreditMetadata_Clone data\<rparr>) (tick w))"

definition fireLowBalance :: "'s CreditsService \<Rightarrow> string \<Rightarrow> amount \<Rightarrow> amount \<Rightarrow> 's world \<Rightarrow> 's world" where
  "fireLowBalance s userID balance threshold w =
     (let data = [(''balance'', VDec balance), (''threshold'', VDec threshold)];
          w1 = emitCreditEvent (sv_events s) CreditEventLowBalance userID data w
      in if \<not> sv_lowBalanceHandler s then w1
         else append_effect (LowBalanceTriggered \<lparr>ev_Type = CreditEventLowBalance,
                ev_Timestamp = now_reading w1, ev_UserID = userID,
                ev_Data = CreditMetadata_Clone data\<rparr>) (tick w1))"

definition service_emitLowBalance ::
  "decimal_pkg \<Rightarrow> 's CreditsService \<Rightarrow> string \<Rightarrow> amount \<Rightarrow> amount \<Rightarrow> 's world \<Rightarrow> 's world" where
  "service_emitLowBalance D s userID balanceBefore balanceAfter w =
     (let (fire, t) = emitLowBalance D (sv_lowBalance s) (sv_lowBalanceMaxTracked s) userID
                        balanceBefore balanceAfter (w_tracker w);
          w' = w\<lparr>w_tracker := t\<rparr>
      in case fire of None \<Rightarrow> w' | Some threshold \<Rightarrow> fireLowBalance s userID balanceAfter threshold w')"

definition service_rearmLowBalance ::
  "decimal_pkg \<Rightarrow> 's CreditsService \<Rightarrow> string \<Rightarrow> amount \<Rightarrow> 's world \<Rightarrow> 's world" where
  "service_rearmLowBalance D s userID balance w =
     w\<lparr>w_tracker := rearmLowBalance D (sv_lowBalance s) userID balance (w_tracker w)\<rparr>"

section \<open>Hooks\<close>

definition AddPostDeductionHook :: "string option \<Rightarrow> 's world \<Rightarrow> 64 word option \<times> 's world" where
  "AddPostDeductionHook hook w =
     (case hook of
        None \<Rightarrow> (None, w)
      | Some h \<Rightarrow>
          let i = w_nextHook w + 1
          in (Some i, w\<lparr>w_nextHook := i, w_hooks := AList.update i h (w_hooks w)\<rparr>))"

text \<open>The function \<open>AddPostDeductionHook\<close> returns.\<close>

definition remove_hook :: "64 word \<Rightarrow> 's world \<Rightarrow> 's world" where
  "remove_hook i w = w\<lparr>w_hooks := AList.delete i (w_hooks w)\<rparr>"

definition hooks_in_order :: "'s world \<Rightarrow> string list" where
  "hooks_in_order w = map snd (sort_by (\<lambda>x y. fst x < fst y) (w_hooks w))"

definition runPostDeductionHooks :: "PostDeductionContext \<Rightarrow> 's world \<Rightarrow> 's world" where
  "runPostDeductionHooks ctx w = fold (\<lambda>h. append_effect (HookRun h ctx)) (hooks_in_order w) w"

definition cloneDeductionResult :: "DeductionResult \<Rightarrow> DeductionResult" where
  "cloneDeductionResult result = result"

definition emitPostDeduction ::
  "decimal_pkg \<Rightarrow> 's CreditsService \<Rightarrow> string \<Rightarrow> PostDeductionSource \<Rightarrow> DeductionResult \<Rightarrow>
   's world \<Rightarrow> 's world" where
  "emitPostDeduction D s userID source result w =
     (case dr_BalanceAfter result of
        None \<Rightarrow> w
      | Some balanceAfter \<Rightarrow>
          let w1 = (if balanceAfter < 0
                    then emitCreditEvent (sv_events s) CreditEventOverdraft userID
                           [(''balance'', VDec balanceAfter), (''amount'', VDec (dr_Amount result))] w
                    else w);
              w2 = service_emitLowBalance D s userID (balanceAfter + dr_Amount result) balanceAfter w1
          in runPostDeductionHooks \<lparr>pdc_UserID = userID, pdc_Source = source,
               pdc_Deduction = cloneDeductionResult result\<rparr> w2)"

section \<open>What every step of the service keeps\<close>

text \<open>
  A step of the service moves the store by permitted calls, adds to the trace, does not turn the
  clock back, and keeps the tracker well formed.
\<close>

definition service_keeps :: "'s CreditStore \<Rightarrow> int \<Rightarrow> 's world \<Rightarrow> 's world \<Rightarrow> bool" where
  "service_keeps store maxTracked w w' \<longleftrightarrow>
     (store_move store)\<^sup>*\<^sup>* (w_store w) (w_store w') \<and>
     prefix (w_trace w) (w_trace w') \<and> w_clock w' = w_clock w \<and> w_tick w \<le> w_tick w' \<and>
     (tracker_wf maxTracked (w_tracker w) \<longrightarrow> tracker_wf maxTracked (w_tracker w'))"

interpretation keep: op_frame "service_keeps store maxTracked" for store maxTracked
  by unfold_locales (auto simp: service_keeps_def intro: order_trans)

lemma keeps_store_call:
  assumes "\<And>s. store_move store s (state_of (f s))"
  shows "keeps (service_keeps store maxTracked) (store_call f)"
  using assms by (auto simp: keeps_def store_call_def service_keeps_def split: prod.split) (metis r_into_rtranclp snd_conv)

lemma keeps_append: "service_keeps store m w (append_effect x w)"
  by (simp add: service_keeps_def append_effect_def)

lemma keeps_tick: "service_keeps store m w (tick w)"
  by (simp add: service_keeps_def tick_def)

lemma keeps_cache: "service_keeps store m w (w\<lparr>w_cache := c\<rparr>)"
  by (simp add: service_keeps_def)

lemma keeps_emit: "service_keeps store m w (emitCreditEvent sink ty u d w)"
  unfolding emitCreditEvent_def
  by (auto intro: keep.frame_refl keep.frame_trans [OF keeps_tick keeps_append])

lemma keeps_fire: "service_keeps store m w (fireLowBalance s u b th w)"
  unfolding fireLowBalance_def Let_def
  by (auto intro: keeps_emit keep.frame_trans [OF keeps_emit keep.frame_trans [OF keeps_tick keeps_append]])

lemma keeps_rearm: "service_keeps store m w (service_rearmLowBalance D s u b w)"
  using rearm_spec(1) [of m "w_tracker w" D "sv_lowBalance s" u b]
  by (simp add: service_keeps_def service_rearmLowBalance_def)

lemma keeps_hooks: "service_keeps store m w (runPostDeductionHooks ctx w)"
proof -
  have "service_keeps store m v (fold (\<lambda>h. append_effect (HookRun h ctx)) hs v)" for hs v
    by (induction hs arbitrary: v) (auto intro: keep.frame_refl keep.frame_trans [OF keeps_append])
  then show ?thesis by (simp add: runPostDeductionHooks_def)
qed

lemma keeps_low_balance:
  assumes "1 \<le> sv_lowBalanceMaxTracked s"
  shows "service_keeps store (sv_lowBalanceMaxTracked s) w (service_emitLowBalance D s u b a w)"
proof -
  obtain fire t where e: "emitLowBalance D (sv_lowBalance s) (sv_lowBalanceMaxTracked s) u b a (w_tracker w) = (fire, t)"
    by fastforce
  have "service_keeps store (sv_lowBalanceMaxTracked s) w (w\<lparr>w_tracker := t\<rparr>)"
    using emit_wf [OF assms, of "w_tracker w" D "sv_lowBalance s" u b a] e by (simp add: service_keeps_def)
  then show ?thesis
    by (auto simp: service_emitLowBalance_def e Let_def intro: keep.frame_trans keeps_fire split: option.split)
qed

lemma keeps_post_deduction:
  assumes "1 \<le> sv_lowBalanceMaxTracked s"
  shows "service_keeps store (sv_lowBalanceMaxTracked s) w (emitPostDeduction D s u source result w)"
  unfolding emitPostDeduction_def Let_def
  by (auto split: option.split
      intro: keep.frame_refl keep.frame_trans [OF keeps_low_balance [OF assms] keeps_hooks]
        keep.frame_trans [OF keeps_emit keep.frame_trans [OF keeps_low_balance [OF assms] keeps_hooks]])

end
