(* ===== verification/Reference_Store.thy ===== *)
theory Reference_Store
  imports Service_World Config_Load
begin

text \<open>
  A small store that keeps its accounts in memory, with idempotent grants and charges, leases that
  hold credits, and a fixed history of two catalogue revisions. It shows that what the theorems ask of a store
  can be met, and it is the store on which they are evaluated; it models no file of the repository.
\<close>

record ref_state =
  rs_balance :: "amount gomap"
  rs_grants :: "AddCreditsResult gomap"
  rs_charges :: "DeductionResult gomap"
  rs_leases :: "(string \<times> amount) gomap"
  rs_active :: int
  rs_plan :: GetUserPlanResult

definition balance_of :: "ref_state \<Rightarrow> string \<Rightarrow> amount" where
  "balance_of s u = (case map_of (rs_balance s) u of None \<Rightarrow> 0 | Some b \<Rightarrow> b)"

definition held_of :: "ref_state \<Rightarrow> string \<Rightarrow> amount" where
  "held_of s u = sum_list (map (\<lambda>(_, v, a). if v = u then a else 0) (rs_leases s))"

definition answer :: "'r \<Rightarrow> 's \<Rightarrow> ('r \<times> go_error option) \<times> 's" where
  "answer r s = ((r, None), s)"

definition ref_AddCredits :: "string \<Rightarrow> amount \<Rightarrow> AddCreditsOptions \<Rightarrow> (ref_state, AddCreditsResult) rpc" where
  "ref_AddCredits u a options s =
     (case map_of (rs_grants s) (aco_IdempotencyKey options) of
        Some r \<Rightarrow> answer (r\<lparr>acr_Idempotent := True\<rparr>) s
      | None \<Rightarrow>
          let b = balance_of s u + a;
              r = zero_AddCredits\<lparr>acr_EntryID := aco_IdempotencyKey options, acr_UserID := u,
                    acr_Amount := a, acr_NewBalance := b\<rparr>
          in answer r (s\<lparr>rs_balance := map_put u b (rs_balance s),
                          rs_grants := map_put (aco_IdempotencyKey options) r (rs_grants s)\<rparr>))"

definition ref_charge :: "string \<Rightarrow> amount \<Rightarrow> string \<Rightarrow> (ref_state, DeductionResult) rpc" where
  "ref_charge u a key s =
     (case map_of (rs_charges s) key of
        Some r \<Rightarrow> answer (r\<lparr>dr_Idempotent := True\<rparr>) s
      | None \<Rightarrow>
          if balance_of s u - held_of s u < a
          then answer (zero_Deduction\<lparr>dr_UserID := u, dr_ErrorCode := ''insufficient_credits''\<rparr>) s
          else let b = balance_of s u - a;
                   r = zero_Deduction\<lparr>dr_EntryID := key, dr_UserID := u, dr_Amount := a,
                         dr_BalanceAfter := Some b\<rparr>
               in answer r (s\<lparr>rs_balance := map_put u b (rs_balance s),
                               rs_charges := map_put key r (rs_charges s)\<rparr>))"

definition ref_CreateLease ::
  "string \<Rightarrow> amount \<Rightarrow> string \<Rightarrow> CreateLeaseOptions \<Rightarrow> (ref_state, LeaseResult) rpc" where
  "ref_CreateLease u a opn options s =
     (if balance_of s u - held_of s u - clo_Floor options < a
      then answer (zero_Lease\<lparr>lr_UserID := u, lr_ErrorCode := ''insufficient_headroom''\<rparr>) s
      else answer (zero_Lease\<lparr>lr_LeaseID := clo_IdempotencyKey options, lr_UserID := u,
             lr_Amount := Some a, lr_MinimumBalance := Some (clo_Floor options),
             lr_BillingMode := clo_BillingMode options, lr_ExpiresAt := Some 0\<rparr>)
           (s\<lparr>rs_leases := map_put (clo_IdempotencyKey options) (u, a) (rs_leases s)\<rparr>))"

definition ref_SettleLease ::
  "string \<Rightarrow> string \<Rightarrow> amount \<Rightarrow> SettleLeaseOptions \<Rightarrow> (ref_state, DeductionResult) rpc" where
  "ref_SettleLease u l a options s =
     (if map_of (rs_charges s) (slo_IdempotencyKey options) = None \<and> \<not> has_key (rs_leases s) l
      then answer (zero_Deduction\<lparr>dr_UserID := u, dr_ErrorCode := ''lease_not_found''\<rparr>) s
      else ref_charge u a (slo_IdempotencyKey options) (s\<lparr>rs_leases := map_delete l (rs_leases s)\<rparr>))"

text \<open>The history has two revisions.\<close>

definition ref_document :: "goval gomap" where
  "ref_document = [(''version'', VInt 1), (''credits'', VObj []), (''pricing'', sample_pricing)]"

definition ref_history :: "int \<Rightarrow> goval gomap option" where
  "ref_history v =
     (if v = 1 then Some ref_document
      else if v = 2 then Some (ref_document @ [(''catalog'', VObj [])]) else None)"

definition ref_revision :: "int \<Rightarrow> CatalogRevision option" where
  "ref_revision v = map_option (\<lambda>m. \<lparr>rev_ID = show_int v, rev_Config = m, rev_Version = v\<rparr>)
     (ref_history v)"

definition ref_accounting :: "ref_state AccountingStore" where
  "ref_accounting =
     \<lparr>st_GetBalance = \<lambda>u s. answer \<lparr>br_UserID = u, br_Balance = balance_of s u, br_LifetimePurchased = 0\<rparr> s,
      st_AddCredits = ref_AddCredits,
      st_DeductWithAllowance = \<lambda>u a options. ref_charge u a (dwa_IdempotencyKey options),
      st_RecordUsage = \<lambda>u opn a options. answer (zero_UsageRecord\<lparr>ur_UserID := u, ur_Requested := a\<rparr>)\<rparr>"

definition ref_leases :: "ref_state LeaseStore" where
  "ref_leases =
     \<lparr>st_CreateLease = ref_CreateLease,
      st_SettleLease = ref_SettleLease,
      st_GetLeasePricingContext = \<lambda>u l s. answer
        (if has_key (rs_leases s) l
         then Some \<lparr>lpc_CatalogVersion = 1, lpc_PlanID = '''', lpc_PlanKey = '''', lpc_RateCard = ''''\<rparr>
         else None) s,
      st_ReleaseLease = \<lambda>u l s. answer
        (zero_Release\<lparr>rl_LeaseID := l, rl_UserID := u, rl_Released := has_key (rs_leases s) l\<rparr>)
        (s\<lparr>rs_leases := map_delete l (rs_leases s)\<rparr>),
      st_RenewLease = \<lambda>u l ttl s. answer
        (if has_key (rs_leases s) l then zero_Lease\<lparr>lr_LeaseID := l\<rparr>
         else zero_Lease\<lparr>lr_ErrorCode := ''lease_expired''\<rparr>) s,
      st_ExpireLeases = \<lambda>limit. answer 0,
      st_GetAvailable = \<lambda>u s. answer \<lparr>av_UserID = u, av_Balance = balance_of s u, av_Reserved = held_of s u,
        av_Available = balance_of s u - held_of s u\<rparr> s,
      st_GetBucketBalances = \<lambda>u. answer zero_Buckets,
      st_ExecuteGrantProgram = \<lambda>request. answer []\<rparr>"

definition ref_catalog :: "ref_state CatalogStore" where
  "ref_catalog =
     \<lparr>st_GetActiveCatalog = \<lambda>s. answer (ref_revision (rs_active s)) s,
      st_PublishAndActivateCatalog = \<lambda>config label rollout s.
        answer ''2'' (s\<lparr>rs_active := 2\<rparr>),
      st_GetCatalogHistory = answer [],
      st_GetCatalogRevision = \<lambda>v s. answer (ref_revision v) s,
      st_ActivateCatalogRevision = \<lambda>v rollout s. answer (show_int v) (s\<lparr>rs_active := v\<rparr>),
      st_PublishCatalogDraft = \<lambda>config label. answer ''''\<rparr>"

definition ref_plans :: "ref_state PlanStore" where
  "ref_plans =
     \<lparr>st_GetUserPlan = \<lambda>u s. answer (rs_plan s) s,
      st_CheckFeature = \<lambda>u f. answer (zero_CheckFeature\<lparr>cf_HasFeature := True\<rparr>),
      st_SetUserPlan = \<lambda>u plan assigned s. answer (zero_SetUserPlan\<lparr>sup_UserID := u, sup_PlanKey := plan\<rparr>)
        (s\<lparr>rs_plan := (rs_plan s)\<lparr>gup_PlanKey := plan\<rparr>\<rparr>),
      st_UnsetUserPlan = \<lambda>u. answer u,
      st_SetPlanRevisionPin = \<lambda>u pinned. answer pinned,
      st_ApplyDuePlanChanges = \<lambda>limit. answer 0,
      st_StartPlanMigration = \<lambda>from to. answer '''',
      st_MigratePlanBatch = \<lambda>m limit. answer zero_MigrationBatch,
      st_GetQuotaState = \<lambda>u q. answer [],
      st_CheckAllowance = \<lambda>u. answer None,
      st_ListQuotaEvents = \<lambda>u options. answer []\<rparr>"

definition ref_store :: "ref_state CreditStore" where
  "ref_store =
     \<lparr>st_Close = answer (),
      st_accounting = ref_accounting,
      st_leases = ref_leases,
      st_catalog = ref_catalog,
      st_plans = ref_plans,
      st_corrections =
        \<lparr>st_RefundCredits = \<lambda>entry a reason metadata key. answer (zero_Refund\<lparr>rf_ErrorCode := ''refund_rejected''\<rparr>),
         st_SweepExpiredCredits = \<lambda>dry u limit. answer zero_Sweep,
         st_RevokeCreditsByEntryType = \<lambda>u ty. answer zero_Revoke\<rparr>,
      st_analytics =
        \<lparr>st_SpendByUser = \<lambda>a b. answer [], st_SpendByModel = \<lambda>a b. answer [],
         st_TopUsers = \<lambda>n a b. answer [], st_DailySpend = \<lambda>a b. answer [],
         st_AggregateStats = \<lambda>a b. answer zero_Stats\<rparr>,
      st_charges = \<lambda>u options. answer zero_ChargePage,
      st_ledger =
        \<lparr>st_ListLedgerEntries = \<lambda>u options. answer zero_LedgerPage,
         st_ListUsageEntries = \<lambda>u options. answer zero_LedgerPage,
         st_GetLedgerEntry = \<lambda>u entry. answer None\<rparr>,
      st_teams =
        \<lparr>st_CreateTeam = \<lambda>u name options. answer zero_CreateTeam,
         st_GetTeamBalance = \<lambda>t. answer None,
         st_AddTeamMember = \<lambda>t u options. answer zero_AddMember,
         st_GetTeamMembers = \<lambda>t. answer [],
         st_RemoveTeamMember = \<lambda>t u. answer False,
         st_DeductTeam = \<lambda>t u a options. answer (zero_TeamDeduction\<lparr>tdr_ErrorCode := ''insufficient_credits''\<rparr>)\<rparr>\<rparr>"

text \<open>A state with one account of ten credits and the second revision of the catalogue active, and the world around it.\<close>

definition sample_state :: ref_state where
  "sample_state = \<lparr>rs_balance = [(''u1'', 10)], rs_grants = [], rs_charges = [], rs_leases = [],
     rs_active = 2, rs_plan = zero_UserPlan\<rparr>"

definition sample_world :: "ref_state world" where
  "sample_world = \<lparr>w_store = sample_state, w_trace = [], w_clock = (\<lambda>n. int n + 1), w_tick = 0,
     w_tracker = empty_tracker, w_hooks = [(1, ''recharge'')], w_nextHook = 1, w_cache = empty_cache\<rparr>"

lemmas ref_store_defs =
  ref_store_def ref_accounting_def ref_leases_def ref_catalog_def ref_plans_def ref_AddCredits_def
  ref_charge_def ref_CreateLease_def ref_SettleLease_def ref_revision_def ref_history_def answer_def
  balance_of_def held_of_def

section \<open>Reading the revisions\<close>

text \<open>Packages that accept every schema, zone and pattern, with the reference decimals.\<close>

definition ref_pkgs :: config_pkgs where
  "ref_pkgs = \<lparr>pk_decimal = ref_decimal, pk_host = \<lparr>host_LoadLocation = \<lambda>_. True, host_ParseTime = \<lambda>_. None\<rparr>,
     pk_regex = \<lparr>rx_Compile = \<lambda>_. None, rx_Match = \<lambda>p s. Inr True\<rparr>, pk_schema = \<lambda>_. None\<rparr>"

lemma ref_document_normal:
  "canonicalJSONMap ref_document = ref_document"
  "canonicalJSONMap (ref_document @ [(''catalog'', VObj [])]) = ref_document @ [(''catalog'', VObj [])]"
  by (simp_all add: canonicalJSONMap_def ref_document_def sample_pricing_def)

lemma ref_document_get:
  "raw_get (ref_document @ m) ''version'' = VInt 1"
  "raw_get (ref_document @ m) ''credits'' = VObj []"
  "raw_get (ref_document @ m) ''pricing'' = sample_pricing"
  "raw_get (ref_document @ m) ''catalog'' = raw_get m ''catalog''"
  "raw_get (ref_document @ m) ''entitlements'' = raw_get m ''entitlements''"
  "raw_get (ref_document @ m) ''admission'' = raw_get m ''admission''"
  "raw_get (ref_document @ m) ''plans'' = raw_get m ''plans''"
  "raw_get (ref_document @ m) ''commerce'' = raw_get m ''commerce''"
  by (simp_all add: raw_get_def ref_document_def)

lemma empty_credits: "parseCredits D H (VObj []) = Inr (cfg_Credits sample_config)"
  by (simp add: parseCredits_def configObject_def configMap_def raw_set_def raw_get_def
      validateConfigIdentifiers_def in_key_order_def sortedConfigKeys_def map_keys_def sort_by_def
      map_entries_def configOptionalString_def optional_value_def sample_config_def)

lemma ref_document_parses:
  assumes "m = [] \<or> m = [(''catalog'', VObj [])]"
  shows "parseBursarConfig ref_pkgs (ref_document @ m) = Inr sample_config"
proof -
  have "sample_pricing \<noteq> VNil" by (simp add: sample_pricing_def)
  moreover have "configMap (ref_document @ m) ''catalog'' ''catalog'' = Inr []"
    using assms by (auto simp: configMap_def raw_set_def ref_document_def configObject_def raw_get_def)
  moreover have "raw_get m k = VNil" if "k \<noteq> ''catalog''" for k
    using assms that by (auto simp: raw_get_def)
  ultimately show ?thesis
    by (simp add: parseBursarConfig_def ref_document_get Let_def ref_pkgs_def configInteger_VInt safeIntegerMax_def
        configOptionalString_def empty_credits parseEntitlements_def parseAdmission_def optional_value_def
        raw_set_def sample_parses parseCommerce_def parsePlans_def sample_config_def)
      (simp add: raw_get_def)
qed

lemma ref_document_loads:
  "LoadConfigFromMap ref_pkgs ref_document = Inr sample_config"
  "LoadConfigFromMap ref_pkgs (ref_document @ [(''catalog'', VObj [])]) = Inr sample_config"
proof -
  have schema: "validateConfigStructure ref_pkgs m = None" for m
    by (simp add: validateConfigStructure_def ref_pkgs_def)
  show "LoadConfigFromMap ref_pkgs ref_document = Inr sample_config"
    using ref_document_parses [of "[]"]
    by (simp add: LoadConfigFromMap_def load_config_from_map_def ref_document_normal schema)
  show "LoadConfigFromMap ref_pkgs (ref_document @ [(''catalog'', VObj [])]) = Inr sample_config"
    using ref_document_parses [of "[(''catalog'', VObj [])]"]
    by (simp add: LoadConfigFromMap_def load_config_from_map_def ref_document_normal schema)
qed

end
