(* ===== verification/Config_Properties.thy ===== *)
theory Config_Properties
  imports Config_Closed Reference_Store
begin

text \<open>
  The properties of the configuration loader: a configuration it accepts has no dangling reference, and every
  operation one of its plans allows is priced by the engine under the plan's rate card.
\<close>

section \<open>A document with a plan\<close>

definition plan_document :: "goval gomap" where
  "plan_document = ref_document @
     [(''catalog'', VObj [(''default_plan'', VStr ''starter'')]),
      (''plans'', VObj [(''starter'', VObj [(''display_name'', VStr ''Starter''), (''rate_card'', VStr ''pro''),
         (''allowed_operations'', VArr [VStr ''chat''])])])]"

definition starter_plan :: PlanDefinition where
  "starter_plan = \<lparr>pd_DisplayName = ''Starter'', pd_Rank = 0, pd_Description = None, pd_RateCard = Some ''pro'',
     pd_AllowedOperations = [''chat''], pd_Features = [], pd_CreditAllowance = None, pd_Quotas = [],
     pd_CreditPolicy = None, pd_AdmissionPolicy = None, pd_Evolution = \<lparr>pe_DefaultRollout = ''immediate''\<rparr>\<rparr>"

definition plan_config :: BursarConfig where
  "plan_config = sample_config\<lparr>cfg_Catalog := \<lparr>cat_DefaultPlan = Some ''starter''\<rparr>,
     cfg_Plans := [(''starter'', starter_plan)]\<rparr>"

lemma starter_operation:
  "validateConfigIdentifier ''chat'' path = None" "validateConfigIdentifier ''starter'' path = None"
  "has_key (pc_Operations sample_parsed) ''chat''" "has_key (pc_RateCards sample_parsed) ''pro''"
  "ResolvesOperation (Some sample_parsed) ''pro'' ''chat''"
      apply (simp_all add: validateConfigIdentifier_def configIdentifierPattern_def is_lower_byte_def byte_def)
  by code_simp+

lemma starter_parses:
  "parsePlans D H X
     (VObj [(''starter'', VObj [(''display_name'', VStr ''Starter''), (''rate_card'', VStr ''pro''),
        (''allowed_operations'', VArr [VStr ''chat''])])])
     (Some sample_parsed) credits entitlements admission
     \<lparr>com_Providers = [], com_Offers = [], com_SubscriptionChanges = changes, com_AutoRecharge = recharge\<rparr>
   = Inr [(''starter'', starter_plan)]"
  by (simp add: parsePlans_def parse_plan_def Let_def starter_operation parse_defs map_entries_def
      validateConfigIdentifiers_def in_key_order_def sortedConfigKeys_def map_keys_def sort_by_def
      value_or_def configOptionalString_def configSliceStrings_def map_indexed_def configMap_def optional_value_def
      parse_rollout_def subscription_plans_def map_filter_def starter_plan_def)

lemma plan_document_normal: "canonicalJSONMap plan_document = plan_document"
  by (simp add: canonicalJSONMap_def plan_document_def ref_document_def sample_pricing_def)

lemma plan_document_get:
  "raw_get plan_document ''version'' = VInt 1"
  "raw_get plan_document ''credits'' = VObj []"
  "raw_get plan_document ''pricing'' = sample_pricing"
  "raw_get plan_document ''entitlements'' = VNil"
  "raw_get plan_document ''admission'' = VNil"
  "raw_get plan_document ''commerce'' = VNil"
  "raw_get plan_document ''plans'' = VObj [(''starter'', VObj [(''display_name'', VStr ''Starter''),
     (''rate_card'', VStr ''pro''), (''allowed_operations'', VArr [VStr ''chat''])])]"
  by (simp_all add: raw_get_def plan_document_def ref_document_def)

lemma plan_document_parses: "parseBursarConfig ref_pkgs plan_document = Inr plan_config"
proof -
  have "sample_pricing \<noteq> VNil" by (simp add: sample_pricing_def)
  moreover have "configMap plan_document ''catalog'' ''catalog'' = Inr [(''default_plan'', VStr ''starter'')]"
    by (simp add: configMap_def raw_set_def plan_document_def ref_document_def configObject_def raw_get_def)
  moreover have "configOptionalString [(''default_plan'', VStr ''starter'')] ''default_plan'' path = Inr (Some ''starter'')" for path
    by (simp add: configOptionalString_def raw_set_def raw_get_def configString_def)
  ultimately show ?thesis
    using starter_parses
    by (simp add: parseBursarConfig_def plan_document_get Let_def ref_pkgs_def configInteger_VInt safeIntegerMax_def
        empty_credits parseEntitlements_def parseAdmission_def optional_value_def
        raw_set_def sample_parses parseCommerce_def sample_config_def plan_config_def has_key_def)
qed

lemma plan_document_loads: "LoadConfigFromMap ref_pkgs plan_document = Inr plan_config"
  by (simp add: LoadConfigFromMap_def load_config_from_map_def plan_document_normal plan_document_parses
      validateConfigStructure_def ref_pkgs_def [THEN arg_cong, of pk_schema])

section \<open>Properties\<close>



text \<open>
  C38. Every operation that a plan of an accepted configuration allows has a price: the plan has a rate card, the
  card is declared, and the engine's lookup along the cards it extends ends with a price for the operation instead
  of the error for an unpriced one.
\<close>

theorem loaded_plans_priced:
  assumes "LoadConfigFromMap P m = Inr c"
    and "(key, plan) \<in> set (cfg_Plans c)"
    and "operation \<in> set (pd_AllowedOperations plan)"
  shows "\<exists>pricing rateCard price. cfg_Pricing c = Some pricing \<and> pd_RateCard plan = Some rateCard \<and>
    has_key (pc_RateCards pricing) rateCard \<and> has_key (pc_Operations pricing) operation \<and>
    operationPricing pricing rateCard operation = Inr price"
proof -
  note parsed = LoadConfigFromMap_parses [OF assms(1)]
  from parseBursarConfig_closed [OF parsed] assms(2)
  have plan: "plan_closed (cfg_Pricing c) (cfg_Credits c) (cfg_Entitlements c) (cfg_Admission c)
      (subscription_plans (com_Offers (cfg_Commerce c))) key plan"
    by (auto simp: config_closed_def list_all_iff)
  with assms(3) have "operation_closed (cfg_Pricing c) (pd_RateCard plan) operation"
    by (auto simp: plan_closed_def list_all_iff)
  then obtain pricing rateCard where found: "cfg_Pricing c = Some pricing" "pd_RateCard plan = Some rateCard"
    and op: "has_key (pc_Operations pricing) operation" "ResolvesOperation (Some pricing) rateCard operation"
    by (auto simp: operation_closed_def split: option.splits)
  from parseBursarConfig_fields [OF parsed] found(1)
  have "\<not> has_key (pc_RateCards pricing) []"
    by (auto simp: optional_value_def bind_err_Inr_iff dest: parsePricing_no_empty_card split: if_splits)
  with op(2) obtain price where "operationPricing pricing rateCard operation = Inr price"
    using resolves_loop_iff by (fastforce simp: ResolvesOperation_def operationPricing_def)
  with plan found op(1) show ?thesis by (simp add: plan_closed_def)
qed

theorem loaded_plans_priced_witness:
  "\<exists>pricing rateCard price. cfg_Pricing plan_config = Some pricing \<and> pd_RateCard starter_plan = Some rateCard \<and>
    has_key (pc_RateCards pricing) rateCard \<and> has_key (pc_Operations pricing) ''chat'' \<and>
    operationPricing pricing rateCard ''chat'' = Inr price"
  by (rule loaded_plans_priced [OF plan_document_loads, of "''starter''"])
    (simp_all add: plan_config_def starter_plan_def)

end
