(* ===== verification/Catalog.thy ===== *)
theory Catalog
  imports Reference_Store Config_Load
begin

text \<open>
  The catalogue service, \<open>src/golang/catalog.go\<close>: the process-local cache of the active revision
  and of the pricing engines by version, its refresh by age, pricing for a user and for a lease, and
  the publication of revisions. A revision's configuration is read and
  printed by the loader of \<open>Config_Load\<close>, whose packages (\<open>config_pkgs\<close>) are parameters; the locks and the coalescing of concurrent refreshes are not modelled, an
  operation runs alone.
\<close>

section \<open>Operations\<close>

definition defaultCatalogCacheTTL :: duration where
  "defaultCatalogCacheTTL = 300 * second"

definition NewCatalogServiceWithOptions ::
  "'s CreditStore option \<Rightarrow> duration \<Rightarrow> go_error + 's CatalogService" where
  "NewCatalogServiceWithOptions store cacheTTL =
     (if store = None
      then Inl (NewError ''catalog requires a credit store''
             (code_category ErrorCodeConfig ErrorCategoryInvalidRequest))
      else if cacheTTL < 0
      then Inl (NewError ''catalog cache TTL must not be negative''
             (code_category ErrorCodeConfig ErrorCategoryInvalidRequest))
      else Inr \<lparr>cs_store = store, cs_cacheTTL = cacheTTL\<rparr>)"

definition catalog_not_initialized :: go_error where
  "catalog_not_initialized = NewError ''catalog service is not initialized''
     (code_category ErrorCodeStoreClosed ErrorCategoryUnavailable)"

text \<open>The check \<open>s == nil || s.store == nil\<close> at the head of the methods.\<close>

definition with_catalog ::
  "'s CatalogService option \<Rightarrow> 'r \<Rightarrow> ('s CatalogService \<Rightarrow> 's CreditStore \<Rightarrow> ('s world, 'r) op) \<Rightarrow>
   ('s world, 'r) op" where
  "with_catalog s z k =
     (case s of
        None \<Rightarrow> return_err z catalog_not_initialized
      | Some cs \<Rightarrow>
          (case cs_store cs of None \<Rightarrow> return_err z catalog_not_initialized | Some store \<Rightarrow> k cs store))"

definition GetActive :: "'s CatalogService option \<Rightarrow> ('s world, CatalogRevision option) op" where
  "GetActive s = with_catalog s None (\<lambda>cs store. store_call (st_GetActiveCatalog (st_catalog store)))"

definition IsLoaded :: "'s CatalogService option \<Rightarrow> 's world \<Rightarrow> bool" where
  "IsLoaded s w \<longleftrightarrow> s \<noteq> None \<and> cc_engine (w_cache w) \<noteq> None \<and> cc_config (w_cache w) \<noteq> None \<and>
     cc_revision (w_cache w) \<noteq> None"

definition no_active_catalog :: go_error where
  "no_active_catalog = NewError ''no active Bursar catalog is available''
     (code_category ErrorCodeCatalogNotLoaded ErrorCategoryNotFound)"

definition catalog_install :: "config_pkgs \<Rightarrow> CatalogRevision \<Rightarrow> ('s world, unit) op" where
  "catalog_install L revision =
     require (LoadConfigFromMap L (rev_Config revision)) () (\<lambda>config.
     require (NewPricingEngine (Some config)) () (\<lambda>engine.
     perform (\<lambda>w. (tick w)\<lparr>w_cache := \<lparr>cc_revision = Some revision, cc_config = Some config,
        cc_engine = engine, cc_versionEngines = [(rev_Version revision, engine)],
        cc_loadedAt = now_reading w\<rparr>\<rparr>)
     (return_ok ())))"

text \<open>Whether the cache already holds this revision.\<close>

definition revision_loaded :: "CatalogRevision \<Rightarrow> CatalogCache \<Rightarrow> bool" where
  "revision_loaded revision c \<longleftrightarrow>
     (case cc_revision c of
        None \<Rightarrow> False
      | Some r \<Rightarrow> rev_ID r = rev_ID revision \<and> rev_Version r = rev_Version revision \<and> cc_engine c \<noteq> None)"

definition refreshNow :: "config_pkgs \<Rightarrow> 's CatalogService option \<Rightarrow> ('s world, unit) op" where
  "refreshNow L s = with_catalog s () (\<lambda>cs store.
     try_op (store_call (st_GetActiveCatalog (st_catalog store))) () (\<lambda>revision.
       case revision of
         None \<Rightarrow> return_err () no_active_catalog
       | Some r \<Rightarrow> inspect (\<lambda>w.
           if revision_loaded r (w_cache w)
           then perform (\<lambda>w. (tick w)\<lparr>w_cache := (w_cache w)\<lparr>cc_loadedAt := now_reading w\<rparr>\<rparr>) (return_ok ())
           else catalog_install L r)))"

text \<open>\<open>catalogFresh\<close> asks the clock only when the cache has been loaded.\<close>

definition catalogFresh :: "'s CatalogService \<Rightarrow> (bool \<Rightarrow> ('s world, 'r) op) \<Rightarrow> ('s world, 'r) op" where
  "catalogFresh cs k = inspect (\<lambda>w.
     if cc_loadedAt (w_cache w) = zero_time then k False
     else perform tick (k (time_sub (now_reading w) (cc_loadedAt (w_cache w)) < cs_cacheTTL cs)))"

definition RefreshIfStale :: "config_pkgs \<Rightarrow> 's CatalogService option \<Rightarrow> ('s world, unit) op" where
  "RefreshIfStale L s = with_catalog s () (\<lambda>cs store.
     if cs_cacheTTL cs = 0 then return_ok ()
     else catalogFresh cs (\<lambda>fresh.
       if fresh then return_ok ()
       else catalogFresh cs (\<lambda>fresh. if fresh then return_ok () else refreshNow L s)))"

definition Invalidate :: "'s CatalogService option \<Rightarrow> 's world \<Rightarrow> 's world" where
  "Invalidate s w =
     (if s = None then w else w\<lparr>w_cache := (w_cache w)\<lparr>cc_loadedAt := zero_time\<rparr>\<rparr>)"

definition GetConfig :: "config_pkgs \<Rightarrow> 's CatalogService option \<Rightarrow> ('s world, BursarConfig option) op" where
  "GetConfig L s =
     try_op (GetActive s) None (\<lambda>revision.
       case revision of
         None \<Rightarrow> return_err None no_active_catalog
       | Some r \<Rightarrow> require (LoadConfigFromMap L (rev_Config r)) None (\<lambda>config. return_ok (Some config)))"

definition catalog_Engine :: "'s CatalogService option \<Rightarrow> ('s world, PricingEngine) op" where
  "catalog_Engine s =
     (case s of
        None \<Rightarrow> return_err None (NewError ''catalog service is not initialized''
                   (code_category ErrorCodeCatalogNotLoaded ErrorCategoryUnavailable))
      | Some _ \<Rightarrow> inspect (\<lambda>w.
          case cc_engine (w_cache w) of
            None \<Rightarrow> return_err None (NewError ''catalog is not loaded''
                      (code_category ErrorCodeCatalogNotLoaded ErrorCategoryConflict))
          | Some config \<Rightarrow> return_ok (Some config)))"

definition cached_engine :: "CatalogCache \<Rightarrow> int \<Rightarrow> PricingEngine" where
  "cached_engine c version = (case map_of (cc_versionEngines c) version of None \<Rightarrow> None | Some e \<Rightarrow> e)"

definition revision_unavailable :: "int \<Rightarrow> go_error" where
  "revision_unavailable version = NewError ''catalog revision is unavailable for the pinned plan''
     ((code_category ErrorCodeCatalogNotLoaded ErrorCategoryNotFound)
        \<lparr>opt_Details := [(''catalog_version'', VInt version)]\<rparr>)"

definition engineForVersion ::
  "config_pkgs \<Rightarrow> 's CatalogService option \<Rightarrow> 's CreditStore \<Rightarrow> int option \<Rightarrow> ('s world, PricingEngine) op" where
  "engineForVersion L s store version =
     (case version of
        None \<Rightarrow> catalog_Engine s
      | Some v \<Rightarrow> inspect (\<lambda>w.
          case cached_engine (w_cache w) v of
            Some config \<Rightarrow> return_ok (Some config)
          | None \<Rightarrow>
              try_op (store_call (st_GetCatalogRevision (st_catalog store) v)) None (\<lambda>revision.
                case revision of
                  None \<Rightarrow> return_err None (revision_unavailable v)
                | Some r \<Rightarrow>
                    require (LoadConfigFromMap L (rev_Config r)) None (\<lambda>config.
                    require (NewPricingEngine (Some config)) None (\<lambda>engine. inspect (\<lambda>w.
                      case cached_engine (w_cache w) v of
                        Some cached \<Rightarrow> return_ok (Some cached)
                      | None \<Rightarrow>
                          perform (\<lambda>w. w\<lparr>w_cache := (w_cache w)\<lparr>cc_versionEngines :=
                              AList.update v engine (cc_versionEngines (w_cache w))\<rparr>\<rparr>)
                          (return_ok engine)))))))"

text \<open>\<open>engine.Calculate(metrics)\<close>, or with the one option naming a rate card.\<close>

definition price_with :: "decimal_pkg \<Rightarrow> PricingEngine \<Rightarrow> UsageMetrics \<Rightarrow> string \<Rightarrow> ('w, CostBreakdown) op" where
  "price_with D engine metrics rateCard =
     require (Calculate D engine metrics (if rateCard = '''' then [] else [rateCard])) zero_Breakdown return_ok"

definition CalculateForUser ::
  "decimal_pkg \<Rightarrow> config_pkgs \<Rightarrow> 's CatalogService option \<Rightarrow> string \<Rightarrow> UsageMetrics \<Rightarrow>
   ('s world, CostBreakdown) op" where
  "CalculateForUser D L s userID metrics = with_catalog s zero_Breakdown (\<lambda>cs store.
     try_op (store_call (st_GetUserPlan (st_plans store) userID)) zero_Breakdown (\<lambda>plan.
     try_op (if gup_CatalogVersion plan = None then RefreshIfStale L s else return_ok ()) zero_Breakdown (\<lambda>_.
     try_op (engineForVersion L s store (gup_CatalogVersion plan)) zero_Breakdown (\<lambda>engine.
       price_with D engine metrics (gup_RateCard plan)))))"

definition lease_card :: "PricingEngine \<Rightarrow> LeasePricingContext \<Rightarrow> string" where
  "lease_card engine ctx =
     (if lpc_RateCard ctx = ''''
      then (case GetRateCardForPlan engine (lpc_PlanKey ctx) of None \<Rightarrow> '''' | Some rateCard \<Rightarrow> rateCard)
      else lpc_RateCard ctx)"

definition CalculateForLease ::
  "decimal_pkg \<Rightarrow> config_pkgs \<Rightarrow> 's CatalogService option \<Rightarrow> string \<Rightarrow> string \<Rightarrow> UsageMetrics \<Rightarrow>
   ('s world, CostBreakdown) op" where
  "CalculateForLease D L s userID leaseID metrics = with_catalog s zero_Breakdown (\<lambda>cs store.
     try_op (store_call (st_GetLeasePricingContext (st_leases store) userID leaseID)) zero_Breakdown (\<lambda>pricingContext.
       case pricingContext of
         None \<Rightarrow> return_err zero_Breakdown (NewError ''lease pricing context was not found''
                   (code_category ErrorCodeLeaseNotFound ErrorCategoryNotFound))
       | Some ctx \<Rightarrow>
           try_op (engineForVersion L s store (Some (lpc_CatalogVersion ctx))) zero_Breakdown (\<lambda>engine.
             price_with D engine metrics (lease_card engine ctx))))"

definition PublishDraft ::
  "config_pkgs \<Rightarrow> 's CatalogService option \<Rightarrow> goval gomap \<Rightarrow> string \<Rightarrow> ('s world, string) op" where
  "PublishDraft L s config label = with_catalog s '''' (\<lambda>cs store.
     require (LoadConfigFromMap L config) '''' (\<lambda>parsed.
     store_call (st_PublishCatalogDraft (st_catalog store) (CanonicalParsedBursarConfigDict L parsed) label)))"

definition Activate ::
  "'s CatalogService option \<Rightarrow> int \<Rightarrow> CatalogRollout \<Rightarrow> ('s world, string) op" where
  "Activate s version rollout = with_catalog s '''' (\<lambda>cs store.
     bind_op (store_call (st_ActivateCatalogRevision (st_catalog store) version rollout)) (\<lambda>result err.
       case err of
         Some e \<Rightarrow> return_err result e
       | None \<Rightarrow> perform (Invalidate s) (return_ok result)))"

definition PublishAndActivate ::
  "config_pkgs \<Rightarrow> 's CatalogService option \<Rightarrow> goval gomap \<Rightarrow> string \<Rightarrow> CatalogRollout \<Rightarrow>
   ('s world, string) op" where
  "PublishAndActivate L s config label rollout = with_catalog s '''' (\<lambda>cs store.
     require (LoadConfigFromMap L config) '''' (\<lambda>parsed.
     bind_op (store_call (st_PublishAndActivateCatalog (st_catalog store)
        (CanonicalParsedBursarConfigDict L parsed) label rollout)) (\<lambda>result err.
       case err of
         Some e \<Rightarrow> return_err result e
       | None \<Rightarrow> perform (Invalidate s) (return_ok result))))"

definition SetRevisionPin :: "'s CatalogService option \<Rightarrow> string \<Rightarrow> bool \<Rightarrow> ('s world, bool) op" where
  "SetRevisionPin s userID pinned = with_catalog s False (\<lambda>cs store.
     store_call (st_SetPlanRevisionPin (st_plans store) userID pinned))"

definition ApplyDueChanges :: "'s CatalogService option \<Rightarrow> int \<Rightarrow> ('s world, int) op" where
  "ApplyDueChanges s limit = with_catalog s 0 (\<lambda>cs store.
     require (requireBoundedLimit limit defaultPageSize maxMaintenanceBatchSize ''catalog change limit'') 0 (\<lambda>limit.
     store_call (st_ApplyDuePlanChanges (st_plans store) limit)))"

section \<open>Store calls of the catalogue\<close>

text \<open>The operations of a catalogue service over \<open>store\<close> keep what every step of the service keeps.\<close>

lemmas frame_rules =
  keep.keeps_rules keeps_store_call store_move.intros keeps_tick keeps_cache keeps_emit keeps_append

definition catalog_over :: "'s CreditStore \<Rightarrow> 's CatalogService option \<Rightarrow> bool" where
  "catalog_over store s \<longleftrightarrow> (\<forall>cs. s = Some cs \<longrightarrow> cs_store cs \<in> {None, Some store})"

lemma keeps_with_catalog:
  assumes "catalog_over store s" and "\<And>cs. keeps (service_keeps store m) (k cs store)"
  shows "keeps (service_keeps store m) (with_catalog s z k)"
  unfolding with_catalog_def using assms
  by (auto simp: catalog_over_def intro!: keep.keeps_rules split: option.splits)

lemma keeps_stamp:
  "service_keeps store m w ((tick w)\<lparr>w_cache := c\<rparr>)"
  by (rule keep.frame_trans [OF keeps_tick keeps_cache])

lemma keeps_install: "keeps (service_keeps store m) (catalog_install L r)"
  unfolding catalog_install_def by (intro keep.keeps_rules keeps_stamp)

lemma keeps_refresh: "catalog_over store s \<Longrightarrow> keeps (service_keeps store m) (refreshNow L s)"
  unfolding refreshNow_def
  by (rule keeps_with_catalog, assumption) (intro frame_rules keeps_install keeps_stamp)

lemma keeps_fresh:
  "(\<And>b. keeps (service_keeps store m) (k b)) \<Longrightarrow> keeps (service_keeps store m) (catalogFresh cs k)"
  unfolding catalogFresh_def by (intro frame_rules)

lemma keeps_refresh_stale: "catalog_over store s \<Longrightarrow> keeps (service_keeps store m) (RefreshIfStale L s)"
  unfolding RefreshIfStale_def
  by (rule keeps_with_catalog, assumption) (intro frame_rules keeps_fresh keeps_refresh; assumption)

lemma keeps_engine: "keeps (service_keeps store m) (catalog_Engine s)"
  unfolding catalog_Engine_def by (intro frame_rules)

lemma keeps_engine_version: "keeps (service_keeps store m) (engineForVersion L s store v)"
  unfolding engineForVersion_def by (intro frame_rules keeps_engine)

lemma keeps_price: "keeps (service_keeps store m) (price_with D engine metrics rateCard)"
  unfolding price_with_def by (intro frame_rules)

lemma keeps_calculate_user:
  "catalog_over store s \<Longrightarrow> keeps (service_keeps store m) (CalculateForUser D L s u metrics)"
  unfolding CalculateForUser_def
  by (rule keeps_with_catalog, assumption)
     (intro frame_rules keeps_refresh_stale keeps_engine_version keeps_price; assumption)

lemma keeps_calculate_lease:
  "catalog_over store s \<Longrightarrow> keeps (service_keeps store m) (CalculateForLease D L s u l metrics)"
  unfolding CalculateForLease_def
  by (rule keeps_with_catalog, assumption) (intro frame_rules keeps_engine_version keeps_price)

lemma keeps_invalidate: "service_keeps store m w (Invalidate s w)"
  by (simp add: Invalidate_def keep.frame_refl keeps_cache)

lemma keeps_publish:
  "catalog_over store s \<Longrightarrow> keeps (service_keeps store m) (PublishDraft L s config label)"
  "catalog_over store s \<Longrightarrow> keeps (service_keeps store m) (PublishAndActivate L s config label rollout)"
  "catalog_over store s \<Longrightarrow> keeps (service_keeps store m) (Activate s version rollout)"
  unfolding PublishDraft_def PublishAndActivate_def Activate_def
  by (rule keeps_with_catalog, assumption, intro frame_rules keeps_invalidate)+

section \<open>Revisions are immutable\<close>

text \<open>
  What the code relies on of the store's revisions: the configuration of a version never changes,
  whichever call returns it.
\<close>

definition immutable_revisions :: "'s CreditStore \<Rightarrow> (int \<Rightarrow> goval gomap option) \<Rightarrow> bool" where
  "immutable_revisions store revs \<longleftrightarrow>
     (\<forall>s v r s'. st_GetCatalogRevision (st_catalog store) v s = ((Some r, None), s') \<longrightarrow>
        revs v = Some (rev_Config r)) \<and>
     (\<forall>s r s'. st_GetActiveCatalog (st_catalog store) s = ((Some r, None), s') \<longrightarrow>
        revs (rev_Version r) = Some (rev_Config r))"

definition engine_of :: "config_pkgs \<Rightarrow> (int \<Rightarrow> goval gomap option) \<Rightarrow> int \<Rightarrow> BursarConfig \<Rightarrow> bool" where
  "engine_of L revs v c \<longleftrightarrow> (\<exists>m. revs v = Some m \<and> LoadConfigFromMap L m = Inr c)"

text \<open>The cache is coherent: every engine in it is the engine of its version, and the active
  engine is the one of the active revision.\<close>

definition coherent :: "config_pkgs \<Rightarrow> (int \<Rightarrow> goval gomap option) \<Rightarrow> CatalogCache \<Rightarrow> bool" where
  "coherent L revs c \<longleftrightarrow>
     (\<forall>v e. cached_engine c v = Some e \<longrightarrow> engine_of L revs v e) \<and>
     (case cc_revision c of
        None \<Rightarrow> cc_engine c = None
      | Some r \<Rightarrow> \<exists>e. cc_engine c = Some e \<and> cc_config c = Some e \<and> engine_of L revs (rev_Version r) e)"

lemma coherent_empty: "coherent L revs empty_cache"
  by (simp add: coherent_def empty_cache_def cached_engine_def)

lemma coherent_loadedAt [simp]: "coherent L revs (c\<lparr>cc_loadedAt := t\<rparr>) = coherent L revs c"
  by (simp add: coherent_def cached_engine_def split: option.split)

lemma coherent_put:
  "coherent L revs c \<Longrightarrow> engine_of L revs v e \<Longrightarrow>
   coherent L revs (c\<lparr>cc_versionEngines := AList.update v (Some e) (cc_versionEngines c)\<rparr>)"
  by (auto simp: coherent_def cached_engine_def update_conv' split: if_splits option.splits)

lemma coherent_installed:
  "engine_of L revs (rev_Version r) e \<Longrightarrow>
   coherent L revs \<lparr>cc_revision = Some r, cc_config = Some e, cc_engine = Some e,
     cc_versionEngines = [(rev_Version r, Some e)], cc_loadedAt = t\<rparr>"
  by (auto simp: coherent_def cached_engine_def split: if_splits)

lemma NewPricingEngine_Some [simp]: "NewPricingEngine (Some c) = Inr (Some c)"
  by (simp add: NewPricingEngine_def)

lemma cache_of_tick [simp]: "w_cache (tick w) = w_cache w" "w_store (tick w) = w_store w"
  by (simp_all add: tick_def)

lemma engineForVersion_coherent:
  assumes "immutable_revisions store revs" and "coherent L revs (w_cache w)"
  shows "wp (engineForVersion L s store (Some v))
    (\<lambda>e err w'. coherent L revs (w_cache w') \<and>
       (err = None \<longrightarrow> (\<exists>c. e = Some c \<and> engine_of L revs v c))) w"
proof (cases "cached_engine (w_cache w) v")
  case None
  obtain r err s' where g: "st_GetCatalogRevision (st_catalog store) v (w_store w) = ((r, err), s')"
    by (metis prod.collapse)
  have "engine_of L revs v c" if "r = Some x" "err = None" "LoadConfigFromMap L (rev_Config x) = Inr c" for x c
    using assms(1) g that unfolding immutable_revisions_def engine_of_def by blast
  then show ?thesis using None assms(2)
    by (auto simp: engineForVersion_def wp_simps g intro: coherent_put split: option.split sum.split)
next
  case (Some c)
  then show ?thesis using assms(2) by (auto simp: engineForVersion_def wp_simps coherent_def)
qed

lemma refreshNow_coherent:
  assumes "catalog_over store s" and "immutable_revisions store revs" and "coherent L revs (w_cache w)"
  shows "wp (refreshNow L s) (\<lambda>_ err w'. coherent L revs (w_cache w')) w"
proof -
  obtain r err s' where g: "st_GetActiveCatalog (st_catalog store) (w_store w) = ((r, err), s')"
    by (metis prod.collapse)
  have ver: "engine_of L revs (rev_Version x) c"
    if "r = Some x" "err = None" "LoadConfigFromMap L (rev_Config x) = Inr c" for x c
    using assms(2) g that unfolding immutable_revisions_def engine_of_def by blast
  show ?thesis using assms(1,3)
    by (auto simp: refreshNow_def with_catalog_def catalog_install_def catalog_over_def wp_simps g
        intro: coherent_installed [OF ver] split: option.split sum.split)
qed

lemma refreshIfStale_coherent:
  assumes "catalog_over store s" and "immutable_revisions store revs" and "coherent L revs (w_cache w)"
  shows "wp (RefreshIfStale L s) (\<lambda>_ err w'. coherent L revs (w_cache w')) w"
proof -
  have fresh: "wp (catalogFresh cs k) Q w"
    if "coherent L revs (w_cache w)" "\<And>b w'. coherent L revs (w_cache w') \<Longrightarrow> wp (k b) Q w'"
    for cs k Q w
    using that by (simp add: catalogFresh_def wp_simps)
  show ?thesis unfolding RefreshIfStale_def with_catalog_def
    using assms refreshNow_coherent [OF assms(1,2)]
    by (auto simp: wp_simps split: option.split intro!: fresh)
qed

text \<open>C8. Settlement prices are immutable. Whatever revisions were published or activated since, and
  whatever the cache holds, a successful \<open>CalculateForLease\<close> is the calculation with the
  configuration of the version the lease captured and with the captured rate card, or the rate
  card of the captured plan in that version; the cache stays coherent.\<close>

theorem lease_pricing_immutable:
  assumes "cs_store cs = Some store" and "immutable_revisions store revs"
    and "coherent L revs (w_cache w)"
    and "CalculateForLease D L (Some cs) u l metrics w = ((b, err), w')"
  shows "coherent L revs (w_cache w') \<and>
    (err = None \<longrightarrow>
      (\<exists>ctx c. result_of (st_GetLeasePricingContext (st_leases store) u l (w_store w)) = Some ctx \<and>
         engine_of L revs (lpc_CatalogVersion ctx) c \<and>
         Calculate D (Some c) metrics
           (if lease_card (Some c) ctx = '''' then [] else [lease_card (Some c) ctx]) = Inr b))"
proof -
  obtain x e s' where g: "st_GetLeasePricingContext (st_leases store) u l (w_store w) = ((x, e), s')"
    by (metis prod.collapse)
  let ?w = "w\<lparr>w_store := s'\<rparr>"
  have eng: "wp (engineForVersion L (Some cs) store (Some v))
    (\<lambda>e err w'. coherent L revs (w_cache w') \<and>
       (err = None \<longrightarrow> (\<exists>c. e = Some c \<and> engine_of L revs v c))) ?w" for v
    using assms(2,3) by (intro engineForVersion_coherent) simp_all
  have "wp (CalculateForLease D L (Some cs) u l metrics)
     (\<lambda>b err w'. coherent L revs (w_cache w') \<and> (err = None \<longrightarrow>
       (\<exists>ctx c. x = Some ctx \<and> engine_of L revs (lpc_CatalogVersion ctx) c \<and>
         Calculate D (Some c) metrics
           (if lease_card (Some c) ctx = '''' then [] else [lease_card (Some c) ctx]) = Inr b))) w"
    using assms(1,3)
    by (auto simp: CalculateForLease_def with_catalog_def price_with_def wp_simps g
        intro!: wp_mono [OF eng] split: option.split sum.splits)
  then show ?thesis using assms(4) g by (simp add: wp_def)
qed

definition sample_catalog :: "ref_state CatalogService" where
  "sample_catalog = \<lparr>cs_store = Some ref_store, cs_cacheTTL = defaultCatalogCacheTTL\<rparr>"

lemma ref_store_immutable: "immutable_revisions ref_store ref_history"
  by (auto simp: immutable_revisions_def ref_store_def ref_catalog_def answer_def ref_revision_def)

lemma sample_coherent: "coherent L revs (w_cache sample_world)"
  by (simp add: sample_world_def coherent_empty)

definition leased_world :: "ref_state world" where
  "leased_world = sample_world\<lparr>w_store := sample_state\<lparr>rs_leases := [(''l1'', ''u1'', 2)]\<rparr>\<rparr>"

theorem lease_pricing_immutable_witness:
  "coherent ref_pkgs ref_history
     (w_cache (state_of (CalculateForLease ref_decimal ref_pkgs (Some sample_catalog) ''u1'' ''l1'' sample_usage leased_world)))"
proof -
  have "coherent ref_pkgs ref_history (w_cache leased_world)"
    by (simp add: leased_world_def sample_coherent)
  moreover have "cs_store sample_catalog = Some ref_store" by (simp add: sample_catalog_def)
  moreover obtain b err w' where c: "CalculateForLease ref_decimal ref_pkgs (Some sample_catalog)
      ''u1'' ''l1'' sample_usage leased_world = ((b, err), w')"
    by (metis prod.collapse)
  ultimately show ?thesis
    using lease_pricing_immutable [OF _ ref_store_immutable _ c] by simp
qed

text \<open>A pinned subscriber is priced with the pinned revision, an unpinned one with the revision
  the cache holds after a refresh by age: a successful \<open>CalculateForUser\<close> is the calculation with the
  configuration of one version of the history, the pinned one if the plan names it, and the
  rate card of the plan; the cache stays coherent.\<close>

theorem user_pricing_version:
  assumes "cs_store cs = Some store" and "immutable_revisions store revs"
    and "coherent L revs (w_cache w)"
    and "CalculateForUser D L (Some cs) u metrics w = ((b, err), w')"
  shows "coherent L revs (w_cache w') \<and>
    (err = None \<longrightarrow>
      (let plan = result_of (st_GetUserPlan (st_plans store) u (w_store w)) in
       \<exists>v c. engine_of L revs v c \<and> (\<forall>p. gup_CatalogVersion plan = Some p \<longrightarrow> v = p) \<and>
         Calculate D (Some c) metrics (if gup_RateCard plan = '''' then [] else [gup_RateCard plan]) = Inr b))"
proof -
  obtain plan e s' where g: "st_GetUserPlan (st_plans store) u (w_store w) = ((plan, e), s')"
    by (metis prod.collapse)
  define Q :: "CostBreakdown \<Rightarrow> go_error option \<Rightarrow> 'a world \<Rightarrow> bool" where
    "Q = (\<lambda>b err w'. coherent L revs (w_cache w') \<and> (err = None \<longrightarrow>
      (\<exists>v c. engine_of L revs v c \<and> (\<forall>p. gup_CatalogVersion plan = Some p \<longrightarrow> v = p) \<and>
         Calculate D (Some c) metrics (if gup_RateCard plan = '''' then [] else [gup_RateCard plan]) = Inr b)))"
  have over: "catalog_over store (Some cs)" using assms(1) by (simp add: catalog_over_def)
  have stop: "Q b (Some e) v" if "coherent L revs (w_cache v)" for b e v
    using that by (simp add: Q_def)
  have price: "wp (price_with D (Some c) metrics (gup_RateCard plan)) Q v"
    if "coherent L revs (w_cache v)" "engine_of L revs n c" "\<forall>p. gup_CatalogVersion plan = Some p \<longrightarrow> n = p"
    for c n v
    using that by (auto simp: Q_def price_with_def wp_simps split: sum.split)
  have priced: "wp (try_op (engineForVersion L (Some cs) store (gup_CatalogVersion plan)) zero_Breakdown
      (\<lambda>engine. price_with D engine metrics (gup_RateCard plan))) Q v"
    if coh: "coherent L revs (w_cache v)" for v
  proof (cases "gup_CatalogVersion plan")
    case None
    show ?thesis
    proof (cases "cc_engine (w_cache v)")
      case (Some c)
      then obtain n where "engine_of L revs n c"
        using coh by (auto simp: coherent_def split: option.splits)
      then show ?thesis using price [OF coh] None Some
        by (simp add: engineForVersion_def catalog_Engine_def wp_simps)
    qed (use stop [OF coh] None in \<open>simp add: engineForVersion_def catalog_Engine_def wp_simps\<close>)
  next
    case (Some n)
    show ?thesis unfolding wp_simps Some
      by (rule wp_mono [OF engineForVersion_coherent [OF assms(2) coh]])
         (auto split: option.split intro: stop price simp: Some)
  qed
  let ?w = "w\<lparr>w_store := s'\<rparr>"
  have coh: "coherent L revs (w_cache ?w)" using assms(3) by simp
  have "wp (RefreshIfStale L (Some cs)) (\<lambda>x e v. case e of None \<Rightarrow>
      wp (try_op (engineForVersion L (Some cs) store (gup_CatalogVersion plan)) zero_Breakdown
        (\<lambda>engine. price_with D engine metrics (gup_RateCard plan))) Q v
      | Some err \<Rightarrow> Q zero_Breakdown (Some err) v) ?w"
    by (rule wp_mono [OF refreshIfStale_coherent [OF over assms(2) coh]])
       (auto split: option.split intro: stop priced)
  then have "wp (CalculateForUser D L (Some cs) u metrics) Q w"
    using priced [OF coh] stop [OF coh] assms(1)
    by (cases e; cases "gup_CatalogVersion plan")
       (simp_all add: CalculateForUser_def with_catalog_def wp_try wp_store_call g wp_combinators)
  then show ?thesis using assms(4) g by (simp add: wp_def Let_def Q_def)
qed

theorem user_pricing_version_witness:
  "coherent ref_pkgs ref_history
     (w_cache (state_of (CalculateForUser ref_decimal ref_pkgs (Some sample_catalog) ''u1'' sample_usage sample_world)))"
proof -
  have "cs_store sample_catalog = Some ref_store" by (simp add: sample_catalog_def)
  moreover obtain b err w' where c: "CalculateForUser ref_decimal ref_pkgs (Some sample_catalog)
      ''u1'' sample_usage sample_world = ((b, err), w')"
    by (metis prod.collapse)
  ultimately show ?thesis
    using user_pricing_version [OF _ ref_store_immutable sample_coherent c] by simp
qed

section \<open>Freshness\<close>

text \<open>C33. Refresh by age. For a catalogue with a positive cache lifetime whose cache is loaded at an
  instant before the next reading of the clock, a successful \<open>RefreshIfStale\<close> either finds the cache
  younger than the lifetime and changes nothing in it, or has just read the active revision from
  the store: the cached revision has its identity and version, and the time of the load is a
  reading of the clock during the call.\<close>

theorem refresh_bounds_staleness:
  assumes "cs_store cs = Some store" and "cs_cacheTTL cs > 0"
    and "RefreshIfStale L (Some cs) w = (((), None), w')"
  shows "(w_cache w' = w_cache w \<and> cc_loadedAt (w_cache w) \<noteq> zero_time \<and>
      (\<exists>i. w_tick w \<le> i \<and> i < w_tick w' \<and>
         time_sub (w_clock w i) (cc_loadedAt (w_cache w)) < cs_cacheTTL cs)) \<or>
    (\<exists>r i. result_of (st_GetActiveCatalog (st_catalog store) (w_store w)) = Some r \<and>
       map_option rev_ID (cc_revision (w_cache w')) = Some (rev_ID r) \<and>
       map_option rev_Version (cc_revision (w_cache w')) = Some (rev_Version r) \<and>
       w_tick w \<le> i \<and> i < w_tick w' \<and> cc_loadedAt (w_cache w') = w_clock w i)"
proof -
  obtain r err s' where g: "st_GetActiveCatalog (st_catalog store) (w_store w) = ((r, err), s')"
    by (metis prod.collapse)
  let ?now = "\<lambda>v. w_clock v = w_clock w \<and> w_store v = w_store w \<and> w_cache v = w_cache w \<and> w_tick w \<le> w_tick v"
  let ?Q = "\<lambda>w'. (\<exists>x i. r = Some x \<and>
       map_option rev_ID (cc_revision (w_cache w')) = Some (rev_ID x) \<and>
       map_option rev_Version (cc_revision (w_cache w')) = Some (rev_Version x) \<and>
       w_tick w \<le> i \<and> i < w_tick w' \<and> cc_loadedAt (w_cache w') = w_clock w i)"
  have refresh: "wp (refreshNow L (Some cs)) (\<lambda>_ e w'. e = None \<longrightarrow> ?Q w') v" if "?now v" for v
    using that assms(1) g
    by (auto simp: refreshNow_def with_catalog_def catalog_install_def wp_simps revision_loaded_def
        tick_def now_reading_def split: option.split sum.split option.splits)
  have "wp (RefreshIfStale L (Some cs)) (\<lambda>_ e w'. e = None \<longrightarrow>
      (w_cache w' = w_cache w \<and> cc_loadedAt (w_cache w) \<noteq> zero_time \<and>
       (\<exists>i. w_tick w \<le> i \<and> i < w_tick w' \<and>
         time_sub (w_clock w i) (cc_loadedAt (w_cache w)) < cs_cacheTTL cs)) \<or> ?Q w') w"
    using assms(1,2)
    by (auto simp: RefreshIfStale_def with_catalog_def catalogFresh_def wp_simps tick_def now_reading_def
        intro!: wp_mono [OF refresh])
  then show ?thesis using assms(3) g by (simp add: wp_def)
qed

lemma sample_refresh:
  "\<exists>w'. RefreshIfStale ref_pkgs (Some sample_catalog) sample_world = (((), None), w') \<and>
     map_option rev_Version (cc_revision (w_cache w')) = Some 2"
  by (simp add: RefreshIfStale_def refreshNow_def with_catalog_def sample_catalog_def sample_world_def
      sample_state_def catalogFresh_def catalog_install_def revision_loaded_def op_simps
      defaultCatalogCacheTTL_def second_def empty_cache_def store_call_def ref_store_def ref_catalog_def
      ref_revision_def ref_history_def answer_def ref_document_loads)

theorem refresh_bounds_staleness_witness:
  "\<exists>w' i. RefreshIfStale ref_pkgs (Some sample_catalog) sample_world = (((), None), w') \<and>
     map_option rev_Version (cc_revision (w_cache w')) = Some 2 \<and> i < w_tick w' \<and> cc_loadedAt (w_cache w') = w_clock sample_world i"
proof -
  obtain w' where c: "RefreshIfStale ref_pkgs (Some sample_catalog) sample_world = (((), None), w')"
    and v: "map_option rev_Version (cc_revision (w_cache w')) = Some 2"
    using sample_refresh by blast
  have "cs_store sample_catalog = Some ref_store" "cs_cacheTTL sample_catalog > 0"
    by (simp_all add: sample_catalog_def defaultCatalogCacheTTL_def second_def)
  moreover have "cc_loadedAt (w_cache sample_world) = zero_time"
    by (simp add: sample_world_def empty_cache_def)
  ultimately show ?thesis using refresh_bounds_staleness [OF _ _ c, of ref_store] v c by auto
qed

text \<open>A successful activation or publication through the catalogue service makes the next
  refresh read the store again, whatever the age of the cache; a failed one leaves the cache as
  it is.\<close>

theorem activation_invalidates:
  assumes "cs_store cs = Some store" and "cs_cacheTTL cs > 0"
    and "Activate (Some cs) version rollout w = ((r, err), w') \<or>
         PublishAndActivate L (Some cs) config label rollout w = ((r, err), w')"
  shows "(err = None \<longrightarrow> RefreshIfStale L (Some cs) w' = refreshNow L (Some cs) w') \<and>
         (err \<noteq> None \<longrightarrow> w_cache w' = w_cache w)"
proof -
  let ?Q = "\<lambda>r err w'. (err = None \<longrightarrow> cc_loadedAt (w_cache w') = zero_time) \<and>
      (err \<noteq> None \<longrightarrow> w_cache w' = w_cache w)"
  have "wp (Activate (Some cs) version rollout) ?Q w"
    "wp (PublishAndActivate L (Some cs) config label rollout) ?Q w"
    using assms(1)
    by (auto simp: Activate_def PublishAndActivate_def with_catalog_def Invalidate_def wp_simps
        split: option.split sum.split prod.split)
  then have "?Q r err w'" using assms(3) by (auto simp: wp_def)
  moreover have "RefreshIfStale L (Some cs) w' = refreshNow L (Some cs) w'"
    if "cc_loadedAt (w_cache w') = zero_time"
    using that assms(1,2) by (simp add: RefreshIfStale_def with_catalog_def catalogFresh_def op_simps)
  ultimately show ?thesis by blast
qed

theorem activation_invalidates_witness:
  "\<exists>r w'. Activate (Some sample_catalog) 1 \<lparr>clr_Plans = []\<rparr> sample_world = ((r, None), w') \<and>
     RefreshIfStale ref_pkgs (Some sample_catalog) w' = refreshNow ref_pkgs (Some sample_catalog) w'"
proof -
  obtain r w' where c: "Activate (Some sample_catalog) 1 \<lparr>clr_Plans = []\<rparr> sample_world = ((r, None), w')"
    by (simp add: Activate_def with_catalog_def sample_catalog_def op_simps store_call_def ref_store_def
        ref_catalog_def answer_def)
  have "cs_store sample_catalog = Some ref_store" "cs_cacheTTL sample_catalog > 0"
    by (simp_all add: sample_catalog_def defaultCatalogCacheTTL_def second_def)
  then show ?thesis using activation_invalidates [OF _ _ disjI1 [OF c]] c by blast
qed

end
