(* ===== verification/Credits.thy ===== *)
theory Credits
  imports Catalog
begin

text \<open>
  The credits service, \<open>src/golang/credits.go\<close>: construction, the operations on balances, leases,
  plans, refunds, teams and receipts, priced by an amount or by usage metrics. A service is
  \<open>None\<close> when the receiver is nil. The telemetry wrapper \<open>runInstrumentedValue\<close> passes the value and
  the error of the wrapped function through and is not shown.
\<close>

section \<open>Construction\<close>

record 's CreditsServiceOptions =
  cso_Policy :: string
  cso_OverdraftFloor :: "amount option"
  cso_MaxConcurrent :: "int option"
  cso_DefaultLeaseTTL :: duration
  cso_EventSink :: bool
  cso_LowBalance :: "amount list"
  cso_LowBalanceConfig :: "(amount list \<times> bool \<times> int) option"
  cso_LazyExpiry :: bool
  cso_CatalogCacheTTL :: "duration option"
  cso_PostDeduction :: "string option"
  cso_Analytics :: "'s UsageAnalyticsStore option"
  cso_UsageStore :: "'s UsageChargeStore option"

text \<open>\<open>LowBalanceConfig\<close> is a triple of its thresholds, whether a callback is set, and the
  largest number of tracked users, 0 for the default. \<open>None\<close> for a read backend stands for a nil
  interface and for a typed nil (\<open>isNilCreditsReadBackend\<close>).\<close>

definition low_balance_limit :: "'s CreditsServiceOptions \<Rightarrow> int" where
  "low_balance_limit options =
     (case cso_LowBalanceConfig options of
        None \<Rightarrow> 100000
      | Some (_, _, n) \<Rightarrow> if n \<noteq> 0 then n else 100000)"

definition low_balance_thresholds :: "'s CreditsServiceOptions \<Rightarrow> amount list" where
  "low_balance_thresholds options =
     (case cso_LowBalanceConfig options of None \<Rightarrow> cso_LowBalance options | Some (ts, _, _) \<Rightarrow> ts)"

definition checked_floor :: "decimal_pkg \<Rightarrow> amount option \<Rightarrow> go_error + amount" where
  "checked_floor D requested =
     (case requested of
        None \<Rightarrow> Inr 0
      | Some f \<Rightarrow>
          if QuantizeMoney D f > 0
          then Inl (invalid_request ''overdraft floor must be less than or equal to zero'')
          else Inr (QuantizeMoney D f))"

text \<open>The service, and the hooks it starts with: identifier and hook, and the last identifier.\<close>

definition NewCreditsService ::
  "decimal_pkg \<Rightarrow> 's CreditStore option \<Rightarrow> 's CreditsServiceOptions \<Rightarrow>
   go_error + 's CreditsService \<times> (64 word \<times> string) list \<times> 64 word" where
  "NewCreditsService D store options =
     (case store of
        None \<Rightarrow> Inl (invalid_request ''credit store is required'')
      | Some st \<Rightarrow>
        let policy = (if cso_Policy options = '''' then CreditPolicyStrictPrepaid else cso_Policy options);
            defaultTTL = (if cso_DefaultLeaseTTL options = 0 then defaultLeaseTTL else cso_DefaultLeaseTTL options);
            lowBalance = low_balance_thresholds options
        in
        guard_err (policy = CreditPolicyStrictPrepaid \<or> policy = CreditPolicyOverdraft)
          (invalid_request (''credit policy must be '' @ quoted CreditPolicyStrictPrepaid @ '' or '' @
             quoted CreditPolicyOverdraft))
        (bind_err (checked_floor D (cso_OverdraftFloor options)) (\<lambda>overdraftFloor.
        guard_err (\<not> (case cso_MaxConcurrent options of None \<Rightarrow> False | Some n \<Rightarrow> n < 1))
          (invalid_request ''max concurrent operations must be positive'')
        (bind_err (requirePositiveDuration defaultTTL ''default lease TTL'') (\<lambda>_.
        guard_err (\<not> (cso_LowBalanceConfig options \<noteq> None \<and> cso_LowBalance options \<noteq> []))
          (invalid_request ''configure low balance with either LowBalance or LowBalanceConfig'')
        (guard_err (\<not> low_balance_limit options < 1)
          (invalid_request ''low balance max tracked users must be positive'')
        (guard_err (\<not> list_ex (\<lambda>t. t < 0) lowBalance)
          (invalid_request ''low balance thresholds must not be negative'')
        (bind_err (NewCatalogServiceWithOptions store
            (case cso_CatalogCacheTTL options of None \<Rightarrow> defaultCatalogCacheTTL | Some ttl \<Rightarrow> ttl)) (\<lambda>catalog.
        Inr (\<lparr>sv_store = store, sv_catalog = Some catalog, 
              sv_analytics = (case cso_Analytics options of None \<Rightarrow> Some (st_analytics st) | Some a \<Rightarrow> Some a),
              sv_usageStore = (case cso_UsageStore options of None \<Rightarrow> Some (st_charges st) | Some c \<Rightarrow> Some c),
              sv_policy = policy, sv_overdraftFloor = overdraftFloor,
              sv_maxConcurrent = cso_MaxConcurrent options, sv_defaultLeaseTTL = defaultTTL,
              sv_events = cso_EventSink options, sv_lowBalance = sort_by (\<lambda>x y. x > y) lowBalance,
              sv_lowBalanceHandler =
                (case cso_LowBalanceConfig options of None \<Rightarrow> False | Some (_, h, _) \<Rightarrow> h),
              sv_lowBalanceMaxTracked = low_balance_limit options,
              sv_lazyExpiry = cso_LazyExpiry options\<rparr>,
             (case cso_PostDeduction options of
                None \<Rightarrow> ([], 0)
              | Some h \<Rightarrow> ([(1, h)], 1))))))))))))"

section \<open>Common parts\<close>

definition not_initialized :: go_error where
  "not_initialized = NewError ''credits service is not initialized''
     (code_category ErrorCodeStoreClosed ErrorCategoryUnavailable)"

text \<open>The check \<open>s == nil || s.store == nil\<close> at the head of the methods.\<close>

definition with_store ::
  "'s CreditsService option \<Rightarrow> 'r \<Rightarrow> ('s CreditsService \<Rightarrow> 's CreditStore \<Rightarrow> ('s world, 'r) op) \<Rightarrow>
   ('s world, 'r) op" where
  "with_store s z k =
     (case s of
        None \<Rightarrow> return_err z not_initialized
      | Some sv \<Rightarrow>
          (case sv_store sv of None \<Rightarrow> return_err z not_initialized | Some store \<Rightarrow> k sv store))"

text \<open>The check \<open>s == nil || s.catalog == nil\<close>.\<close>

definition with_pricing ::
  "'s CreditsService option \<Rightarrow> 'r \<Rightarrow> ('s CreditsService \<Rightarrow> ('s world, 'r) op) \<Rightarrow> ('s world, 'r) op" where
  "with_pricing s z k =
     (case s of
        None \<Rightarrow> return_err z not_initialized
      | Some sv \<Rightarrow> if sv_catalog sv = None then return_err z not_initialized else k sv)"

abbreviation emit :: "'s CreditsService \<Rightarrow> CreditEventType \<Rightarrow> string \<Rightarrow> CreditMetadata \<Rightarrow> 's world \<Rightarrow> 's world" where
  "emit sv \<equiv> emitCreditEvent (sv_events sv)"

definition isLeaseExpiredCode :: "string \<Rightarrow> bool" where
  "isLeaseExpiredCode code \<longleftrightarrow> code = ''lease_expired'' \<or> code = ''expired_lease''"

text \<open>The code, the category and the constructor of the error for a business denial.\<close>

definition denial_class :: "string \<Rightarrow> ErrorCode \<times> ErrorCategory" where
  "denial_class code =
     (if code \<in> {''insufficient_credits'', ''insufficient_headroom''}
      then (ErrorCodeInsufficientCredits, ErrorCategoryPaymentRequired)
      else if code \<in> {''concurrency_limit'', ''max_concurrent_reached'', ''concurrency_limit_reached''}
      then (ErrorCodeConcurrencyLimitReached, ErrorCategoryRateLimited)
      else if code = ''quota_exceeded'' then (ErrorCodeQuotaExceeded, ErrorCategoryRateLimited)
      else if code = ''feature_not_entitled'' then (ErrorCodeFeatureNotEntitled, ErrorCategoryForbidden)
      else if code = ''operation_not_allowed'' then (ErrorCodeOperationNotAllowed, ErrorCategoryForbidden)
      else if code \<in> {''lease_expired'', ''expired_lease''}
      then (ErrorCodeLeaseExpired, ErrorCategoryConflict)
      else if code \<in> {''lease_not_found'', ''not_found'', ''missing_lease'', ''released_lease'', ''settled_lease''}
      then (ErrorCodeLeaseNotFound, ErrorCategoryNotFound)
      else if code = ''settlement_conflict'' then (ErrorCodeStore, ErrorCategoryConflict)
      else if code \<in> {''missing_quota_measure'', ''invalid_measure'', ''policy_mismatch'', ''invalid_amount'',
                       ''invalid_request''}
      then (ErrorCodeConfig, ErrorCategoryInvalidRequest)
      else if code \<in> {''refund_rejected'', ''already_refunded'', ''over_refund''}
      then (ErrorCodeRefundRejected, ErrorCategoryConflict)
      else (ErrorCodeCredit, ErrorCategoryConflict))"

text \<open>\<open>NewStoreError\<close> without a code is \<open>NewError\<close> with the code of a store error.\<close>

definition creditBusinessError :: "string \<Rightarrow> string \<Rightarrow> string \<Rightarrow> go_error" where
  "creditBusinessError operation userID code =
     (let code = trim_space code;
          message = ''credit '' @ operation @ '' failed for user '' @ userID @ '': '' @ code;
          details = [(''operation'', VStr operation), (''user_id'', VStr userID),
                     (''store_error_code'', VStr code)];
          (c, k) = denial_class code
      in NewError message ((code_category c k)\<lparr>opt_Details := details\<rparr>))"

definition firstNonEmpty :: "string list \<Rightarrow> string" where
  "firstNonEmpty vs = (case find (\<lambda>v. trim_space v \<noteq> '''') vs of None \<Rightarrow> '''' | Some v \<Rightarrow> v)"

definition amounts_value :: "amount gomap \<Rightarrow> goval" where
  "amounts_value m = VObj (map (\<lambda>(k, a). (k, VDec a)) m)"

section \<open>Balances\<close>

definition SweepExpiredCredits ::
  "'s CreditsService option \<Rightarrow> bool \<Rightarrow> string \<Rightarrow> int \<Rightarrow> ('s world, SweepResult) op" where
  "SweepExpiredCredits s dryRun userID limit = with_store s zero_Sweep (\<lambda>sv store.
     try_op (store_call (st_SweepExpiredCredits (st_corrections store) dryRun userID limit)) zero_Sweep (\<lambda>result.
       if \<not> dryRun \<and> sw_ExpiredCount result > 0
       then perform (emit sv CreditEventExpired (firstNonEmpty [userID, ''system''])
              [(''expired_count'', VInt (sw_ExpiredCount result)),
               (''expired_amount'', VDec (sw_ExpiredAmount result)),
               (''expired_by_bucket'', amounts_value (sw_ExpiredByBucket result))])
            (return_ok result)
       else return_ok result))"

definition maybeLazyExpire :: "'s CreditsService option \<Rightarrow> string \<Rightarrow> ('s world, unit) op" where
  "maybeLazyExpire s userID =
     (case s of
        None \<Rightarrow> return_ok ()
      | Some sv \<Rightarrow>
          if \<not> sv_lazyExpiry sv then return_ok ()
          else try_op (SweepExpiredCredits s False userID 100) () (\<lambda>_. return_ok ()))"

definition GetBalance :: "'s CreditsService option \<Rightarrow> string \<Rightarrow> ('s world, BalanceResult) op" where
  "GetBalance s userID = with_store s zero_Balance (\<lambda>sv store.
     try_op (maybeLazyExpire s userID) zero_Balance (\<lambda>_.
     store_call (st_GetBalance (st_accounting store) userID)))"

definition GetAvailable :: "'s CreditsService option \<Rightarrow> string \<Rightarrow> ('s world, AvailableResult) op" where
  "GetAvailable s userID = with_store s zero_Available (\<lambda>sv store.
     store_call (st_GetAvailable (st_leases store) userID))"

definition AddCredits ::
  "decimal_pkg \<Rightarrow> 's CreditsService option \<Rightarrow> string \<Rightarrow> amount \<Rightarrow> AddCreditsOptions \<Rightarrow>
   ('s world, AddCreditsResult) op" where
  "AddCredits D s userID amount options = with_store s zero_AddCredits (\<lambda>sv store.
     require (requirePositiveAmount amount ''add credits'') zero_AddCredits (\<lambda>_.
     try_op (store_call (st_AddCredits (st_accounting store) userID (QuantizeMoney D amount) options))
       zero_AddCredits (\<lambda>result.
     perform (emit sv CreditEventAdded userID
       [(''entry_id'', VStr (acr_EntryID result)), (''amount'', VDec (acr_Amount result)),
        (''new_balance'', VDec (acr_NewBalance result)), (''type'', VStr (aco_Type options)),
        (''idempotent'', VBool (acr_Idempotent result))])
     (perform (service_rearmLowBalance D sv userID (acr_NewBalance result))
     (return_ok result)))))"

definition DeductCredits ::
  "decimal_pkg \<Rightarrow> 's CreditsService option \<Rightarrow> string \<Rightarrow> amount \<Rightarrow> AddCreditsOptions \<Rightarrow>
   ('s world, AddCreditsResult) op" where
  "DeductCredits D s userID amount options = with_store s zero_AddCredits (\<lambda>sv store.
     require (requirePositiveAmount amount ''deduct credits'') zero_AddCredits (\<lambda>_.
     try_op (store_call (st_AddCredits (st_accounting store) userID (- QuantizeMoney D amount) options))
       zero_AddCredits (\<lambda>result.
     perform (emit sv CreditEventDeducted userID
       [(''entry_id'', VStr (acr_EntryID result)), (''amount'', VDec amount),
        (''new_balance'', VDec (acr_NewBalance result)), (''entry_type'', VStr (aco_Type options)),
        (''idempotent'', VBool (acr_Idempotent result))])
     (if \<not> acr_Idempotent result
      then perform (emitPostDeduction D sv userID PostDeductionSourceRaw
             (zero_Deduction\<lparr>dr_EntryID := acr_EntryID result, dr_UserID := userID, dr_Amount := amount,
                dr_BalanceAfter := Some (acr_NewBalance result)\<rparr>))
           (return_ok result)
      else return_ok result))))"

text \<open>The event of a committed charge, for an immediate charge and for a settlement.\<close>

definition deducted_data :: "DeductionResult \<Rightarrow> amount \<Rightarrow> string \<Rightarrow> CreditMetadata \<Rightarrow> CreditMetadata" where
  "deducted_data result balance model extra =
     [(''entry_id'', VStr (dr_EntryID result)), (''usage_charge_id'', VStr (dr_UsageChargeID result)),
      (''amount'', VDec (dr_Amount result)), (''allowance_consumed'', VDec (dr_AllowanceConsumed result)),
      (''balance_after'', VDec balance), (''model'', VStr model)] @ extra @
     [(''idempotent'', VBool (dr_Idempotent result))]"

definition Deduct ::
  "decimal_pkg \<Rightarrow> 's CreditsService option \<Rightarrow> string \<Rightarrow> amount \<Rightarrow> DeductWithAllowanceOptions \<Rightarrow>
   ('s world, DeductionResult) op" where
  "Deduct D s userID amount options = with_store s zero_Deduction (\<lambda>sv store.
     require (requireNonNegativeAmount amount ''deduct'') zero_Deduction (\<lambda>_.
     try_op (maybeLazyExpire s userID) zero_Deduction (\<lambda>_.
     try_op (store_call (st_DeductWithAllowance (st_accounting store) userID (QuantizeMoney D amount) options))
       zero_Deduction (\<lambda>result.
     if dr_ErrorCode result \<noteq> '''' then
       perform (emit sv CreditEventDeductFailed userID
         [(''amount'', VDec amount), (''error'', VStr (dr_ErrorCode result)),
          (''feature'', VStr (ou_Feature (dwa_Usage options)))])
       (return_err result (creditBusinessError ''deduct'' userID (dr_ErrorCode result)))
     else case dr_BalanceAfter result of
       None \<Rightarrow> return_err result (NewStoreError ''deduct succeeded without a committed balance'' no_options)
     | Some balance \<Rightarrow>
         perform (emit sv CreditEventDeducted userID
           (deducted_data result balance (ou_Model (dwa_Usage options)) []))
         (if \<not> dr_Idempotent result
          then perform (emitPostDeduction D sv userID PostDeductionSourceDeduct result) (return_ok result)
          else return_ok result)))))"

section \<open>Leases\<close>

definition default_mode :: "'s CreditsService \<Rightarrow> string \<Rightarrow> string" where
  "default_mode sv mode =
     (if mode \<noteq> '''' then mode
      else if sv_policy sv = CreditPolicyOverdraft then BillingModeOverdraft else BillingModeStrict)"

definition resolvedLeaseOptions ::
  "'s CreditsService \<Rightarrow> ReserveOptions \<Rightarrow> go_error + CreateLeaseOptions \<times> string" where
  "resolvedLeaseOptions sv options =
     (let operationType = (let t = trim_space (ro_OperationType options) in if t = '''' then ''usage'' else t)
      in
      bind_err (requireStableKey (ro_IdempotencyKey options) ''reserve idempotency key'') (\<lambda>idempotencyKey.
      bind_err (requireBillingMode (default_mode sv (ro_BillingMode options))) (\<lambda>mode.
      let ttl = (if ro_TTL options = 0 then sv_defaultLeaseTTL sv else ro_TTL options) in
      bind_err (requirePositiveDuration ttl ''lease TTL'') (\<lambda>_.
      let floor = (if mode = BillingModeOverdraft then sv_overdraftFloor sv else 0);
          overdraftFloor = (if mode = BillingModeOverdraft then Some floor else None) in
      Inr (\<lparr>clo_Usage = ro_Usage options, clo_IdempotencyKey = idempotencyKey, clo_BillingMode = mode,
            clo_Floor = floor, clo_MaxConcurrent = sv_maxConcurrent sv, clo_OverdraftFloor = overdraftFloor,
            clo_TTL = ttl, clo_Metadata = ro_Metadata options\<rparr>, operationType)))))"

definition Reserve ::
  "decimal_pkg \<Rightarrow> 's CreditsService option \<Rightarrow> string \<Rightarrow> amount \<Rightarrow> ReserveOptions \<Rightarrow>
   ('s world, LeaseResult) op" where
  "Reserve D s userID amount options = with_store s zero_Lease (\<lambda>sv store.
     require (requireNonNegativeAmount amount ''reserve'') zero_Lease (\<lambda>_.
     require (resolvedLeaseOptions sv options) zero_Lease (\<lambda>(storeOptions, operationType).
     try_op (store_call (st_CreateLease (st_leases store) userID (QuantizeMoney D amount) operationType storeOptions))
       zero_Lease (\<lambda>result.
     if lr_ErrorCode result \<noteq> '''' then
       perform (emit sv CreditEventDeductFailed userID
         [(''error'', VStr (lr_ErrorCode result)), (''amount'', VDec amount), (''stage'', VStr ''reserve''),
          (''operation_type'', VStr operationType)])
       (return_err result (creditBusinessError ''reserve'' userID (lr_ErrorCode result)))
     else case (lr_LeaseID result = '''', lr_Amount result, lr_MinimumBalance result, lr_ExpiresAt result) of
       (False, Some leased, Some _, Some expires) \<Rightarrow>
         perform (emit sv CreditEventReserved userID
           [(''lease_id'', VStr (lr_LeaseID result)), (''amount'', VDec leased),
            (''available'', VDec (lr_Available result)), (''billing_mode'', VStr (lr_BillingMode result)),
            (''operation_type'', VStr operationType), (''expires_at'', VTime expires)])
         (return_ok result)
     | _ \<Rightarrow> return_err result (NewStoreError ''reserve succeeded without a committed lease'' no_options)))))"

definition settle_key :: "string \<Rightarrow> string \<Rightarrow> string" where
  "settle_key key leaseID =
     (if trim_space key = '''' then ''lease:'' @ trim_space leaseID @ '':settle'' else key)"

definition lease_expired_event ::
  "'s CreditsService \<Rightarrow> string \<Rightarrow> string \<Rightarrow> string \<Rightarrow> 's world \<Rightarrow> 's world" where
  "lease_expired_event sv userID leaseID code w =
     (if isLeaseExpiredCode code
      then emit sv CreditEventLeaseExpired userID [(''lease_id'', VStr leaseID)] w else w)"

definition Settle ::
  "decimal_pkg \<Rightarrow> 's CreditsService option \<Rightarrow> string \<Rightarrow> string \<Rightarrow> amount \<Rightarrow> SettleOptions \<Rightarrow>
   ('s world, DeductionResult) op" where
  "Settle D s userID leaseID amount options = with_store s zero_Deduction (\<lambda>sv store.
     require (requireNonNegativeAmount amount ''settle'') zero_Deduction (\<lambda>_.
     let key = settle_key (so_IdempotencyKey options) leaseID in
     require (requireStableKey key ''settle idempotency key'') zero_Deduction (\<lambda>_.
     try_op (store_call (st_SettleLease (st_leases store) userID leaseID (QuantizeMoney D amount)
         \<lparr>slo_Usage = so_Usage options, slo_IdempotencyKey = key, slo_Metadata = so_Metadata options\<rparr>))
       zero_Deduction (\<lambda>result.
     if dr_ErrorCode result \<noteq> '''' then
       perform (emit sv CreditEventDeductFailed userID
         [(''error'', VStr (dr_ErrorCode result)), (''amount'', VDec amount), (''stage'', VStr ''settle''),
          (''lease_id'', VStr leaseID)])
       (perform (lease_expired_event sv userID leaseID (dr_ErrorCode result))
       (return_err result (creditBusinessError ''settle'' userID (dr_ErrorCode result))))
     else case dr_BalanceAfter result of
       None \<Rightarrow> return_err result (NewStoreError ''settle succeeded without a committed balance'' no_options)
     | Some balance \<Rightarrow>
         perform (emit sv CreditEventDeducted userID
           (deducted_data result balance (ou_Model (so_Usage options)) [(''lease_id'', VStr leaseID)]))
         (if \<not> dr_Idempotent result
          then perform (emitPostDeduction D sv userID PostDeductionSourceSettle result) (return_ok result)
          else return_ok result)))))"

definition Release :: "'s CreditsService option \<Rightarrow> string \<Rightarrow> string \<Rightarrow> ('s world, ReleaseResult) op" where
  "Release s userID leaseID = with_store s zero_Release (\<lambda>sv store.
     try_op (store_call (st_ReleaseLease (st_leases store) userID leaseID)) zero_Release (\<lambda>result.
       if rl_Released result
       then perform (emit sv CreditEventReservationReleased userID
              [(''lease_id'', VStr leaseID), (''reason'', VStr (rl_Reason result))]) (return_ok result)
       else return_ok result))"

definition Renew ::
  "'s CreditsService option \<Rightarrow> string \<Rightarrow> string \<Rightarrow> duration \<Rightarrow> ('s world, LeaseResult) op" where
  "Renew s userID leaseID ttl = with_store s zero_Lease (\<lambda>sv store.
     try_op (store_call (st_RenewLease (st_leases store) userID leaseID
         (if ttl = 0 then sv_defaultLeaseTTL sv else ttl))) zero_Lease (\<lambda>result.
       if lr_ErrorCode result \<noteq> ''''
       then perform (lease_expired_event sv userID leaseID (lr_ErrorCode result))
              (return_err result (creditBusinessError ''renew'' userID (lr_ErrorCode result)))
       else return_ok result))"

definition CanAfford ::
  "decimal_pkg \<Rightarrow> 's CreditsService option \<Rightarrow> string \<Rightarrow> amount \<Rightarrow> CanAffordOptions \<Rightarrow>
   ('s world, CanAffordResult) op" where
  "CanAfford D s userID worstCase options = with_store s zero_CanAfford (\<lambda>sv store.
     require (requireNonNegativeAmount worstCase ''can afford'') zero_CanAfford (\<lambda>_.
     try_op (store_call (st_GetAvailable (st_leases store) userID)) zero_CanAfford (\<lambda>available.
     require (requireBillingMode (default_mode sv (cao_BillingMode options))) zero_CanAfford (\<lambda>mode.
     let floor = (if mode = BillingModeOverdraft then sv_overdraftFloor sv else 0) in
     try_op (store_call (st_CheckAllowance (st_plans store) userID)) zero_CanAfford (\<lambda>allowance.
     let spendable = av_Available available - floor +
           (case allowance of None \<Rightarrow> 0 | Some a \<Rightarrow> al_AllowanceRemaining a);
         result = \<lparr>ca_Affordable = (spendable \<ge> worstCase), ca_Spendable = spendable,
                   ca_WorstCase = QuantizeMoney D worstCase, ca_Reason = ''''\<rparr>;
         final = (if ca_Affordable result then return_ok result
                  else return_ok (result\<lparr>ca_Reason := ''insufficient_credits''\<rparr>)) in
     if cao_Feature options \<noteq> '''' then
       try_op (store_call (st_CheckFeature (st_plans store) userID (cao_Feature options))) zero_CanAfford (\<lambda>feature.
         if \<not> cf_HasFeature feature
         then return_ok (result\<lparr>ca_Affordable := False, ca_Reason := ''feature_not_entitled''\<rparr>)
         else final)
     else final)))))"

section \<open>Plans, cycles and refunds\<close>

definition SetUserPlan ::
  "'s CreditsService option \<Rightarrow> string \<Rightarrow> string \<Rightarrow> SetUserPlanOptions \<Rightarrow> ('s world, SetUserPlanResult) op" where
  "SetUserPlan s userID planKey options = with_store s zero_SetUserPlan (\<lambda>sv store.
     try_op (store_call (st_SetUserPlan (st_plans store) userID planKey options)) zero_SetUserPlan (\<lambda>result.
     perform (emit sv CreditEventPlanChanged userID
       [(''plan_key'', VStr (sup_PlanKey result)), (''plan_assigned_at'', VTime (sup_PlanAssignedAt result)),
        (''assignment_state'', VStr (sup_AssignmentState result))])
     (return_ok result)))"

text \<open>\<open>time.Duration(days) * 24 * time.Hour\<close>: the product is taken in \<open>int64\<close>.\<close>

definition ttl_days_duration :: "int \<Rightarrow> duration" where
  "ttl_days_duration days = wrap64 (wrap64 (days * 24) * hour)"

definition cycle_expiry ::
  "GrantSubscriptionCycleOptions \<Rightarrow> (gotime option \<Rightarrow> ('s world, 'r) op) \<Rightarrow> ('s world, 'r) op" where
  "cycle_expiry options k =
     (if gsc_TTLDays options > 0
      then inspect (\<lambda>w. perform tick (k (Some (now_reading w + ttl_days_duration (gsc_TTLDays options)))))
      else k (gsc_ExpiresAt options))"

text \<open>The repair of the plan assignment after the grant.\<close>

definition assign_cycle_plan ::
  "'s CreditsService option \<Rightarrow> 's CreditStore \<Rightarrow> string \<Rightarrow> string \<Rightarrow> bool \<Rightarrow> ('s world, unit) op" where
  "assign_cycle_plan s store userID planKey idempotent =
     (if planKey = '''' then return_ok ()
      else
        try_op (if idempotent
                then try_op (store_call (st_GetUserPlan (st_plans store) userID)) False
                       (\<lambda>plan. return_ok (gup_PlanKey plan \<noteq> planKey))
                else return_ok True) () (\<lambda>assignPlan.
        if assignPlan then try_op (SetUserPlan s userID planKey None) () (\<lambda>_. return_ok ())
        else return_ok ()))"

definition GrantSubscriptionCycle ::
  "decimal_pkg \<Rightarrow> 's CreditsService option \<Rightarrow> string \<Rightarrow> amount \<Rightarrow> GrantSubscriptionCycleOptions \<Rightarrow>
   ('s world, AddCreditsResult) op" where
  "GrantSubscriptionCycle D s userID amount options = with_store s zero_AddCredits (\<lambda>sv store.
     require (requirePositiveAmount amount ''subscription cycle grant'') zero_AddCredits (\<lambda>_.
     if gsc_ExpiresAt options \<noteq> None \<and> gsc_TTLDays options \<noteq> 0
     then return_err zero_AddCredits
            (invalid_request ''subscription cycle expiry and TTL days are mutually exclusive'')
     else if gsc_TTLDays options < 0
     then return_err zero_AddCredits (invalid_request ''subscription cycle TTL days must be positive'')
     else cycle_expiry options (\<lambda>expiresAt.
     let bucket = (if gsc_Bucket options = '''' then ''subscription'' else gsc_Bucket options) in
     try_op (store_call (st_AddCredits (st_accounting store) userID (QuantizeMoney D amount)
         \<lparr>aco_Type = ''purchase'', aco_Metadata = gsc_Metadata options, aco_ExpiresAt = expiresAt,
          aco_Bucket = bucket, aco_IdempotencyKey = gsc_IdempotencyKey options\<rparr>)) zero_AddCredits (\<lambda>result.
     try_op (assign_cycle_plan s store userID (gsc_PlanKey options) (acr_Idempotent result)) zero_AddCredits (\<lambda>_.
     perform (emit sv CreditEventCycleRenewed userID
       [(''entry_id'', VStr (acr_EntryID result)), (''amount'', VDec (acr_Amount result)),
        (''new_balance'', VDec (acr_NewBalance result)), (''bucket'', VStr bucket),
        (''plan_key'', VStr (gsc_PlanKey options)), (''idempotency_key'', VStr (gsc_IdempotencyKey options)),
        (''idempotent'', VBool (acr_Idempotent result))])
     (return_ok result))))))"

definition RefundCredits ::
  "'s CreditsService option \<Rightarrow> string \<Rightarrow> amount option \<Rightarrow> string \<Rightarrow> CreditMetadata \<Rightarrow> string \<Rightarrow>
   ('s world, RefundResult) op" where
  "RefundCredits s entryID amount reason metadata idempotencyKey = with_store s zero_Refund (\<lambda>sv store.
     try_op (store_call (st_RefundCredits (st_corrections store) entryID amount reason metadata idempotencyKey))
       zero_Refund (\<lambda>result.
     if rf_ErrorCode result \<noteq> '''' then
       perform (if rf_UserID result \<noteq> ''''
                then emit sv CreditEventRefundFailed (rf_UserID result)
                       [(''entry_id'', VStr entryID), (''error'', VStr (rf_ErrorCode result)),
                        (''reason'', VStr reason)]
                else (\<lambda>w. w))
       (return_err result (creditBusinessError ''refund'' (rf_UserID result) (rf_ErrorCode result)))
     else case (rf_UserID result = '''' \<or> rf_RefundEntryID result = '''', rf_Amount result, rf_NewBalance result) of
       (False, Some refunded, Some balance) \<Rightarrow>
         perform (emit sv CreditEventRefunded (rf_UserID result)
           [(''entry_id'', VStr entryID), (''refund_entry_id'', VStr (rf_RefundEntryID result)),
            (''amount'', VDec refunded), (''new_balance'', VDec balance), (''reason'', VStr reason)])
         (return_ok result)
     | _ \<Rightarrow> return_err result (NewStoreError ''refund succeeded without committed fields'' no_options)))"

definition RevokeCreditsByEntryType ::
  "'s CreditsService option \<Rightarrow> string \<Rightarrow> string \<Rightarrow> ('s world, RevokeCreditsResult) op" where
  "RevokeCreditsByEntryType s userID entryType = with_store s zero_Revoke (\<lambda>sv store.
     try_op (store_call (st_RevokeCreditsByEntryType (st_corrections store) userID entryType)) zero_Revoke (\<lambda>result.
     perform (emit sv CreditEventRevoked userID
       [(''entry_type'', VStr entryType), (''revoked'', VDec (rv_Revoked result)),
        (''balance_after'', VDec (rv_BalanceAfter result))])
     (return_ok result)))"

section \<open>Receipts and teams\<close>

definition RecordUsage ::
  "'s CreditsService option \<Rightarrow> string \<Rightarrow> string \<Rightarrow> amount \<Rightarrow> RecordUsageOptions \<Rightarrow>
   ('s world, UsageRecordResult) op" where
  "RecordUsage s userID operation requested options = with_store s zero_UsageRecord (\<lambda>sv store.
     try_op (store_call (st_RecordUsage (st_accounting store) userID operation requested options))
       zero_UsageRecord (\<lambda>result.
     if ur_ErrorCode result \<noteq> ''''
     then return_err result (creditBusinessError ''record usage'' userID (ur_ErrorCode result))
     else return_ok result))"

definition DeductTeam ::
  "'s CreditsService option \<Rightarrow> string \<Rightarrow> string \<Rightarrow> amount \<Rightarrow> TeamDeductionOptions \<Rightarrow>
   ('s world, TeamDeductionResult) op" where
  "DeductTeam s teamID userID amount options = with_store s zero_TeamDeduction (\<lambda>sv store.
     try_op (maybeLazyExpire s userID) zero_TeamDeduction (\<lambda>_.
     try_op (store_call (st_DeductTeam (st_teams store) teamID userID amount options)) zero_TeamDeduction (\<lambda>result.
     if tdr_ErrorCode result \<noteq> '''' then
       perform (emit sv CreditEventDeductFailed userID
         [(''error'', VStr (tdr_ErrorCode result)), (''amount'', VDec amount), (''team_id'', VStr teamID),
          (''deduct_type'', VStr ''team'')])
       (return_err result (creditBusinessError ''team deduct'' userID (tdr_ErrorCode result)))
     else case tdr_TeamBalanceAfter result of
       None \<Rightarrow> return_err result (NewStoreError ''team deduct succeeded without a committed balance'' no_options)
     | Some balance \<Rightarrow>
         perform (emit sv CreditEventDeducted userID
           [(''entry_id'', VStr (tdr_EntryID result)), (''amount'', VDec (tdr_Amount result)),
            (''team_balance_after'', VDec balance), (''team_id'', VStr teamID),
            (''deduct_type'', VStr ''team'')])
         (return_ok result))))"

end
