(* ===== verification/Credits_Usage.thy ===== *)
theory Credits_Usage
  imports Credits
begin

text \<open>
  The rest of \<open>src/golang/credits.go\<close>: the operations priced by usage metrics, billed operations
  (reserve, work, settle), and the methods that pass a call on to the store.
\<close>

section \<open>Priced metadata\<close>

definition metricDimensionString :: "goval gomap \<Rightarrow> string \<Rightarrow> string" where
  "metricDimensionString dimensions key =
     (case map_of dimensions key of Some (VStr v) \<Rightarrow> trim_space v | _ \<Rightarrow> '''')"

definition pricedOperationOptions :: "UsageMetrics \<Rightarrow> string \<Rightarrow> OperationUsageOptions" where
  "pricedOperationOptions metrics feature =
     \<lparr>ou_Feature = feature,
      ou_Model = metricDimensionString (um_Dimensions metrics) ''model'',
      ou_Region = metricDimensionString (um_Dimensions metrics) ''region'',
      ou_Measures = um_Measures metrics,
      ou_Dimensions = um_Dimensions metrics\<rparr>"

definition pricedMetadata ::
  "decimal_pkg \<Rightarrow> UsageMetrics \<Rightarrow> CostBreakdown \<Rightarrow> string \<Rightarrow> CreditMetadata \<Rightarrow> CreditMetadata" where
  "pricedMetadata D metrics breakdown idempotencyKey caller =
     map_put ''idempotency_key'' (VStr idempotencyKey)
       (map_put ''breakdown_total'' (VStr (dec_to_string D (Total breakdown)))
       (map_put ''dimensions'' (VObj (um_Dimensions metrics))
       (map_put ''measures'' (VObj (map (\<lambda>(k, a). (k, VStr (dec_to_string D a))) (um_Measures metrics)))
       (map_put ''operation'' (VStr (um_Operation metrics)) (CreditMetadata_Clone caller)))))"

section \<open>Quota events\<close>

definition quota_data :: "QuotaEvent \<Rightarrow> CreditMetadata" where
  "quota_data event =
     [(''quota_key'', VStr (qe_QuotaKey event)), (''operation'', VStr (qe_Operation event)),
      (''measure'', VStr (qe_Measure event)), (''threshold_percent'', qe_ThresholdPercent event),
      (''usage_charge_id'', VStr (qe_UsageChargeID event)),
      (''idempotency_key'', VStr (qe_IdempotencyKey event))]"

definition quota_event :: "'s CreditsService \<Rightarrow> string \<Rightarrow> QuotaEvent \<Rightarrow> 's world \<Rightarrow> 's world" where
  "quota_event sv userID event w =
     (if qe_EventType event = ''blocked'' then emit sv CreditEventQuotaBlocked userID (quota_data event) w
      else if qe_EventType event = ''threshold''
      then emit sv CreditEventQuotaThreshold userID (quota_data event) w
      else w)"

definition emitQuotaEvents :: "'s CreditsService option \<Rightarrow> string \<Rightarrow> string \<Rightarrow> 's world \<Rightarrow> 's world" where
  "emitQuotaEvents s userID idempotencyKey w =
     (if trim_space idempotencyKey = '''' then w
      else state_of (with_store s () (\<lambda>sv store.
        bind_op (store_call (st_ListQuotaEvents (st_plans store) userID
            \<lparr>lqe_After = None, lqe_AfterID = '''', lqe_Limit = 100, lqe_IdempotencyKey = idempotencyKey\<rparr>))
          (\<lambda>events err. case err of
             Some _ \<Rightarrow> return_ok ()
           | None \<Rightarrow> perform (fold (quota_event sv userID) events) (return_ok ()))) w))"

section \<open>Operations priced by usage\<close>

abbreviation service_catalog :: "'s CreditsService \<Rightarrow> 's CatalogService option" where
  "service_catalog sv \<equiv> sv_catalog sv"

text \<open>The end of the priced operations: quota events are read after a commit, or a quota denial.\<close>

definition finish_priced ::
  "'s CreditsService option \<Rightarrow> string \<Rightarrow> string \<Rightarrow> ('r \<Rightarrow> string) \<Rightarrow> ('r \<Rightarrow> bool) \<Rightarrow> ('s world, 'r) op \<Rightarrow>
   ('s world, 'r) op" where
  "finish_priced s userID key code replayed m =
     bind_op m (\<lambda>result err.
       case err of
         Some e \<Rightarrow>
           perform (if code result = ''quota_exceeded'' then emitQuotaEvents s userID key else (\<lambda>w. w))
             (return_err result e)
       | None \<Rightarrow>
           perform (if replayed result then (\<lambda>w. w) else emitQuotaEvents s userID key) (return_ok result))"

definition DeductUsage ::
  "decimal_pkg \<Rightarrow> config_pkgs \<Rightarrow> 's CreditsService option \<Rightarrow> string \<Rightarrow> UsageMetrics \<Rightarrow> PricedUsageOptions \<Rightarrow>
   ('s world, DeductionResult) op" where
  "DeductUsage D L s userID metrics options = with_pricing s zero_Deduction (\<lambda>sv.
     require (requireStableKey (puo_IdempotencyKey options) ''deduct idempotency key'') zero_Deduction (\<lambda>key.
     try_op (CalculateForUser D L (service_catalog sv) userID metrics) zero_Deduction (\<lambda>breakdown.
     finish_priced s userID key dr_ErrorCode dr_Idempotent
       (Deduct D s userID (Total breakdown)
         \<lparr>dwa_Usage = pricedOperationOptions metrics (puo_Feature options), dwa_IdempotencyKey = key,
          dwa_Operation = um_Operation metrics,
          dwa_Metadata = pricedMetadata D metrics breakdown key (puo_Metadata options)\<rparr>))))"

definition DeductFlatJob ::
  "decimal_pkg \<Rightarrow> config_pkgs \<Rightarrow> 's CreditsService option \<Rightarrow> string \<Rightarrow> string \<Rightarrow> PricedUsageOptions \<Rightarrow>
   ('s world, DeductionResult) op" where
  "DeductFlatJob D L s userID jobName options =
     DeductUsage D L s userID \<lparr>um_Operation = jobName, um_Measures = [(''jobs'', 1)], um_Dimensions = [],
       um_Metadata = []\<rparr> options"

definition ReserveUsage ::
  "decimal_pkg \<Rightarrow> config_pkgs \<Rightarrow> 's CreditsService option \<Rightarrow> string \<Rightarrow> UsageMetrics \<Rightarrow> ReserveOptions \<Rightarrow>
   ('s world, LeaseResult) op" where
  "ReserveUsage D L s userID metrics options = with_pricing s zero_Lease (\<lambda>sv.
     try_op (CalculateForUser D L (service_catalog sv) userID metrics) zero_Lease (\<lambda>breakdown.
     let key = ro_IdempotencyKey options;
         options' = options\<lparr>
           ro_OperationType := (if trim_space (ro_OperationType options) = '''' then um_Operation metrics
                                else ro_OperationType options),
           ro_Usage := pricedOperationOptions metrics (ou_Feature (ro_Usage options)),
           ro_Metadata := pricedMetadata D metrics breakdown key (ro_Metadata options)\<rparr>
     in finish_priced s userID key lr_ErrorCode (\<lambda>_. False) (Reserve D s userID (Total breakdown) options')))"

definition SettleUsage ::
  "decimal_pkg \<Rightarrow> config_pkgs \<Rightarrow> 's CreditsService option \<Rightarrow> string \<Rightarrow> string \<Rightarrow> UsageMetrics \<Rightarrow> SettleOptions \<Rightarrow>
   ('s world, DeductionResult) op" where
  "SettleUsage D L s userID leaseID metrics options = with_pricing s zero_Deduction (\<lambda>sv.
     try_op (CalculateForLease D L (service_catalog sv) userID leaseID metrics) zero_Deduction (\<lambda>breakdown.
     let key = settle_key (so_IdempotencyKey options) leaseID;
         options' = \<lparr>so_Usage = pricedOperationOptions metrics (ou_Feature (so_Usage options)),
           so_IdempotencyKey = key,
           so_Metadata = pricedMetadata D metrics breakdown key (so_Metadata options)\<rparr>
     in finish_priced s userID key dr_ErrorCode dr_Idempotent
          (Settle D s userID leaseID (Total breakdown) options')))"

definition CanAffordUsage ::
  "decimal_pkg \<Rightarrow> config_pkgs \<Rightarrow> 's CreditsService option \<Rightarrow> string \<Rightarrow> UsageMetrics \<Rightarrow> CanAffordOptions \<Rightarrow>
   ('s world, CanAffordResult) op" where
  "CanAffordUsage D L s userID metrics options = with_pricing s zero_CanAfford (\<lambda>sv.
     try_op (CalculateForUser D L (service_catalog sv) userID metrics) zero_CanAfford (\<lambda>breakdown.
     CanAfford D s userID (Total breakdown)
       (options\<lparr>cao_OperationType := (if trim_space (cao_OperationType options) = '''' then um_Operation metrics
                                     else cao_OperationType options)\<rparr>)))"

definition RecordUsageMetrics ::
  "decimal_pkg \<Rightarrow> config_pkgs \<Rightarrow> 's CreditsService option \<Rightarrow> string \<Rightarrow> UsageMetrics \<Rightarrow>
   PricedUsageRecordOptions \<Rightarrow> ('s world, UsageRecordResult) op" where
  "RecordUsageMetrics D L s userID metrics options = with_pricing s zero_UsageRecord (\<lambda>sv.
     require (requireStableKey (pur_IdempotencyKey options) ''record usage idempotency key'') zero_UsageRecord (\<lambda>key.
     try_op (CalculateForUser D L (service_catalog sv) userID metrics) zero_UsageRecord (\<lambda>breakdown.
     RecordUsage s userID (um_Operation metrics) (Total breakdown)
       \<lparr>ruo_Usage = pricedOperationOptions metrics '''', ruo_IdempotencyKey = key,
        ruo_Metadata = pricedMetadata D metrics breakdown key (pur_Metadata options)\<rparr>)))"

text \<open>\<open>DeductTeamUsage\<close> asks the store for the team balance when the price is zero; the store of the
  service is then there, or the code would have a nil interface (\<open>None\<close> is not reached by a service
  built with \<open>NewCreditsService\<close>).\<close>

definition DeductTeamUsage ::
  "decimal_pkg \<Rightarrow> config_pkgs \<Rightarrow> 's CreditsService option \<Rightarrow> string \<Rightarrow> string \<Rightarrow> UsageMetrics \<Rightarrow>
   PricedTeamDeductionOptions \<Rightarrow> ('s world, TeamDeductionResult) op" where
  "DeductTeamUsage D L s teamID userID metrics options = with_pricing s zero_TeamDeduction (\<lambda>sv.
     require (requireStableKey (ptd_IdempotencyKey options) ''team deduction idempotency key'')
       zero_TeamDeduction (\<lambda>key.
     try_op (CalculateForUser D L (service_catalog sv) userID metrics) zero_TeamDeduction (\<lambda>breakdown.
     if Total breakdown = 0 then
       try_op (maybeLazyExpire s userID) zero_TeamDeduction (\<lambda>_.
       with_store s zero_TeamDeduction (\<lambda>sv store.
       try_op (store_call (st_GetTeamBalance (st_teams store) teamID)) zero_TeamDeduction (\<lambda>team.
         case team of
           None \<Rightarrow> return_err zero_TeamDeduction (NewError ''team was not found''
                     (code_category ErrorCodeCommerceResourceNotFound ErrorCategoryNotFound))
         | Some t \<Rightarrow> return_ok (zero_TeamDeduction\<lparr>tdr_TeamID := teamID, tdr_UserID := userID,
                       tdr_TeamBalanceAfter := Some (tb_Balance t)\<rparr>))))
     else DeductTeam s teamID userID (Total breakdown)
       \<lparr>tdo_IdempotencyKey = key, tdo_Operation = um_Operation metrics,
        tdo_Metadata = pricedMetadata D metrics breakdown key (ptd_Metadata options)\<rparr>)))"

section \<open>Billed operations\<close>

definition scopedOperationKey :: "string \<Rightarrow> string \<Rightarrow> go_error + string" where
  "scopedOperationKey operationKey end_text =
     bind_err (requireStableKey operationKey ''operation key'') (\<lambda>key.
     bind_err (requireText end_text ''operation key suffix'') (\<lambda>suffix.
     requireStableKey (key @ '':'' @ suffix) ''operation idempotency key''))"

definition normalizeSettlementAttempts :: "int \<Rightarrow> go_error + int" where
  "normalizeSettlementAttempts attempts =
     (if attempts = 0 then Inr 3
      else if attempts < 1 then Inl (invalid_request ''settlement attempts must be positive'')
      else Inr attempts)"

record 's BilledOperation =
  bl_service :: "'s CreditsService option"
  bl_userID :: string
  bl_leaseID :: string
  bl_operationKey :: string
  bl_feature :: string
  bl_metadata :: CreditMetadata

text \<open>The two \<open>Begin\<close> methods differ in the reservation they make.\<close>

definition begin_operation ::
  "'s CreditsService option \<Rightarrow> string \<Rightarrow> ('e, 'x) BeginOptions_scheme \<Rightarrow>
   (ReserveOptions \<Rightarrow> ('s world, LeaseResult) op) \<Rightarrow> ('s world, 's BilledOperation option) op" where
  "begin_operation s userID options reserve = with_store s None (\<lambda>sv store.
     require (requireStableKey (bo_OperationKey options) ''operation key'') None (\<lambda>operationKey.
     require (scopedOperationKey operationKey ''reserve'') None (\<lambda>reserveKey.
     try_op (reserve \<lparr>ro_Usage = zero_Usage\<lparr>ou_Feature := bo_Feature options\<rparr>, ro_IdempotencyKey = reserveKey,
         ro_OperationType = bo_OperationType options, ro_BillingMode = bo_BillingMode options,
         ro_TTL = bo_TTL options, ro_Metadata = bo_Metadata options\<rparr>) None (\<lambda>lease.
     if lr_LeaseID lease = ''''
     then return_err None (NewStoreError ''reserve succeeded without a lease ID'' no_options)
     else return_ok (Some \<lparr>bl_service = s, bl_userID = userID, bl_leaseID = lr_LeaseID lease,
            bl_operationKey = operationKey, bl_feature = bo_Feature options,
            bl_metadata = CreditMetadata_Clone (bo_Metadata options)\<rparr>)))))"

definition BeginBilledOperation ::
  "decimal_pkg \<Rightarrow> 's CreditsService option \<Rightarrow> string \<Rightarrow> (amount, 'x) BeginOptions_scheme \<Rightarrow>
   ('s world, 's BilledOperation option) op" where
  "BeginBilledOperation D s userID options =
     begin_operation s userID options (Reserve D s userID (bo_Estimate options))"

definition BeginBilledUsageOperation ::
  "decimal_pkg \<Rightarrow> config_pkgs \<Rightarrow> 's CreditsService option \<Rightarrow> string \<Rightarrow> (UsageMetrics, 'x) BeginOptions_scheme \<Rightarrow>
   ('s world, 's BilledOperation option) op" where
  "BeginBilledUsageOperation D L s userID options =
     begin_operation s userID options (ReserveUsage D L s userID (bo_Estimate options))"

definition ResumeBilledOperation ::
  "'s CreditsService option \<Rightarrow> string \<Rightarrow> string \<Rightarrow> string \<Rightarrow> string \<Rightarrow> CreditMetadata \<Rightarrow>
   ('s world, 's BilledOperation option) op" where
  "ResumeBilledOperation s userID leaseID operationKey feature metadata = with_store s None (\<lambda>sv store.
     require (requireText userID ''user ID'') None (\<lambda>userID.
     require (requireText leaseID ''lease ID'') None (\<lambda>leaseID.
     require (requireStableKey operationKey ''operation key'') None (\<lambda>operationKey.
     return_ok (Some \<lparr>bl_service = s, bl_userID = userID, bl_leaseID = leaseID, bl_operationKey = operationKey,
       bl_feature = feature, bl_metadata = CreditMetadata_Clone metadata\<rparr>)))))"

definition operation_not_initialized :: go_error where
  "operation_not_initialized = NewError ''billed operation is not initialized''
     (code_category ErrorCodeStoreClosed ErrorCategoryUnavailable)"

text \<open>The check \<open>o == nil || o.service == nil\<close>; a handle is never nil where it is used here.\<close>

definition with_operation ::
  "'s BilledOperation \<Rightarrow> 'r \<Rightarrow> ('s world, 'r) op \<Rightarrow> ('s world, 'r) op" where
  "with_operation op z m = (if bl_service op = None then return_err z operation_not_initialized else m)"

definition operation_Renew :: "'s BilledOperation \<Rightarrow> duration \<Rightarrow> ('s world, LeaseResult) op" where
  "operation_Renew op ttl =
     with_operation op zero_Lease (Renew (bl_service op) (bl_userID op) (bl_leaseID op) ttl)"

definition operation_Release :: "'s BilledOperation \<Rightarrow> ('s world, ReleaseResult) op" where
  "operation_Release op =
     with_operation op zero_Release (Release (bl_service op) (bl_userID op) (bl_leaseID op))"

definition operation_settle ::
  "'s BilledOperation \<Rightarrow> (SettleOptions \<Rightarrow> ('s world, DeductionResult) op) \<Rightarrow> ('s world, DeductionResult) op" where
  "operation_settle op settle = with_operation op zero_Deduction
     (require (scopedOperationKey (bl_operationKey op) ''settle'') zero_Deduction (\<lambda>settleKey.
      settle \<lparr>so_Usage = zero_Usage\<lparr>ou_Feature := bl_feature op\<rparr>, so_IdempotencyKey = settleKey,
        so_Metadata = CreditMetadata_Clone (bl_metadata op)\<rparr>))"

definition operation_Settle ::
  "decimal_pkg \<Rightarrow> 's BilledOperation \<Rightarrow> amount \<Rightarrow> ('s world, DeductionResult) op" where
  "operation_Settle D op actual =
     operation_settle op (Settle D (bl_service op) (bl_userID op) (bl_leaseID op) actual)"

definition operation_SettleUsage ::
  "decimal_pkg \<Rightarrow> config_pkgs \<Rightarrow> 's BilledOperation \<Rightarrow> UsageMetrics \<Rightarrow> ('s world, DeductionResult) op" where
  "operation_SettleUsage D L op actual =
     operation_settle op (SettleUsage D L (bl_service op) (bl_userID op) (bl_leaseID op) actual)"

text \<open>
  \<open>RunBilled\<close> and \<open>RunBilledUsage\<close>. \<open>Begin\<close> returns a handle whenever it returns no error.
  The settlement loop: \<open>n\<close> attempts are left, \<open>cancelled i\<close> says whether the context is cancelled when
  it is asked after the attempt \<open>i\<close>; \<open>err\<close> is the error of the last attempt.
\<close>

fun settle_loop ::
  "nat \<Rightarrow> nat \<Rightarrow> (nat \<Rightarrow> bool) \<Rightarrow> goval \<Rightarrow> ('w, DeductionResult) op \<Rightarrow> go_error option \<Rightarrow>
   ('w, RunBilledResult) op" where
  "settle_loop 0 i cancelled workResult settle err =
     (case err of None \<Rightarrow> return_ok zero_RunBilled | Some e \<Rightarrow> return_err zero_RunBilled e)"
| "settle_loop (Suc n) i cancelled workResult settle err =
     bind_op settle (\<lambda>deduction err.
       case err of
         None \<Rightarrow> return_ok \<lparr>rb_Result = workResult, rb_Deduction = deduction\<rparr>
       | Some e \<Rightarrow>
           if \<not> IsRetryableError e \<or> cancelled i then return_err zero_RunBilled e
           else settle_loop n (Suc i) cancelled workResult settle (Some e))"

text \<open>After the lease is admitted: the work has failed and the lease is released, or it has
  succeeded and is settled.\<close>

definition conclude_operation ::
  "'s BilledOperation \<Rightarrow> go_error + (goval \<times> 'e) \<Rightarrow> nat \<Rightarrow> (nat \<Rightarrow> bool) \<Rightarrow>
   ('s BilledOperation \<Rightarrow> 'e \<Rightarrow> ('s world, DeductionResult) op) \<Rightarrow> ('s world, RunBilledResult) op" where
  "conclude_operation operation work attempts cancelled settle =
     (case work of
        Inl workErr \<Rightarrow> bind_op (operation_Release operation) (\<lambda>_ _. return_err zero_RunBilled workErr)
      | Inr (workResult, actual) \<Rightarrow>
          settle_loop attempts 0 cancelled workResult (settle operation actual) None)"

definition run_billed ::
  "string \<Rightarrow> ('e, 'x) RunOptions_scheme \<Rightarrow> (nat \<Rightarrow> bool) \<Rightarrow> ('s world, 's BilledOperation option) op \<Rightarrow>
   ('s BilledOperation \<Rightarrow> 'e \<Rightarrow> ('s world, DeductionResult) op) \<Rightarrow> ('s world, RunBilledResult) op" where
  "run_billed missing options cancelled start settle =
     (case bo_DoWork options of
        None \<Rightarrow> return_err zero_RunBilled (invalid_request missing)
      | Some work \<Rightarrow>
          require (normalizeSettlementAttempts (bo_SettlementAttempts options)) zero_RunBilled (\<lambda>attempts.
          try_op start zero_RunBilled (\<lambda>started.
          case started of
            None \<Rightarrow> return_err zero_RunBilled operation_not_initialized
          | Some operation \<Rightarrow> conclude_operation operation work (nat attempts) cancelled settle)))"

definition RunBilled ::
  "decimal_pkg \<Rightarrow> 's CreditsService option \<Rightarrow> (nat \<Rightarrow> bool) \<Rightarrow> string \<Rightarrow> RunBilledOptions \<Rightarrow>
   ('s world, RunBilledResult) op" where
  "RunBilled D s cancelled userID options =
     run_billed ''billed work callback is required'' options cancelled
       (BeginBilledOperation D s userID options) (operation_Settle D)"

definition RunBilledUsage ::
  "decimal_pkg \<Rightarrow> config_pkgs \<Rightarrow> 's CreditsService option \<Rightarrow> (nat \<Rightarrow> bool) \<Rightarrow> string \<Rightarrow>
   RunBilledUsageOptions \<Rightarrow> ('s world, RunBilledResult) op" where
  "RunBilledUsage D L s cancelled userID options =
     run_billed ''billed usage work callback is required'' options cancelled
       (BeginBilledUsageOperation D L s userID options) (operation_SettleUsage D L)"

section \<open>Calls passed on to the store\<close>

definition CreditsService_Close :: "'s CreditsService option \<Rightarrow> ('s world, unit) op" where
  "CreditsService_Close s =
     (case s of
        None \<Rightarrow> return_ok ()
      | Some sv \<Rightarrow> (case sv_store sv of None \<Rightarrow> return_ok () | Some store \<Rightarrow> store_call (st_Close store)))"

abbreviation pass ::
  "'s CreditsService option \<Rightarrow> 'r \<Rightarrow> ('s CreditStore \<Rightarrow> ('s, 'r) rpc) \<Rightarrow> ('s world, 'r) op" where
  "pass s z f \<equiv> with_store s z (\<lambda>sv store. store_call (f store))"

definition UnsetUserPlan :: "'s CreditsService option \<Rightarrow> string \<Rightarrow> ('s world, UnsetUserPlanResult) op" where
  "UnsetUserPlan s userID = pass s '''' (\<lambda>store. st_UnsetUserPlan (st_plans store) userID)"

definition GetUserPlan :: "'s CreditsService option \<Rightarrow> string \<Rightarrow> ('s world, GetUserPlanResult) op" where
  "GetUserPlan s userID = pass s zero_UserPlan (\<lambda>store. st_GetUserPlan (st_plans store) userID)"

definition CheckFeature :: "'s CreditsService option \<Rightarrow> string \<Rightarrow> string \<Rightarrow> ('s world, CheckFeatureResult) op" where
  "CheckFeature s userID feature =
     pass s zero_CheckFeature (\<lambda>store. st_CheckFeature (st_plans store) userID feature)"

definition GetBucketBalances :: "'s CreditsService option \<Rightarrow> string \<Rightarrow> ('s world, BucketBalancesResult) op" where
  "GetBucketBalances s userID = pass s zero_Buckets (\<lambda>store. st_GetBucketBalances (st_leases store) userID)"

definition CheckAllowance :: "'s CreditsService option \<Rightarrow> string \<Rightarrow> ('s world, AllowanceResult option) op" where
  "CheckAllowance s userID = pass s None (\<lambda>store. st_CheckAllowance (st_plans store) userID)"

definition GetActiveCatalog :: "'s CreditsService option \<Rightarrow> ('s world, CatalogRevision option) op" where
  "GetActiveCatalog s = pass s None (\<lambda>store. st_GetActiveCatalog (st_catalog store))"

definition PublishAndActivateCatalog ::
  "config_pkgs \<Rightarrow> 's CreditsService option \<Rightarrow> goval gomap \<Rightarrow> string \<Rightarrow> CatalogRollout \<Rightarrow> ('s world, string) op" where
  "PublishAndActivateCatalog L s config label rollout = with_store s '''' (\<lambda>sv store.
     if sv_catalog sv = None then return_err '''' not_initialized
     else PublishAndActivate L (sv_catalog sv) config label rollout)"

definition PublishCatalogDraft ::
  "config_pkgs \<Rightarrow> 's CreditsService option \<Rightarrow> goval gomap \<Rightarrow> string \<Rightarrow> ('s world, string) op" where
  "PublishCatalogDraft L s config label = with_store s '''' (\<lambda>sv store.
     if sv_catalog sv = None then return_err '''' not_initialized
     else PublishDraft L (sv_catalog sv) config label)"

definition GetCatalogHistory :: "'s CreditsService option \<Rightarrow> ('s world, CatalogRevisionSummary list) op" where
  "GetCatalogHistory s = pass s [] (\<lambda>store. st_GetCatalogHistory (st_catalog store))"

definition GetCatalogRevision :: "'s CreditsService option \<Rightarrow> int \<Rightarrow> ('s world, CatalogRevision option) op" where
  "GetCatalogRevision s version = pass s None (\<lambda>store. st_GetCatalogRevision (st_catalog store) version)"

definition ActivateCatalogRevision ::
  "'s CreditsService option \<Rightarrow> int \<Rightarrow> CatalogRollout \<Rightarrow> ('s world, string) op" where
  "ActivateCatalogRevision s version rollout =
     pass s '''' (\<lambda>store. st_ActivateCatalogRevision (st_catalog store) version rollout)"

definition SetPlanRevisionPin :: "'s CreditsService option \<Rightarrow> string \<Rightarrow> bool \<Rightarrow> ('s world, bool) op" where
  "SetPlanRevisionPin s userID pinned =
     pass s False (\<lambda>store. st_SetPlanRevisionPin (st_plans store) userID pinned)"

definition ApplyDuePlanChanges :: "'s CreditsService option \<Rightarrow> int \<Rightarrow> ('s world, int) op" where
  "ApplyDuePlanChanges s limit = pass s 0 (\<lambda>store. st_ApplyDuePlanChanges (st_plans store) limit)"

definition StartPlanMigration ::
  "'s CreditsService option \<Rightarrow> string \<Rightarrow> string \<Rightarrow> ('s world, PlanMigrationStartResult) op" where
  "StartPlanMigration s fromPlanID toPlanID =
     pass s '''' (\<lambda>store. st_StartPlanMigration (st_plans store) fromPlanID toPlanID)"

definition MigratePlanBatch ::
  "'s CreditsService option \<Rightarrow> string \<Rightarrow> int \<Rightarrow> ('s world, PlanMigrationBatchResult) op" where
  "MigratePlanBatch s migrationID batchSize =
     pass s zero_MigrationBatch (\<lambda>store. st_MigratePlanBatch (st_plans store) migrationID batchSize)"

definition GetQuotaState :: "'s CreditsService option \<Rightarrow> string \<Rightarrow> string \<Rightarrow> ('s world, QuotaState list) op" where
  "GetQuotaState s userID quotaKey = pass s [] (\<lambda>store. st_GetQuotaState (st_plans store) userID quotaKey)"

definition ListQuotaEvents ::
  "'s CreditsService option \<Rightarrow> string \<Rightarrow> ListQuotaEventsOptions \<Rightarrow> ('s world, QuotaEvent list) op" where
  "ListQuotaEvents s userID options = pass s [] (\<lambda>store. st_ListQuotaEvents (st_plans store) userID options)"

definition ExecuteGrantProgram ::
  "'s CreditsService option \<Rightarrow> ExecuteGrantProgramRequest \<Rightarrow> ('s world, GrantProgramAwardResult list) op" where
  "ExecuteGrantProgram s request = pass s [] (\<lambda>store. st_ExecuteGrantProgram (st_leases store) request)"

definition ListLedgerEntries ::
  "'s CreditsService option \<Rightarrow> string \<Rightarrow> ListLedgerEntriesOptions \<Rightarrow> ('s world, LedgerPage) op" where
  "ListLedgerEntries s userID options =
     pass s zero_LedgerPage (\<lambda>store. st_ListLedgerEntries (st_ledger store) userID options)"

definition ListUsageEntries ::
  "'s CreditsService option \<Rightarrow> string \<Rightarrow> ListLedgerEntriesOptions \<Rightarrow> ('s world, LedgerPage) op" where
  "ListUsageEntries s userID options =
     pass s zero_LedgerPage (\<lambda>store. st_ListUsageEntries (st_ledger store) userID options)"

definition GetLedgerEntry :: "'s CreditsService option \<Rightarrow> string \<Rightarrow> string \<Rightarrow> ('s world, LedgerEntry option) op" where
  "GetLedgerEntry s userID entryID = pass s None (\<lambda>store. st_GetLedgerEntry (st_ledger store) userID entryID)"

definition CreateTeam ::
  "'s CreditsService option \<Rightarrow> string \<Rightarrow> string \<Rightarrow> CreateTeamOptions \<Rightarrow> ('s world, CreateTeamResult) op" where
  "CreateTeam s ownerUserID name options =
     pass s zero_CreateTeam (\<lambda>store. st_CreateTeam (st_teams store) ownerUserID name options)"

definition GetTeamBalance :: "'s CreditsService option \<Rightarrow> string \<Rightarrow> ('s world, TeamBalanceResult option) op" where
  "GetTeamBalance s teamID = pass s None (\<lambda>store. st_GetTeamBalance (st_teams store) teamID)"

definition AddTeamMember ::
  "'s CreditsService option \<Rightarrow> string \<Rightarrow> string \<Rightarrow> AddTeamMemberOptions \<Rightarrow> ('s world, AddTeamMemberResult) op" where
  "AddTeamMember s teamID userID options =
     pass s zero_AddMember (\<lambda>store. st_AddTeamMember (st_teams store) teamID userID options)"

definition GetTeamMembers :: "'s CreditsService option \<Rightarrow> string \<Rightarrow> ('s world, TeamMember list) op" where
  "GetTeamMembers s teamID = pass s [] (\<lambda>store. st_GetTeamMembers (st_teams store) teamID)"

definition RemoveTeamMember :: "'s CreditsService option \<Rightarrow> string \<Rightarrow> string \<Rightarrow> ('s world, bool) op" where
  "RemoveTeamMember s teamID userID = pass s False (\<lambda>store. st_RemoveTeamMember (st_teams store) teamID userID)"

text \<open>Reports go to the analytics backend, receipts to the usage store.\<close>

definition with_analytics ::
  "'s CreditsService option \<Rightarrow> 'r \<Rightarrow> ('s UsageAnalyticsStore \<Rightarrow> ('s, 'r) rpc) \<Rightarrow> ('s world, 'r) op" where
  "with_analytics s z f =
     (case Option.bind s sv_analytics of
        None \<Rightarrow> return_err z not_initialized
      | Some backend \<Rightarrow> store_call (f backend))"

definition SpendByUser :: "'s CreditsService option \<Rightarrow> gotime \<Rightarrow> gotime \<Rightarrow> ('s world, SpendByUserRow list) op" where
  "SpendByUser s start stop = with_analytics s [] (\<lambda>backend. st_SpendByUser backend start stop)"

definition SpendByModel :: "'s CreditsService option \<Rightarrow> gotime \<Rightarrow> gotime \<Rightarrow> ('s world, SpendByModelRow list) op" where
  "SpendByModel s start stop = with_analytics s [] (\<lambda>backend. st_SpendByModel backend start stop)"

definition TopUsers :: "'s CreditsService option \<Rightarrow> int \<Rightarrow> gotime \<Rightarrow> gotime \<Rightarrow> ('s world, TopUserRow list) op" where
  "TopUsers s limit start stop = with_analytics s [] (\<lambda>backend. st_TopUsers backend limit start stop)"

definition DailySpend :: "'s CreditsService option \<Rightarrow> gotime \<Rightarrow> gotime \<Rightarrow> ('s world, DailySpendRow list) op" where
  "DailySpend s start stop = with_analytics s [] (\<lambda>backend. st_DailySpend backend start stop)"

definition service_AggregateStats :: "'s CreditsService option \<Rightarrow> gotime \<Rightarrow> gotime \<Rightarrow> ('s world, AggregateStats) op" where
  "service_AggregateStats s start stop =
     with_analytics s zero_Stats (\<lambda>backend. st_AggregateStats backend start stop)"

definition ListUsageCharges ::
  "'s CreditsService option \<Rightarrow> string \<Rightarrow> ListUsageChargesOptions \<Rightarrow> ('s world, UsageChargePage) op" where
  "ListUsageCharges s userID options =
     (case Option.bind s sv_usageStore of
        None \<Rightarrow> return_err zero_ChargePage not_initialized
      | Some backend \<Rightarrow> store_call (backend userID options))"

end
