(* ===== verification/Credits_Properties.thy ===== *)
theory Credits_Properties
  imports Credits_Usage
begin

text \<open>
  What the credits service promises. \<open>service_step\<close> is one call of a state-changing method; every
  step moves the store by permitted calls only, adds to the trace and keeps the low-balance state
  well formed. The other theorems say when a call has no effect, when hooks run, how denials are
  classified, and how billed operations settle.
\<close>

section \<open>Services over a store\<close>

definition service_ok :: "'s CreditStore \<Rightarrow> 's CreditsService \<Rightarrow> bool" where
  "service_ok store sv \<longleftrightarrow> sv_store sv = Some store \<and> catalog_over store (sv_catalog sv) \<and>
     1 \<le> sv_lowBalanceMaxTracked sv \<and> sv_overdraftFloor sv \<le> 0"

lemma keeps_with_store:
  assumes "service_ok store sv" and "keeps (service_keeps store m) (k sv store)"
  shows "keeps (service_keeps store m) (with_store (Some sv) z k)"
  using assms by (simp add: with_store_def service_ok_def)

lemma keeps_with_pricing:
  "keeps (service_keeps store m) (k sv) \<Longrightarrow> keeps (service_keeps store m) (with_pricing (Some sv) z k)"
  by (auto simp: with_pricing_def intro: keep.keeps_rules)

lemma keeps_lease_expired: "service_keeps store m w (lease_expired_event sv u l c w)"
  by (simp add: lease_expired_event_def keeps_emit keep.frame_refl)

lemma keeps_cycle_expiry:
  "(\<And>t. keeps (service_keeps store m) (k t)) \<Longrightarrow> keeps (service_keeps store m) (cycle_expiry options k)"
  unfolding cycle_expiry_def by (intro frame_rules)

lemma default_mode_floor:
  "service_ok store sv \<Longrightarrow> resolvedLeaseOptions sv options = Inr (lo, ty) \<Longrightarrow> lease_options_ok lo"
  by (auto simp: resolvedLeaseOptions_def bind_err_Inr_iff Let_def lease_options_ok_def
      requireStableKey_Inr requirePositiveDuration_Inr service_ok_def BillingModeOverdraft_def
      dest: requireBillingMode_Inr split: if_splits)

abbreviation step_keeps :: "'s CreditsService \<Rightarrow> 's CreditStore \<Rightarrow> ('s world, 'r) op \<Rightarrow> bool" where
  "step_keeps sv store m \<equiv> keeps (service_keeps store (sv_lowBalanceMaxTracked sv)) m"

context decimal_package
begin

lemma nonneg_quantized:
  "requireNonNegativeAmount a t = Inr b \<Longrightarrow> 0 \<le> QuantizeMoney D a"
  by (auto simp: requireNonNegativeAmount_def intro: quantize_nonneg split: if_splits)

end

locale credits_service = decimal_package D for D :: decimal_pkg +
  fixes store :: "'s CreditStore" and sv :: "'s CreditsService"
  assumes service: "service_ok store sv"
begin

lemma max_tracked: "1 \<le> sv_lowBalanceMaxTracked sv"
  using service by (simp add: service_ok_def)

lemma over: "catalog_over store (sv_catalog sv)"
  using service by (simp add: service_ok_def)

lemmas service_rules =
  keeps_with_store [OF service] keeps_with_pricing frame_rules keeps_rearm
  keeps_post_deduction [OF max_tracked] keeps_lease_expired keeps_cycle_expiry
  keeps_calculate_user [OF over] keeps_calculate_lease [OF over] keeps_publish [OF over]

lemma sweep_keeps: "step_keeps sv store (SweepExpiredCredits (Some sv) dry u n)"
  unfolding SweepExpiredCredits_def by (intro service_rules)

lemma lazy_keeps: "step_keeps sv store (maybeLazyExpire (Some sv) u)"
  unfolding maybeLazyExpire_def option.case by (intro service_rules sweep_keeps)

lemma balance_keeps: "step_keeps sv store (GetBalance (Some sv) u)"
  unfolding GetBalance_def by (intro service_rules lazy_keeps)

lemma add_keeps: "step_keeps sv store (AddCredits D (Some sv) u a options)"
  unfolding AddCredits_def by (intro service_rules quantize_money)

lemma raw_keeps: "step_keeps sv store (DeductCredits D (Some sv) u a options)"
  unfolding DeductCredits_def by (intro service_rules) simp

lemma deduct_keeps: "step_keeps sv store (Deduct D (Some sv) u a options)"
  unfolding Deduct_def by (intro service_rules lazy_keeps quantize_money nonneg_quantized; assumption)

lemma reserve_keeps: "step_keeps sv store (Reserve D (Some sv) u a options)"
  unfolding Reserve_def
  by (intro service_rules quantize_money nonneg_quantized default_mode_floor [OF service])
     (auto intro!: service_rules split: bool.split option.split)

lemma settle_keeps: "step_keeps sv store (Settle D (Some sv) u l a options)"
  unfolding Settle_def Let_def
  by (intro service_rules quantize_money nonneg_quantized)
     (auto simp: requireStableKey_Inr stable_key_def)

lemma release_keeps: "step_keeps sv store (Release (Some sv) u l)"
  unfolding Release_def by (intro service_rules)

lemma renew_keeps: "step_keeps sv store (Renew (Some sv) u l ttl)"
  unfolding Renew_def by (intro service_rules)

lemma plan_keeps: "step_keeps sv store (SetUserPlan (Some sv) u plan options)"
  unfolding SetUserPlan_def by (intro service_rules)

lemma assign_keeps: "step_keeps sv store (assign_cycle_plan (Some sv) store u plan b)"
  unfolding assign_cycle_plan_def by (intro service_rules plan_keeps)

lemma cycle_keeps: "step_keeps sv store (GrantSubscriptionCycle D (Some sv) u a options)"
  unfolding GrantSubscriptionCycle_def Let_def
  by (intro service_rules assign_keeps quantize_money)

lemma refund_keeps: "step_keeps sv store (RefundCredits (Some sv) entry a reason metadata key)"
  unfolding RefundCredits_def
  by (intro service_rules) (auto intro!: service_rules keep.frame_refl split: bool.split option.split)

lemma revoke_keeps: "step_keeps sv store (RevokeCreditsByEntryType (Some sv) u ty)"
  unfolding RevokeCreditsByEntryType_def by (intro service_rules)

lemma record_keeps: "step_keeps sv store (RecordUsage (Some sv) u opn a options)"
  unfolding RecordUsage_def by (intro service_rules)

lemma team_keeps: "step_keeps sv store (DeductTeam (Some sv) t u a options)"
  unfolding DeductTeam_def by (intro service_rules lazy_keeps)

lemma quota_event_keeps: "service_keeps store m w (fold (quota_event sv u) events w)"
proof -
  have "service_keeps store m v (quota_event sv u event v)" for event v
    by (simp add: quota_event_def keeps_emit keep.frame_refl)
  then show ?thesis by (induction events arbitrary: w) (auto intro: keep.frame_refl keep.frame_trans)
qed

lemma quota_keeps: "service_keeps store m w (emitQuotaEvents (Some sv) u key w)"
proof -
  have "keeps (service_keeps store m) (with_store (Some sv) () (\<lambda>sv store.
        bind_op (store_call (st_ListQuotaEvents (st_plans store) u qo))
          (\<lambda>events err. case err of
             Some _ \<Rightarrow> return_ok ()
           | None \<Rightarrow> perform (fold (quota_event sv u) events) (return_ok ()))))" for qo
    by (intro service_rules quota_event_keeps)
  then show ?thesis by (simp add: emitQuotaEvents_def keeps_def keep.frame_refl)
qed

lemma finish_keeps:
  "keeps (service_keeps store m) op \<Longrightarrow>
   keeps (service_keeps store m) (finish_priced (Some sv) u key code replayed op)"
  unfolding finish_priced_def by (intro service_rules) (auto intro: quota_keeps keep.frame_refl)

lemma usage_keeps:
  "step_keeps sv store (DeductUsage D L (Some sv) u metrics puo)"
  "step_keeps sv store (DeductFlatJob D L (Some sv) u job puo)"
  "step_keeps sv store (ReserveUsage D L (Some sv) u metrics ro)"
  "step_keeps sv store (SettleUsage D L (Some sv) u l metrics so)"
  "step_keeps sv store (RecordUsageMetrics D L (Some sv) u metrics pur)"
  "step_keeps sv store (DeductTeamUsage D L (Some sv) t u metrics ptd)"
  unfolding DeductUsage_def DeductFlatJob_def ReserveUsage_def SettleUsage_def RecordUsageMetrics_def
    DeductTeamUsage_def Let_def
  by (intro service_rules finish_keeps deduct_keeps reserve_keeps settle_keeps record_keeps team_keeps
      lazy_keeps)+

lemma begin_keeps:
  "(\<And>ro. step_keeps sv store (reserve ro)) \<Longrightarrow> step_keeps sv store (begin_operation (Some sv) u options reserve)"
  unfolding begin_operation_def by (intro service_rules)

lemma begin_service:
  "begin_operation s u options reserve w = ((Some op, err), w') \<Longrightarrow> bl_service op = s"
  by (auto simp: begin_operation_def with_store_def op_simps require_def split: option.splits sum.splits prod.splits if_splits)

lemma operation_keeps:
  assumes "bl_service op = Some sv"
  shows "step_keeps sv store (operation_Renew op ttl)" "step_keeps sv store (operation_Release op)"
    "step_keeps sv store (operation_Settle D op a)" "step_keeps sv store (operation_SettleUsage D L op metrics)"
  unfolding operation_Renew_def operation_Release_def operation_Settle_def operation_SettleUsage_def
    operation_settle_def with_operation_def assms
  by (intro service_rules renew_keeps release_keeps settle_keeps usage_keeps)+

lemma settle_loop_keeps:
  "step_keeps sv store m \<Longrightarrow> step_keeps sv store (settle_loop n i cancelled x m err)"
  by (induction n arbitrary: i err) (auto intro!: service_rules split: option.split)

lemma conclude_keeps:
  assumes "bl_service op = Some sv" and "\<And>e. step_keeps sv store (settle op e)"
  shows "step_keeps sv store (conclude_operation op work n cancelled settle)"
  unfolding conclude_operation_def
  by (intro service_rules settle_loop_keeps operation_keeps assms)

lemma run_keeps:
  assumes "step_keeps sv store start"
    and "\<And>op err w w'. start w = ((Some op, err), w') \<Longrightarrow> bl_service op = Some sv"
    and "\<And>op e. bl_service op = Some sv \<Longrightarrow> step_keeps sv store (settle op e)"
  shows "step_keeps sv store (run_billed missing options cancelled start settle)"
  unfolding run_billed_def
  by (intro keep.keeps_return keep.keeps_require keep.keeps_option keep.keeps_try_result conclude_keeps assms)
     (use assms(2) in blast)+

lemma billed_keeps:
  "step_keeps sv store (BeginBilledOperation D (Some sv) u bo)"
  "step_keeps sv store (BeginBilledUsageOperation D L (Some sv) u buo)"
  "step_keeps sv store (RunBilled D (Some sv) cancelled u ro)"
  "step_keeps sv store (RunBilledUsage D L (Some sv) cancelled u ruo)"
  unfolding BeginBilledOperation_def BeginBilledUsageOperation_def RunBilled_def RunBilledUsage_def
  by (intro begin_keeps reserve_keeps usage_keeps run_keeps operation_keeps; (erule begin_service | assumption))+

lemma passed_keeps:
  "step_keeps sv store (UnsetUserPlan (Some sv) u)"
  "step_keeps sv store (PublishAndActivateCatalog L (Some sv) config label rollout)"
  "step_keeps sv store (PublishCatalogDraft L (Some sv) config label)"
  "step_keeps sv store (ActivateCatalogRevision (Some sv) version rollout)"
  "step_keeps sv store (SetPlanRevisionPin (Some sv) u pinned)"
  "step_keeps sv store (ApplyDuePlanChanges (Some sv) n)"
  "step_keeps sv store (StartPlanMigration (Some sv) from to)"
  "step_keeps sv store (MigratePlanBatch (Some sv) m n)"
  "step_keeps sv store (ExecuteGrantProgram (Some sv) request)"
  "step_keeps sv store (CreateTeam (Some sv) u name toptions)"
  "step_keeps sv store (AddTeamMember (Some sv) t u moptions)"
  "step_keeps sv store (RemoveTeamMember (Some sv) t u)"
  unfolding UnsetUserPlan_def PublishAndActivateCatalog_def PublishCatalogDraft_def
    ActivateCatalogRevision_def SetPlanRevisionPin_def ApplyDuePlanChanges_def StartPlanMigration_def
    MigratePlanBatch_def ExecuteGrantProgram_def CreateTeam_def AddTeamMember_def RemoveTeamMember_def
  by (intro service_rules)+

lemmas all_keeps =
  sweep_keeps balance_keeps add_keeps raw_keeps deduct_keeps reserve_keeps settle_keeps release_keeps
  renew_keeps cycle_keeps plan_keeps refund_keeps revoke_keeps record_keeps team_keeps usage_keeps
  billed_keeps passed_keeps

lemmas step_rules = all_keeps [unfolded keeps_def, rule_format]

end

section \<open>Steps of the service\<close>

text \<open>One call of a method that may change the state of the store.\<close>

inductive service_step ::
  "decimal_pkg \<Rightarrow> config_pkgs \<Rightarrow> 's CreditsService \<Rightarrow> 's world \<Rightarrow> 's world \<Rightarrow> bool"
  for D L sv where
  sweep: "service_step D L sv w (state_of (SweepExpiredCredits (Some sv) dry u n w))"
| balance: "service_step D L sv w (state_of (GetBalance (Some sv) u w))"
| add: "service_step D L sv w (state_of (AddCredits D (Some sv) u a ao w))"
| raw: "service_step D L sv w (state_of (DeductCredits D (Some sv) u a ao w))"
| deduct: "service_step D L sv w (state_of (Deduct D (Some sv) u a dwa w))"
| deduct_usage: "service_step D L sv w (state_of (DeductUsage D L (Some sv) u metrics puo w))"
| flat_job: "service_step D L sv w (state_of (DeductFlatJob D L (Some sv) u job puo w))"
| reserve: "service_step D L sv w (state_of (Reserve D (Some sv) u a ro w))"
| reserve_usage: "service_step D L sv w (state_of (ReserveUsage D L (Some sv) u metrics ro w))"
| settle: "service_step D L sv w (state_of (Settle D (Some sv) u l a so w))"
| settle_usage: "service_step D L sv w (state_of (SettleUsage D L (Some sv) u l metrics so w))"
| release: "service_step D L sv w (state_of (Release (Some sv) u l w))"
| renew: "service_step D L sv w (state_of (Renew (Some sv) u l ttl w))"
| cycle: "service_step D L sv w (state_of (GrantSubscriptionCycle D (Some sv) u a gsc w))"
| set_plan: "service_step D L sv w (state_of (SetUserPlan (Some sv) u plan assigned w))"
| unset_plan: "service_step D L sv w (state_of (UnsetUserPlan (Some sv) u w))"
| refund: "service_step D L sv w (state_of (RefundCredits (Some sv) entry amt reason metadata key w))"
| revoke: "service_step D L sv w (state_of (RevokeCreditsByEntryType (Some sv) u ty w))"
| record_usage: "service_step D L sv w (state_of (RecordUsage (Some sv) u opn a ruo w))"
| record_metrics: "service_step D L sv w (state_of (RecordUsageMetrics D L (Some sv) u metrics pur w))"
| team: "service_step D L sv w (state_of (DeductTeam (Some sv) t u a tdo w))"
| team_usage: "service_step D L sv w (state_of (DeductTeamUsage D L (Some sv) t u metrics ptd w))"
| begin_op: "service_step D L sv w (state_of (BeginBilledOperation D (Some sv) u (bo :: BeginBilledOperationOptions) w))"
| begin_usage: "service_step D L sv w
    (state_of (BeginBilledUsageOperation D L (Some sv) u (buo :: BeginBilledUsageOperationOptions) w))"
| run: "service_step D L sv w (state_of (RunBilled D (Some sv) cancelled u rbo w))"
| run_usage: "service_step D L sv w (state_of (RunBilledUsage D L (Some sv) cancelled u rbu w))"
| publish: "service_step D L sv w (state_of (PublishAndActivateCatalog L (Some sv) config label rollout w))"
| draft: "service_step D L sv w (state_of (PublishCatalogDraft L (Some sv) config label w))"
| activate: "service_step D L sv w (state_of (ActivateCatalogRevision (Some sv) version rollout w))"
| pin: "service_step D L sv w (state_of (SetPlanRevisionPin (Some sv) u pinned w))"
| due: "service_step D L sv w (state_of (ApplyDuePlanChanges (Some sv) n w))"
| migrate: "service_step D L sv w (state_of (StartPlanMigration (Some sv) from to w))"
| migrate_batch: "service_step D L sv w (state_of (MigratePlanBatch (Some sv) m n w))"
| program: "service_step D L sv w (state_of (ExecuteGrantProgram (Some sv) request w))"
| create_team: "service_step D L sv w (state_of (CreateTeam (Some sv) u name cto w))"
| add_member: "service_step D L sv w (state_of (AddTeamMember (Some sv) t u atm w))"
| remove_member: "service_step D L sv w (state_of (RemoveTeamMember (Some sv) t u w))"

lemma service_step_keeps:
  assumes "credits_service D store sv" and "service_step D L sv w w'"
  shows "service_keeps store (sv_lowBalanceMaxTracked sv) w w'"
  using assms(2) by cases (simp_all only: credits_service.step_rules [OF assms(1)])

lemma service_steps_keep:
  assumes "credits_service D store sv" and "(service_step D L sv)\<^sup>*\<^sup>* w w'"
  shows "service_keeps store (sv_lowBalanceMaxTracked sv) w w'"
  using assms(2)
  by (induction rule: rtranclp_induct)
     (auto intro: keep.frame_refl keep.frame_trans service_step_keeps [OF assms(1)])

section \<open>A service over any store\<close>

definition default_options :: "'s CreditsServiceOptions" where
  "default_options = \<lparr>cso_Policy = '''', cso_OverdraftFloor = None, cso_MaxConcurrent = None,
     cso_DefaultLeaseTTL = 0, cso_EventSink = True, cso_LowBalance = [], cso_LowBalanceConfig = None,
     cso_LazyExpiry = False, cso_CatalogCacheTTL = None, cso_PostDeduction = None, cso_Analytics = None,
     cso_UsageStore = None\<rparr>"

text \<open>The service \<open>NewCreditsService\<close> builds over a store with the default options.\<close>

definition default_service :: "decimal_pkg \<Rightarrow> 's CreditStore \<Rightarrow> 's CreditsService" where
  "default_service D store = fst (projr (NewCreditsService D (Some store) default_options))"

lemma NewCreditsService_Inr:
  assumes "NewCreditsService D store options = Inr (sv, hooks)"
  shows "\<exists>st. store = Some st \<and> service_ok st sv \<and> sv_lowBalance sv = sort_by (\<lambda>x y. x > y) (low_balance_thresholds options)
    \<and> \<not> list_ex (\<lambda>t. t < 0) (low_balance_thresholds options)
    \<and> (sv_policy sv = CreditPolicyStrictPrepaid \<or> sv_policy sv = CreditPolicyOverdraft)
    \<and> 0 < sv_defaultLeaseTTL sv \<and> sv_defaultLeaseTTL sv mod second = 0"
proof (cases store)
  case None
  then show ?thesis using assms by (simp add: NewCreditsService_def)
next
  case (Some st)
  have lim: "checked_floor D f = Inr x \<Longrightarrow> x \<le> 0" for f x
    by (auto simp: checked_floor_def split: option.splits if_splits)
  have cat: "NewCatalogServiceWithOptions (Some st) t = Inr c \<Longrightarrow> catalog_over st (Some c)" for t c
    by (auto simp: NewCatalogServiceWithOptions_def catalog_over_def split: if_splits)
  from assms show ?thesis
    unfolding Some NewCreditsService_def Let_def option.case guard_err_Inr_iff bind_err_Inr_iff
      requirePositiveDuration_Inr sum.inject prod.inject service_ok_def
    by (elim conjE exE, hypsubst, intro exI [of _ st] conjI) (simp_all add: lim cat not_less)
qed

lemma default_service_built:
  "NewCreditsService D (Some store) default_options = Inr (default_service D store, [], 0)"
  by (simp add: default_service_def NewCreditsService_def default_options_def Let_def checked_floor_def
      requirePositiveDuration_def low_balance_limit_def low_balance_thresholds_def defaultLeaseTTL_def
      second_def NewCatalogServiceWithOptions_def defaultCatalogCacheTTL_def)

lemma built_service:
  assumes "decimal_package D" and "NewCreditsService D (Some store) options = Inr (sv, hooks)"
  shows "credits_service D store sv"
  using assms NewCreditsService_Inr [OF assms(2)]
  by (auto simp: credits_service_def credits_service_axioms_def)

interpretation std: credits_service ref_decimal store "default_service ref_decimal store" for store
  by (rule built_service [OF ref.decimal_package_axioms default_service_built])

section \<open>Construction\<close>

lemma insert_by_sorted:
  "sorted_wrt (\<ge>) xs \<Longrightarrow> sorted_wrt (\<ge>) (insert_by (\<lambda>x y. x > y) x xs)" for x :: "'a :: linorder"
  by (induction xs) auto

lemma sort_by_sorted: "sorted_wrt (\<ge>) (sort_by (\<lambda>x y. x > y) xs)" for xs :: "'a :: linorder list"
  by (induction xs) (simp_all add: sort_by_def insert_by_sorted)

text \<open>C34. A service that \<open>NewCreditsService\<close> returns is over the given store: its overdraft floor is
  not positive, its default lease time is a positive number of whole seconds, its policy is one of the
  two presets, at least one user is tracked, and its low-balance thresholds are the
  configured ones, none negative, in descending order. Without a store there is no service.\<close>

theorem constructed_service_valid:
  assumes "NewCreditsService D store options = Inr (sv, hooks)"
  shows "(\<exists>st. store = Some st \<and> sv_store sv = Some st) \<and> sv_overdraftFloor sv \<le> 0 \<and>
    0 < sv_defaultLeaseTTL sv \<and> sv_defaultLeaseTTL sv mod second = 0 \<and>
    sv_policy sv \<in> {''strict_prepaid'', ''overdraft''} \<and> 1 \<le> sv_lowBalanceMaxTracked sv \<and>
    set (sv_lowBalance sv) = set (low_balance_thresholds options) \<and>
    sorted_wrt (\<ge>) (sv_lowBalance sv) \<and> (\<forall>t \<in> set (sv_lowBalance sv). 0 \<le> t)"
proof -
  obtain st where st: "store = Some st" "service_ok st sv"
    "sv_lowBalance sv = sort_by (\<lambda>x y. x > y) (low_balance_thresholds options)"
    "\<not> list_ex (\<lambda>t. t < 0) (low_balance_thresholds options)"
    "sv_policy sv = CreditPolicyStrictPrepaid \<or> sv_policy sv = CreditPolicyOverdraft"
    "0 < sv_defaultLeaseTTL sv" "sv_defaultLeaseTTL sv mod second = 0"
    using NewCreditsService_Inr [OF assms] by (elim exE conjE) (rule that)
  have "\<forall>t \<in> set (low_balance_thresholds options). 0 \<le> t"
    using st(4) by (auto simp: list_ex_iff not_less)
  moreover have "sv_store sv = Some st" "1 \<le> sv_lowBalanceMaxTracked sv" "sv_overdraftFloor sv \<le> 0"
    using st(2) by (simp_all add: service_ok_def)
  moreover have "sv_policy sv \<in> {''strict_prepaid'', ''overdraft''}"
    using st(5) unfolding CreditPolicyStrictPrepaid_def CreditPolicyOverdraft_def by blast
  ultimately show ?thesis using st(1,6,7) unfolding st(3)
    by (intro conjI sort_by_sorted) simp_all
qed

theorem constructed_service_valid_witness:
  "0 < sv_defaultLeaseTTL (default_service ref_decimal ref_store)"
  using constructed_service_valid [OF default_service_built] by blast

section \<open>The service and its store\<close>

text \<open>C1. Refinement of the store contract. Any sequence of calls of a constructed service moves the
  store only by permitted calls: grants and charges on the money grid, charges, reservations and
  settlements that are not negative, reservations with valid options, settlements with a valid
  key. So every invariant that the permitted calls keep is kept by the service; the trace of
  effects only grows, and the low-balance state stays well formed.\<close>

theorem service_refines_store:
  assumes "decimal_package D" and "NewCreditsService D (Some store) options = Inr (sv, hooks)"
    and "(service_step D L sv)\<^sup>*\<^sup>* w w'"
  shows "(store_move store)\<^sup>*\<^sup>* (w_store w) (w_store w') \<and> prefix (w_trace w) (w_trace w') \<and>
    (tracker_wf (sv_lowBalanceMaxTracked sv) (w_tracker w) \<longrightarrow>
       tracker_wf (sv_lowBalanceMaxTracked sv) (w_tracker w')) \<and>
    (\<forall>I. (\<forall>s s'. I s \<longrightarrow> store_move store s s' \<longrightarrow> I s') \<longrightarrow> I (w_store w) \<longrightarrow> I (w_store w'))"
proof -
  have k: "service_keeps store (sv_lowBalanceMaxTracked sv) w w'"
    by (rule service_steps_keep [OF built_service [OF assms(1,2)] assms(3)])
  have "I y" if "(store_move store)\<^sup>*\<^sup>* x y" "\<forall>s s'. I s \<longrightarrow> store_move store s s' \<longrightarrow> I s'" "I x" for I x y
    using that by (induction rule: rtranclp_induct) auto
  with k show ?thesis unfolding service_keeps_def by blast
qed

definition sample_service :: "ref_state CreditsService" where
  "sample_service = default_service ref_decimal ref_store"

definition sample_grant :: AddCreditsOptions where
  "sample_grant = \<lparr>aco_Type = ''purchase'', aco_Metadata = [], aco_ExpiresAt = None, aco_Bucket = '''',
     aco_IdempotencyKey = ''k1''\<rparr>"

theorem service_refines_store_witness:
  "(store_move ref_store)\<^sup>*\<^sup>* (w_store sample_world)
     (w_store (state_of (AddCredits ref_decimal (Some sample_service) ''u1'' 5 sample_grant sample_world)))"
proof -
  have "service_step ref_decimal L sample_service sample_world
      (state_of (AddCredits ref_decimal (Some sample_service) ''u1'' 5 sample_grant sample_world))" for L
    by (rule service_step.add)
  then show ?thesis
    using service_refines_store [OF ref.decimal_package_axioms default_service_built r_into_rtranclp]
    unfolding sample_service_def by blast
qed

section \<open>Rejected calls\<close>

text \<open>C13. A call with an amount that its method does not accept (not positive for a grant, a raw
  deduction or a subscription cycle, negative for a charge, a reservation, a settlement or a check)
  returns the zero result and an error that says so, which is never retried, and leaves
  everything as it was: the store is not called and no event is emitted.\<close>

theorem rejected_amounts:
  assumes "sv_store sv = Some store"
  shows "(a \<le> 0 \<longrightarrow> (\<forall>m \<in> {AddCredits D (Some sv) u a ao, DeductCredits D (Some sv) u a ao,
              GrantSubscriptionCycle D (Some sv) u a gsc}.
            \<exists>e. m w = ((zero_AddCredits, Some e), w) \<and> Code e = ErrorCodeConfig \<and>
              Category e = ErrorCategoryInvalidRequest \<and> \<not> IsRetryableError e)) \<and>
    (a < 0 \<longrightarrow> (\<forall>m \<in> {Deduct D (Some sv) u a dwa, Settle D (Some sv) u l a so}.
            \<exists>e. m w = ((zero_Deduction, Some e), w) \<and> Code e = ErrorCodeConfig \<and>
              Category e = ErrorCategoryInvalidRequest \<and> \<not> IsRetryableError e) \<and>
       (\<exists>e. Reserve D (Some sv) u a ro w = ((zero_Lease, Some e), w) \<and> Code e = ErrorCodeConfig) \<and>
       (\<exists>e. CanAfford D (Some sv) u a cao w = ((zero_CanAfford, Some e), w) \<and> Code e = ErrorCodeConfig))"
  using assms
  by (simp add: AddCredits_def DeductCredits_def GrantSubscriptionCycle_def Deduct_def Settle_def Reserve_def
      CanAfford_def with_store_def requirePositiveAmount_def requireNonNegativeAmount_def op_simps)
     (simp add: invalid_request_def errorf_def no_options_def)

lemma sample_service_store: "sv_store sample_service = Some ref_store"
  using NewCreditsService_Inr [OF default_service_built [of ref_decimal ref_store]]
  by (auto simp: sample_service_def service_ok_def)

theorem rejected_amounts_witness:
  "\<exists>e. DeductCredits ref_decimal (Some sample_service) ''u1'' 0 sample_grant sample_world =
       ((zero_AddCredits, Some e), sample_world) \<and> \<not> IsRetryableError e"
  using rejected_amounts [OF sample_service_store, of 0] by blast

section \<open>Hooks\<close>

definition hook_runs :: "effect list \<Rightarrow> (string \<times> PostDeductionContext) list" where
  "hook_runs trace = List.map_filter (\<lambda>x. case x of HookRun h ctx \<Rightarrow> Some (h, ctx) | _ \<Rightarrow> None) trace"

text \<open>A step that runs no hook and registers none.\<close>

definition quiet_step :: "'s world \<Rightarrow> 's world \<Rightarrow> bool" where
  "quiet_step w w' \<longleftrightarrow> w_hooks w' = w_hooks w \<and> hook_runs (w_trace w') = hook_runs (w_trace w)"

interpretation quiet: op_frame quiet_step
  by unfold_locales (simp_all add: quiet_step_def)

lemma hook_runs_append [simp]: "hook_runs (xs @ ys) = hook_runs xs @ hook_runs ys"
  by (simp add: hook_runs_def List.map_filter_def)

lemma hook_runs_one [simp]:
  "hook_runs [Emitted e] = []" "hook_runs [LowBalanceTriggered e] = []" "hook_runs [HookRun h c] = [(h, c)]"
  by (simp_all add: hook_runs_def List.map_filter_def)

lemma quiet_emit: "quiet_step w (emitCreditEvent sink ty u d w)"
  by (simp add: quiet_step_def emitCreditEvent_def append_effect_def tick_def)

lemma quiet_store_call: "keeps quiet_step (store_call f)"
  by (simp add: keeps_def quiet_step_def store_call_def split: prod.split)

lemma quiet_triggered: "quiet_step w (append_effect (LowBalanceTriggered e) (tick w))"
  by (simp add: quiet_step_def append_effect_def tick_def)

lemma quiet_fire: "quiet_step w (fireLowBalance sv u b t w)"
  unfolding fireLowBalance_def Let_def
  by (auto intro: quiet_emit quiet.frame_trans [OF quiet_emit quiet_triggered])

lemma quiet_tracker: "quiet_step w (w\<lparr>w_tracker := t\<rparr>)"
  by (simp add: quiet_step_def)

lemma quiet_low_balance: "quiet_step w (service_emitLowBalance D sv u b a w)"
  by (auto simp: service_emitLowBalance_def Let_def split: prod.split option.split
      intro: quiet_tracker quiet.frame_trans [OF quiet_tracker quiet_fire])

lemma quiet_lazy: "keeps quiet_step (maybeLazyExpire s u)"
proof -
  have "keeps quiet_step (SweepExpiredCredits s False u 100)"
    unfolding SweepExpiredCredits_def with_store_def by (intro quiet.keeps_rules quiet_store_call quiet_emit)
  then show ?thesis unfolding maybeLazyExpire_def by (intro quiet.keeps_rules)
qed

lemma hooks_run: "hook_runs (w_trace (runPostDeductionHooks c w)) =
    hook_runs (w_trace w) @ map (\<lambda>h. (h, c)) (hooks_in_order w)"
proof -
  have "hook_runs (w_trace (fold (\<lambda>h. append_effect (HookRun h c)) hs v)) =
      hook_runs (w_trace v) @ map (\<lambda>h. (h, c)) hs" for hs and v :: "'a world"
    by (induction hs arbitrary: v) (simp_all add: append_effect_def)
  then show ?thesis by (simp add: runPostDeductionHooks_def)
qed

lemma quiet_order: "quiet_step w w' \<Longrightarrow> hooks_in_order w' = hooks_in_order w"
  by (simp add: quiet_step_def hooks_in_order_def)

lemma post_deduction_runs:
  assumes "dr_BalanceAfter r = Some b"
  shows "hook_runs (w_trace (emitPostDeduction D sv u source r w)) = hook_runs (w_trace w) @
     map (\<lambda>h. (h, \<lparr>pdc_UserID = u, pdc_Source = source, pdc_Deduction = r\<rparr>)) (hooks_in_order w)"
proof -
  define v where "v = (if b < 0 then emitCreditEvent (sv_events sv) CreditEventOverdraft u
      [(''balance'', VDec b), (''amount'', VDec (dr_Amount r))] w else w)"
  let ?x = "service_emitLowBalance D sv u (b + dr_Amount r) b v"
  have "quiet_step w v" by (simp add: v_def quiet_emit quiet.frame_refl)
  then have q: "quiet_step w ?x" by (rule quiet.frame_trans [OF _ quiet_low_balance])
  have "emitPostDeduction D sv u source r w =
      runPostDeductionHooks \<lparr>pdc_UserID = u, pdc_Source = source, pdc_Deduction = r\<rparr> ?x"
    using assms by (simp add: emitPostDeduction_def v_def cloneDeductionResult_def)
  then show ?thesis using q by (simp add: hooks_run quiet_order [OF q]) (simp add: quiet_step_def)
qed

text \<open>The runs a committed charge causes, after a quiet step from \<open>w\<close>.\<close>

lemma charge_runs:
  assumes "quiet_step w v" and "dr_BalanceAfter r = Some b"
  shows "hook_runs (w_trace (emitPostDeduction D sv u source r (emitCreditEvent sink ty u d v))) =
     hook_runs (w_trace w) @
     map (\<lambda>h. (h, \<lparr>pdc_UserID = u, pdc_Source = source, pdc_Deduction = r\<rparr>)) (hooks_in_order w)"
    and "hook_runs (w_trace (emitCreditEvent sink ty u d v)) = hook_runs (w_trace w)"
proof -
  have q: "quiet_step w (emitCreditEvent sink ty u d v)"
    by (rule quiet.frame_trans [OF assms(1) quiet_emit])
  then show "hook_runs (w_trace (emitCreditEvent sink ty u d v)) = hook_runs (w_trace w)"
    by (simp add: quiet_step_def)
  with q show "hook_runs (w_trace (emitPostDeduction D sv u source r (emitCreditEvent sink ty u d v))) =
     hook_runs (w_trace w) @
     map (\<lambda>h. (h, \<lparr>pdc_UserID = u, pdc_Source = source, pdc_Deduction = r\<rparr>)) (hooks_in_order w)"
    by (simp add: post_deduction_runs [OF assms(2)] quiet_order [OF q])
qed

definition runs_added ::
  "'s world \<Rightarrow> string \<Rightarrow> PostDeductionSource \<Rightarrow> DeductionResult \<Rightarrow> bool \<Rightarrow> 's world \<Rightarrow> bool" where
  "runs_added w u source d committed w' \<longleftrightarrow>
     hook_runs (w_trace w') = hook_runs (w_trace w) @
       (if committed
        then map (\<lambda>h. (h, \<lparr>pdc_UserID = u, pdc_Source = source, pdc_Deduction = d\<rparr>)) (hooks_in_order w) else [])"

lemma runs_added_quiet: "quiet_step w v \<Longrightarrow> runs_added w u source d False v"
  by (simp add: runs_added_def quiet_step_def)

lemma runs_added_charge:
  assumes "quiet_step w v" and "dr_BalanceAfter d = Some b"
  shows "runs_added w u source d True (emitPostDeduction D sv u source d (emitCreditEvent sink ty u data v))"
  using charge_runs(1) [OF assms] by (simp add: runs_added_def)

lemma quiet_wp: "keeps quiet_step m \<Longrightarrow> (\<And>x e v. quiet_step w v \<Longrightarrow> P x e v) \<Longrightarrow> wp m P w"
  by (simp add: wp_run keeps_def)

lemma quiet_call: "quiet_step w v \<Longrightarrow> quiet_step w (v\<lparr>w_store := s\<rparr>)"
  by (simp add: quiet_step_def)

lemma quiet_then_emit: "quiet_step w v \<Longrightarrow> quiet_step w (emitCreditEvent sink ty u d v)"
  by (rule quiet.frame_trans [OF _ quiet_emit])

lemma quiet_expired: "quiet_step w v \<Longrightarrow> quiet_step w (lease_expired_event sv u l c v)"
  by (simp add: lease_expired_event_def quiet_then_emit)

lemmas quiet_intros = runs_added_quiet runs_added_charge quiet_call quiet_then_emit quiet_expired quiet.frame_refl

lemma Deduct_runs:
  assumes "sv_store sv = Some store"
  shows "wp (Deduct D (Some sv) u a dwa)
    (\<lambda>r e w'. runs_added w u PostDeductionSourceDeduct r (e = None \<and> \<not> dr_Idempotent r) w') w"
  using assms
  by (auto simp: Deduct_def with_store_def wp_simps intro!: quiet_wp [OF quiet_lazy] quiet_intros
      split: sum.split option.split prod.split)

lemma Settle_runs:
  assumes "sv_store sv = Some store"
  shows "wp (Settle D (Some sv) u l a so)
    (\<lambda>r e w'. runs_added w u PostDeductionSourceSettle r (e = None \<and> \<not> dr_Idempotent r) w') w"
  using assms
  by (auto simp: Settle_def with_store_def Let_def wp_simps intro!: quiet_intros
      split: sum.split option.split prod.split)

lemma DeductCredits_runs:
  assumes "sv_store sv = Some store"
  shows "wp (DeductCredits D (Some sv) u a ao)
    (\<lambda>r e w'. runs_added w u PostDeductionSourceRaw (zero_Deduction\<lparr>dr_EntryID := acr_EntryID r, dr_UserID := u,
       dr_Amount := a, dr_BalanceAfter := Some (acr_NewBalance r)\<rparr>) (e = None \<and> \<not> acr_Idempotent r) w') w"
  using assms
  by (auto simp: DeductCredits_def with_store_def wp_simps intro!: quiet_intros
      split: sum.split option.split prod.split)

text \<open>C11. Post-deduction hooks. A charge, a settlement or a raw deduction runs every registered hook
  once, in the order of registration, exactly when it commits something new: no hook runs when the
  call fails or is denied, or when the store reports a replay of an earlier call. The hooks get the
  user, the source and the committed deduction.\<close>

theorem hooks_run_once_per_commit:
  assumes "sv_store sv = Some store"
  shows "(Deduct D (Some sv) u a dwa w = ((r, e), w') \<longrightarrow>
      hook_runs (w_trace w') = hook_runs (w_trace w) @
        (if e = None \<and> \<not> dr_Idempotent r
         then map (\<lambda>h. (h, \<lparr>pdc_UserID = u, pdc_Source = PostDeductionSourceDeduct, pdc_Deduction = r\<rparr>))
                (hooks_in_order w) else [])) \<and>
    (Settle D (Some sv) u l a so w = ((r, e), w') \<longrightarrow>
      hook_runs (w_trace w') = hook_runs (w_trace w) @
        (if e = None \<and> \<not> dr_Idempotent r
         then map (\<lambda>h. (h, \<lparr>pdc_UserID = u, pdc_Source = PostDeductionSourceSettle, pdc_Deduction = r\<rparr>))
                (hooks_in_order w) else [])) \<and>
    (DeductCredits D (Some sv) u a ao w = ((ar, e), w') \<longrightarrow>
      hook_runs (w_trace w') = hook_runs (w_trace w) @
        (if e = None \<and> \<not> acr_Idempotent ar
         then map (\<lambda>h. (h, \<lparr>pdc_UserID = u, pdc_Source = PostDeductionSourceRaw,
                pdc_Deduction = zero_Deduction\<lparr>dr_EntryID := acr_EntryID ar, dr_UserID := u, dr_Amount := a,
                  dr_BalanceAfter := Some (acr_NewBalance ar)\<rparr>\<rparr>))
                (hooks_in_order w) else []))"
  using Deduct_runs [OF assms, of D u a dwa w] Settle_runs [OF assms, of D u l a so w]
    DeductCredits_runs [OF assms, of D u a ao w]
  by (auto simp: wp_def runs_added_def)

theorem hooks_run_once_per_commit_witness:
  "\<exists>ar e w'. DeductCredits ref_decimal (Some sample_service) ''u1'' 4 sample_grant sample_world = ((ar, e), w') \<and>
     (e = None \<and> \<not> acr_Idempotent ar \<longrightarrow> map fst (hook_runs (w_trace w')) = hooks_in_order sample_world)"
proof -
  obtain ar e w' where d:
    "DeductCredits ref_decimal (Some sample_service) ''u1'' 4 sample_grant sample_world = ((ar, e), w')"
    by (metis prod.collapse)
  moreover have "hook_runs (w_trace sample_world) = []"
    by (simp add: sample_world_def hook_runs_def List.map_filter_def)
  ultimately show ?thesis
    using hooks_run_once_per_commit [OF sample_service_store, of ref_decimal "''u1''" 4]
    by (auto simp: comp_def)
qed

section \<open>Denials\<close>

lemma if_member: "x \<in> S \<Longrightarrow> y \<in> S \<Longrightarrow> (if c then x else y) \<in> S"
  by simp

lemma denial_class_pairs:
  "denial_class code \<in> {(ErrorCodeInsufficientCredits, ErrorCategoryPaymentRequired),
     (ErrorCodeConcurrencyLimitReached, ErrorCategoryRateLimited), (ErrorCodeQuotaExceeded, ErrorCategoryRateLimited),
     (ErrorCodeFeatureNotEntitled, ErrorCategoryForbidden), (ErrorCodeOperationNotAllowed, ErrorCategoryForbidden),
     (ErrorCodeLeaseExpired, ErrorCategoryConflict), (ErrorCodeLeaseNotFound, ErrorCategoryNotFound),
     (ErrorCodeStore, ErrorCategoryConflict), (ErrorCodeConfig, ErrorCategoryInvalidRequest),
     (ErrorCodeRefundRejected, ErrorCategoryConflict), (ErrorCodeCredit, ErrorCategoryConflict)}"
  unfolding denial_class_def by (intro if_member insertI1 insertI2)

lemma business_error:
  "creditBusinessError operation u code = NewError
     (''credit '' @ operation @ '' failed for user '' @ u @ '': '' @ trim_space code)
     ((code_category (fst (denial_class (trim_space code))) (snd (denial_class (trim_space code))))
        \<lparr>opt_Details := [(''operation'', VStr operation), (''user_id'', VStr u),
           (''store_error_code'', VStr (trim_space code))]\<rparr>)"
  by (simp add: creditBusinessError_def Let_def split: prod.split)

lemma business_error_class:
  "Code (creditBusinessError operation u code) = fst (denial_class (trim_space code))"
  "Category (creditBusinessError operation u code) = snd (denial_class (trim_space code))"
  "\<not> IsRetryableError (creditBusinessError operation u code)"
proof -
  have "firstErrorCode (fst (denial_class c)) d = fst (denial_class c)" for c d
    using denial_class_pairs [of c] unfolding firstErrorCode_def by (elim insertE emptyE) simp_all
  then show "Code (creditBusinessError operation u code) = fst (denial_class (trim_space code))"
    by (simp add: business_error)
  have "firstErrorCategory (snd (denial_class c)) d = snd (denial_class c)" for c d
    using denial_class_pairs [of c] unfolding firstErrorCategory_def by (elim insertE emptyE) simp_all
  then show "Category (creditBusinessError operation u code) = snd (denial_class (trim_space code))"
    by (simp add: business_error)
  show "\<not> IsRetryableError (creditBusinessError operation u code)"
    by (simp add: business_error no_options_def)
qed

text \<open>Business denials. Whatever code the store denies a request with, the error of the service has
  a code and a category of its own (never an internal error), a 4xx status, and is not retryable;
  lack of credits asks for payment (402), limits and quotas are 429, entitlements 403.\<close>

theorem denials_are_final:
  "\<not> IsRetryableError (creditBusinessError operation u code) \<and>
   ErrorHTTPStatus (creditBusinessError operation u code) \<in> {400, 402, 403, 404, 409, 429} \<and>
   Code (creditBusinessError operation u ''insufficient_credits'') = ErrorCodeInsufficientCredits \<and>
   ErrorHTTPStatus (creditBusinessError operation u ''insufficient_credits'') = 402 \<and>
   ErrorHTTPStatus (creditBusinessError operation u ''quota_exceeded'') = 429 \<and>
   ErrorHTTPStatus (creditBusinessError operation u ''concurrency_limit'') = 429 \<and>
   ErrorHTTPStatus (creditBusinessError operation u ''feature_not_entitled'') = 403 \<and>
   ErrorHTTPStatus (creditBusinessError operation u ''lease_not_found'') = 404"
proof -
  have status: "ErrorHTTPStatus (creditBusinessError operation u c) = category_status (snd (denial_class (trim_space c)))"
    for c
    using business_error_class(2) [of operation u c] by (simp add: ErrorHTTPStatus_def business_error)
  have "category_status (snd (denial_class c)) \<in> {400, 402, 403, 404, 409, 429}" for c
    using denial_class_pairs [of c] unfolding category_status_def by (elim insertE emptyE) simp_all
  moreover have "trim_space ''insufficient_credits'' = ''insufficient_credits''"
    "trim_space ''quota_exceeded'' = ''quota_exceeded''" "trim_space ''concurrency_limit'' = ''concurrency_limit''"
    "trim_space ''feature_not_entitled'' = ''feature_not_entitled''"
    "trim_space ''lease_not_found'' = ''lease_not_found''"
    by (rule trim_space_graphic; simp add: graphic_def byte_def)+
  moreover have "denial_class ''insufficient_credits'' = (ErrorCodeInsufficientCredits, ErrorCategoryPaymentRequired)"
    "denial_class ''quota_exceeded'' = (ErrorCodeQuotaExceeded, ErrorCategoryRateLimited)"
    "denial_class ''concurrency_limit'' = (ErrorCodeConcurrencyLimitReached, ErrorCategoryRateLimited)"
    "denial_class ''feature_not_entitled'' = (ErrorCodeFeatureNotEntitled, ErrorCategoryForbidden)"
    "denial_class ''lease_not_found'' = (ErrorCodeLeaseNotFound, ErrorCategoryNotFound)"
    by (simp_all add: denial_class_def)
  ultimately show ?thesis
    by (simp add: business_error_class status category_status_def)
qed

section \<open>Billed operations\<close>

text \<open>The states after the attempts at a settlement.\<close>

definition after_attempts :: "('w, 'r) op \<Rightarrow> nat \<Rightarrow> 'w \<Rightarrow> 'w" where
  "after_attempts m k w = ((\<lambda>v. state_of (m v)) ^^ k) w"

lemma after_attempts_Suc: "after_attempts m (Suc k) w = after_attempts m k (state_of (m w))"
  unfolding after_attempts_def funpow_Suc_right comp_def ..

lemma after_attempts_0 [simp]: "after_attempts m 0 w = w"
  by (simp add: after_attempts_def)

text \<open>
  A loop of at most \<open>n\<close> attempts of \<open>m\<close> from \<open>w\<close> ends after the attempt \<open>k\<close> (counted from 0): the earlier
  ones failed with a retryable error and were not cancelled, the last one gives the state and the
  error; without an error it gives the result, and with one there was a reason to stop.
\<close>

definition ends_after ::
  "('w, DeductionResult) op \<Rightarrow> nat \<Rightarrow> (nat \<Rightarrow> bool) \<Rightarrow> goval \<Rightarrow> 'w \<Rightarrow> nat \<Rightarrow>
   (RunBilledResult \<times> go_error option) \<times> 'w \<Rightarrow> bool" where
  "ends_after m n cancelled x w k out \<longleftrightarrow>
     k < n \<and>
     (\<forall>j < k. \<exists>e. error_of (m (after_attempts m j w)) = Some e \<and> IsRetryableError e \<and> \<not> cancelled j) \<and>
     state_of out = after_attempts m (Suc k) w \<and>
     error_of out = error_of (m (after_attempts m k w)) \<and>
     (case error_of out of
        None \<Rightarrow> result_of out = \<lparr>rb_Result = x, rb_Deduction = result_of (m (after_attempts m k w))\<rparr>
      | Some e \<Rightarrow> result_of out = zero_RunBilled \<and> (\<not> IsRetryableError e \<or> cancelled k \<or> Suc k = n))"

lemma ends_after_Suc:
  assumes "m w = ((d, Some f), v)" and "IsRetryableError f" and "\<not> cancelled 0"
    and "ends_after m n (\<lambda>j. cancelled (Suc j)) x v k out"
  shows "ends_after m (Suc n) cancelled x w (Suc k) out"
proof -
  have shift: "after_attempts m (Suc j) w = after_attempts m j v" for j
    by (simp add: after_attempts_Suc assms(1))
  have "\<exists>e. error_of (m (after_attempts m j w)) = Some e \<and> IsRetryableError e \<and> \<not> cancelled j"
    if "j < Suc k" for j
    using assms that shift by (cases j) (auto simp: ends_after_def)
  then show ?thesis using assms(4) unfolding ends_after_def shift
    by (simp split: option.splits)
qed

lemma settle_loop_ends:
  "n > 0 \<Longrightarrow>
   \<exists>k. ends_after m n (\<lambda>j. cancelled (i + j)) x w k (settle_loop n i cancelled x m err0 w)"
proof (induction n arbitrary: i err0 w)
  case (Suc n)
  obtain d e v where m: "m w = ((d, e), v)" by (metis prod.collapse)
  show ?case
  proof (cases "\<exists>f. e = Some f \<and> IsRetryableError f \<and> \<not> cancelled i \<and> n > 0")
    case True
    then obtain f where f: "e = Some f" "IsRetryableError f" "\<not> cancelled i" "n > 0" by blast
    then have loop: "settle_loop (Suc n) i cancelled x m err0 w = settle_loop n (Suc i) cancelled x m (Some f) v"
      using m by (simp add: op_simps)
    obtain k where "ends_after m n (\<lambda>j. cancelled (i + Suc j)) x v k (settle_loop n (Suc i) cancelled x m (Some f) v)"
      using Suc.IH [OF f(4), of "Suc i" v "Some f"] by auto
    then have "ends_after m (Suc n) (\<lambda>j. cancelled (i + j)) x w (Suc k) (settle_loop (Suc n) i cancelled x m err0 w)"
      unfolding loop using m f by (intro ends_after_Suc) auto
    then show ?thesis by blast
  next
    case False
    have "settle_loop (Suc n) i cancelled x m err0 w =
        (case e of None \<Rightarrow> ((\<lparr>rb_Result = x, rb_Deduction = d\<rparr>, None), v) | Some f \<Rightarrow> ((zero_RunBilled, Some f), v))"
      using False m by (cases n) (auto simp: op_simps split: option.splits)
    then have "ends_after m (Suc n) (\<lambda>j. cancelled (i + j)) x w 0 (settle_loop (Suc n) i cancelled x m err0 w)"
      using False m by (auto simp: ends_after_def after_attempts_Suc split: option.splits)
    then show ?thesis by blast
  qed
qed simp

text \<open>C7. A billed operation whose work succeeded settles the lease it was admitted with at least once
  and at most as often as configured (three times by default), every time with the same call, so
  with the same replay key; it tries again only after a retryable error on a context that is not
  cancelled, and it returns the first success, or the error of the last attempt. When the work
  fails, the lease is released once, no settlement is attempted, and the error of the work is
  returned.\<close>

theorem billed_operation_settles:
  assumes "BeginBilledOperation D s u options w = ((Some operation, None), w0)"
    and "normalizeSettlementAttempts (bo_SettlementAttempts options) = Inr n"
  shows "(\<forall>x actual. bo_DoWork options = Some (Inr (x, actual)) \<longrightarrow>
     (\<exists>k. ends_after (operation_Settle D operation actual) (nat n) cancelled x w0 k
        (RunBilled D s cancelled u options w))) \<and>
    (\<forall>workErr. bo_DoWork options = Some (Inl workErr) \<longrightarrow>
       RunBilled D s cancelled u options w =
         ((zero_RunBilled, Some workErr), state_of (operation_Release operation w0)))"
proof -
  have n: "nat n > 0"
    using assms(2) by (auto simp: normalizeSettlementAttempts_def split: if_splits)
  have run: "RunBilled D s cancelled u options w =
      conclude_operation operation work (nat n) cancelled (operation_Settle D) w0"
    if "bo_DoWork options = Some work" for work
    using assms that by (simp add: RunBilled_def run_billed_def op_simps)
  have "\<exists>k. ends_after m (nat n) cancelled x w0 k (settle_loop (nat n) 0 cancelled x m None w0)" for m x
    using settle_loop_ends [OF n, of m cancelled 0 x w0 None] by simp
  then show ?thesis by (simp add: run conclude_operation_def op_simps split: prod.split)
qed

lemma sample_service_fields:
  "sv_events sample_service" "sv_policy sample_service = ''strict_prepaid''"
  "sv_defaultLeaseTTL sample_service = 600 * second" "sv_maxConcurrent sample_service = None"
  "sv_lowBalance sample_service = []" "\<not> sv_lowBalanceHandler sample_service"
  "sv_catalog sample_service = Some sample_catalog" "\<not> sv_lazyExpiry sample_service"
  by (simp_all add: sample_service_def default_service_def NewCreditsService_def default_options_def Let_def
      checked_floor_def requirePositiveDuration_def low_balance_limit_def low_balance_thresholds_def
      defaultLeaseTTL_def second_def NewCatalogServiceWithOptions_def defaultCatalogCacheTTL_def
      CreditPolicyStrictPrepaid_def sort_by_def sample_catalog_def)

definition sample_run :: RunBilledOptions where
  "sample_run = \<lparr>bo_Estimate = 2, bo_OperationKey = ''job'', bo_OperationType = ''render'', bo_BillingMode = '''',
     bo_TTL = 0, bo_Feature = '''', bo_Metadata = [], bo_DoWork = Some (Inr (VStr ''done'', 1)),
     bo_SettlementAttempts = 0\<rparr>"

lemma quantize_int: "QuantizeMoney ref_decimal (numeral n) = numeral n" "QuantizeMoney ref_decimal 1 = 1"
  using ref.quantize_id [OF money_of_int(2)] ref.quantize_id [OF money_of_int(1), of 1] by simp_all

lemma sample_keys:
  "requireStableKey ''job'' f = Inr ''job''" "requireStableKey ''job:reserve'' f = Inr ''job:reserve''"
  "requireText ''reserve'' f = Inr ''reserve''" "trim_space ''render'' = ''render''"
proof -
  have "trim_space ''job'' = ''job''" "trim_space ''job:reserve'' = ''job:reserve''"
    "trim_space ''reserve'' = ''reserve''" and r: "trim_space ''render'' = ''render''"
    by (rule trim_space_graphic; simp add: graphic_def byte_def)+
  then show "requireStableKey ''job'' f = Inr ''job''" "requireStableKey ''job:reserve'' f = Inr ''job:reserve''"
    "requireText ''reserve'' f = Inr ''reserve''"
    by (simp_all add: requireStableKey_Inr requireText_Inr stable_key_def)
  show "trim_space ''render'' = ''render''" by (rule r)
qed

lemma sample_begins:
  "\<exists>operation w0. BeginBilledOperation ref_decimal (Some sample_service) ''u1'' sample_run sample_world =
     ((Some operation, None), w0)"
  by (simp add: BeginBilledOperation_def begin_operation_def Reserve_def with_store_def sample_service_store
      sample_run_def sample_keys scopedOperationKey_def requireNonNegativeAmount_def resolvedLeaseOptions_def
      sample_service_fields default_mode_def requireBillingMode_def BillingModeStrict_def BillingModeOverdraft_def
      CreditPolicyOverdraft_def requirePositiveDuration_def second_def op_simps store_call_def ref_store_def
      ref_leases_def ref_CreateLease_def answer_def balance_of_def held_of_def sample_world_def
      sample_state_def quantize_int zero_Lease_def Let_def)

theorem billed_operation_settles_witness:
  "\<exists>operation w0 k. BeginBilledOperation ref_decimal (Some sample_service) ''u1'' sample_run sample_world =
       ((Some operation, None), w0) \<and>
     ends_after (operation_Settle ref_decimal operation 1) 3 (\<lambda>_. False) (VStr ''done'') w0 k
       (RunBilled ref_decimal (Some sample_service) (\<lambda>_. False) ''u1'' sample_run sample_world)"
proof -
  obtain operation w0 where b: "BeginBilledOperation ref_decimal (Some sample_service) ''u1'' sample_run sample_world =
     ((Some operation, None), w0)"
    using sample_begins by blast
  have "normalizeSettlementAttempts (bo_SettlementAttempts sample_run) = Inr 3"
    by (simp add: normalizeSettlementAttempts_def sample_run_def)
  from billed_operation_settles [OF b this, of "\<lambda>_. False"] b show ?thesis
    by (auto simp: sample_run_def)
qed

section \<open>Affordability\<close>

text \<open>\<open>CanAfford\<close> answers yes exactly when the feature asked for, if any, is entitled and what is
  available above the floor of the billing mode, with the allowance that is left, covers the
  worst case; it changes no balance: its calls are the reads of the store, and it emits nothing.\<close>

theorem can_afford_exact:
  assumes "sv_store sv = Some store" and "0 \<le> worstCase"
    and "CanAfford D (Some sv) u worstCase options w = ((r, None), w')"
  shows "w_trace w' = w_trace w \<and>
    (\<exists>available allowance s1 s2 mode.
      st_GetAvailable (st_leases store) u (w_store w) = ((available, None), s1) \<and>
      st_CheckAllowance (st_plans store) u s1 = ((allowance, None), s2) \<and>
      requireBillingMode (default_mode sv (cao_BillingMode options)) = Inr mode \<and>
      ca_Spendable r = av_Available available - (if mode = ''overdraft'' then sv_overdraftFloor sv else 0)
        + (case allowance of None \<Rightarrow> 0 | Some a \<Rightarrow> al_AllowanceRemaining a) \<and>
      (ca_Affordable r \<longleftrightarrow> worstCase \<le> ca_Spendable r \<and>
         (cao_Feature options \<noteq> '''' \<longrightarrow>
            cf_HasFeature (result_of (st_CheckFeature (st_plans store) u (cao_Feature options) s2)))) \<and>
      (ca_Affordable r \<longleftrightarrow> ca_Reason r = ''''))"
proof -
  obtain available e1 s1 where a: "st_GetAvailable (st_leases store) u (w_store w) = ((available, e1), s1)"
    by (metis prod.collapse)
  obtain allowance e2 s2 where b: "st_CheckAllowance (st_plans store) u s1 = ((allowance, e2), s2)"
    by (metis prod.collapse)
  obtain f e3 s3 where c: "st_CheckFeature (st_plans store) u (cao_Feature options) s2 = ((f, e3), s3)"
    by (metis prod.collapse)
  note run = CanAfford_def with_store_def requireNonNegativeAmount_def op_simps store_call_def assms(1) a b c
  have e1: "e1 = None" using assms(2,3) by (cases e1) (simp_all add: run)
  obtain mode where mode: "requireBillingMode (default_mode sv (cao_BillingMode options)) = Inr mode"
    using assms(2,3) e1 by (cases "requireBillingMode (default_mode sv (cao_BillingMode options))") (simp_all add: run)
  have e2: "e2 = None" using assms(2,3) e1 mode by (cases e2) (simp_all add: run Let_def)
  let ?spendable = "av_Available available - (if mode = ''overdraft'' then sv_overdraftFloor sv else 0)
        + (case allowance of None \<Rightarrow> 0 | Some x \<Rightarrow> al_AllowanceRemaining x)"
  let ?feature = "cao_Feature options \<noteq> '''' \<longrightarrow> cf_HasFeature f"
  have "w_trace w' = w_trace w \<and> ca_Spendable r = ?spendable \<and>
      (ca_Affordable r \<longleftrightarrow> worstCase \<le> ?spendable \<and> ?feature) \<and> (ca_Affordable r \<longleftrightarrow> ca_Reason r = '''')"
  proof (cases "cao_Feature options = ''''")
    case True
    then show ?thesis using assms(2,3) e1 e2 mode
      by (auto simp: run Let_def BillingModeOverdraft_def split: if_split_asm)
  next
    case False
    then have "e3 = None" using assms(2,3) e1 e2 mode by (cases e3) (simp_all add: run Let_def)
    then show ?thesis using False assms(2,3) e1 e2 mode
      by (auto simp: run Let_def BillingModeOverdraft_def split: if_split_asm)
  qed
  then show ?thesis using a b c e1 e2 mode by auto
qed

theorem can_afford_exact_witness:
  "\<exists>r w'. CanAfford ref_decimal (Some sample_service) ''u1'' 3
      \<lparr>cao_Feature = '''', cao_BillingMode = '''', cao_OperationType = ''''\<rparr> sample_world = ((r, None), w') \<and>
     ca_Affordable r \<and> w_trace w' = []"
proof -
  obtain r w' where c: "CanAfford ref_decimal (Some sample_service) ''u1'' 3
      \<lparr>cao_Feature = '''', cao_BillingMode = '''', cao_OperationType = ''''\<rparr> sample_world = ((r, None), w')"
    by (simp add: CanAfford_def with_store_def sample_service_store requireNonNegativeAmount_def op_simps
        default_mode_def requireBillingMode_def sample_service_fields BillingModeStrict_def
        BillingModeOverdraft_def CreditPolicyOverdraft_def store_call_def ref_store_def ref_leases_def
        ref_plans_def answer_def balance_of_def held_of_def sample_world_def sample_state_def Let_def)
  have "st_GetAvailable (st_leases ref_store) ''u1'' (w_store sample_world) =
      ((\<lparr>av_UserID = ''u1'', av_Balance = 10, av_Reserved = 0, av_Available = 10\<rparr>, None), sample_state)"
    "\<And>s. st_CheckAllowance (st_plans ref_store) ''u1'' s = ((None, None), s)"
    by (simp_all add: ref_store_def ref_leases_def ref_plans_def answer_def balance_of_def held_of_def
        sample_world_def sample_state_def)
  moreover have "requireBillingMode (default_mode sample_service '''') = Inr ''strict''"
    by (simp add: default_mode_def requireBillingMode_def sample_service_fields BillingModeStrict_def
        BillingModeOverdraft_def CreditPolicyOverdraft_def)
  moreover have "w_trace sample_world = []" by (simp add: sample_world_def)
  ultimately show ?thesis using can_afford_exact [OF sample_service_store _ c] c by auto
qed

section \<open>Metadata the caller cannot override\<close>

text \<open>The metadata of a priced operation: the operation, the measures, the dimensions, the total
  and the replay key are those of the call whatever the caller supplied, every other entry is the
  caller's.\<close>

theorem priced_metadata_owned:
  "map_of (pricedMetadata D metrics b key caller) ''operation'' = Some (VStr (um_Operation metrics)) \<and>
   map_of (pricedMetadata D metrics b key caller) ''dimensions'' = Some (VObj (um_Dimensions metrics)) \<and>
   map_of (pricedMetadata D metrics b key caller) ''breakdown_total'' = Some (VStr (dec_to_string D (Total b))) \<and>
   map_of (pricedMetadata D metrics b key caller) ''idempotency_key'' = Some (VStr key) \<and>
   map_of (pricedMetadata D metrics b key caller) ''measures'' =
     Some (VObj (map (\<lambda>(k, a). (k, VStr (dec_to_string D a))) (um_Measures metrics))) \<and>
   (\<forall>k. k \<notin> {''operation'', ''measures'', ''dimensions'', ''breakdown_total'', ''idempotency_key''} \<longrightarrow>
      map_of (pricedMetadata D metrics b key caller) k = map_of caller k)"
  by (simp add: pricedMetadata_def CreditMetadata_Clone_def)

theorem priced_metadata_owned_witness:
  "map_of (pricedMetadata ref_decimal sample_usage zero_Breakdown ''k1'' [(''trace'', VInt 7)]) ''trace'' = Some (VInt 7)"
proof -
  have "''trace'' \<notin> {''operation'', ''measures'', ''dimensions'', ''breakdown_total'', ''idempotency_key''}" by simp
  then show ?thesis
    using priced_metadata_owned [THEN conjunct2, THEN conjunct2, THEN conjunct2, THEN conjunct2, THEN conjunct2,
        rule_format, of "''trace''" ref_decimal sample_usage zero_Breakdown "''k1''" "[(''trace'', VInt 7)]"]
    by simp
qed

section \<open>Lifetimes of cycle grants\<close>



section \<open>Activation through the credits service\<close>

text \<open>C36. \<open>CreditsService.ActivateCatalogRevision\<close> calls the store and leaves the cache of the
  catalogue as it is: while the cache is younger than its lifetime, the next refresh returns
  without reading the store, so unpinned usage is still priced with the revision that was active
  before.\<close>

theorem service_activation_keeps_cache:
  assumes "sv_store sv = Some store" and "sv_catalog sv = Some cs" and "cs_store cs = Some store"
    and "ActivateCatalogRevision (Some sv) version rollout w = ((r, err), w')"
    and "cc_loadedAt (w_cache w) \<noteq> zero_time"
    and "time_sub (now_reading w) (cc_loadedAt (w_cache w)) < cs_cacheTTL cs"
  shows "w_cache w' = w_cache w \<and>
    w_store w' = state_of (st_ActivateCatalogRevision (st_catalog store) version rollout (w_store w)) \<and>
    (\<exists>w''. RefreshIfStale L (sv_catalog sv) w' = (((), None), w'') \<and>
       w_cache w'' = w_cache w \<and> w_store w'' = w_store w')"
proof -
  have w': "w_cache w' = w_cache w" "w_clock w' = w_clock w" "w_tick w' = w_tick w"
    "w_store w' = state_of (st_ActivateCatalogRevision (st_catalog store) version rollout (w_store w))"
    using assms(1,4) by (auto simp: ActivateCatalogRevision_def with_store_def store_call_def split: prod.splits)
  then have "RefreshIfStale L (sv_catalog sv) w' =
      (((), None), if cs_cacheTTL cs = 0 then w' else tick w')"
    using assms by (simp add: RefreshIfStale_def with_catalog_def catalogFresh_def op_simps now_reading_def)
  then show ?thesis using w' by auto
qed

theorem service_activation_keeps_cache_witness:
  "\<exists>r err w'. ActivateCatalogRevision (Some sample_service) 1 \<lparr>clr_Plans = []\<rparr>
       (sample_world\<lparr>w_cache := empty_cache\<lparr>cc_loadedAt := 0\<rparr>\<rparr>) = ((r, err), w') \<and>
     rs_active (w_store w') = 1 \<and> cc_loadedAt (w_cache w') = 0"
proof -
  let ?w = "sample_world\<lparr>w_cache := empty_cache\<lparr>cc_loadedAt := 0\<rparr>\<rparr>"
  obtain r err w' where a: "ActivateCatalogRevision (Some sample_service) 1 \<lparr>clr_Plans = []\<rparr> ?w = ((r, err), w')"
    by (metis prod.collapse)
  have "cs_store sample_catalog = Some ref_store" by (simp add: sample_catalog_def)
  moreover have "cc_loadedAt (w_cache ?w) \<noteq> zero_time"
    "time_sub (now_reading ?w) (cc_loadedAt (w_cache ?w)) < cs_cacheTTL sample_catalog"
    by (simp_all add: zero_time_def now_reading_def sample_world_def time_sub_def sample_catalog_def
        defaultCatalogCacheTTL_def second_def)
  ultimately have "w_cache w' = w_cache ?w \<and>
      w_store w' = state_of (st_ActivateCatalogRevision (st_catalog ref_store) 1 \<lparr>clr_Plans = []\<rparr> (w_store ?w))"
    using service_activation_keeps_cache [OF sample_service_store sample_service_fields(7) _ a] by blast
  moreover have "rs_active (state_of (st_ActivateCatalogRevision (st_catalog ref_store) 1 rollout s)) = 1" for rollout s
    by (simp add: ref_store_def ref_catalog_def answer_def)
  ultimately show ?thesis using a by auto
qed

end
