(* ===== verification/Outbox.thy ===== *)
theory Outbox
  imports Credit_Types Go_Effects Decimal_Reference "HOL-Library.Multiset"
begin

text \<open>
  The transactional outbox worker, \<open>src/golang/outbox_worker.go\<close>, with the event and store types
  of \<open>storage_types.go\<close>. A pass claims events in rounds, runs the handlers of every claimed event
  on goroutines beside a heartbeat that renews the claim, and reports each event to the store as
  completed or failed. The store and the handlers are parameters, functions on an arbitrary state.
  The scheduler is a parameter too: a round follows a list of choices (a handler returns, a
  heartbeat ticks, the context is cancelled, an event is concluded), so a theorem for every list
  holds for every interleaving of these steps; a handler call and a store call are one step each.
\<close>

section \<open>Diagnostics\<close>

definition is_letter_byte :: "char \<Rightarrow> bool" where
  "is_letter_byte c \<longleftrightarrow> is_upper_byte c \<or> is_lower_byte c"

definition is_code_byte :: "char \<Rightarrow> bool" where
  "is_code_byte c \<longleftrightarrow> is_letter_byte c \<or> is_digit_byte c \<or> c = CHR ''_'' \<or> c = CHR ''.'' \<or> c = CHR ''-''"

definition diagnosticCodePattern :: "string \<Rightarrow> bool" where
  "diagnosticCodePattern s =
     (case s of
        [] \<Rightarrow> False
      | c # cs \<Rightarrow> is_letter_byte c \<and> length cs \<le> 127 \<and> list_all is_code_byte cs)"

text \<open>The width of the first rune of a non-empty byte string, as a \<open>range\<close> loop decodes it: an
  invalid encoding is one byte.\<close>

definition continuation :: "nat \<Rightarrow> nat \<Rightarrow> string \<Rightarrow> nat \<Rightarrow> bool" where
  "continuation lo hi s i \<longleftrightarrow> i < length s \<and> lo \<le> byte (s ! i) \<and> byte (s ! i) \<le> hi"

definition rune_width :: "string \<Rightarrow> nat" where
  "rune_width s =
     (let b = byte (hd s);
          second = (if b = 224 then continuation 160 191 s 1
                    else if b = 237 then continuation 128 159 s 1
                    else if b = 240 then continuation 144 191 s 1
                    else if b = 244 then continuation 128 143 s 1
                    else continuation 128 191 s 1)
      in if 194 \<le> b \<and> b \<le> 223 \<and> second then 2
         else if 224 \<le> b \<and> b \<le> 239 \<and> second \<and> continuation 128 191 s 2 then 3
         else if 240 \<le> b \<and> b \<le> 244 \<and> second \<and> continuation 128 191 s 2 \<and> continuation 128 191 s 3 then 4
         else 1)"

lemma rune_width_pos [simp]: "0 < rune_width s"
  by (simp add: rune_width_def Let_def)

function sanitize_loop :: "string \<Rightarrow> string \<Rightarrow> string" where
  "sanitize_loop s built =
     (if s = [] \<or> 128 \<le> length built then built
      else sanitize_loop (drop (rune_width s) s)
             (built @ [if is_code_byte (hd s) then hd s else CHR ''_'']))"
  by pat_completeness auto
termination
  by (relation "measure (\<lambda>(s, built). length s)") auto

declare sanitize_loop.simps [simp del]

definition sanitizeDiagnosticCode :: "string \<Rightarrow> string \<Rightarrow> string" where
  "sanitizeDiagnosticCode v fallback =
     (let result = sanitize_loop (trim_space v) []
      in if \<not> diagnosticCodePattern result then fallback else result)"

definition persistedDiagnosticSummary :: "go_error option \<Rightarrow> string \<Rightarrow> string" where
  "persistedDiagnosticSummary err fallback =
     (let operation = sanitizeDiagnosticCode fallback ''operation_failed'';
          errorCode =
            (case err of
               None \<Rightarrow> ''UnknownError''
             | Some e \<Rightarrow>
                 (case AsBursarError e of
                    Some b \<Rightarrow> if diagnosticCodePattern (error_code_text (Code b))
                              then error_code_text (Code b) else ''Error''
                  | None \<Rightarrow> ''Error''))
      in operation @ '':'' @ errorCode)"

text \<open>\<open>strings.Split\<close> at a separator of one byte.\<close>

fun split_at_byte :: "char \<Rightarrow> string \<Rightarrow> string list" where
  "split_at_byte c [] = [[]]"
| "split_at_byte c (x # xs) =
     (if x = c then [] # split_at_byte c xs
      else case split_at_byte c xs of [] \<Rightarrow> [[x]] | p # ps \<Rightarrow> (x # p) # ps)"

definition outboxConfigError :: "string \<Rightarrow> go_error" where
  "outboxConfigError message = NewError message (code_category ErrorCodeConfig ErrorCategoryInvalidRequest)"

definition validatePersistedDiagnosticSummary :: "string \<Rightarrow> go_error + string" where
  "validatePersistedDiagnosticSummary v =
     (case split_at_byte (CHR '':'') v of
        [a, b] \<Rightarrow>
          if diagnosticCodePattern a \<and> diagnosticCodePattern b then Inr v
          else Inl (outboxConfigError ''outbox failure summary must contain two safe diagnostic codes'')
      | _ \<Rightarrow> Inl (outboxConfigError ''outbox failure summary must contain two safe diagnostic codes''))"

section \<open>Retry delays\<close>

text \<open>Go's integer division by two truncates towards zero.\<close>

definition half :: "int \<Rightarrow> int" where
  "half n = (if n < 0 then - ((- n) div 2) else n div 2)"

function retry_loop :: "int \<Rightarrow> int \<Rightarrow> int \<Rightarrow> int \<Rightarrow> int" where
  "retry_loop maximum attempt step delay =
     (if step < max attempt 1 \<and> delay < maximum
      then if delay > half maximum then maximum
           else retry_loop maximum attempt (step + 1) (delay * 2)
      else min delay maximum)"
  by pat_completeness auto
termination
  by (relation "measure (\<lambda>(maximum, attempt, step, delay). nat (max attempt 1 - step))") auto

declare retry_loop.simps [simp del]

definition boundedOutboxRetryDelay :: "int \<Rightarrow> int \<Rightarrow> int \<Rightarrow> int" where
  "boundedOutboxRetryDelay base maximum attempt = retry_loop maximum attempt 1 base"

section \<open>Options\<close>

record OutboxWorkerOptions =
  wo_BatchSize :: int
  wo_Concurrency :: int
  wo_LeaseSeconds :: int
  wo_PollInterval :: duration
  wo_RetryDelaySeconds :: int
  wo_MaxRetryDelaySeconds :: int
  wo_AttemptLimit :: int
  wo_OnError :: bool
  wo_OnEventOutcome :: bool

definition or_default :: "int \<Rightarrow> int \<Rightarrow> int" where
  "or_default v d = (if v = 0 then d else v)"

definition options_with_defaults :: "OutboxWorkerOptions \<Rightarrow> OutboxWorkerOptions" where
  "options_with_defaults o0 =
     o0\<lparr>wo_BatchSize := or_default (wo_BatchSize o0) 100,
        wo_Concurrency := or_default (wo_Concurrency o0) 4,
        wo_LeaseSeconds := or_default (wo_LeaseSeconds o0) 60,
        wo_PollInterval := or_default (wo_PollInterval o0) 1000000000,
        wo_RetryDelaySeconds := or_default (wo_RetryDelaySeconds o0) 30,
        wo_MaxRetryDelaySeconds := or_default (wo_MaxRetryDelaySeconds o0) 3600,
        wo_AttemptLimit := or_default (wo_AttemptLimit o0) 10\<rparr>"

definition options_normalized :: "OutboxWorkerOptions \<Rightarrow> go_error + OutboxWorkerOptions" where
  "options_normalized o0 =
     (let opts = options_with_defaults o0 in
      if wo_BatchSize opts < 1 \<or> wo_BatchSize opts > 1000
      then Inl (outboxConfigError ''batch size must be between 1 and 1000'')
      else if wo_Concurrency opts < 1 \<or> wo_Concurrency opts > 100
      then Inl (outboxConfigError ''concurrency must be between 1 and 100'')
      else if wo_LeaseSeconds opts < 1 \<or> wo_LeaseSeconds opts > 3600
      then Inl (outboxConfigError ''lease seconds must be between 1 and 3600'')
      else if wo_PollInterval opts < 10000000 \<or> wo_PollInterval opts > 3600000000000
      then Inl (outboxConfigError ''poll interval must be between 10ms and 1h'')
      else if wo_RetryDelaySeconds opts < 1 \<or> wo_RetryDelaySeconds opts > 86400
      then Inl (outboxConfigError ''retry delay seconds must be between 1 and 86400'')
      else if wo_MaxRetryDelaySeconds opts < 1 \<or> wo_MaxRetryDelaySeconds opts > 86400
      then Inl (outboxConfigError ''maximum retry delay seconds must be between 1 and 86400'')
      else if wo_MaxRetryDelaySeconds opts < wo_RetryDelaySeconds opts
      then Inl (outboxConfigError ''maximum retry delay must be at least the base retry delay'')
      else if wo_AttemptLimit opts < 1 \<or> wo_AttemptLimit opts > 100
      then Inl (outboxConfigError ''attempt limit must be between 1 and 100'')
      else Inr opts)"

section \<open>Events, store and handlers\<close>

record OutboxEvent =
  oe_EventID :: string
  oe_TenantID :: string
  oe_Topic :: string
  oe_AggregateType :: string
  oe_AggregateID :: string
  oe_PayloadVersion :: int
  oe_Payload :: "goval gomap"
  oe_ClaimToken :: string
  oe_AttemptCount :: int
  oe_CreatedAt :: gotime

text \<open>The first argument of a call is what \<open>ctx.Err()\<close> is when it is made.\<close>

type_synonym context_error = "go_error option"

record 's OutboxStore =
  os_Renew :: "context_error \<Rightarrow> OutboxEvent \<Rightarrow> int \<Rightarrow> ('s, bool) op"
  os_Claim :: "context_error \<Rightarrow> string list \<Rightarrow> int \<Rightarrow> int \<Rightarrow> ('s, OutboxEvent list) op"
  os_Complete :: "context_error \<Rightarrow> OutboxEvent \<Rightarrow> ('s, bool) op"
  os_Fail :: "context_error \<Rightarrow> OutboxEvent \<Rightarrow> string \<Rightarrow> int \<Rightarrow> int \<Rightarrow> ('s, bool) op"

datatype handler_end = HandlerReturns "go_error option" | HandlerPanics

record 's OutboxHandler =
  oh_Topics :: "string list"
  oh_Handle :: "context_error \<Rightarrow> OutboxEvent \<Rightarrow> 's \<Rightarrow> handler_end \<times> 's"

definition invokeOutboxHandler ::
  "context_error \<Rightarrow> 's OutboxHandler \<Rightarrow> OutboxEvent \<Rightarrow> 's \<Rightarrow> go_error option \<times> 's" where
  "invokeOutboxHandler ctx handler event s =
     (case oh_Handle handler ctx event s of
        (HandlerReturns err, s') \<Rightarrow> (err, s')
      | (HandlerPanics, s') \<Rightarrow> (Some (PlainError ''outbox handler panicked'' []), s'))"

datatype OutboxEventOutcomeStatus =
  OutboxOutcomeDelivered | OutboxOutcomeDeliveryFailed | OutboxOutcomeClaimLost

datatype OutboxClaimLossPhase =
  OutboxClaimLossHeartbeat | OutboxClaimLossComplete | OutboxClaimLossFail

record OutboxEventOutcome =
  oo_Topic :: string
  oo_AttemptCount :: int
  oo_Status :: OutboxEventOutcomeStatus
  oo_Summary :: "string option"
  oo_Duration :: duration
  oo_RetryDelaySeconds :: "int option"
  oo_DeadLettered :: bool
  oo_ClaimLossPhase :: "OutboxClaimLossPhase option"

record OutboxRunResult =
  or_Claimed :: int
  or_Delivered :: int
  or_Failed :: int
  or_ClaimLost :: int

definition empty_result :: OutboxRunResult where
  "empty_result = \<lparr>or_Claimed = 0, or_Delivered = 0, or_Failed = 0, or_ClaimLost = 0\<rparr>"

section \<open>The worker\<close>

record 's OutboxWorker =
  ow_store :: "'s OutboxStore"
  ow_handlers :: "'s OutboxHandler list gomap"
  ow_topics :: "string list"
  ow_options :: OutboxWorkerOptions

definition handlers_of :: "'s OutboxHandler list gomap \<Rightarrow> string \<Rightarrow> 's OutboxHandler list" where
  "handlers_of byTopic topic = (case map_of byTopic topic of None \<Rightarrow> [] | Some hs \<Rightarrow> hs)"

fun add_topics ::
  "'s OutboxHandler \<Rightarrow> string list \<Rightarrow> 's OutboxHandler list gomap \<Rightarrow>
   go_error + 's OutboxHandler list gomap" where
  "add_topics handler [] byTopic = Inr byTopic"
| "add_topics handler (raw # rest) byTopic =
     (let topic = trim_space raw in
      if topic = '''' \<or> length topic > 255
      then Inl (outboxConfigError ''outbox topics must contain between 1 and 255 characters'')
      else add_topics handler rest (map_put topic (handlers_of byTopic topic @ [handler]) byTopic))"

fun add_handlers ::
  "'s OutboxHandler option list \<Rightarrow> 's OutboxHandler list gomap \<Rightarrow>
   go_error + 's OutboxHandler list gomap" where
  "add_handlers [] byTopic = Inr byTopic"
| "add_handlers (None # rest) byTopic = Inl (outboxConfigError ''outbox handlers must not be nil'')"
| "add_handlers (Some handler # rest) byTopic =
     (if oh_Topics handler = []
      then Inl (outboxConfigError ''outbox handlers must declare at least one topic'')
      else bind_err (add_topics handler (oh_Topics handler) byTopic) (add_handlers rest))"

definition NewOutboxWorker ::
  "'s OutboxStore option \<Rightarrow> 's OutboxHandler option list \<Rightarrow> OutboxWorkerOptions \<Rightarrow>
   go_error + 's OutboxWorker" where
  "NewOutboxWorker store handlers options =
     (case store of
        None \<Rightarrow> Inl (outboxConfigError ''outbox store is required'')
      | Some st \<Rightarrow>
          if handlers = [] then Inl (outboxConfigError ''OutboxWorker requires at least one handler'')
          else bind_err (options_normalized options) (\<lambda>normalized.
               bind_err (add_handlers handlers []) (\<lambda>byTopic.
                 if length byTopic > 64 then Inl (outboxConfigError ''OutboxWorker supports at most 64 topics'')
                 else Inr \<lparr>ow_store = st, ow_handlers = byTopic,
                        ow_topics = sort_by str_less (map_keys byTopic), ow_options = normalized\<rparr>)))"

section \<open>Deliveries\<close>

text \<open>
  What a pass acts on: the state of the store and of the handlers, the calls of the outcome and the
  error callback (their panics are recovered), the clock, and the error of the run's context once it is
  cancelled.
\<close>

record 's outbox_world =
  ob_state :: 's
  ob_outcomes :: "OutboxEventOutcome list"
  ob_errors :: "go_error list"
  ob_now :: gotime
  ob_ctx :: context_error

definition outbox_call :: "('s, 'r) op \<Rightarrow> ('s outbox_world, 'r) op" where
  "outbox_call f = (\<lambda>w. case f (ob_state w) of (r, s) \<Rightarrow> (r, w\<lparr>ob_state := s\<rparr>))"

definition reportOutcome :: "'s OutboxWorker \<Rightarrow> OutboxEventOutcome \<Rightarrow> 's outbox_world \<Rightarrow> 's outbox_world" where
  "reportOutcome wk outcome w =
     (if \<not> wo_OnEventOutcome (ow_options wk) then w else w\<lparr>ob_outcomes := ob_outcomes w @ [outcome]\<rparr>)"

definition reportError :: "'s OutboxWorker \<Rightarrow> go_error \<Rightarrow> 's outbox_world \<Rightarrow> 's outbox_world" where
  "reportError wk err w =
     (if \<not> wo_OnError (ow_options wk) then w else w\<lparr>ob_errors := ob_errors w @ [err]\<rparr>)"

text \<open>One claimed event while its goroutine runs: the handlers that have not returned, the first
  error of those that have, what the heartbeat has lost the claim to, and the outcome at the end.\<close>

record 's delivery =
  dl_event :: OutboxEvent
  dl_started :: gotime
  dl_pending :: "'s OutboxHandler list"
  dl_error :: "go_error option"
  dl_lost :: "string option"
  dl_status :: "OutboxEventOutcomeStatus option"

definition begin_delivery :: "'s OutboxWorker \<Rightarrow> OutboxEvent \<Rightarrow> 's outbox_world \<Rightarrow> 's delivery" where
  "begin_delivery wk event w =
     (let handlers = handlers_of (ow_handlers wk) (oe_Topic event)
      in \<lparr>dl_event = event, dl_started = ob_now w, dl_pending = handlers,
          dl_error = (if handlers = [] then Some (PlainError ''outbox topic has no handler'' []) else None),
          dl_lost = None, dl_status = None\<rparr>)"

definition claimLost ::
  "'s OutboxWorker \<Rightarrow> OutboxEvent \<Rightarrow> OutboxClaimLossPhase \<Rightarrow> string \<Rightarrow> gotime \<Rightarrow> 's outbox_world \<Rightarrow>
   OutboxEventOutcomeStatus \<times> 's outbox_world" where
  "claimLost wk event phase summary started w =
     (let text = (if summary = '''' then persistedDiagnosticSummary None ''outbox_claim_lost'' else summary)
      in (OutboxOutcomeClaimLost,
          reportOutcome wk \<lparr>oo_Topic = oe_Topic event, oo_AttemptCount = oe_AttemptCount event,
            oo_Status = OutboxOutcomeClaimLost, oo_Summary = Some text,
            oo_Duration = max (ob_now w - started) 0, oo_RetryDelaySeconds = None,
            oo_DeadLettered = False, oo_ClaimLossPhase = Some phase\<rparr> w))"

definition failDelivery ::
  "'s OutboxWorker \<Rightarrow> OutboxEvent \<Rightarrow> go_error \<Rightarrow> gotime \<Rightarrow> 's outbox_world \<Rightarrow>
   OutboxEventOutcomeStatus \<times> 's outbox_world" where
  "failDelivery wk event deliveryErr started w =
     (let opts = ow_options wk;
          summary = persistedDiagnosticSummary (Some deliveryErr) ''outbox_delivery_failed'';
          delay = boundedOutboxRetryDelay (wo_RetryDelaySeconds opts) (wo_MaxRetryDelaySeconds opts)
                    (oe_AttemptCount event)
      in case outbox_call (os_Fail (ow_store wk) (ob_ctx w) event summary delay (wo_AttemptLimit opts)) w of
           ((failed, err), w1) \<Rightarrow>
             if err \<noteq> None \<or> \<not> failed
             then claimLost wk event OutboxClaimLossFail
                    (if err \<noteq> None then persistedDiagnosticSummary err ''outbox_claim_lost'' else summary)
                    started w1
             else (OutboxOutcomeDeliveryFailed,
                   reportOutcome wk \<lparr>oo_Topic = oe_Topic event, oo_AttemptCount = oe_AttemptCount event,
                     oo_Status = OutboxOutcomeDeliveryFailed, oo_Summary = Some summary,
                     oo_Duration = max (ob_now w1 - started) 0, oo_RetryDelaySeconds = Some delay,
                     oo_DeadLettered = (oe_AttemptCount event \<ge> wo_AttemptLimit opts),
                     oo_ClaimLossPhase = None\<rparr> w1))"

text \<open>\<open>dispatchEvent\<close> after its handlers have returned.\<close>

definition conclude_delivery ::
  "'s OutboxWorker \<Rightarrow> 's delivery \<Rightarrow> 's outbox_world \<Rightarrow> OutboxEventOutcomeStatus \<times> 's outbox_world" where
  "conclude_delivery wk d w =
     (case dl_lost d of
        Some summary \<Rightarrow> claimLost wk (dl_event d) OutboxClaimLossHeartbeat summary (dl_started d) w
      | None \<Rightarrow>
          (case dl_error d of
             Some err \<Rightarrow> failDelivery wk (dl_event d) err (dl_started d) w
           | None \<Rightarrow>
               (case outbox_call (os_Complete (ow_store wk) (ob_ctx w) (dl_event d)) w of
                  ((completed, err), w1) \<Rightarrow>
                    if err \<noteq> None \<or> \<not> completed
                    then claimLost wk (dl_event d) OutboxClaimLossComplete
                           (persistedDiagnosticSummary err ''outbox_claim_lost'') (dl_started d) w1
                    else (OutboxOutcomeDelivered,
                          reportOutcome wk \<lparr>oo_Topic = oe_Topic (dl_event d),
                            oo_AttemptCount = oe_AttemptCount (dl_event d),
                            oo_Status = OutboxOutcomeDelivered, oo_Summary = None,
                            oo_Duration = max (ob_now w1 - dl_started d) 0, oo_RetryDelaySeconds = None,
                            oo_DeadLettered = False, oo_ClaimLossPhase = None\<rparr> w1))))"

section \<open>The scheduler\<close>

datatype delivery_action = HandlerDone nat | HeartbeatTick | HeartbeatCancelled | Conclude

datatype choice = On nat delivery_action | ClockReads gotime | ContextEnds go_error

text \<open>\<open>newOutboxHeartbeat\<close> renews at a third of the lease, and at most ten times a second.\<close>

definition heartbeat_interval :: "int \<Rightarrow> duration" where
  "heartbeat_interval leaseSeconds = max (leaseSeconds * 1000000000 div 3) 100000000"

definition heartbeat_tick ::
  "'s OutboxWorker \<Rightarrow> 's delivery \<Rightarrow> 's outbox_world \<Rightarrow> 's delivery \<times> 's outbox_world" where
  "heartbeat_tick wk d w =
     (case outbox_call (os_Renew (ow_store wk) (ob_ctx w) (dl_event d) (wo_LeaseSeconds (ow_options wk))) w of
        ((renewed, err), w1) \<Rightarrow>
          if err \<noteq> None \<or> \<not> renewed
          then (d\<lparr>dl_lost := Some (persistedDiagnosticSummary err ''outbox_claim_lost'')\<rparr>, w1)
          else (d, w1))"

definition handler_done ::
  "nat \<Rightarrow> 's delivery \<Rightarrow> 's outbox_world \<Rightarrow> 's delivery \<times> 's outbox_world" where
  "handler_done k d w =
     (case invokeOutboxHandler (ob_ctx w) (dl_pending d ! k) (dl_event d) (ob_state w) of
        (err, s) \<Rightarrow>
          (d\<lparr>dl_pending := take k (dl_pending d) @ drop (Suc k) (dl_pending d),
             dl_error := (if err \<noteq> None \<and> dl_error d = None then err else dl_error d)\<rparr>,
           w\<lparr>ob_state := s\<rparr>))"

text \<open>An action that is not possible in a state leaves it as it is.\<close>

definition delivery_step ::
  "'s OutboxWorker \<Rightarrow> delivery_action \<Rightarrow> 's delivery \<Rightarrow> 's outbox_world \<Rightarrow>
   's delivery \<times> 's outbox_world" where
  "delivery_step wk a d w =
     (if dl_status d \<noteq> None then (d, w)
      else case a of
             HandlerDone k \<Rightarrow> if k < length (dl_pending d) then handler_done k d w else (d, w)
           | HeartbeatTick \<Rightarrow> if dl_lost d = None then heartbeat_tick wk d w else (d, w)
           | HeartbeatCancelled \<Rightarrow>
               if dl_lost d = None \<and> ob_ctx w \<noteq> None
               then (d\<lparr>dl_lost := Some (persistedDiagnosticSummary (ob_ctx w) ''outbox_claim_lost'')\<rparr>, w)
               else (d, w)
           | Conclude \<Rightarrow>
               if dl_pending d = []
               then case conclude_delivery wk d w of (status, w1) \<Rightarrow> (d\<lparr>dl_status := Some status\<rparr>, w1)
               else (d, w))"

definition choice_step ::
  "'s OutboxWorker \<Rightarrow> choice \<Rightarrow> 's delivery list \<times> 's outbox_world \<Rightarrow> 's delivery list \<times> 's outbox_world" where
  "choice_step wk c st =
     (case st of (ds, w) \<Rightarrow>
        (case c of
           On i a \<Rightarrow>
             if i < length ds
             then case delivery_step wk a (ds ! i) w of (d, w1) \<Rightarrow> (ds[i := d], w1)
             else (ds, w)
         | ClockReads t \<Rightarrow> (ds, w\<lparr>ob_now := t\<rparr>)
         | ContextEnds e \<Rightarrow> (ds, if ob_ctx w = None then w\<lparr>ob_ctx := Some e\<rparr> else w)))"

text \<open>A round ends when every delivery has an outcome. What a list of choices leaves open is
  finished delivery by delivery, so every list stands for a complete round.\<close>

definition delivery_run ::
  "'s OutboxWorker \<Rightarrow> delivery_action list \<Rightarrow> 's delivery \<Rightarrow> 's outbox_world \<Rightarrow>
   's delivery \<times> 's outbox_world" where
  "delivery_run wk actions d w = fold (\<lambda>a (d, w). delivery_step wk a d w) actions (d, w)"

definition finish_delivery ::
  "'s OutboxWorker \<Rightarrow> 's delivery \<Rightarrow> 's outbox_world \<Rightarrow> 's delivery \<times> 's outbox_world" where
  "finish_delivery wk d w = delivery_run wk (replicate (length (dl_pending d)) (HandlerDone 0) @ [Conclude]) d w"

fun finish_deliveries ::
  "'s OutboxWorker \<Rightarrow> 's delivery list \<Rightarrow> 's outbox_world \<Rightarrow> 's delivery list \<times> 's outbox_world" where
  "finish_deliveries wk [] w = ([], w)"
| "finish_deliveries wk (d # ds) w =
     (case finish_delivery wk d w of (d', w1) \<Rightarrow>
      case finish_deliveries wk ds w1 of (ds', w2) \<Rightarrow> (d' # ds', w2))"

definition run_choices ::
  "'s OutboxWorker \<Rightarrow> choice list \<Rightarrow> 's delivery list \<times> 's outbox_world \<Rightarrow>
   's delivery list \<times> 's outbox_world" where
  "run_choices wk cs st = fold (choice_step wk) cs st"

definition dispatch_round ::
  "'s OutboxWorker \<Rightarrow> choice list \<Rightarrow> OutboxEvent list \<Rightarrow> 's outbox_world \<Rightarrow>
   OutboxEventOutcomeStatus option list \<times> 's outbox_world" where
  "dispatch_round wk cs events w =
     (case run_choices wk cs (map (\<lambda>event. begin_delivery wk event w) events, w) of (ds, w1) \<Rightarrow>
      case finish_deliveries wk ds w1 of (ds', w2) \<Rightarrow> (map dl_status ds', w2))"

definition tally :: "OutboxEventOutcomeStatus option \<Rightarrow> OutboxRunResult \<Rightarrow> OutboxRunResult" where
  "tally outcome result =
     (if outcome = Some OutboxOutcomeDelivered
      then result\<lparr>or_Delivered := or_Delivered result + 1\<rparr>
      else let failed = result\<lparr>or_Failed := or_Failed result + 1\<rparr>
           in if outcome = Some OutboxOutcomeClaimLost
              then failed\<lparr>or_ClaimLost := or_ClaimLost failed + 1\<rparr> else failed)"

section \<open>A pass\<close>

text \<open>\<open>schedule k\<close> is what happens in round \<open>k\<close> of the pass.\<close>

function dispatch_loop ::
  "'s OutboxWorker \<Rightarrow> (nat \<Rightarrow> choice list) \<Rightarrow> nat \<Rightarrow> int \<Rightarrow> OutboxRunResult \<Rightarrow> 's outbox_world \<Rightarrow>
   (OutboxRunResult \<times> go_error option) \<times> 's outbox_world" where
  "dispatch_loop wk schedule k remaining result w =
     (if remaining > 0
      then let available = min (wo_Concurrency (ow_options wk)) remaining
           in case outbox_call (os_Claim (ow_store wk) (ob_ctx w) (ow_topics wk) available
                     (wo_LeaseSeconds (ow_options wk))) w of
                ((events, err), w1) \<Rightarrow>
                  (case err of
                     Some e \<Rightarrow> ((result, Some e), w1)
                   | None \<Rightarrow>
                       if events = [] then ((result, None), w1)
                       else if int (length events) > available
                       then ((result, Some (NewStoreError (''outbox store returned '' @ show_nat (length events) @
                               '' events for '' @ show_nat (nat available) @ '' available slots'') no_options)), w1)
                       else
                         (case dispatch_round wk (schedule k) events w1 of
                            (outcomes, w2) \<Rightarrow>
                              let result' = fold tally outcomes
                                    (result\<lparr>or_Claimed := or_Claimed result + int (length events)\<rparr>)
                              in if int (length events) < available then ((result', None), w2)
                                 else dispatch_loop wk schedule (Suc k) (remaining - int (length events)) result' w2))
      else ((result, None), w))"
  by pat_completeness auto
termination
  by (relation "measure (\<lambda>(wk, schedule, k, remaining, result, w). nat remaining)") auto

declare dispatch_loop.simps [simp del]

definition dispatchOnce ::
  "'s OutboxWorker \<Rightarrow> (nat \<Rightarrow> choice list) \<Rightarrow> ('s outbox_world, OutboxRunResult) op" where
  "dispatchOnce wk schedule w =
     dispatch_loop wk schedule 0 (wo_BatchSize (ow_options wk)) empty_result w"

section \<open>Persisted summaries are safe\<close>

lemma is_code_byte_not_colon: "is_code_byte c \<Longrightarrow> c \<noteq> CHR '':''"
  by (auto simp: is_code_byte_def is_letter_byte_def is_upper_byte_def is_lower_byte_def
      is_digit_byte_def byte_def)

lemma diagnosticCode_bytes: "diagnosticCodePattern s \<Longrightarrow> list_all is_code_byte s"
  by (cases s) (auto simp: diagnosticCodePattern_def is_code_byte_def)

lemma diagnosticCode_no_colon: "diagnosticCodePattern s \<Longrightarrow> CHR '':'' \<notin> set s"
  using diagnosticCode_bytes is_code_byte_not_colon by (fastforce simp: list_all_iff)

lemma split_at_byte_absent: "c \<notin> set s \<Longrightarrow> split_at_byte c s = [s]"
  by (induction s) auto

lemma split_at_byte_once:
  "c \<notin> set a \<Longrightarrow> c \<notin> set b \<Longrightarrow> split_at_byte c (a @ c # b) = [a, b]"
  by (induction a) (auto simp: split_at_byte_absent)

lemma sanitized_code: "diagnosticCodePattern fallback \<Longrightarrow> diagnosticCodePattern (sanitizeDiagnosticCode v fallback)"
  by (simp add: sanitizeDiagnosticCode_def Let_def)

lemma summary_parts:
  obtains a b where "persistedDiagnosticSummary err fallback = a @ '':'' @ b"
    and "diagnosticCodePattern a" and "diagnosticCodePattern b"
proof -
  define b where "b = (case err of None \<Rightarrow> ''UnknownError'' | Some e \<Rightarrow>
    (case AsBursarError e of Some x \<Rightarrow>
        if diagnosticCodePattern (error_code_text (Code x)) then error_code_text (Code x) else ''Error''
     | None \<Rightarrow> ''Error''))"
  have fixed: "diagnosticCodePattern ''operation_failed''" "diagnosticCodePattern ''UnknownError''"
    "diagnosticCodePattern ''Error''"
    by code_simp+
  then have "diagnosticCodePattern b" by (auto simp: b_def split: option.split)
  moreover have "persistedDiagnosticSummary err fallback =
      sanitizeDiagnosticCode fallback ''operation_failed'' @ '':'' @ b"
    by (simp add: persistedDiagnosticSummary_def b_def Let_def)
  ultimately show thesis using that sanitized_code [OF fixed(1)] by blast
qed

lemma summary_nonempty [simp]: "persistedDiagnosticSummary err fallback \<noteq> []"
  by (rule summary_parts [of err fallback]) simp

lemma summary_validates:
  "validatePersistedDiagnosticSummary (persistedDiagnosticSummary err fallback) =
     Inr (persistedDiagnosticSummary err fallback)"
proof (rule summary_parts [of err fallback])
  fix a b
  assume s: "persistedDiagnosticSummary err fallback = a @ '':'' @ b"
    and ab: "diagnosticCodePattern a" "diagnosticCodePattern b"
  have "split_at_byte (CHR '':'') (a @ CHR '':'' # b) = [a, b]"
    using ab by (intro split_at_byte_once diagnosticCode_no_colon)
  then show ?thesis using ab by (simp add: s validatePersistedDiagnosticSummary_def)
qed

section \<open>Retry delays are capped doublings\<close>

lemma retry_loop_value:
  assumes "0 < delay" and "0 < maximum" and "step \<le> max attempt 1"
  shows "retry_loop maximum attempt step delay = min (delay * 2 ^ nat (max attempt 1 - step)) maximum"
  using assms
proof (induction maximum attempt step delay rule: retry_loop.induct)
  case (1 maximum attempt step delay)
  show ?case
  proof (cases "step < max attempt 1 \<and> delay < maximum")
    case go: True
    define n where "n = nat (max attempt 1 - (step + 1))"
    have n: "nat (max attempt 1 - step) = Suc n" using go by (simp add: n_def Suc_nat_eq_nat_zadd1)
    show ?thesis
    proof (cases "delay > half maximum")
      case True
      have "maximum \<le> delay * 2" using True "1.prems" by (simp add: half_def)
      also have "\<dots> \<le> delay * 2 * 2 ^ n" using "1.prems" by simp
      finally show ?thesis
        using go True by (subst retry_loop.simps) (simp add: n mult.assoc)
    next
      case False
      with go "1.IH" "1.prems" have "retry_loop maximum attempt (step + 1) (delay * 2) =
          min (delay * 2 * 2 ^ n) maximum"
        by (simp add: n_def)
      with go False show ?thesis by (subst retry_loop.simps) (simp add: n mult.assoc)
    qed
  next
    case False
    then consider "step = max attempt 1" | "maximum \<le> delay" using "1.prems" by linarith
    then show ?thesis
    proof cases
      case 1
      then show ?thesis by (subst retry_loop.simps) simp
    next
      case 2
      have "delay * 1 \<le> delay * 2 ^ nat (max attempt 1 - step)"
        using "1.prems" by (intro mult_left_mono) simp_all
      with 2 show ?thesis by (subst retry_loop.simps) simp
    qed
  qed
qed

lemma retry_delay_value:
  "0 < base \<Longrightarrow> 0 < maximum \<Longrightarrow>
   boundedOutboxRetryDelay base maximum attempt = min (base * 2 ^ nat (attempt - 1)) maximum"
  by (simp add: boundedOutboxRetryDelay_def retry_loop_value max_def)

section \<open>Constructed workers\<close>

definition options_in_range :: "OutboxWorkerOptions \<Rightarrow> bool" where
  "options_in_range opts \<longleftrightarrow>
     1 \<le> wo_BatchSize opts \<and> wo_BatchSize opts \<le> 1000 \<and>
     1 \<le> wo_Concurrency opts \<and> wo_Concurrency opts \<le> 100 \<and>
     1 \<le> wo_LeaseSeconds opts \<and> wo_LeaseSeconds opts \<le> 3600 \<and>
     10000000 \<le> wo_PollInterval opts \<and> wo_PollInterval opts \<le> 3600000000000 \<and>
     1 \<le> wo_RetryDelaySeconds opts \<and> wo_RetryDelaySeconds opts \<le> wo_MaxRetryDelaySeconds opts \<and>
     wo_MaxRetryDelaySeconds opts \<le> 86400 \<and>
     1 \<le> wo_AttemptLimit opts \<and> wo_AttemptLimit opts \<le> 100"

lemma normalized_in_range: "options_normalized o0 = Inr opts \<Longrightarrow> options_in_range opts"
  by (auto simp: options_normalized_def options_in_range_def Let_def split: if_splits)

lemma options_in_range_normalized: "options_in_range opts \<Longrightarrow> options_normalized opts = Inr opts"
  by (auto simp: options_normalized_def options_in_range_def options_with_defaults_def or_default_def Let_def)

lemma NewOutboxWorker_options:
  "NewOutboxWorker store handlers options = Inr wk \<Longrightarrow> options_in_range (ow_options wk)"
  by (auto simp: NewOutboxWorker_def go_simps normalized_in_range split: option.splits if_splits)

end
