(* ===== verification/Outbox_Delivery.thy ===== *)
theory Outbox_Delivery
  imports Outbox
begin

text \<open>
  What a pass of the outbox worker accounts for, in every interleaving: each claimed event ends with
  exactly one outcome, each outcome is reported once, the counters of the result agree with the
  reports, and every report is well formed (safe summary, capped retry delay, dead-letter mark).
\<close>

section \<open>Reports\<close>

definition report_ok :: "OutboxWorkerOptions \<Rightarrow> OutboxEventOutcome \<Rightarrow> bool" where
  "report_ok opts r \<longleftrightarrow>
     (case oo_Summary r of
        None \<Rightarrow> oo_Status r = OutboxOutcomeDelivered
      | Some s \<Rightarrow> oo_Status r \<noteq> OutboxOutcomeDelivered \<and> validatePersistedDiagnosticSummary s = Inr s) \<and>
     0 \<le> oo_Duration r \<and>
     oo_RetryDelaySeconds r =
       (if oo_Status r = OutboxOutcomeDeliveryFailed
        then Some (min (wo_RetryDelaySeconds opts * 2 ^ nat (oo_AttemptCount r - 1)) (wo_MaxRetryDelaySeconds opts))
        else None) \<and>
     (oo_DeadLettered r \<longleftrightarrow>
        oo_Status r = OutboxOutcomeDeliveryFailed \<and> oo_AttemptCount r \<ge> wo_AttemptLimit opts) \<and>
     (oo_ClaimLossPhase r \<noteq> None \<longleftrightarrow> oo_Status r = OutboxOutcomeClaimLost)"

text \<open>Between two worlds of a pass, the callback (where there is one) was told of outcomes with
  these statuses.\<close>

definition reported ::
  "'s OutboxWorker \<Rightarrow> OutboxEventOutcomeStatus multiset \<Rightarrow> 's outbox_world \<Rightarrow> 's outbox_world \<Rightarrow> bool" where
  "reported wk A w w' \<longleftrightarrow>
     (\<exists>rs. ob_outcomes w' = ob_outcomes w @ rs \<and> list_all (report_ok (ow_options wk)) rs \<and>
        mset (map oo_Status rs) = (if wo_OnEventOutcome (ow_options wk) then A else {#}))"

lemma reported_refl: "ob_outcomes w' = ob_outcomes w \<Longrightarrow> reported wk {#} w w'"
  by (simp add: reported_def)

lemma reported_trans: "reported wk A u v \<Longrightarrow> reported wk B v w \<Longrightarrow> reported wk (A + B) u w"
proof -
  assume "reported wk A u v" and "reported wk B v w"
  then obtain rs ss where
    "ob_outcomes v = ob_outcomes u @ rs" "list_all (report_ok (ow_options wk)) rs"
    "mset (map oo_Status rs) = (if wo_OnEventOutcome (ow_options wk) then A else {#})"
    "ob_outcomes w = ob_outcomes v @ ss" "list_all (report_ok (ow_options wk)) ss"
    "mset (map oo_Status ss) = (if wo_OnEventOutcome (ow_options wk) then B else {#})"
    by (auto simp: reported_def)
  then show ?thesis unfolding reported_def by (intro exI [of _ "rs @ ss"]) (auto split: if_splits)
qed

lemma reported_one:
  assumes "ob_outcomes w1 = ob_outcomes w" and "report_ok (ow_options wk) r"
  shows "reported wk {#oo_Status r#} w (reportOutcome wk r w1)"
  using assms unfolding reported_def reportOutcome_def
  by (auto intro: exI [of _ "[r]"])

lemma outbox_call_world [simp]:
  "outbox_call f w = (r, w1) \<Longrightarrow> ob_outcomes w1 = ob_outcomes w"
  by (auto simp: outbox_call_def split: prod.splits)

section \<open>One delivery\<close>

definition lost_ok :: "'s delivery \<Rightarrow> bool" where
  "lost_ok d \<longleftrightarrow> (\<forall>s. dl_lost d = Some s \<longrightarrow> s \<noteq> '''' \<and> validatePersistedDiagnosticSummary s = Inr s)"

lemma claimLost_reported:
  assumes "claimLost wk event phase summary started w1 = (status, w')"
    and "ob_outcomes w1 = ob_outcomes w"
    and "summary \<noteq> ''''" and "validatePersistedDiagnosticSummary summary = Inr summary"
  shows "reported wk {#status#} w w'"
proof -
  define r where "r = \<lparr>oo_Topic = oe_Topic event, oo_AttemptCount = oe_AttemptCount event,
    oo_Status = OutboxOutcomeClaimLost, oo_Summary = Some summary,
    oo_Duration = max (ob_now w1 - started) 0, oo_RetryDelaySeconds = None,
    oo_DeadLettered = False, oo_ClaimLossPhase = Some phase\<rparr>"
  have "report_ok (ow_options wk) r" using assms(4) by (simp add: report_ok_def r_def)
  from reported_one [OF assms(2) this] show ?thesis
    using assms(1,3) by (auto simp: claimLost_def r_def Let_def)
qed

lemma failDelivery_reported:
  assumes "options_in_range (ow_options wk)" and "failDelivery wk event err started w = (status, w')"
  shows "reported wk {#status#} w w'"
proof -
  let ?o = "ow_options wk"
  let ?delay = "boundedOutboxRetryDelay (wo_RetryDelaySeconds ?o) (wo_MaxRetryDelaySeconds ?o) (oe_AttemptCount event)"
  let ?summary = "persistedDiagnosticSummary (Some err) ''outbox_delivery_failed''"
  obtain failed e w1 where call:
    "outbox_call (os_Fail (ow_store wk) (ob_ctx w) event ?summary ?delay (wo_AttemptLimit ?o)) w = ((failed, e), w1)"
    by (metis prod.collapse)
  show ?thesis
  proof (cases "e \<noteq> None \<or> \<not> failed")
    case True
    with assms(2) call show ?thesis
      by (intro claimLost_reported [of wk event OutboxClaimLossFail _ started w1])
        (auto simp: failDelivery_def Let_def summary_validates split: if_splits)
  next
    case False
    define r where "r = \<lparr>oo_Topic = oe_Topic event, oo_AttemptCount = oe_AttemptCount event,
      oo_Status = OutboxOutcomeDeliveryFailed, oo_Summary = Some ?summary,
      oo_Duration = max (ob_now w1 - started) 0, oo_RetryDelaySeconds = Some ?delay,
      oo_DeadLettered = (oe_AttemptCount event \<ge> wo_AttemptLimit ?o), oo_ClaimLossPhase = None\<rparr>"
    have "report_ok ?o r"
      using assms(1) by (simp add: report_ok_def r_def summary_validates retry_delay_value options_in_range_def)
    from reported_one [OF _ this, of w1 w] show ?thesis
      using assms(2) call False by (auto simp: failDelivery_def r_def Let_def)
  qed
qed

lemma conclude_reported:
  assumes "options_in_range (ow_options wk)" and "lost_ok d" and "conclude_delivery wk d w = (status, w')"
  shows "reported wk {#status#} w w'"
proof (cases "dl_lost d")
  case (Some summary)
  with assms(2,3) show ?thesis
    by (intro claimLost_reported) (auto simp: conclude_delivery_def lost_ok_def)
next
  case lost: None
  show ?thesis
  proof (cases "dl_error d")
    case (Some err)
    with lost assms(1,3) show ?thesis
      by (intro failDelivery_reported) (auto simp: conclude_delivery_def)
  next
    case None
    obtain completed e w1 where call:
      "outbox_call (os_Complete (ow_store wk) (ob_ctx w) (dl_event d)) w = ((completed, e), w1)"
      by (metis prod.collapse)
    show ?thesis
    proof (cases "e \<noteq> None \<or> \<not> completed")
      case True
      with assms(3) lost None call show ?thesis
        by (intro claimLost_reported [of wk "dl_event d" OutboxClaimLossComplete _ "dl_started d" w1])
          (auto simp: conclude_delivery_def summary_validates)
    next
      case False
      define r where "r = \<lparr>oo_Topic = oe_Topic (dl_event d), oo_AttemptCount = oe_AttemptCount (dl_event d),
        oo_Status = OutboxOutcomeDelivered, oo_Summary = None,
        oo_Duration = max (ob_now w1 - dl_started d) 0, oo_RetryDelaySeconds = None,
        oo_DeadLettered = False, oo_ClaimLossPhase = None\<rparr>"
      have "report_ok (ow_options wk) r" by (simp add: report_ok_def r_def)
      from reported_one [OF _ this, of w1 w] show ?thesis
        using assms(3) lost None call False by (auto simp: conclude_delivery_def r_def)
    qed
  qed
qed

definition statuses :: "'s delivery \<Rightarrow> OutboxEventOutcomeStatus multiset" where
  "statuses d = (case dl_status d of None \<Rightarrow> {#} | Some st \<Rightarrow> {#st#})"

text \<open>A step of a delivery reports what it adds to the delivery's statuses.\<close>

definition accounts ::
  "'s OutboxWorker \<Rightarrow> 's delivery \<Rightarrow> 's outbox_world \<Rightarrow> 's delivery \<times> 's outbox_world \<Rightarrow> bool" where
  "accounts wk d w st \<longleftrightarrow>
     lost_ok (fst st) \<and> (\<exists>A. statuses (fst st) = statuses d + A \<and> reported wk A w (snd st))"

lemma accounts_quiet:
  "lost_ok d' \<Longrightarrow> dl_status d' = dl_status d \<Longrightarrow> ob_outcomes w' = ob_outcomes w \<Longrightarrow> accounts wk d w (d', w')"
  by (simp add: accounts_def statuses_def reported_refl exI [of _ "{#}"])

lemma delivery_step_accounts:
  assumes range: "options_in_range (ow_options wk)" and lost: "lost_ok d"
  shows "accounts wk d w (delivery_step wk a d w)"
proof (cases "dl_status d")
  case (Some st)
  with lost show ?thesis by (simp add: delivery_step_def accounts_quiet)
next
  case None
  show ?thesis
  proof (cases a)
    case (HandlerDone k)
    with None lost show ?thesis
      by (auto simp: delivery_step_def handler_done_def lost_ok_def split: prod.splits intro!: accounts_quiet)
  next
    case HeartbeatTick
    with None lost show ?thesis
      by (auto simp: delivery_step_def heartbeat_tick_def lost_ok_def summary_validates
          split: prod.splits intro!: accounts_quiet)
  next
    case HeartbeatCancelled
    with None lost show ?thesis
      by (auto simp: delivery_step_def lost_ok_def summary_validates intro!: accounts_quiet)
  next
    case Conclude
    show ?thesis
    proof (cases "dl_pending d = []")
      case True
      obtain st w1 where c: "conclude_delivery wk d w = (st, w1)" by (metis prod.collapse)
      then have "reported wk {#st#} w w1" by (rule conclude_reported [OF range lost])
      with None Conclude True c lost show ?thesis
        by (simp add: delivery_step_def accounts_def statuses_def lost_ok_def)
    next
      case False
      with None Conclude lost show ?thesis by (simp add: delivery_step_def accounts_quiet)
    qed
  qed
qed

lemma accounts_trans:
  "accounts wk d u (e, v) \<Longrightarrow> accounts wk e v st \<Longrightarrow> accounts wk d u st"
  unfolding accounts_def by (auto intro: reported_trans simp: add.assoc)

lemma delivery_run_accounts:
  "options_in_range (ow_options wk) \<Longrightarrow> lost_ok d \<Longrightarrow> accounts wk d w (delivery_run wk actions d w)"
proof (induction actions arbitrary: d w)
  case Nil
  then show ?case by (simp add: delivery_run_def accounts_quiet)
next
  case (Cons a actions)
  obtain e v where s: "delivery_step wk a d w = (e, v)" by (metis prod.collapse)
  with delivery_step_accounts [OF Cons.prems, of w a] have first: "accounts wk d w (e, v)" by simp
  then have "accounts wk e v (delivery_run wk actions e v)"
    by (intro Cons.IH Cons.prems(1)) (simp add: accounts_def)
  with first s show ?case by (auto simp: delivery_run_def intro: accounts_trans)
qed

lemma handlers_finish:
  "length (dl_pending d) \<le> n \<Longrightarrow> dl_status d = None \<Longrightarrow>
   dl_status (fst (delivery_run wk (replicate n (HandlerDone 0)) d w)) = None \<and>
   dl_pending (fst (delivery_run wk (replicate n (HandlerDone 0)) d w)) = []"
proof (induction n arbitrary: d w)
  case 0
  then show ?case by (simp add: delivery_run_def)
next
  case (Suc n)
  obtain e v where s: "delivery_step wk (HandlerDone 0) d w = (e, v)" by (metis prod.collapse)
  then have "length (dl_pending e) \<le> n" "dl_status e = None"
    using Suc.prems by (auto simp: delivery_step_def handler_done_def split: if_splits prod.splits)
  from Suc.IH [OF this, of v] s show ?case by (simp add: delivery_run_def)
qed

lemma delivery_run_append:
  "delivery_run wk (xs @ ys) d w =
     (case delivery_run wk xs d w of (e, v) \<Rightarrow> delivery_run wk ys e v)"
  by (simp add: delivery_run_def split: prod.split)

lemma delivery_run_done: "dl_status d = Some st \<Longrightarrow> delivery_run wk actions d w = (d, w)"
  by (induction actions) (simp_all add: delivery_run_def delivery_step_def)

lemma finish_delivery_status: "\<exists>st. dl_status (fst (finish_delivery wk d w)) = Some st"
proof (cases "dl_status d")
  case (Some st)
  then show ?thesis by (simp add: finish_delivery_def delivery_run_done)
next
  case None
  obtain e v where s: "delivery_run wk (replicate (length (dl_pending d)) (HandlerDone 0)) d w = (e, v)"
    by (metis prod.collapse)
  with handlers_finish [of d "length (dl_pending d)" wk w] None
  have "dl_status e = None" "dl_pending e = []" by simp_all
  with s show ?thesis
    by (simp add: finish_delivery_def delivery_run_append)
      (simp add: delivery_run_def delivery_step_def split: prod.split)
qed

section \<open>One round\<close>

definition round_accounts ::
  "'s OutboxWorker \<Rightarrow> 's outbox_world \<Rightarrow> 's delivery list \<times> 's outbox_world \<Rightarrow> bool" where
  "round_accounts wk w st \<longleftrightarrow>
     list_all lost_ok (fst st) \<and> reported wk (\<Sum>d\<leftarrow>fst st. statuses d) w (snd st)"

lemma sum_list_add_at:
  fixes f :: "'a \<Rightarrow> 'b::comm_monoid_add"
  shows "i < length xs \<Longrightarrow> f y = f (xs ! i) + z \<Longrightarrow> (\<Sum>x\<leftarrow>xs[i := y]. f x) = (\<Sum>x\<leftarrow>xs. f x) + z"
proof (induction xs arbitrary: i)
  case (Cons x xs)
  then show ?case by (cases i) (simp_all add: ac_simps)
qed simp

lemma choice_step_accounts:
  assumes range: "options_in_range (ow_options wk)" and st: "round_accounts wk w (ds, v)"
  shows "round_accounts wk w (choice_step wk c (ds, v))"
proof (cases c)
  case (On i a)
  show ?thesis
  proof (cases "i < length ds")
    case True
    obtain d v1 where s: "delivery_step wk a (ds ! i) v = (d, v1)" by (metis prod.collapse)
    have "lost_ok (ds ! i)" using st True by (simp add: round_accounts_def list_all_length)
    with delivery_step_accounts [OF range this, of v a] s
    obtain A where d: "lost_ok d" "statuses d = statuses (ds ! i) + A" "reported wk A v v1"
      by (auto simp: accounts_def)
    have "list_all lost_ok (ds[i := d])"
      using st d(1) by (auto simp: round_accounts_def list_all_iff dest: set_update_subset_insert [THEN subsetD])
    moreover have "reported wk ((\<Sum>d\<leftarrow>ds. statuses d) + A) w v1"
      using st d(3) by (auto simp: round_accounts_def intro: reported_trans)
    ultimately show ?thesis
      using On True s sum_list_add_at [OF True d(2)] by (simp add: choice_step_def round_accounts_def)
  next
    case False
    with On st show ?thesis by (simp add: choice_step_def)
  qed
qed (use st in \<open>auto simp: choice_step_def round_accounts_def reported_def\<close>)

lemma run_choices_accounts:
  "options_in_range (ow_options wk) \<Longrightarrow> round_accounts wk w st \<Longrightarrow> round_accounts wk w (run_choices wk cs st)"
proof (induction cs arbitrary: st)
  case (Cons c cs)
  obtain ds v where "st = (ds, v)" by (cases st)
  with Cons choice_step_accounts [of wk w ds v c] show ?case by (simp add: run_choices_def)
qed (simp add: run_choices_def)

lemma choice_step_length [simp]: "length (fst (choice_step wk c st)) = length (fst st)"
  by (auto simp: choice_step_def split: prod.splits choice.splits)

lemma run_choices_length [simp]: "length (fst (run_choices wk cs st)) = length (fst st)"
  by (induction cs arbitrary: st) (simp_all add: run_choices_def)

lemma finish_deliveries_accounts:
  assumes "options_in_range (ow_options wk)" and "list_all lost_ok ds"
    and "finish_deliveries wk ds w = (ds', w')"
  shows "\<exists>sts A. map dl_status ds' = map Some sts \<and> length sts = length ds \<and>
    mset sts = (\<Sum>d\<leftarrow>ds. statuses d) + A \<and> reported wk A w w'"
  using assms
proof (induction ds arbitrary: w ds' w')
  case Nil
  then show ?case by (simp add: reported_refl)
next
  case (Cons d ds)
  obtain e v where f: "finish_delivery wk d w = (e, v)" by (metis prod.collapse)
  obtain es u where r: "finish_deliveries wk ds v = (es, u)" by (metis prod.collapse)
  from f r Cons.prems have res: "ds' = e # es" "w' = u" by simp_all
  from Cons.IH [OF Cons.prems(1) _ r] Cons.prems obtain sts A where tl:
    "map dl_status es = map Some sts" "length sts = length ds"
    "mset sts = (\<Sum>d\<leftarrow>ds. statuses d) + A" "reported wk A v u" by auto
  have "accounts wk d w (e, v)"
    using Cons.prems(1,2) delivery_run_accounts [of wk d w] by (simp flip: f add: finish_delivery_def)
  then obtain B where hd: "statuses e = statuses d + B" "reported wk B w v" by (auto simp: accounts_def)
  obtain st where st: "dl_status e = Some st" using finish_delivery_status [of wk d w] f by auto
  have "reported wk (B + A) w u" using hd(2) tl(4) by (rule reported_trans)
  moreover have "mset (st # sts) = (\<Sum>d\<leftarrow>d # ds. statuses d) + (B + A)"
    using tl(3) hd(1) st by (simp add: statuses_def ac_simps)
  ultimately show ?case
    using tl(1,2) st res by (intro exI [of _ "st # sts"] exI [of _ "B + A"]) simp
qed

lemma dispatch_round_accounts:
  assumes range: "options_in_range (ow_options wk)" and r: "dispatch_round wk cs events w = (outcomes, w')"
  shows "\<exists>sts. outcomes = map Some sts \<and> length sts = length events \<and> reported wk (mset sts) w w'"
proof -
  let ?start = "(map (\<lambda>event. begin_delivery wk event w) events, w)"
  have "round_accounts wk w ?start"
    by (simp add: round_accounts_def list_all_iff begin_delivery_def lost_ok_def statuses_def
        reported_refl comp_def Let_def)
  then have mid: "round_accounts wk w (run_choices wk cs ?start)" by (rule run_choices_accounts [OF range])
  obtain ds v where ds: "run_choices wk cs ?start = (ds, v)" by (metis prod.collapse)
  obtain es u where es: "finish_deliveries wk ds v = (es, u)" by (metis prod.collapse)
  have len: "length ds = length events" using run_choices_length [of wk cs ?start] ds by simp
  from mid ds have "list_all lost_ok ds" and before: "reported wk (\<Sum>d\<leftarrow>ds. statuses d) w v"
    by (simp_all add: round_accounts_def)
  from finish_deliveries_accounts [OF range this(1) es] obtain sts A where
    "map dl_status es = map Some sts" "length sts = length ds"
    "mset sts = (\<Sum>d\<leftarrow>ds. statuses d) + A" "reported wk A v u" by auto
  then show ?thesis
    using r ds es len reported_trans [OF before \<open>reported wk A v u\<close>]
    by (intro exI [of _ sts]) (auto simp: dispatch_round_def)
qed

section \<open>The counters\<close>

definition counts :: "OutboxEventOutcomeStatus multiset \<Rightarrow> OutboxRunResult \<Rightarrow> bool" where
  "counts A r \<longleftrightarrow>
     or_Claimed r = int (size A) \<and>
     or_Delivered r = int (count A OutboxOutcomeDelivered) \<and>
     or_Failed r = int (count A OutboxOutcomeDeliveryFailed) + int (count A OutboxOutcomeClaimLost) \<and>
     or_ClaimLost r = int (count A OutboxOutcomeClaimLost)"

lemma size_statuses:
  "size A = count A OutboxOutcomeDelivered + count A OutboxOutcomeDeliveryFailed + count A OutboxOutcomeClaimLost"
proof (induction A)
  case (add x A)
  then show ?case by (cases x) simp_all
qed simp

lemma tally_counts:
  "counts (A + B) (r\<lparr>or_Claimed := c\<rparr>) \<Longrightarrow>
   counts (A + B + {#st#}) (tally (Some st) r\<lparr>or_Claimed := c + 1\<rparr>)"
  by (cases st) (simp_all add: counts_def tally_def Let_def)

lemma tally_claimed [simp]: "or_Claimed (tally x r) = or_Claimed r"
  by (simp add: tally_def Let_def)

lemma fold_tally_counts:
  assumes "counts A r"
  shows "counts (A + mset sts) (fold tally (map Some sts) (r\<lparr>or_Claimed := or_Claimed r + int (length sts)\<rparr>))"
proof -
  have "or_Claimed (fold tally (map Some ts) q) = or_Claimed q"
    and "or_Delivered (fold tally (map Some ts) q) = or_Delivered q + int (count (mset ts) OutboxOutcomeDelivered)"
    and "or_ClaimLost (fold tally (map Some ts) q) = or_ClaimLost q + int (count (mset ts) OutboxOutcomeClaimLost)"
    and "or_Failed (fold tally (map Some ts) q) = or_Failed q + int (count (mset ts) OutboxOutcomeDeliveryFailed)
      + int (count (mset ts) OutboxOutcomeClaimLost)" for ts q
    by (induction ts arbitrary: q) (auto simp: tally_def Let_def intro: OutboxEventOutcomeStatus.exhaust)
  with assms show ?thesis by (simp add: counts_def)
qed

section \<open>The pass\<close>

lemma dispatch_loop_stops:
  assumes "outbox_call (os_Claim (ow_store wk) (ob_ctx w) (ow_topics wk)
      (min (wo_Concurrency (ow_options wk)) remaining) (wo_LeaseSeconds (ow_options wk))) w = ((events, e), w1)"
    and "\<not> (0 < remaining \<and> e = None \<and> events \<noteq> [] \<and>
      int (length events) \<le> min (wo_Concurrency (ow_options wk)) remaining)"
  shows "\<exists>err v. dispatch_loop wk schedule k remaining result w = ((result, err), v) \<and>
    ob_outcomes v = ob_outcomes w"
proof (cases "0 < remaining")
  case False
  then show ?thesis by (subst dispatch_loop.simps) simp
next
  case True
  note go = dispatch_loop.simps [of wk schedule k remaining result w, unfolded Let_def assms(1) if_P [OF True]]
  show ?thesis
  proof (cases e)
    case (Some err)
    then show ?thesis using outbox_call_world [OF assms(1)] by (simp add: go)
  next
    case None
    with True assms(2) have "events = [] \<or> int (length events) > min (wo_Concurrency (ow_options wk)) remaining"
      by linarith
    then show ?thesis using None outbox_call_world [OF assms(1)] by (auto simp: go simp del: min_less_iff_disj)
  qed
qed

lemma dispatch_loop_accounts:
  assumes "options_in_range (ow_options wk)" and "reported wk A w0 w" and "counts A result"
    and "dispatch_loop wk schedule k remaining result w = ((result', err), w')"
  shows "\<exists>B. reported wk B w0 w' \<and> counts B result' \<and> size B \<le> size A + nat remaining"
  using assms
proof (induction wk schedule k remaining result w arbitrary: A rule: dispatch_loop.induct)
  case (1 wk schedule k remaining result w)
  let ?available = "min (wo_Concurrency (ow_options wk)) remaining"
  note unfolded = "1.prems"(4) [unfolded dispatch_loop.simps [of wk schedule k remaining result w]]
  obtain events e w1 where call: "outbox_call (os_Claim (ow_store wk) (ob_ctx w) (ow_topics wk) ?available
      (wo_LeaseSeconds (ow_options wk))) w = ((events, e), w1)" by (metis prod.collapse)
  have w1: "reported wk A w0 w1" using "1.prems"(2) call by (simp add: reported_def)
  show ?case
  proof (cases "0 < remaining \<and> e = None \<and> events \<noteq> [] \<and> int (length events) \<le> ?available")
    case False
    have "result' = result" "ob_outcomes w' = ob_outcomes w"
      using dispatch_loop_stops [OF call False, of schedule k result] "1.prems"(4) by auto
    then show ?thesis using "1.prems"(2,3) by (intro exI [of _ A]) (simp add: reported_def)
  next
    case go: True
    obtain outcomes w2 where round: "dispatch_round wk (schedule k) events w1 = (outcomes, w2)"
      by (metis prod.collapse)
    from dispatch_round_accounts [OF "1.prems"(1) round] obtain sts where
      sts: "outcomes = map Some sts" "length sts = length events" "reported wk (mset sts) w1 w2" by auto
    let ?result = "fold tally outcomes (result\<lparr>or_Claimed := or_Claimed result + int (length events)\<rparr>)"
    have w2: "reported wk (A + mset sts) w0 w2" using w1 sts(3) by (rule reported_trans)
    have cs: "counts (A + mset sts) ?result" using fold_tally_counts [OF "1.prems"(3), of sts] sts by simp
    have sz: "size (A + mset sts) + nat (remaining - int (length events)) = size A + nat remaining"
      using go sts(2) by (simp, linarith)
    show ?thesis
    proof (cases "int (length events) < ?available")
      case True
      then have "result' = ?result" "w' = w2" using unfolded call go round by (simp_all add: Let_def)
      with w2 cs sz show ?thesis by (intro exI [of _ "A + mset sts"]) auto
    next
      case False
      with unfolded call go round
      have rest: "dispatch_loop wk schedule (Suc k) (remaining - int (length events)) ?result w2 = ((result', err), w')"
        by (simp add: Let_def split: if_splits)
      have "\<exists>B. reported wk B w0 w' \<and> counts B result' \<and>
          size B \<le> size (A + mset sts) + nat (remaining - int (length events))"
        using False go
        by (intro "1.IH" [OF _ refl call [symmetric] refl _ _ _ round [symmetric] refl _ "1.prems"(1) w2 cs rest]) auto
      then show ?thesis by (simp only: sz)
    qed
  qed
qed

lemma dispatchOnce_accounts:
  assumes "options_in_range (ow_options wk)" and "dispatchOnce wk schedule w = ((result, err), w')"
  shows "\<exists>B. reported wk B w w' \<and> counts B result \<and> int (size B) \<le> wo_BatchSize (ow_options wk)"
proof -
  have "counts {#} empty_result" by (simp add: counts_def empty_result_def)
  from dispatch_loop_accounts [OF assms(1) reported_refl [OF refl] this]
  show ?thesis using assms by (fastforce simp: dispatchOnce_def options_in_range_def)
qed

end
