(* ===== verification/Outbox_Worker.thy ===== *)
theory Outbox_Worker
  imports Outbox_Delivery
begin

text \<open>
  The life of an outbox worker: \<open>Start\<close>, \<open>RunOnce\<close>, \<open>Stop\<close>, \<open>Snapshot\<close>, \<open>Health\<close> and the polling
  loop of \<open>src/golang/outbox_worker.go\<close>. Each critical section under the worker's mutex is one
  operation; calls on several goroutines are sequences of these operations, in any order, by the
  step relation \<open>worker_step\<close>.
\<close>

section \<open>State\<close>

datatype OutboxWorkerLifecycle =
    OutboxWorkerNotConfigured
  | OutboxWorkerNotStarted
  | OutboxWorkerRunning
  | OutboxWorkerStopped

record OutboxWorkerRunSnapshot =
  rs_Source :: string
  rs_Status :: string
  rs_StartedAt :: gotime
  rs_CompletedAt :: gotime
  rs_Result :: "OutboxRunResult option"
  rs_Error :: string

record OutboxWorkerErrorSnapshot =
  es_At :: gotime
  es_Error :: string

record OutboxWorkerSnapshot =
  sn_Configured :: bool
  sn_Lifecycle :: OutboxWorkerLifecycle
  sn_LastRun :: "OutboxWorkerRunSnapshot option"
  sn_LastError :: "OutboxWorkerErrorSnapshot option"

text \<open>A pass in progress: whether the polling loop began it, and when.\<close>

record outboxActiveRun =
  ar_detached :: bool
  ar_startedAt :: gotime

text \<open>\<open>ws_loop\<close> says that the goroutine of the polling loop runs, \<open>ws_cancelled\<close> that its context is
  cancelled, \<open>ws_joined\<close> that it waits for a pass another caller began.\<close>

record 's worker_state =
  ws_started :: bool
  ws_stopped :: bool
  ws_loop :: bool
  ws_cancelled :: bool
  ws_joined :: bool
  ws_active :: "outboxActiveRun option"
  ws_lastRun :: "OutboxWorkerRunSnapshot option"
  ws_lastError :: "OutboxWorkerErrorSnapshot option"
  ws_world :: "'s outbox_world"

definition new_state :: "'s outbox_world \<Rightarrow> 's worker_state" where
  "new_state w = \<lparr>ws_started = False, ws_stopped = False, ws_loop = False, ws_cancelled = False,
     ws_joined = False, ws_active = None, ws_lastRun = None, ws_lastError = None, ws_world = w\<rparr>"

section \<open>Operations\<close>

text \<open>A context is \<open>None\<close> when it is nil, and otherwise what its \<open>Err\<close> returns.\<close>

definition worker_Start ::
  "context_error option \<Rightarrow> 's worker_state option \<Rightarrow> go_error option \<times> 's worker_state option" where
  "worker_Start ctx receiver =
     (case receiver of
        None \<Rightarrow> (Some (outboxConfigError ''outbox worker is not initialized''), None)
      | Some st \<Rightarrow>
          (case ctx of
             None \<Rightarrow> (Some (outboxConfigError ''outbox worker context is required''), Some st)
           | Some (Some err) \<Rightarrow> (Some err, Some st)
           | Some None \<Rightarrow>
               if ws_stopped st
               then (Some (NewError ''OutboxWorker cannot be restarted after close''
                      (code_category ErrorCodeStoreClosed ErrorCategoryUnavailable)), Some st)
               else if ws_started st then (None, Some st)
               else (None, Some (st\<lparr>ws_started := True, ws_loop := True\<rparr>))))"

datatype run_entry = RunRejected go_error | RunJoined | RunBegun

text \<open>The first critical section of \<open>runOnce\<close>, and the start of the pass.\<close>

definition begin_run :: "context_error option \<Rightarrow> bool \<Rightarrow> 's worker_state \<Rightarrow> run_entry \<times> 's worker_state" where
  "begin_run ctx detached st =
     (case ctx of
        None \<Rightarrow> (RunRejected (outboxConfigError ''outbox worker context is required''), st)
      | Some err \<Rightarrow>
          if ws_stopped st
          then (RunRejected (NewError ''OutboxWorker has been closed''
                  (code_category ErrorCodeStoreClosed ErrorCategoryUnavailable)), st)
          else if ws_active st \<noteq> None then (RunJoined, st)
          else (RunBegun,
                st\<lparr>ws_active := Some \<lparr>ar_detached = detached, ar_startedAt = ob_now (ws_world st)\<rparr>,
                   ws_world := (ws_world st)\<lparr>ob_ctx := (if detached then None else err)\<rparr>\<rparr>))"

text \<open>The last critical section of \<open>runOnce\<close>.\<close>

definition record_run ::
  "outboxActiveRun \<Rightarrow> OutboxRunResult \<Rightarrow> go_error option \<Rightarrow> 's worker_state \<Rightarrow> 's worker_state" where
  "record_run run result err st =
     (let completedAt = ob_now (ws_world st);
          st1 =
            (case err of
               Some e \<Rightarrow>
                 let message = persistedDiagnosticSummary (Some e) ''outbox_worker_failed'';
                     failed = st\<lparr>ws_lastError := Some \<lparr>es_At = completedAt, es_Error = message\<rparr>\<rparr>
                 in if ar_detached run then failed
                    else failed\<lparr>ws_lastRun := Some \<lparr>rs_Source = ''manual'', rs_Status = ''failed'',
                           rs_StartedAt = ar_startedAt run, rs_CompletedAt = completedAt,
                           rs_Result = None, rs_Error = message\<rparr>\<rparr>
             | None \<Rightarrow>
                 if ar_detached run then st
                 else st\<lparr>ws_lastRun := Some \<lparr>rs_Source = ''manual'', rs_Status = ''completed'',
                        rs_StartedAt = ar_startedAt run, rs_CompletedAt = completedAt,
                        rs_Result = Some result, rs_Error = ''''\<rparr>\<rparr>)
      in st1\<lparr>ws_active := None\<rparr>)"

text \<open>\<open>errors.Is(err, context.Canceled)\<close>; the sentinel is the plain error with its text.\<close>

fun is_canceled :: "go_error \<Rightarrow> bool" where
  "is_canceled (PlainError m es) \<longleftrightarrow> (m = ''context canceled'' \<and> es = []) \<or> list_ex is_canceled es"
| "is_canceled (BursarError m c k r i d x) \<longleftrightarrow> (case x of None \<Rightarrow> False | Some e \<Rightarrow> is_canceled e)"

definition loop_report :: "'s OutboxWorker \<Rightarrow> go_error option \<Rightarrow> 's outbox_world \<Rightarrow> 's outbox_world" where
  "loop_report wk err w =
     (case err of
        None \<Rightarrow> w
      | Some e \<Rightarrow> if is_canceled e then w else reportError wk e w)"

text \<open>The pass itself and its end. The polling loop reports the error of a pass it began or waited
  for.\<close>

definition finish_run ::
  "'s OutboxWorker \<Rightarrow> (nat \<Rightarrow> choice list) \<Rightarrow> 's worker_state \<Rightarrow>
   (OutboxRunResult \<times> go_error option) \<times> 's worker_state" where
  "finish_run wk schedule st =
     (case ws_active st of
        None \<Rightarrow> ((empty_result, None), st)
      | Some run \<Rightarrow>
          (case dispatchOnce wk schedule (ws_world st) of
             ((result, err), w) \<Rightarrow>
               let st1 = record_run run result err (st\<lparr>ws_world := w\<rparr>)
               in ((result, err),
                   if ar_detached run \<or> ws_joined st
                   then st1\<lparr>ws_joined := False, ws_world := loop_report wk err (ws_world st1)\<rparr>
                   else st1)))"

text \<open>What a caller that joined a pass gets: the pass's result, unless its own context ends first.\<close>

definition waitOutboxRun ::
  "context_error \<Rightarrow> OutboxRunResult \<times> go_error option \<Rightarrow> OutboxRunResult \<times> go_error option" where
  "waitOutboxRun ended run = (case ended of Some e \<Rightarrow> (empty_result, Some e) | None \<Rightarrow> run)"

text \<open>\<open>RunOnce\<close> when no other call comes between its critical sections and no pass is active.\<close>

definition RunOnce ::
  "'s OutboxWorker \<Rightarrow> (nat \<Rightarrow> choice list) \<Rightarrow> context_error option \<Rightarrow> 's worker_state option \<Rightarrow>
   (OutboxRunResult \<times> go_error option) \<times> 's worker_state option" where
  "RunOnce wk schedule ctx receiver =
     (case receiver of
        None \<Rightarrow> ((empty_result, Some (outboxConfigError ''outbox worker is not initialized'')), None)
      | Some st \<Rightarrow>
          (case begin_run ctx False st of
             (RunRejected e, st1) \<Rightarrow> ((empty_result, Some e), Some st1)
           | (_, st1) \<Rightarrow>
               (case finish_run wk schedule st1 of (r, st2) \<Rightarrow> (r, Some st2))))"

definition worker_Flush ::
  "'s OutboxWorker \<Rightarrow> (nat \<Rightarrow> choice list) \<Rightarrow> context_error option \<Rightarrow> 's worker_state option \<Rightarrow>
   go_error option \<times> 's worker_state option" where
  "worker_Flush wk schedule ctx receiver =
     (case RunOnce wk schedule ctx receiver of ((_, err), st) \<Rightarrow> (err, st))"

text \<open>The critical section of \<open>Stop\<close>.\<close>

definition stop_mark :: "'s worker_state \<Rightarrow> 's worker_state" where
  "stop_mark st =
     (if \<not> ws_stopped st then st\<lparr>ws_stopped := True, ws_cancelled := ws_started st\<rparr> else st)"

text \<open>\<open>errors.Join\<close>: nil for no errors, otherwise an error whose text is their texts, one on each line.\<close>

fun error_text :: "go_error \<Rightarrow> string" where
  "error_text (BursarError m c k r i d e) = m"
| "error_text (PlainError m es) = m"

fun error_lines :: "go_error list \<Rightarrow> string" where
  "error_lines [] = []"
| "error_lines [e] = error_text e"
| "error_lines (e # es) = error_text e @ [char_of (10 :: nat)] @ error_lines es"

definition errors_Join :: "go_error list \<Rightarrow> go_error option" where
  "errors_Join es =
     (if es = [] then None
      else Some (PlainError (error_lines es) es))"

text \<open>
  What \<open>Stop\<close> returns. \<open>Some (Inl err)\<close> for the active pass: it ended with this error; \<open>Some (Inr e)\<close>: the
  caller's context ended first. \<open>ctxErr\<close> is \<open>ctx.Err()\<close> when the wait for the pass is over, and
  \<open>loopWait\<close> the context's error if it ends before the loop does.
\<close>

definition stop_result ::
  "(go_error option + go_error) option \<Rightarrow> context_error \<Rightarrow> context_error option \<Rightarrow> go_error option" where
  "stop_result active ctxErr loopWait =
     (let waited = (case active of None \<Rightarrow> None | Some (Inl err) \<Rightarrow> err | Some (Inr e) \<Rightarrow> Some e)
      in if waited \<noteq> None \<and> ctxErr \<noteq> None then waited
         else case loopWait of
                Some (Some e) \<Rightarrow> Some e
              | _ \<Rightarrow> errors_Join (case waited of None \<Rightarrow> [] | Some e \<Rightarrow> [e]))"

definition worker_Snapshot :: "'s worker_state option \<Rightarrow> OutboxWorkerSnapshot" where
  "worker_Snapshot receiver =
     (case receiver of
        None \<Rightarrow> \<lparr>sn_Configured = False, sn_Lifecycle = OutboxWorkerNotConfigured, sn_LastRun = None,
                 sn_LastError = None\<rparr>
      | Some st \<Rightarrow>
          \<lparr>sn_Configured = True,
           sn_Lifecycle = (if ws_stopped st then OutboxWorkerStopped
                           else if ws_started st then OutboxWorkerRunning else OutboxWorkerNotStarted),
           sn_LastRun = ws_lastRun st, sn_LastError = ws_lastError st\<rparr>)"

definition worker_Health :: "'s worker_state option \<Rightarrow> go_error option" where
  "worker_Health receiver =
     (case receiver of
        None \<Rightarrow> Some (NewError ''outbox worker is not initialized''
                   (code_category ErrorCodeStoreClosed ErrorCategoryUnavailable))
      | Some st \<Rightarrow>
          if ws_stopped st
          then Some (NewError ''outbox worker is closed''
                 (code_category ErrorCodeStoreClosed ErrorCategoryUnavailable))
          else if \<not> ws_started st
          then Some (NewError ''outbox worker is not started''
                 (code_category ErrorCodeStore ErrorCategoryUnavailable))
          else None)"

text \<open>\<open>runLoop\<close>: the entry of one iteration, and its exit once the loop's context is cancelled and
  the pass it began is over.\<close>

definition loop_enter :: "'s OutboxWorker \<Rightarrow> 's worker_state \<Rightarrow> 's worker_state" where
  "loop_enter wk st =
     (case begin_run (Some None) True st of
        (RunRejected e, st1) \<Rightarrow> st1\<lparr>ws_world := loop_report wk (Some e) (ws_world st1)\<rparr>
      | (RunJoined, st1) \<Rightarrow> st1\<lparr>ws_joined := True\<rparr>
      | (RunBegun, st1) \<Rightarrow> st1)"

definition loop_busy :: "'s worker_state \<Rightarrow> bool" where
  "loop_busy st \<longleftrightarrow> (case ws_active st of None \<Rightarrow> False | Some run \<Rightarrow> ar_detached run)"

section \<open>Interleavings\<close>

inductive worker_step :: "'s OutboxWorker \<Rightarrow> 's worker_state \<Rightarrow> 's worker_state \<Rightarrow> bool"
  for wk :: "'s OutboxWorker" where
  start: "worker_Start ctx (Some st) = (err, Some st') \<Longrightarrow> worker_step wk st st'"
| manual_begin: "begin_run ctx False st = (entry, st') \<Longrightarrow> worker_step wk st st'"
| loop_begin: "ws_loop st \<Longrightarrow> \<not> loop_busy st \<Longrightarrow> \<not> ws_joined st \<Longrightarrow> worker_step wk st (loop_enter wk st)"
| pass_end: "finish_run wk schedule st = (r, st') \<Longrightarrow> worker_step wk st st'"
| loop_exit: "ws_loop st \<Longrightarrow> ws_cancelled st \<Longrightarrow> \<not> loop_busy st \<Longrightarrow>
    worker_step wk st (st\<lparr>ws_loop := False, ws_joined := False\<rparr>)"
| stop: "worker_step wk st (stop_mark st)"

inductive worker_reach :: "'s OutboxWorker \<Rightarrow> 's worker_state \<Rightarrow> 's worker_state \<Rightarrow> bool"
  for wk :: "'s OutboxWorker" and st :: "'s worker_state" where
  here: "worker_reach wk st st"
| further: "worker_reach wk st st' \<Longrightarrow> worker_step wk st' st'' \<Longrightarrow> worker_reach wk st st''"

inductive_cases worker_stepE: "worker_step wk st st'"

section \<open>Invariant\<close>

definition result_ok :: "OutboxWorkerOptions \<Rightarrow> OutboxRunResult \<Rightarrow> bool" where
  "result_ok opts r \<longleftrightarrow>
     or_Claimed r = or_Delivered r + or_Failed r \<and> 0 \<le> or_Delivered r \<and> 0 \<le> or_ClaimLost r \<and>
     or_ClaimLost r \<le> or_Failed r \<and> or_Claimed r \<le> wo_BatchSize opts"

definition run_snapshot_ok :: "OutboxWorkerOptions \<Rightarrow> OutboxWorkerRunSnapshot \<Rightarrow> bool" where
  "run_snapshot_ok opts s \<longleftrightarrow>
     rs_Source s = ''manual'' \<and>
     (case rs_Result s of
        Some r \<Rightarrow> rs_Status s = ''completed'' \<and> rs_Error s = '''' \<and> result_ok opts r
      | None \<Rightarrow> rs_Status s = ''failed'' \<and> validatePersistedDiagnosticSummary (rs_Error s) = Inr (rs_Error s))"

definition error_snapshot_ok :: "OutboxWorkerErrorSnapshot \<Rightarrow> bool" where
  "error_snapshot_ok s \<longleftrightarrow> validatePersistedDiagnosticSummary (es_Error s) = Inr (es_Error s)"

definition history_ok :: "'s OutboxWorker \<Rightarrow> 's worker_state \<Rightarrow> bool" where
  "history_ok wk st \<longleftrightarrow>
     pred_option (run_snapshot_ok (ow_options wk)) (ws_lastRun st) \<and>
     pred_option error_snapshot_ok (ws_lastError st) \<and>
     (\<exists>rs. ob_outcomes (ws_world st) = rs \<and> list_all (report_ok (ow_options wk)) rs)"

definition worker_inv :: "'s OutboxWorker \<Rightarrow> 's worker_state \<Rightarrow> bool" where
  "worker_inv wk st \<longleftrightarrow>
     (ws_loop st \<longrightarrow> ws_started st) \<and>
     (loop_busy st \<longrightarrow> ws_loop st) \<and>
     (ws_joined st \<longrightarrow> ws_loop st) \<and>
     (ws_cancelled st \<longleftrightarrow> ws_stopped st \<and> ws_started st) \<and>
     (ws_started st \<and> \<not> ws_stopped st \<longrightarrow> ws_loop st) \<and>
     history_ok wk st"

lemma dispatchOnce_result:
  assumes "options_in_range (ow_options wk)" and "dispatchOnce wk schedule w = ((result, err), w')"
    and "list_all (report_ok (ow_options wk)) (ob_outcomes w)"
  shows "result_ok (ow_options wk) result \<and> list_all (report_ok (ow_options wk)) (ob_outcomes w')"
  using dispatchOnce_accounts [OF assms(1,2)] assms(3)
  by (auto simp: result_ok_def counts_def reported_def size_statuses)

lemma record_run_fields [simp]:
  "ws_started (record_run run r err st) = ws_started st"
  "ws_stopped (record_run run r err st) = ws_stopped st"
  "ws_loop (record_run run r err st) = ws_loop st"
  "ws_cancelled (record_run run r err st) = ws_cancelled st"
  "ws_joined (record_run run r err st) = ws_joined st"
  "ws_active (record_run run r err st) = None"
  "ws_world (record_run run r err st) = ws_world st"
  by (simp_all add: record_run_def Let_def split: option.split)

lemma record_run_history:
  "result_ok (ow_options wk) r \<Longrightarrow> history_ok wk st \<Longrightarrow> history_ok wk (record_run run r err st)"
  by (cases err)
    (simp_all add: history_ok_def record_run_def run_snapshot_ok_def error_snapshot_ok_def
      summary_validates Let_def)

lemma loop_report_outcomes [simp]: "ob_outcomes (loop_report wk err w) = ob_outcomes w"
  by (simp add: loop_report_def reportError_def split: option.split)

lemma loop_report_state [simp]: "ob_state (loop_report wk err w) = ob_state w"
  by (simp add: loop_report_def reportError_def split: option.split)

lemma history_ok_world: "history_ok wk st \<Longrightarrow> ws_lastRun st' = ws_lastRun st \<Longrightarrow>
   ws_lastError st' = ws_lastError st \<Longrightarrow> ob_outcomes (ws_world st') = ob_outcomes (ws_world st) \<Longrightarrow>
   history_ok wk st'"
  by (simp add: history_ok_def)

lemma finish_run_inv:
  assumes range: "options_in_range (ow_options wk)" and inv: "worker_inv wk st"
    and fin: "finish_run wk schedule st = (r, st')"
  shows "worker_inv wk st'"
proof (cases "ws_active st")
  case None
  with inv fin show ?thesis by (simp add: finish_run_def)
next
  case (Some run)
  obtain result err w where d: "dispatchOnce wk schedule (ws_world st) = ((result, err), w)"
    by (metis prod.collapse)
  let ?st1 = "record_run run result err (st\<lparr>ws_world := w\<rparr>)"
  have "result_ok (ow_options wk) result" and outs: "list_all (report_ok (ow_options wk)) (ob_outcomes w)"
    using dispatchOnce_result [OF range d] inv by (simp_all add: worker_inv_def history_ok_def)
  moreover have "history_ok wk (st\<lparr>ws_world := w\<rparr>)"
    using inv outs by (simp add: worker_inv_def history_ok_def)
  ultimately have "history_ok wk ?st1" by (intro record_run_history)
  moreover have "st' = ?st1 \<or>
      st' = ?st1\<lparr>ws_joined := False, ws_world := loop_report wk err (ws_world ?st1)\<rparr>"
    using fin Some d by (auto simp: finish_run_def Let_def split: if_splits)
  ultimately show ?thesis using inv by (auto simp: worker_inv_def loop_busy_def intro: history_ok_world)
qed

lemma worker_Start_cases:
  "worker_Start ctx (Some st) = (err, Some st') \<Longrightarrow>
   st' = st \<or> (\<not> ws_stopped st \<and> \<not> ws_started st \<and> st' = st\<lparr>ws_started := True, ws_loop := True\<rparr>)"
  by (auto simp: worker_Start_def split: option.splits if_splits)

lemma begin_run_cases:
  "begin_run ctx detached st = (entry, st') \<Longrightarrow>
   st' = st \<or> (\<not> ws_stopped st \<and> ws_active st = None \<and>
     (\<exists>t e. st' = st\<lparr>ws_active := Some \<lparr>ar_detached = detached, ar_startedAt = t\<rparr>,
        ws_world := (ws_world st)\<lparr>ob_ctx := e\<rparr>\<rparr>))"
  by (auto simp: begin_run_def split: option.splits if_splits)

lemma loop_enter_cases:
  obtains "loop_enter wk st = st\<lparr>ws_joined := True\<rparr>" and "ws_active st \<noteq> None"
  | e where "loop_enter wk st = st\<lparr>ws_world := loop_report wk (Some e) (ws_world st)\<rparr>"
  | t e where "loop_enter wk st = st\<lparr>ws_active := Some \<lparr>ar_detached = True, ar_startedAt = t\<rparr>,
        ws_world := (ws_world st)\<lparr>ob_ctx := e\<rparr>\<rparr>" and "\<not> ws_stopped st" and "ws_active st = None"
proof (cases "ws_stopped st")
  case True
  then show thesis by (intro that(2)) (simp add: loop_enter_def begin_run_def)
next
  case running: False
  show thesis
  proof (cases "ws_active st")
    case None
    with running show thesis by (intro that(3)) (simp_all add: loop_enter_def begin_run_def)
  next
    case (Some run)
    with running show thesis by (intro that(1)) (simp_all add: loop_enter_def begin_run_def)
  qed
qed

lemma worker_step_inv:
  assumes range: "options_in_range (ow_options wk)" and step: "worker_step wk st st'"
    and inv: "worker_inv wk st"
  shows "worker_inv wk st'"
  using step
proof (cases rule: worker_step.cases)
  case (start ctx err)
  from worker_Start_cases [OF this] inv show ?thesis
    by (auto simp: worker_inv_def loop_busy_def history_ok_def)
next
  case (manual_begin ctx entry)
  from begin_run_cases [OF this] inv show ?thesis
    by (auto simp: worker_inv_def loop_busy_def history_ok_def)
next
  case loop_begin
  then show ?thesis
    using inv by (cases rule: loop_enter_cases [of wk st]) (auto simp: worker_inv_def loop_busy_def history_ok_def)
next
  case (pass_end schedule r)
  then show ?thesis by (rule finish_run_inv [OF range inv])
next
  case loop_exit
  then show ?thesis using inv by (auto simp: worker_inv_def loop_busy_def history_ok_def)
next
  case stop
  then show ?thesis using inv by (auto simp: stop_mark_def worker_inv_def loop_busy_def history_ok_def)
qed

lemma worker_reach_inv:
  "worker_reach wk st st' \<Longrightarrow> options_in_range (ow_options wk) \<Longrightarrow> worker_inv wk st \<Longrightarrow> worker_inv wk st'"
  by (induction rule: worker_reach.induct) (auto intro: worker_step_inv)

lemma new_state_inv: "list_all (report_ok (ow_options wk)) (ob_outcomes w) \<Longrightarrow> worker_inv wk (new_state w)"
  by (simp add: new_state_def worker_inv_def loop_busy_def history_ok_def)

section \<open>Stopping\<close>

text \<open>A stopped worker with no pass in progress: what it has done so far does not change.\<close>

definition drained_from :: "'s worker_state \<Rightarrow> 's worker_state \<Rightarrow> bool" where
  "drained_from st st' \<longleftrightarrow>
     ws_stopped st' \<and> ws_active st' = None \<and> ws_lastRun st' = ws_lastRun st \<and>
     ob_state (ws_world st') = ob_state (ws_world st) \<and>
     ob_outcomes (ws_world st') = ob_outcomes (ws_world st)"

lemma worker_step_stopped: "worker_step wk st st' \<Longrightarrow> ws_stopped st \<Longrightarrow> ws_stopped st'"
  by (erule worker_stepE)
    (auto simp: worker_Start_def begin_run_def loop_enter_def finish_run_def stop_mark_def Let_def
      split: option.splits if_splits prod.splits run_entry.splits)

lemma worker_step_drained: "worker_step wk u v \<Longrightarrow> drained_from st u \<Longrightarrow> drained_from st v"
  by (erule worker_stepE)
    (auto simp: drained_from_def worker_Start_def begin_run_def loop_enter_def finish_run_def stop_mark_def
      split: option.splits if_splits)

lemma worker_reach_stopped: "worker_reach wk st st' \<Longrightarrow> ws_stopped st \<Longrightarrow> ws_stopped st'"
  by (induction rule: worker_reach.induct) (auto intro: worker_step_stopped)

lemma worker_reach_drained: "worker_reach wk st st' \<Longrightarrow> drained_from st st \<Longrightarrow> drained_from st st'"
  by (induction rule: worker_reach.induct) (auto intro: worker_step_drained)

end
