(* ===== verification/Outbox_Properties.thy ===== *)
theory Outbox_Properties
  imports Outbox_Worker
begin

text \<open>
  The properties of the outbox worker, and an in-memory store and a handler on which they are
  instantiated: the store hands out the queued events of the asked topics, accepts every renewal and
  completion, and records the failures it is told of.
\<close>

section \<open>An in-memory store\<close>

record memory_outbox =
  mo_queue :: "OutboxEvent list"
  mo_completed :: "string list"
  mo_failed :: "(string \<times> string \<times> int) list"

definition memory_store :: "memory_outbox OutboxStore" where
  "memory_store =
     \<lparr>os_Renew = (\<lambda>ctx event lease. return_ok True),
      os_Claim = (\<lambda>ctx topics n lease s.
        let ready = filter (\<lambda>e. oe_Topic e \<in> set topics) (mo_queue s);
            taken = take (nat n) ready
        in ((taken, ctx), s\<lparr>mo_queue := filter (\<lambda>e. e \<notin> set taken) (mo_queue s)\<rparr>)),
      os_Complete = (\<lambda>ctx event s. ((True, None), s\<lparr>mo_completed := oe_EventID event # mo_completed s\<rparr>)),
      os_Fail = (\<lambda>ctx event summary delay limit s.
        ((True, None), s\<lparr>mo_failed := (oe_EventID event, summary, delay) # mo_failed s\<rparr>))\<rparr>"

definition usage_handler :: "'s OutboxHandler" where
  "usage_handler =
     \<lparr>oh_Topics = [''usage''],
      oh_Handle = (\<lambda>ctx event s.
        (if oe_EventID event = ''bad'' then HandlerReturns (Some (errorf ErrorCodeStore ErrorCategoryUnavailable ''down''))
         else if oe_EventID event = ''worse'' then HandlerPanics else HandlerReturns None, s))\<rparr>"

definition usage_event :: "string \<Rightarrow> int \<Rightarrow> OutboxEvent" where
  "usage_event i attempts =
     \<lparr>oe_EventID = i, oe_TenantID = ''t'', oe_Topic = ''usage'', oe_AggregateType = ''charge'',
      oe_AggregateID = ''a'', oe_PayloadVersion = 1, oe_Payload = [], oe_ClaimToken = ''c'',
      oe_AttemptCount = attempts, oe_CreatedAt = 0\<rparr>"

definition default_options :: OutboxWorkerOptions where
  "default_options =
     \<lparr>wo_BatchSize = 0, wo_Concurrency = 2, wo_LeaseSeconds = 0, wo_PollInterval = 0,
      wo_RetryDelaySeconds = 0, wo_MaxRetryDelaySeconds = 0, wo_AttemptLimit = 0,
      wo_OnError = True, wo_OnEventOutcome = True\<rparr>"

definition memory_worker :: "memory_outbox OutboxWorker" where
  "memory_worker =
     \<lparr>ow_store = memory_store, ow_handlers = [(''usage'', [usage_handler])], ow_topics = [''usage''],
      ow_options = options_with_defaults default_options\<rparr>"

definition memory_world :: "memory_outbox outbox_world" where
  "memory_world =
     \<lparr>ob_state = \<lparr>mo_queue = [usage_event ''good'' 1, usage_event ''bad'' 3, usage_event ''worse'' 12],
        mo_completed = [], mo_failed = []\<rparr>,
      ob_outcomes = [], ob_errors = [], ob_now = 0, ob_ctx = None\<rparr>"

lemma trim_usage [simp]: "trim_space ''usage'' = ''usage''"
  by (rule trim_space_graphic) (simp_all add: graphic_def byte_def)

lemma memory_worker_new:
  "NewOutboxWorker (Some memory_store) [Some usage_handler] default_options = Inr memory_worker"
  by (simp add: NewOutboxWorker_def options_normalized_def memory_worker_def default_options_def
      options_with_defaults_def or_default_def usage_handler_def handlers_of_def map_put_def
      map_keys_def sort_by_def Let_def)

section \<open>Passes\<close>

definition reports_match :: "OutboxRunResult \<Rightarrow> OutboxEventOutcome list \<Rightarrow> bool" where
  "reports_match r rs \<longleftrightarrow>
     or_Claimed r = int (length rs) \<and>
     or_Delivered r = int (count_list (map oo_Status rs) OutboxOutcomeDelivered) \<and>
     or_ClaimLost r = int (count_list (map oo_Status rs) OutboxOutcomeClaimLost)"



section \<open>Retry delays\<close>

text \<open>For a constructed worker the delay before attempt \<open>n + 1\<close> is the base delay doubled for each
  attempt after the first and capped at the maximum; the loop that computes it never exceeds the
  maximum on the way, so the result lies between the base and one day and does not decrease with the
  attempts.\<close>

theorem outbox_retry_delay:
  assumes "NewOutboxWorker store handlers options = Inr wk"
  shows "boundedOutboxRetryDelay (wo_RetryDelaySeconds (ow_options wk)) (wo_MaxRetryDelaySeconds (ow_options wk)) attempt =
      min (wo_RetryDelaySeconds (ow_options wk) * 2 ^ nat (attempt - 1)) (wo_MaxRetryDelaySeconds (ow_options wk)) \<and>
    boundedOutboxRetryDelay (wo_RetryDelaySeconds (ow_options wk)) (wo_MaxRetryDelaySeconds (ow_options wk)) attempt
      \<in> {wo_RetryDelaySeconds (ow_options wk) .. 86400} \<and>
    boundedOutboxRetryDelay (wo_RetryDelaySeconds (ow_options wk)) (wo_MaxRetryDelaySeconds (ow_options wk)) attempt \<le>
      boundedOutboxRetryDelay (wo_RetryDelaySeconds (ow_options wk)) (wo_MaxRetryDelaySeconds (ow_options wk)) (attempt + 1)"
proof -
  let ?b = "wo_RetryDelaySeconds (ow_options wk)" and ?m = "wo_MaxRetryDelaySeconds (ow_options wk)"
  have r: "1 \<le> ?b" "?b \<le> ?m" "?m \<le> 86400"
    using NewOutboxWorker_options [OF assms] by (simp_all add: options_in_range_def)
  define x where "x = ?b * 2 ^ nat (attempt - 1)"
  define y where "y = ?b * 2 ^ nat (attempt + 1 - 1)"
  have "?b * 1 \<le> x" unfolding x_def using r by (intro mult_left_mono) simp_all
  moreover have "x \<le> y" unfolding x_def y_def
    using r by (intro mult_left_mono power_increasing nat_mono) simp_all
  moreover have "boundedOutboxRetryDelay ?b ?m attempt = min x ?m"
    "boundedOutboxRetryDelay ?b ?m (attempt + 1) = min y ?m"
    using r by (simp_all add: retry_delay_value x_def y_def)
  ultimately show ?thesis using r by (auto simp: x_def [symmetric])
qed

theorem outbox_retry_delay_witness:
  "boundedOutboxRetryDelay 30 3600 3 = 120 \<and> boundedOutboxRetryDelay 30 3600 9 = 3600"
  using outbox_retry_delay [OF memory_worker_new, of 3] outbox_retry_delay [OF memory_worker_new, of 9]
  by (simp add: memory_worker_def options_with_defaults_def default_options_def or_default_def)

section \<open>The worker's life\<close>



text \<open>Stopping is final: after Stop the worker is stopped for ever, it reports itself unhealthy, and it
  rejects Start and new passes; and once no pass is in progress nothing it does afterwards reaches
  the store or the handlers, reports an outcome or changes the recorded last run.\<close>

theorem outbox_stop_is_final:
  assumes "worker_reach wk (stop_mark st) st'"
  shows "ws_stopped st' \<and> worker_Health (Some st') \<noteq> None \<and>
    sn_Lifecycle (worker_Snapshot (Some st')) = OutboxWorkerStopped \<and>
    (\<exists>e. worker_Start (Some None) (Some st') = (Some e, Some st')) \<and>
    (\<exists>e. begin_run (Some ctx) detached st' = (RunRejected e, st')) \<and>
    (if ws_active st = None
     then ws_active st' = None \<and> ws_lastRun st' = ws_lastRun st \<and>
       ob_state (ws_world st') = ob_state (ws_world st) \<and>
       ob_outcomes (ws_world st') = ob_outcomes (ws_world st)
     else True)"
proof -
  have mark: "ws_stopped (stop_mark st)" "ws_active (stop_mark st) = ws_active st"
    "ws_lastRun (stop_mark st) = ws_lastRun st" "ws_world (stop_mark st) = ws_world st"
    by (simp_all add: stop_mark_def)
  then have "ws_stopped st'" using worker_reach_stopped [OF assms] by simp
  moreover have "drained_from (stop_mark st) st'" if "ws_active st = None"
    using that mark by (intro worker_reach_drained [OF assms]) (simp add: drained_from_def)
  ultimately show ?thesis
    using mark by (simp add: worker_Health_def worker_Snapshot_def worker_Start_def begin_run_def drained_from_def)
qed

theorem outbox_stop_is_final_witness:
  "let st = (new_state memory_world)\<lparr>ws_started := True, ws_loop := True\<rparr>;
       st' = (stop_mark st)\<lparr>ws_loop := False, ws_joined := False\<rparr>
   in worker_Health (Some st) = None \<and> worker_Health (Some st') \<noteq> None \<and> \<not> ws_loop st' \<and>
      ob_state (ws_world st') = ob_state (ws_world st)"
proof -
  define st where "st = (new_state memory_world)\<lparr>ws_started := True, ws_loop := True\<rparr>"
  have st: "ws_started st" "ws_loop st" "\<not> ws_stopped st" "ws_active st = None"
    by (simp_all add: st_def new_state_def)
  have "worker_reach memory_worker (stop_mark st) ((stop_mark st)\<lparr>ws_loop := False, ws_joined := False\<rparr>)"
    using st by (intro worker_reach.further [OF worker_reach.here] worker_step.loop_exit)
      (simp_all add: stop_mark_def loop_busy_def)
  from outbox_stop_is_final [OF this] st show ?thesis
    unfolding st_def [symmetric] by (simp add: Let_def worker_Health_def)
qed

end
