(* ===== verification/Runtime.thy ===== *)
theory Runtime
  imports Credits_Usage
begin

text \<open>
  The process runtime of \<open>runtime.go\<close> and the parts of the facade in \<open>bursar.go\<close> it calls. A runtime
  starts its components in order after the catalogue is loaded, unwinds a failed start in reverse, flushes and
  closes them in reverse, and closes the facade last. Components are code of the application, so the runtime
  is given by the functions they provide; the model keeps the log of the calls made to them.

  \<open>Start\<close>, \<open>Flush\<close> and \<open>Close\<close> hold \<open>startMu\<close> from their first read of the runtime to their last
  write, so concurrent callers are an interleaving of whole calls; \<open>Health\<close> only reads.
\<close>

section \<open>The facade\<close>

text \<open>
  The parts of \<open>Bursar\<close> that have a lifecycle. \<open>bu_Commerce\<close> is the commerce service, given by what its
  \<open>Close\<close> acts on: the post-deduction hook it registered, if any.
\<close>

record 's Bursar =
  bu_Credits :: "'s CreditsService option"
  bu_Catalog :: "'s CatalogService option"
  bu_Commerce :: "64 word option option"

definition LoadCatalog :: "config_pkgs \<Rightarrow> 's Bursar option \<Rightarrow> ('s world, unit) op" where
  "LoadCatalog L b =
     (case b of
        None \<Rightarrow> return_err () (NewError ''Bursar catalog capability is not configured''
                  (code_category ErrorCodeCatalogNotLoaded ErrorCategoryUnavailable))
      | Some sdk \<Rightarrow>
          if bu_Catalog sdk = None
          then return_err () (NewError ''Bursar catalog capability is not configured''
                 (code_category ErrorCodeCatalogNotLoaded ErrorCategoryUnavailable))
          else refreshNow L (bu_Catalog sdk))"

definition CommerceService_Close :: "64 word option \<Rightarrow> 's world \<Rightarrow> 64 word option \<times> 's world" where
  "CommerceService_Close unsubscribe w =
     (case unsubscribe of None \<Rightarrow> (None, w) | Some i \<Rightarrow> (None, remove_hook i w))"

text \<open>The facade after the call is part of the result: closing drops the registration.\<close>

definition Bursar_Close :: "'s Bursar option \<Rightarrow> ('s world, 's Bursar option) op" where
  "Bursar_Close b =
     (case b of
        None \<Rightarrow> return_ok None
      | Some sdk \<Rightarrow> (\<lambda>w.
          let (commerce, w1) = (case bu_Commerce sdk of
                  None \<Rightarrow> (None, w)
                | Some unsubscribe \<Rightarrow> map_prod Some id (CommerceService_Close unsubscribe w));
              sdk' = sdk\<lparr>bu_Commerce := commerce\<rparr>
          in if bu_Credits sdk = None then return_ok (Some sdk') w1
             else bind_op (CreditsService_Close (bu_Credits sdk))
                    (\<lambda>_ e. case e of None \<Rightarrow> return_ok (Some sdk') | Some err \<Rightarrow> return_err (Some sdk') err) w1))"

section \<open>The runtime\<close>

datatype runtime_call =
    StartedComponent nat
  | FailedComponent nat
  | FlushedComponent nat
  | ClosedComponent nat
  | CheckedComponent nat
  | ClosedBursar

text \<open>What a component's methods act on: the world of the services and everything outside of it.\<close>

type_synonym ('s, 'c) component_call = "'s world \<times> 'c \<Rightarrow> go_error option \<times> 's world \<times> 'c"

record ('s, 'c) RuntimeComponent =
  rc_Start :: "('s, 'c) component_call"
  rc_Flush :: "('s, 'c) component_call"
  rc_Close :: "('s, 'c) component_call"
  rc_Health :: "('s, 'c) component_call option"

record ('s, 'c) runtime_state =
  rt_Bursar :: "'s Bursar option"
  rt_components :: "('s, 'c) RuntimeComponent list"
  rt_started :: bool
  rt_closed :: bool
  rt_catalogLoaded :: bool
  rt_componentsUp :: nat
  rt_world :: "'s world"
  rt_outside :: 'c
  rt_calls :: "runtime_call list"

definition runtime_config_error :: "string \<Rightarrow> go_error" where
  "runtime_config_error message = NewError message (code_category ErrorCodeConfig ErrorCategoryInvalidRequest)"

definition runtime_closed_error :: "string \<Rightarrow> go_error" where
  "runtime_closed_error message = NewError message (code_category ErrorCodeStoreClosed ErrorCategoryUnavailable)"

definition option_list :: "'a option \<Rightarrow> 'a list" where
  "option_list v = (case v of None \<Rightarrow> [] | Some x \<Rightarrow> [x])"

fun nil_component :: "nat \<Rightarrow> 'a option list \<Rightarrow> nat option" where
  "nil_component index [] = None"
| "nil_component index (c # cs) = (if c = None then Some index else nil_component (Suc index) cs)"

definition NewBursarRuntime ::
  "'s Bursar option \<Rightarrow> ('s, 'c) RuntimeComponent option list \<Rightarrow> 's world \<Rightarrow> 'c \<Rightarrow> go_error + ('s, 'c) runtime_state" where
  "NewBursarRuntime bursar components w outside =
     (if bursar = None then Inl (runtime_config_error ''runtime requires Bursar'')
      else case nil_component 0 components of
        Some index \<Rightarrow> Inl (NewError ''runtime component must not be nil''
          ((code_category ErrorCodeConfig ErrorCategoryInvalidRequest)\<lparr>opt_Details := [(''index'', VInt (int index))]\<rparr>))
      | None \<Rightarrow> Inr \<lparr>rt_Bursar = bursar, rt_components = map the components, rt_started = False, rt_closed = False,
          rt_catalogLoaded = False, rt_componentsUp = 0, rt_world = w, rt_outside = outside, rt_calls = []\<rparr>)"

section \<open>Calls of components\<close>

text \<open>A call of a method of component \<open>i\<close>, and its entry in the log.\<close>

definition component_call ::
  "(('s, 'c) RuntimeComponent \<Rightarrow> ('s, 'c) component_call) \<Rightarrow> (go_error option \<Rightarrow> runtime_call) \<Rightarrow> nat \<Rightarrow>
   ('s, 'c) runtime_state \<Rightarrow> go_error option \<times> ('s, 'c) runtime_state" where
  "component_call method entry i r =
     (case method (rt_components r ! i) (rt_world r, rt_outside r) of
        (e, w, out) \<Rightarrow> (e, r\<lparr>rt_world := w, rt_outside := out, rt_calls := rt_calls r @ [entry e]\<rparr>))"

definition start_component :: "nat \<Rightarrow> ('s, 'c) runtime_state \<Rightarrow> go_error option \<times> ('s, 'c) runtime_state" where
  "start_component i = component_call rc_Start (\<lambda>e. if e = None then StartedComponent i else FailedComponent i) i"

definition flush_component :: "nat \<Rightarrow> ('s, 'c) runtime_state \<Rightarrow> go_error option \<times> ('s, 'c) runtime_state" where
  "flush_component i = component_call rc_Flush (\<lambda>_. FlushedComponent i) i"

definition close_component :: "nat \<Rightarrow> ('s, 'c) runtime_state \<Rightarrow> go_error option \<times> ('s, 'c) runtime_state" where
  "close_component i = component_call rc_Close (\<lambda>_. ClosedComponent i) i"

text \<open>The loop that closes components \<open>n - 1\<close> down to \<open>0\<close> and drops their errors.\<close>

fun rollback :: "nat \<Rightarrow> ('s, 'c) runtime_state \<Rightarrow> ('s, 'c) runtime_state" where
  "rollback 0 r = r"
| "rollback (Suc n) r = rollback n (snd (close_component n r))"

text \<open>The loop over the components from \<open>index\<close> on; \<open>Inr\<close> is how many started.\<close>

function start_loop ::
  "nat \<Rightarrow> ('s, 'c) runtime_state \<Rightarrow> (go_error + nat) \<times> ('s, 'c) runtime_state" where
  "start_loop index r =
     (if length (rt_components r) \<le> index then (Inr index, r)
      else case start_component index r of
        (Some err, r') \<Rightarrow> (Inl err, rollback index r')
      | (None, r') \<Rightarrow> start_loop (Suc index) r')"
  by pat_completeness auto
termination
  by (relation "measure (\<lambda>(index, r). length (rt_components r) - index)")
    (auto simp: start_component_def component_call_def split: prod.splits)

declare start_loop.simps [simp del]

definition on_services :: "('s world, 'r) op \<Rightarrow> (('s, 'c) runtime_state, 'r) op" where
  "on_services m = (\<lambda>r. case m (rt_world r) of (x, w) \<Rightarrow> (x, r\<lparr>rt_world := w\<rparr>))"

text \<open>The last section of \<open>StartWithOptions\<close>, after the components have started.\<close>

definition finish_start :: "bool \<Rightarrow> nat \<Rightarrow> (('s, 'c) runtime_state, unit) op" where
  "finish_start loadCatalog count = (\<lambda>r.
     if rt_closed r
     then return_err () (runtime_closed_error ''runtime closed during startup'') (rollback count r)
     else return_ok () (r\<lparr>rt_started := True, rt_componentsUp := count,
            rt_catalogLoaded := (loadCatalog \<and> bu_Catalog (the (rt_Bursar r)) \<noteq> None \<and>
              IsLoaded (bu_Catalog (the (rt_Bursar r))) (rt_world r))\<rparr>))"

text \<open>\<open>ctx\<close> is whether a context is given; \<open>None\<close> for the option means the default.\<close>

definition StartWithOptions ::
  "config_pkgs \<Rightarrow> bool \<Rightarrow> bool option \<Rightarrow> (('s, 'c) runtime_state, unit) op" where
  "StartWithOptions L ctx option = (\<lambda>r.
     if rt_Bursar r = None then return_err () (runtime_closed_error ''runtime is not initialized'') r
     else if \<not> ctx then return_err () (runtime_config_error ''runtime context is required'') r
     else
       let loadCatalog = (case option of None \<Rightarrow> True | Some b \<Rightarrow> b) in
       if rt_closed r then return_err () (runtime_closed_error ''runtime is closed'') r
       else if rt_started r then return_ok () r
       else try_op (if loadCatalog then on_services (LoadCatalog L (rt_Bursar r)) else return_ok ()) ()
         (\<lambda>_ r. case start_loop 0 r of
            (Inl err, r') \<Rightarrow> return_err () err r'
          | (Inr count, r') \<Rightarrow> finish_start loadCatalog count r') r)"

definition runtime_Start :: "config_pkgs \<Rightarrow> bool \<Rightarrow> (('s, 'c) runtime_state, unit) op" where
  "runtime_Start L ctx = StartWithOptions L ctx None"

section \<open>Flush and close\<close>

text \<open>The loops over the components \<open>n - 1\<close> down to \<open>0\<close>, with the errors in the order met.\<close>

fun flush_loop :: "nat \<Rightarrow> ('s, 'c) runtime_state \<Rightarrow> go_error list \<times> ('s, 'c) runtime_state" where
  "flush_loop 0 r = ([], r)"
| "flush_loop (Suc n) r =
     (let (e, r1) = flush_component n r;
          (errs, r2) = flush_loop n r1
      in (option_list e @ errs, r2))"

fun close_loop :: "nat \<Rightarrow> ('s, 'c) runtime_state \<Rightarrow> go_error list \<times> ('s, 'c) runtime_state" where
  "close_loop 0 r = ([], r)"
| "close_loop (Suc n) r =
     (let (e, r1) = flush_component n r;
          (e', r2) = close_component n r1;
          (errs, r3) = close_loop n r2
      in (option_list e @ option_list e' @ errs, r3))"

definition runtime_Flush :: "bool \<Rightarrow> (('s, 'c) runtime_state, unit) op" where
  "runtime_Flush ctx = (\<lambda>r.
     if \<not> ctx then return_err () (runtime_config_error ''runtime context is required'') r
     else if rt_closed r then return_err () (runtime_closed_error ''runtime is closed'') r
     else case flush_loop (rt_componentsUp r) r of (errs, r') \<Rightarrow> (((), errors_Join errs), r'))"

definition close_bursar :: "('s, 'c) runtime_state \<Rightarrow> go_error list \<times> ('s, 'c) runtime_state" where
  "close_bursar r =
     (if rt_Bursar r = None then ([], r)
      else case Bursar_Close (rt_Bursar r) (rt_world r) of
        ((b, e), w) \<Rightarrow> (option_list e, r\<lparr>rt_Bursar := b, rt_world := w, rt_calls := rt_calls r @ [ClosedBursar]\<rparr>))"

definition runtime_Close :: "bool \<Rightarrow> (('s, 'c) runtime_state, unit) op" where
  "runtime_Close ctx = (\<lambda>r.
     if \<not> ctx then return_err () (runtime_config_error ''runtime context is required'') r
     else if rt_closed r then return_ok () r
     else
       let (errs, r1) = close_loop (rt_componentsUp r) (r\<lparr>rt_closed := True\<rparr>);
           (errs', r2) = close_bursar r1
       in (((), errors_Join (errs @ errs')), r2))"

section \<open>Health\<close>

record BursarRuntimeHealth =
  rh_Ready :: bool
  rh_FinancialReady :: bool
  rh_ProjectionReady :: bool
  rh_Degraded :: bool
  rh_Started :: bool
  rh_Closed :: bool
  rh_CatalogLoaded :: bool

definition runtime_Health :: "('s, 'c) runtime_state \<Rightarrow> BursarRuntimeHealth" where
  "runtime_Health r =
     (let financialReady = (rt_started r \<and> \<not> rt_closed r \<and> rt_catalogLoaded r);
          projectionReady = (rt_started r \<and> \<not> rt_closed r \<and> rt_componentsUp r = length (rt_components r))
      in \<lparr>rh_Ready = (financialReady \<and> projectionReady), rh_FinancialReady = financialReady,
          rh_ProjectionReady = projectionReady, rh_Degraded = (financialReady \<and> \<not> projectionReady),
          rh_Started = rt_started r, rh_Closed = rt_closed r, rh_CatalogLoaded = rt_catalogLoaded r\<rparr>)"

record DependencyCheck =
  dc_Name :: string
  dc_OK :: bool
  dc_Latency :: duration
  dc_Error :: string
  dc_Skipped :: bool

record BursarRuntimeDiagnostics =
  rd_CheckedAt :: gotime
  rd_Health :: BursarRuntimeHealth
  rd_Catalog :: DependencyCheck
  rd_Components :: "DependencyCheck list"

definition runtimeComponentName :: "nat \<Rightarrow> string" where
  "runtimeComponentName index = ''component_'' @ show_int (int index + 1)"

definition skipped_check :: "string \<Rightarrow> string \<Rightarrow> DependencyCheck" where
  "skipped_check name reason =
     \<lparr>dc_Name = name, dc_OK = False, dc_Latency = 0, dc_Error = reason, dc_Skipped = True\<rparr>"

text \<open>The latency is read from the clock when the outcome is made.\<close>

definition dependencyOutcome :: "string \<Rightarrow> gotime \<Rightarrow> gotime \<Rightarrow> go_error option \<Rightarrow> DependencyCheck" where
  "dependencyOutcome name started ended err =
     \<lparr>dc_Name = name, dc_OK = (err = None), dc_Latency = time_sub ended started,
      dc_Error = (case err of None \<Rightarrow> [] | Some e \<Rightarrow> PublicErrorMessage e), dc_Skipped = False\<rparr>"

definition runtime_now :: "('s, 'c) runtime_state \<Rightarrow> gotime \<times> ('s, 'c) runtime_state" where
  "runtime_now r = (now_reading (rt_world r), r\<lparr>rt_world := tick (rt_world r)\<rparr>)"

definition check_component :: "nat \<Rightarrow> ('s, 'c) runtime_state \<Rightarrow> DependencyCheck \<times> ('s, 'c) runtime_state" where
  "check_component i r =
     (case rc_Health (rt_components r ! i) of
        None \<Rightarrow> (skipped_check (runtimeComponentName i) [], r)
      | Some health \<Rightarrow>
          let (started, r1) = runtime_now r;
              (e, r2) = component_call (\<lambda>_. health) (\<lambda>_. CheckedComponent i) i r1;
              (ended, r3) = runtime_now r2
          in (dependencyOutcome (runtimeComponentName i) started ended e, r3))"

fun check_components :: "nat list \<Rightarrow> ('s, 'c) runtime_state \<Rightarrow> DependencyCheck list \<times> ('s, 'c) runtime_state" where
  "check_components [] r = ([], r)"
| "check_components (i # is) r =
     (let (c, r1) = check_component i r; (cs, r2) = check_components is r1 in (c # cs, r2))"

definition CheckDependencies ::
  "('s, 'c) runtime_state \<Rightarrow> BursarRuntimeDiagnostics \<times> ('s, 'c) runtime_state" where
  "CheckDependencies r =
     (let (checkedAt, r0) = runtime_now r;
          health = runtime_Health r;
          skipped = (\<lambda>reason. \<lparr>rd_CheckedAt = checkedAt, rd_Health = health,
             rd_Catalog = skipped_check ''catalog'' reason, rd_Components = []\<rparr>)
      in case rt_Bursar r of
           None \<Rightarrow> (skipped ''runtime is not initialized'', r0)
         | Some sdk \<Rightarrow>
             if bu_Catalog sdk = None then (skipped ''runtime is not initialized'', r0)
             else if rh_Closed health then (skipped ''runtime is closed'', r0)
             else
               let (started, r1) = runtime_now r0;
                   (active, r2) = on_services (GetActive (bu_Catalog sdk)) r1;
                   (ended, r3) = runtime_now r2;
                   (checks, r4) = check_components [0..<length (rt_components r)] r3
               in (\<lparr>rd_CheckedAt = checkedAt, rd_Health = health,
                    rd_Catalog = dependencyOutcome ''catalog'' started ended (snd active),
                    rd_Components = checks\<rparr>, r4))"

section \<open>The order of calls\<close>

text \<open>
  What the components may rely on: they start in order, are flushed only while they run, and are closed in
  reverse, each once for every start that succeeded; the facade is closed last, once, and nothing is called
  after it. The state is the number of running components and whether the facade is closed.
\<close>

fun protocol :: "nat \<times> bool \<Rightarrow> runtime_call \<Rightarrow> (nat \<times> bool) option" where
  "protocol (up, down) (StartedComponent i) = (if \<not> down \<and> i = up then Some (Suc up, down) else None)"
| "protocol (up, down) (FailedComponent i) = (if \<not> down \<and> i = up then Some (up, down) else None)"
| "protocol (up, down) (FlushedComponent i) = (if \<not> down \<and> i < up then Some (up, down) else None)"
| "protocol (up, down) (ClosedComponent i) = (if \<not> down \<and> Suc i = up then Some (i, down) else None)"
| "protocol (up, down) (CheckedComponent i) = (if \<not> down then Some (up, down) else None)"
| "protocol (up, down) ClosedBursar = (if \<not> down \<and> up = 0 then Some (0, True) else None)"

fun protocol_run :: "nat \<times> bool \<Rightarrow> runtime_call list \<Rightarrow> (nat \<times> bool) option" where
  "protocol_run st [] = Some st"
| "protocol_run st (c # cs) = Option.bind (protocol st c) (\<lambda>st'. protocol_run st' cs)"

lemma protocol_run_append: "protocol_run st (cs @ ds) = Option.bind (protocol_run st cs) (\<lambda>st'. protocol_run st' ds)"
  by (induction cs arbitrary: st) (simp_all add: Option.bind_assoc)

definition at_protocol :: "nat \<times> bool \<Rightarrow> ('s, 'c) runtime_state \<Rightarrow> bool" where
  "at_protocol st r \<longleftrightarrow> protocol_run (0, False) (rt_calls r) = Some st"

text \<open>The fields that calls of components leave alone.\<close>

definition same_runtime :: "('s, 'c) runtime_state \<Rightarrow> ('s, 'c) runtime_state \<Rightarrow> bool" where
  "same_runtime r r' \<longleftrightarrow>
     rt_Bursar r' = rt_Bursar r \<and> rt_components r' = rt_components r \<and> rt_started r' = rt_started r \<and>
     rt_closed r' = rt_closed r \<and> rt_catalogLoaded r' = rt_catalogLoaded r \<and>
     rt_componentsUp r' = rt_componentsUp r"

lemma same_runtime_refl [simp]: "same_runtime r r"
  and same_runtime_trans: "same_runtime r r' \<Longrightarrow> same_runtime r' r'' \<Longrightarrow> same_runtime r r''"
  by (simp_all add: same_runtime_def)

lemma component_call_frame:
  assumes "component_call method entry i r = (e, r')"
  shows "same_runtime r r'" "rt_calls r' = rt_calls r @ [entry e]"
  using assms by (auto simp: component_call_def same_runtime_def split: prod.splits)

lemma component_call_protocol:
  assumes "component_call method entry i r = (e, r')" and "at_protocol st r" and "protocol st (entry e) = Some st'"
  shows "at_protocol st' r'"
  using assms(2,3) component_call_frame(2) [OF assms(1)] by (simp add: at_protocol_def protocol_run_append)

lemma rollback_frame:
  "at_protocol (n, False) r \<Longrightarrow> same_runtime r (rollback n r) \<and> at_protocol (0, False) (rollback n r)"
proof (induction n arbitrary: r)
  case (Suc n)
  obtain e r' where c: "close_component n r = (e, r')" by fastforce
  have "same_runtime r r'" "at_protocol (n, False) r'"
    using c component_call_frame(1) component_call_protocol [OF _ Suc.prems]
    by (fastforce simp: close_component_def)+
  with Suc.IH [of r'] c show ?case by (auto intro: same_runtime_trans)
qed simp

lemma start_loop_frame:
  assumes "at_protocol (index, False) r" and "index \<le> length (rt_components r)" and "start_loop index r = (res, r')"
  shows "same_runtime r r' \<and>
    (case res of Inl e \<Rightarrow> at_protocol (0, False) r'
     | Inr n \<Rightarrow> n = length (rt_components r) \<and> at_protocol (n, False) r')"
  using assms
proof (induction index r arbitrary: res r' rule: start_loop.induct)
  case (1 index r)
  show ?case
  proof (cases "length (rt_components r) \<le> index")
    case True
    with "1.prems" show ?thesis by (subst (asm) start_loop.simps) auto
  next
    case False
    obtain e s where c: "start_component index r = (e, s)" by fastforce
    then have frame: "same_runtime r s" by (auto simp: start_component_def dest: component_call_frame(1))
    have log: "at_protocol (if e = None then Suc index else index, False) s"
      using c component_call_protocol [OF _ "1.prems"(1)] by (fastforce simp: start_component_def)
    show ?thesis
    proof (cases e)
      case None
      from "1.prems"(3) False c None have "start_loop (Suc index) s = (res, r')"
        by (subst (asm) start_loop.simps) simp
      with "1.IH" [OF False c [symmetric] None] log None False frame show ?thesis
        by (auto simp: same_runtime_def split: sum.splits)
    next
      case (Some err)
      with False c have "start_loop index r = (Inl err, rollback index s)" by (subst start_loop.simps) simp
      with "1.prems"(3) rollback_frame [of index s] log Some frame show ?thesis
        by (auto intro: same_runtime_trans)
    qed
  qed
qed

lemma flush_loop_frame:
  assumes "at_protocol (up, False) r" and "n \<le> up" and "flush_loop n r = (errs, r')"
  shows "same_runtime r r' \<and> at_protocol (up, False) r'"
  using assms
proof (induction n arbitrary: r errs r')
  case (Suc n)
  obtain e r1 where c: "flush_component n r = (e, r1)" by fastforce
  have r1: "same_runtime r r1" "at_protocol (up, False) r1"
    using c Suc.prems(2) component_call_frame(1) component_call_protocol [OF _ Suc.prems(1)]
    by (fastforce simp: flush_component_def)+
  obtain errs2 r2 where l: "flush_loop n r1 = (errs2, r2)" by fastforce
  from Suc.IH [OF r1(2) _ l] Suc.prems(2,3) c l r1(1) show ?case by (auto intro: same_runtime_trans)
qed simp

lemma close_loop_frame:
  assumes "at_protocol (n, False) r" and "close_loop n r = (errs, r')"
  shows "same_runtime r r' \<and> at_protocol (0, False) r'"
  using assms
proof (induction n arbitrary: r errs r')
  case (Suc n)
  obtain e r1 where f: "flush_component n r = (e, r1)" by fastforce
  have r1: "same_runtime r r1" "at_protocol (Suc n, False) r1"
    using f component_call_frame(1) component_call_protocol [OF _ Suc.prems(1)]
    by (fastforce simp: flush_component_def)+
  obtain e' r2 where c: "close_component n r1 = (e', r2)" by fastforce
  have r2: "same_runtime r1 r2" "at_protocol (n, False) r2"
    using c component_call_frame(1) component_call_protocol [OF _ r1(2)]
    by (fastforce simp: close_component_def)+
  obtain errs2 r3 where l: "close_loop n r2 = (errs2, r3)" by fastforce
  from Suc.IH [OF r2(2) l] Suc.prems(2) f c l r1(1) r2(1) show ?case by (auto intro: same_runtime_trans)
qed simp

section \<open>Sequences of calls\<close>

lemma on_services_frame:
  assumes "on_services m r = (x, r')"
  shows "same_runtime r r'" "rt_calls r' = rt_calls r"
  using assms by (auto simp: on_services_def same_runtime_def split: prod.splits)

lemma runtime_now_frame: "same_runtime r (snd (runtime_now r))" "rt_calls (snd (runtime_now r)) = rt_calls r"
  by (simp_all add: runtime_now_def same_runtime_def)

lemma check_component_frame:
  assumes "at_protocol (up, False) r"
  shows "same_runtime r (snd (check_component i r)) \<and> at_protocol (up, False) (snd (check_component i r))"
proof (cases "rc_Health (rt_components r ! i)")
  case None
  with assms show ?thesis by (simp add: check_component_def)
next
  case (Some health)
  let ?r1 = "snd (runtime_now r)"
  obtain e r2 where c: "component_call (\<lambda>_. health) (\<lambda>_. CheckedComponent i) i ?r1 = (e, r2)" by fastforce
  have "at_protocol (up, False) ?r1" using assms by (simp add: at_protocol_def runtime_now_def)
  then have "at_protocol (up, False) r2" using component_call_protocol [OF c] by simp
  moreover have "snd (check_component i r) = snd (runtime_now r2)"
    using Some c by (simp add: check_component_def runtime_now_def split: prod.splits)
  ultimately show ?thesis
    using component_call_frame(1) [OF c] by (simp add: at_protocol_def runtime_now_def same_runtime_def)
qed

lemma check_components_frame:
  "at_protocol (up, False) r \<Longrightarrow>
   same_runtime r (snd (check_components is r)) \<and> at_protocol (up, False) (snd (check_components is r))"
proof (induction "is" arbitrary: r)
  case (Cons i "is")
  let ?r1 = "snd (check_component i r)"
  from check_component_frame [OF Cons.prems, of i] Cons.IH [of ?r1] show ?case
    by (auto simp: split_beta intro: same_runtime_trans)
qed simp

text \<open>One call of the runtime's interface, by any caller.\<close>

inductive runtime_step :: "config_pkgs \<Rightarrow> ('s, 'c) runtime_state \<Rightarrow> ('s, 'c) runtime_state \<Rightarrow> bool" for L where
  step_Start: "runtime_step L r (state_of (StartWithOptions L ctx option r))"
| step_Flush: "runtime_step L r (state_of (runtime_Flush ctx r))"
| step_Close: "runtime_step L r (state_of (runtime_Close ctx r))"
| step_Check: "runtime_step L r (snd (CheckDependencies r))"

inductive_cases runtime_step_cases: "runtime_step L r r'"

text \<open>
  The invariant: the components that are up are those the log says are running, all of them when the runtime
  is started and none otherwise, and the facade is closed exactly when the runtime is.
\<close>

definition runtime_ok :: "('s, 'c) runtime_state \<Rightarrow> bool" where
  "runtime_ok r \<longleftrightarrow>
     rt_Bursar r \<noteq> None \<and> rt_componentsUp r = (if rt_started r then length (rt_components r) else 0) \<and>
     at_protocol (if rt_started r \<and> \<not> rt_closed r then length (rt_components r) else 0, rt_closed r) r"

lemma new_runtime_ok: "NewBursarRuntime b cs w out = Inr r \<Longrightarrow> runtime_ok r"
  by (auto simp: NewBursarRuntime_def runtime_ok_def at_protocol_def split: if_splits option.splits)

lemma start_ok:
  assumes "runtime_ok r"
  shows "runtime_ok (state_of (StartWithOptions L ctx option r))"
proof (cases "ctx \<and> \<not> rt_closed r \<and> \<not> rt_started r")
  case False
  with assms show ?thesis by (auto simp: StartWithOptions_def op_simps Let_def)
next
  case True
  let ?load = "case option of None \<Rightarrow> True | Some b \<Rightarrow> b"
  let ?prepare = "if ?load then on_services (LoadCatalog L (rt_Bursar r)) else return_ok ()"
  obtain u e r1 where p: "?prepare r = ((u, e), r1)" by (metis prod.collapse)
  then have r1: "same_runtime r r1" "rt_calls r1 = rt_calls r"
    by (auto simp: op_simps dest: on_services_frame split: if_splits)
  then have log: "at_protocol (0, False) r1" and up: "runtime_ok r1"
    using assms True by (auto simp: runtime_ok_def at_protocol_def same_runtime_def)
  obtain res r2 where l: "start_loop 0 r1 = (res, r2)" by fastforce
  have run: "StartWithOptions L ctx option r =
      (case e of Some err \<Rightarrow> (((), Some err), r1)
       | None \<Rightarrow> (case res of Inl err \<Rightarrow> (((), Some err), r2) | Inr count \<Rightarrow> finish_start ?load count r2))"
    using assms True p l by (auto simp: StartWithOptions_def runtime_ok_def op_simps Let_def split: option.splits sum.splits)
  show ?thesis
  proof (cases e)
    case (Some err)
    with run up show ?thesis by simp
  next
    case None
    with run start_loop_frame [OF log _ l] r1 assms True show ?thesis
      by (auto simp: finish_start_def op_simps runtime_ok_def same_runtime_def at_protocol_def split: sum.splits)
  qed
qed

lemma flush_ok:
  assumes "runtime_ok r"
  shows "runtime_ok (state_of (runtime_Flush ctx r))"
proof (cases "ctx \<and> \<not> rt_closed r")
  case True
  obtain errs r' where l: "flush_loop (rt_componentsUp r) r = (errs, r')" by fastforce
  have log: "at_protocol (rt_componentsUp r, False) r" using assms True by (auto simp: runtime_ok_def split: if_splits)
  from True l have "state_of (runtime_Flush ctx r) = r'" by (simp add: runtime_Flush_def)
  with flush_loop_frame [OF log order_refl l] assms True show ?thesis
    by (cases "rt_started r") (simp_all add: runtime_ok_def same_runtime_def)
qed (use assms in \<open>auto simp: runtime_Flush_def op_simps\<close>)

lemma Bursar_Close_some: "b \<noteq> None \<Longrightarrow> result_of (Bursar_Close b w) \<noteq> None"
  by (auto simp: Bursar_Close_def op_simps Let_def split: prod.splits option.splits)

lemma close_ok:
  assumes "runtime_ok r"
  shows "runtime_ok (state_of (runtime_Close ctx r))" "ctx \<Longrightarrow> rt_closed (state_of (runtime_Close ctx r))"
proof -
  have "runtime_ok (state_of (runtime_Close ctx r)) \<and> rt_closed (state_of (runtime_Close ctx r))"
    if live: "ctx" "\<not> rt_closed r"
  proof -
    obtain errs r1 where l: "close_loop (rt_componentsUp r) (r\<lparr>rt_closed := True\<rparr>) = (errs, r1)" by fastforce
    have "at_protocol (rt_componentsUp r, False) (r\<lparr>rt_closed := True\<rparr>)"
      using assms live by (auto simp: runtime_ok_def at_protocol_def split: if_splits)
    note frame = close_loop_frame [OF this l]
    obtain b e w where c: "Bursar_Close (rt_Bursar r1) (rt_world r1) = ((b, e), w)" by (metis prod.collapse)
    have "rt_Bursar r1 \<noteq> None" using frame assms by (simp add: same_runtime_def runtime_ok_def)
    with Bursar_Close_some [of "rt_Bursar r1" "rt_world r1"] c l live
    have "b \<noteq> None" "state_of (runtime_Close ctx r) =
        r1\<lparr>rt_Bursar := b, rt_world := w, rt_calls := rt_calls r1 @ [ClosedBursar]\<rparr>"
      by (auto simp: runtime_Close_def close_bursar_def split: prod.splits)
    with frame assms show ?thesis
      by (auto simp: runtime_ok_def same_runtime_def at_protocol_def protocol_run_append)
  qed
  then show "runtime_ok (state_of (runtime_Close ctx r))" "ctx \<Longrightarrow> rt_closed (state_of (runtime_Close ctx r))"
    using assms by (cases "ctx \<and> \<not> rt_closed r"; auto simp: runtime_Close_def op_simps)+
qed

lemma check_ok:
  assumes "runtime_ok r"
  shows "runtime_ok (snd (CheckDependencies r))"
proof -
  let ?r0 = "snd (runtime_now r)"
  have keep: "runtime_ok (snd (runtime_now q))" if "runtime_ok q" for q :: "('s, 'c) runtime_state"
    using that by (simp add: runtime_now_def runtime_ok_def at_protocol_def)
  show ?thesis
  proof (cases "bu_Catalog (the (rt_Bursar r)) = None \<or> rt_closed r")
    case True
    with assms keep [OF assms] show ?thesis
      by (auto simp: CheckDependencies_def runtime_ok_def runtime_Health_def Let_def split: option.splits prod.splits)
  next
    case False
    define r3 where "r3 = snd (runtime_now (state_of (on_services (GetActive (bu_Catalog (the (rt_Bursar r))))
      (snd (runtime_now ?r0)))))"
    have "same_runtime r r3" "rt_calls r3 = rt_calls r"
      by (auto simp: r3_def runtime_now_def same_runtime_def on_services_def split: prod.splits)
    moreover from this assms False
    have "at_protocol (if rt_started r \<and> \<not> rt_closed r then length (rt_components r) else 0, False) r3"
      by (auto simp: runtime_ok_def at_protocol_def)
    moreover have "snd (CheckDependencies r) = snd (check_components [0..<length (rt_components r)] r3)"
      using assms False
      by (auto simp: CheckDependencies_def r3_def runtime_ok_def runtime_Health_def Let_def split_beta)
    ultimately show ?thesis
      using check_components_frame [of _ r3 "[0..<length (rt_components r)]"] assms False
      by (auto simp: runtime_ok_def same_runtime_def split: if_splits)
  qed
qed

lemma runtime_step_ok: "runtime_step L r r' \<Longrightarrow> runtime_ok r \<Longrightarrow> runtime_ok r'"
  by (auto elim!: runtime_step_cases intro: start_ok flush_ok close_ok check_ok)

lemma runtime_steps_ok: "(runtime_step L)\<^sup>*\<^sup>* r r' \<Longrightarrow> runtime_ok r \<Longrightarrow> runtime_ok r'"
  by (induction rule: rtranclp_induct) (auto dest: runtime_step_ok)

section \<open>Properties\<close>


text \<open>Two components that count their starts, the second of which fails to start the first time.\<close>

definition counting_component :: "bool \<Rightarrow> (ref_state, nat) RuntimeComponent" where
  "counting_component flaky =
     \<lparr>rc_Start = (\<lambda>(w, n). (if flaky \<and> n < 2 then Some (PlainError ''down'' []) else None, w, Suc n)),
      rc_Flush = (\<lambda>(w, n). (None, w, n)), rc_Close = (\<lambda>(w, n). (None, w, n)), rc_Health = None\<rparr>"

definition sample_runtime :: "(ref_state, nat) runtime_state" where
  "sample_runtime = \<lparr>rt_Bursar = Some \<lparr>bu_Credits = None, bu_Catalog = None, bu_Commerce = None\<rparr>,
     rt_components = [counting_component False, counting_component True], rt_started = False, rt_closed = False,
     rt_catalogLoaded = False, rt_componentsUp = 0, rt_world = sample_world, rt_outside = 0, rt_calls = []\<rparr>"

definition retried_runtime :: "(ref_state, nat) runtime_state" where
  "retried_runtime =
     state_of (StartWithOptions ref_pkgs True (Some False)
       (state_of (StartWithOptions ref_pkgs True (Some False) sample_runtime)))"

lemma retried_runtime_calls:
  "rt_calls retried_runtime =
     [StartedComponent 0, FailedComponent 1, ClosedComponent 0, StartedComponent 0, StartedComponent 1]"
  "rt_started retried_runtime" "\<not> rt_closed retried_runtime" "length (rt_components retried_runtime) = 2"
  by (simp_all add: retried_runtime_def sample_runtime_def StartWithOptions_def op_simps start_loop.simps
      start_component_def close_component_def component_call_def counting_component_def finish_start_def
      numeral_2_eq_2)


end
