(* ===== verification/Catalog_Projection.thy ===== *)
theory Catalog_Projection
  imports Catalog "HOL-Library.Multiset"
begin

text \<open>
  The public view of a catalogue (\<open>catalog_projection.go\<close>): plans, offers and top-ups for product surfaces,
  without provider references or fulfilment rules. Go visits maps in an arbitrary order and sorts the results,
  so the lemmas show that the view depends on neither the order nor the parts that stay on the server.
\<close>

section \<open>The view\<close>

record PublicCatalogWindow =
  pcw_Type :: string
  pcw_Unit :: string
  pcw_Count :: int
  pcw_Timezone :: "string option"

record PublicCatalogOffer =
  pco_Key :: string
  pco_Type :: string
  pco_DisplayName :: string
  pco_Description :: "string option"
  pco_SortOrder :: int
  pco_Price :: OfferPrice
  pco_BillingInterval :: "BillingInterval option"
  pco_CreditsPerUnit :: "string option"
  pco_Quantity :: "OfferQuantity option"

record PublicCatalogQuota =
  pcq_Operation :: string
  pcq_Measure :: string
  pcq_Limit :: string
  pcq_Window :: PublicCatalogWindow
  pcq_Enforcement :: string

record PublicCatalogAllowance =
  pca_Amount :: string
  pca_Priority :: int
  pca_Window :: PublicCatalogWindow

record PublicCatalogPlan =
  pcp_Key :: string
  pcp_DisplayName :: string
  pcp_Description :: "string option"
  pcp_Rank :: int
  pcp_Features :: "goval gomap"
  pcp_Allowance :: "PublicCatalogAllowance option"
  pcp_Quotas :: "PublicCatalogQuota gomap"
  pcp_Offers :: "PublicCatalogOffer list"

record PublicCatalog =
  pc_Version :: int
  pc_DefaultPlan :: "string option"
  pc_CreditDisplay :: "CreditDisplay option"
  pc_Plans :: "PublicCatalogPlan list"
  pc_Topups :: "PublicCatalogOffer list"

definition window_timezone :: "Window \<Rightarrow> string option" where
  "window_timezone window = (if win_Timezone window \<noteq> [] then Some (win_Timezone window) else None)"

definition projectPublicWindow :: "Window \<Rightarrow> PublicCatalogWindow" where
  "projectPublicWindow window =
     (let (unit, count) =
            (if win_Type window = ''calendar'' then (win_Unit window, win_Count window)
             else if win_Type window = ''plan_assignment''
             then (case win_Interval window of None \<Rightarrow> ([], 0) | Some i \<Rightarrow> (bi_Unit i, bi_Count i))
             else if win_Type window = ''rolling''
             then (case win_Duration window of None \<Rightarrow> ([], 0) | Some d \<Rightarrow> (dur_Unit d, dur_Count d))
             else ([], 0))
      in \<lparr>pcw_Type = win_Type window, pcw_Unit = unit, pcw_Count = count,
          pcw_Timezone = (if win_Type window \<in> {''calendar'', ''plan_assignment''} then window_timezone window else None)\<rparr>)"

definition projectPublicOffer :: "decimal_pkg \<Rightarrow> string \<Rightarrow> CommerceOffer \<Rightarrow> PublicCatalogOffer" where
  "projectPublicOffer D key offer =
     \<lparr>pco_Key = key, pco_Type = of_Type offer, pco_DisplayName = of_DisplayName offer,
      pco_Description = of_Description offer, pco_SortOrder = of_SortOrder offer, pco_Price = of_Price offer,
      pco_BillingInterval = (if of_Type offer = ''subscription'' then of_BillingInterval offer else None),
      pco_CreditsPerUnit = (if of_Type offer = ''topup'' then map_option (amountConfigString D) (of_CreditsPerUnit offer) else None),
      pco_Quantity = (if of_Type offer = ''topup'' then of_Quantity offer else None)\<rparr>"

definition offer_before :: "PublicCatalogOffer \<Rightarrow> PublicCatalogOffer \<Rightarrow> bool" where
  "offer_before x y =
     (if pco_SortOrder x \<noteq> pco_SortOrder y then pco_SortOrder x < pco_SortOrder y else str_less (pco_Key x) (pco_Key y))"

definition sortPublicOffers :: "PublicCatalogOffer list \<Rightarrow> PublicCatalogOffer list" where
  "sortPublicOffers offers = sort_by offer_before offers"

definition plan_before :: "PublicCatalogPlan \<Rightarrow> PublicCatalogPlan \<Rightarrow> bool" where
  "plan_before x y =
     (if pcp_Rank x \<noteq> pcp_Rank y then pcp_Rank x < pcp_Rank y else str_less (pcp_Key x) (pcp_Key y))"

definition plan_offers :: "decimal_pkg \<Rightarrow> CommerceOffer gomap \<Rightarrow> string \<Rightarrow> PublicCatalogOffer list" where
  "plan_offers D offers key =
     sortPublicOffers (map (\<lambda>(k, offer). projectPublicOffer D k offer)
       (filter (\<lambda>(_, offer). of_Type offer = ''subscription'' \<and> of_Plan offer = Some key) offers))"

definition project_quota :: "decimal_pkg \<Rightarrow> QuotaDefinition \<Rightarrow> PublicCatalogQuota" where
  "project_quota D quota =
     \<lparr>pcq_Operation = qd_Operation quota, pcq_Measure = qd_Measure quota,
      pcq_Limit = amountConfigString D (qd_Limit quota), pcq_Window = projectPublicWindow (qd_Window quota),
      pcq_Enforcement = qd_Enforcement quota\<rparr>"

definition project_plan :: "decimal_pkg \<Rightarrow> CommerceOffer gomap \<Rightarrow> string \<Rightarrow> PlanDefinition \<Rightarrow> PublicCatalogPlan" where
  "project_plan D offers key plan =
     \<lparr>pcp_Key = key, pcp_DisplayName = pd_DisplayName plan, pcp_Description = pd_Description plan,
      pcp_Rank = pd_Rank plan, pcp_Features = pd_Features plan,
      pcp_Allowance = map_option (\<lambda>a. \<lparr>pca_Amount = amountConfigString D (ca_Amount a),
        pca_Priority = ca_Priority a, pca_Window = projectPublicWindow (ca_Window a)\<rparr>) (pd_CreditAllowance plan),
      pcp_Quotas = map (\<lambda>(k, quota). (k, project_quota D quota)) (pd_Quotas plan),
      pcp_Offers = plan_offers D offers key\<rparr>"

text \<open>\<open>None\<close> is a nil configuration.\<close>

definition ProjectPublicCatalog :: "decimal_pkg \<Rightarrow> BursarConfig option \<Rightarrow> PublicCatalog" where
  "ProjectPublicCatalog D config =
     (case config of
        None \<Rightarrow> \<lparr>pc_Version = 1, pc_DefaultPlan = None, pc_CreditDisplay = None, pc_Plans = [], pc_Topups = []\<rparr>
      | Some c \<Rightarrow>
          let offers = com_Offers (cfg_Commerce c)
          in \<lparr>pc_Version = cfg_Version c, pc_DefaultPlan = cat_DefaultPlan (cfg_Catalog c),
              pc_CreditDisplay = cc_Display (cfg_Credits c),
              pc_Plans = sort_by plan_before (map (\<lambda>(k, plan). project_plan D offers k plan) (cfg_Plans c)),
              pc_Topups = sortPublicOffers (map (\<lambda>(k, offer). projectPublicOffer D k offer)
                (filter (\<lambda>(_, offer). of_Type offer = ''topup'') offers))\<rparr>)"

definition empty_view :: PublicCatalog where
  "empty_view = \<lparr>pc_Version = 0, pc_DefaultPlan = None, pc_CreditDisplay = None, pc_Plans = [], pc_Topups = []\<rparr>"

definition PublicView :: "config_pkgs \<Rightarrow> 's CatalogService option \<Rightarrow> ('s world, PublicCatalog) op" where
  "PublicView L s = try_op (GetConfig L s) empty_view (\<lambda>config. return_ok (ProjectPublicCatalog (pk_decimal L) config))"

section \<open>Sorting\<close>

lemma str_less_irrefl: "\<not> str_less s s"
  by (induction s) auto

lemma str_less_trans: "str_less s t \<Longrightarrow> str_less t u \<Longrightarrow> str_less s u"
proof (induction s t arbitrary: u rule: str_less.induct)
  case (4 c cs d ds)
  then show ?case by (cases u) auto
next
  case (2 c cs)
  then show ?case by (cases u) auto
qed auto

lemma str_less_total: "s \<noteq> t \<Longrightarrow> str_less s t \<or> str_less t s"
  by (induction s t rule: str_less.induct) (auto simp: byte_def)

text \<open>A comparison by a number and then by a key, on elements with distinct keys.\<close>

definition ordered_by :: "('a \<Rightarrow> int) \<Rightarrow> ('a \<Rightarrow> string) \<Rightarrow> ('a \<Rightarrow> 'a \<Rightarrow> bool) \<Rightarrow> bool" where
  "ordered_by rank key lt \<longleftrightarrow>
     (\<forall>x y. lt x y = (if rank x \<noteq> rank y then rank x < rank y else str_less (key x) (key y)))"

lemma ordered_by_offers: "ordered_by pco_SortOrder pco_Key offer_before"
  and ordered_by_plans: "ordered_by pcp_Rank pcp_Key plan_before"
  by (simp_all add: ordered_by_def offer_before_def plan_before_def)

lemma ordered_by_facts:
  assumes "ordered_by rank key lt"
  shows "\<not> lt x x" "lt x y \<Longrightarrow> lt y z \<Longrightarrow> lt x z" "key x \<noteq> key y \<Longrightarrow> lt x y \<or> lt y x"
  using assms str_less_irrefl str_less_trans str_less_total
  by (auto simp: ordered_by_def split: if_splits)

lemma insert_by_sorted_keys:
  assumes "ordered_by rank key lt" and "sorted_wrt lt xs" and "key x \<notin> key ` set xs"
  shows "sorted_wrt lt (insert_by lt x xs)"
  using assms(2,3)
proof (induction xs)
  case (Cons y ys)
  have "lt x y \<or> lt y x" using ordered_by_facts(3) [OF assms(1)] Cons.prems(2) by auto
  with Cons show ?case
    using ordered_by_facts(1,2) [OF assms(1)] by (auto; blast)
qed simp

lemma sort_by_sorted_keys:
  assumes "ordered_by rank key lt" and "distinct (map key xs)"
  shows "sorted_wrt lt (sort_by lt xs)"
  using assms(2)
proof (induction xs)
  case (Cons x xs)
  then have "key x \<notin> key ` set (sort_by lt xs)" "sorted_wrt lt (sort_by lt xs)" by auto
  from insert_by_sorted_keys [OF assms(1) this(2,1)] show ?case by (simp add: sort_by_def)
qed (simp add: sort_by_def)

lemma mset_sort_by: "mset (sort_by lt xs) = mset xs"
proof (induction xs)
  case (Cons x xs)
  have "mset (insert_by lt x ys) = add_mset x (mset ys)" for ys
    by (induction ys) auto
  with Cons show ?case by (simp add: sort_by_def)
qed (simp add: sort_by_def)

lemma sorted_unique:
  assumes "\<And>x. \<not> lt x x" and "\<And>x y z. lt x y \<Longrightarrow> lt y z \<Longrightarrow> lt x z"
  shows "sorted_wrt lt xs \<Longrightarrow> sorted_wrt lt ys \<Longrightarrow> mset xs = mset ys \<Longrightarrow> xs = ys"
proof (induction xs arbitrary: ys)
  case (Cons x xs)
  then obtain y ys' where ys: "ys = y # ys'" by (cases ys) auto
  have "x = y"
  proof (rule ccontr)
    assume "x \<noteq> y"
    with Cons.prems(3) ys have "x \<in> set ys'" "y \<in> set xs"
      by (metis insert_iff list.set(2) mset_eq_setD)+
    with Cons.prems(1,2) ys have "lt x y" "lt y x" by auto
    with assms show False by blast
  qed
  with Cons ys show ?case by auto
qed simp

lemma sort_by_order_independent:
  assumes "ordered_by rank key lt" and "distinct (map key xs)" and "mset xs = mset ys"
  shows "sort_by lt xs = sort_by lt ys"
proof -
  from assms(3) have "mset (map key xs) = mset (map key ys)" by simp
  with assms(2) have "distinct (map key ys)" using mset_eq_imp_distinct_iff by blast
  from sort_by_sorted_keys [OF assms(1,2)] sort_by_sorted_keys [OF assms(1) this] show ?thesis
    by (rule sorted_unique [OF ordered_by_facts(1) [OF assms(1)], rotated])
      (auto simp: mset_sort_by assms(3) intro: ordered_by_facts(2) [OF assms(1)])
qed

section \<open>What the view depends on\<close>

text \<open>The parts of an offer and of a plan that product surfaces may see; everything else is blanked.\<close>

definition public_offer :: "CommerceOffer \<Rightarrow> CommerceOffer" where
  "public_offer x = x\<lparr>of_Providers := [], of_Availability := None, of_Trial := None, of_CycleGrant := None,
     of_Bucket := None, of_Expiry := None, of_LotBehavior := []\<rparr>"

definition public_plan :: "PlanDefinition \<Rightarrow> PlanDefinition" where
  "public_plan p = p\<lparr>pd_RateCard := None, pd_AllowedOperations := [], pd_CreditPolicy := None,
     pd_AdmissionPolicy := None, pd_Evolution := \<lparr>pe_DefaultRollout = []\<rparr>\<rparr>"

text \<open>
  Two configurations that look the same from outside: the same version, default plan and credit display, and, as
  maps, the same public parts of plans and offers.
\<close>

definition same_public :: "BursarConfig \<Rightarrow> BursarConfig \<Rightarrow> bool" where
  "same_public c c' \<longleftrightarrow>
     cfg_Version c = cfg_Version c' \<and> cfg_Catalog c = cfg_Catalog c' \<and>
     cc_Display (cfg_Credits c) = cc_Display (cfg_Credits c') \<and>
     mset (map (map_prod id public_plan) (cfg_Plans c)) = mset (map (map_prod id public_plan) (cfg_Plans c')) \<and>
     mset (map (map_prod id public_offer) (com_Offers (cfg_Commerce c))) =
       mset (map (map_prod id public_offer) (com_Offers (cfg_Commerce c')))"

definition distinct_keys :: "BursarConfig \<Rightarrow> bool" where
  "distinct_keys c \<longleftrightarrow> distinct (map fst (cfg_Plans c)) \<and> distinct (map fst (com_Offers (cfg_Commerce c)))"

lemma project_public:
  "projectPublicOffer D k (public_offer x) = projectPublicOffer D k x"
  "of_Type (public_offer x) = of_Type x" "of_Plan (public_offer x) = of_Plan x"
  "project_plan D offers k (public_plan p) = project_plan D offers k p"
  by (simp_all add: projectPublicOffer_def public_offer_def project_plan_def public_plan_def)

lemma project_offers_public:
  assumes "\<And>x. P (public_offer x) = P x"
  shows "map (\<lambda>(k, x). projectPublicOffer D k x) (filter (\<lambda>(_, x). P x) (map (map_prod id public_offer) offers)) =
    map (\<lambda>(k, x). projectPublicOffer D k x) (filter (\<lambda>(_, x). P x) offers)"
  by (induction offers) (simp_all add: project_public assms split: prod.split)

lemma project_offers_keys:
  "map pco_Key (map (\<lambda>(k, x). projectPublicOffer D k x) offers) = map fst offers"
  by (induction offers) (auto simp: projectPublicOffer_def)

lemma distinct_filter_keys: "distinct (map fst m) \<Longrightarrow> distinct (map fst (filter P m))"
  by (induction m) auto

lemma project_offers_same:
  assumes "mset (map (map_prod id public_offer) m) = mset (map (map_prod id public_offer) m')"
    and "distinct (map fst m)" and "\<And>x. P (public_offer x) = P x"
  shows "sortPublicOffers (map (\<lambda>(k, x). projectPublicOffer D k x) (filter (\<lambda>(_, x). P x) m)) =
    sortPublicOffers (map (\<lambda>(k, x). projectPublicOffer D k x) (filter (\<lambda>(_, x). P x) m'))"
  unfolding sortPublicOffers_def
proof (rule sort_by_order_independent [OF ordered_by_offers])
  show "distinct (map pco_Key (map (\<lambda>(k, x). projectPublicOffer D k x) (filter (\<lambda>(_, x). P x) m)))"
    by (simp only: project_offers_keys) (rule distinct_filter_keys [OF assms(2)])
  have "mset (map (\<lambda>(k, x). projectPublicOffer D k x) (filter (\<lambda>(_, x). P x) (map (map_prod id public_offer) m))) =
      mset (map (\<lambda>(k, x). projectPublicOffer D k x) (filter (\<lambda>(_, x). P x) (map (map_prod id public_offer) m')))"
    unfolding mset_map mset_filter using assms(1) by simp
  then show "mset (map (\<lambda>(k, x). projectPublicOffer D k x) (filter (\<lambda>(_, x). P x) m)) =
      mset (map (\<lambda>(k, x). projectPublicOffer D k x) (filter (\<lambda>(_, x). P x) m'))"
    by (simp only: project_offers_public [where P = P, OF assms(3)])
qed

lemma plan_offers_same:
  assumes "mset (map (map_prod id public_offer) m) = mset (map (map_prod id public_offer) m')"
    and "distinct (map fst m)"
  shows "plan_offers D m = plan_offers D m'"
  using project_offers_same [OF assms, of "\<lambda>x. of_Type x = ''subscription'' \<and> of_Plan x = Some _"]
  by (auto simp: plan_offers_def project_public)

lemma project_plans_same:
  assumes "mset (map (map_prod id public_plan) m) = mset (map (map_prod id public_plan) m')"
    and "distinct (map fst m)" and "plan_offers D offers = plan_offers D offers'"
  shows "sort_by plan_before (map (\<lambda>(k, p). project_plan D offers k p) m) =
    sort_by plan_before (map (\<lambda>(k, p). project_plan D offers' k p) m')"
proof (rule sort_by_order_independent [OF ordered_by_plans])
  have "map pcp_Key (map (\<lambda>(k, p). project_plan D offers k p) m) = map fst m"
    by (induction m) (auto simp: project_plan_def)
  with assms(2) show "distinct (map pcp_Key (map (\<lambda>(k, p). project_plan D offers k p) m))" by (simp only:)
  have factor: "map (\<lambda>(k, p). project_plan D offers k p) (map (map_prod id public_plan) q) =
      map (\<lambda>(k, p). project_plan D offers k p) q" for q
    by (induction q) (auto simp: project_public)
  have "project_plan D offers = project_plan D offers'"
    using assms(3) by (simp add: fun_eq_iff project_plan_def)
  with arg_cong [OF assms(1), of "image_mset (\<lambda>(k, p). project_plan D offers k p)"] factor [of m] factor [of m']
  show "mset (map (\<lambda>(k, p). project_plan D offers k p) m) = mset (map (\<lambda>(k, p). project_plan D offers' k p) m')"
    by (metis mset_map)
qed

section \<open>Properties\<close>

text \<open>
  C22. The public catalogue reveals nothing but the public parts of the configuration: two configurations that
  differ only in provider references, adapters, fulfilment, pricing, policies and guardrails, or in the order in which
  Go happens to visit their maps, have the same public view.
\<close>

theorem public_view_noninterference:
  assumes "same_public c c'" and "distinct_keys c"
  shows "ProjectPublicCatalog D (Some c) = ProjectPublicCatalog D (Some c')"
proof -
  note same = assms [unfolded same_public_def distinct_keys_def]
  have offers: "plan_offers D (com_Offers (cfg_Commerce c)) = plan_offers D (com_Offers (cfg_Commerce c'))"
    using same by (intro plan_offers_same) auto
  then have "sort_by plan_before (map (\<lambda>(k, p). project_plan D (com_Offers (cfg_Commerce c)) k p) (cfg_Plans c)) =
      sort_by plan_before (map (\<lambda>(k, p). project_plan D (com_Offers (cfg_Commerce c')) k p) (cfg_Plans c'))"
    using same by (intro project_plans_same) auto
  moreover have "sortPublicOffers (map (\<lambda>(k, x). projectPublicOffer D k x)
        (filter (\<lambda>(_, x). of_Type x = ''topup'') (com_Offers (cfg_Commerce c)))) =
      sortPublicOffers (map (\<lambda>(k, x). projectPublicOffer D k x)
        (filter (\<lambda>(_, x). of_Type x = ''topup'') (com_Offers (cfg_Commerce c'))))"
    using same by (intro project_offers_same) (auto simp: project_public)
  ultimately show ?thesis using same by (simp add: ProjectPublicCatalog_def Let_def)
qed

definition view_offer :: "ProviderReference gomap \<Rightarrow> string \<Rightarrow> CommerceOffer" where
  "view_offer references name = \<lparr>of_Type = ''topup'', of_DisplayName = name, of_Description = None, of_SortOrder = 1,
     of_Availability = None, of_Price = \<lparr>ofp_AmountMinor = 500, ofp_Currency = ''EUR'', ofp_TaxBehavior = ''unspecified''\<rparr>,
     of_Providers = references, of_Plan = None, of_BillingInterval = None, of_Trial = None, of_CycleGrant = None,
     of_CreditsPerUnit = Some 5, of_Quantity = None, of_Bucket = None, of_Expiry = None,
     of_LotBehavior = ''separate_lots''\<rparr>"

definition view_config :: "CommerceOffer gomap \<Rightarrow> BursarConfig" where
  "view_config offers = sample_config\<lparr>cfg_Commerce := (cfg_Commerce sample_config)\<lparr>com_Offers := offers\<rparr>\<rparr>"

theorem public_view_noninterference_witness:
  "let secret = [(''stripe'', (no_reference ''stripe_price'')\<lparr>ref_PriceID := Some ''price_1''\<rparr>)];
       c = view_config [(''a'', view_offer secret ''Small''), (''b'', view_offer [] ''Large'')];
       c' = view_config [(''b'', view_offer secret ''Large''), (''a'', view_offer [] ''Small'')]
   in ProjectPublicCatalog ref_decimal (Some c) = ProjectPublicCatalog ref_decimal (Some c') \<and>
      length (pc_Topups (ProjectPublicCatalog ref_decimal (Some c))) = 2"
proof -
  define secret where "secret = [(''stripe'', (no_reference ''stripe_price'')\<lparr>ref_PriceID := Some ''price_1''\<rparr>)]"
  let ?c = "view_config [(''a'', view_offer secret ''Small''), (''b'', view_offer [] ''Large'')]"
  let ?c' = "view_config [(''b'', view_offer secret ''Large''), (''a'', view_offer [] ''Small'')]"
  have "same_public ?c ?c'" "distinct_keys ?c"
    by (simp_all add: same_public_def distinct_keys_def view_config_def sample_config_def view_offer_def public_offer_def)
  from public_view_noninterference [OF this, of ref_decimal] show ?thesis
    unfolding Let_def secret_def [symmetric]
    by (simp add: ProjectPublicCatalog_def view_config_def sample_config_def view_offer_def sortPublicOffers_def)
qed

end
