(* ===== verification/Retry.thy ===== *)
theory Retry
  imports Service_World
begin

text \<open>
  \<open>retry.go\<close>: bounded retries of replay-safe operations. The loop belongs to the backoff package, which is a
  parameter: what \<open>ctx.Err()\<close> answers, and, after a failed attempt that may be repeated, whether the package
  gives up (and with which error) or waits, with the effect of the wait and of the \<open>OnRetry\<close> notification
  on the world. What the code relies on is that the package makes no more than \<open>WithMaxTries\<close> attempts and
  stops at a permanent error.
\<close>

record BursarRetryOptions =
  ro_MaxAttempts :: int
  ro_BaseDelay :: duration
  ro_MaxDelay :: duration
  ro_Factor :: "rat option"
  ro_Jitter :: bool
  ro_MaxElapsed :: duration
  ro_ShouldRetry :: "(go_error \<Rightarrow> bool) option"

text \<open>The factor is a float; \<open>None\<close> stands for NaN and the infinities.\<close>

definition DefaultBursarRetryOptions :: BursarRetryOptions where
  "DefaultBursarRetryOptions = \<lparr>ro_MaxAttempts = 3, ro_BaseDelay = 250 * 1000000, ro_MaxDelay = 2 * second,
     ro_Factor = Some 2, ro_Jitter = True, ro_MaxElapsed = 30 * second, ro_ShouldRetry = None\<rparr>"

definition retry_config_error :: "string \<Rightarrow> go_error" where
  "retry_config_error message = errorf ErrorCodeConfig ErrorCategoryInvalidRequest message"

definition retry_validate :: "BursarRetryOptions \<Rightarrow> go_error option" where
  "retry_validate options =
     (if ro_MaxAttempts options < 1 then Some (retry_config_error ''retry max attempts must be positive'')
      else if ro_BaseDelay options < 0 then Some (retry_config_error ''retry base delay must not be negative'')
      else if ro_MaxDelay options < 0 then Some (retry_config_error ''retry max delay must not be negative'')
      else if ro_MaxDelay options < ro_BaseDelay options
      then Some (retry_config_error ''retry max delay must be greater than or equal to base delay'')
      else if (case ro_Factor options of None \<Rightarrow> True | Some f \<Rightarrow> f \<le> 0)
      then Some (retry_config_error ''retry factor must be a finite positive number'')
      else if ro_MaxElapsed options < 0 then Some (retry_config_error ''retry max elapsed time must not be negative'')
      else None)"

text \<open>
  \<open>bk_ctx n\<close> is the answer of \<open>ctx.Err()\<close> before attempt \<open>n\<close>, and \<open>bk_wait n e\<close> what the package
  does after attempt \<open>n\<close> failed with \<open>e\<close>: \<open>Some\<close> is the error it gives up with.
\<close>

record 's backoff_pkg =
  bk_ctx :: "nat \<Rightarrow> go_error option"
  bk_wait :: "nat \<Rightarrow> go_error \<Rightarrow> 's world \<Rightarrow> go_error option \<times> 's world"

definition should_retry :: "BursarRetryOptions \<Rightarrow> go_error \<Rightarrow> bool" where
  "should_retry options = (case ro_ShouldRetry options of None \<Rightarrow> IsRetryableError | Some f \<Rightarrow> f)"

text \<open>Whether a failure is permanent: the wrapper asks the clock only when the other tests have passed.\<close>

definition permanent_failure ::
  "BursarRetryOptions \<Rightarrow> gotime \<Rightarrow> go_error \<Rightarrow> (bool \<Rightarrow> ('s world, 'r) op) \<Rightarrow> ('s world, 'r) op" where
  "permanent_failure options startedAt e k =
     (if \<not> should_retry options e \<or> ro_MaxElapsed options = 0 then k True
      else inspect (\<lambda>w. perform tick (k (ro_MaxElapsed options \<le> time_sub (now_reading w) startedAt))))"

text \<open>The attempts from the \<open>n\<close>-th on, of which \<open>left\<close> may follow the next one.\<close>

primrec retry_tries ::
  "'s backoff_pkg \<Rightarrow> BursarRetryOptions \<Rightarrow> gotime \<Rightarrow> 'r \<Rightarrow> ('s world, 'r) op \<Rightarrow> nat \<Rightarrow> nat \<Rightarrow> ('s world, 'r) op" where
  "retry_tries B options startedAt zero operation 0 n =
     (case bk_ctx B n of
        Some e \<Rightarrow> return_err zero e
      | None \<Rightarrow> bind_op operation (\<lambda>result err.
          case err of
            None \<Rightarrow> return_ok result
          | Some e \<Rightarrow> permanent_failure options startedAt e (\<lambda>_. return_err result e)))"
| "retry_tries B options startedAt zero operation (Suc left) n =
     (case bk_ctx B n of
        Some e \<Rightarrow> return_err zero e
      | None \<Rightarrow> bind_op operation (\<lambda>result err.
          case err of
            None \<Rightarrow> return_ok result
          | Some e \<Rightarrow> permanent_failure options startedAt e (\<lambda>permanent.
              if permanent then return_err result e
              else (\<lambda>w. case bk_wait B n e w of
                (Some e', w') \<Rightarrow> return_err result e' w'
              | (None, w') \<Rightarrow> retry_tries B options startedAt zero operation left (Suc n) w'))))"

text \<open>\<open>ctx\<close> is whether a context is given, and \<open>supplied\<close> the variadic options.\<close>

definition RetryBursarOperation ::
  "'s backoff_pkg \<Rightarrow> bool \<Rightarrow> 'r \<Rightarrow> ('s world, 'r) op option \<Rightarrow> BursarRetryOptions list \<Rightarrow> ('s world, 'r) op" where
  "RetryBursarOperation B ctx zero operation supplied =
     (if \<not> ctx then return_err zero (retry_config_error ''retry context is required'')
      else case operation of
        None \<Rightarrow> return_err zero (retry_config_error ''retry operation is required'')
      | Some run \<Rightarrow>
          if 1 < length supplied then return_err zero (retry_config_error ''retry accepts at most one options value'')
          else
            let options = (case supplied of [] \<Rightarrow> DefaultBursarRetryOptions | o' # _ \<Rightarrow> o') in
            case retry_validate options of
              Some e \<Rightarrow> return_err zero e
            | None \<Rightarrow>
                (case bk_ctx B 0 of
                   Some e \<Rightarrow> return_err zero e
                 | None \<Rightarrow> inspect (\<lambda>w. perform tick
                     (retry_tries B options (now_reading w) zero run (nat (ro_MaxAttempts options) - 1) 1))))"

section \<open>What retries keep\<close>

definition waits_keep :: "('s world \<Rightarrow> 's world \<Rightarrow> bool) \<Rightarrow> 's backoff_pkg \<Rightarrow> bool" where
  "waits_keep R B \<longleftrightarrow> (\<forall>n e w. R w (snd (bk_wait B n e w)))"

context op_frame
begin

lemma keeps_wait:
  assumes "\<And>w. R w (snd (f w))" and "\<And>x. keeps R (k x)"
  shows "keeps R (\<lambda>w. case f w of (Some e, w') \<Rightarrow> return_err z e w' | (None, w') \<Rightarrow> k () w')"
  unfolding keeps_def
proof
  fix w
  obtain e v where f: "f w = (e, v)" by fastforce
  then have "R w v" using assms(1) by (metis snd_conv)
  then show "R w (state_of (case f w of (Some e, w') \<Rightarrow> return_err z e w' | (None, w') \<Rightarrow> k () w'))"
    using f assms(2) by (cases e) (auto simp: op_simps keeps_def intro: frame_trans)
qed

end

lemma retry_tries_keeps:
  assumes "op_frame R" and "\<And>w. R w (tick w)" and "waits_keep R B" and "keeps R operation"
  shows "keeps R (retry_tries B options startedAt zero operation left n)"
proof -
  have check: "keeps R (permanent_failure options startedAt e k)" if "\<And>b. keeps R (k b)" for e k
    using that assms(2) unfolding permanent_failure_def
    by (auto intro!: op_frame.keeps_inspect [OF assms(1)] op_frame.keeps_perform [OF assms(1)])
  show ?thesis
  proof (induction left arbitrary: n)
    case 0
    show ?case
      by (auto simp: op_frame.keeps_return [OF assms(1)] assms(4) split: option.split
          intro!: op_frame.keeps_bind [OF assms(1)] check)
  next
    case (Suc left)
    have wait: "keeps R (\<lambda>w. case bk_wait B n e w of (Some e', w') \<Rightarrow> return_err z e' w'
        | (None, w') \<Rightarrow> retry_tries B options startedAt zero operation left (Suc n) w')" for e z
      using op_frame.keeps_wait [OF assms(1), of "bk_wait B n e" "\<lambda>_. retry_tries B options startedAt zero operation left (Suc n)"]
        assms(3) Suc.IH by (simp add: waits_keep_def)
    show ?case
      by (auto simp: op_frame.keeps_return [OF assms(1)] assms(4) split: option.split
          intro!: op_frame.keeps_bind [OF assms(1)] check wait)
  qed
qed

lemma RetryBursarOperation_keeps:
  assumes "op_frame R" and "\<And>w. R w (tick w)" and "waits_keep R B" and "keeps R operation"
  shows "keeps R (RetryBursarOperation B ctx zero (Some operation) supplied)"
  unfolding RetryBursarOperation_def Let_def
  by (auto simp: op_frame.keeps_return [OF assms(1)] split: option.split
      intro!: op_frame.keeps_inspect [OF assms(1)] op_frame.keeps_perform [OF assms(1)] retry_tries_keeps [OF assms] assms(2))

end
