(* ===== verification/Accounts.thy ===== *)
theory Accounts
  imports Credits_Usage Retry Config_Properties
begin

text \<open>
  \<open>accounts.go\<close>: what happens when an account is created. The active catalogue's default plan is assigned when
  the account has none, and every grant program for new accounts runs, in the order of the keys, with the
  caller's event key. Every call goes through \<^const>\<open>RetryBursarOperation\<close>.
\<close>

record AccountCreatedInput =
  aci_AccountID :: string
  aci_EventKey :: string
  aci_Region :: string
  aci_Metadata :: CreditMetadata

record AccountCreatedResult =
  acr_AccountID :: string
  acr_PlanKey :: string
  acr_PlanAssigned :: bool
  acr_Grants :: "GrantProgramAwardResult list"

definition zero_AccountCreated :: AccountCreatedResult where
  "zero_AccountCreated = \<lparr>acr_AccountID = [], acr_PlanKey = [], acr_PlanAssigned = False, acr_Grants = []\<rparr>"

record 's AccountService =
  as_credits :: "'s CreditsService option"
  as_catalog :: "'s CatalogService option"

definition NewAccountService ::
  "'s CreditsService option \<Rightarrow> 's CatalogService option \<Rightarrow> go_error + 's AccountService" where
  "NewAccountService credits catalog =
     (if credits = None \<or> catalog = None
      then Inl (NewError ''accounts require credits and catalog services''
             (code_category ErrorCodeConfig ErrorCategoryInvalidRequest))
      else Inr \<lparr>as_credits = credits, as_catalog = catalog\<rparr>)"

definition account_not_initialized :: go_error where
  "account_not_initialized = NewError ''account service is not initialized''
     (code_category ErrorCodeStoreClosed ErrorCategoryUnavailable)"

definition no_default_plan :: go_error where
  "no_default_plan = NewError ''active catalog has no default account plan''
     (code_category ErrorCodeConfig ErrorCategoryInvalidRequest)"

definition grant_request :: "string \<Rightarrow> string \<Rightarrow> AccountCreatedInput \<Rightarrow> string \<Rightarrow> ExecuteGrantProgramRequest" where
  "grant_request accountID eventKey input programKey =
     \<lparr>egp_Trigger = ''account_created'', egp_ProgramKey = programKey, egp_SubjectID = accountID,
      egp_EventKey = eventKey, egp_ReferrerSubjectID = [], egp_Region = aci_Region input,
      egp_Metadata = CreditMetadata_Clone (aci_Metadata input)\<rparr>"

text \<open>The loop over the programs in the order of their keys, skipping the other triggers.\<close>

fun run_programs ::
  "'s backoff_pkg \<Rightarrow> bool \<Rightarrow> 's CreditsService option \<Rightarrow> string \<Rightarrow> string \<Rightarrow> AccountCreatedInput \<Rightarrow>
   GrantProgramAwardResult list \<Rightarrow> GrantProgram gomap \<Rightarrow> string list \<Rightarrow>
   ('s world, GrantProgramAwardResult list) op" where
  "run_programs B ctx credits accountID eventKey input grants programs [] = return_ok grants"
| "run_programs B ctx credits accountID eventKey input grants programs (key # keys) =
     (case map_of programs key of
        None \<Rightarrow> run_programs B ctx credits accountID eventKey input grants programs keys
      | Some program \<Rightarrow>
          if gp_Trigger program \<noteq> ''account_created''
          then run_programs B ctx credits accountID eventKey input grants programs keys
          else try_op (RetryBursarOperation B ctx []
                 (Some (ExecuteGrantProgram credits (grant_request accountID eventKey input key))) []) []
               (\<lambda>awards. run_programs B ctx credits accountID eventKey input (grants @ awards) programs keys))"

definition program_keys :: "BursarConfig \<Rightarrow> string list" where
  "program_keys config = sort_by str_less (map_keys (cc_GrantPrograms (cfg_Credits config)))"

text \<open>
  The current plan, or the default one after it has been assigned. A credits service cannot be built without a
  store; for one without, where the code would dereference nil, the model answers with the error of the other methods.
\<close>

definition ensure_plan ::
  "'s backoff_pkg \<Rightarrow> bool \<Rightarrow> 's CreditsService option \<Rightarrow> string \<Rightarrow> string \<Rightarrow> ('s world, string \<times> bool) op" where
  "ensure_plan B ctx credits accountID defaultPlan =
     (case sv_store (the credits) of
        None \<Rightarrow> return_err ([], False) not_initialized
      | Some store \<Rightarrow>
          try_op (RetryBursarOperation B ctx zero_UserPlan
              (Some (store_call (st_GetUserPlan (st_plans store) accountID))) []) ([], False) (\<lambda>current.
            if gup_PlanKey current \<noteq> [] then return_ok (gup_PlanKey current, False)
            else try_op (RetryBursarOperation B ctx zero_SetUserPlan
                   (Some (SetUserPlan credits accountID defaultPlan None)) []) ([], False)
                 (\<lambda>_. return_ok (defaultPlan, True))))"

definition OnAccountCreated ::
  "'s backoff_pkg \<Rightarrow> config_pkgs \<Rightarrow> bool \<Rightarrow> 's AccountService option \<Rightarrow> AccountCreatedInput \<Rightarrow>
   ('s world, AccountCreatedResult) op" where
  "OnAccountCreated B L ctx s input =
     (case s of
        None \<Rightarrow> return_err zero_AccountCreated account_not_initialized
      | Some accounts \<Rightarrow>
          if as_credits accounts = None \<or> as_catalog accounts = None
          then return_err zero_AccountCreated account_not_initialized
          else
      require (requireText (aci_AccountID input) ''account ID'') zero_AccountCreated (\<lambda>accountID.
      require (requireStableKey (aci_EventKey input) ''account-created event key'') zero_AccountCreated (\<lambda>eventKey.
      try_op (RetryBursarOperation B ctx None (Some (GetConfig L (as_catalog accounts))) []) zero_AccountCreated (\<lambda>config.
        case config of
          None \<Rightarrow> return_err zero_AccountCreated no_active_catalog
        | Some c \<Rightarrow>
            (case cat_DefaultPlan (cfg_Catalog c) of
               None \<Rightarrow> return_err zero_AccountCreated no_default_plan
             | Some defaultPlan \<Rightarrow>
                 if defaultPlan = [] then return_err zero_AccountCreated no_default_plan
                 else
      try_op (ensure_plan B ctx (as_credits accounts) accountID defaultPlan) zero_AccountCreated (\<lambda>(planKey, assigned).
      try_op (run_programs B ctx (as_credits accounts) accountID eventKey input [] (cc_GrantPrograms (cfg_Credits c))
          (program_keys c)) zero_AccountCreated (\<lambda>grants.
        return_ok \<lparr>acr_AccountID = accountID, acr_PlanKey = planKey, acr_PlanAssigned = assigned,
          acr_Grants = grants\<rparr>)))))))"

section \<open>The calls that reach the store\<close>

text \<open>
  The store calls the creation of an account may make: reads of the catalogue and of the account's plan, the
  assignment of a plan to this account, and grant programs for new accounts, for this account, with this key.
\<close>

inductive account_move :: "'s CreditStore \<Rightarrow> string \<Rightarrow> string \<Rightarrow> 's \<Rightarrow> 's \<Rightarrow> bool" for store accountID eventKey where
  read_catalog: "account_move store accountID eventKey s (state_of (st_GetActiveCatalog (st_catalog store) s))"
| read_plan: "account_move store accountID eventKey s (state_of (st_GetUserPlan (st_plans store) accountID s))"
| assign_plan: "plan \<noteq> [] \<Longrightarrow>
    account_move store accountID eventKey s (state_of (st_SetUserPlan (st_plans store) accountID plan None s))"
| run_program: "egp_Trigger request = ''account_created'' \<Longrightarrow> egp_SubjectID request = accountID \<Longrightarrow>
    egp_EventKey request = eventKey \<Longrightarrow>
    account_move store accountID eventKey s (state_of (st_ExecuteGrantProgram (st_leases store) request s))"

definition account_keeps :: "'s CreditStore \<Rightarrow> string \<Rightarrow> string \<Rightarrow> 's world \<Rightarrow> 's world \<Rightarrow> bool" where
  "account_keeps store accountID eventKey w w' \<longleftrightarrow>
     (account_move store accountID eventKey)\<^sup>*\<^sup>* (w_store w) (w_store w')"

interpretation account: op_frame "account_keeps store accountID eventKey" for store accountID eventKey
  by unfold_locales (auto simp: account_keeps_def)

lemma account_keeps_tick: "account_keeps store accountID eventKey w (tick w)"
  by (simp add: account_keeps_def tick_def)

lemma account_store_call:
  assumes "\<And>s. account_move store accountID eventKey s (state_of (f s))"
  shows "keeps (account_keeps store accountID eventKey) (store_call f)"
  using assms by (auto simp: keeps_def store_call_def account_keeps_def split: prod.split) (metis r_into_rtranclp snd_conv)

lemma account_emit: "account_keeps store accountID eventKey w (emitCreditEvent sink ty u d w)"
  by (simp add: account_keeps_def emitCreditEvent_def append_effect_def tick_def)

lemmas account_retry = RetryBursarOperation_keeps [OF account.op_frame_axioms account_keeps_tick]

definition waits_idle :: "'s backoff_pkg \<Rightarrow> bool" where
  "waits_idle B \<longleftrightarrow> (\<forall>n e w. w_store (snd (bk_wait B n e w)) = w_store w)"

lemma waits_idle_keep: "waits_idle B \<Longrightarrow> waits_keep (account_keeps store accountID eventKey) B"
  by (simp add: waits_idle_def waits_keep_def account_keeps_def)

lemma GetConfig_account:
  assumes "catalog_over store s"
  shows "keeps (account_keeps store accountID eventKey) (GetConfig L s)"
  using assms unfolding GetConfig_def GetActive_def with_catalog_def catalog_over_def
  by (auto intro!: account.keeps_try account.keeps_require account_store_call read_catalog
      split: option.split simp: account.keeps_return)

lemma ensure_plan_account:
  assumes "waits_idle B" and "sv_store sv = Some store" and "defaultPlan \<noteq> []"
  shows "keeps (account_keeps store accountID eventKey) (ensure_plan B ctx (Some sv) accountID defaultPlan)"
proof -
  note retry = account_retry [OF waits_idle_keep [OF assms(1)]]
  have "keeps (account_keeps store accountID eventKey) (SetUserPlan (Some sv) accountID defaultPlan None)"
    using assms(2,3) unfolding SetUserPlan_def with_store_def
    by (auto intro!: account.keeps_try account.keeps_perform account.keeps_return account_store_call assign_plan account_emit)
  then show ?thesis
    using assms(2) unfolding ensure_plan_def
    by (auto intro!: account.keeps_try retry account_store_call read_plan simp: account.keeps_return)
qed

lemma run_programs_account:
  assumes "waits_idle B" and "sv_store sv = Some store"
  shows "keeps (account_keeps store accountID eventKey)
    (run_programs B ctx (Some sv) accountID eventKey input grants programs keys)"
proof (induction keys arbitrary: grants)
  case (Cons key keys)
  note retry = account_retry [OF waits_idle_keep [OF assms(1)]]
  have "keeps (account_keeps store accountID eventKey)
      (ExecuteGrantProgram (Some sv) (grant_request accountID eventKey input key))"
    using assms(2) unfolding ExecuteGrantProgram_def with_store_def
    by (auto intro!: account_store_call run_program simp: grant_request_def)
  then show ?case
    by (auto intro!: account.keeps_try retry Cons.IH split: option.split)
qed (simp add: account.keeps_return)

lemma OnAccountCreated_account:
  assumes "waits_idle B" and "as_credits accounts = Some sv" and "sv_store sv = Some store"
    and "catalog_over store (as_catalog accounts)"
  shows "keeps (account_keeps store (trim_space (aci_AccountID input)) (trim_space (aci_EventKey input)))
    (OnAccountCreated B L ctx (Some accounts) input)"
proof -
  note retry = account_retry [OF waits_idle_keep [OF assms(1)]]
  show ?thesis
    using assms(2,3) unfolding OnAccountCreated_def
    by (auto simp: account.keeps_return requireText_Inr requireStableKey_Inr split: option.split
        intro!: account.keeps_require account.keeps_try retry GetConfig_account [OF assms(4)]
          ensure_plan_account [OF assms(1,3)] run_programs_account [OF assms(1,3)])
qed

lemma ensure_plan_result:
  "ensure_plan B ctx credits accountID defaultPlan w = ((r, None), w') \<Longrightarrow> defaultPlan \<noteq> [] \<Longrightarrow> fst r \<noteq> []"
  by (auto simp: ensure_plan_def op_simps split: option.splits prod.splits if_splits)

lemma OnAccountCreated_error:
  "OnAccountCreated B L ctx s input w = ((result, Some e), w') \<Longrightarrow> result = zero_AccountCreated"
  by (auto simp: OnAccountCreated_def op_simps require_def split: option.splits prod.splits if_splits sum.splits)

lemma OnAccountCreated_success:
  assumes "OnAccountCreated B L ctx s input w = ((result, None), w')"
  shows "acr_AccountID result = trim_space (aci_AccountID input)" "acr_AccountID result \<noteq> []"
    "stable_key (trim_space (aci_EventKey input))" "acr_PlanKey result \<noteq> []"
  using assms ensure_plan_result
  by (fastforce simp: OnAccountCreated_def op_simps require_def requireText_Inr requireStableKey_Inr
      split: option.splits prod.splits if_splits sum.splits)+

section \<open>Properties\<close>


text \<open>A store whose active catalogue has a default plan, and a package that neither cancels nor waits.\<close>

definition account_store :: "ref_state CreditStore" where
  "account_store = ref_store\<lparr>st_catalog := (st_catalog ref_store)\<lparr>st_GetActiveCatalog :=
     answer (Some \<lparr>rev_ID = ''1'', rev_Config = plan_document, rev_Version = 1\<rparr>)\<rparr>\<rparr>"

definition idle_backoff :: "ref_state backoff_pkg" where
  "idle_backoff = \<lparr>bk_ctx = (\<lambda>_. None), bk_wait = (\<lambda>n e w. (None, w))\<rparr>"

definition account_service :: "ref_state CreditsService" where
  "account_service = \<lparr>sv_store = Some account_store, sv_catalog = None, sv_analytics = None, sv_usageStore = None,
     sv_policy = ''strict_prepaid'', sv_overdraftFloor = 0, sv_maxConcurrent = None, sv_defaultLeaseTTL = defaultLeaseTTL,
     sv_events = False, sv_lowBalance = [], sv_lowBalanceHandler = False, sv_lowBalanceMaxTracked = 1, sv_lazyExpiry = False\<rparr>"

definition sample_accounts :: "ref_state AccountService" where
  "sample_accounts = \<lparr>as_credits = Some account_service,
     as_catalog = Some \<lparr>cs_store = Some account_store, cs_cacheTTL = defaultCatalogCacheTTL\<rparr>\<rparr>"

definition created_input :: AccountCreatedInput where
  "created_input = \<lparr>aci_AccountID = ''u1'', aci_EventKey = ''evt1'', aci_Region = [], aci_Metadata = []\<rparr>"

lemma one_attempt:
  assumes "operation (tick w) = ((r, None), w')"
  shows "RetryBursarOperation idle_backoff True z (Some operation) [] w = ((r, None), w')"
  using assms
  by (simp add: RetryBursarOperation_def retry_validate_def DefaultBursarRetryOptions_def second_def idle_backoff_def
      Let_def op_simps numeral_3_eq_3)

lemma sample_account_steps:
  "GetConfig ref_pkgs (as_catalog sample_accounts) w = ((Some plan_config, None), w)"
  "store_call (st_GetUserPlan (st_plans account_store) u) w = ((rs_plan (w_store w), None), w)"
  "\<exists>r w'. SetUserPlan (Some account_service) u p None w = ((r, None), w')"
  by (simp_all add: GetConfig_def GetActive_def with_catalog_def sample_accounts_def account_store_def store_call_def
      op_simps answer_def plan_document_loads SetUserPlan_def with_store_def account_service_def ref_store_def
      ref_plans_def emitCreditEvent_def ref_catalog_def split: prod.split)

lemma sample_account_created:
  "\<exists>w'. OnAccountCreated idle_backoff ref_pkgs True (Some sample_accounts) created_input sample_world =
     ((\<lparr>acr_AccountID = ''u1'', acr_PlanKey = ''starter'', acr_PlanAssigned = True, acr_Grants = []\<rparr>, None), w')"
proof -
  have trims: "trim_space ''u1'' = ''u1''" "trim_space ''evt1'' = ''evt1''"
    by (rule trim_space_graphic; simp add: graphic_def byte_def)+
  let ?w = "tick (tick sample_world)"
  obtain r w' where set_plan: "SetUserPlan (Some account_service) ''u1'' ''starter'' None (tick ?w) = ((r, None), w')"
    using sample_account_steps(3) by blast
  have read: "RetryBursarOperation idle_backoff True zero_UserPlan
      (Some (store_call (st_GetUserPlan (st_plans account_store) ''u1''))) [] (tick sample_world) = ((zero_UserPlan, None), ?w)"
    by (rule one_attempt) (simp add: sample_account_steps(2) tick_def sample_world_def sample_state_def)
  have assign: "RetryBursarOperation idle_backoff True zero_SetUserPlan
      (Some (SetUserPlan (Some account_service) ''u1'' ''starter'' None)) [] ?w = ((r, None), w')"
    by (rule one_attempt) (rule set_plan)
  have "ensure_plan idle_backoff True (Some account_service) ''u1'' ''starter'' (tick sample_world) =
      (((''starter'', True), None), w')"
    using read assign by (simp add: ensure_plan_def op_simps account_service_def zero_UserPlan_def)
  moreover have "RetryBursarOperation idle_backoff True None (Some (GetConfig ref_pkgs (as_catalog sample_accounts))) []
      sample_world = ((Some plan_config, None), tick sample_world)"
    by (rule one_attempt) (rule sample_account_steps(1))
  moreover have "as_credits sample_accounts = Some account_service" "as_catalog sample_accounts \<noteq> None"
    by (simp_all add: sample_accounts_def)
  moreover have "program_keys plan_config = []" "cat_DefaultPlan (cfg_Catalog plan_config) = Some ''starter''"
    by (simp_all add: program_keys_def plan_config_def sample_config_def map_keys_def sort_by_def)
  ultimately show ?thesis
    by (simp add: OnAccountCreated_def created_input_def requireText_def requireStableKey_def trims Let_def
        maxIdempotencyKeyLength_def op_simps)
qed


end
