(* ===== verification/Calendar.thy ===== *)
theory Calendar
  imports Credit_Types "HOL-Library.Signed_Division"
begin

text \<open>
  Civil dates and the policy windows of \<open>auto_recharge.go\<close>. Of the package \<open>time\<close> the code uses the civil date
  of an instant in a location, the instant of a civil date, and \<open>AddDate\<close>, which normalises months and days. A
  civil month is its number \<open>12 * year + (month - 1)\<close>, a civil day its number of days since 1 January 1970, and
  a wall clock its nanoseconds since then; the time zone database is the parameter \<open>zones\<close>.
\<close>

section \<open>Civil dates\<close>

text \<open>Days from 1 January of year 0 to 1 January of year \<open>y\<close>, in the proleptic Gregorian calendar.\<close>

definition year_start :: "int \<Rightarrow> int" where
  "year_start y = 365 * y + (y + 3) div 4 - (y + 99) div 100 + (y + 399) div 400"

definition leap_year :: "int \<Rightarrow> bool" where
  "leap_year y \<longleftrightarrow> 4 dvd y \<and> (\<not> 100 dvd y \<or> 400 dvd y)"

text \<open>Days from the start of a year to the start of its month \<open>m\<close>, counted from 0; \<open>m = 12\<close> is the next year.\<close>

definition month_offset :: "bool \<Rightarrow> int \<Rightarrow> int" where
  "month_offset leap m =
     [0, 31, 59, 90, 120, 151, 181, 212, 243, 273, 304, 334, 365] ! nat m + (if leap \<and> 2 \<le> m then 1 else 0)"

definition epoch_days :: int where "epoch_days = 719528"

definition month_start :: "int \<Rightarrow> int" where
  "month_start i = year_start (i div 12) + month_offset (leap_year (i div 12)) (i mod 12) - epoch_days"

text \<open>The year of a day counted from year 0: an estimate by the mean length of a year, off by at most one.\<close>

definition year_of :: "int \<Rightarrow> int" where
  "year_of d =
     (let y = d * 400 div 146097
      in if d < year_start y then y - 1 else if year_start (y + 1) \<le> d then y + 1 else y)"

definition month_in_year :: "bool \<Rightarrow> int \<Rightarrow> int" where
  "month_in_year leap doy = int (length (filter (\<lambda>m. month_offset leap (int m) \<le> doy) [1..<12]))"

text \<open>The number of the month of a day.\<close>

definition month_of_day :: "int \<Rightarrow> int" where
  "month_of_day day =
     (let d = day + epoch_days; y = year_of d
      in 12 * y + month_in_year (leap_year y) (d - year_start y))"

lemma div_range: "0 < c \<Longrightarrow> c * (x div c) \<le> x \<and> x < c * (x div c) + c" for c x :: int
  using mult_div_mod_eq [of c x] pos_mod_sign [of c x] pos_mod_bound [of c x] by linarith

lemma div_next:
  fixes c y :: int
  assumes "0 < c"
  shows "(y + c) div c = (y + (c - 1)) div c + (if c dvd y then 1 else 0)"
proof -
  define q r where "q = y div c" and "r = y mod c"
  have y: "y = c * q + r" "0 \<le> r" "r < c" using assms by (simp_all add: q_def r_def)
  have "(c * q + (r + (c - 1))) div c = q + (if r = 0 then 0 else 1)"
  proof (cases "r = 0")
    case True
    have "(c * q + (c - 1)) div c = q + (c - 1) div c" using assms by (subst div_mult_self4) auto
    with True assms show ?thesis by (simp add: div_pos_pos_trivial)
  next
    case False
    have "(c * q + (r + (c - 1))) div c = (c * (q + 1) + (r - 1)) div c" by (simp add: algebra_simps)
    also have "\<dots> = q + 1 + (r - 1) div c" using assms by (subst div_mult_self4) auto
    finally show ?thesis using y False by (simp add: div_pos_pos_trivial)
  qed
  moreover have "(y + c) div c = q + 1" using assms by (simp add: q_def)
  moreover have "c dvd y \<longleftrightarrow> r = 0" by (simp add: r_def dvd_eq_mod_eq_0)
  ultimately show ?thesis by (simp add: y(1) add.assoc)
qed

lemma year_start_bounds:
  "146097 * y \<le> 400 * year_start y + 400" "400 * year_start y < 146097 * y + 800"
proof -
  define a b c where "a = (y + 3) div 4" and "b = (y + 99) div 100" and "c = (y + 399) div 400"
  have "4 * a \<le> y + 3" "y + 3 < 4 * a + 4" "100 * b \<le> y + 99" "y + 99 < 100 * b + 100"
    "400 * c \<le> y + 399" "y + 399 < 400 * c + 400"
    using div_range [of 4 "y + 3"] div_range [of 100 "y + 99"] div_range [of 400 "y + 399"]
    by (simp_all add: a_def b_def c_def)
  moreover have "year_start y = 365 * y + a - b + c" by (simp add: year_start_def a_def b_def c_def)
  ultimately show "146097 * y \<le> 400 * year_start y + 400" "400 * year_start y < 146097 * y + 800" by simp_all
qed

lemma year_length: "year_start (y + 1) = year_start y + (if leap_year y then 366 else 365)"
proof -
  define a b c where "a = (y + 3) div 4" and "b = (y + 99) div 100" and "c = (y + 399) div 400"
  have "(4 :: int) dvd 100" "(100 :: int) dvd 400" by simp_all
  then have nested: "100 dvd y \<Longrightarrow> 4 dvd y" "400 dvd y \<Longrightarrow> 100 dvd y" by (blast intro: dvd_trans)+
  have next_year: "(y + 1 + 3) div 4 = a + (if 4 dvd y then 1 else 0)"
    "(y + 1 + 99) div 100 = b + (if 100 dvd y then 1 else 0)"
    "(y + 1 + 399) div 400 = c + (if 400 dvd y then 1 else 0)"
    using div_next [of 4 y] div_next [of 100 y] div_next [of 400 y] by (simp_all add: a_def b_def c_def add.assoc)
  have "year_start y = 365 * y + a - b + c" by (simp add: year_start_def a_def b_def c_def)
  moreover have "year_start (y + 1) = 365 * (y + 1) + (a + (if 4 dvd y then 1 else 0)) -
      (b + (if 100 dvd y then 1 else 0)) + (c + (if 400 dvd y then 1 else 0))"
    unfolding year_start_def next_year ..
  ultimately show ?thesis
    using nested by (cases "4 dvd y"; cases "100 dvd y"; cases "400 dvd y") (simp_all add: leap_year_def)
qed

lemma year_start_mono: "x < y \<Longrightarrow> year_start (x + 1) \<le> year_start y"
proof (induction "nat (y - x)" arbitrary: y)
  case (Suc n)
  show ?case
  proof (cases "y = x + 1")
    case False
    with Suc have "year_start (x + 1) \<le> year_start (y - 1)" by (intro Suc.hyps(1)) auto
    with year_length [of "y - 1"] show ?thesis by (auto split: if_splits)
  qed simp
qed simp

lemma year_of_bounds: "year_start (year_of d) \<le> d" "d < year_start (year_of d + 1)"
proof -
  define y where "y = d * 400 div 146097"
  have est: "146097 * y \<le> d * 400" "d * 400 < 146097 * (y + 1)" using div_range [of 146097 "d * 400"] by (simp_all add: y_def algebra_simps)
  have low: "year_start (y - 1) \<le> d" using est year_start_bounds(2) [of "y - 1"] by (simp add: algebra_simps)
  have "400 * d < 400 * year_start (y + 2)" using est year_start_bounds(1) [of "y + 2"] by simp
  then have high: "d < year_start (y + 2)" by simp
  have "year_start (year_of d) \<le> d \<and> d < year_start (year_of d + 1)"
    using low high by (auto simp: year_of_def Let_def add.assoc simp flip: y_def)
  then show "year_start (year_of d) \<le> d" "d < year_start (year_of d + 1)" by auto
qed

text \<open>Counting the entries of an increasing table that are not above \<open>x\<close> finds the interval \<open>x\<close> lies in.\<close>

lemma count_below:
  fixes f :: "nat \<Rightarrow> int"
  assumes "\<And>m. m < n \<Longrightarrow> f m \<le> f (Suc m)" and "f 0 \<le> x" and "x < f n"
  shows "length (filter (\<lambda>m. f m \<le> x) [1..<n]) < n \<and> f (length (filter (\<lambda>m. f m \<le> x) [1..<n])) \<le> x \<and>
    x < f (Suc (length (filter (\<lambda>m. f m \<le> x) [1..<n])))"
  using assms
proof (induction n)
  case (Suc n)
  show ?case
  proof (cases "x < f n")
    case True
    with Suc.IH Suc.prems have "length (filter (\<lambda>m. f m \<le> x) [1..<n]) < n \<and>
        f (length (filter (\<lambda>m. f m \<le> x) [1..<n])) \<le> x \<and> x < f (Suc (length (filter (\<lambda>m. f m \<le> x) [1..<n])))" by simp
    with True show ?thesis by (cases n) auto
  next
    case False
    have "f m \<le> f n" if "m \<le> n" for m
      using that
    proof (induction rule: inc_induct)
      case (step k)
      with Suc.prems(1) [of k] show ?case by simp
    qed simp
    with False have below: "f m \<le> x" if "m \<le> n" for m using that by (meson linorder_not_less order_trans)
    have "filter (\<lambda>m. f m \<le> x) [1..<Suc n] = [1..<Suc n]"
      by (intro filter_True ballI below) auto
    then have "length (filter (\<lambda>m. f m \<le> x) [1..<Suc n]) = n" by (simp del: upt_Suc)
    with False Suc.prems(3) show ?thesis by (simp del: upt_Suc)
  qed
qed simp

lemma month_offset_mono:
  assumes "m < 12"
  shows "month_offset leap (int m) < month_offset leap (int (Suc m))"
proof -
  have "list_all (\<lambda>m. month_offset True (int m) < month_offset True (int (Suc m))) [0..<12]"
    "list_all (\<lambda>m. month_offset False (int m) < month_offset False (int (Suc m))) [0..<12]"
    by code_simp+
  with assms show ?thesis by (cases leap) (simp_all add: list_all_iff)
qed

lemma month_in_year_bounds:
  assumes "0 \<le> doy" and "doy < (if leap then 366 else 365)"
  shows "0 \<le> month_in_year leap doy" "month_in_year leap doy < 12"
    "month_offset leap (month_in_year leap doy) \<le> doy" "doy < month_offset leap (month_in_year leap doy + 1)"
proof -
  have "month_offset leap (int 0) \<le> doy" "doy < month_offset leap (int 12)"
    using assms by (auto simp: month_offset_def)
  from count_below [of 12 "\<lambda>m. month_offset leap (int m)" doy, OF _ this] month_offset_mono
  show "0 \<le> month_in_year leap doy" "month_in_year leap doy < 12"
    "month_offset leap (month_in_year leap doy) \<le> doy" "doy < month_offset leap (month_in_year leap doy + 1)"
    by (auto simp: month_in_year_def add.commute less_imp_le)
qed

lemma month_start_year: "month_start (12 * z) = year_start z - epoch_days"
  by (simp add: month_start_def month_offset_def)

lemma month_of_day_bounds: "month_start (month_of_day day) \<le> day" "day < month_start (month_of_day day + 1)"
proof -
  define d where "d = day + epoch_days"
  define y where "y = year_of d"
  define doy where "doy = d - year_start y"
  define m where "m = month_in_year (leap_year y) doy"
  have doy: "0 \<le> doy" "doy < (if leap_year y then 366 else 365)"
    using year_of_bounds [of d] year_length [of y] by (auto simp: doy_def y_def split: if_splits)
  note m = month_in_year_bounds [OF doy, folded m_def]
  have month: "month_of_day day = 12 * y + m"
    by (simp add: month_of_day_def Let_def d_def y_def m_def doy_def)
  have "month_start (12 * y + m) = year_start y + month_offset (leap_year y) m - epoch_days"
    using m(1,2) by (simp add: month_start_def)
  moreover have "month_start (12 * y + m + 1) = year_start y + month_offset (leap_year y) (m + 1) - epoch_days"
  proof (cases "m = 11")
    case True
    have "12 * y + m + 1 = 12 * (y + 1)" using True by simp
    then have "month_start (12 * y + m + 1) = year_start (y + 1) - epoch_days"
      by (simp only: month_start_year)
    with True year_length [of y] show ?thesis by (simp add: month_offset_def)
  next
    case False
    with m(1,2) have "(12 * y + (m + 1)) div 12 = y" "(12 * y + (m + 1)) mod 12 = m + 1" by simp_all
    then show ?thesis by (simp add: month_start_def add.assoc)
  qed
  ultimately show "month_start (month_of_day day) \<le> day" "day < month_start (month_of_day day + 1)"
    using m(3,4) by (simp_all add: month doy_def d_def)
qed

lemma month_start_step: "month_start i < month_start (i + 1)"
proof -
  define y m where "y = i div 12" and "m = i mod 12"
  have i: "i = 12 * y + m" "0 \<le> m" "m < 12" by (simp_all add: y_def m_def)
  have here: "month_start i = year_start y + month_offset (leap_year y) m - epoch_days"
    by (simp add: month_start_def y_def m_def)
  have up: "month_offset (leap_year y) m < month_offset (leap_year y) (m + 1)"
    using month_offset_mono [of "nat m" "leap_year y"] i by (simp add: add.commute)
  show ?thesis
  proof (cases "m = 11")
    case True
    with i have "i + 1 = 12 * (y + 1)" by simp
    then have "month_start (i + 1) = year_start (y + 1) - epoch_days" by (simp only: month_start_year)
    with here up True year_length [of y] show ?thesis by (simp add: month_offset_def)
  next
    case False
    with i have "(i + 1) div 12 = y" "(i + 1) mod 12 = m + 1" by (simp_all add: add.assoc)
    with here up show ?thesis by (simp add: month_start_def)
  qed
qed

lemma month_start_mono: "i \<le> j \<Longrightarrow> month_start i \<le> month_start j"
proof (induction "nat (j - i)" arbitrary: j)
  case (Suc n)
  then have "month_start i \<le> month_start (j - 1)" by (intro Suc.hyps(1)) auto
  with month_start_step [of "j - 1"] show ?case by simp
qed simp

section \<open>The package time\<close>

text \<open>
  The time zone database: the wall clock of an instant in a location and the instant of a wall clock. For a wall clock
  that a transition skips or repeats the package chooses one of the instants; the code does not say which.
\<close>

record zones =
  zn_Load :: "string \<Rightarrow> bool"
  zn_local :: "string \<Rightarrow> gotime \<Rightarrow> int"
  zn_instant :: "string \<Rightarrow> int \<Rightarrow> gotime"

definition day_ns :: int where "day_ns = 24 * hour"

definition civil_day :: "zones \<Rightarrow> string \<Rightarrow> gotime \<Rightarrow> int" where
  "civil_day Z zone t = zn_local Z zone t div day_ns"

text \<open>\<open>time.Date(year, month, day, 0, 0, 0, 0, location)\<close>, for a number of a month and a day of it from 0.\<close>

definition time_Date :: "zones \<Rightarrow> string \<Rightarrow> int \<Rightarrow> int \<Rightarrow> gotime" where
  "time_Date Z zone month day = zn_instant Z zone ((month_start month + day) * day_ns)"

definition AddDate :: "zones \<Rightarrow> string \<Rightarrow> gotime \<Rightarrow> int \<Rightarrow> int \<Rightarrow> int \<Rightarrow> gotime" where
  "AddDate Z zone t years months days =
     (let wall = zn_local Z zone t;
          day = wall div day_ns;
          month = month_of_day day
      in zn_instant Z zone
           ((month_start (month + 12 * years + months) + (day - month_start month) + days) * day_ns + wall mod day_ns))"

section \<open>Policy windows\<close>

definition floorDivide :: "int \<Rightarrow> int \<Rightarrow> int" where
  "floorDivide dividend divisor =
     (let quotient = dividend sdiv divisor; remainder = dividend smod divisor
      in if remainder \<noteq> 0 \<and> ((remainder < 0) \<noteq> (divisor < 0)) then quotient - 1 else quotient)"

definition auto_config_error :: "string \<Rightarrow> go_error" where
  "auto_config_error message = NewError message (code_category ErrorCodeConfig ErrorCategoryInvalidRequest)"

text \<open>The anchors 1 and 3 January 2000; the elapsed days are a \<open>Duration\<close>, which saturates.\<close>

definition anchor_month :: int where "anchor_month = 2000 * 12"

definition resolveAutoRechargeCalendarWindow ::
  "zones \<Rightarrow> string \<Rightarrow> gotime \<Rightarrow> string \<Rightarrow> int \<Rightarrow> go_error + gotime \<times> gotime" where
  "resolveAutoRechargeCalendarWindow Z zone now unit count =
     (let today = civil_day Z zone now;
          month = month_of_day today in
      if unit = ''day'' \<or> unit = ''week'' then
        let first = (if unit = ''week'' then 2 else 0);
            anchor = time_Date Z zone anchor_month first;
            anchorDay = civil_day Z zone anchor;
            elapsedDays = time_sub (today * day_ns) (anchorDay * day_ns) sdiv day_ns;
            stepDays = (if unit = ''week'' then count * 7 else count);
            start = AddDate Z zone anchor 0 0 (floorDivide elapsedDays stepDays * stepDays)
        in Inr (start, AddDate Z zone start 0 0 stepDays)
      else if unit = ''month'' then
        let startMonth = anchor_month + floorDivide (month - anchor_month) count * count;
            start = time_Date Z zone startMonth 0
        in Inr (start, AddDate Z zone start 0 count 0)
      else if unit = ''year'' then
        let startYear = 2000 + floorDivide (month div 12 - 2000) count * count;
            start = time_Date Z zone (12 * startYear) 0
        in Inr (start, AddDate Z zone start count 0 0)
      else Inl (auto_config_error ''auto-recharge calendar window unit is not supported''))"

record AutoRechargeWindow =
  arw_Unit :: string
  arw_Count :: int
  arw_Anchor :: string
  arw_Timezone :: string
  arw_Start :: gotime
  arw_End :: gotime
  arw_DurationDays :: rat

text \<open>The length of a rolling window: the products are taken in \<open>int64\<close>.\<close>

definition rolling_length :: "string \<Rightarrow> int \<Rightarrow> duration option" where
  "rolling_length unit count =
     (if unit = ''second'' then Some (wrap64 (- count * second))
      else if unit = ''minute'' then Some (wrap64 (- count * (60 * second)))
      else if unit = ''hour'' then Some (wrap64 (- count * hour))
      else if unit = ''day'' then Some (wrap64 (wrap64 (- count * 24) * hour))
      else if unit = ''week'' then Some (wrap64 (wrap64 (wrap64 (- count * 7) * 24) * hour))
      else None)"

definition resolveAutoRechargeWindow :: "zones \<Rightarrow> Window \<Rightarrow> gotime \<Rightarrow> go_error + AutoRechargeWindow" where
  "resolveAutoRechargeWindow Z window now =
     (if now = zero_time
      then Inl (auto_config_error ''auto-recharge policy window requires a timezone-aware instant'')
      else if win_Type window = ''rolling'' then
        (case win_Duration window of
           None \<Rightarrow> Inl (auto_config_error ''rolling auto-recharge window requires a positive duration'')
         | Some d \<Rightarrow>
             if dur_Count d < 1 then Inl (auto_config_error ''rolling auto-recharge window requires a positive duration'')
             else case rolling_length (dur_Unit d) (dur_Count d) of
               None \<Rightarrow> Inl (auto_config_error ''auto-recharge rolling window unit is not supported'')
             | Some back \<Rightarrow>
                 Inr \<lparr>arw_Unit = dur_Unit d, arw_Count = dur_Count d, arw_Anchor = ''rolling'', arw_Timezone = ''UTC'',
                   arw_Start = now + back, arw_End = now,
                   arw_DurationDays = of_int (time_sub now (now + back)) / of_int day_ns\<rparr>)
      else if win_Type window = ''calendar'' then
        if win_Count window < 1 then Inl (auto_config_error ''calendar auto-recharge window requires a positive count'')
        else
          let timezone = (if trim_space (win_Timezone window) = [] then ''UTC'' else trim_space (win_Timezone window)) in
          if \<not> zn_Load Z timezone
          then Inl (auto_config_error ''calendar auto-recharge window has an invalid timezone'')
          else bind_err (resolveAutoRechargeCalendarWindow Z timezone now (win_Unit window) (win_Count window)) (\<lambda>(start, end').
            Inr \<lparr>arw_Unit = win_Unit window, arw_Count = win_Count window, arw_Anchor = ''calendar'',
              arw_Timezone = timezone, arw_Start = start, arw_End = end',
              arw_DurationDays = of_int (time_sub end' start) / of_int day_ns\<rparr>)
      else Inl (auto_config_error ''auto-recharge window must be rolling or calendar''))"

section \<open>Calendar windows tile time\<close>

lemma div_unique: "0 < c \<Longrightarrow> c * k \<le> x \<Longrightarrow> x < c * k + c \<Longrightarrow> x div c = k" for c k x :: int
  by (rule int_div_pos_eq [of x c k "x - c * k"]) auto

lemma floorDivide_div:
  assumes "0 < c"
  shows "floorDivide x c = x div c"
proof (cases "0 \<le> x")
  case True
  with assms show ?thesis
    by (simp add: floorDivide_def signed_divide_int_def signed_modulo_int_def sgn_if minus_div_mult_eq_mod Let_def
        pos_mod_sign not_less)
next
  case False
  define q r where "q = (- x) div c" and "r = (- x) mod c"
  have x: "- x = c * q + r" "0 \<le> r" "r < c" using assms by (simp_all add: q_def r_def)
  have "x sdiv c = - q" "x smod c = - r"
    using False assms x by (simp_all add: signed_divide_int_def signed_modulo_int_def sgn_if q_def r_def minus_mult_div_eq_mod algebra_simps)
  then have "floorDivide x c = (if r = 0 then - q else - q - 1)"
    using x assms by (simp add: floorDivide_def Let_def)
  moreover have "x div c = (if r = 0 then - q else - q - 1)"
    using x assms by (intro div_unique) (auto simp: algebra_simps)
  ultimately show ?thesis by simp
qed

lemma le_div_iff: "0 < c \<Longrightarrow> a \<le> x div c \<longleftrightarrow> a * c \<le> x" for a c x :: int
proof
  assume c: "0 < c" and "a \<le> x div c"
  then have "a * c \<le> x div c * c" by simp
  also have "\<dots> \<le> x" using div_range [OF c, of x] by (simp add: mult.commute)
  finally show "a * c \<le> x" .
next
  assume c: "0 < c" and "a * c \<le> x"
  from zdiv_mono1 [OF this(2) c] c show "a \<le> x div c" by simp
qed

text \<open>The cell of \<open>x\<close> in the grid of step \<open>c\<close> through \<open>a\<close>.\<close>

definition cell :: "int \<Rightarrow> int \<Rightarrow> int \<Rightarrow> int" where
  "cell a c x = a + floorDivide (x - a) c * c"

lemma cell_bounds: "0 < c \<Longrightarrow> cell a c x \<le> x \<and> x < cell a c x + c"
  using div_range [of c "x - a"] by (simp add: cell_def floorDivide_div algebra_simps)

lemma cell_unique:
  assumes "0 < c" and "cell a c x \<le> y" and "y < cell a c x + c"
  shows "cell a c y = cell a c x"
proof -
  have "(y - a) div c = (x - a) div c"
    using assms by (intro div_unique) (simp_all add: cell_def floorDivide_div [OF assms(1)] algebra_simps)
  with assms(1) show ?thesis by (simp add: cell_def floorDivide_div)
qed

lemma month_of_day_unique:
  assumes "month_start i \<le> day" and "day < month_start (i + 1)"
  shows "month_of_day day = i"
proof (cases "month_of_day day" i rule: linorder_cases)
  case less
  with month_start_mono [of "month_of_day day + 1" i] month_of_day_bounds(2) [of day] assms(1) show ?thesis by simp
next
  case greater
  with month_start_mono [of "i + 1" "month_of_day day"] month_of_day_bounds(1) [of day] assms(2) show ?thesis by simp
qed simp

definition fixed_offset :: "zones \<Rightarrow> string \<Rightarrow> int \<Rightarrow> bool" where
  "fixed_offset Z zone off \<longleftrightarrow>
     (\<forall>t. zn_local Z zone t = t + off) \<and> (\<forall>x. zn_instant Z zone x = x - off)"

lemma day_ns_pos: "0 < day_ns" by (simp add: day_ns_def hour_def second_def)

lemma time_Date_fixed:
  "fixed_offset Z zone off \<Longrightarrow> time_Date Z zone month day = (month_start month + day) * day_ns - off"
  by (simp add: time_Date_def fixed_offset_def)

lemma AddDate_fixed:
  assumes "fixed_offset Z zone off" and "month_start month \<le> day" and "day < month_start (month + 1)"
  shows "AddDate Z zone (day * day_ns - off) years months days =
    (month_start (month + 12 * years + months) + (day - month_start month) + days) * day_ns - off"
  using assms month_of_day_unique [OF assms(2,3)] day_ns_pos by (simp add: AddDate_def fixed_offset_def Let_def)

text \<open>The window by days: \<open>day\<close> and \<open>week\<close> use the grid of whole days, \<open>month\<close> and \<open>year\<close> the grid of months.\<close>

definition near_anchor :: "int \<Rightarrow> gotime \<Rightarrow> bool" where
  "near_anchor off t \<longleftrightarrow> \<bar>t + off - month_start anchor_month * day_ns\<bar> < 2 ^ 62"

lemma anchor_days: "month_start anchor_month = 10957" "month_start (anchor_month + 1) = 10988"
  by code_simp+

lemma days_window:
  assumes zone: "fixed_offset Z zone off" and near: "near_anchor off now" and count: "1 \<le> count"
    and unit: "unit = ''day'' \<and> step = count \<and> first = 0 \<or> unit = ''week'' \<and> step = 7 * count \<and> first = 2"
  shows "resolveAutoRechargeCalendarWindow Z zone now unit count =
    (let s = cell (10957 + first) step ((now + off) div day_ns)
     in Inr (s * day_ns - off, (s + step) * day_ns - off))"
proof -
  define today where "today = (now + off) div day_ns"
  define a where "a = 10957 + first"
  define k where "k = floorDivide (today - a) step * step"
  have first: "0 \<le> first" "first < 31" and step: "0 < step" using unit count by auto
  have pos: "0 < day_ns" by (rule day_ns_pos)
  have a: "month_start anchor_month \<le> a" "a < month_start (anchor_month + 1)" "a = month_start anchor_month + first"
    using first by (simp_all add: a_def anchor_days)
  have anchor: "time_Date Z zone anchor_month first = a * day_ns - off" by (simp add: time_Date_fixed [OF zone] a)
  have today: "civil_day Z zone now = today" "civil_day Z zone (a * day_ns - off) = a"
    using zone pos by (simp_all add: civil_day_def fixed_offset_def today_def)
  have "today * day_ns \<le> now + off" "now + off < today * day_ns + day_ns"
    using div_range [OF pos, of "now + off"] by (simp_all add: today_def mult.commute)
  moreover have "a * day_ns = 10957 * day_ns + first * day_ns" by (simp add: a_def distrib_right)
  moreover have "0 \<le> first * day_ns" "first * day_ns \<le> 30 * day_ns" using first pos by simp_all
  ultimately have "\<bar>today * day_ns - a * day_ns\<bar> < 2 ^ 63 - 1"
    using near by (simp add: near_anchor_def anchor_days abs_less_iff day_ns_def hour_def second_def)
  then have "time_sub (today * day_ns) (a * day_ns) = (today - a) * day_ns"
    by (simp add: time_sub_def abs_less_iff left_diff_distrib)
  then have elapsed: "time_sub (today * day_ns) (a * day_ns) sdiv day_ns = today - a"
    using pos by (simp add: signed_divide_int_def sgn_mult abs_mult) (simp add: sgn_if)
  have start: "AddDate Z zone (a * day_ns - off) 0 0 k = (a + k) * day_ns - off"
    using AddDate_fixed [OF zone a(1,2), of 0 0 k] by simp
  have stop: "AddDate Z zone ((a + k) * day_ns - off) 0 0 step = (a + k + step) * day_ns - off"
    using AddDate_fixed [OF zone month_of_day_bounds, of "a + k" 0 0 step] by simp
  show ?thesis
    using unit anchor today elapsed start stop
    by (auto simp: resolveAutoRechargeCalendarWindow_def Let_def cell_def k_def mult.commute simp flip: today_def a_def)
qed

lemma months_window:
  assumes zone: "fixed_offset Z zone off" and count: "1 \<le> count"
    and unit: "unit = ''month'' \<and> step = count \<or> unit = ''year'' \<and> step = 12 * count"
  shows "resolveAutoRechargeCalendarWindow Z zone now unit count =
    (let s = cell anchor_month step (month_of_day ((now + off) div day_ns))
     in Inr (month_start s * day_ns - off, month_start (s + step) * day_ns - off))"
proof -
  define month where "month = month_of_day ((now + off) div day_ns)"
  define s where "s = cell anchor_month step month"
  have today: "month_of_day (civil_day Z zone now) = month"
    using zone by (simp add: civil_day_def fixed_offset_def month_def)
  have start: "time_Date Z zone s 0 = month_start s * day_ns - off" by (simp add: time_Date_fixed [OF zone])
  have stop: "AddDate Z zone (month_start s * day_ns - off) years months 0 =
      month_start (s + 12 * years + months) * day_ns - off" for years months
    using AddDate_fixed [OF zone order_refl month_start_step] by simp
  from unit show ?thesis
  proof
    assume "unit = ''month'' \<and> step = count"
    with today start stop [of 0 count] show ?thesis
      by (simp add: resolveAutoRechargeCalendarWindow_def Let_def s_def cell_def flip: month_def)
  next
    assume year: "unit = ''year'' \<and> step = 12 * count"
    have "(month - 24000) div (12 * count) = (month div 12 - 2000) div count"
    proof -
      have "(month - 24000) div 12 = month div 12 - 2000"
        using div_mult_self1 [of 12 month "- 2000"] by simp
      with count show ?thesis by (simp add: zdiv_zmult2_eq)
    qed
    with year count have "12 * (2000 + floorDivide (month div 12 - 2000) count * count) = s"
      by (simp add: s_def cell_def floorDivide_div anchor_month_def)
    moreover have "cell anchor_month (12 * count) month = s" using year by (simp add: s_def)
    ultimately show ?thesis
      using year today start stop [of count 0]
      by (simp add: resolveAutoRechargeCalendarWindow_def Let_def flip: month_def)
  qed
qed


definition utc_zones :: zones where
  "utc_zones = \<lparr>zn_Load = (\<lambda>_. True), zn_local = (\<lambda>_ t. t), zn_instant = (\<lambda>_ x. x)\<rparr>"


end
