(* ===== verification/Provider_Registry.thy ===== *)
theory Provider_Registry
  imports Credit_Store "HOL-Library.Word" "HOL-Library.AList"
begin

text \<open>
  The provider registry of \<open>provider.go\<close>: payment providers are created lazily, once, under concurrent
  callers. \<open>Get\<close> has two critical sections around the call of the factory, so a registry is a state machine
  whose steps are these sections and \<open>Clear\<close>, in any interleaving. The identity of a load object is its
  position in the list of all loads made so far; the factories are application code, given by the result of a call.
\<close>

section \<open>Provider environments\<close>

definition ProviderEnvironmentLive :: string where
  "ProviderEnvironmentLive = ''live''"
definition ProviderEnvironmentTest :: string where
  "ProviderEnvironmentTest = ''test''"
definition ProviderEnvironmentSandbox :: string where
  "ProviderEnvironmentSandbox = ''sandbox''"

text \<open>The verb \<open>%q\<close>, for text whose runes outside ASCII are printable.\<close>

definition hex_digit :: "nat \<Rightarrow> char" where
  "hex_digit n = ''0123456789abcdef'' ! (n mod 16)"

definition quote_byte :: "char \<Rightarrow> string" where
  "quote_byte c =
     (if c = CHR 0x22 then [CHR 0x5C, CHR 0x22]
      else if c = CHR 0x5C then [CHR 0x5C, CHR 0x5C]
      else if c = CHR 0x07 then CHR 0x5C # ''a''
      else if c = CHR 0x08 then CHR 0x5C # ''b''
      else if c = CHR 0x0C then CHR 0x5C # ''f''
      else if c = CHR 0x0A then CHR 0x5C # ''n''
      else if c = CHR 0x0D then CHR 0x5C # ''r''
      else if c = CHR 0x09 then CHR 0x5C # ''t''
      else if c = CHR 0x0B then CHR 0x5C # ''v''
      else if byte c < 0x20 \<or> byte c = 0x7F
      then CHR 0x5C # CHR ''x'' # [hex_digit (byte c div 16), hex_digit (byte c)]
      else [c])"

definition fmt_quote :: "string \<Rightarrow> string" where
  "fmt_quote s = CHR 0x22 # concat (map quote_byte s) @ [CHR 0x22]"

definition ProviderEnvironment_Validate :: "string \<Rightarrow> go_error option" where
  "ProviderEnvironment_Validate e =
     (if e \<in> {ProviderEnvironmentLive, ProviderEnvironmentTest, ProviderEnvironmentSandbox} then None
      else Some (PlainError (''bursar: unsupported provider environment '' @ fmt_quote e) []))"

section \<open>The registry\<close>

text \<open>
  A load object. \<open>ld_epoch\<close> counts the calls of \<open>Clear\<close> before the load began; the code's
  \<open>generation\<close> is its value modulo \<open>2\<^sup>6\<^sup>4\<close>. \<open>ld_result\<close> is set when \<open>done\<close> is closed.
\<close>

record 'p providerLoad =
  ld_name :: string
  ld_generation :: "64 word"
  ld_epoch :: nat
  ld_result :: "('p option \<times> go_error option) option"

record 'p ProviderRegistry =
  rg_environment :: string
  rg_factories :: "string list"
  rg_instances :: "'p gomap"
  rg_loading :: "nat gomap"
  rg_generation :: "64 word"
  rg_epoch :: nat
  rg_loads :: "'p providerLoad list"

text \<open>The loop over the factories, in the order Go visits them; the flag is whether a factory is set.\<close>

fun clone_factories :: "string list \<Rightarrow> (string \<times> bool) list \<Rightarrow> go_error + string list" where
  "clone_factories cloned [] = Inr cloned"
| "clone_factories cloned ((raw, factory) # rest) =
     (let name = trim_space raw in
      if name = [] \<or> \<not> factory then Inl (PlainError ''bursar: provider names and factories are required'' [])
      else if name \<in> set cloned then Inl (PlainError (''bursar: duplicate provider '' @ fmt_quote name) [])
      else clone_factories (cloned @ [name]) rest)"

definition NewProviderRegistry :: "string \<Rightarrow> (string \<times> bool) list \<Rightarrow> go_error + 'p ProviderRegistry" where
  "NewProviderRegistry environment factories =
     (case ProviderEnvironment_Validate environment of
        Some e \<Rightarrow> Inl e
      | None \<Rightarrow>
          if factories = [] then Inl (PlainError ''bursar: at least one payment provider is required'' [])
          else bind_err (clone_factories [] factories) (\<lambda>cloned.
            Inr \<lparr>rg_environment = environment, rg_factories = cloned, rg_instances = [], rg_loading = [],
              rg_generation = 0, rg_epoch = 0, rg_loads = []\<rparr>))"

definition Configured :: "'p ProviderRegistry option \<Rightarrow> string list" where
  "Configured r = (case r of None \<Rightarrow> [] | Some rg \<Rightarrow> sort_by str_less (rg_factories rg))"

definition registry_Environment :: "'p ProviderRegistry option \<Rightarrow> string" where
  "registry_Environment r = (case r of None \<Rightarrow> [] | Some rg \<Rightarrow> rg_environment rg)"

definition registry_Clear :: "'p ProviderRegistry \<Rightarrow> 'p ProviderRegistry" where
  "registry_Clear r = r\<lparr>rg_generation := rg_generation r + 1, rg_epoch := Suc (rg_epoch r),
     rg_instances := [], rg_loading := []\<rparr>"

text \<open>What the first section of \<open>Get\<close> decides.\<close>

datatype 'p get_entry =
    GotInstance 'p
  | AwaitsLoad nat
  | GetFails go_error
  | BeginsLoad nat

definition get_begin :: "string \<Rightarrow> 'p ProviderRegistry \<Rightarrow> 'p get_entry \<times> 'p ProviderRegistry" where
  "get_begin raw r =
     (let name = trim_space raw in
      if name = [] then (GetFails (PlainError ''bursar: provider name is required'' []), r)
      else case map_of (rg_instances r) name of
        Some provider \<Rightarrow> (GotInstance provider, r)
      | None \<Rightarrow>
          (case map_of (rg_loading r) name of
             Some i \<Rightarrow> (AwaitsLoad i, r)
           | None \<Rightarrow>
               if name \<notin> set (rg_factories r)
               then (GetFails (PlainError (''bursar: provider '' @ fmt_quote name @ '' is not configured'') []), r)
               else
                 let i = length (rg_loads r);
                     load = \<lparr>ld_name = name, ld_generation = rg_generation r, ld_epoch = rg_epoch r, ld_result = None\<rparr>
                 in (BeginsLoad i, r\<lparr>rg_loading := AList.update name i (rg_loading r), rg_loads := rg_loads r @ [load]\<rparr>)))"

text \<open>The checks on what the factory returned; \<open>name_of\<close> is the provider's \<open>Name\<close>.\<close>

definition checked_result ::
  "('p \<Rightarrow> string) \<Rightarrow> string \<Rightarrow> 'p option \<Rightarrow> go_error option \<Rightarrow> 'p option \<times> go_error option" where
  "checked_result name_of name provider err =
     (provider,
      case err of
        Some e \<Rightarrow> Some e
      | None \<Rightarrow>
          (case provider of
             None \<Rightarrow> Some (PlainError (''bursar: provider factory '' @ fmt_quote name @ '' returned nil'') [])
           | Some p \<Rightarrow>
               if trim_space (name_of p) \<noteq> name
               then Some (PlainError (''bursar: provider factory '' @ fmt_quote name @ '' returned provider '' @
                      fmt_quote (name_of p)) [])
               else None))"

text \<open>The second section: the load \<open>i\<close> ends with the provider and the error its factory returned.\<close>

definition get_finish ::
  "('p \<Rightarrow> string) \<Rightarrow> nat \<Rightarrow> 'p option \<Rightarrow> go_error option \<Rightarrow> 'p ProviderRegistry \<Rightarrow>
   ('p option \<times> go_error option) \<times> 'p ProviderRegistry" where
  "get_finish name_of i provider err r =
     (let load = rg_loads r ! i;
          name = ld_name load;
          result = checked_result name_of name provider err;
          r1 = (if map_of (rg_loading r) name = Some i then r\<lparr>rg_loading := AList.delete name (rg_loading r)\<rparr> else r);
          r2 = r1\<lparr>rg_loads := (rg_loads r)[i := load\<lparr>ld_result := Some result\<rparr>]\<rparr>
      in (result,
          case result of
            (Some p, None) \<Rightarrow>
              if ld_generation load = rg_generation r
              then r2\<lparr>rg_instances := AList.update name p (rg_instances r)\<rparr> else r2
          | _ \<Rightarrow> r2))"

text \<open>A waiting caller gets the result of the load once it is done, or the error of its context.\<close>

definition await_load :: "nat \<Rightarrow> go_error option \<Rightarrow> 'p ProviderRegistry \<Rightarrow> ('p option \<times> go_error option) option" where
  "await_load i cancelled r =
     (case cancelled of Some e \<Rightarrow> Some (None, Some e) | None \<Rightarrow> ld_result (rg_loads r ! i))"

text \<open>\<open>Select\<close> resolves the name to get, or fails.\<close>

fun first_candidate :: "string list \<Rightarrow> string list \<Rightarrow> (go_error + string) option" where
  "first_candidate allowed [] = None"
| "first_candidate allowed (c # cs) =
     (let candidate = trim_space c in
      if candidate = [] then first_candidate allowed cs
      else if candidate \<notin> set allowed
      then Some (Inl (PlainError (''bursar: provider '' @ fmt_quote candidate @ '' is not compatible with this offer'') []))
      else Some (Inr candidate))"

definition select_provider :: "string \<Rightarrow> string \<Rightarrow> string list \<Rightarrow> go_error + string" where
  "select_provider requested fallback compatible =
     (let allowed = remdups (filter (\<lambda>name. name \<noteq> []) (map trim_space compatible)) in
      if allowed = [] then Inl (PlainError ''bursar: no compatible payment provider is configured'' [])
      else case first_candidate allowed [requested, fallback] of
        Some decision \<Rightarrow> decision
      | None \<Rightarrow>
          (case allowed of
             [name] \<Rightarrow> Inr name
           | _ \<Rightarrow> Inl (PlainError ''bursar: provider selection is ambiguous'' [])))"

section \<open>Interleavings\<close>

inductive registry_step :: "('p \<Rightarrow> string) \<Rightarrow> 'p ProviderRegistry \<Rightarrow> 'p ProviderRegistry \<Rightarrow> bool" for name_of where
  step_begin: "registry_step name_of r (snd (get_begin name r))"
| step_finish: "i < length (rg_loads r) \<Longrightarrow> ld_result (rg_loads r ! i) = None \<Longrightarrow>
    registry_step name_of r (snd (get_finish name_of i provider err r))"
| step_clear: "registry_step name_of r (registry_Clear r)"

inductive_cases registry_step_cases: "registry_step name_of r r'"

text \<open>
  The invariant. An entry of \<open>loading\<close> is an unfinished load of its name and of this epoch, and every such
  load has an entry; a cached instance is the provider of a successful load of its name and epoch, and every such
  load is cached; and of two loads of a name in one epoch the earlier one has failed.
\<close>

definition load_failed :: "'p providerLoad \<Rightarrow> bool" where
  "load_failed l \<longleftrightarrow> (\<exists>p e. ld_result l = Some (p, Some e))"

definition load_ok :: "('p \<Rightarrow> string) \<Rightarrow> 'p providerLoad \<Rightarrow> bool" where
  "load_ok name_of l \<longleftrightarrow> ld_generation l = of_nat (ld_epoch l) \<and>
     (\<forall>p e. ld_result l = Some (p, e) \<longrightarrow> e \<noteq> None \<or> (\<exists>q. p = Some q \<and> trim_space (name_of q) = ld_name l))"

definition registry_ok :: "('p \<Rightarrow> string) \<Rightarrow> 'p ProviderRegistry \<Rightarrow> bool" where
  "registry_ok name_of r \<longleftrightarrow>
     rg_generation r = of_nat (rg_epoch r) \<and>
     (\<forall>i < length (rg_loads r). load_ok name_of (rg_loads r ! i) \<and> ld_epoch (rg_loads r ! i) \<le> rg_epoch r) \<and>
     (\<forall>name i. map_of (rg_loading r) name = Some i \<longleftrightarrow>
        i < length (rg_loads r) \<and> ld_name (rg_loads r ! i) = name \<and> ld_epoch (rg_loads r ! i) = rg_epoch r \<and>
        ld_result (rg_loads r ! i) = None) \<and>
     (\<forall>name p. map_of (rg_instances r) name = Some p \<longleftrightarrow>
        (\<exists>i < length (rg_loads r). ld_name (rg_loads r ! i) = name \<and> ld_epoch (rg_loads r ! i) = rg_epoch r \<and>
           ld_result (rg_loads r ! i) = Some (Some p, None))) \<and>
     (\<forall>i j. i < j \<longrightarrow> j < length (rg_loads r) \<longrightarrow> ld_name (rg_loads r ! i) = ld_name (rg_loads r ! j) \<longrightarrow>
        ld_epoch (rg_loads r ! i) = ld_epoch (rg_loads r ! j) \<longrightarrow> load_failed (rg_loads r ! i))"

lemma epoch_generation:
  assumes "m < 2 ^ 64" and "n < 2 ^ 64"
  shows "(of_nat m :: 64 word) = of_nat n \<longleftrightarrow> m = n"
  using assms by (simp add: word_of_nat_eq_iff take_bit_nat_eq_self)

lemma registry_okD:
  assumes "registry_ok name_of r"
  shows "rg_generation r = of_nat (rg_epoch r)"
    and "i < length (rg_loads r) \<Longrightarrow> load_ok name_of (rg_loads r ! i) \<and> ld_epoch (rg_loads r ! i) \<le> rg_epoch r"
    and "map_of (rg_loading r) name = Some i \<longleftrightarrow>
        i < length (rg_loads r) \<and> ld_name (rg_loads r ! i) = name \<and> ld_epoch (rg_loads r ! i) = rg_epoch r \<and>
        ld_result (rg_loads r ! i) = None"
    and "map_of (rg_instances r) name = Some p \<longleftrightarrow>
        (\<exists>i < length (rg_loads r). ld_name (rg_loads r ! i) = name \<and> ld_epoch (rg_loads r ! i) = rg_epoch r \<and>
           ld_result (rg_loads r ! i) = Some (Some p, None))"
    and "i < j \<Longrightarrow> j < length (rg_loads r) \<Longrightarrow> ld_name (rg_loads r ! i) = ld_name (rg_loads r ! j) \<Longrightarrow>
        ld_epoch (rg_loads r ! i) = ld_epoch (rg_loads r ! j) \<Longrightarrow> load_failed (rg_loads r ! i)"
  using assms unfolding registry_ok_def by (elim conjE; simp)+

lemma new_registry_ok: "NewProviderRegistry environment factories = Inr r \<Longrightarrow> registry_ok name_of r"
  by (auto simp: NewProviderRegistry_def registry_ok_def bind_err_Inr_iff split: option.splits if_splits)

lemma clear_ok:
  assumes ok: "registry_ok name_of r"
  shows "registry_ok name_of (registry_Clear r)"
proof -
  have old: "ld_epoch (rg_loads r ! i) < Suc (rg_epoch r)" if "i < length (rg_loads r)" for i
    using registry_okD(2) [OF ok that] by simp
  then have none: "i < length (rg_loads r) \<Longrightarrow> ld_epoch (rg_loads r ! i) \<noteq> Suc (rg_epoch r)" for i
    by fastforce
  show ?thesis
    unfolding registry_ok_def
    using registry_okD(1,2,5) [OF ok] none
    by (auto simp: registry_Clear_def intro: le_SucI)
qed

lemma begin_ok:
  assumes ok: "registry_ok name_of r"
  shows "registry_ok name_of (snd (get_begin raw r))"
proof (cases "fst (get_begin raw r)")
  case (BeginsLoad i)
  let ?name = "trim_space raw" and ?n = "length (rg_loads r)"
  let ?load = "\<lparr>ld_name = ?name, ld_generation = rg_generation r, ld_epoch = rg_epoch r, ld_result = None\<rparr>"
  from BeginsLoad have no: "map_of (rg_instances r) ?name = None" "map_of (rg_loading r) ?name = None"
    and r': "snd (get_begin raw r) = r\<lparr>rg_loading := AList.update ?name ?n (rg_loading r), rg_loads := rg_loads r @ [?load]\<rparr>"
    by (auto simp: get_begin_def Let_def split: if_splits option.splits)
  have failed: "load_failed (rg_loads r ! i)"
    if i: "i < ?n" "ld_name (rg_loads r ! i) = ?name" "ld_epoch (rg_loads r ! i) = rg_epoch r" for i
  proof -
    let ?l = "rg_loads r ! i"
    have "load_ok name_of ?l" using registry_okD(2) [OF ok i(1)] by simp
    moreover have "ld_result ?l \<noteq> None" using registry_okD(3) [OF ok, of ?name i] no(2) i by simp
    moreover have "ld_result ?l \<noteq> Some (Some p, None)" for p
      using registry_okD(4) [OF ok, of ?name p] no(1) i by auto
    ultimately show ?thesis unfolding load_ok_def load_failed_def by (metis option.exhaust prod.collapse)
  qed
  have "map_of (AList.update ?name ?n (rg_loading r)) name = Some i \<longleftrightarrow>
      i < length (rg_loads r @ [?load]) \<and> ld_name ((rg_loads r @ [?load]) ! i) = name \<and>
      ld_epoch ((rg_loads r @ [?load]) ! i) = rg_epoch r \<and> ld_result ((rg_loads r @ [?load]) ! i) = None" for name i
    using registry_okD(3) [OF ok, of name i] registry_okD(3) [OF ok, of ?name i] no(2)
    by (auto simp: update_conv' nth_append less_Suc_eq)
  moreover have "map_of (rg_instances r) name = Some p \<longleftrightarrow>
      (\<exists>i < length (rg_loads r @ [?load]). ld_name ((rg_loads r @ [?load]) ! i) = name \<and>
         ld_epoch ((rg_loads r @ [?load]) ! i) = rg_epoch r \<and>
         ld_result ((rg_loads r @ [?load]) ! i) = Some (Some p, None))" for name p
    using registry_okD(4) [OF ok, of name p] by (auto simp: nth_append less_Suc_eq)
  moreover have "load_failed ((rg_loads r @ [?load]) ! i)"
    if "i < j" "j < length (rg_loads r @ [?load])" "ld_name ((rg_loads r @ [?load]) ! i) = ld_name ((rg_loads r @ [?load]) ! j)"
      "ld_epoch ((rg_loads r @ [?load]) ! i) = ld_epoch ((rg_loads r @ [?load]) ! j)" for i j
    using that failed [of i] registry_okD(5) [OF ok, of i j] by (auto simp: nth_append less_Suc_eq split: if_splits)
  moreover have "load_ok name_of ((rg_loads r @ [?load]) ! i) \<and> ld_epoch ((rg_loads r @ [?load]) ! i) \<le> rg_epoch r"
    if "i < length (rg_loads r @ [?load])" for i
    using that registry_okD(1) [OF ok] registry_okD(2) [OF ok, of i] by (auto simp: nth_append less_Suc_eq load_ok_def)
  ultimately show ?thesis
    using registry_okD(1) [OF ok] unfolding registry_ok_def r' by simp
qed (use ok in \<open>auto simp: get_begin_def Let_def split: if_splits option.splits\<close>)

lemma checked_result_ok:
  "checked_result name_of name provider err = (p, None) \<Longrightarrow> \<exists>q. p = Some q \<and> trim_space (name_of q) = name"
  by (auto simp: checked_result_def split: option.splits if_splits)

lemma finish_ok:
  assumes ok: "registry_ok name_of r" and bound: "rg_epoch r < 2 ^ 64"
    and i: "i < length (rg_loads r)" "ld_result (rg_loads r ! i) = None"
  shows "registry_ok name_of (snd (get_finish name_of i provider err r))"
proof -
  define l where "l = rg_loads r ! i"
  define result where "result = checked_result name_of (ld_name l) provider err"
  define loads where "loads = (rg_loads r)[i := l\<lparr>ld_result := Some result\<rparr>]"
  define r' where "r' = snd (get_finish name_of i provider err r)"
  have l: "load_ok name_of l" "ld_epoch l \<le> rg_epoch r" "ld_result l = None"
    using i registry_okD(2) [OF ok i(1)] by (auto simp: l_def)
  have current: "ld_generation l = rg_generation r \<longleftrightarrow> ld_epoch l = rg_epoch r"
    using l(1,2) bound registry_okD(1) [OF ok] epoch_generation [of "ld_epoch l" "rg_epoch r"] by (auto simp: load_ok_def)
  have listed: "map_of (rg_loading r) (ld_name l) = Some i \<longleftrightarrow> ld_epoch l = rg_epoch r"
    using registry_okD(3) [OF ok, of "ld_name l" i] i by (simp add: l_def)
  have fields: "rg_loads r' = loads" "rg_epoch r' = rg_epoch r" "rg_generation r' = rg_generation r"
    "rg_loading r' = (if ld_epoch l = rg_epoch r then AList.delete (ld_name l) (rg_loading r) else rg_loading r)"
    "rg_instances r' = (case result of (Some p, None) \<Rightarrow>
        if ld_epoch l = rg_epoch r then AList.update (ld_name l) p (rg_instances r) else rg_instances r
      | _ \<Rightarrow> rg_instances r)"
    using current listed
    by (auto simp: r'_def get_finish_def Let_def loads_def l_def result_def split: prod.split option.split)
  have len: "length loads = length (rg_loads r)" by (simp add: loads_def)
  have at: "ld_name (loads ! k) = ld_name (rg_loads r ! k)" "ld_epoch (loads ! k) = ld_epoch (rg_loads r ! k)"
    "ld_generation (loads ! k) = ld_generation (rg_loads r ! k)"
    "ld_result (loads ! k) = (if k = i then Some result else ld_result (rg_loads r ! k))"
    if "k < length (rg_loads r)" for k
    using that by (cases "k = i"; simp add: loads_def l_def)+
  have same: "k = i" if "k < length (rg_loads r)" "ld_name (rg_loads r ! k) = ld_name l" "ld_epoch l = rg_epoch r"
      "ld_epoch (rg_loads r ! k) = rg_epoch r" "\<not> load_failed (rg_loads r ! k)" for k
    using that registry_okD(5) [OF ok, of k i] registry_okD(5) [OF ok, of i k] i
    by (cases k i rule: linorder_cases) (auto simp: l_def load_failed_def)
  have pending: "map_of (rg_loading r') name = Some k \<longleftrightarrow> k < length loads \<and> ld_name (loads ! k) = name \<and>
      ld_epoch (loads ! k) = rg_epoch r \<and> ld_result (loads ! k) = None" for name k
  proof (cases "k < length (rg_loads r)")
    case True
    show ?thesis
      using registry_okD(3) [OF ok, of name k] at [OF True] same [OF True] l(3) listed
      unfolding fields(4) len by (auto simp: delete_conv' load_failed_def l_def split: if_splits)
  next
    case False
    then show ?thesis
      using registry_okD(3) [OF ok, of name k] unfolding fields(4) len by (auto simp: delete_conv' split: if_splits)
  qed
  have cached: "map_of (rg_instances r') name = Some p \<longleftrightarrow> (\<exists>k < length loads. ld_name (loads ! k) = name \<and>
      ld_epoch (loads ! k) = rg_epoch r \<and> ld_result (loads ! k) = Some (Some p, None))" for name p
  proof (cases "ld_epoch l = rg_epoch r \<and> ld_name l = name")
    case False
    then have "map_of (rg_instances r') name = map_of (rg_instances r) name"
      by (auto simp: fields(5) update_conv' split: prod.split option.split)
    moreover have "\<not> (ld_name (loads ! i) = name \<and> ld_epoch (loads ! i) = rg_epoch r)"
      using False at [OF i(1)] by (auto simp: l_def)
    ultimately show ?thesis
      using registry_okD(4) [OF ok, of name p] at len i(1) l(3) by (auto simp: l_def) metis+
  next
    case True
    have fresh: False if "k < length (rg_loads r)" "ld_name (rg_loads r ! k) = name" "ld_epoch (rg_loads r ! k) = rg_epoch r"
        "ld_result (rg_loads r ! k) = Some (Some q, None)" for k q
      using same [of k] that True l(3) by (auto simp: load_failed_def l_def)
    then have none: "map_of (rg_instances r) name \<noteq> Some q" for q
      using registry_okD(4) [OF ok, of name q] by blast
    have "(\<exists>k < length loads. ld_name (loads ! k) = name \<and> ld_epoch (loads ! k) = rg_epoch r \<and>
        ld_result (loads ! k) = Some (Some p, None)) \<longleftrightarrow> result = (Some p, None)"
    proof
      assume "\<exists>k < length loads. ld_name (loads ! k) = name \<and> ld_epoch (loads ! k) = rg_epoch r \<and>
        ld_result (loads ! k) = Some (Some p, None)"
      then obtain k where k: "k < length (rg_loads r)" "ld_name (rg_loads r ! k) = name" "ld_epoch (rg_loads r ! k) = rg_epoch r"
        "ld_result (loads ! k) = Some (Some p, None)"
        using at len by auto
      then have "k = i" using fresh [of k p] at(4) [of k] by (cases "k = i") simp_all
      with k at(4) [of i] show "result = (Some p, None)" by simp
    next
      assume "result = (Some p, None)"
      with True at [OF i(1)] i(1) len show "\<exists>k < length loads. ld_name (loads ! k) = name \<and>
          ld_epoch (loads ! k) = rg_epoch r \<and> ld_result (loads ! k) = Some (Some p, None)"
        by (intro exI [of _ i]) (simp add: l_def)
    qed
    moreover have "map_of (rg_instances r') name = Some p \<longleftrightarrow> result = (Some p, None)"
      using True none by (auto simp: fields(5) update_conv' split: prod.split option.split)
    ultimately show ?thesis by simp
  qed
  have "load_failed (loads ! j)"
    if "j < k" "k < length loads" "ld_name (loads ! j) = ld_name (loads ! k)" "ld_epoch (loads ! j) = ld_epoch (loads ! k)" for j k
  proof -
    have "load_failed (rg_loads r ! j)"
      using that at len registry_okD(5) [OF ok, of j k] by simp
    then show ?thesis using that at [of j] len l(3) by (auto simp: load_failed_def l_def)
  qed
  moreover have checks: "(\<exists>e. snd result = Some e) \<or> (\<exists>q. fst result = Some q \<and> trim_space (name_of q) = ld_name l)"
    using checked_result_ok [of name_of "ld_name l" provider err "fst result"]
    by (cases "snd result") (auto simp: result_def prod_eq_iff)
  moreover have "load_ok name_of (loads ! k) \<and> ld_epoch (loads ! k) \<le> rg_epoch r" if "k < length loads" for k
    using that registry_okD(2) [OF ok, of k] at [of k] len checks by (auto simp: load_ok_def l_def)
  ultimately have "registry_ok name_of r'"
    using registry_okD(1) [OF ok] pending cached unfolding registry_ok_def fields(1-3) by simp
  then show ?thesis by (simp add: r'_def)
qed

lemma registry_step_epoch: "registry_step name_of r r' \<Longrightarrow> rg_epoch r \<le> rg_epoch r'"
  by (erule registry_step_cases)
    (auto simp: get_begin_def get_finish_def registry_Clear_def Let_def split: if_splits option.splits prod.splits)

lemma registry_steps_ok:
  assumes "(registry_step name_of)\<^sup>*\<^sup>* r r'" and "registry_ok name_of r"
  shows "rg_epoch r' < 2 ^ 64 \<Longrightarrow> registry_ok name_of r'"
  using assms
proof (induction rule: rtranclp_induct)
  case (step r1 r2)
  then have "registry_ok name_of r1" "rg_epoch r1 < 2 ^ 64"
    using registry_step_epoch [OF step.hyps(2)] by (auto dest: le_less_trans)
  with step.hyps(2) show ?case
    by (auto elim!: registry_step_cases intro: begin_ok finish_ok clear_ok)
qed

section \<open>Properties\<close>

text \<open>
  C20. However many callers get, await and clear providers at once, the factory of a provider runs at most once at a
  time between two clears, and never again after it succeeded: of two loads of one name in one epoch the earlier
  one ended with an error before the later one began. What the cache holds is the provider of a load that succeeded
  in this epoch and has the name it is cached under; a load that began before a clear does not repopulate the cache.
  The bound on the number of clears is the width of the generation counter.
\<close>

theorem provider_single_flight:
  assumes "NewProviderRegistry environment factories = Inr r0" and "(registry_step name_of)\<^sup>*\<^sup>* r0 r"
    and "rg_epoch r < 2 ^ 64"
  shows "(\<forall>i j. i < j \<longrightarrow> j < length (rg_loads r) \<longrightarrow> ld_name (rg_loads r ! i) = ld_name (rg_loads r ! j) \<longrightarrow>
        ld_epoch (rg_loads r ! i) = ld_epoch (rg_loads r ! j) \<longrightarrow> load_failed (rg_loads r ! i)) \<and>
    (\<forall>name p. map_of (rg_instances r) name = Some p \<longrightarrow> trim_space (name_of p) = name \<and>
       (\<exists>i < length (rg_loads r). ld_name (rg_loads r ! i) = name \<and> ld_epoch (rg_loads r ! i) = rg_epoch r \<and>
          ld_result (rg_loads r ! i) = Some (Some p, None)))"
proof -
  from registry_steps_ok [OF assms(2) new_registry_ok [OF assms(1)] assms(3)]
  have ok: "registry_ok name_of r" .
  have "trim_space (name_of p) = name \<and>
       (\<exists>i < length (rg_loads r). ld_name (rg_loads r ! i) = name \<and> ld_epoch (rg_loads r ! i) = rg_epoch r \<and>
          ld_result (rg_loads r ! i) = Some (Some p, None))"
    if cached: "map_of (rg_instances r) name = Some p" for name p
  proof -
    from cached registry_okD(4) [OF ok, of name p] obtain i where i: "i < length (rg_loads r)"
      "ld_name (rg_loads r ! i) = name" "ld_epoch (rg_loads r ! i) = rg_epoch r"
      "ld_result (rg_loads r ! i) = Some (Some p, None)" by blast
    with registry_okD(2) [OF ok i(1)] show ?thesis by (auto simp: load_ok_def)
  qed
  with registry_okD(5) [OF ok] show ?thesis by blast
qed

theorem provider_single_flight_witness:
  "\<exists>r0 r. NewProviderRegistry ''live'' [(''stripe'', True)] = Inr r0 \<and> (registry_step id)\<^sup>*\<^sup>* r0 r \<and>
     rg_epoch r < 2 ^ 64 \<and> map_of (rg_instances r) ''stripe'' = Some ''stripe'' \<and>
     length (rg_loads r) = 2 \<and> load_failed (rg_loads r ! 0)"
proof -
  have trim: "trim_space ''stripe'' = ''stripe''"
    by (rule trim_space_graphic) (simp_all add: graphic_def byte_def)
  define r0 :: "string ProviderRegistry" where "r0 = \<lparr>rg_environment = ''live'', rg_factories = [''stripe''],
    rg_instances = [], rg_loading = [], rg_generation = 0, rg_epoch = 0, rg_loads = []\<rparr>"
  define r1 where "r1 = snd (get_begin ''stripe'' r0)"
  define r2 where "r2 = snd (get_finish id 0 None (Some (PlainError ''down'' [])) r1)"
  define r3 where "r3 = snd (get_begin ''stripe'' r2)"
  define r4 where "r4 = snd (get_finish id 1 (Some ''stripe'') None r3)"
  have r1: "r1 = r0\<lparr>rg_loading := [(''stripe'', 0)], rg_loads := [\<lparr>ld_name = ''stripe'', ld_generation = 0, ld_epoch = 0, ld_result = None\<rparr>]\<rparr>"
    by (simp add: r1_def get_begin_def trim r0_def Let_def)
  have r2: "r2 = r0\<lparr>rg_loads := [\<lparr>ld_name = ''stripe'', ld_generation = 0, ld_epoch = 0,
      ld_result = Some (None, Some (PlainError ''down'' []))\<rparr>]\<rparr>"
    by (simp add: r2_def r1 get_finish_def checked_result_def r0_def Let_def)
  have r3: "r3 = r2\<lparr>rg_loading := [(''stripe'', 1)], rg_loads := rg_loads r2 @
      [\<lparr>ld_name = ''stripe'', ld_generation = 0, ld_epoch = 0, ld_result = None\<rparr>]\<rparr>"
    by (simp add: r3_def r2 get_begin_def trim r0_def Let_def)
  have r4: "map_of (rg_instances r4) ''stripe'' = Some ''stripe''" "length (rg_loads r4) = 2" "rg_epoch r4 = 0"
    "ld_name (rg_loads r4 ! 0) = ''stripe''" "ld_name (rg_loads r4 ! 1) = ''stripe''"
    "ld_epoch (rg_loads r4 ! 0) = ld_epoch (rg_loads r4 ! 1)"
    by (simp_all add: r4_def r3 r2 get_finish_def checked_result_def trim r0_def Let_def)
  have "registry_step id r0 r1" "registry_step id r2 r3" unfolding r1_def r3_def by (rule step_begin)+
  moreover have "registry_step id r1 r2"
    unfolding r2_def by (rule step_finish) (simp_all add: r1)
  moreover have "registry_step id r3 r4"
    unfolding r4_def by (rule step_finish) (simp_all add: r3 r2)
  ultimately have steps: "(registry_step id)\<^sup>*\<^sup>* r0 r4" by (meson converse_rtranclp_into_rtranclp rtranclp.rtrancl_refl)
  have new: "NewProviderRegistry ''live'' [(''stripe'', True)] = Inr r0"
    by (simp add: NewProviderRegistry_def ProviderEnvironment_Validate_def ProviderEnvironmentLive_def trim r0_def Let_def)
  from provider_single_flight [OF new steps] r4 have "load_failed (rg_loads r4 ! 0)" by force
  with new steps r4 show ?thesis by (intro exI [of _ r0] exI [of _ r4]) simp
qed

end
