(* ===== verification/Auto_Recharge.thy ===== *)
theory Auto_Recharge
  imports Calendar Provider_Registry Go_Effects
begin

text \<open>
  \<open>auto_recharge.go\<close>: automatic top-ups by saved payment methods. The catalogue, the durable store and the payment
  providers are ports of the service, given by their methods over an abstract state; the model keeps a log of the
  calls that move money or durable state: profiles written, attempts claimed, charges submitted, attempts updated.
  A named string type is a \<open>string\<close>.
\<close>

section \<open>Data\<close>

definition AutoRechargeStateDisabled :: string where "AutoRechargeStateDisabled = ''disabled''"
definition AutoRechargeStateActive :: string where "AutoRechargeStateActive = ''active''"
definition AutoRechargeStatePaused :: string where "AutoRechargeStatePaused = ''paused''"

definition attempt_states :: "string list" where
  "attempt_states = [''claimed'', ''submitted'', ''processing'', ''unknown'', ''succeeded'', ''failed'', ''action_required'']"

record AutoRechargePolicy =
  arp_Threshold :: amount
  arp_RearmAbove :: amount
  arp_TopupKey :: string
  arp_TopupID :: string
  arp_ProductID :: string
  arp_Quantity :: int
  arp_MaxChargesPerWindow :: int
  arp_MaxChargeMinor :: int
  arp_Window :: AutoRechargeWindow

record AutoRechargeProfile =
  arf_UserID :: string
  arf_Enabled :: bool
  arf_State :: string
  arf_Armed :: bool
  arf_Provider :: string
  arf_TopupID :: string
  arf_Quantity :: int
  arf_Threshold :: amount
  arf_MaxChargesPerWindow :: int
  arf_WindowUnit :: string
  arf_WindowCount :: int
  arf_WindowAnchor :: string
  arf_WindowTimezone :: string
  arf_UpdatedAt :: gotime

record AutoRechargeAttempt =
  ara_ID :: string
  ara_UserID :: string
  ara_Provider :: string
  ara_IdempotencyKey :: string
  ara_ProviderAttemptID :: string
  ara_TopupID :: string
  ara_Quantity :: int
  ara_State :: string
  ara_WindowStart :: gotime
  ara_WindowEnd :: gotime
  ara_QuotedAmountMinor :: "int option"
  ara_Currency :: string
  ara_FailureCode :: string
  ara_FailureMessage :: string
  ara_Metadata :: "goval gomap"
  ara_CreatedAt :: gotime
  ara_UpdatedAt :: gotime

record AutoRechargeAttemptUpdate =
  aru_ID :: string
  aru_State :: string
  aru_ProviderAttemptID :: string
  aru_FailureCode :: string
  aru_FailureMessage :: string
  aru_Metadata :: "goval gomap"

record AutoRechargeCustomer =
  arc_UserID :: string
  arc_Provider :: string
  arc_ProviderCustomerID :: string

record AutoRechargeTopupLookup =
  arl_Provider :: string
  arl_OfferKey :: string
  arl_Reference :: ProviderReference

record AutoRechargeTopup =
  art_ID :: string
  art_ProductID :: string

record PaymentMethodInfo =
  pm_ID :: string
  pm_Last4 :: string
  pm_Brand :: string
  pm_ExpiryMonth :: int
  pm_ExpiryYear :: int
  pm_IsDefault :: bool

record SavedPaymentChargeParams =
  sp_CustomerID :: string
  sp_PaymentMethodID :: string
  sp_ProductID :: string
  sp_Quantity :: int
  sp_ReturnURL :: string
  sp_Metadata :: "string gomap"
  sp_IdempotencyKey :: string

record SavedPaymentChargeResult =
  sc_ProviderPaymentID :: string
  sc_Status :: string
  sc_ActionURL :: string
  sc_AmountMinor :: "int option"
  sc_Currency :: string

record SavedPaymentChargeQuote =
  sq_AmountMinor :: int
  sq_Currency :: string
  sq_TaxMinor :: "int option"
  sq_ExpiresAt :: "gotime option"

record AutoRechargeProcessInput =
  ari_UserID :: string
  ari_Balance :: amount
  ari_ReturnURL :: string

record AutoRechargeProcessResult =
  arr_Outcome :: string
  arr_Charge :: "SavedPaymentChargeResult option"

record AutoRechargeStatus =
  ars_Enabled :: bool
  ars_State :: string
  ars_ThresholdCredits :: amount
  ars_TopupKey :: string
  ars_Quantity :: int
  ars_MaxRecharges :: int
  ars_WindowStart :: gotime
  ars_WindowEnd :: gotime
  ars_RechargesInWindow :: int
  ars_PaymentMethodID :: string
  ars_PaymentMethodLast4 :: string
  ars_PaymentMethodBrand :: string
  ars_SuspendedReason :: string
  ars_PendingAttemptID :: string
  ars_QuoteAmountMinor :: "int option"
  ars_QuoteCurrency :: string

section \<open>Ports\<close>

record 'w AutoRechargeStore =
  rst_ResolveTopup :: "AutoRechargeTopupLookup \<Rightarrow> ('w, AutoRechargeTopup option) op"
  rst_GetCustomer :: "string \<Rightarrow> string \<Rightarrow> ('w, AutoRechargeCustomer option) op"
  rst_GetProfile :: "string \<Rightarrow> ('w, AutoRechargeProfile option) op"
  rst_UpsertProfile :: "AutoRechargeProfile \<Rightarrow> bool \<Rightarrow> ('w, unit) op"
  rst_ClaimAttempt :: "string \<Rightarrow> string \<Rightarrow> ('w, AutoRechargeAttempt option) op"
  rst_UpdateAttempt :: "AutoRechargeAttemptUpdate \<Rightarrow> ('w, unit) op"
  rst_CountAttempts :: "string \<Rightarrow> gotime \<Rightarrow> ('w, int) op"

text \<open>A provider; the optional interfaces it may implement are options.\<close>

record 'w PaymentProvider =
  pp_Name :: string
  pp_ListPaymentMethods :: "(string \<Rightarrow> ('w, PaymentMethodInfo list) op) option"
  pp_PreviewSavedPaymentCharge :: "(SavedPaymentChargeParams \<Rightarrow> ('w, SavedPaymentChargeQuote) op) option"
  pp_ChargeSavedPaymentMethod :: "(SavedPaymentChargeParams \<Rightarrow> ('w, SavedPaymentChargeResult) op) option"

record 'w AutoRechargeService =
  ax_catalog :: "('w, BursarConfig option) op option"
  ax_store :: "'w AutoRechargeStore option"
  ax_now :: "'w \<Rightarrow> gotime \<times> 'w"
  ax_newIdempotencyKey :: "string \<Rightarrow> ('w, string) op"

datatype recharge_call =
    SavedProfile AutoRechargeProfile bool
  | ClaimedAttempt string string "AutoRechargeAttempt option"
  | SubmittedCharge SavedPaymentChargeParams SavedPaymentChargeResult "go_error option"
  | UpdatedAttempt AutoRechargeAttemptUpdate

record 'w recharge_world =
  rw_state :: 'w
  rw_log :: "recharge_call list"

definition port :: "('w, 'r) op \<Rightarrow> ('w recharge_world, 'r) op" where
  "port m = (\<lambda>w. case m (rw_state w) of (x, s) \<Rightarrow> (x, w\<lparr>rw_state := s\<rparr>))"

definition logged :: "('r \<Rightarrow> go_error option \<Rightarrow> recharge_call) \<Rightarrow> ('w, 'r) op \<Rightarrow> ('w recharge_world, 'r) op" where
  "logged entry m = (\<lambda>w. case m (rw_state w) of
     ((r, e), s) \<Rightarrow> ((r, e), w\<lparr>rw_state := s, rw_log := rw_log w @ [entry r e]\<rparr>))"

section \<open>Checks\<close>

definition no_catalog_source :: go_error where
  "no_catalog_source = auto_config_error ''auto-recharge requires a catalog source''"

text \<open>The defaults for the clock and the key are the process's clock and a random key.\<close>

definition NewAutoRechargeService ::
  "('w \<Rightarrow> gotime \<times> 'w) \<Rightarrow> (string \<Rightarrow> ('w, string) op) \<Rightarrow> ('w, BursarConfig option) op option \<Rightarrow>
   'w AutoRechargeStore option \<Rightarrow> ('w \<Rightarrow> gotime \<times> 'w) option \<Rightarrow> (string \<Rightarrow> ('w, string) op) option \<Rightarrow>
   go_error + 'w AutoRechargeService" where
  "NewAutoRechargeService time_Now randomKey catalog store now key =
     (if catalog = None then Inl no_catalog_source
      else if store = None then Inl (auto_config_error ''auto-recharge requires a durable store'')
      else Inr \<lparr>ax_catalog = catalog, ax_store = store, ax_now = (case now of None \<Rightarrow> time_Now | Some f \<Rightarrow> f),
        ax_newIdempotencyKey = (case key of None \<Rightarrow> randomKey | Some f \<Rightarrow> f)\<rparr>)"

definition autoRechargeUserID :: "string \<Rightarrow> go_error + string" where
  "autoRechargeUserID userID = requireText userID ''auto-recharge user ID''"

definition autoRechargeProviderName :: "'w PaymentProvider option \<Rightarrow> go_error + string" where
  "autoRechargeProviderName provider =
     (case provider of
        None \<Rightarrow> Inl (NewError ''payment provider is required''
                 (code_category ErrorCodeCapabilityNotConfigured ErrorCategoryInvalidRequest))
      | Some p \<Rightarrow> requireText (pp_Name p) ''payment provider name'')"

definition autoRechargeProfileProviderMatches :: "AutoRechargeProfile option \<Rightarrow> string \<Rightarrow> go_error option" where
  "autoRechargeProfileProviderMatches profile providerName =
     (case profile of
        None \<Rightarrow> None
      | Some p \<Rightarrow>
          if trim_space (arf_Provider p) = [] \<or> arf_Provider p = providerName then None
          else Some (NewError ''auto-recharge profile provider does not match selected provider''
            ((code_category ErrorCodeProviderResponseInvalid ErrorCategoryConflict)
              \<lparr>opt_Details := [(''profile_provider'', VStr (arf_Provider p)), (''provider'', VStr providerName)]\<rparr>)))"

definition store_detail_error :: "string \<Rightarrow> string \<Rightarrow> string \<Rightarrow> go_error" where
  "store_detail_error message key value' = NewStoreError message (no_options\<lparr>opt_Details := [(key, VStr value')]\<rparr>)"

definition validateAutoRechargeAttempt :: "AutoRechargeAttempt \<Rightarrow> string \<Rightarrow> string \<Rightarrow> go_error + unit" where
  "validateAutoRechargeAttempt attempt providerName userID =
     bind_err (requireText (ara_ID attempt) ''auto-recharge attempt ID'') (\<lambda>_.
     bind_err (requireStableKey (ara_IdempotencyKey attempt) ''auto-recharge attempt idempotency key'') (\<lambda>_.
       if trim_space (ara_UserID attempt) \<noteq> userID
       then Inl (store_detail_error ''auto-recharge attempt does not belong to requested user'' ''user_id'' userID)
       else if trim_space (ara_Provider attempt) \<noteq> providerName
       then Inl (store_detail_error ''auto-recharge attempt does not belong to selected provider'' ''provider'' providerName)
       else if ara_State attempt \<notin> set attempt_states
       then Inl (store_detail_error ''auto-recharge attempt has an invalid state'' ''state'' (ara_State attempt))
       else Inr ()))"

definition validateAutoRechargeProfile :: "AutoRechargeProfile option \<Rightarrow> string \<Rightarrow> go_error option" where
  "validateAutoRechargeProfile profile userID =
     (case profile of
        None \<Rightarrow> None
      | Some p \<Rightarrow>
          if trim_space (arf_UserID p) \<noteq> userID
          then Some (store_detail_error ''auto-recharge profile does not belong to requested user'' ''user_id'' userID)
          else if \<not> arf_Enabled p
          then (if arf_State p \<noteq> [] \<and> arf_State p \<noteq> AutoRechargeStateDisabled
                then Some (store_detail_error ''disabled auto-recharge profile has an invalid state'' ''state'' (arf_State p))
                else None)
          else if arf_State p \<noteq> AutoRechargeStateActive \<and> arf_State p \<noteq> AutoRechargeStatePaused
          then Some (store_detail_error ''enabled auto-recharge profile has an invalid state'' ''state'' (arf_State p))
          else if trim_space (arf_Provider p) = [] \<or> trim_space (arf_TopupID p) = [] \<or> arf_Quantity p < 1 \<or>
            arf_MaxChargesPerWindow p < 1 \<or> arf_WindowCount p < 1 \<or> arf_Threshold p < 0
          then Some (store_detail_error ''enabled auto-recharge profile is malformed'' ''user_id'' userID)
          else if arf_WindowAnchor p \<noteq> ''calendar'' \<and> arf_WindowAnchor p \<noteq> ''rolling''
          then Some (store_detail_error ''enabled auto-recharge profile has an invalid window anchor'' ''anchor'' (arf_WindowAnchor p))
          else if trim_space (arf_WindowUnit p) = [] \<or> trim_space (arf_WindowTimezone p) = []
          then Some (store_detail_error ''enabled auto-recharge profile has an incomplete window'' ''user_id'' userID)
          else None)"

definition provider_response_error :: "string \<Rightarrow> goval gomap \<Rightarrow> go_error" where
  "provider_response_error message details = NewError message
     ((code_category ErrorCodeProviderResponseInvalid ErrorCategoryUnavailable)\<lparr>opt_Details := details\<rparr>)"

definition isPaymentMethodLast4 :: "string \<Rightarrow> bool" where
  "isPaymentMethodLast4 v \<longleftrightarrow> length v = 4 \<and> list_all is_digit_byte v"

definition isCurrencyCode :: "string \<Rightarrow> bool" where
  "isCurrencyCode v \<longleftrightarrow> length v = 3 \<and> list_all is_upper_byte v"

definition validatePaymentMethod :: "PaymentMethodInfo \<Rightarrow> string \<Rightarrow> go_error + unit" where
  "validatePaymentMethod method providerName =
     bind_err (requireText (pm_ID method) ''payment method ID'') (\<lambda>_.
       if \<not> isPaymentMethodLast4 (pm_Last4 method) \<or> trim_space (pm_Brand method) = []
       then Inl (provider_response_error ''provider returned invalid payment method last4'' [(''provider'', VStr providerName)])
       else if pm_ExpiryMonth method < 1 \<or> pm_ExpiryMonth method > 12 \<or> pm_ExpiryYear method < 1
       then Inl (provider_response_error ''provider returned invalid payment method expiry'' [(''provider'', VStr providerName)])
       else Inr ())"

definition validateSavedPaymentQuote :: "SavedPaymentChargeQuote \<Rightarrow> go_error option" where
  "validateSavedPaymentQuote quote =
     (if sq_AmountMinor quote < 0 then Some (provider_response_error ''provider returned a negative saved-payment quote'' [])
      else if \<not> isCurrencyCode (sq_Currency quote)
      then Some (provider_response_error ''provider returned an invalid saved-payment quote currency'' [])
      else None)"

definition pending_statuses :: "string list" where
  "pending_statuses = [''succeeded'', ''processing'', ''requires_merchant_action'', ''requires_confirmation'',
     ''requires_capture'', ''partially_captured'', ''partially_captured_and_capturable'']"

definition charge_statuses :: "string list" where
  "charge_statuses = pending_statuses @ [''failed'', ''cancelled'', ''requires_customer_action'', ''requires_payment_method'']"

definition validateSavedPaymentCharge :: "SavedPaymentChargeResult \<Rightarrow> go_error option" where
  "validateSavedPaymentCharge charge =
     (if sc_Status charge \<notin> set charge_statuses
      then Some (provider_response_error ''provider returned saved-payment charge without status'' [])
      else if (case sc_AmountMinor charge of None \<Rightarrow> False | Some a \<Rightarrow> a < 0)
      then Some (provider_response_error ''provider returned a negative saved-payment charge amount'' [])
      else if sc_Currency charge \<noteq> [] \<and> \<not> isCurrencyCode (sc_Currency charge)
      then Some (provider_response_error ''provider returned an invalid saved-payment charge currency'' [])
      else None)"

definition autoRechargeCapabilityError :: "string \<Rightarrow> string \<Rightarrow> go_error" where
  "autoRechargeCapabilityError provider capability =
     NewError (''payment provider '' @ fmt_quote provider @ '' does not support '' @ fmt_quote capability)
       ((code_category ErrorCodeProviderCapabilityNotSupported ErrorCategoryUnavailable)
         \<lparr>opt_Details := [(''provider'', VStr provider), (''capability'', VStr capability)]\<rparr>)"

definition autoRechargeDiagnosticSummary :: "go_error \<Rightarrow> string" where
  "autoRechargeDiagnosticSummary err =
     (case AsBursarError err of
        None \<Rightarrow> ''auto_recharge_provider_failed:provider_error''
      | Some b \<Rightarrow>
          if error_code_text (Code b) \<noteq> [] then ''auto_recharge_provider_failed:'' @ error_code_text (Code b)
          else ''auto_recharge_provider_failed:provider_error'')"

definition providerProductID :: "ProviderReference \<Rightarrow> string" where
  "providerProductID reference =
     (case find (\<lambda>v. v \<noteq> None \<and> trim_space (the v) \<noteq> [])
        [ref_PriceID reference, ref_ProductID reference, ref_ExternalID reference] of
        Some (Some v) \<Rightarrow> trim_space v
      | _ \<Rightarrow> [])"

end
