(* ===== verification/Auto_Recharge_Service.thy ===== *)
theory Auto_Recharge_Service
  imports Auto_Recharge Config_Properties
begin

text \<open>
  \<open>auto_recharge.go\<close>, the operations of \<open>AutoRechargeService\<close>: the active policy, the saved payment method, quotes
  and status, enabling, disabling and retrying, and the evaluation after a debit. The claim of an attempt, the
  charge and the record of its outcome are three calls in that order, and the theorems at the end say what may stand
  in the log of such an evaluation, and that no sequence of operations ever charges without a claim just before it.
\<close>

section \<open>The active policy\<close>

definition recharge_not_initialized :: go_error where
  "recharge_not_initialized = NewError ''auto-recharge service is not initialized''
     (code_category ErrorCodeStoreClosed ErrorCategoryUnavailable)"

definition nil_configuration :: go_error where
  "nil_configuration = NewError ''auto-recharge catalog source returned nil configuration''
     (code_category ErrorCodeCatalogNotLoaded ErrorCategoryUnavailable)"

text \<open>\<open>s.now()\<close>; it does not fail.\<close>

definition service_now :: "'w AutoRechargeService \<Rightarrow> ('w recharge_world, gotime) op" where
  "service_now sv = port (\<lambda>s. case ax_now sv s of (t, s') \<Rightarrow> ((t, None), s'))"

definition policy_of ::
  "AutoRechargeGuardrails \<Rightarrow> string \<Rightarrow> string \<Rightarrow> string \<Rightarrow> AutoRechargeWindow \<Rightarrow> AutoRechargePolicy" where
  "policy_of guardrails topupKey topupID productID window =
     \<lparr>arp_Threshold = dr_Default (arg_BalanceBelow guardrails), arp_RearmAbove = arg_RearmAbove guardrails,
      arp_TopupKey = topupKey, arp_TopupID = topupID, arp_ProductID = productID,
      arp_Quantity = oq_Default (arg_Quantity guardrails),
      arp_MaxChargesPerWindow = arl_MaxPurchases (arg_Limits guardrails),
      arp_MaxChargeMinor = arl_MaxChargeMinor (arg_Limits guardrails), arp_Window = window\<rparr>"

text \<open>The part after the guardrails have been found.\<close>

definition guarded_policy ::
  "zones \<Rightarrow> 'w AutoRechargeService \<Rightarrow> 'w AutoRechargeStore \<Rightarrow> CommerceConfig \<Rightarrow> AutoRechargeGuardrails \<Rightarrow> string \<Rightarrow>
   ('w recharge_world, AutoRechargePolicy option) op" where
  "guarded_policy Z sv store commerce guardrails providerName =
     (case arg_EligibleTopups guardrails of
        [] \<Rightarrow> return_err None (auto_config_error ''eligible top-ups must not be empty'')
      | first # _ \<Rightarrow>
     (let topupKey = trim_space first in
      case map_of (com_Offers commerce) topupKey of
        None \<Rightarrow> return_err None
          (auto_config_error ''eligible auto-recharge top-up is missing or is not a top-up offer'')
      | Some offer \<Rightarrow>
      if of_Type offer \<noteq> ''topup''
      then return_err None (auto_config_error ''eligible auto-recharge top-up is missing or is not a top-up offer'')
      else case map_of (of_Providers offer) providerName of
        None \<Rightarrow> return_ok None
      | Some reference \<Rightarrow>
      if providerProductID reference = []
      then return_err None (auto_config_error ''auto-recharge top-up provider reference has no product identifier'')
      else if oq_Default (arg_Quantity guardrails) < 1 \<or> arl_MaxPurchases (arg_Limits guardrails) < 1
      then return_err None (auto_config_error ''auto-recharge quantity and max purchases must be positive'')
      else try_op (port (rst_ResolveTopup store
             \<lparr>arl_Provider = providerName, arl_OfferKey = topupKey, arl_Reference = reference\<rparr>)) None (\<lambda>topup.
        case topup of
          None \<Rightarrow> return_ok None
        | Some t \<Rightarrow>
            require (requireText (art_ID t) ''auto-recharge top-up ID'') None (\<lambda>topupID.
            try_op (service_now sv) None (\<lambda>now.
            require (resolveAutoRechargeWindow Z (arl_Window (arg_Limits guardrails)) now) None (\<lambda>window.
              return_ok (Some (policy_of guardrails topupKey topupID (providerProductID reference) window))))))))"

definition resolvePolicy ::
  "zones \<Rightarrow> 'w AutoRechargeService \<Rightarrow> ('w, BursarConfig option) op \<Rightarrow> 'w AutoRechargeStore \<Rightarrow> string \<Rightarrow>
   ('w recharge_world, AutoRechargePolicy option) op" where
  "resolvePolicy Z sv catalog store providerName =
     try_op (port catalog) None (\<lambda>config.
       case config of
         None \<Rightarrow> return_err None nil_configuration
       | Some c \<Rightarrow>
           (case com_AutoRecharge (cfg_Commerce c) of
              None \<Rightarrow> return_ok None
            | Some guardrails \<Rightarrow> guarded_policy Z sv store (cfg_Commerce c) guardrails providerName))"

definition ResolvePolicy ::
  "zones \<Rightarrow> 'w AutoRechargeService option \<Rightarrow> 'w PaymentProvider option \<Rightarrow>
   ('w recharge_world, AutoRechargePolicy option) op" where
  "ResolvePolicy Z s provider =
     (case s of
        None \<Rightarrow> return_err None recharge_not_initialized
      | Some sv \<Rightarrow>
          (case (ax_catalog sv, ax_store sv) of
             (Some catalog, Some store) \<Rightarrow>
               require (autoRechargeProviderName provider) None (resolvePolicy Z sv catalog store)
           | _ \<Rightarrow> return_err None recharge_not_initialized))"

section \<open>Profiles and payment methods\<close>

definition GetProfile ::
  "'w AutoRechargeService option \<Rightarrow> string \<Rightarrow> ('w recharge_world, AutoRechargeProfile option) op" where
  "GetProfile s userID =
     (case s of
        None \<Rightarrow> return_err None recharge_not_initialized
      | Some sv \<Rightarrow>
          (case ax_store sv of
             None \<Rightarrow> return_err None recharge_not_initialized
           | Some store \<Rightarrow>
               require (autoRechargeUserID userID) None (\<lambda>user.
               try_op (port (rst_GetProfile store user)) None (\<lambda>profile.
               reject (validateAutoRechargeProfile profile user) None (return_ok profile)))))"

record autoRechargePayment =
  ap_customerID :: string
  ap_method :: PaymentMethodInfo

definition multiple_defaults :: "string \<Rightarrow> go_error" where
  "multiple_defaults providerName =
     provider_response_error ''provider returned multiple default payment methods'' [(''provider'', VStr providerName)]"

text \<open>The loop over the methods, and the choice of a single method that is not marked as default.\<close>

fun default_method ::
  "string \<Rightarrow> PaymentMethodInfo option \<Rightarrow> PaymentMethodInfo list \<Rightarrow> go_error + PaymentMethodInfo option" where
  "default_method name selected [] = Inr selected"
| "default_method name selected (m # ms) =
     (if \<not> pm_IsDefault m then default_method name selected ms
      else if selected \<noteq> None then Inl (multiple_defaults name)
      else default_method name (Some m) ms)"

definition select_method :: "string \<Rightarrow> PaymentMethodInfo list \<Rightarrow> go_error + PaymentMethodInfo option" where
  "select_method name methods =
     bind_err (default_method name None methods) (\<lambda>selected.
       case (selected, methods) of
         (None, [m]) \<Rightarrow> Inr (Some m)
       | _ \<Rightarrow> Inr selected)"

definition customer_check :: "AutoRechargeCustomer \<Rightarrow> string \<Rightarrow> string \<Rightarrow> go_error option" where
  "customer_check customer userID providerName =
     (if arc_UserID customer \<noteq> [] \<and> trim_space (arc_UserID customer) \<noteq> userID
      then Some (store_detail_error ''auto-recharge customer does not belong to requested user'' ''user_id'' userID)
      else if arc_Provider customer \<noteq> [] \<and> trim_space (arc_Provider customer) \<noteq> providerName
      then Some (store_detail_error ''auto-recharge customer does not belong to selected provider'' ''provider'' providerName)
      else None)"

definition paymentMethod ::
  "'w AutoRechargeStore \<Rightarrow> string \<Rightarrow> 'w PaymentProvider option \<Rightarrow>
   ('w recharge_world, autoRechargePayment option) op" where
  "paymentMethod store userID provider =
     require (autoRechargeProviderName provider) None (\<lambda>providerName.
     try_op (port (rst_GetCustomer store userID providerName)) None (\<lambda>customer.
       case customer of
         None \<Rightarrow> return_ok None
       | Some c \<Rightarrow>
           reject (customer_check c userID providerName) None (
           require (requireText (arc_ProviderCustomerID c) ''provider customer ID'') None (\<lambda>customerID.
             case pp_ListPaymentMethods (the provider) of
               None \<Rightarrow> return_err None (autoRechargeCapabilityError providerName ''list_payment_methods'')
             | Some list \<Rightarrow>
                 try_op (port (list customerID)) None (\<lambda>methods.
                 require (select_method providerName methods) None (\<lambda>selected.
                   case selected of
                     None \<Rightarrow> return_ok None
                   | Some method \<Rightarrow>
                       require (validatePaymentMethod method providerName) None (\<lambda>_.
                         return_ok (Some \<lparr>ap_customerID = customerID, ap_method = method\<rparr>))))))))"

definition charge_metadata :: "string list \<Rightarrow> string gomap" where
  "charge_metadata details =
     (let attempt = (case details of d # _ \<Rightarrow> trim_space d | [] \<Rightarrow> []);
          account = (case details of _ # d # _ \<Rightarrow> trim_space d | _ \<Rightarrow> []);
          entries = (if attempt \<noteq> [] then [(''auto_recharge_attempt_id'', attempt)] else []) @
            (if account \<noteq> [] then [(''bursar_account_id'', account)] else [])
      in if entries \<noteq> [] then entries @ [(''purpose'', ''credit_topup'')] else [])"

definition savedPaymentParams ::
  "AutoRechargePolicy \<Rightarrow> autoRechargePayment \<Rightarrow> string \<Rightarrow> string \<Rightarrow> string list \<Rightarrow> SavedPaymentChargeParams" where
  "savedPaymentParams policy payment returnURL idempotencyKey details =
     \<lparr>sp_CustomerID = ap_customerID payment, sp_PaymentMethodID = pm_ID (ap_method payment),
      sp_ProductID = arp_ProductID policy, sp_Quantity = arp_Quantity policy, sp_ReturnURL = trim_space returnURL,
      sp_Metadata = charge_metadata details, sp_IdempotencyKey = idempotencyKey\<rparr>"

text \<open>
  The store of a service whose policy or profile has been read: \<^const>\<open>ResolvePolicy\<close> and \<^const>\<open>GetProfile\<close>
  fail for a service without one.
\<close>

definition recharge_store :: "'w AutoRechargeService option \<Rightarrow> 'w AutoRechargeStore" where
  "recharge_store s = the (ax_store (the s))"

section \<open>Quotes and status\<close>

text \<open>The preview that \<open>Quote\<close> and \<open>GetStatus\<close> ask for, when the provider offers it.\<close>

definition preview_charge ::
  "'w PaymentProvider option \<Rightarrow> AutoRechargePolicy \<Rightarrow> autoRechargePayment \<Rightarrow>
   ('w recharge_world, SavedPaymentChargeQuote option) op" where
  "preview_charge provider policy payment =
     (case pp_PreviewSavedPaymentCharge (the provider) of
        None \<Rightarrow> return_ok None
      | Some preview \<Rightarrow>
          try_op (port (preview (savedPaymentParams policy payment [] ''auto-recharge-preview'' []))) None (\<lambda>quote.
          reject (validateSavedPaymentQuote quote) None (return_ok (Some quote))))"

definition Quote ::
  "zones \<Rightarrow> 'w AutoRechargeService option \<Rightarrow> string \<Rightarrow> 'w PaymentProvider option \<Rightarrow>
   ('w recharge_world, SavedPaymentChargeQuote option) op" where
  "Quote Z s userID provider =
     require (autoRechargeUserID userID) None (\<lambda>user.
     try_op (ResolvePolicy Z s provider) None (\<lambda>policy.
       case policy of
         None \<Rightarrow> return_ok None
       | Some p \<Rightarrow>
           try_op (paymentMethod (recharge_store s) user provider) None (\<lambda>payment.
             case payment of
               None \<Rightarrow> return_ok None
             | Some m \<Rightarrow> preview_charge provider p m)))"

definition status_of ::
  "AutoRechargePolicy \<Rightarrow> AutoRechargeProfile option \<Rightarrow> autoRechargePayment option \<Rightarrow>
   SavedPaymentChargeQuote option \<Rightarrow> int \<Rightarrow> AutoRechargeStatus" where
  "status_of policy profile payment quote count =
     (let enabled = (case profile of None \<Rightarrow> False | Some p \<Rightarrow> arf_Enabled p);
          state = (if enabled then arf_State (the profile) else AutoRechargeStateDisabled)
      in \<lparr>ars_Enabled = enabled, ars_State = state, ars_ThresholdCredits = arp_Threshold policy,
        ars_TopupKey = arp_TopupKey policy, ars_Quantity = arp_Quantity policy,
        ars_MaxRecharges = arp_MaxChargesPerWindow policy, ars_WindowStart = arw_Start (arp_Window policy),
        ars_WindowEnd = arw_End (arp_Window policy), ars_RechargesInWindow = count,
        ars_PaymentMethodID = (case payment of None \<Rightarrow> [] | Some m \<Rightarrow> pm_ID (ap_method m)),
        ars_PaymentMethodLast4 = (case payment of None \<Rightarrow> [] | Some m \<Rightarrow> pm_Last4 (ap_method m)),
        ars_PaymentMethodBrand = (case payment of None \<Rightarrow> [] | Some m \<Rightarrow> pm_Brand (ap_method m)),
        ars_SuspendedReason =
          (if enabled \<and> arf_State (the profile) = AutoRechargeStatePaused then ''auto_recharge_paused'' else []),
        ars_PendingAttemptID = [],
        ars_QuoteAmountMinor = map_option sq_AmountMinor quote,
        ars_QuoteCurrency = (case quote of None \<Rightarrow> [] | Some q \<Rightarrow> sq_Currency q)\<rparr>)"

definition GetStatus ::
  "zones \<Rightarrow> 'w AutoRechargeService option \<Rightarrow> string \<Rightarrow> 'w PaymentProvider option \<Rightarrow>
   ('w recharge_world, AutoRechargeStatus option) op" where
  "GetStatus Z s userID provider =
     require (autoRechargeUserID userID) None (\<lambda>user.
     try_op (ResolvePolicy Z s provider) None (\<lambda>policy.
       case policy of
         None \<Rightarrow> return_ok None
       | Some p \<Rightarrow>
     try_op (GetProfile s user) None (\<lambda>profile.
     require (autoRechargeProviderName provider) None (\<lambda>providerName.
     reject (autoRechargeProfileProviderMatches profile providerName) None (
     try_op (case profile of
               None \<Rightarrow> return_ok None
             | Some f \<Rightarrow> if arf_Enabled f then paymentMethod (recharge_store s) user provider else return_ok None)
       None (\<lambda>payment.
     try_op (case payment of None \<Rightarrow> return_ok None | Some m \<Rightarrow> preview_charge provider p m) None (\<lambda>quote.
     try_op (port (rst_CountAttempts (recharge_store s) user (arw_Start (arp_Window p)))) None (\<lambda>count.
       return_ok (Some (status_of p profile payment quote count))))))))))"

section \<open>Evaluation after a debit\<close>

definition zero_Process :: AutoRechargeProcessResult where
  "zero_Process = \<lparr>arr_Outcome = [], arr_Charge = None\<rparr>"

definition outcome :: "string \<Rightarrow> AutoRechargeProcessResult" where
  "outcome o' = \<lparr>arr_Outcome = o', arr_Charge = None\<rparr>"

definition save_profile ::
  "'w AutoRechargeStore \<Rightarrow> AutoRechargeProfile \<Rightarrow> bool \<Rightarrow> ('w recharge_world, unit) op" where
  "save_profile store profile reset =
     logged (\<lambda>_ _. SavedProfile profile reset) (rst_UpsertProfile store profile reset)"

definition claim_attempt ::
  "'w AutoRechargeStore \<Rightarrow> string \<Rightarrow> string \<Rightarrow> ('w recharge_world, AutoRechargeAttempt option) op" where
  "claim_attempt store userID key =
     logged (\<lambda>a _. ClaimedAttempt userID key a) (rst_ClaimAttempt store userID key)"

definition update_attempt ::
  "'w AutoRechargeStore \<Rightarrow> AutoRechargeAttemptUpdate \<Rightarrow> ('w recharge_world, unit) op" where
  "update_attempt store update = logged (\<lambda>_ _. UpdatedAttempt update) (rst_UpdateAttempt store update)"

definition failed_request_update :: "AutoRechargeAttempt \<Rightarrow> go_error \<Rightarrow> AutoRechargeAttemptUpdate" where
  "failed_request_update attempt chargeErr =
     \<lparr>aru_ID = ara_ID attempt, aru_State = ''unknown'', aru_ProviderAttemptID = [],
      aru_FailureCode = ''provider_request_failed'', aru_FailureMessage = autoRechargeDiagnosticSummary chargeErr,
      aru_Metadata = []\<rparr>"

text \<open>The switch on the status of the charge: the attempt's next state, its failure code, the outcome.\<close>

definition charge_switch :: "string \<Rightarrow> string \<times> string \<times> string" where
  "charge_switch status =
     (if status = ''requires_customer_action'' then (''action_required'', [], ''action_required'')
      else if status \<in> set pending_statuses then (''processing'', [], ''submitted'')
      else (''failed'', ''payment_failed'', ''failed''))"

definition record_charge ::
  "'w AutoRechargeStore \<Rightarrow> AutoRechargeAttempt \<Rightarrow> SavedPaymentChargeResult \<Rightarrow>
   ('w recharge_world, AutoRechargeProcessResult) op" where
  "record_charge store attempt charge =
     (case charge_switch (sc_Status charge) of (state, failure, result) \<Rightarrow>
       try_op (update_attempt store
           \<lparr>aru_ID = ara_ID attempt, aru_State = state, aru_ProviderAttemptID = sc_ProviderPaymentID charge,
            aru_FailureCode = failure, aru_FailureMessage = [], aru_Metadata = []\<rparr>)
         (zero_Process\<lparr>arr_Charge := Some charge\<rparr>)
         (\<lambda>_. return_ok \<lparr>arr_Outcome = result, arr_Charge = Some charge\<rparr>))"

definition submit_attempt ::
  "(SavedPaymentChargeParams \<Rightarrow> ('w, SavedPaymentChargeResult) op) \<Rightarrow> 'w AutoRechargeStore \<Rightarrow>
   SavedPaymentChargeParams \<Rightarrow> AutoRechargeAttempt \<Rightarrow> ('w recharge_world, AutoRechargeProcessResult) op" where
  "submit_attempt charger store params attempt =
     bind_op (logged (SubmittedCharge params) (charger params)) (\<lambda>charge chargeErr.
       case chargeErr of
         Some err \<Rightarrow>
           bind_op (update_attempt store (failed_request_update attempt err)) (\<lambda>_ updateErr.
             case updateErr of
               Some u \<Rightarrow> return_err zero_Process (the (errors_Join [err, u]))
             | None \<Rightarrow> return_err zero_Process err)
       | None \<Rightarrow>
           reject (validateSavedPaymentCharge charge) zero_Process (record_charge store attempt charge))"

text \<open>The part after the claim has returned an attempt.\<close>

definition process_attempt ::
  "'w AutoRechargeStore \<Rightarrow> (SavedPaymentChargeParams \<Rightarrow> ('w, SavedPaymentChargeResult) op) \<Rightarrow>
   AutoRechargePolicy \<Rightarrow> autoRechargePayment \<Rightarrow> string \<Rightarrow> string \<Rightarrow> string \<Rightarrow> string \<Rightarrow> AutoRechargeAttempt \<Rightarrow>
   ('w recharge_world, AutoRechargeProcessResult) op" where
  "process_attempt store charger policy payment userID providerName returnURL idempotencyKey attempt =
     require (validateAutoRechargeAttempt attempt providerName userID) zero_Process (\<lambda>_.
       if ara_IdempotencyKey attempt \<noteq> idempotencyKey \<and> ara_State attempt \<noteq> ''unknown''
       then return_ok (outcome ''already_processing'')
       else submit_attempt charger store
         (savedPaymentParams policy payment returnURL (ara_IdempotencyKey attempt) [ara_ID attempt, userID]) attempt)"

definition process_claim ::
  "'w AutoRechargeService \<Rightarrow> 'w AutoRechargeStore \<Rightarrow>
   (SavedPaymentChargeParams \<Rightarrow> ('w, SavedPaymentChargeResult) op) \<Rightarrow> AutoRechargePolicy \<Rightarrow> autoRechargePayment \<Rightarrow>
   string \<Rightarrow> string \<Rightarrow> string \<Rightarrow> ('w recharge_world, AutoRechargeProcessResult) op" where
  "process_claim sv store charger policy payment userID providerName returnURL =
     try_op (port (ax_newIdempotencyKey sv userID)) zero_Process (\<lambda>fresh.
     require (requireStableKey fresh ''auto-recharge idempotency key'') zero_Process (\<lambda>idempotencyKey.
     try_op (claim_attempt store userID idempotencyKey) zero_Process (\<lambda>attempt.
       case attempt of
         None \<Rightarrow> return_ok (outcome ''limit_reached'')
       | Some a \<Rightarrow> process_attempt store charger policy payment userID providerName returnURL idempotencyKey a)))"

definition profile_active :: "AutoRechargeProfile option \<Rightarrow> bool" where
  "profile_active profile \<longleftrightarrow>
     (case profile of None \<Rightarrow> False | Some p \<Rightarrow> arf_Enabled p \<and> arf_State p = AutoRechargeStateActive)"

definition ProcessIfNeeded ::
  "zones \<Rightarrow> 'w AutoRechargeService option \<Rightarrow> 'w PaymentProvider option \<Rightarrow> AutoRechargeProcessInput \<Rightarrow>
   ('w recharge_world, AutoRechargeProcessResult) op" where
  "ProcessIfNeeded Z s provider input =
     require (autoRechargeUserID (ari_UserID input)) zero_Process (\<lambda>userID.
     try_op (ResolvePolicy Z s provider) zero_Process (\<lambda>policy.
       case policy of
         None \<Rightarrow> return_ok (outcome ''not_configured'')
       | Some p \<Rightarrow>
     try_op (GetProfile s userID) zero_Process (\<lambda>profile.
       if \<not> profile_active profile then return_ok (outcome ''disabled'')
       else
     require (autoRechargeProviderName provider) zero_Process (\<lambda>providerName.
     reject (autoRechargeProfileProviderMatches profile providerName) zero_Process (
       if ari_Balance input \<ge> arp_Threshold p then return_ok (outcome ''above_threshold'')
       else case pp_ChargeSavedPaymentMethod (the provider) of
         None \<Rightarrow> return_err zero_Process (autoRechargeCapabilityError providerName ''charge_saved_payment_method'')
       | Some charger \<Rightarrow>
     try_op (paymentMethod (recharge_store s) userID provider) zero_Process (\<lambda>payment.
       case payment of
         None \<Rightarrow> return_ok (outcome ''failed'')
       | Some m \<Rightarrow>
           process_claim (the s) (recharge_store s) charger p m userID providerName (ari_ReturnURL input)))))))"

section \<open>Enabling, disabling and retrying\<close>

definition recharge_not_configured :: go_error where
  "recharge_not_configured = NewError ''auto-recharge is not configured for this catalog''
     (code_category ErrorCodeAutoRechargeNotConfigured ErrorCategoryUnavailable)"

definition payment_method_required :: go_error where
  "payment_method_required = NewError ''a saved payment method is required''
     (code_category ErrorCodePaymentMethodRequired ErrorCategoryPaymentRequired)"

definition recharge_disabled :: go_error where
  "recharge_disabled = NewError ''auto-recharge is disabled for this account''
     (code_category ErrorCodeAutoRechargeDisabled ErrorCategoryConflict)"

definition no_resolver :: go_error where
  "no_resolver = NewError ''auto-recharge provider resolver is not configured''
     (code_category ErrorCodeCapabilityNotConfigured ErrorCategoryUnavailable)"

definition enabled_profile :: "string \<Rightarrow> string \<Rightarrow> AutoRechargePolicy \<Rightarrow> AutoRechargeProfile" where
  "enabled_profile userID providerName policy =
     \<lparr>arf_UserID = userID, arf_Enabled = True, arf_State = AutoRechargeStateActive, arf_Armed = True,
      arf_Provider = providerName, arf_TopupID = arp_TopupID policy, arf_Quantity = arp_Quantity policy,
      arf_Threshold = arp_Threshold policy, arf_MaxChargesPerWindow = arp_MaxChargesPerWindow policy,
      arf_WindowUnit = arw_Unit (arp_Window policy), arf_WindowCount = arw_Count (arp_Window policy),
      arf_WindowAnchor = arw_Anchor (arp_Window policy), arf_WindowTimezone = arw_Timezone (arp_Window policy),
      arf_UpdatedAt = zero_time\<rparr>"

definition Enable ::
  "zones \<Rightarrow> 'w AutoRechargeService option \<Rightarrow> 'w PaymentProvider option \<Rightarrow> AutoRechargeProcessInput \<Rightarrow>
   ('w recharge_world, AutoRechargeStatus option) op" where
  "Enable Z s provider input =
     require (autoRechargeUserID (ari_UserID input)) None (\<lambda>userID.
     try_op (ResolvePolicy Z s provider) None (\<lambda>policy.
       case policy of
         None \<Rightarrow> return_err None recharge_not_configured
       | Some p \<Rightarrow>
     try_op (paymentMethod (recharge_store s) userID provider) None (\<lambda>payment.
       if payment = None then return_err None payment_method_required
       else
     require (autoRechargeProviderName provider) None (\<lambda>providerName.
     try_op (save_profile (recharge_store s) (enabled_profile userID providerName p) False) None (\<lambda>_.
     try_op (ProcessIfNeeded Z s provider
         \<lparr>ari_UserID = userID, ari_Balance = ari_Balance input, ari_ReturnURL = ari_ReturnURL input\<rparr>) None (\<lambda>_.
       GetStatus Z s userID provider))))))"

definition Disable :: "'w AutoRechargeService option \<Rightarrow> string \<Rightarrow> ('w recharge_world, unit) op" where
  "Disable s userID =
     require (autoRechargeUserID userID) () (\<lambda>user.
     try_op (GetProfile s user) () (\<lambda>profile.
       case profile of
         None \<Rightarrow> return_ok ()
       | Some p \<Rightarrow> save_profile (recharge_store s)
           (p\<lparr>arf_Enabled := False, arf_State := AutoRechargeStateDisabled, arf_Armed := True\<rparr>) False))"

definition recharge_Retry ::
  "zones \<Rightarrow> 'w AutoRechargeService option \<Rightarrow> 'w PaymentProvider option \<Rightarrow> AutoRechargeProcessInput \<Rightarrow>
   ('w recharge_world, AutoRechargeProcessResult) op" where
  "recharge_Retry Z s provider input =
     require (autoRechargeUserID (ari_UserID input)) zero_Process (\<lambda>userID.
     try_op (GetProfile s userID) zero_Process (\<lambda>profile.
       case profile of
         None \<Rightarrow> return_err zero_Process recharge_disabled
       | Some p \<Rightarrow>
           if \<not> arf_Enabled p then return_err zero_Process recharge_disabled
           else
     require (autoRechargeProviderName provider) zero_Process (\<lambda>providerName.
     reject (autoRechargeProfileProviderMatches profile providerName) zero_Process (
     try_op (save_profile (recharge_store s) (p\<lparr>arf_State := AutoRechargeStateActive, arf_Armed := True\<rparr>) True)
       zero_Process (\<lambda>_. ProcessIfNeeded Z s provider (input\<lparr>ari_UserID := userID\<rparr>))))))"

definition ProcessPostDeduction ::
  "zones \<Rightarrow> 'w AutoRechargeService option \<Rightarrow> 'w PaymentProvider option \<Rightarrow> PostDeductionContext \<Rightarrow> string \<Rightarrow>
   ('w recharge_world, AutoRechargeProcessResult) op" where
  "ProcessPostDeduction Z s provider deduction returnURL =
     (case dr_BalanceAfter (pdc_Deduction deduction) of
        None \<Rightarrow> return_ok (outcome ''above_threshold'')
      | Some balance \<Rightarrow>
          ProcessIfNeeded Z s provider
            \<lparr>ari_UserID = pdc_UserID deduction, ari_Balance = balance, ari_ReturnURL = returnURL\<rparr>)"

text \<open>The hook, with the resolver of the profile's provider.\<close>

definition PostDeductionHook ::
  "zones \<Rightarrow> 'w AutoRechargeService option \<Rightarrow> (string \<Rightarrow> ('w, 'w PaymentProvider option) op) option \<Rightarrow> string \<Rightarrow>
   PostDeductionContext \<Rightarrow> ('w recharge_world, unit) op" where
  "PostDeductionHook Z s providers returnURL deduction =
     (if dr_BalanceAfter (pdc_Deduction deduction) = None then return_ok ()
      else case providers of
        None \<Rightarrow> return_err () no_resolver
      | Some get \<Rightarrow>
          try_op (GetProfile s (pdc_UserID deduction)) () (\<lambda>profile.
            if \<not> profile_active profile then return_ok ()
            else try_op (port (get (arf_Provider (the profile)))) () (\<lambda>provider.
              bind_op (ProcessPostDeduction Z s provider deduction returnURL) (\<lambda>_ e.
                case e of None \<Rightarrow> return_ok () | Some err \<Rightarrow> return_err () err))))"

section \<open>What an operation may log\<close>

definition quiet :: "'w recharge_world \<Rightarrow> 'w recharge_world \<Rightarrow> bool" where
  "quiet w w' \<longleftrightarrow> rw_log w' = rw_log w"

interpretation quiet: op_frame quiet
  by unfold_locales (simp_all add: quiet_def)

lemma quiet_port: "keeps quiet (port m)"
  by (simp add: keeps_def quiet_def port_def split: prod.split)

lemma quiet_reject: "keeps quiet k \<Longrightarrow> keeps quiet (reject check z k)"
  by (simp add: reject_def quiet.keeps_return split: option.split)

lemmas quiet_rules = quiet.keeps_return quiet.keeps_try quiet.keeps_require quiet_port quiet_reject

lemma quiet_policy: "keeps quiet (ResolvePolicy Z s provider)"
  unfolding ResolvePolicy_def resolvePolicy_def guarded_policy_def service_now_def Let_def
  by (auto intro!: quiet_rules split: option.split list.split)

lemma quiet_profile: "keeps quiet (GetProfile s userID)"
  unfolding GetProfile_def by (auto intro!: quiet_rules split: option.split)

lemma quiet_payment: "keeps quiet (paymentMethod store userID provider)"
  unfolding paymentMethod_def by (auto intro!: quiet_rules split: option.split)

lemma quiet_preview: "keeps quiet (preview_charge provider policy payment)"
  unfolding preview_charge_def by (auto intro!: quiet_rules split: option.split)

lemma quiet_quote: "keeps quiet (Quote Z s userID provider)"
  unfolding Quote_def by (auto intro!: quiet_rules quiet_policy quiet_payment quiet_preview split: option.split)

lemma quiet_status: "keeps quiet (GetStatus Z s userID provider)"
  unfolding GetStatus_def
  by (auto intro!: quiet_rules quiet_policy quiet_profile quiet_payment quiet_preview split: option.split)

text \<open>
  An attempt that may be charged: it belongs to the account and the provider, and it is the one claimed with the
  fresh key or one whose outcome is not known. The charge for it carries the attempt's own key and identifier, and
  the product and the quantity of the policy.
\<close>

definition charge_of ::
  "AutoRechargePolicy \<Rightarrow> string \<Rightarrow> string \<Rightarrow> string \<Rightarrow> AutoRechargeAttempt \<Rightarrow> SavedPaymentChargeParams \<Rightarrow> bool" where
  "charge_of policy userID name key a p \<longleftrightarrow>
     trim_space (ara_UserID a) = userID \<and> trim_space (ara_Provider a) = name \<and>
     (ara_IdempotencyKey a = key \<or> ara_State a = ''unknown'') \<and>
     sp_IdempotencyKey p = ara_IdempotencyKey a \<and>
     sp_ProductID p = arp_ProductID policy \<and> sp_Quantity p = arp_Quantity policy \<and>
     map_of (sp_Metadata p) ''auto_recharge_attempt_id'' = Some (trim_space (ara_ID a)) \<and>
     map_of (sp_Metadata p) ''bursar_account_id'' = Some userID"

text \<open>The logs of one evaluation, with its result and its error.\<close>

inductive episode ::
  "AutoRechargePolicy \<Rightarrow> string \<Rightarrow> string \<Rightarrow> recharge_call list \<Rightarrow> AutoRechargeProcessResult \<Rightarrow> go_error option \<Rightarrow> bool"
  for policy userID name where
  no_claim: "arr_Charge r = None \<Longrightarrow> arr_Outcome r \<in> {[], ''failed''} \<Longrightarrow> episode policy userID name [] r e"
| claim_rejected: "stable_key key \<Longrightarrow> e \<noteq> None \<Longrightarrow>
    episode policy userID name [ClaimedAttempt userID key a] zero_Process e"
| limit_reached: "stable_key key \<Longrightarrow>
    episode policy userID name [ClaimedAttempt userID key None] (outcome ''limit_reached'') None"
| already_processing: "stable_key key \<Longrightarrow> ara_IdempotencyKey a \<noteq> key \<Longrightarrow> ara_State a \<noteq> ''unknown'' \<Longrightarrow>
    episode policy userID name [ClaimedAttempt userID key (Some a)] (outcome ''already_processing'') None"
| request_failed: "stable_key key \<Longrightarrow> charge_of policy userID name key a p \<Longrightarrow> e \<noteq> None \<Longrightarrow>
    episode policy userID name
      [ClaimedAttempt userID key (Some a), SubmittedCharge p c (Some err), UpdatedAttempt (failed_request_update a err)]
      zero_Process e"
| response_invalid: "stable_key key \<Longrightarrow> charge_of policy userID name key a p \<Longrightarrow>
    validateSavedPaymentCharge c = Some err \<Longrightarrow>
    episode policy userID name [ClaimedAttempt userID key (Some a), SubmittedCharge p c None] zero_Process (Some err)"
| recorded: "stable_key key \<Longrightarrow> charge_of policy userID name key a p \<Longrightarrow> validateSavedPaymentCharge c = None \<Longrightarrow>
    charge_switch (sc_Status c) = (state, failure, result) \<Longrightarrow> arr_Charge r = Some c \<Longrightarrow>
    arr_Outcome r = (if e = None then result else []) \<Longrightarrow>
    episode policy userID name
      [ClaimedAttempt userID key (Some a), SubmittedCharge p c None,
       UpdatedAttempt \<lparr>aru_ID = ara_ID a, aru_State = state, aru_ProviderAttemptID = sc_ProviderPaymentID c,
         aru_FailureCode = failure, aru_FailureMessage = [], aru_Metadata = []\<rparr>] r e"

lemma charge_of_params:
  assumes "validateAutoRechargeAttempt a name userID = Inr u"
    and "ara_IdempotencyKey a = key \<or> ara_State a = ''unknown''"
    and "trim_space userID = userID" and "userID \<noteq> []"
  shows "charge_of policy userID name key a
    (savedPaymentParams policy payment url (ara_IdempotencyKey a) [ara_ID a, userID])"
  using assms
  by (auto simp: charge_of_def savedPaymentParams_def charge_metadata_def validateAutoRechargeAttempt_def
      bind_err_Inr_iff requireText_Inr split: if_splits)

lemma submit_attempt_log:
  assumes "submit_attempt charger store p a w = ((r, e), w')"
    and "stable_key key" and "charge_of policy userID name key a p"
    and "rw_log w = l @ [ClaimedAttempt userID key (Some a)]"
  shows "\<exists>L. rw_log w' = l @ L \<and> episode policy userID name L r e"
proof -
  obtain c err s where fields: "charger p (rw_state w) = ((c, err), s)" by (metis prod.collapse)
  show ?thesis
  proof (cases err)
    case (Some er)
    obtain u ue s' where up: "rst_UpdateAttempt store (failed_request_update a er) s = ((u, ue), s')"
      by (metis prod.collapse)
    from assms(1) fields Some up
    have "rw_log w' = rw_log w @ [SubmittedCharge p c (Some er), UpdatedAttempt (failed_request_update a er)]"
      "r = zero_Process" "e \<noteq> None"
      by (auto simp: submit_attempt_def op_simps logged_def update_attempt_def errors_Join_def split: option.splits)
    with request_failed [OF assms(2,3), of e c er] assms(4) show ?thesis by auto
  next
    case None
    show ?thesis
    proof (cases "validateSavedPaymentCharge c")
      case (Some er)
      with assms(1) fields None
      have "rw_log w' = rw_log w @ [SubmittedCharge p c None]" "r = zero_Process" "e = Some er"
        by (auto simp: submit_attempt_def op_simps logged_def reject_def)
      with response_invalid [OF assms(2,3) Some] assms(4) show ?thesis by auto
    next
      case valid: None
      obtain state failure result where sw: "charge_switch (sc_Status c) = (state, failure, result)"
        by (metis prod_cases3)
      let ?u = "\<lparr>aru_ID = ara_ID a, aru_State = state, aru_ProviderAttemptID = sc_ProviderPaymentID c,
         aru_FailureCode = failure, aru_FailureMessage = [], aru_Metadata = []\<rparr>"
      obtain u ue s' where up: "rst_UpdateAttempt store ?u s = ((u, ue), s')" by (metis prod.collapse)
      from assms(1) fields None valid sw up
      have "rw_log w' = rw_log w @ [SubmittedCharge p c None, UpdatedAttempt ?u]"
        "arr_Charge r = Some c" "arr_Outcome r = (if e = None then result else [])"
        by (auto simp: submit_attempt_def op_simps logged_def reject_def record_charge_def update_attempt_def
            zero_Process_def split: option.splits)
      with recorded [OF assms(2,3) valid sw, of r e] assms(4) show ?thesis by auto
    qed
  qed
qed

text \<open>What follows the claim.\<close>

lemma process_attempt_log:
  assumes "process_attempt store charger policy payment userID name url key a w = ((r, e), w')"
    and "trim_space userID = userID" and "userID \<noteq> []" and stable: "stable_key key"
    and log: "rw_log w = l @ [ClaimedAttempt userID key (Some a)]"
  shows "\<exists>L. rw_log w' = l @ L \<and> episode policy userID name L r e"
proof (cases "validateAutoRechargeAttempt a name userID")
  case (Inl err)
  with assms(1) log claim_rejected [OF stable, of "Some err"] show ?thesis by (auto simp: process_attempt_def op_simps)
next
  case (Inr u)
  show ?thesis
  proof (cases "ara_IdempotencyKey a \<noteq> key \<and> ara_State a \<noteq> ''unknown''")
    case True
    with assms(1) Inr log already_processing [OF stable] show ?thesis by (auto simp: process_attempt_def op_simps)
  next
    case False
    then have "submit_attempt charger store
        (savedPaymentParams policy payment url (ara_IdempotencyKey a) [ara_ID a, userID]) a w = ((r, e), w')"
      using assms(1) Inr by (simp only: process_attempt_def run_require if_False)
    then show ?thesis
      using submit_attempt_log [OF _ stable charge_of_params [OF Inr _ assms(2,3)] log] False by blast
  qed
qed

lemma process_claim_log:
  assumes "process_claim sv store charger policy payment userID name url w = ((r, e), w')"
    and "trim_space userID = userID" and "userID \<noteq> []"
  shows "\<exists>L. rw_log w' = rw_log w @ L \<and> episode policy userID name L r e"
proof -
  obtain fresh fe s where fresh: "ax_newIdempotencyKey sv userID (rw_state w) = ((fresh, fe), s)"
    by (metis prod.collapse)
  have none: "arr_Charge zero_Process = None" "arr_Outcome zero_Process \<in> {[], ''failed''}"
    by (simp_all add: zero_Process_def)
  show ?thesis
  proof (cases "fe = None \<and> (\<exists>key. requireStableKey fresh ''auto-recharge idempotency key'' = Inr key)")
    case False
    with assms(1) fresh have "rw_log w' = rw_log w" "r = zero_Process"
      by (auto simp: process_claim_def op_simps port_def require_def split: option.splits sum.splits)
    with no_claim [OF none] show ?thesis by auto
  next
    case True
    then obtain key where fe: "fe = None" and key: "requireStableKey fresh ''auto-recharge idempotency key'' = Inr key"
      by auto
    have stable: "stable_key key" using key by (auto simp: requireStableKey_Inr)
    obtain a ae s' where claim: "rst_ClaimAttempt store userID key s = ((a, ae), s')" by (metis prod.collapse)
    let ?w = "w\<lparr>rw_state := s', rw_log := rw_log w @ [ClaimedAttempt userID key a]\<rparr>"
    from assms(1) fresh fe key claim
    have run: "((r, e), w') = (case ae of
         Some er \<Rightarrow> ((zero_Process, Some er), ?w)
       | None \<Rightarrow> (case a of None \<Rightarrow> ((outcome ''limit_reached'', None), ?w)
                 | Some b \<Rightarrow> process_attempt store charger policy payment userID name url key b ?w))"
      by (auto simp: process_claim_def op_simps port_def claim_attempt_def logged_def split: option.splits)
    show ?thesis
    proof (cases "ae = None \<and> a \<noteq> None")
      case False
      with run claim_rejected [OF stable, of e] limit_reached [OF stable] show ?thesis
        by (auto split: option.splits)
    next
      case True
      with run process_attempt_log [of store charger policy payment userID name url key "the a" ?w, OF _ assms(2,3) stable]
      show ?thesis by auto
    qed
  qed
qed

text \<open>What an evaluation rests on: the active policy, an active profile, a balance below the threshold.\<close>

definition authorised ::
  "zones \<Rightarrow> 'w AutoRechargeService option \<Rightarrow> 'w PaymentProvider option \<Rightarrow> AutoRechargeProcessInput \<Rightarrow>
   'w recharge_world \<Rightarrow> AutoRechargePolicy \<Rightarrow> bool" where
  "authorised Z s provider input w policy \<longleftrightarrow>
     (\<exists>w1 profile w2. ResolvePolicy Z s provider w = ((Some policy, None), w1) \<and>
        GetProfile s (trim_space (ari_UserID input)) w1 = ((profile, None), w2) \<and> profile_active profile \<and>
        ari_Balance input < arp_Threshold policy)"

lemma quietD: "keeps quiet m \<Longrightarrow> m w = (x, w') \<Longrightarrow> rw_log w' = rw_log w"
  by (metis keeps_def quiet_def snd_conv)

text \<open>An evaluation ends before the claim, with nothing logged, or it goes through the claim.\<close>

lemma ProcessIfNeeded_cases:
  assumes "ProcessIfNeeded Z s provider input w = ((r, e), w')"
  obtains (early) "rw_log w' = rw_log w" "arr_Charge r = None" "arr_Outcome r \<notin> {''submitted'', ''action_required''}"
  | (claim) name policy charger m w3 where "autoRechargeProviderName provider = Inr name"
      "authorised Z s provider input w policy" "rw_log w3 = rw_log w" "trim_space (ari_UserID input) \<noteq> []"
      "process_claim (the s) (recharge_store s) charger policy m (trim_space (ari_UserID input)) name
         (ari_ReturnURL input) w3 = ((r, e), w')"
proof (cases "autoRechargeUserID (ari_UserID input)")
  case (Inl err)
  with assms early show ?thesis by (auto simp: ProcessIfNeeded_def op_simps zero_Process_def)
next
  case (Inr u)
  then have u: "u = trim_space (ari_UserID input)" "u \<noteq> []" by (auto simp: autoRechargeUserID_def requireText_Inr)
  obtain p pe w1 where p: "ResolvePolicy Z s provider w = ((p, pe), w1)" by (metis prod.collapse)
  obtain f fe w2 where f: "GetProfile s u w1 = ((f, fe), w2)" by (metis prod.collapse)
  obtain m me w3 where m: "paymentMethod (recharge_store s) u provider w2 = ((m, me), w3)" by (metis prod.collapse)
  have logs: "rw_log w1 = rw_log w" "rw_log w2 = rw_log w" "rw_log w3 = rw_log w"
    using quietD [OF quiet_policy p] quietD [OF quiet_profile f] quietD [OF quiet_payment m] by simp_all
  note runs = assms Inr p f m
  show ?thesis
  proof (cases "pe = None \<and> p \<noteq> None \<and> fe = None \<and> profile_active f \<and>
      (\<exists>name. autoRechargeProviderName provider = Inr name \<and> autoRechargeProfileProviderMatches f name = None) \<and>
      ari_Balance input < arp_Threshold (the p) \<and> pp_ChargeSavedPaymentMethod (the provider) \<noteq> None \<and>
      me = None \<and> m \<noteq> None")
    case False
    show ?thesis
    proof (rule early)
      show "rw_log w' = rw_log w" "arr_Charge r = None" "arr_Outcome r \<notin> {''submitted'', ''action_required''}"
        using False runs logs
        by (auto simp: ProcessIfNeeded_def op_simps require_def reject_def zero_Process_def outcome_def not_less
            split: option.splits sum.splits if_splits)
    qed
  next
    case True
    then obtain name where "autoRechargeProviderName provider = Inr name"
      "autoRechargeProfileProviderMatches f name = None" by auto
    with True runs have "process_claim (the s) (recharge_store s) (the (pp_ChargeSavedPaymentMethod (the provider)))
        (the p) (the m) u name (ari_ReturnURL input) w3 = ((r, e), w')"
      by (auto simp: ProcessIfNeeded_def op_simps reject_def)
    moreover have "authorised Z s provider input w (the p)"
      unfolding authorised_def using True p f u by auto
    ultimately show ?thesis using claim logs u \<open>autoRechargeProviderName provider = Inr name\<close> by metis
  qed
qed

section \<open>Sequences of operations\<close>

definition claimed_for :: "string \<Rightarrow> string \<Rightarrow> AutoRechargeAttempt \<Rightarrow> SavedPaymentChargeParams \<Rightarrow> bool" where
  "claimed_for userID key a p \<longleftrightarrow> stable_key key \<and> trim_space (ara_UserID a) = userID \<and>
     (ara_IdempotencyKey a = key \<or> ara_State a = ''unknown'') \<and> sp_IdempotencyKey p = ara_IdempotencyKey a"

text \<open>Every charge in a log stands directly after the claim of the attempt whose key it carries.\<close>

definition charges_claimed :: "recharge_call list \<Rightarrow> bool" where
  "charges_claimed calls \<longleftrightarrow>
     (\<forall>i<length calls. case calls ! i of
        SubmittedCharge p c err \<Rightarrow> i \<noteq> 0 \<and>
          (case calls ! (i - 1) of ClaimedAttempt u key (Some a) \<Rightarrow> claimed_for u key a p | _ \<Rightarrow> False)
      | _ \<Rightarrow> True)"

lemma charges_claimed_append:
  assumes "charges_claimed l" and "charges_claimed m"
  shows "charges_claimed (l @ m)"
  unfolding charges_claimed_def
proof (intro allI impI)
  fix i
  assume i: "i < length (l @ m)"
  let ?ok = "\<lambda>k i. case k ! i of
        SubmittedCharge p c err \<Rightarrow> i \<noteq> 0 \<and>
          (case k ! (i - 1) of ClaimedAttempt u key (Some a) \<Rightarrow> claimed_for u key a p | _ \<Rightarrow> False)
      | _ \<Rightarrow> True"
  show "?ok (l @ m) i"
  proof (cases "i < length l")
    case True
    with assms(1) have "?ok l i" by (simp add: charges_claimed_def)
    with True show ?thesis by (auto simp: nth_append split: recharge_call.splits)
  next
    case False
    with i assms(2) have "?ok m (i - length l)" by (simp add: charges_claimed_def)
    with False show ?thesis by (auto simp: nth_append diff_commute not_less less_diff_conv2 split: recharge_call.splits)
  qed
qed

lemma episode_charges_claimed: "episode policy userID name L r e \<Longrightarrow> charges_claimed L"
  by (induction rule: episode.induct)
    (auto simp: charges_claimed_def less_Suc_eq nth_Cons' claimed_for_def charge_of_def split: recharge_call.split)

definition extends_claimed :: "'w recharge_world \<Rightarrow> 'w recharge_world \<Rightarrow> bool" where
  "extends_claimed w w' \<longleftrightarrow> (\<exists>L. rw_log w' = rw_log w @ L \<and> charges_claimed L)"

lemma charges_claimed_Nil [simp]: "charges_claimed []"
  by (simp add: charges_claimed_def)

interpretation claimed: op_frame extends_claimed
proof
  show "extends_claimed w w" for w :: "'a recharge_world" by (simp add: extends_claimed_def)
  show "extends_claimed u w" if "extends_claimed u v" "extends_claimed v w" for u v w :: "'a recharge_world"
    using that unfolding extends_claimed_def by (metis append_assoc charges_claimed_append)
qed

lemma claimed_quiet: "keeps quiet m \<Longrightarrow> keeps extends_claimed m"
  by (simp add: keeps_def quiet_def extends_claimed_def)

lemma claimed_save: "keeps extends_claimed (save_profile store profile reset)"
  by (auto simp: keeps_def extends_claimed_def save_profile_def logged_def charges_claimed_def split: prod.split)

lemma claimed_process: "keeps extends_claimed (ProcessIfNeeded Z s provider input)"
  unfolding keeps_def
proof
  fix w
  obtain r e w' where run: "ProcessIfNeeded Z s provider input w = ((r, e), w')" by (metis prod.collapse)
  from run have "extends_claimed w w'"
  proof (cases rule: ProcessIfNeeded_cases)
    case early
    then show ?thesis by (simp add: extends_claimed_def)
  next
    case (claim name policy charger m w3)
    from process_claim_log [OF claim(5) trim_space_idem claim(4)] claim(3) show ?thesis
      unfolding extends_claimed_def using episode_charges_claimed by metis
  qed
  with run show "extends_claimed w (state_of (ProcessIfNeeded Z s provider input w))" by simp
qed

lemma claimed_reject: "keeps extends_claimed k \<Longrightarrow> keeps extends_claimed (reject check z k)"
  by (simp add: reject_def claimed.keeps_return split: option.split)

lemmas claimed_rules = claimed.keeps_return claimed.keeps_try claimed.keeps_require claimed.keeps_bind claimed_reject
  claimed_save claimed_process claimed_quiet [OF quiet_port] claimed_quiet [OF quiet_policy]
  claimed_quiet [OF quiet_profile] claimed_quiet [OF quiet_payment] claimed_quiet [OF quiet_status]

lemma claimed_operations:
  "keeps extends_claimed (Enable Z s provider input)"
  "keeps extends_claimed (Disable s userID)"
  "keeps extends_claimed (recharge_Retry Z s provider input)"
  "keeps extends_claimed (ProcessPostDeduction Z s provider deduction returnURL)"
  "keeps extends_claimed (PostDeductionHook Z s providers returnURL deduction)"
  unfolding Enable_def Disable_def recharge_Retry_def PostDeductionHook_def ProcessPostDeduction_def
  by (auto intro!: claimed_rules split: option.split)

text \<open>The operations of any services over one set of ports, and what other processes do to the ports' state.\<close>

inductive recharge_step :: "zones \<Rightarrow> 'w recharge_world \<Rightarrow> 'w recharge_world \<Rightarrow> bool" for Z where
  resolve: "recharge_step Z w (state_of (ResolvePolicy Z s provider w))"
| profile: "recharge_step Z w (state_of (GetProfile s userID w))"
| quote: "recharge_step Z w (state_of (Quote Z s userID provider w))"
| status: "recharge_step Z w (state_of (GetStatus Z s userID provider w))"
| enable: "recharge_step Z w (state_of (Enable Z s provider input w))"
| disable: "recharge_step Z w (state_of (Disable s userID w))"
| retry: "recharge_step Z w (state_of (recharge_Retry Z s provider input w))"
| process: "recharge_step Z w (state_of (ProcessIfNeeded Z s provider input w))"
| post_deduction: "recharge_step Z w (state_of (ProcessPostDeduction Z s provider deduction returnURL w))"
| hook: "recharge_step Z w (state_of (PostDeductionHook Z s providers returnURL deduction w))"
| elsewhere: "recharge_step Z w (w\<lparr>rw_state := x\<rparr>)"

lemma keepsD: "keeps R m \<Longrightarrow> R w (state_of (m w))"
  by (simp add: keeps_def)

lemma recharge_step_claimed: "recharge_step Z w w' \<Longrightarrow> extends_claimed w w'"
proof (induction rule: recharge_step.induct)
  case (elsewhere w x)
  then show ?case by (simp add: extends_claimed_def)
qed (rule keepsD, rule claimed_rules claimed_operations claimed_quiet [OF quiet_quote])+

lemma recharge_steps_claimed: "(recharge_step Z)\<^sup>*\<^sup>* w w' \<Longrightarrow> extends_claimed w w'"
  by (induction rule: rtranclp_induct) (auto intro: claimed.frame_refl claimed.frame_trans recharge_step_claimed)

section \<open>Properties\<close>

text \<open>
  C3. One evaluation of auto-recharge. Either nothing is claimed, charged or recorded; or the catalogue has a policy for
  the provider, the account's profile is active, the balance is below the policy's threshold, and the log of the
  evaluation is a claim for the account under a fresh stable key, then at most one charge, then at most one record
  of it. A charge is made only for an attempt of this account and provider that the claim has just returned under
  the fresh key, or that is in the state unknown; it carries that attempt's own idempotency key and identifier and the
  policy's product and quantity. A charge whose request failed is recorded as unknown, so that a later evaluation
  repeats it under the same key; a valid answer is recorded with the state that its status gives.
\<close>

theorem auto_recharge_charge_safety:
  assumes "ProcessIfNeeded Z s provider input w = ((r, e), w')"
  shows "\<exists>L. rw_log w' = rw_log w @ L \<and>
    (L = [] \<and> arr_Charge r = None \<and> arr_Outcome r \<notin> {''submitted'', ''action_required''} \<or>
     (\<exists>policy name. autoRechargeProviderName provider = Inr name \<and> authorised Z s provider input w policy \<and>
        episode policy (trim_space (ari_UserID input)) name L r e))"
  using assms
proof (cases rule: ProcessIfNeeded_cases)
  case early
  then show ?thesis by auto
next
  case (claim name policy charger m w3)
  from process_claim_log [OF claim(5) trim_space_idem claim(4)] claim(1-3) show ?thesis by metis
qed

text \<open>
  C18. Through every sequence of operations, with any services and providers and whatever other processes do in
  between, each charge submitted stands directly after the claim of the attempt whose idempotency key it carries,
  an attempt of the claiming account that was claimed with this key or whose outcome was unknown.
\<close>

theorem recharge_charges_claimed:
  assumes "(recharge_step Z)\<^sup>*\<^sup>* w w'" and "rw_log w = []"
    and "i < length (rw_log w')" and "rw_log w' ! i = SubmittedCharge p c err"
  shows "\<exists>u key a. i \<noteq> 0 \<and> rw_log w' ! (i - 1) = ClaimedAttempt u key (Some a) \<and> stable_key key \<and>
    trim_space (ara_UserID a) = u \<and> (ara_IdempotencyKey a = key \<or> ara_State a = ''unknown'') \<and>
    sp_IdempotencyKey p = ara_IdempotencyKey a"
proof -
  from recharge_steps_claimed [OF assms(1)] assms(2) have "charges_claimed (rw_log w')"
    by (auto simp: extends_claimed_def)
  with assms(3) have "case rw_log w' ! i of
        SubmittedCharge p c err \<Rightarrow> i \<noteq> 0 \<and>
          (case rw_log w' ! (i - 1) of ClaimedAttempt u key (Some a) \<Rightarrow> claimed_for u key a p | _ \<Rightarrow> False)
      | _ \<Rightarrow> True"
    unfolding charges_claimed_def by blast
  then have pos: "i \<noteq> 0"
    and before: "case rw_log w' ! (i - 1) of ClaimedAttempt u key (Some a) \<Rightarrow> claimed_for u key a p | _ \<Rightarrow> False"
    unfolding assms(4) by simp_all
  from before obtain u key a where "rw_log w' ! (i - 1) = ClaimedAttempt u key (Some a)" "claimed_for u key a p"
    by (cases "rw_log w' ! (i - 1)") (simp_all split: option.splits)
  with pos show ?thesis by (simp add: claimed_for_def)
qed

text \<open>A service over a counter of claims, and a provider whose charges succeed.\<close>

definition sample_guardrails :: AutoRechargeGuardrails where
  "sample_guardrails =
     \<lparr>arg_EligibleTopups = [''pack''], arg_BalanceBelow = \<lparr>dr_Minimum = 1, dr_Maximum = 100, dr_Default = 10\<rparr>,
      arg_RearmAbove = 20, arg_Quantity = \<lparr>oq_Minimum = 1, oq_Maximum = 5, oq_Default = 2\<rparr>,
      arg_Limits = \<lparr>arl_MaxPurchases = 3, arl_Window = (no_window ''rolling'')\<lparr>win_Duration :=
          Some \<lparr>dur_Unit = ''day'', dur_Count = 1\<rparr>\<rparr>, arl_MaxChargeMinor = 1000,
        arl_Cooldown = \<lparr>dur_Unit = ''hour'', dur_Count = 1\<rparr>, arl_MaxConsecutiveFailure = 3, arl_FailureAction = ''pause''\<rparr>\<rparr>"

definition sample_pack :: CommerceOffer where
  "sample_pack =
     \<lparr>of_Type = ''topup'', of_DisplayName = ''Pack'', of_Description = None, of_SortOrder = 0, of_Availability = None,
      of_Price = \<lparr>ofp_AmountMinor = 500, ofp_Currency = ''USD'', ofp_TaxBehavior = ''exclusive''\<rparr>,
      of_Providers = [(''stripe'', \<lparr>ref_Type = ''stripe_price'', ref_PriceID = Some ''price1'', ref_ProductID = None,
        ref_ObjectKind = None, ref_ExternalID = None\<rparr>)],
      of_Plan = None, of_BillingInterval = None, of_Trial = None, of_CycleGrant = None, of_CreditsPerUnit = Some 100,
      of_Quantity = None, of_Bucket = Some ''main'', of_Expiry = None, of_LotBehavior = []\<rparr>"

definition recharge_config :: BursarConfig where
  "recharge_config = sample_config\<lparr>cfg_Commerce := \<lparr>com_Providers = [], com_Offers = [(''pack'', sample_pack)],
     com_SubscriptionChanges = [], com_AutoRecharge = Some sample_guardrails\<rparr>\<rparr>"

definition sample_profile :: AutoRechargeProfile where
  "sample_profile =
     \<lparr>arf_UserID = ''u1'', arf_Enabled = True, arf_State = ''active'', arf_Armed = True, arf_Provider = ''stripe'',
      arf_TopupID = ''t1'', arf_Quantity = 2, arf_Threshold = 10, arf_MaxChargesPerWindow = 3, arf_WindowUnit = ''day'',
      arf_WindowCount = 1, arf_WindowAnchor = ''rolling'', arf_WindowTimezone = ''UTC'', arf_UpdatedAt = zero_time\<rparr>"

definition sample_attempt :: "string \<Rightarrow> AutoRechargeAttempt" where
  "sample_attempt key =
     \<lparr>ara_ID = ''a1'', ara_UserID = ''u1'', ara_Provider = ''stripe'', ara_IdempotencyKey = key, ara_ProviderAttemptID = [],
      ara_TopupID = ''t1'', ara_Quantity = 2, ara_State = ''claimed'', ara_WindowStart = 0, ara_WindowEnd = 0,
      ara_QuotedAmountMinor = None, ara_Currency = [], ara_FailureCode = [], ara_FailureMessage = [], ara_Metadata = [],
      ara_CreatedAt = 0, ara_UpdatedAt = 0\<rparr>"

definition sample_recharge_store :: "nat AutoRechargeStore" where
  "sample_recharge_store =
     \<lparr>rst_ResolveTopup = (\<lambda>l. return_ok (Some \<lparr>art_ID = ''t1'', art_ProductID = ''price1''\<rparr>)),
      rst_GetCustomer = (\<lambda>u p. return_ok (Some \<lparr>arc_UserID = ''u1'', arc_Provider = ''stripe'', arc_ProviderCustomerID = ''c1''\<rparr>)),
      rst_GetProfile = (\<lambda>u. return_ok (Some sample_profile)),
      rst_UpsertProfile = (\<lambda>p reset. return_ok ()),
      rst_ClaimAttempt = (\<lambda>u key n. ((Some (sample_attempt key), None), Suc n)),
      rst_UpdateAttempt = (\<lambda>u. return_ok ()),
      rst_CountAttempts = (\<lambda>u t. return_ok 0)\<rparr>"

definition sample_provider :: "nat PaymentProvider" where
  "sample_provider =
     \<lparr>pp_Name = ''stripe'',
      pp_ListPaymentMethods = Some (\<lambda>c. return_ok [\<lparr>pm_ID = ''pm1'', pm_Last4 = ''4242'', pm_Brand = ''visa'',
        pm_ExpiryMonth = 1, pm_ExpiryYear = 2030, pm_IsDefault = False\<rparr>]),
      pp_PreviewSavedPaymentCharge = None,
      pp_ChargeSavedPaymentMethod = Some (\<lambda>p. return_ok \<lparr>sc_ProviderPaymentID = ''pi1'', sc_Status = ''succeeded'',
        sc_ActionURL = [], sc_AmountMinor = Some 1000, sc_Currency = ''USD''\<rparr>)\<rparr>"

definition sample_recharge :: "nat AutoRechargeService" where
  "sample_recharge =
     \<lparr>ax_catalog = Some (return_ok (Some recharge_config)), ax_store = Some sample_recharge_store,
      ax_now = (\<lambda>n. (day_ns, n)), ax_newIdempotencyKey = (\<lambda>u n. ((''k1'', None), n))\<rparr>"

definition sample_input :: AutoRechargeProcessInput where
  "sample_input = \<lparr>ari_UserID = ''u1'', ari_Balance = 5, ari_ReturnURL = []\<rparr>"

definition idle_recharge :: "nat recharge_world" where
  "idle_recharge = \<lparr>rw_state = 0, rw_log = []\<rparr>"

lemma sample_trims:
  "trim_space ''u1'' = ''u1''" "trim_space ''stripe'' = ''stripe''" "trim_space ''pack'' = ''pack''"
  "trim_space ''price1'' = ''price1''" "trim_space ''t1'' = ''t1''" "trim_space ''c1'' = ''c1''" "trim_space ''k1'' = ''k1''"
  "trim_space ''a1'' = ''a1''" "trim_space ''pm1'' = ''pm1''" "trim_space ''visa'' = ''visa''" "trim_space ''day'' = ''day''"
  "trim_space ''UTC'' = ''UTC''"
  by (rule trim_space_graphic; simp add: graphic_def byte_def)+

lemma sample_policy_resolves:
  "\<exists>window. ResolvePolicy Z (Some sample_recharge) (Some sample_provider) w =
     ((Some (policy_of sample_guardrails ''pack'' ''t1'' ''price1'' window), None), w)"
proof -
  let ?window = "(no_window ''rolling'')\<lparr>win_Duration := Some \<lparr>dur_Unit = ''day'', dur_Count = 1\<rparr>\<rparr>"
  have "day_ns \<noteq> zero_time" by (simp add: day_ns_def hour_def second_def zero_time_def)
  then obtain window where "resolveAutoRechargeWindow Z ?window day_ns = Inr window"
    by (auto simp: resolveAutoRechargeWindow_def no_window_def rolling_length_def)
  then show ?thesis
    by (intro exI [of _ window]) (simp add: ResolvePolicy_def resolvePolicy_def guarded_policy_def sample_recharge_def sample_provider_def
        autoRechargeProviderName_def requireText_def sample_trims op_simps port_def recharge_config_def sample_guardrails_def
        sample_pack_def providerProductID_def sample_recharge_store_def service_now_def Let_def)
qed

lemma sample_recharge_runs:
  "GetProfile (Some sample_recharge) ''u1'' w = ((Some sample_profile, None), w)"
  "profile_active (Some sample_profile)"
  "autoRechargeProviderName (Some sample_provider) = Inr ''stripe''"
  "autoRechargeProfileProviderMatches (Some sample_profile) ''stripe'' = None"
  "\<exists>m. paymentMethod (recharge_store (Some sample_recharge)) ''u1'' (Some sample_provider) w = ((Some m, None), w)"
  by (simp_all add: GetProfile_def sample_recharge_def sample_recharge_store_def autoRechargeUserID_def requireText_def
      sample_trims op_simps port_def sample_profile_def reject_def validateAutoRechargeProfile_def profile_active_def
      AutoRechargeStateActive_def autoRechargeProviderName_def sample_provider_def autoRechargeProfileProviderMatches_def
      paymentMethod_def recharge_store_def customer_check_def select_method_def validatePaymentMethod_def
      isPaymentMethodLast4_def is_digit_byte_def byte_def bind_err_def Let_def)

lemma sample_charge_runs:
  "\<exists>r w'. ProcessIfNeeded Z (Some sample_recharge) (Some sample_provider) sample_input idle_recharge = ((r, None), w') \<and>
     arr_Outcome r = ''submitted'' \<and> length (rw_log w') = 3 \<and> (\<exists>p c err. rw_log w' ! 1 = SubmittedCharge p c err)"
proof -
  obtain window where policy: "ResolvePolicy Z (Some sample_recharge) (Some sample_provider) idle_recharge =
      ((Some (policy_of sample_guardrails ''pack'' ''t1'' ''price1'' window), None), idle_recharge)"
    using sample_policy_resolves by blast
  obtain m where pay: "paymentMethod (recharge_store (Some sample_recharge)) ''u1'' (Some sample_provider) idle_recharge =
      ((Some m, None), idle_recharge)"
    using sample_recharge_runs(5) by blast
  have currency: "isCurrencyCode ''USD''"
    by (simp add: isCurrencyCode_def is_upper_byte_def byte_def)
  let ?p = "policy_of sample_guardrails ''pack'' ''t1'' ''price1'' window"
  have key: "requireStableKey ''k1'' field = Inr ''k1''" for field
    by (simp add: requireStableKey_def requireText_def sample_trims maxIdempotencyKeyLength_def bind_err_def)
  have "\<exists>r w'. process_claim sample_recharge sample_recharge_store (the (pp_ChargeSavedPaymentMethod sample_provider)) ?p m
      ''u1'' ''stripe'' [] idle_recharge = ((r, None), w') \<and> arr_Outcome r = ''submitted'' \<and>
      length (rw_log w') = 3 \<and> (\<exists>p c err. rw_log w' ! 1 = SubmittedCharge p c err)"
    by (simp add: process_claim_def sample_recharge_def sample_provider_def op_simps port_def key claim_attempt_def
        logged_def sample_recharge_store_def idle_recharge_def process_attempt_def validateAutoRechargeAttempt_def
        sample_attempt_def requireText_def sample_trims bind_err_def attempt_states_def submit_attempt_def reject_def
        validateSavedPaymentCharge_def charge_statuses_def pending_statuses_def currency record_charge_def
        charge_switch_def update_attempt_def Let_def)
  moreover have "arp_Threshold ?p = 10" by (simp add: policy_of_def sample_guardrails_def)
  ultimately show ?thesis
    using policy pay sample_recharge_runs(1-4)
    by (simp add: ProcessIfNeeded_def sample_input_def autoRechargeUserID_def requireText_def sample_trims op_simps
        reject_def recharge_store_def sample_recharge_def sample_provider_def Let_def)
qed

theorem auto_recharge_charge_safety_witness:
  "\<exists>r w' L policy. ProcessIfNeeded utc_zones (Some sample_recharge) (Some sample_provider) sample_input idle_recharge =
       ((r, None), w') \<and> arr_Outcome r = ''submitted'' \<and> length L = 3 \<and> rw_log w' = rw_log idle_recharge @ L \<and>
     authorised utc_zones (Some sample_recharge) (Some sample_provider) sample_input idle_recharge policy \<and>
     episode policy (trim_space ''u1'') ''stripe'' L r None"
proof -
  obtain r w' where run: "ProcessIfNeeded utc_zones (Some sample_recharge) (Some sample_provider) sample_input
      idle_recharge = ((r, None), w')" and out: "arr_Outcome r = ''submitted''" and len: "length (rw_log w') = 3"
    using sample_charge_runs by blast
  have "rw_log idle_recharge = []" "ari_UserID sample_input = ''u1''" by (simp_all add: idle_recharge_def sample_input_def)
  with auto_recharge_charge_safety [OF run] out len obtain L policy name where
    "rw_log w' = rw_log idle_recharge @ L" "autoRechargeProviderName (Some sample_provider) = Inr name"
    "authorised utc_zones (Some sample_recharge) (Some sample_provider) sample_input idle_recharge policy"
    "episode policy (trim_space ''u1'') name L r None" by auto
  with run out len \<open>rw_log idle_recharge = []\<close> sample_recharge_runs(3) show ?thesis by auto
qed

theorem recharge_charges_claimed_witness:
  "\<exists>w' p c err u key a. (recharge_step utc_zones)\<^sup>*\<^sup>* idle_recharge w' \<and> rw_log w' ! 1 = SubmittedCharge p c err \<and>
     rw_log w' ! 0 = ClaimedAttempt u key (Some a) \<and> sp_IdempotencyKey p = ara_IdempotencyKey a"
proof -
  obtain r w' p c err where run: "ProcessIfNeeded utc_zones (Some sample_recharge) (Some sample_provider) sample_input
      idle_recharge = ((r, None), w')" and len: "length (rw_log w') = 3" and charge: "rw_log w' ! 1 = SubmittedCharge p c err"
    using sample_charge_runs by blast
  have "recharge_step utc_zones idle_recharge w'" using run by (metis recharge_step.process snd_conv)
  then have steps: "(recharge_step utc_zones)\<^sup>*\<^sup>* idle_recharge w'" by blast
  have "rw_log idle_recharge = []" by (simp add: idle_recharge_def)
  from recharge_charges_claimed [OF steps this _ charge] len charge steps show ?thesis by auto
qed

end
