(* ===== verification/Billing_Events.thy ===== *)
theory Billing_Events
  imports Calendar Provider_Registry Go_Effects Decimal_Reference
begin

text \<open>
  \<open>billing.go\<close> and \<open>billing_lifecycle.go\<close>, the normalised billing events: their types, the validation of an event
  before it is claimed, and the document that is stored with the claim. A pointer is an option, a named string
  type a \<open>string\<close>, and metadata that may be nil an optional map; amounts are minor units.
\<close>

section \<open>Types\<close>

definition billing_event_types :: "string list" where
  "billing_event_types = [
    ''customer.created'', ''customer.updated'', ''customer.deleted'', ''checkout.completed'',
    ''checkout.expired'', ''subscription.created'', ''subscription.updated'', ''subscription.activated'',
    ''subscription.renewed'', ''subscription.plan_changed'', ''subscription.cancellation_scheduled'',
    ''subscription.cancellation_unscheduled'', ''subscription.canceled'', ''subscription.expired'',
    ''subscription.paused'', ''subscription.resumed'', ''subscription.trial_will_end'', ''invoice.created'',
    ''invoice.updated'', ''invoice.finalized'', ''invoice.finalization_failed'', ''invoice.upcoming'',
    ''invoice.paid'', ''invoice.payment_failed'', ''invoice.payment_action_required'', ''invoice.voided'',
    ''payment.succeeded'', ''payment.failed'', ''payment_method.attached'', ''payment_method.updated'',
    ''payment_method.detached'', ''refund.created'', ''refund.updated'', ''refund.failed'',
    ''dispute.created'', ''dispute.updated'', ''dispute.closed'']"

definition IsBillingLifecycleEventType :: "string \<Rightarrow> bool" where
  "IsBillingLifecycleEventType eventType \<longleftrightarrow> eventType \<in> set billing_event_types"

record BillingCustomer =
  bc_ProviderCustomerID :: string
  bc_ID :: string
  bc_AccountID :: string
  bc_Email :: string
  bc_Metadata :: "goval gomap option"

record ProviderRef =
  pr_ProductID :: string
  pr_PriceID :: string
  pr_VariantID :: string
  pr_LookupKey :: string

record BillingSubscription =
  bs_ProviderSubscriptionID :: string
  bs_ID :: string
  bs_Provider :: string
  bs_AccountID :: string
  bs_CustomerID :: string
  bs_Plan :: string
  bs_Status :: string
  bs_Interval :: string
  bs_IntervalCount :: int
  bs_CurrentPeriodStart :: "gotime option"
  bs_CurrentPeriodEnd :: "gotime option"
  bs_PeriodStart :: "gotime option"
  bs_PeriodEnd :: "gotime option"
  bs_TrialEnd :: "gotime option"
  bs_CancelAt :: "gotime option"
  bs_EndedAt :: "gotime option"
  bs_CancelAtPeriodEnd :: bool
  bs_CanceledAt :: "gotime option"
  bs_Refs :: "ProviderRef option"
  bs_Metadata :: "goval gomap option"

record BillingInvoice =
  bi_ProviderInvoiceID :: string
  bi_ID :: string
  bi_Provider :: string
  bi_AccountID :: string
  bi_SubscriptionID :: string
  bi_CustomerID :: string
  bi_Status :: string
  bi_Currency :: string
  bi_AmountPaidMinor :: int
  bi_AmountDueMinor :: int
  bi_PeriodStart :: "gotime option"
  bi_PeriodEnd :: "gotime option"
  bi_HostedInvoiceURL :: string
  bi_Metadata :: "goval gomap option"

record BillingPayment =
  bp_ProviderPaymentID :: string
  bp_ID :: string
  bp_Provider :: string
  bp_AccountID :: string
  bp_CustomerID :: string
  bp_SubscriptionID :: string
  bp_InvoiceID :: string
  bp_Status :: string
  bp_Currency :: string
  bp_AmountMinor :: int
  bp_TaxMinor :: int
  bp_Purpose :: string
  bp_Refs :: "ProviderRef option"
  bp_Metadata :: "goval gomap option"

record BillingRefund =
  br_ProviderRefundID :: string
  br_ProviderPaymentID :: string
  br_ID :: string
  br_Provider :: string
  br_PaymentID :: string
  br_Status :: string
  br_Currency :: string
  br_AmountMinor :: int
  br_Reason :: string
  br_Metadata :: "goval gomap option"

record BillingDispute =
  bd_ProviderDisputeID :: string
  bd_ProviderPaymentID :: string
  bd_ID :: string
  bd_Provider :: string
  bd_PaymentID :: string
  bd_Status :: string
  bd_Reason :: string
  bd_Metadata :: "goval gomap option"

record BillingEvent =
  be_EventID :: string
  be_ID :: string
  be_Provider :: string
  be_Type :: string
  be_OccurredAt :: gotime
  be_AccountID :: string
  be_BillingEventID :: string
  be_Customer :: "BillingCustomer option"
  be_Subscription :: "BillingSubscription option"
  be_Invoice :: "BillingInvoice option"
  be_Payment :: "BillingPayment option"
  be_Refund :: "BillingRefund option"
  be_Dispute :: "BillingDispute option"
  be_Metadata :: "goval gomap option"
  be_RawPayload :: string

section \<open>Canonical identifiers\<close>

text \<open>The body of every \<open>canonical...ID\<close> method: the first identifier unless it is blank, else the second.\<close>

definition canonical_id :: "string \<Rightarrow> string \<Rightarrow> string" where
  "canonical_id preferred alias = (if trim_space preferred \<noteq> [] then trim_space preferred else trim_space alias)"

definition canonicalEventID :: "BillingEvent \<Rightarrow> string" where
  "canonicalEventID e = canonical_id (be_EventID e) (be_ID e)"

definition canonicalProviderCustomerID :: "BillingCustomer \<Rightarrow> string" where
  "canonicalProviderCustomerID c = canonical_id (bc_ProviderCustomerID c) (bc_ID c)"

definition canonicalProviderSubscriptionID :: "BillingSubscription \<Rightarrow> string" where
  "canonicalProviderSubscriptionID s = canonical_id (bs_ProviderSubscriptionID s) (bs_ID s)"

definition canonicalProviderInvoiceID :: "BillingInvoice \<Rightarrow> string" where
  "canonicalProviderInvoiceID i = canonical_id (bi_ProviderInvoiceID i) (bi_ID i)"

definition canonicalProviderPaymentID :: "BillingPayment \<Rightarrow> string" where
  "canonicalProviderPaymentID p = canonical_id (bp_ProviderPaymentID p) (bp_ID p)"

definition canonicalProviderRefundID :: "BillingRefund \<Rightarrow> string" where
  "canonicalProviderRefundID r = canonical_id (br_ProviderRefundID r) (br_ID r)"

definition refund_canonicalProviderPaymentID :: "BillingRefund \<Rightarrow> string" where
  "refund_canonicalProviderPaymentID r = canonical_id (br_ProviderPaymentID r) (br_PaymentID r)"

definition canonicalProviderDisputeID :: "BillingDispute \<Rightarrow> string" where
  "canonicalProviderDisputeID d = canonical_id (bd_ProviderDisputeID d) (bd_ID d)"

definition dispute_canonicalProviderPaymentID :: "BillingDispute \<Rightarrow> string" where
  "dispute_canonicalProviderPaymentID d = canonical_id (bd_ProviderPaymentID d) (bd_PaymentID d)"

section \<open>Validation\<close>

definition oneOf :: "string \<Rightarrow> string list \<Rightarrow> bool" where
  "oneOf v allowed \<longleftrightarrow> v \<in> set allowed"

definition billingSubscriptionStatus :: "string \<Rightarrow> bool" where
  "billingSubscriptionStatus v = oneOf v [''incomplete'', ''incomplete_expired'', ''trialing'', ''active'', ''past_due'',
     ''canceled'', ''unpaid'', ''paused'', ''expired'']"

definition billingPaymentStatus :: "string \<Rightarrow> bool" where
  "billingPaymentStatus v = oneOf v [''pending'', ''succeeded'', ''failed'', ''canceled'']"

definition billingInterval :: "string \<Rightarrow> bool" where
  "billingInterval v = oneOf v [''day'', ''week'', ''month'', ''year'']"

definition billingCurrency :: "string \<Rightarrow> bool" where
  "billingCurrency v \<longleftrightarrow> length v = 3 \<and> list_all is_upper_byte v"

definition validateProviderRef :: "ProviderRef option \<Rightarrow> go_error option" where
  "validateProviderRef reference =
     (case reference of
        None \<Rightarrow> None
      | Some r \<Rightarrow>
          if trim_space (pr_ProductID r) = [] \<and> trim_space (pr_PriceID r) = [] \<and> trim_space (pr_VariantID r) = [] \<and>
            trim_space (pr_LookupKey r) = []
          then Some (PlainError ''must contain a provider identifier'' []) else None)"

definition validateBillingInstants :: "gotime option list \<Rightarrow> go_error option" where
  "validateBillingInstants values =
     (if Some zero_time \<in> set values then Some (PlainError ''timestamps must be valid instants'' []) else None)"

definition has_prefix :: "string \<Rightarrow> string \<Rightarrow> bool" where
  "has_prefix s p \<longleftrightarrow> take (length p) s = p"

text \<open>\<open>if condition { return fmt.Errorf("bursar: billing event %q ...", e.Type) }\<close>, and the same around an error.\<close>

definition event_check :: "BillingEvent \<Rightarrow> bool \<Rightarrow> string \<Rightarrow> go_error option" where
  "event_check e bad message =
     (if bad then Some (PlainError (''bursar: billing event '' @ fmt_quote (be_Type e) @ message) []) else None)"

definition event_wrap :: "BillingEvent \<Rightarrow> string \<Rightarrow> go_error option \<Rightarrow> go_error option" where
  "event_wrap e message err =
     map_option (\<lambda>x. PlainError (''bursar: billing event '' @ fmt_quote (be_Type e) @ message @ error_text x) [x]) err"

fun first_error :: "go_error option list \<Rightarrow> go_error option" where
  "first_error [] = None"
| "first_error (None # es) = first_error es"
| "first_error (Some e # es) = Some e"

definition part_checks :: "'a option \<Rightarrow> ('a \<Rightarrow> go_error option list) \<Rightarrow> go_error option list" where
  "part_checks part checks = (case part of None \<Rightarrow> [] | Some x \<Rightarrow> checks x)"

definition envelope_checks :: "BillingEvent \<Rightarrow> go_error option list" where
  "envelope_checks e =
     [if trim_space (canonicalEventID e) = [] then Some (PlainError ''bursar: billing event id is required'' []) else None,
      if trim_space (be_Provider e) = [] then Some (PlainError ''bursar: billing event provider is required'' []) else None,
      if trim_space (be_Type e) = [] then Some (PlainError ''bursar: billing event type is required'' []) else None,
      if be_OccurredAt e = zero_time
      then Some (PlainError ''bursar: billing event occurrence time is required'' []) else None,
      if \<not> IsBillingLifecycleEventType (be_Type e)
      then Some (PlainError (''bursar: unsupported billing event type '' @ fmt_quote (be_Type e)) []) else None]"

text \<open>The switch: at most one of the prefixes fits a type.\<close>

definition payload_checks :: "BillingEvent \<Rightarrow> go_error option list" where
  "payload_checks e =
     [event_check e (has_prefix (be_Type e) ''customer.'' \<and> be_Customer e = None) '' requires customer data'',
      event_check e (has_prefix (be_Type e) ''subscription.'' \<and> be_Subscription e = None) '' requires subscription data'',
      event_check e (has_prefix (be_Type e) ''invoice.'' \<and> be_Invoice e = None) '' requires invoice data'',
      event_check e (has_prefix (be_Type e) ''payment.'' \<and> be_Payment e = None) '' requires payment data'',
      event_check e (has_prefix (be_Type e) ''refund.'' \<and> be_Refund e = None) '' requires refund data'',
      event_check e (has_prefix (be_Type e) ''dispute.'' \<and> be_Dispute e = None) '' requires dispute data'']"

definition customer_checks :: "BillingEvent \<Rightarrow> BillingCustomer \<Rightarrow> go_error option list" where
  "customer_checks e c =
     [event_check e (canonicalProviderCustomerID c = [] \<and> trim_space (bc_Email c) = [])
        '' customer requires a provider customer ID or email'']"

definition subscription_checks :: "BillingEvent \<Rightarrow> BillingSubscription \<Rightarrow> go_error option list" where
  "subscription_checks e s =
     [event_check e (canonicalProviderSubscriptionID s = []) '' subscription provider ID is required'',
      event_check e (bs_Status s \<noteq> [] \<and> \<not> billingSubscriptionStatus (bs_Status s))
        ('' subscription status '' @ fmt_quote (bs_Status s) @ '' is unsupported''),
      event_check e (bs_Interval s \<noteq> [] \<and> \<not> billingInterval (bs_Interval s))
        ('' subscription interval '' @ fmt_quote (bs_Interval s) @ '' is unsupported''),
      event_check e (bs_IntervalCount s < 0 \<or> bs_Interval s \<noteq> [] \<and> bs_IntervalCount s = 0)
        '' subscription interval count must be positive'',
      event_wrap e '' subscription reference: '' (validateProviderRef (bs_Refs s)),
      event_wrap e '' subscription: ''
        (validateBillingInstants [bs_PeriodStart s, bs_PeriodEnd s, bs_TrialEnd s, bs_CancelAt s, bs_EndedAt s])]"

definition invoice_checks :: "BillingEvent \<Rightarrow> BillingInvoice \<Rightarrow> go_error option list" where
  "invoice_checks e i =
     [event_check e (canonicalProviderInvoiceID i = []) '' invoice provider ID is required'',
      event_check e (\<not> oneOf (bi_Status i) [''draft'', ''open'', ''paid'', ''void'', ''uncollectible''])
        ('' invoice status '' @ fmt_quote (bi_Status i) @ '' is unsupported''),
      event_check e (bi_AmountPaidMinor i < 0 \<or> bi_AmountDueMinor i < 0)
        '' invoice amounts must be non-negative minor units'',
      event_check e (\<not> billingCurrency (bi_Currency i)) '' invoice currency must be an uppercase three-letter code'',
      event_wrap e '' invoice: '' (validateBillingInstants [bi_PeriodStart i, bi_PeriodEnd i])]"

definition payment_checks :: "BillingEvent \<Rightarrow> BillingPayment \<Rightarrow> go_error option list" where
  "payment_checks e p =
     [event_check e (canonicalProviderPaymentID p = []) '' payment provider ID is required'',
      event_check e (bp_AmountMinor p < 0 \<or> bp_TaxMinor p < 0) '' payment amounts must be non-negative minor units'',
      event_check e (\<not> billingCurrency (bp_Currency p)) '' payment currency must be an uppercase three-letter code'',
      event_check e (\<not> oneOf (bp_Purpose p) [''subscription'', ''credit_topup''])
        ('' payment purpose '' @ fmt_quote (bp_Purpose p) @ '' is unsupported''),
      event_check e (\<not> billingPaymentStatus (bp_Status p))
        ('' payment status '' @ fmt_quote (bp_Status p) @ '' is unsupported''),
      event_wrap e '' payment reference: '' (validateProviderRef (bp_Refs p))]"

definition refund_checks :: "BillingEvent \<Rightarrow> BillingRefund \<Rightarrow> go_error option list" where
  "refund_checks e r =
     [event_check e (canonicalProviderRefundID r = [] \<or> refund_canonicalProviderPaymentID r = [])
        '' refund provider refund and payment IDs are required'',
      event_check e (br_AmountMinor r \<le> 0) '' refund amount must be positive minor units'',
      event_check e (\<not> billingCurrency (br_Currency r)) '' refund currency must be an uppercase three-letter code'',
      event_check e (\<not> billingPaymentStatus (br_Status r))
        ('' refund status '' @ fmt_quote (br_Status r) @ '' is unsupported'')]"

definition dispute_checks :: "BillingEvent \<Rightarrow> BillingDispute \<Rightarrow> go_error option list" where
  "dispute_checks e d =
     [event_check e (canonicalProviderDisputeID d = [] \<or> dispute_canonicalProviderPaymentID d = [])
        '' dispute provider dispute and payment IDs are required'',
      event_check e (\<not> oneOf (bd_Status d) [''needs_response'', ''under_review'', ''won'', ''lost'', ''closed''])
        ('' dispute status '' @ fmt_quote (bd_Status d) @ '' is unsupported'')]"

definition BillingEvent_Validate :: "BillingEvent \<Rightarrow> go_error option" where
  "BillingEvent_Validate e = first_error
     (envelope_checks e @ payload_checks e @ part_checks (be_Customer e) (customer_checks e) @
      part_checks (be_Subscription e) (subscription_checks e) @ part_checks (be_Invoice e) (invoice_checks e) @
      part_checks (be_Payment e) (payment_checks e) @ part_checks (be_Refund e) (refund_checks e) @
      part_checks (be_Dispute e) (dispute_checks e))"

section \<open>The claim envelope\<close>

text \<open>\<open>t.UTC().Format(time.RFC3339Nano)\<close>: the fraction without its trailing zeros, and without the point when it is zero.\<close>

definition pad_digits :: "nat \<Rightarrow> int \<Rightarrow> string" where
  "pad_digits width n =
     (let digits = show_nat (nat \<bar>n\<bar>)
      in (if n < 0 then ''-'' else []) @ replicate (width - length digits) (CHR ''0'') @ digits)"

definition fraction_digits :: "int \<Rightarrow> string" where
  "fraction_digits nanos =
     (if nanos = 0 then [] else ''.'' @ rev (dropWhile (\<lambda>c. c = CHR ''0'') (rev (pad_digits 9 nanos))))"

definition rfc3339_nano :: "gotime \<Rightarrow> string" where
  "rfc3339_nano t =
     (let day = t div day_ns; clock = t mod day_ns; month = month_of_day day
      in pad_digits 4 (month div 12) @ ''-'' @ pad_digits 2 (month mod 12 + 1) @ ''-'' @
         pad_digits 2 (day - month_start month + 1) @ ''T'' @
         pad_digits 2 (clock div hour) @ '':'' @ pad_digits 2 (clock mod hour div (60 * second)) @ '':'' @
         pad_digits 2 (clock mod (60 * second) div second) @ fraction_digits (clock mod second) @ ''Z'')"

definition billing_text :: "string \<Rightarrow> string \<Rightarrow> goval gomap" where
  "billing_text key v = (if trim_space v \<noteq> [] then [(key, VStr (trim_space v))] else [])"

definition billing_time :: "string \<Rightarrow> gotime option \<Rightarrow> goval gomap" where
  "billing_time key v = (case v of None \<Rightarrow> [] | Some t \<Rightarrow> [(key, VStr (rfc3339_nano t))])"

definition billingMetadataString :: "goval gomap option \<Rightarrow> string \<Rightarrow> string" where
  "billingMetadataString metadata key =
     (case metadata of
        None \<Rightarrow> []
      | Some m \<Rightarrow> (case map_of m key of Some (VStr v) \<Rightarrow> trim_space v | _ \<Rightarrow> []))"

definition billingProviderRefEnvelope :: "ProviderRef \<Rightarrow> goval gomap" where
  "billingProviderRefEnvelope r = billing_text ''productId'' (pr_ProductID r) @ billing_text ''priceId'' (pr_PriceID r) @
     billing_text ''variantId'' (pr_VariantID r) @ billing_text ''lookupKey'' (pr_LookupKey r)"

definition refs_envelope :: "ProviderRef option \<Rightarrow> goval gomap" where
  "refs_envelope refs = (case refs of None \<Rightarrow> [] | Some r \<Rightarrow> [(''refs'', VObj (billingProviderRefEnvelope r))])"

definition customer_envelope :: "BillingCustomer \<Rightarrow> goval gomap" where
  "customer_envelope c =
     (if canonicalProviderCustomerID c \<noteq> [] then [(''providerCustomerId'', VStr (canonicalProviderCustomerID c))] else []) @
     billing_text ''email'' (bc_Email c)"

definition subscription_envelope :: "BillingSubscription \<Rightarrow> goval gomap" where
  "subscription_envelope s =
     [(''providerSubscriptionId'', VStr (canonicalProviderSubscriptionID s)),
      (''cancelAtPeriodEnd'', VBool (bs_CancelAtPeriodEnd s))] @
     billing_text ''status'' (bs_Status s) @
     billing_time ''periodStart'' (if bs_PeriodStart s = None then bs_CurrentPeriodStart s else bs_PeriodStart s) @
     billing_time ''periodEnd'' (if bs_PeriodEnd s = None then bs_CurrentPeriodEnd s else bs_PeriodEnd s) @
     billing_time ''trialEnd'' (bs_TrialEnd s) @ billing_time ''cancelAt'' (bs_CancelAt s) @
     billing_time ''endedAt'' (bs_EndedAt s) @ refs_envelope (bs_Refs s) @ billing_text ''interval'' (bs_Interval s) @
     (if bs_IntervalCount s \<noteq> 0 then [(''intervalCount'', VInt (bs_IntervalCount s))] else [])"

definition invoice_envelope :: "BillingInvoice \<Rightarrow> goval gomap" where
  "invoice_envelope i =
     [(''providerInvoiceId'', VStr (canonicalProviderInvoiceID i)), (''status'', VStr (bi_Status i)),
      (''amountPaidMinor'', VInt (bi_AmountPaidMinor i)), (''amountDueMinor'', VInt (bi_AmountDueMinor i)),
      (''currency'', VStr (bi_Currency i))] @
     billing_time ''periodStart'' (bi_PeriodStart i) @ billing_time ''periodEnd'' (bi_PeriodEnd i)"

definition payment_envelope :: "BillingPayment \<Rightarrow> goval gomap" where
  "payment_envelope p =
     [(''providerPaymentId'', VStr (canonicalProviderPaymentID p)), (''amountMinor'', VInt (bp_AmountMinor p)),
      (''taxMinor'', VInt (bp_TaxMinor p)), (''currency'', VStr (bp_Currency p)), (''purpose'', VStr (bp_Purpose p)),
      (''status'', VStr (bp_Status p))] @ refs_envelope (bp_Refs p)"

definition refund_envelope :: "BillingRefund \<Rightarrow> goval gomap" where
  "refund_envelope r =
     [(''providerRefundId'', VStr (canonicalProviderRefundID r)),
      (''providerPaymentId'', VStr (refund_canonicalProviderPaymentID r)), (''amountMinor'', VInt (br_AmountMinor r)),
      (''currency'', VStr (br_Currency r)), (''status'', VStr (br_Status r))] @ billing_text ''reason'' (br_Reason r)"

definition dispute_envelope :: "BillingDispute \<Rightarrow> goval gomap" where
  "dispute_envelope d =
     [(''providerDisputeId'', VStr (canonicalProviderDisputeID d)),
      (''providerPaymentId'', VStr (dispute_canonicalProviderPaymentID d)), (''status'', VStr (bd_Status d))] @
     billing_text ''reason'' (bd_Reason d)"

definition part_envelope :: "string \<Rightarrow> ('a \<Rightarrow> goval gomap) \<Rightarrow> 'a option \<Rightarrow> goval gomap" where
  "part_envelope key f part = (case part of None \<Rightarrow> [] | Some x \<Rightarrow> [(key, VObj (f x))])"

definition billingEventClaimEnvelope :: "BillingEvent \<Rightarrow> goval gomap" where
  "billingEventClaimEnvelope e =
     [(''eventId'', VStr (canonicalEventID e)), (''provider'', VStr (trim_space (be_Provider e))),
      (''eventType'', VStr (be_Type e))] @
     billing_text ''accountId'' (be_AccountID e) @ part_envelope ''customer'' customer_envelope (be_Customer e) @
     part_envelope ''subscription'' subscription_envelope (be_Subscription e) @
     part_envelope ''invoice'' invoice_envelope (be_Invoice e) @ part_envelope ''payment'' payment_envelope (be_Payment e) @
     part_envelope ''refund'' refund_envelope (be_Refund e) @ part_envelope ''dispute'' dispute_envelope (be_Dispute e) @
     (case be_Metadata e of None \<Rightarrow> [] | Some m \<Rightarrow> [(''metadata'', VObj m)])"

section \<open>Lemmas\<close>

lemma canonical_id_trimmed [simp]: "trim_space (canonical_id a b) = canonical_id a b"
  by (simp add: canonical_id_def trim_space_idem)

text \<open>The financial content of an event: what is claimed under which identity, and the amounts.\<close>

definition financial ::
  "BillingEvent \<Rightarrow> (string \<times> string \<times> string) \<times> (string \<times> int \<times> int \<times> string \<times> string \<times> string) option \<times>
     (string \<times> string \<times> int \<times> string \<times> string) option \<times> (string \<times> string \<times> int \<times> int \<times> string) option" where
  "financial e =
     ((canonicalEventID e, trim_space (be_Provider e), be_Type e),
      map_option (\<lambda>p. (canonicalProviderPaymentID p, bp_AmountMinor p, bp_TaxMinor p, bp_Currency p, bp_Purpose p, bp_Status p))
        (be_Payment e),
      map_option (\<lambda>r. (canonicalProviderRefundID r, refund_canonicalProviderPaymentID r, br_AmountMinor r, br_Currency r,
        br_Status r)) (be_Refund e),
      map_option (\<lambda>i. (canonicalProviderInvoiceID i, bi_Status i, bi_AmountPaidMinor i, bi_AmountDueMinor i, bi_Currency i))
        (be_Invoice e))"

text \<open>What the envelope leaves out: the transport payload, the claim's own identifier, and links and metadata of the parts.\<close>

definition same_envelope_content :: "BillingEvent \<Rightarrow> BillingEvent \<Rightarrow> bool" where
  "same_envelope_content e f \<longleftrightarrow>
     canonicalEventID e = canonicalEventID f \<and> trim_space (be_Provider e) = trim_space (be_Provider f) \<and>
     be_Type e = be_Type f \<and> trim_space (be_AccountID e) = trim_space (be_AccountID f) \<and>
     map_option customer_envelope (be_Customer e) = map_option customer_envelope (be_Customer f) \<and>
     map_option subscription_envelope (be_Subscription e) = map_option subscription_envelope (be_Subscription f) \<and>
     map_option invoice_envelope (be_Invoice e) = map_option invoice_envelope (be_Invoice f) \<and>
     map_option payment_envelope (be_Payment e) = map_option payment_envelope (be_Payment f) \<and>
     map_option refund_envelope (be_Refund e) = map_option refund_envelope (be_Refund f) \<and>
     map_option dispute_envelope (be_Dispute e) = map_option dispute_envelope (be_Dispute f) \<and>
     be_Metadata e = be_Metadata f"

lemma part_envelope_map: "part_envelope key f part = (case map_option f part of None \<Rightarrow> [] | Some x \<Rightarrow> [(key, VObj x)])"
  by (simp add: part_envelope_def split: option.split)

lemma envelope_lookup:
  "map_of (billingEventClaimEnvelope e) ''eventId'' = Some (VStr (canonicalEventID e))"
  "map_of (billingEventClaimEnvelope e) ''provider'' = Some (VStr (trim_space (be_Provider e)))"
  "map_of (billingEventClaimEnvelope e) ''eventType'' = Some (VStr (be_Type e))"
  "map_of (billingEventClaimEnvelope e) ''payment'' = map_option (VObj \<circ> payment_envelope) (be_Payment e)"
  "map_of (billingEventClaimEnvelope e) ''refund'' = map_option (VObj \<circ> refund_envelope) (be_Refund e)"
  "map_of (billingEventClaimEnvelope e) ''invoice'' = map_option (VObj \<circ> invoice_envelope) (be_Invoice e)"
  by (simp_all add: billingEventClaimEnvelope_def part_envelope_def billing_text_def map_add_def split: option.split)

lemma envelope_amounts:
  "payment_envelope p = payment_envelope q \<Longrightarrow>
     canonicalProviderPaymentID p = canonicalProviderPaymentID q \<and> bp_AmountMinor p = bp_AmountMinor q \<and>
     bp_TaxMinor p = bp_TaxMinor q \<and> bp_Currency p = bp_Currency q \<and> bp_Purpose p = bp_Purpose q \<and> bp_Status p = bp_Status q"
  "refund_envelope r = refund_envelope t \<Longrightarrow>
     canonicalProviderRefundID r = canonicalProviderRefundID t \<and>
     refund_canonicalProviderPaymentID r = refund_canonicalProviderPaymentID t \<and> br_AmountMinor r = br_AmountMinor t \<and>
     br_Currency r = br_Currency t \<and> br_Status r = br_Status t"
  "invoice_envelope i = invoice_envelope j \<Longrightarrow>
     canonicalProviderInvoiceID i = canonicalProviderInvoiceID j \<and> bi_Status i = bi_Status j \<and>
     bi_AmountPaidMinor i = bi_AmountPaidMinor j \<and> bi_AmountDueMinor i = bi_AmountDueMinor j \<and> bi_Currency i = bi_Currency j"
  by (simp_all add: payment_envelope_def refund_envelope_def invoice_envelope_def)

lemma envelope_financial:
  assumes "billingEventClaimEnvelope e = billingEventClaimEnvelope f"
  shows "financial e = financial f"
proof -
  have "map_option (VObj \<circ> payment_envelope) (be_Payment e) = map_option (VObj \<circ> payment_envelope) (be_Payment f)"
    "map_option (VObj \<circ> refund_envelope) (be_Refund e) = map_option (VObj \<circ> refund_envelope) (be_Refund f)"
    "map_option (VObj \<circ> invoice_envelope) (be_Invoice e) = map_option (VObj \<circ> invoice_envelope) (be_Invoice f)"
    using assms by (metis envelope_lookup(4)) (metis assms envelope_lookup(5), metis assms envelope_lookup(6))
  moreover have "canonicalEventID e = canonicalEventID f" "trim_space (be_Provider e) = trim_space (be_Provider f)"
    "be_Type e = be_Type f"
    using assms by (metis envelope_lookup(1) goval.inject(1) option.inject)
      (metis assms envelope_lookup(2) goval.inject(1) option.inject, metis assms envelope_lookup(3) goval.inject(1) option.inject)
  ultimately show ?thesis
    by (cases "be_Payment e"; cases "be_Payment f"; cases "be_Refund e"; cases "be_Refund f";
        cases "be_Invoice e"; cases "be_Invoice f") (auto simp: financial_def dest!: envelope_amounts)
qed

section \<open>Properties\<close>

text \<open>
  C16. The document stored with a claim determines the financial content of the event (its identity, and the
  identifiers, amounts, currencies and states of its payment, refund and invoice), and it depends on nothing beyond
  the parts listed: two events that differ in the transport payload, in the identifier of a claim, or in the links
  and metadata of the parts have the same document.
\<close>

theorem claim_envelope_faithful:
  "(billingEventClaimEnvelope e = billingEventClaimEnvelope f \<longrightarrow> financial e = financial f) \<and>
   (same_envelope_content e f \<longrightarrow> billingEventClaimEnvelope e = billingEventClaimEnvelope f) \<and>
   billingEventClaimEnvelope (e\<lparr>be_RawPayload := raw, be_BillingEventID := claim, be_OccurredAt := t\<rparr>) =
     billingEventClaimEnvelope e"
proof (intro conjI impI)
  show "financial e = financial f" if "billingEventClaimEnvelope e = billingEventClaimEnvelope f"
    using that by (rule envelope_financial)
  show "billingEventClaimEnvelope e = billingEventClaimEnvelope f" if "same_envelope_content e f"
    using that unfolding same_envelope_content_def
    by (simp add: billingEventClaimEnvelope_def part_envelope_map billing_text_def)
qed (simp add: billingEventClaimEnvelope_def canonicalEventID_def)

definition refund_event :: BillingEvent where
  "refund_event =
     \<lparr>be_EventID = ''e1'', be_ID = [], be_Provider = ''stripe'', be_Type = ''refund.created'', be_OccurredAt = 0,
      be_AccountID = ''u1'', be_BillingEventID = [], be_Customer = None, be_Subscription = None, be_Invoice = None,
      be_Payment = None, be_Refund = Some \<lparr>br_ProviderRefundID = ''re1'', br_ProviderPaymentID = ''pi1'', br_ID = [],
        br_Provider = ''stripe'', br_PaymentID = [], br_Status = ''succeeded'', br_Currency = ''USD'', br_AmountMinor = 500,
        br_Reason = [], br_Metadata = None\<rparr>,
      be_Dispute = None, be_Metadata = None, be_RawPayload = ''raw''\<rparr>"

theorem claim_envelope_faithful_witness:
  "same_envelope_content refund_event (refund_event\<lparr>be_RawPayload := ''other''\<rparr>) \<and>
   billingEventClaimEnvelope refund_event = billingEventClaimEnvelope (refund_event\<lparr>be_RawPayload := ''other''\<rparr>) \<and>
   financial refund_event = financial (refund_event\<lparr>be_RawPayload := ''other''\<rparr>) \<and> refund_event \<noteq> refund_event\<lparr>be_RawPayload := ''other''\<rparr>"
proof -
  have "same_envelope_content refund_event (refund_event\<lparr>be_RawPayload := ''other''\<rparr>)"
    by (simp add: same_envelope_content_def canonicalEventID_def)
  moreover have "refund_event \<noteq> refund_event\<lparr>be_RawPayload := ''other''\<rparr>" by (simp add: refund_event_def)
  ultimately show ?thesis
    using claim_envelope_faithful [of refund_event "refund_event\<lparr>be_RawPayload := ''other''\<rparr>"] by blast
qed

end
