(* ===== verification/Billing.thy ===== *)
theory Billing
  imports Billing_Events Outbox
begin

text \<open>
  \<open>billing.go\<close>, the billing service: construction, registration of handlers, and the ingestion of one verified event.
  The store, its optional capabilities and the application's handlers are parameters over an abstract state. The model
  keeps a log of the claim, of the work done for the event and of the call that ends the claim. The maps of handlers
  are read under a lock and copied, so an ingestion sees one version of each.
\<close>

section \<open>Claims and results\<close>

record BillingEventClaim =
  cl_State :: string
  cl_ClaimToken :: string
  cl_BillingEventID :: string
  cl_Attempts :: int
  cl_Reason :: string

record BillingEventResult =
  ber_Handled :: bool
  ber_Duplicate :: bool
  ber_Ignored :: bool
  ber_Retryable :: bool
  ber_AccountID :: string
  ber_Action :: string
  ber_Error :: string
  ber_SubscriptionID :: string

definition zero_BillingResult :: BillingEventResult where
  "zero_BillingResult = \<lparr>ber_Handled = False, ber_Duplicate = False, ber_Ignored = False, ber_Retryable = False,
     ber_AccountID = [], ber_Action = [], ber_Error = [], ber_SubscriptionID = []\<rparr>"

record CheckoutIntentUpdate =
  ciu_ProviderSessionID :: string
  ciu_ProviderURL :: string
  ciu_CustomerID :: string
  ciu_Status :: string

section \<open>Ports\<close>

record 'w BillingProvisioningPort =
  bpp_GetUserPlan :: "string \<Rightarrow> ('w, GetUserPlanResult) op"
  bpp_SetUserPlan :: "string \<Rightarrow> string \<Rightarrow> SetUserPlanOptions \<Rightarrow> ('w, SetUserPlanResult) op"
  bpp_UnsetUserPlan :: "string \<Rightarrow> ('w, UnsetUserPlanResult) op"

type_synonym 'w lifecycle_processor = "BillingEvent \<Rightarrow> string \<Rightarrow> ('w, BillingEventResult) op"

text \<open>The store; an optional interface that it may implement is an option.\<close>

record 'w BillingStore =
  bst_ProviderEnvironment :: string
  bst_ClaimBillingEvent :: "BillingEvent \<Rightarrow> goval gomap \<Rightarrow> ('w, BillingEventClaim) op"
  bst_CompleteBillingEvent :: "string \<Rightarrow> string \<Rightarrow> string \<Rightarrow> ('w, bool) op"
  bst_FailBillingEvent :: "string \<Rightarrow> string \<Rightarrow> string \<Rightarrow> string \<Rightarrow> ('w, bool) op"
  bst_ResolveBillingEventAccount :: "(BillingEvent \<Rightarrow> ('w, string) op) option"
  bst_processBillingEvent ::
    "('w BillingProvisioningPort option \<Rightarrow> bool \<Rightarrow> duration \<Rightarrow> string \<Rightarrow> 'w lifecycle_processor) option"
  bst_ProcessBillingEvent :: "'w lifecycle_processor option"
  bst_UpdateCheckoutIntent :: "(string \<Rightarrow> string \<Rightarrow> CheckoutIntentUpdate \<Rightarrow> ('w, unit) op) option"

type_synonym 'w BillingEventHandler = "BillingEvent \<Rightarrow> string \<Rightarrow> ('w, unit) op"

text \<open>A callback; the flag says that it panicked, which the caller recovers from.\<close>

type_synonym 'w BillingEventCallback = "BillingEvent \<Rightarrow> string \<Rightarrow> 'w \<Rightarrow> bool \<times> 'w"

record 'w BillingService =
  bsv_store :: "'w BillingStore"
  bsv_handlers :: "'w BillingEventHandler gomap"
  bsv_eventHandlers :: "'w BillingEventCallback gomap"
  bsv_defaultHandler :: "'w BillingEventHandler option"
  bsv_provisioning :: "'w BillingProvisioningPort option"
  bsv_autoSelectEntitlementSource :: bool
  bsv_pastDueGracePeriod :: duration
  bsv_terminalPlanKey :: string

record 'w BillingServiceOptions =
  bso_Handlers :: "'w BillingEventHandler option gomap"
  bso_DefaultHandler :: "'w BillingEventHandler option"
  bso_EventHandlers :: "'w BillingEventCallback option gomap"
  bso_Provisioning :: "'w BillingProvisioningPort option"
  bso_AutoSelectEntitlementSource :: "bool option"
  bso_PastDueGracePeriod :: "duration option"
  bso_TerminalPlanKey :: string

section \<open>Construction\<close>

definition plain_error :: "string \<Rightarrow> go_error" where
  "plain_error message = PlainError message []"

definition billing_On ::
  "'w BillingService \<Rightarrow> string \<Rightarrow> 'w BillingEventHandler option \<Rightarrow> go_error + 'w BillingService" where
  "billing_On s eventType handler =
     (case handler of
        None \<Rightarrow> Inl (plain_error ''bursar: billing event type and handler are required'')
      | Some h \<Rightarrow>
          if trim_space eventType = [] then Inl (plain_error ''bursar: billing event type and handler are required'')
          else Inr (s\<lparr>bsv_handlers := map_put eventType h (bsv_handlers s)\<rparr>))"

definition SetDefaultHandler :: "'w BillingService \<Rightarrow> 'w BillingEventHandler option \<Rightarrow> 'w BillingService" where
  "SetDefaultHandler s handler = s\<lparr>bsv_defaultHandler := handler\<rparr>"

definition OnEvent ::
  "'w BillingService \<Rightarrow> string \<Rightarrow> 'w BillingEventCallback option \<Rightarrow> go_error + 'w BillingService" where
  "OnEvent s eventType callback =
     (case callback of
        None \<Rightarrow> Inl (plain_error ''bursar: billing event type and callback are required'')
      | Some c \<Rightarrow>
          if trim_space eventType = [] then Inl (plain_error ''bursar: billing event type and callback are required'')
          else Inr (s\<lparr>bsv_eventHandlers := map_put eventType c (bsv_eventHandlers s)\<rparr>))"

text \<open>The two loops over the keys of a map in their order.\<close>

fun register_all ::
  "('s \<Rightarrow> string \<Rightarrow> 'h option \<Rightarrow> go_error + 's) \<Rightarrow> 'h option gomap \<Rightarrow> string list \<Rightarrow> 's \<Rightarrow> go_error + 's" where
  "register_all on m [] s = Inr s"
| "register_all on m (key # keys) s =
     bind_err (on s key (case map_of m key of None \<Rightarrow> None | Some h \<Rightarrow> h)) (register_all on m keys)"

definition applyBillingOptions ::
  "'w BillingService \<Rightarrow> 'w BillingServiceOptions \<Rightarrow> go_error + 'w BillingService" where
  "applyBillingOptions service options =
     bind_err (register_all billing_On (bso_Handlers options) (sort_by str_less (map_keys (bso_Handlers options))) service)
       (\<lambda>s1.
     bind_err (register_all OnEvent (bso_EventHandlers options) (sort_by str_less (map_keys (bso_EventHandlers options)))
         (SetDefaultHandler s1 (bso_DefaultHandler options))) (\<lambda>s2.
     let s3 = s2\<lparr>bsv_provisioning := (if bso_Provisioning options \<noteq> None then bso_Provisioning options else bsv_provisioning s2),
          bsv_autoSelectEntitlementSource := (case bso_AutoSelectEntitlementSource options of None \<Rightarrow> True | Some b \<Rightarrow> b)\<rparr>
     in case bso_PastDueGracePeriod options of
          None \<Rightarrow> Inr (s3\<lparr>bsv_terminalPlanKey := bso_TerminalPlanKey options\<rparr>)
        | Some d \<Rightarrow>
            if d < 0
            then Inl (NewError ''billing past-due grace period must be non-negative''
                   (code_category ErrorCodeConfig ErrorCategoryInvalidRequest))
            else Inr (s3\<lparr>bsv_pastDueGracePeriod := d, bsv_terminalPlanKey := bso_TerminalPlanKey options\<rparr>)))"

definition NewBillingService ::
  "'w BillingStore option \<Rightarrow> 'w BillingServiceOptions list \<Rightarrow> go_error + 'w BillingService" where
  "NewBillingService store options =
     (case store of
        None \<Rightarrow> Inl (plain_error ''bursar: billing store is required'')
      | Some st \<Rightarrow>
          if length options > 1 then Inl (plain_error ''bursar: billing service accepts at most one options value'')
          else case ProviderEnvironment_Validate (bst_ProviderEnvironment st) of
            Some e \<Rightarrow> Inl e
          | None \<Rightarrow>
              let service = \<lparr>bsv_store = st, bsv_handlers = [], bsv_eventHandlers = [], bsv_defaultHandler = None,
                    bsv_provisioning = None, bsv_autoSelectEntitlementSource = True,
                    bsv_pastDueGracePeriod = 7 * 24 * hour, bsv_terminalPlanKey = []\<rparr>
              in (case options of [] \<Rightarrow> Inr service | o1 # _ \<Rightarrow> applyBillingOptions service o1))"

section \<open>Ingestion\<close>

datatype billing_call =
    EventClaimed string string BillingEventClaim "go_error option"
  | EventWorked BillingEvent string
  | IntentExpired string string
  | EventCompleted string string string bool "go_error option"
  | EventFailed string string string string bool "go_error option"
  | EventNotified BillingEvent string

record 'w billing_world =
  bw_state :: 'w
  bw_log :: "billing_call list"

definition billing_port :: "('w, 'r) op \<Rightarrow> ('w billing_world, 'r) op" where
  "billing_port m = (\<lambda>w. case m (bw_state w) of (x, s) \<Rightarrow> (x, w\<lparr>bw_state := s\<rparr>))"

definition billing_logged ::
  "('r \<Rightarrow> go_error option \<Rightarrow> billing_call) \<Rightarrow> ('w, 'r) op \<Rightarrow> ('w billing_world, 'r) op" where
  "billing_logged entry m = (\<lambda>w. case m (bw_state w) of
     ((r, e), s) \<Rightarrow> ((r, e), w\<lparr>bw_state := s, bw_log := bw_log w @ [entry r e]\<rparr>))"

definition wrap_error :: "string \<Rightarrow> go_error \<Rightarrow> go_error" where
  "wrap_error message err = PlainError (message @ error_text err) [err]"

definition fireEventHandler ::
  "'w BillingService \<Rightarrow> BillingEvent \<Rightarrow> string \<Rightarrow> 'w billing_world \<Rightarrow> 'w billing_world" where
  "fireEventHandler s event accountID w =
     (if trim_space accountID = [] then w
      else case map_of (bsv_eventHandlers s) (be_Type event) of
        None \<Rightarrow> w
      | Some callback \<Rightarrow>
          w\<lparr>bw_state := snd (callback event accountID (bw_state w)), bw_log := bw_log w @ [EventNotified event accountID]\<rparr>)"

definition complete_event ::
  "'w BillingService \<Rightarrow> BillingEvent \<Rightarrow> string \<Rightarrow> ('w billing_world, bool) op" where
  "complete_event s event token =
     billing_logged (EventCompleted (be_Provider event) (canonicalEventID event) token)
       (bst_CompleteBillingEvent (bsv_store s) (be_Provider event) (canonicalEventID event) token)"

definition billing_fail ::
  "'w BillingService \<Rightarrow> BillingEvent \<Rightarrow> string \<Rightarrow> go_error \<Rightarrow> ('w billing_world, BillingEventResult) op" where
  "billing_fail s event token err =
     (let message = persistedDiagnosticSummary (Some err) ''billing_event_failed''
      in bind_op (billing_logged (EventFailed (be_Provider event) (canonicalEventID event) token message)
             (bst_FailBillingEvent (bsv_store s) (be_Provider event) (canonicalEventID event) token message))
           (\<lambda>failed e. case e of
              Some f \<Rightarrow> return_err zero_BillingResult
                (wrap_error (''bursar: fail billing event after handler error '' @ fmt_quote message @ '': '') f)
            | None \<Rightarrow>
                if \<not> failed
                then return_err zero_BillingResult
                  (wrap_error (''bursar: billing event '' @ canonicalEventID event @ '' failure claim was lost: '') err)
                else return_err zero_BillingResult err))"

definition no_handler :: "BillingEvent \<Rightarrow> go_error" where
  "no_handler event = plain_error (''no handler for billing event '' @ fmt_quote (be_Type event))"

text \<open>The two branches for a lifecycle processor of the store, which differ in the processor only.\<close>

definition process_lifecycle ::
  "'w BillingService \<Rightarrow> BillingEvent \<Rightarrow> string \<Rightarrow> string \<Rightarrow> 'w lifecycle_processor \<Rightarrow>
   (BillingEventResult option \<Rightarrow> ('w billing_world, BillingEventResult) op) \<Rightarrow> ('w billing_world, BillingEventResult) op" where
  "process_lifecycle s event accountID token processor k =
     bind_op (billing_logged (\<lambda>_ _. EventWorked event accountID) (processor event accountID)) (\<lambda>processed e.
       case e of
         Some err \<Rightarrow> billing_fail s event token err
       | None \<Rightarrow>
           if \<not> ber_Handled processed
           then billing_fail s event token
             (plain_error (''billing lifecycle processor did not handle event '' @ fmt_quote (be_Type event)))
           else k (Some (if ber_AccountID processed = [] then processed\<lparr>ber_AccountID := accountID\<rparr> else processed)))"

definition ignored_event ::
  "'w BillingService \<Rightarrow> BillingEvent \<Rightarrow> string \<Rightarrow> string \<Rightarrow> ('w billing_world, BillingEventResult) op" where
  "ignored_event s event accountID token =
     bind_op (complete_event s event token) (\<lambda>_ e. case e of
        Some err \<Rightarrow> return_err zero_BillingResult (wrap_error ''bursar: complete ignored billing event: '' err)
      | None \<Rightarrow> return_ok (zero_BillingResult\<lparr>ber_Handled := True, ber_Ignored := True, ber_AccountID := accountID\<rparr>))"

definition unhandled_event ::
  "'w BillingService \<Rightarrow> BillingEvent \<Rightarrow> string \<Rightarrow> string \<Rightarrow> ('w billing_world, BillingEventResult) op" where
  "unhandled_event s event accountID token =
     (if be_Type event = ''checkout.expired'' \<or> be_Type event = ''invoice.upcoming'' then
        (let intentID = billingMetadataString (be_Metadata event) ''checkout_intent_id''
         in case bst_UpdateCheckoutIntent (bsv_store s) of
              Some update \<Rightarrow>
                if be_Type event = ''checkout.expired'' \<and> intentID \<noteq> [] then
                  bind_op (billing_logged (\<lambda>_ _. IntentExpired intentID accountID)
                      (update intentID accountID \<lparr>ciu_ProviderSessionID = [], ciu_ProviderURL = [], ciu_CustomerID = [],
                         ciu_Status = ''expired''\<rparr>)) (\<lambda>_ e. case e of
                      Some err \<Rightarrow> billing_fail s event token err
                    | None \<Rightarrow> ignored_event s event accountID token)
                else ignored_event s event accountID token
            | None \<Rightarrow> ignored_event s event accountID token)
      else billing_fail s event token (no_handler event))"

definition finish_event ::
  "'w BillingService \<Rightarrow> BillingEvent \<Rightarrow> string \<Rightarrow> string \<Rightarrow> BillingEventResult option \<Rightarrow>
   ('w billing_world, BillingEventResult) op" where
  "finish_event s event accountID token lifecycleResult =
     bind_op (complete_event s event token) (\<lambda>completed e. case e of
        Some err \<Rightarrow> return_err zero_BillingResult (wrap_error ''bursar: complete billing event: '' err)
      | None \<Rightarrow>
          if \<not> completed
          then return_err zero_BillingResult
            (plain_error (''bursar: billing event '' @ canonicalEventID event @ '' completion claim was lost''))
          else case lifecycleResult of
            Some r \<Rightarrow>
              perform (if \<not> ber_Ignored r then fireEventHandler s event (ber_AccountID r) else id) (return_ok r)
          | None \<Rightarrow>
              perform (fireEventHandler s event accountID)
                (return_ok (zero_BillingResult\<lparr>ber_Handled := True, ber_AccountID := accountID\<rparr>)))"

definition dispatch_event ::
  "'w BillingService \<Rightarrow> BillingEvent \<Rightarrow> string \<Rightarrow> string \<Rightarrow> ('w billing_world, BillingEventResult) op" where
  "dispatch_event s event accountID token =
     (let handler = (case map_of (bsv_handlers s) (be_Type event) of Some h \<Rightarrow> Some h | None \<Rightarrow> bsv_defaultHandler s)
      in case handler of
        Some h \<Rightarrow>
          bind_op (billing_logged (\<lambda>_ _. EventWorked event accountID) (h event accountID)) (\<lambda>_ e. case e of
            Some err \<Rightarrow> billing_fail s event token err
          | None \<Rightarrow> finish_event s event accountID token None)
      | None \<Rightarrow>
          (case (bst_processBillingEvent (bsv_store s), bst_ProcessBillingEvent (bsv_store s),
                 IsBillingLifecycleEventType (be_Type event)) of
             (Some processor, _, True) \<Rightarrow>
               process_lifecycle s event accountID token
                 (processor (bsv_provisioning s) (bsv_autoSelectEntitlementSource s) (bsv_pastDueGracePeriod s)
                    (bsv_terminalPlanKey s)) (finish_event s event accountID token)
           | (_, Some processor, True) \<Rightarrow>
               process_lifecycle s event accountID token processor (finish_event s event accountID token)
           | _ \<Rightarrow> unhandled_event s event accountID token))"

definition claim_event :: "BillingEvent \<Rightarrow> string \<Rightarrow> BillingEvent" where
  "claim_event event billingEventID =
     event\<lparr>be_EventID := canonicalEventID event, be_ID := canonicalEventID event, be_BillingEventID := billingEventID\<rparr>"

definition handle_claimed ::
  "'w BillingService \<Rightarrow> BillingEvent \<Rightarrow> string \<Rightarrow> ('w billing_world, BillingEventResult) op" where
  "handle_claimed s event token =
     (case bst_ResolveBillingEventAccount (bsv_store s) of
        None \<Rightarrow> dispatch_event s event [] token
      | Some resolve \<Rightarrow>
          bind_op (billing_port (resolve event)) (\<lambda>accountID e. case e of
            Some err \<Rightarrow> billing_fail s event token err
          | None \<Rightarrow> dispatch_event s event accountID token))"

definition Ingest ::
  "'w BillingService option \<Rightarrow> BillingEvent \<Rightarrow> ('w billing_world, BillingEventResult) op" where
  "Ingest service event =
     (case service of
        None \<Rightarrow> return_err zero_BillingResult (plain_error ''bursar: billing service is not configured'')
      | Some s \<Rightarrow>
          (case BillingEvent_Validate event of
             Some e \<Rightarrow> return_err zero_BillingResult e
           | None \<Rightarrow>
               bind_op (billing_logged (EventClaimed (be_Provider event) (canonicalEventID event))
                   (bst_ClaimBillingEvent (bsv_store s) event (billingEventClaimEnvelope event))) (\<lambda>claim e.
                 case e of
                   Some err \<Rightarrow> return_err zero_BillingResult (wrap_error ''bursar: claim billing event: '' err)
                 | None \<Rightarrow>
                     if cl_State claim = ''duplicate''
                     then return_ok (zero_BillingResult\<lparr>ber_Handled := True, ber_Duplicate := True\<rparr>)
                     else if cl_State claim = ''busy'' then return_ok (zero_BillingResult\<lparr>ber_Retryable := True\<rparr>)
                     else if cl_State claim = ''rejected''
                     then return_err zero_BillingResult (plain_error (''bursar: billing event '' @ canonicalEventID event @
                       '' was rejected: '' @ cl_Reason claim))
                     else if cl_State claim = ''claimed''
                     then if trim_space (cl_ClaimToken claim) = []
                       then return_err zero_BillingResult
                         (plain_error ''bursar: claimed billing event has no claim token'')
                       else handle_claimed s (claim_event event (cl_BillingEventID claim)) (cl_ClaimToken claim)
                     else return_err zero_BillingResult
                       (plain_error (''bursar: unknown billing event claim state '' @ fmt_quote (cl_State claim))))))"

section \<open>What an ingestion logs\<close>

definition handled_ignored :: "string \<Rightarrow> BillingEventResult" where
  "handled_ignored accountID = zero_BillingResult\<lparr>ber_Handled := True, ber_Ignored := True, ber_AccountID := accountID\<rparr>"

text \<open>
  The log of a claimed event after the claim: the work for it, if there was any, then exactly one call that ends the
  claim with its own token, then at most one notification. Only a completion that the store confirmed makes the
  work a success; an event without a financial effect may be completed without work.
\<close>

inductive claimed_trace ::
  "string \<Rightarrow> string \<Rightarrow> string \<Rightarrow> billing_call list \<Rightarrow> BillingEventResult \<Rightarrow> go_error option \<Rightarrow> bool" for p i token where
  failed: "W = [] \<or> W = [EventWorked ev acc] \<or> W = [IntentExpired x acc] \<Longrightarrow> e \<noteq> None \<Longrightarrow>
    claimed_trace p i token (W @ [EventFailed p i token msg ok fe]) zero_BillingResult e"
| succeeded: "ber_Handled r \<Longrightarrow> N = [] \<or> N = [EventNotified ev acc'] \<Longrightarrow>
    claimed_trace p i token ([EventWorked ev acc, EventCompleted p i token True None] @ N) r None"
| not_completed: "\<not> (ok \<and> ce = None) \<Longrightarrow> e \<noteq> None \<Longrightarrow>
    claimed_trace p i token [EventWorked ev acc, EventCompleted p i token ok ce] zero_BillingResult e"
| ignored: "W = [] \<or> W = [IntentExpired x acc] \<Longrightarrow>
    claimed_trace p i token (W @ [EventCompleted p i token ok None]) (handled_ignored acc') None"
| ignored_failed: "W = [] \<or> W = [IntentExpired x acc] \<Longrightarrow> e \<noteq> None \<Longrightarrow>
    claimed_trace p i token (W @ [EventCompleted p i token ok (Some ce)]) zero_BillingResult e"

definition logs_claimed ::
  "BillingEvent \<Rightarrow> string \<Rightarrow> billing_call list \<Rightarrow> (BillingEventResult \<times> go_error option) \<times> 'w billing_world \<Rightarrow> bool" where
  "logs_claimed event token l out \<longleftrightarrow>
     (\<exists>L. bw_log (state_of out) = l @ L \<and>
       claimed_trace (be_Provider event) (canonicalEventID event) token L (result_of out) (error_of out))"

lemma run_port: obtains r e s where "m (x :: 'w) = ((r, e), s)"
  by (metis prod.collapse)

lemma billing_fail_run:
  "\<exists>msg ok fe. bw_log (state_of (billing_fail s event token err w)) =
     bw_log w @ [EventFailed (be_Provider event) (canonicalEventID event) token msg ok fe]"
  "result_of (billing_fail s event token err w) = zero_BillingResult"
  "error_of (billing_fail s event token err w) \<noteq> None"
  by (auto simp: billing_fail_def Let_def op_simps billing_logged_def split: prod.splits option.splits)

lemma billing_fail_logs:
  assumes "W = [] \<or> W = [EventWorked ev acc] \<or> W = [IntentExpired x acc]" and "bw_log w = l @ W"
  shows "logs_claimed event token l (billing_fail s event token err w)"
proof -
  from billing_fail_run(1) obtain msg ok fe where
    "bw_log (state_of (billing_fail s event token err w)) =
       l @ (W @ [EventFailed (be_Provider event) (canonicalEventID event) token msg ok fe])"
    using assms(2) by (metis append_assoc)
  moreover note failed [OF assms(1) billing_fail_run(3), of "be_Provider event" "canonicalEventID event" token msg ok fe
      s event token err w]
  ultimately show ?thesis unfolding logs_claimed_def billing_fail_run(2) by blast
qed

lemma ignored_logs:
  assumes "W = [] \<or> W = [IntentExpired x acc]" and "bw_log w = l @ W"
  shows "logs_claimed event token l (ignored_event s event accountID token w)"
proof -
  obtain ok ce v where run: "bst_CompleteBillingEvent (bsv_store s) (be_Provider event) (canonicalEventID event) token
      (bw_state w) = ((ok, ce), v)" by (rule run_port)
  show ?thesis
  proof (cases ce)
    case None
    with run assms(2) ignored [OF assms(1), of "be_Provider event" "canonicalEventID event" token ok accountID]
    show ?thesis
      by (auto simp: logs_claimed_def ignored_event_def op_simps complete_event_def billing_logged_def handled_ignored_def)
  next
    case (Some err)
    with run assms(2) ignored_failed [OF assms(1), of "Some (wrap_error ''bursar: complete ignored billing event: '' err)"
        "be_Provider event" "canonicalEventID event" token ok err]
    show ?thesis
      by (auto simp: logs_claimed_def ignored_event_def op_simps complete_event_def billing_logged_def)
  qed
qed

lemma unhandled_logs:
  assumes "bw_log w = l"
  shows "logs_claimed event token l (unhandled_event s event accountID token w)"
proof -
  let ?i = "billingMetadataString (be_Metadata event) ''checkout_intent_id''"
  let ?u = "\<lparr>ciu_ProviderSessionID = [], ciu_ProviderURL = [], ciu_CustomerID = [], ciu_Status = ''expired''\<rparr>"
  have plain: "logs_claimed event token l (ignored_event s event accountID token w)"
    by (rule ignored_logs [of "[]"]) (simp_all add: assms)
  have fail: "logs_claimed event token l (billing_fail s event token (no_handler event) w)"
    by (rule billing_fail_logs [of "[]"]) (simp_all add: assms)
  show ?thesis
  proof (cases "bst_UpdateCheckoutIntent (bsv_store s)")
    case None
    with plain fail show ?thesis by (auto simp: unhandled_event_def Let_def)
  next
    case (Some update)
    obtain u e v where run: "update ?i accountID ?u (bw_state w) = ((u, e), v)" by (rule run_port)
    let ?w = "w\<lparr>bw_state := v, bw_log := bw_log w @ [IntentExpired ?i accountID]\<rparr>"
    have w: "bw_log ?w = l @ [IntentExpired ?i accountID]" by (simp add: assms)
    have "logs_claimed event token l (billing_fail s event token err ?w)" for err
      by (rule billing_fail_logs [of _ event accountID ?i]) (auto simp: w)
    moreover have "logs_claimed event token l (ignored_event s event accountID token ?w)"
      by (rule ignored_logs [of _ ?i accountID]) (auto simp: w)
    moreover have "unhandled_event s event accountID token w =
        (if be_Type event = ''checkout.expired'' \<or> be_Type event = ''invoice.upcoming''
         then if be_Type event = ''checkout.expired'' \<and> ?i \<noteq> []
           then case e of Some err \<Rightarrow> billing_fail s event token err ?w | None \<Rightarrow> ignored_event s event accountID token ?w
           else ignored_event s event accountID token w
         else billing_fail s event token (no_handler event) w)"
      using Some run by (simp add: unhandled_event_def Let_def op_simps billing_logged_def split: option.split)
    ultimately show ?thesis using plain fail by (cases e) simp_all
  qed
qed

lemma fire_log:
  "bw_log (fireEventHandler s event a w) = bw_log w \<or>
   bw_log (fireEventHandler s event a w) = bw_log w @ [EventNotified event a]"
  by (simp add: fireEventHandler_def split: option.split)

lemma finish_logs:
  assumes "bw_log w = l @ [EventWorked event accountID]" and "\<And>x. r = Some x \<Longrightarrow> ber_Handled x"
  shows "logs_claimed event token l (finish_event s event accountID token r w)"
proof -
  let ?p = "be_Provider event" and ?i = "canonicalEventID event"
  obtain ok ce v where run: "bst_CompleteBillingEvent (bsv_store s) ?p ?i token (bw_state w) = ((ok, ce), v)"
    by (rule run_port)
  let ?w = "w\<lparr>bw_state := v, bw_log := bw_log w @ [EventCompleted ?p ?i token ok ce]\<rparr>"
  show ?thesis
  proof (cases "ok \<and> ce = None")
    case False
    with run assms(1) not_completed [OF False] show ?thesis
      by (auto simp: logs_claimed_def finish_event_def op_simps complete_event_def billing_logged_def split: option.split)
  next
    case True
    define res where "res = (case r of Some x \<Rightarrow> x
      | None \<Rightarrow> zero_BillingResult\<lparr>ber_Handled := True, ber_AccountID := accountID\<rparr>)"
    define w' where "w' = (if r \<noteq> None \<and> ber_Ignored res then ?w
      else fireEventHandler s event (case r of Some x \<Rightarrow> ber_AccountID x | None \<Rightarrow> accountID) ?w)"
    have "finish_event s event accountID token r w = ((res, None), w')"
      using True run by (auto simp: finish_event_def op_simps complete_event_def billing_logged_def res_def w'_def
          split: option.split)
    moreover define acc' where "acc' = (case r of Some x \<Rightarrow> ber_AccountID x | None \<Rightarrow> accountID)"
    have "bw_log w' = bw_log ?w \<or> bw_log w' = bw_log ?w @ [EventNotified event acc']"
      using fire_log [of s event acc' ?w] by (simp only: w'_def acc'_def [symmetric] if_split_asm split: if_split) blast
    then obtain N where "bw_log w' = l @ ([EventWorked event accountID, EventCompleted ?p ?i token True None] @ N)"
      and "N = [] \<or> N = [EventNotified event acc']"
      using assms(1) True by auto
    moreover have "ber_Handled res" using assms(2) by (simp add: res_def split: option.split)
    ultimately show ?thesis using succeeded [of res N event acc' ?p ?i token accountID] by (auto simp: logs_claimed_def)
  qed
qed

lemma process_logs:
  assumes "bw_log w = l"
  shows "logs_claimed event token l
    (process_lifecycle s event accountID token processor (finish_event s event accountID token) w)"
proof -
  obtain r e v where run: "processor event accountID (bw_state w) = ((r, e), v)" by (rule run_port)
  let ?w = "w\<lparr>bw_state := v, bw_log := bw_log w @ [EventWorked event accountID]\<rparr>"
  have w: "bw_log ?w = l @ [EventWorked event accountID]" by (simp add: assms)
  have fail: "logs_claimed event token l (billing_fail s event token err ?w)" for err
    by (rule billing_fail_logs [of _ event accountID]) (auto simp: w)
  have "logs_claimed event token l (finish_event s event accountID token (Some x) ?w)" if "ber_Handled x" for x
    by (rule finish_logs [OF w]) (simp add: that)
  with fail run show ?thesis
    by (cases e) (simp_all add: process_lifecycle_def op_simps billing_logged_def)
qed

lemma dispatch_logs:
  assumes "bw_log w = l"
  shows "logs_claimed event token l (dispatch_event s event accountID token w)"
proof -
  define handler where
    "handler = (case map_of (bsv_handlers s) (be_Type event) of Some h \<Rightarrow> Some h | None \<Rightarrow> bsv_defaultHandler s)"
  show ?thesis
  proof (cases handler)
    case (Some h)
    obtain u e v where run: "h event accountID (bw_state w) = ((u, e), v)" by (rule run_port)
    let ?w = "w\<lparr>bw_state := v, bw_log := bw_log w @ [EventWorked event accountID]\<rparr>"
    have w: "bw_log ?w = l @ [EventWorked event accountID]" by (simp add: assms)
    have "logs_claimed event token l (billing_fail s event token err ?w)" for err
      by (rule billing_fail_logs [of _ event accountID]) (auto simp: w)
    moreover have "logs_claimed event token l (finish_event s event accountID token None ?w)"
      by (rule finish_logs [OF w]) simp
    ultimately show ?thesis using Some run
      by (cases e) (simp_all add: dispatch_event_def handler_def [symmetric] op_simps billing_logged_def)
  next
    case None
    with process_logs [OF assms] unhandled_logs [OF assms] show ?thesis
      by (simp add: dispatch_event_def handler_def [symmetric] split: option.split bool.split)
  qed
qed

lemma handle_logs:
  assumes "bw_log w = l"
  shows "logs_claimed event token l (handle_claimed s event token w)"
proof (cases "bst_ResolveBillingEventAccount (bsv_store s)")
  case None
  with dispatch_logs [OF assms] show ?thesis by (simp add: handle_claimed_def)
next
  case (Some resolve)
  obtain a e v where run: "resolve event (bw_state w) = ((a, e), v)" by (rule run_port)
  let ?w = "w\<lparr>bw_state := v\<rparr>"
  have "logs_claimed event token l (billing_fail s event token err ?w)" for err
    by (rule billing_fail_logs [of "[]"]) (simp_all add: assms)
  moreover have "logs_claimed event token l (dispatch_event s event a token ?w)"
    by (rule dispatch_logs) (simp add: assms)
  ultimately show ?thesis using Some run
    by (cases e) (simp_all add: handle_claimed_def op_simps billing_port_def)
qed

lemma claim_event_simps [simp]:
  "be_Provider (claim_event event x) = be_Provider event"
  "canonicalEventID (claim_event event x) = canonicalEventID event"
  by (auto simp: claim_event_def canonicalEventID_def canonical_id_def trim_space_idem)

text \<open>The answers to a claim that end an ingestion at once.\<close>

definition claim_answer :: "BillingEventClaim \<Rightarrow> go_error option \<Rightarrow> BillingEventResult \<Rightarrow> go_error option \<Rightarrow> bool" where
  "claim_answer claim ce r e \<longleftrightarrow>
     (if e = None
      then ce = None \<and> (cl_State claim = ''duplicate'' \<and> r = zero_BillingResult\<lparr>ber_Handled := True, ber_Duplicate := True\<rparr> \<or>
        cl_State claim = ''busy'' \<and> r = zero_BillingResult\<lparr>ber_Retryable := True\<rparr>)
      else r = zero_BillingResult \<and> (ce \<noteq> None \<or> cl_State claim \<notin> {''duplicate'', ''busy''}))"

lemma Ingest_cases:
  assumes "Ingest (Some s) event w = ((r, e), w')"
  obtains (invalid) err where "BillingEvent_Validate event = Some err" "w' = w" "r = zero_BillingResult" "e = Some err"
  | (answered) claim ce where "BillingEvent_Validate event = None" "claim_answer claim ce r e"
      "bw_log w' = bw_log w @ [EventClaimed (be_Provider event) (canonicalEventID event) claim ce]"
      "bst_ClaimBillingEvent (bsv_store s) event (billingEventClaimEnvelope event) (bw_state w) = ((claim, ce), bw_state w')"
  | (claimed) claim v where "BillingEvent_Validate event = None" "cl_State claim = ''claimed''"
      "trim_space (cl_ClaimToken claim) \<noteq> []"
      "bst_ClaimBillingEvent (bsv_store s) event (billingEventClaimEnvelope event) (bw_state w) = ((claim, None), v)"
      "handle_claimed s (claim_event event (cl_BillingEventID claim)) (cl_ClaimToken claim)
         (w\<lparr>bw_state := v, bw_log := bw_log w @ [EventClaimed (be_Provider event) (canonicalEventID event) claim None]\<rparr>)
         = ((r, e), w')"
proof (cases "BillingEvent_Validate event")
  case (Some err)
  with assms have "w' = w" "r = zero_BillingResult" "e = Some err" by (auto simp: Ingest_def op_simps)
  with Some invalid show ?thesis by blast
next
  case None
  obtain claim ce v where run: "bst_ClaimBillingEvent (bsv_store s) event (billingEventClaimEnvelope event) (bw_state w) =
      ((claim, ce), v)" by (rule run_port)
  show ?thesis
  proof (cases "ce = None \<and> cl_State claim = ''claimed'' \<and> trim_space (cl_ClaimToken claim) \<noteq> []")
    case True
    with assms None run claimed show ?thesis by (auto simp: Ingest_def op_simps billing_logged_def)
  next
    case False
    with assms None run have "claim_answer claim ce r e" "bw_state w' = v"
      "bw_log w' = bw_log w @ [EventClaimed (be_Provider event) (canonicalEventID event) claim ce]"
      by (auto simp: Ingest_def op_simps billing_logged_def claim_answer_def split: option.splits if_splits)
    with None run answered show ?thesis by simp
  qed
qed

section \<open>Replays\<close>

text \<open>
  What the store promises, with the states in which the event \<open>i\<close> of provider \<open>p\<close> is final: a confirmed completion
  makes it final, a claim of a final event answers that it is a duplicate, and no call of the store, of a handler or of
  a callback undoes it.
\<close>

definition stays :: "('w \<Rightarrow> bool) \<Rightarrow> ('w, 'r) op \<Rightarrow> bool" where
  "stays final m \<longleftrightarrow> (\<forall>x. final x \<longrightarrow> final (state_of (m x)))"

definition replay_law :: "('w \<Rightarrow> bool) \<Rightarrow> string \<Rightarrow> string \<Rightarrow> 'w BillingService \<Rightarrow> bool" where
  "replay_law final p i s \<longleftrightarrow>
     (let store = bsv_store s in
      (\<forall>token x y. bst_CompleteBillingEvent store p i token x = ((True, None), y) \<longrightarrow> final y) \<and>
      (\<forall>event env x. be_Provider event = p \<and> canonicalEventID event = i \<and> final x \<longrightarrow>
         (\<exists>claim. fst (bst_ClaimBillingEvent store event env x) = (claim, None) \<and> cl_State claim = ''duplicate'')) \<and>
      (\<forall>event env. stays final (bst_ClaimBillingEvent store event env)) \<and>
      (\<forall>q j token. stays final (bst_CompleteBillingEvent store q j token)) \<and>
      (\<forall>q j token msg. stays final (bst_FailBillingEvent store q j token msg)) \<and>
      (\<forall>f event. bst_ResolveBillingEventAccount store = Some f \<longrightarrow> stays final (f event)) \<and>
      (\<forall>f port auto grace plan event a. bst_processBillingEvent store = Some f \<longrightarrow>
         stays final (f port auto grace plan event a)) \<and>
      (\<forall>f event a. bst_ProcessBillingEvent store = Some f \<longrightarrow> stays final (f event a)) \<and>
      (\<forall>f j a u. bst_UpdateCheckoutIntent store = Some f \<longrightarrow> stays final (f j a u)) \<and>
      (\<forall>h event a. h \<in> snd ` set (bsv_handlers s) \<or> bsv_defaultHandler s = Some h \<longrightarrow> stays final (h event a)) \<and>
      (\<forall>c event a x. c \<in> snd ` set (bsv_eventHandlers s) \<and> final x \<longrightarrow> final (snd (c event a x))))"

lemma replay_law_duplicate:
  assumes "replay_law final p i s" and "be_Provider event = p" and "canonicalEventID event = i" and "final x"
  shows "\<exists>claim. fst (bst_ClaimBillingEvent (bsv_store s) event env x) = (claim, None) \<and> cl_State claim = ''duplicate''"
  by (rule assms(1) [unfolded replay_law_def Let_def, THEN conjunct2, THEN conjunct1, rule_format])
    (simp add: assms)

definition keeps_final :: "('w \<Rightarrow> bool) \<Rightarrow> 'w billing_world \<Rightarrow> 'w billing_world \<Rightarrow> bool" where
  "keeps_final final w w' \<longleftrightarrow> (final (bw_state w) \<longrightarrow> final (bw_state w'))"

interpretation final_frame: op_frame "keeps_final final" for final
  by unfold_locales (auto simp: keeps_final_def)

lemma stays_logged: "stays final m \<Longrightarrow> keeps (keeps_final final) (billing_logged entry m)"
  by (auto simp: keeps_def keeps_final_def stays_def billing_logged_def split: prod.split)

lemma stays_port: "stays final m \<Longrightarrow> keeps (keeps_final final) (billing_port m)"
  by (auto simp: keeps_def keeps_final_def stays_def billing_port_def split: prod.split)

lemma fire_final:
  assumes "replay_law final p i s"
  shows "keeps_final final w (fireEventHandler s event a w)"
proof (cases "map_of (bsv_eventHandlers s) (be_Type event)")
  case (Some c)
  then have "c \<in> snd ` set (bsv_eventHandlers s)" by (force dest: map_of_SomeD)
  with assms have "final x \<longrightarrow> final (snd (c event a x))" for x by (simp add: replay_law_def Let_def)
  with Some show ?thesis by (simp add: fireEventHandler_def keeps_final_def)
qed (simp add: fireEventHandler_def keeps_final_def)

lemma law_ports:
  assumes "replay_law final p i s"
  shows "keeps (keeps_final final) (billing_fail s event token err)"
    "keeps (keeps_final final) (complete_event s event token)"
  using assms unfolding billing_fail_def complete_event_def replay_law_def Let_def
  by (auto intro!: final_frame.keeps_bind stays_logged final_frame.keeps_return split: option.split)

lemma finish_final:
  assumes "replay_law final p i s"
  shows "keeps (keeps_final final) (finish_event s event accountID token r)"
    "keeps (keeps_final final) (ignored_event s event accountID token)"
  unfolding finish_event_def ignored_event_def
  by (auto intro!: final_frame.keeps_bind law_ports [OF assms] final_frame.keeps_return final_frame.keeps_perform
      fire_final [OF assms] split: option.split simp: final_frame.frame_refl)

lemma unhandled_final:
  assumes "replay_law final p i s"
  shows "keeps (keeps_final final) (unhandled_event s event accountID token)"
proof (cases "bst_UpdateCheckoutIntent (bsv_store s)")
  case None
  then show ?thesis
    by (simp add: unhandled_event_def Let_def finish_final [OF assms] law_ports [OF assms])
next
  case (Some f)
  with assms have "stays final (f j a u)" for j a u by (simp add: replay_law_def Let_def)
  with Some show ?thesis unfolding unhandled_event_def Let_def
    by (auto intro!: final_frame.keeps_bind stays_logged law_ports [OF assms] finish_final [OF assms] split: option.split)
qed

lemma process_final:
  assumes "replay_law final p i s" and "stays final (processor event accountID)"
  shows "keeps (keeps_final final)
    (process_lifecycle s event accountID token processor (finish_event s event accountID token))"
  unfolding process_lifecycle_def
  by (auto intro!: final_frame.keeps_bind stays_logged assms(2) law_ports [OF assms(1)] finish_final [OF assms(1)]
      split: option.split)

lemma dispatch_final:
  assumes "replay_law final p i s"
  shows "keeps (keeps_final final) (dispatch_event s event accountID token)"
proof -
  define handler where
    "handler = (case map_of (bsv_handlers s) (be_Type event) of Some h \<Rightarrow> Some h | None \<Rightarrow> bsv_defaultHandler s)"
  show ?thesis
  proof (cases handler)
    case (Some h)
    then have "h \<in> snd ` set (bsv_handlers s) \<or> bsv_defaultHandler s = Some h"
      by (force simp: handler_def dest: map_of_SomeD split: option.splits)
    with assms have "stays final (h event accountID)" unfolding replay_law_def Let_def by blast
    with Some show ?thesis
      by (auto simp: dispatch_event_def handler_def [symmetric] intro!: final_frame.keeps_bind stays_logged
          law_ports [OF assms] finish_final [OF assms] split: option.split)
  next
    case None
    from assms have "stays final (f port auto grace plan event accountID)"
      if "bst_processBillingEvent (bsv_store s) = Some f" for f port auto grace plan
      using that by (simp add: replay_law_def Let_def)
    moreover from assms have "stays final (f event accountID)" if "bst_ProcessBillingEvent (bsv_store s) = Some f" for f
      using that by (simp add: replay_law_def Let_def)
    ultimately show ?thesis using None
      by (simp add: dispatch_event_def handler_def [symmetric] process_final [OF assms] unhandled_final [OF assms]
          split: option.split bool.split)
  qed
qed

lemma handle_final:
  assumes "replay_law final p i s"
  shows "keeps (keeps_final final) (handle_claimed s event token)"
proof (cases "bst_ResolveBillingEventAccount (bsv_store s)")
  case (Some f)
  with assms have "stays final (f event)" by (simp add: replay_law_def Let_def)
  with Some show ?thesis
    by (auto simp: handle_claimed_def intro!: final_frame.keeps_bind stays_port law_ports [OF assms]
        dispatch_final [OF assms] split: option.split)
qed (simp add: handle_claimed_def dispatch_final [OF assms])

lemma Ingest_final:
  assumes "replay_law final p i s"
  shows "keeps (keeps_final final) (Ingest (Some s) event)"
proof -
  from assms have "stays final (bst_ClaimBillingEvent (bsv_store s) e env)" for e env
    by (simp add: replay_law_def Let_def)
  then show ?thesis unfolding Ingest_def
    by (auto intro!: final_frame.keeps_bind stays_logged final_frame.keeps_return handle_final [OF assms]
        split: option.split)
qed

text \<open>A completion that was confirmed left the event final.\<close>

lemma finish_completes:
  assumes "replay_law final (be_Provider event) (canonicalEventID event) s"
    and "finish_event s event accountID token r w = ((res, None), w')"
  shows "final (bw_state w')"
proof -
  let ?p = "be_Provider event" and ?i = "canonicalEventID event"
  obtain ok ce v where run: "bst_CompleteBillingEvent (bsv_store s) ?p ?i token (bw_state w) = ((ok, ce), v)"
    by (rule run_port)
  let ?w = "w\<lparr>bw_state := v, bw_log := bw_log w @ [EventCompleted ?p ?i token ok ce]\<rparr>"
  have ok: "ok" "ce = None"
    using assms(2) run
    by (auto simp: finish_event_def op_simps complete_event_def billing_logged_def split: option.splits if_splits)
  then have "final (bw_state ?w)" using assms(1) run by (simp add: replay_law_def Let_def)
  moreover have "w' = ?w \<or> (\<exists>a. w' = fireEventHandler s event a ?w)"
    using assms(2) run ok
    by (auto simp: finish_event_def op_simps complete_event_def billing_logged_def split: option.splits if_splits)
  ultimately show ?thesis using fire_final [OF assms(1)] by (auto simp: keeps_final_def)
qed

definition settles :: "('w \<Rightarrow> bool) \<Rightarrow> (BillingEventResult \<times> go_error option) \<times> 'w billing_world \<Rightarrow> bool" where
  "settles final out \<longleftrightarrow> (error_of out = None \<and> \<not> ber_Ignored (result_of out) \<longrightarrow> final (bw_state (state_of out)))"

lemma settles_fail: "settles final (billing_fail s event token err w)"
  using billing_fail_run(3) [of s event token err w] by (auto simp: settles_def)

lemma settles_ignored: "settles final (ignored_event s event accountID token w)"
  by (simp add: settles_def ignored_event_def op_simps split: option.split prod.split)

lemma settles_finish:
  assumes "replay_law final (be_Provider event) (canonicalEventID event) s"
  shows "settles final (finish_event s event accountID token r w)"
proof -
  obtain res e w' where run: "finish_event s event accountID token r w = ((res, e), w')" by (rule run_port)
  with finish_completes [OF assms] show ?thesis by (cases e) (auto simp: settles_def)
qed

lemma settles_unhandled: "settles final (unhandled_event s event accountID token w)"
  by (simp add: unhandled_event_def Let_def op_simps settles_fail settles_ignored split: option.split prod.split)

lemma settles_process:
  assumes "replay_law final (be_Provider event) (canonicalEventID event) s"
  shows "settles final (process_lifecycle s event accountID token processor (finish_event s event accountID token) w)"
  by (simp add: process_lifecycle_def op_simps settles_fail settles_finish [OF assms] split: option.split prod.split)

lemma settles_dispatch:
  assumes "replay_law final (be_Provider event) (canonicalEventID event) s"
  shows "settles final (dispatch_event s event accountID token w)"
  by (simp add: dispatch_event_def Let_def op_simps settles_fail settles_finish [OF assms] settles_unhandled
      settles_process [OF assms] split: option.split prod.split bool.split)

lemma settles_handle:
  assumes "replay_law final (be_Provider event) (canonicalEventID event) s"
  shows "settles final (handle_claimed s event token w)"
  by (simp add: handle_claimed_def op_simps settles_fail settles_dispatch [OF assms] split: option.split prod.split)

inductive ingest_step :: "'w BillingService \<Rightarrow> 'w billing_world \<Rightarrow> 'w billing_world \<Rightarrow> bool" for s where
  "ingest_step s w (state_of (Ingest (Some s) event w))"

lemma ingest_steps_final:
  assumes "replay_law final p i s" and "(ingest_step s)\<^sup>*\<^sup>* w w'" and "final (bw_state w)"
  shows "final (bw_state w')"
  using assms(2,3)
proof (induction rule: rtranclp_induct)
  case (step v u)
  from step(2) obtain event where "u = state_of (Ingest (Some s) event v)" by (cases rule: ingest_step.cases) blast
  with step Ingest_final [OF assms(1), of event] show ?case by (simp add: keeps_def keeps_final_def)
qed

section \<open>Properties\<close>



text \<open>A store that remembers the completed events, a service with a default handler, and an event.\<close>

type_synonym ledger = "(string \<times> string) list"

definition sample_claim :: "string \<Rightarrow> BillingEventClaim" where
  "sample_claim state = \<lparr>cl_State = state, cl_ClaimToken = ''tok'', cl_BillingEventID = ''b1'', cl_Attempts = 1, cl_Reason = []\<rparr>"

definition billing_store :: "ledger BillingStore" where
  "billing_store =
     \<lparr>bst_ProviderEnvironment = ''test'',
      bst_ClaimBillingEvent = (\<lambda>event env x. ((sample_claim
        (if (be_Provider event, canonicalEventID event) \<in> set x then ''duplicate'' else ''claimed''), None), x)),
      bst_CompleteBillingEvent = (\<lambda>p i token x. ((True, None), (p, i) # x)),
      bst_FailBillingEvent = (\<lambda>p i token msg x. ((True, None), x)),
      bst_ResolveBillingEventAccount = None, bst_processBillingEvent = None, bst_ProcessBillingEvent = None,
      bst_UpdateCheckoutIntent = None\<rparr>"

definition billing_service :: "ledger BillingService" where
  "billing_service =
     \<lparr>bsv_store = billing_store, bsv_handlers = [], bsv_eventHandlers = [], bsv_defaultHandler = Some (\<lambda>event a. return_ok ()),
      bsv_provisioning = None, bsv_autoSelectEntitlementSource = True, bsv_pastDueGracePeriod = 7 * 24 * hour,
      bsv_terminalPlanKey = []\<rparr>"

definition sample_event :: BillingEvent where
  "sample_event =
     \<lparr>be_EventID = ''e1'', be_ID = [], be_Provider = ''stripe'', be_Type = ''checkout.completed'', be_OccurredAt = 0,
      be_AccountID = ''u1'', be_BillingEventID = [], be_Customer = None, be_Subscription = None, be_Invoice = None,
      be_Payment = None, be_Refund = None, be_Dispute = None, be_Metadata = None, be_RawPayload = []\<rparr>"

definition billing_start :: "ledger billing_world" where
  "billing_start = \<lparr>bw_state = [], bw_log = []\<rparr>"

lemma event_trims:
  "trim_space ''e1'' = ''e1''" "trim_space ''stripe'' = ''stripe''" "trim_space ''checkout.completed'' = ''checkout.completed''"
  "trim_space ''tok'' = ''tok''"
  by (rule trim_space_graphic; simp add: graphic_def byte_def)+

lemma sample_event_id: "canonicalEventID sample_event = ''e1''"
  by (simp add: canonicalEventID_def canonical_id_def sample_event_def event_trims)

lemma sample_event_valid: "BillingEvent_Validate sample_event = None"
proof -
  have "sample_event = sample_event\<lparr>be_EventID := ''e1''\<rparr>" by (simp add: sample_event_def)
  moreover have "IsBillingLifecycleEventType ''checkout.completed''"
    by (simp add: IsBillingLifecycleEventType_def billing_event_types_def)
  ultimately show ?thesis
    by (simp add: BillingEvent_Validate_def envelope_checks_def payload_checks_def part_checks_def event_check_def
        has_prefix_def sample_event_id event_trims) (simp add: sample_event_def event_trims zero_time_def)
qed

lemma sample_replay_law: "replay_law (\<lambda>x. (p, i) \<in> set x) p i billing_service"
  by (auto simp: replay_law_def Let_def billing_service_def billing_store_def sample_claim_def stays_def return_ok_def)

lemma sample_ingest:
  "Ingest (Some billing_service) sample_event billing_start =
     ((zero_BillingResult\<lparr>ber_Handled := True\<rparr>, None),
      \<lparr>bw_state = [(''stripe'', ''e1'')],
       bw_log = [EventClaimed ''stripe'' ''e1'' (sample_claim ''claimed'') None,
         EventWorked (claim_event sample_event ''b1'') [], EventCompleted ''stripe'' ''e1'' ''tok'' True None]\<rparr>)"
proof -
  have p: "be_Provider sample_event = ''stripe''" by (simp add: sample_event_def)
  show ?thesis
    by (simp add: Ingest_def sample_event_valid op_simps billing_logged_def billing_start_def billing_service_def
        billing_store_def sample_claim_def event_trims handle_claimed_def dispatch_event_def Let_def finish_event_def
        complete_event_def fireEventHandler_def p sample_event_id zero_BillingResult_def)
qed



end
