(* ===== verification/Commerce_Types.thy ===== *)
theory Commerce_Types
  imports Billing Auto_Recharge
begin

text \<open>
  The data and the interfaces of \<open>commerce.go\<close>, \<open>commerce_state.go\<close> and \<open>provider.go\<close> that the checkout and the management of
  subscriptions share. The catalogue, the credits service, the durable stores, the provider registry and the clock are
  ports over an abstract state; the model keeps a log of the calls that create or change something, at a store or at a
  provider. \<open>CommerceService\<close> is the service with its ports.
\<close>

section \<open>Types\<close>

record CheckoutIntent =
  ci_ID :: string
  ci_SubjectID :: string
  ci_OfferKey :: string
  ci_Provider :: string
  ci_CheckoutKind :: string
  ci_ProductKey :: string
  ci_ProviderSessionID :: string
  ci_ProviderURL :: string
  ci_Status :: string
  ci_IdempotencyKey :: string
  ci_RequestDigest :: string
  ci_ExpiresAt :: gotime
  ci_CreatedAt :: gotime
  ci_UpdatedAt :: gotime

record CheckoutIntentCreate =
  cic_SubjectID :: string
  cic_AccountID :: string
  cic_Provider :: string
  cic_CheckoutKind :: string
  cic_ProductKey :: string
  cic_Quantity :: int
  cic_IdempotencyKey :: string
  cic_RequestDigest :: string
  cic_ExpiresAt :: gotime
  cic_Region :: string
  cic_Metadata :: "string gomap"

record CreateCheckoutInput =
  cin_SubjectID :: string
  cin_AccountID :: string
  cin_OfferKey :: string
  cin_Type :: string
  cin_Quantity :: "int option"
  cin_Region :: string
  cin_Provider :: string
  cin_SuccessURL :: string
  cin_CancelURL :: string
  cin_CustomerID :: string
  cin_CustomerEmail :: string
  cin_IdempotencyKey :: string
  cin_Metadata :: "string gomap"

record CheckoutSessionRequest =
  csr_AccountID :: string
  csr_ProductID :: string
  csr_Mode :: string
  csr_Quantity :: int
  csr_SuccessURL :: string
  csr_CancelURL :: string
  csr_CustomerID :: string
  csr_CustomerEmail :: string
  csr_Metadata :: "string gomap"
  csr_IdempotencyKey :: string

record CheckoutSession =
  chs_ID :: string
  chs_URL :: string
  chs_CustomerID :: string

record CreateCheckoutResult =
  ccr_Intent :: "CheckoutIntent option"
  ccr_Session :: CheckoutSession

record BillingCustomerRecord =
  bcr_Provider :: string
  bcr_ProviderCustomerID :: string
  bcr_AccountID :: string
  bcr_Email :: string

record CommerceSubscription =
  csn_ID :: string
  csn_CatalogRevisionID :: string
  csn_Provider :: string
  csn_ProviderSubscriptionID :: string
  csn_AccountID :: string
  csn_ProviderCustomerID :: string
  csn_OfferID :: string
  csn_OfferKey :: string
  csn_PlanID :: string
  csn_PlanKey :: string
  csn_Status :: string
  csn_Interval :: string
  csn_IntervalCount :: int
  csn_CurrentPeriodStart :: "gotime option"
  csn_CurrentPeriodEnd :: "gotime option"
  csn_TrialEnd :: "gotime option"
  csn_CancelAt :: "gotime option"
  csn_EndedAt :: "gotime option"
  csn_CancelAtPeriodEnd :: bool
  csn_GraceEndsAt :: "gotime option"
  csn_GraceExpiredAt :: "gotime option"
  csn_ProviderUpdatedAt :: gotime
  csn_Metadata :: "goval gomap"

record BillingGrantResult =
  bgr_Mode :: string
  bgr_Credits :: amount
  bgr_Bucket :: string
  bgr_ReplacePrior :: bool

record BillingOffer =
  bof_ID :: string
  bof_Provider :: string
  bof_OfferKey :: string
  bof_PlanID :: string
  bof_PlanKey :: string
  bof_ProductID :: string
  bof_PriceID :: string
  bof_LookupKey :: string
  bof_Interval :: string
  bof_IntervalCnt :: int
  bof_Grant :: "BillingGrantResult option"

record BillingSubscriptionChange =
  sch_ID :: string
  sch_Provider :: string
  sch_SubscriptionID :: string
  sch_ToOfferID :: string
  sch_ToOfferKey :: string
  sch_ToPlanKey :: string
  sch_ToInterval :: string
  sch_Effective :: string
  sch_EffectiveAt :: gotime
  sch_ProrationBehavior :: string
  sch_State :: string
  sch_ProviderOperationID :: string
  sch_ErrorMessage :: string
  sch_CreatedAt :: gotime
  sch_UpdatedAt :: gotime

record BillingSubscriptionChangeCreate =
  scc_Provider :: string
  scc_ProviderSubscriptionID :: string
  scc_ToOfferID :: string
  scc_ToOfferKey :: string
  scc_ToPlanKey :: string
  scc_ToInterval :: string
  scc_Effective :: string
  scc_EffectiveAt :: gotime
  scc_ProrationBehavior :: string
  scc_OperationKey :: string

record BillingSubscriptionChangeUpdate =
  scu_State :: "string option"
  scu_ProviderOperationID :: "string option"
  scu_ErrorMessage :: "string option"

record BillingPreferences =
  bpr_AccountID :: string
  bpr_AutoRecharge :: bool
  bpr_OverageProtection :: bool
  bpr_EmailNotifications :: bool
  bpr_UsageAlerts :: bool
  bpr_InvoiceReminders :: bool

record PreferencePatch =
  ppt_AutoRecharge :: "bool option"
  ppt_OverageProtection :: "bool option"
  ppt_EmailNotifications :: "bool option"
  ppt_UsageAlerts :: "bool option"
  ppt_InvoiceReminders :: "bool option"

record PlanChangeLineItem =
  pli_ProductID :: string
  pli_Name :: string
  pli_UnitPrice :: amount
  pli_Quantity :: int
  pli_ProrationFactor :: amount
  pli_Currency :: string
  pli_Tax :: amount
  pli_Subtotal :: amount

record PlanChangePreview =
  pcp_TotalAmount :: amount
  pcp_SettlementAmount :: amount
  pcp_Currency :: string
  pcp_LineItems :: "PlanChangeLineItem list"
  pcp_EffectiveAt :: gotime
  pcp_RecurringAmount :: "amount option"
  pcp_RecurringCurrency :: string
  pcp_NextBillingDate :: "gotime option"
  pcp_TaxAmount :: "amount option"
  pcp_CustomerCredits :: "amount option"

record ProviderPlanChangeRequest =
  pcq_ProviderSubscriptionID :: string
  pcq_ProductID :: string
  pcq_EffectiveAt :: string
  pcq_ProrationBillingMode :: string
  pcq_PaymentFailure :: string
  pcq_Quantity :: int
  pcq_Metadata :: "string gomap"
  pcq_IdempotencyKey :: string

text \<open>\<open>ProviderPlanChangeResult\<close> holds one text, the provider's operation identifier, which the service does not read.\<close>

type_synonym ProviderPlanChangeResult = string

record WebhookResult =
  wr_Received :: bool
  wr_Retryable :: bool
  wr_Provider :: string
  wr_EventID :: string
  wr_EventType :: string
  wr_Event :: "BillingEvent option"

record WebhookHandlingResult =
  whr_Webhook :: WebhookResult
  whr_Billing :: BillingEventResult

definition no_session :: CheckoutSession where
  "no_session = \<lparr>chs_ID = [], chs_URL = [], chs_CustomerID = []\<rparr>"

text \<open>\<open>CreateCheckoutResult{}\<close> and \<open>CreateCheckoutResult{Intent: intent}\<close>; the zero intent is \<open>None\<close>.\<close>

definition zero_Checkout :: CreateCheckoutResult where
  "zero_Checkout = \<lparr>ccr_Intent = None, ccr_Session = no_session\<rparr>"

definition with_intent :: "CheckoutIntent \<Rightarrow> CreateCheckoutResult" where
  "with_intent intent = \<lparr>ccr_Intent = Some intent, ccr_Session = no_session\<rparr>"

section \<open>Ports\<close>

text \<open>The provider's interface; the optional capabilities, interfaces of their own in the code, are options.\<close>

record 'w HostedProvider =
  hp_Name :: string
  hp_CreateCheckoutSession :: "CheckoutSessionRequest \<Rightarrow> ('w, CheckoutSession) op"
  hp_HandleWebhook :: "string \<Rightarrow> ('w, WebhookResult) op"
  hp_GetCheckoutSessionStatus :: "(string \<Rightarrow> ('w, string) op) option"
  hp_CreateCustomerPortalSession :: "(string \<Rightarrow> string \<Rightarrow> ('w, string) op) option"
  hp_CreateUpdatePaymentMethodSession :: "(string \<Rightarrow> string \<Rightarrow> string \<Rightarrow> ('w, string) op) option"
  hp_CreatePaymentMethodSetupSession :: "(string \<Rightarrow> string \<Rightarrow> string \<Rightarrow> ('w, string) op) option"
  hp_CancelSubscription :: "(string \<Rightarrow> string \<Rightarrow> ('w, unit) op) option"
  hp_ReactivateSubscription :: "(string \<Rightarrow> string \<Rightarrow> ('w, unit) op) option"
  hp_PreviewPlanChange :: "(ProviderPlanChangeRequest \<Rightarrow> ('w, PlanChangePreview) op) option"
  hp_ChangePlan :: "(ProviderPlanChangeRequest \<Rightarrow> ('w, ProviderPlanChangeResult) op) option"
  hp_CancelScheduledPlanChange :: "(string \<Rightarrow> string \<Rightarrow> string \<Rightarrow> ('w, unit) op) option"
  hp_GetInvoiceURL :: "(string \<Rightarrow> ('w, string) op) option"
  hp_ListPaymentMethods :: "(string \<Rightarrow> ('w, PaymentMethodInfo list) op) option"

record 'w CommerceStore =
  cst_CreateOrGetCheckoutIntent :: "CheckoutIntentCreate \<Rightarrow> ('w, CheckoutIntent) op"
  cst_UpdateCheckoutIntent :: "string \<Rightarrow> string \<Rightarrow> CheckoutIntentUpdate \<Rightarrow> ('w, unit) op"
  cst_GetCheckoutIntent :: "string \<Rightarrow> string \<Rightarrow> ('w, CheckoutIntent option) op"
  cst_UpsertBillingCustomer :: "(BillingCustomerRecord \<Rightarrow> ('w, unit) op) option"

record 'w CommerceStateStore =
  css_GetBillingCustomer :: "string \<Rightarrow> string \<Rightarrow> ('w, BillingCustomerRecord option) op"
  css_GetBillingSubscription :: "string \<Rightarrow> string list \<Rightarrow> ('w, CommerceSubscription option) op"
  css_ListBillingSubscriptions :: "string \<Rightarrow> ('w, CommerceSubscription list) op"
  css_ResolveBillingOffer :: "string \<Rightarrow> string \<Rightarrow> string \<Rightarrow> string \<Rightarrow> ('w, BillingOffer option) op"
  css_CreateBillingSubscriptionChange :: "BillingSubscriptionChangeCreate \<Rightarrow> ('w, BillingSubscriptionChange) op"
  css_GetOpenBillingSubscriptionChange :: "string \<Rightarrow> string \<Rightarrow> ('w, BillingSubscriptionChange option) op"
  css_UpdateBillingSubscriptionChange :: "string \<Rightarrow> BillingSubscriptionChangeUpdate \<Rightarrow> ('w, unit) op"
  css_GetBillingPreferences :: "string \<Rightarrow> ('w, BillingPreferences option) op"
  css_UpsertBillingPreferences :: "BillingPreferences \<Rightarrow> ('w, unit) op"
  css_ListBillingInvoices :: "string \<Rightarrow> ('w, BillingInvoice list) op"
  css_UpsertBillingCustomer :: "(BillingCustomerRecord \<Rightarrow> ('w, unit) op) option"

text \<open>The calls that commerce makes on the credits service.\<close>

record 'w credit_reads =
  crd_GetBalance :: "string \<Rightarrow> ('w, BalanceResult) op"
  crd_GetAvailable :: "string \<Rightarrow> ('w, AvailableResult) op"
  crd_GetBucketBalances :: "string \<Rightarrow> ('w, BucketBalancesResult) op"
  crd_GetUserPlan :: "string \<Rightarrow> ('w, GetUserPlanResult) op"
  crd_CheckAllowance :: "string \<Rightarrow> ('w, AllowanceResult option) op"
  crd_GetLedgerEntry :: "string \<Rightarrow> string \<Rightarrow> ('w, LedgerEntry option) op"
  crd_ListLedgerEntries :: "string \<Rightarrow> ListLedgerEntriesOptions \<Rightarrow> ('w, LedgerPage) op"
  crd_ListUsageCharges :: "string \<Rightarrow> ListUsageChargesOptions \<Rightarrow> ('w, UsageChargePage) op"

record 'w CommerceService =
  cms_billing :: "'w BillingService"
  cms_GetConfig :: "('w, BursarConfig) op"
  cms_credits :: "'w credit_reads"
  cms_store :: "'w CommerceStore"
  cms_state :: "'w CommerceStateStore option"
  cms_providers :: "string list"
  cms_Get :: "string \<Rightarrow> ('w, 'w HostedProvider) op"
  cms_defaultProvider :: string
  cms_checkoutIntentTTL :: duration
  cms_preferenceDefaults :: PreferencePatch
  cms_AutoRecharge_GetStatus :: "(string \<Rightarrow> ('w, AutoRechargeStatus option) op) option"
  cms_now :: "'w \<Rightarrow> gotime \<times> 'w"

datatype commerce_call =
    IntentRequested CheckoutIntentCreate CheckoutIntent "go_error option"
  | SessionRequested CheckoutSessionRequest CheckoutSession "go_error option"
  | CustomerSaved BillingCustomerRecord
  | IntentUpdated string string CheckoutIntentUpdate
  | ChangeCreated BillingSubscriptionChangeCreate BillingSubscriptionChange "go_error option"
  | ChangeUpdated string BillingSubscriptionChangeUpdate
  | CancelRequested string string "go_error option"
  | ReactivateRequested string string "go_error option"
  | ChangeRequested ProviderPlanChangeRequest "go_error option"
  | ScheduledCancelRequested string string string "go_error option"
  | PreferencesSaved BillingPreferences

record 'w commerce_world =
  cw_state :: 'w
  cw_log :: "commerce_call list"

definition commerce_port :: "('w, 'r) op \<Rightarrow> ('w commerce_world, 'r) op" where
  "commerce_port m = (\<lambda>w. case m (cw_state w) of (x, s) \<Rightarrow> (x, w\<lparr>cw_state := s\<rparr>))"

definition commerce_logged ::
  "('r \<Rightarrow> go_error option \<Rightarrow> commerce_call) \<Rightarrow> ('w, 'r) op \<Rightarrow> ('w commerce_world, 'r) op" where
  "commerce_logged entry m = (\<lambda>w. case m (cw_state w) of
     ((r, e), s) \<Rightarrow> ((r, e), w\<lparr>cw_state := s, cw_log := cw_log w @ [entry r e]\<rparr>))"

definition commerce_now :: "'w CommerceService \<Rightarrow> ('w commerce_world, gotime) op" where
  "commerce_now s = commerce_port (\<lambda>x. case cms_now s x of (t, x') \<Rightarrow> ((t, None), x'))"

section \<open>Zero values\<close>

definition zero_Change :: BillingSubscriptionChange where
  "zero_Change = \<lparr>sch_ID = [], sch_Provider = [], sch_SubscriptionID = [], sch_ToOfferID = [], sch_ToOfferKey = [],
     sch_ToPlanKey = [], sch_ToInterval = [], sch_Effective = [], sch_EffectiveAt = zero_time, sch_ProrationBehavior = [],
     sch_State = [], sch_ProviderOperationID = [], sch_ErrorMessage = [], sch_CreatedAt = zero_time, sch_UpdatedAt = zero_time\<rparr>"

definition zero_Patch :: PreferencePatch where
  "zero_Patch = \<lparr>ppt_AutoRecharge = None, ppt_OverageProtection = None, ppt_EmailNotifications = None, ppt_UsageAlerts = None,
     ppt_InvoiceReminders = None\<rparr>"

section \<open>Helpers\<close>

definition currentSubscriptionStatuses :: "string list" where
  "currentSubscriptionStatuses = [''active'', ''trialing'', ''past_due'', ''incomplete'']"

definition blockingSubscriptionStatuses :: "string list" where
  "blockingSubscriptionStatuses = [''active'', ''trialing'', ''past_due'', ''incomplete'']"

definition cancellableSubscriptionStates :: "string list" where
  "cancellableSubscriptionStates = [''active'', ''trialing'', ''past_due'', ''incomplete'', ''unpaid'', ''paused'']"

definition terminalSubscriptionStatuses :: "string list" where
  "terminalSubscriptionStatuses = [''canceled'', ''unpaid'', ''paused'', ''incomplete_expired'', ''expired'']"

text \<open>
  \<open>strings.ToLower\<close>, as far as a comparison with an ASCII text can tell: besides the capital letters, two runes outside ASCII,
  the Kelvin sign and the dotted capital I, become an ASCII letter.
\<close>

definition ascii_lower :: "char \<Rightarrow> char" where
  "ascii_lower c = (if is_upper_byte c then char_of (byte c + 32) else c)"

fun to_lower :: "string \<Rightarrow> string" where
  "to_lower [] = []"
| "to_lower (c # cs) =
     (if byte c = 226 \<and> map byte (take 2 cs) = [132, 170] then CHR ''k'' # to_lower (drop 2 cs)
      else if byte c = 196 \<and> map byte (take 1 cs) = [176] then CHR ''i'' # to_lower (drop 1 cs)
      else ascii_lower c # to_lower cs)"

text \<open>\<open>strings.EqualFold\<close> with a text of hexadecimal digits.\<close>

definition equal_fold :: "string \<Rightarrow> string \<Rightarrow> bool" where
  "equal_fold a b \<longleftrightarrow> map ascii_lower a = map ascii_lower b"

section \<open>Shared decisions\<close>

definition detail_error :: "string \<Rightarrow> ErrorCode \<Rightarrow> ErrorCategory \<Rightarrow> goval gomap \<Rightarrow> go_error" where
  "detail_error message code category details = NewError message ((code_category code category)\<lparr>opt_Details := details\<rparr>)"

definition commerce_not_configured :: go_error where
  "commerce_not_configured = NewError ''commerce is not configured''
     (code_category ErrorCodeCommerceNotConfigured ErrorCategoryInternal)"

definition state_unavailable :: go_error where
  "state_unavailable = NewError ''core billing state is unavailable for this commerce operation''
     ((code_category ErrorCodeCoreBillingDataUnavailable ErrorCategoryUnavailable)\<lparr>opt_Retryable := True\<rparr>)"

definition requireState :: "'w CommerceService option \<Rightarrow> go_error + 'w CommerceStateStore" where
  "requireState service =
     (case service of
        None \<Rightarrow> Inl state_unavailable
      | Some s \<Rightarrow> (case cms_state s of None \<Rightarrow> Inl state_unavailable | Some state \<Rightarrow> Inr state))"

definition sortedProviderKeys :: "ProviderReference gomap \<Rightarrow> string list" where
  "sortedProviderKeys values = sort_by str_less (map_keys values)"

definition unknown_offer :: "string \<Rightarrow> go_error" where
  "unknown_offer offerKey = detail_error ''checkout offer was not found'' ErrorCodeUnknownOffer ErrorCategoryNotFound
     [(''offer_key'', VStr offerKey)]"

text \<open>\<open>s.providers.Select\<close>: the decision, then the registry's \<open>Get\<close>.\<close>

definition commerce_Select ::
  "'w CommerceService \<Rightarrow> string \<Rightarrow> string \<Rightarrow> string list \<Rightarrow> ('w HostedProvider \<Rightarrow> ('w commerce_world, 'r) op) \<Rightarrow> 'r \<Rightarrow>
   ('w commerce_world, 'r) op" where
  "commerce_Select s requested fallback compatible k z =
     require (select_provider requested fallback compatible) z (\<lambda>name. try_op (commerce_port (cms_Get s name)) z k)"

section \<open>Reads\<close>

text \<open>An operation that only reads leaves the log alone.\<close>

definition log_kept :: "'w commerce_world \<Rightarrow> 'w commerce_world \<Rightarrow> bool" where
  "log_kept w w' \<longleftrightarrow> cw_log w' = cw_log w"

interpretation log_kept: op_frame log_kept
  by unfold_locales (simp_all add: log_kept_def)

lemma kept_port: "keeps log_kept (commerce_port m)"
  by (simp add: keeps_def log_kept_def commerce_port_def split: prod.split)

lemma keptD: "keeps log_kept m \<Longrightarrow> m w = (x, w') \<Longrightarrow> cw_log w' = cw_log w"
  by (metis keeps_def log_kept_def snd_conv)

end
