(* ===== verification/Checkout.thy ===== *)
theory Checkout
  imports Commerce_Types
begin

text \<open>
  \<open>commerce.go\<close>, with the checkout status of \<open>commerce_management.go\<close>: the hosted checkout and the webhooks. The log of the
  world holds the intents, provider sessions and customers that the service creates or changes. The digest of a request is
  SHA-256 of its JSON text in hexadecimal; the hash is the parameter \<open>digest\<close> of the definitions, a function of the JSON object.
\<close>

section \<open>Helpers\<close>

text \<open>\<open>strings.ReplaceAll\<close> with a pattern that is not empty.\<close>

function replace_all :: "string \<Rightarrow> string \<Rightarrow> string \<Rightarrow> string" where
  "replace_all old new [] = []"
| "replace_all old new (c # cs) =
     (if old \<noteq> [] \<and> take (length old) (c # cs) = old then new @ replace_all old new (drop (length old) (c # cs))
      else c # replace_all old new cs)"
  by pat_completeness auto
termination by (relation "measure (\<lambda>(old, new, s). length s)") auto

definition replaceCheckoutIntentURL :: "string \<Rightarrow> string \<Rightarrow> string" where
  "replaceCheckoutIntentURL v intentID = replace_all ''{intentId}'' intentID v"

definition checkoutMode :: "string \<Rightarrow> string" where
  "checkoutMode offerType = (if offerType = ''subscription'' then ''subscription'' else ''payment'')"

definition checkoutIntentKind :: "string \<Rightarrow> string" where
  "checkoutIntentKind offerType = (if offerType = ''subscription'' then ''subscription'' else ''credit_topup'')"

definition quantity_error :: "string \<Rightarrow> go_error" where
  "quantity_error message = NewError message (code_category ErrorCodeInvalidOfferQuantity ErrorCategoryInvalidRequest)"

definition checkoutQuantity :: "CommerceOffer \<Rightarrow> int option \<Rightarrow> go_error + int" where
  "checkoutQuantity offer requested =
     (if of_Type offer = ''subscription'' then
        (if requested \<noteq> None \<and> requested \<noteq> Some 1 then Inl (quantity_error ''subscription checkout quantity must be 1'')
         else Inr 1)
      else
        let quantity = (case requested of
              Some q \<Rightarrow> q
            | None \<Rightarrow> (case of_Quantity offer of Some b \<Rightarrow> if oq_Default b > 0 then oq_Default b else 1 | None \<Rightarrow> 1))
        in if quantity < 1 then Inl (quantity_error ''checkout quantity must be positive'')
           else case of_Quantity offer of
             None \<Rightarrow> Inr quantity
           | Some b \<Rightarrow>
               if oq_Minimum b > 0 \<and> quantity < oq_Minimum b
               then Inl (quantity_error ''checkout quantity is below offer minimum'')
               else if oq_Maximum b > 0 \<and> quantity > oq_Maximum b
               then Inl (quantity_error ''checkout quantity exceeds offer maximum'')
               else Inr quantity)"

definition checkoutRequestDigest :: "(goval gomap \<Rightarrow> string) \<Rightarrow> CheckoutIntentCreate \<Rightarrow> string" where
  "checkoutRequestDigest digest input =
     digest [(''accountId'', VStr (cic_AccountID input)),
       (''checkoutKind'', VStr (if cic_CheckoutKind input = ''credit_topup'' then ''topup'' else cic_CheckoutKind input)),
       (''offerKey'', VStr (cic_ProductKey input)), (''provider'', VStr (cic_Provider input)),
       (''quantity'', VInt (cic_Quantity input))]"

section \<open>The status of a checkout\<close>

definition expire_intent :: "CheckoutIntentUpdate" where
  "expire_intent = \<lparr>ciu_ProviderSessionID = [], ciu_ProviderURL = [], ciu_CustomerID = [], ciu_Status = ''expired''\<rparr>"

definition update_intent ::
  "'w CommerceService \<Rightarrow> string \<Rightarrow> string \<Rightarrow> CheckoutIntentUpdate \<Rightarrow> ('w commerce_world, unit) op" where
  "update_intent s intentID subjectID update =
     commerce_logged (\<lambda>_ _. IntentUpdated intentID subjectID update)
       (cst_UpdateCheckoutIntent (cms_store s) intentID subjectID update)"

text \<open>\<open>!expires.IsZero() && !expires.After(now)\<close>.\<close>

definition intent_expired :: "CheckoutIntent \<Rightarrow> gotime \<Rightarrow> bool" where
  "intent_expired intent now \<longleftrightarrow> ci_ExpiresAt intent \<noteq> zero_time \<and> ci_ExpiresAt intent \<le> now"

text \<open>The provider's answer: the status to store and the result, or neither while it is pending.\<close>

definition provider_status :: "string \<Rightarrow> (string \<times> string) option" where
  "provider_status status =
     (if status \<in> {''complete'', ''completed'', ''paid'', ''succeeded''} then Some (''completed'', ''succeeded'')
      else if status = ''expired'' then Some (''expired'', ''expired'')
      else if status \<in> {''failed'', ''cancelled'', ''canceled'', ''requires_payment_method''} then Some (''failed'', ''failed'')
      else None)"

definition reconcile_session ::
  "'w CommerceService \<Rightarrow> CheckoutIntent \<Rightarrow> string \<Rightarrow> ('w commerce_world, string) op" where
  "reconcile_session s intent subjectID =
     try_op (commerce_port (cms_Get s (ci_Provider intent))) [] (\<lambda>provider.
       case hp_GetCheckoutSessionStatus provider of
         None \<Rightarrow> return_ok ''pending''
       | Some getStatus \<Rightarrow>
           try_op (commerce_port (getStatus (ci_ProviderSessionID intent))) [] (\<lambda>providerStatus.
             case provider_status (to_lower (trim_space providerStatus)) of
               None \<Rightarrow> return_ok ''pending''
             | Some (durableStatus, result) \<Rightarrow>
                 try_op (update_intent s (ci_ID intent) subjectID (expire_intent\<lparr>ciu_Status := durableStatus\<rparr>)) []
                   (\<lambda>_. return_ok result)))"

definition resolveCheckoutStatus ::
  "'w CommerceService \<Rightarrow> CheckoutIntent \<Rightarrow> string \<Rightarrow> ('w commerce_world, string) op" where
  "resolveCheckoutStatus s intent subjectID =
     (let status = to_lower (trim_space (ci_Status intent)) in
      if status = ''completed'' then return_ok ''succeeded''
      else if status \<in> {''failed'', ''cancelled'', ''canceled''} then return_ok ''failed''
      else if status = ''expired'' then return_ok ''expired''
      else if status \<notin> {''open'', []} then return_ok ''failed''
      else try_op (commerce_now s) [] (\<lambda>now.
        if intent_expired intent now
        then try_op (update_intent s (ci_ID intent) subjectID expire_intent) [] (\<lambda>_. return_ok ''expired'')
        else if trim_space (ci_ProviderSessionID intent) = [] then return_ok ''pending''
        else reconcile_session s intent subjectID))"

definition commerce_GetCheckoutIntent ::
  "'w CommerceService option \<Rightarrow> string \<Rightarrow> string \<Rightarrow> ('w commerce_world, CheckoutIntent option) op" where
  "commerce_GetCheckoutIntent service intentID subjectID =
     (case service of
        None \<Rightarrow> return_err None commerce_not_configured
      | Some s \<Rightarrow>
          require (requireText intentID ''checkout intent ID'') None (\<lambda>_.
          require (requireText subjectID ''checkout subject ID'') None (\<lambda>_.
            commerce_port (cst_GetCheckoutIntent (cms_store s) intentID subjectID))))"

definition GetCheckoutStatus ::
  "'w CommerceService option \<Rightarrow> string \<Rightarrow> string \<Rightarrow> ('w commerce_world, string \<times> string) op" where
  "GetCheckoutStatus service intentID subjectID =
     try_op (commerce_GetCheckoutIntent service intentID subjectID) ([], []) (\<lambda>intent.
       case intent of
         None \<Rightarrow> return_err ([], []) (NewError ''checkout intent was not found''
                   (code_category ErrorCodeCommerceResourceNotFound ErrorCategoryNotFound))
       | Some i \<Rightarrow>
           try_op (resolveCheckoutStatus (the service) i subjectID) ([], []) (\<lambda>status. return_ok (ci_ID i, status)))"

section \<open>Creating a checkout\<close>

definition checkout_texts :: "CreateCheckoutInput \<Rightarrow> go_error + (string \<times> string \<times> string \<times> string)" where
  "checkout_texts input =
     bind_err (requireText (cin_SubjectID input) ''checkout subject ID'') (\<lambda>subjectID.
     bind_err (requireText (cin_AccountID input) ''checkout account ID'') (\<lambda>accountID.
     bind_err (requireText (cin_OfferKey input) ''checkout offer key'') (\<lambda>offerKey.
     bind_err (requireStableKey (cin_IdempotencyKey input) ''checkout idempotency key'') (\<lambda>idempotencyKey.
       if trim_space (cin_SuccessURL input) = [] \<or> trim_space (cin_CancelURL input) = []
       then Inl (NewError ''checkout success and cancel URLs are required''
              (code_category ErrorCodeConfig ErrorCategoryInvalidRequest))
       else Inr (subjectID, accountID, offerKey, idempotencyKey)))))"

definition checkout_type_check :: "CommerceOffer \<Rightarrow> string \<Rightarrow> string \<Rightarrow> go_error option" where
  "checkout_type_check offer offerKey requested =
     (let requestedType = to_lower (trim_space requested);
          offerType = to_lower (trim_space (of_Type offer))
      in if requestedType = [] then None
         else if requestedType \<noteq> ''subscription'' \<and> requestedType \<noteq> ''credit_pack''
         then Some (NewError ''checkout type is invalid'' (code_category ErrorCodeConfig ErrorCategoryInvalidRequest))
         else if requestedType \<noteq> (if offerType = ''topup'' then ''credit_pack'' else offerType)
         then Some (detail_error ''checkout type does not match the selected offer'' ErrorCodeUnknownOffer
                ErrorCategoryInvalidRequest [(''offer_key'', VStr offerKey), (''type'', VStr requestedType)])
         else None)"

text \<open>The current subscription and the customer of the account, when there is a state store.\<close>

definition account_state ::
  "'w CommerceService \<Rightarrow> string \<Rightarrow> ('w commerce_world, string \<times> BillingCustomerRecord option) op" where
  "account_state s accountID =
     (case cms_state s of
        None \<Rightarrow> return_ok ([], None)
      | Some state \<Rightarrow>
          try_op (commerce_port (css_GetBillingSubscription state accountID [])) ([], None) (\<lambda>subscription.
            let currentProvider = (case subscription of None \<Rightarrow> [] | Some x \<Rightarrow> trim_space (csn_Provider x)) in
            try_op (commerce_port (css_GetBillingCustomer state accountID currentProvider)) ([], None) (\<lambda>customer.
              return_ok (currentProvider, customer))))"

definition no_blocking_subscription ::
  "'w CommerceService \<Rightarrow> CommerceOffer \<Rightarrow> string \<Rightarrow> ('w commerce_world, unit) op" where
  "no_blocking_subscription s offer accountID =
     (if of_Type offer \<noteq> ''subscription'' then return_ok ()
      else require (requireState (Some s)) () (\<lambda>state.
        try_op (commerce_port (css_GetBillingSubscription state accountID blockingSubscriptionStatuses)) () (\<lambda>blocking.
          case blocking of
            None \<Rightarrow> return_ok ()
          | Some b \<Rightarrow> return_err () (detail_error ''account already has a blocking subscription'' ErrorCodeActiveSubscription
              ErrorCategoryConflict [(''account_id'', VStr accountID), (''subscription_id'', VStr (csn_ProviderSubscriptionID b))]))))"

definition provider_fallback :: "'w CommerceService \<Rightarrow> string \<Rightarrow> BillingCustomerRecord option \<Rightarrow> string" where
  "provider_fallback s currentProvider customer =
     (if currentProvider \<noteq> [] then currentProvider
      else case customer of None \<Rightarrow> cms_defaultProvider s | Some c \<Rightarrow> trim_space (bcr_Provider c))"

definition provider_customer ::
  "'w CommerceService \<Rightarrow> string \<Rightarrow> string \<Rightarrow> BillingCustomerRecord option \<Rightarrow>
   ('w commerce_world, BillingCustomerRecord option) op" where
  "provider_customer s accountID name customer =
     (case cms_state s of
        None \<Rightarrow> return_ok customer
      | Some state \<Rightarrow>
          if customer = None \<or> bcr_Provider (the customer) \<noteq> name
          then commerce_port (css_GetBillingCustomer state accountID name)
          else return_ok customer)"

definition offer_product :: "CommerceOffer \<Rightarrow> string \<Rightarrow> string \<Rightarrow> go_error + string" where
  "offer_product offer offerKey name =
     (case map_of (of_Providers offer) name of
        None \<Rightarrow> Inl (detail_error ''selected provider has no offer reference'' ErrorCodeProviderSelectionFailed
                 ErrorCategoryInvalidRequest [(''provider'', VStr name), (''offer_key'', VStr offerKey)])
      | Some reference \<Rightarrow>
          if providerProductID reference = []
          then Inl (detail_error ''offer provider reference has no product identifier'' ErrorCodeUnknownOffer
                 ErrorCategoryInvalidRequest [(''provider'', VStr name), (''offer_key'', VStr offerKey)])
          else Inr (providerProductID reference))"

definition checkout_metadata ::
  "decimal_pkg \<Rightarrow> CommerceOffer \<Rightarrow> string \<Rightarrow> int \<Rightarrow> string gomap \<Rightarrow> string gomap" where
  "checkout_metadata D offer accountID quantity supplied =
     (let metadata = map_put ''bursar_account_id'' accountID supplied in
      if of_Type offer = ''subscription'' then
        let m1 = (case of_Plan offer of None \<Rightarrow> metadata | Some plan \<Rightarrow> map_put ''plan_slug'' (trim_space plan) metadata)
        in (case of_BillingInterval offer of
              None \<Rightarrow> m1
            | Some interval \<Rightarrow> map_put ''billing_interval'' (trim_space (bi_Unit interval)) m1)
      else
        let m1 = (case of_CreditsPerUnit offer of
              None \<Rightarrow> metadata
            | Some credits \<Rightarrow> map_put ''credits'' (dec_to_string D (credits * of_int quantity)) metadata)
        in map_put ''quantity'' (show_int quantity) m1)"

text \<open>The provider's customer: persisted state wins, and the caller's value counts only without a state store.\<close>

definition checkout_customer :: "'w CommerceService \<Rightarrow> BillingCustomerRecord option \<Rightarrow> string \<Rightarrow> string" where
  "checkout_customer s customer supplied =
     (let base = (if cms_state s = None then trim_space supplied else []) in
      case customer of
        None \<Rightarrow> base
      | Some c \<Rightarrow> if trim_space (bcr_ProviderCustomerID c) \<noteq> [] then trim_space (bcr_ProviderCustomerID c) else base)"

definition conflict_error :: "string \<Rightarrow> ErrorCode \<Rightarrow> CheckoutIntent \<Rightarrow> goval gomap \<Rightarrow> go_error" where
  "conflict_error message code intent details =
     detail_error message code ErrorCategoryConflict ((''checkout_intent_id'', VStr (ci_ID intent)) # details)"

text \<open>The checks on the intent the store returned, before its expiry.\<close>

definition intent_check :: "CheckoutIntentCreate \<Rightarrow> CheckoutIntent \<Rightarrow> go_error option" where
  "intent_check create intent =
     (if ci_RequestDigest intent = [] \<or> \<not> equal_fold (ci_RequestDigest intent) (cic_RequestDigest create)
      then Some (conflict_error ''checkout idempotency key is already bound to a different request''
             ErrorCodeCheckoutConflict intent [])
      else if ci_Status intent = ''completed''
      then Some (conflict_error ''checkout was already completed'' ErrorCodeCheckoutCompleted intent [])
      else if ci_Status intent \<noteq> ''open''
      then Some (conflict_error ''checkout operation is terminal; use a new idempotency key'' ErrorCodeCheckoutConflict intent
             [(''status'', VStr (ci_Status intent))])
      else None)"

definition replay_session ::
  "'w CommerceService \<Rightarrow> CheckoutIntent \<Rightarrow> string \<Rightarrow> ('w commerce_world, CreateCheckoutResult) op" where
  "replay_session s intent subjectID =
     try_op (resolveCheckoutStatus s intent subjectID) (with_intent intent) (\<lambda>status.
       if status = ''succeeded''
       then return_err (with_intent intent)
         (conflict_error ''checkout was already completed'' ErrorCodeCheckoutCompleted intent [])
       else if status \<in> {''failed'', ''expired''}
       then return_err (with_intent intent)
         (conflict_error ''checkout operation is no longer active; use a new idempotency key'' ErrorCodeCheckoutConflict intent
            [(''status'', VStr status)])
       else return_ok \<lparr>ccr_Intent = Some intent,
         ccr_Session = \<lparr>chs_ID = ci_ProviderSessionID intent, chs_URL = ci_ProviderURL intent, chs_CustomerID = []\<rparr>\<rparr>)"

text \<open>A customer that the provider reported is saved by the state store, or else by the checkout store, if one can.\<close>

definition save_customer ::
  "'w CommerceService \<Rightarrow> BillingCustomerRecord \<Rightarrow> ('w commerce_world, unit) op" where
  "save_customer s customer =
     (if bcr_ProviderCustomerID customer = [] then return_ok ()
      else
        let state_writer = (case cms_state s of None \<Rightarrow> None | Some state \<Rightarrow> css_UpsertBillingCustomer state);
            writer = (if state_writer \<noteq> None then state_writer else cst_UpsertBillingCustomer (cms_store s))
        in case writer of
             None \<Rightarrow> return_ok ()
           | Some write \<Rightarrow> commerce_logged (\<lambda>_ _. CustomerSaved customer) (write customer))"

definition open_session ::
  "'w CommerceService \<Rightarrow> 'w HostedProvider \<Rightarrow> CheckoutSessionRequest \<Rightarrow> CheckoutIntent \<Rightarrow> string \<Rightarrow>
   ('w commerce_world, CreateCheckoutResult) op" where
  "open_session s provider request intent subjectID =
     try_op (commerce_logged (SessionRequested request) (hp_CreateCheckoutSession provider request)) (with_intent intent)
       (\<lambda>session.
     try_op (save_customer s \<lparr>bcr_Provider = hp_Name provider, bcr_ProviderCustomerID = trim_space (chs_CustomerID session),
           bcr_AccountID = csr_AccountID request, bcr_Email = trim_space (csr_CustomerEmail request)\<rparr>)
         \<lparr>ccr_Intent = Some intent, ccr_Session = session\<rparr> (\<lambda>_.
     try_op (update_intent s (ci_ID intent) subjectID
           \<lparr>ciu_ProviderSessionID = chs_ID session, ciu_ProviderURL = chs_URL session,
            ciu_CustomerID = chs_CustomerID session, ciu_Status = ''open''\<rparr>)
         \<lparr>ccr_Intent = Some intent, ccr_Session = session\<rparr> (\<lambda>_.
       return_ok \<lparr>ccr_Intent = Some (intent\<lparr>ci_ProviderSessionID := chs_ID session, ci_ProviderURL := chs_URL session,
         ci_Status := ''open''\<rparr>), ccr_Session = session\<rparr>)))"

text \<open>The part after the store has returned the intent.\<close>

definition continue_checkout ::
  "'w CommerceService \<Rightarrow> 'w HostedProvider \<Rightarrow> CheckoutIntentCreate \<Rightarrow> CheckoutSessionRequest \<Rightarrow> CheckoutIntent \<Rightarrow>
   ('w commerce_world, CreateCheckoutResult) op" where
  "continue_checkout s provider create request intent =
     reject (intent_check create intent) (with_intent intent) (
     try_op (commerce_now s) (with_intent intent) (\<lambda>now.
       if intent_expired intent now
       then try_op (update_intent s (ci_ID intent) (cic_SubjectID create) expire_intent) (with_intent intent) (\<lambda>_.
         return_err (with_intent (intent\<lparr>ci_Status := ''expired''\<rparr>))
           (conflict_error ''checkout operation expired; use a new idempotency key'' ErrorCodeCheckoutConflict intent []))
       else if ci_ProviderSessionID intent \<noteq> [] \<and> ci_ProviderURL intent \<noteq> []
       then replay_session s intent (cic_SubjectID create)
       else open_session s provider
         (request\<lparr>csr_SuccessURL := replaceCheckoutIntentURL (csr_SuccessURL request) (ci_ID intent),
            csr_CancelURL := replaceCheckoutIntentURL (csr_CancelURL request) (ci_ID intent),
            csr_Metadata := map_put ''checkout_intent_id'' (ci_ID intent) (csr_Metadata request)\<rparr>)
         intent (cic_SubjectID create)))"

definition checkout_create ::
  "'w CommerceService \<Rightarrow> CreateCheckoutInput \<Rightarrow> string \<Rightarrow> string \<Rightarrow> string \<Rightarrow> string \<Rightarrow> CommerceOffer \<Rightarrow> string \<Rightarrow> int \<Rightarrow>
   string gomap \<Rightarrow> gotime \<Rightarrow> CheckoutIntentCreate" where
  "checkout_create s input subjectID accountID offerKey idempotencyKey offer name quantity metadata now =
     \<lparr>cic_SubjectID = subjectID, cic_AccountID = accountID, cic_Provider = name,
      cic_CheckoutKind = checkoutIntentKind (of_Type offer), cic_ProductKey = offerKey, cic_Quantity = quantity,
      cic_IdempotencyKey = idempotencyKey, cic_RequestDigest = [], cic_ExpiresAt = now + cms_checkoutIntentTTL s,
      cic_Region = cin_Region input, cic_Metadata = metadata\<rparr>"

text \<open>
  The map of the metadata is shared between the intent and the session, so the intent's identifier that is put into it
  later is in the session's metadata; the store has been called by then. The URLs of the request are filled in
  by \<^const>\<open>continue_checkout\<close>.
\<close>

definition start_checkout ::
  "(goval gomap \<Rightarrow> string) \<Rightarrow> decimal_pkg \<Rightarrow> 'w CommerceService \<Rightarrow> CreateCheckoutInput \<Rightarrow> string \<times> string \<times> string \<times> string \<Rightarrow>
   CommerceOffer \<Rightarrow> int \<Rightarrow> BillingCustomerRecord option \<Rightarrow> 'w HostedProvider \<Rightarrow> ('w commerce_world, CreateCheckoutResult) op" where
  "start_checkout digest D s input texts offer quantity customer provider =
     (case texts of (subjectID, accountID, offerKey, idempotencyKey) \<Rightarrow>
     try_op (provider_customer s accountID (hp_Name provider) customer) zero_Checkout (\<lambda>accountCustomer.
     require (offer_product offer offerKey (hp_Name provider)) zero_Checkout (\<lambda>productID.
     try_op (commerce_now s) zero_Checkout (\<lambda>now.
       let metadata = checkout_metadata D offer accountID quantity (cin_Metadata input);
           base = checkout_create s input subjectID accountID offerKey idempotencyKey offer (hp_Name provider) quantity
             metadata now;
           create = base\<lparr>cic_RequestDigest := checkoutRequestDigest digest base\<rparr>;
           request = \<lparr>csr_AccountID = accountID, csr_ProductID = productID, csr_Mode = checkoutMode (of_Type offer),
             csr_Quantity = quantity, csr_SuccessURL = cin_SuccessURL input, csr_CancelURL = cin_CancelURL input,
             csr_CustomerID = checkout_customer s accountCustomer (cin_CustomerID input),
             csr_CustomerEmail = cin_CustomerEmail input, csr_Metadata = metadata, csr_IdempotencyKey = idempotencyKey\<rparr>
       in try_op (commerce_logged (IntentRequested create) (cst_CreateOrGetCheckoutIntent (cms_store s) create)) zero_Checkout
            (continue_checkout s provider create request)))))"

definition CreateCheckout ::
  "(goval gomap \<Rightarrow> string) \<Rightarrow> decimal_pkg \<Rightarrow> 'w CommerceService option \<Rightarrow> CreateCheckoutInput \<Rightarrow>
   ('w commerce_world, CreateCheckoutResult) op" where
  "CreateCheckout digest D service input =
     (case service of
        None \<Rightarrow> return_err zero_Checkout commerce_not_configured
      | Some s \<Rightarrow>
     require (checkout_texts input) zero_Checkout (\<lambda>(subjectID, accountID, offerKey, idempotencyKey).
     try_op (commerce_port (cms_GetConfig s)) zero_Checkout (\<lambda>config.
       case map_of (com_Offers (cfg_Commerce config)) offerKey of
         None \<Rightarrow> return_err zero_Checkout (unknown_offer offerKey)
       | Some offer \<Rightarrow>
     reject (checkout_type_check offer offerKey (cin_Type input)) zero_Checkout (
     require (checkoutQuantity offer (cin_Quantity input)) zero_Checkout (\<lambda>quantity.
     try_op (account_state s accountID) zero_Checkout (\<lambda>(currentProvider, customer).
     try_op (no_blocking_subscription s offer accountID) zero_Checkout (\<lambda>_.
     commerce_Select s (cin_Provider input) (provider_fallback s currentProvider customer) (sortedProviderKeys (of_Providers offer))
       (start_checkout digest D s input (subjectID, accountID, offerKey, idempotencyKey) offer quantity customer)
       zero_Checkout)))))))"

section \<open>Webhooks\<close>

definition HandleWebhook ::
  "'w CommerceService option \<Rightarrow> string \<Rightarrow> string \<Rightarrow> ('w billing_world, WebhookHandlingResult option) op" where
  "HandleWebhook service providerName request =
     (case service of
        None \<Rightarrow> return_err None commerce_not_configured
      | Some s \<Rightarrow>
          (let selected = (if trim_space providerName \<noteq> [] then Some (trim_space providerName)
                 else case cms_providers s of [name] \<Rightarrow> Some name | _ \<Rightarrow> None)
           in case selected of
                None \<Rightarrow> return_err None (NewError ''webhook provider selection is ambiguous''
                  (code_category ErrorCodeProviderSelectionFailed ErrorCategoryInvalidRequest))
              | Some name \<Rightarrow>
                  try_op (billing_port (cms_Get s name)) None (\<lambda>provider.
                  try_op (billing_port (hp_HandleWebhook provider request)) None (\<lambda>webhook.
                    case wr_Event webhook of
                      None \<Rightarrow> return_err None (NewError ''provider accepted webhook without a normalized event''
                        (code_category ErrorCodeProviderResponseInvalid ErrorCategoryInvalidRequest))
                    | Some event \<Rightarrow>
                        bind_op (Ingest (Some (cms_billing s)) event) (\<lambda>result e.
                          case e of
                            Some err \<Rightarrow> return_err (Some \<lparr>whr_Webhook = webhook, whr_Billing = zero_BillingResult\<rparr>) err
                          | None \<Rightarrow> return_ok (Some \<lparr>whr_Webhook = webhook, whr_Billing = result\<rparr>))))))"

section \<open>What a checkout logs\<close>

text \<open>
  The intent that is asked for: the caller's subject, account and stable key, the offer, a quantity that the offer
  permits, and the digest of the request.
\<close>

definition create_for ::
  "(goval gomap \<Rightarrow> string) \<Rightarrow> CreateCheckoutInput \<Rightarrow> CommerceOffer \<Rightarrow> CheckoutIntentCreate \<Rightarrow> bool" where
  "create_for digest input offer create \<longleftrightarrow>
     cic_SubjectID create = trim_space (cin_SubjectID input) \<and> cic_AccountID create = trim_space (cin_AccountID input) \<and>
     cic_ProductKey create = trim_space (cin_OfferKey input) \<and>
     cic_IdempotencyKey create = trim_space (cin_IdempotencyKey input) \<and> stable_key (cic_IdempotencyKey create) \<and>
     checkoutQuantity offer (cin_Quantity input) = Inr (cic_Quantity create) \<and>
     cic_RequestDigest create = checkoutRequestDigest digest create"

text \<open>
  A session may be requested only for an intent that is bound to this request, open and without a session. The request
  carries the intent's key, account and quantity, the catalogue's product for the provider, and the two identifiers in
  its metadata; with a state store the customer is one that the store returned for the account, or none, whatever the
  caller supplied.
\<close>

definition persisted_customer :: "'w CommerceService \<Rightarrow> string \<Rightarrow> BillingCustomerRecord option \<Rightarrow> bool" where
  "persisted_customer s accountID customer \<longleftrightarrow>
     (\<forall>state. cms_state s = Some state \<longrightarrow>
        (\<exists>name x x'. css_GetBillingCustomer state accountID name x = ((customer, None), x')))"

definition session_for ::
  "'w CommerceService \<Rightarrow> CommerceOffer \<Rightarrow> CheckoutIntentCreate \<Rightarrow> CheckoutIntent \<Rightarrow> CheckoutSessionRequest \<Rightarrow> bool" where
  "session_for s offer create intent request \<longleftrightarrow>
     equal_fold (ci_RequestDigest intent) (cic_RequestDigest create) \<and> ci_RequestDigest intent \<noteq> [] \<and>
     ci_Status intent = ''open'' \<and> (ci_ProviderSessionID intent = [] \<or> ci_ProviderURL intent = []) \<and>
     csr_IdempotencyKey request = cic_IdempotencyKey create \<and> csr_AccountID request = cic_AccountID create \<and>
     csr_Quantity request = cic_Quantity create \<and> csr_Mode request = checkoutMode (of_Type offer) \<and>
     (\<exists>reference :: ProviderReference. map_of (of_Providers offer) (cic_Provider create) = Some reference \<and>
        csr_ProductID request = providerProductID reference \<and> csr_ProductID request \<noteq> []) \<and>
     map_of (csr_Metadata request) ''bursar_account_id'' = Some (cic_AccountID create) \<and>
     map_of (csr_Metadata request) ''checkout_intent_id'' = Some (ci_ID intent) \<and>
     (cms_state s \<noteq> None \<longrightarrow> (\<exists>customer. persisted_customer s (cic_AccountID create) customer \<and>
        csr_CustomerID request = (case customer of None \<Rightarrow> [] | Some c \<Rightarrow> trim_space (bcr_ProviderCustomerID c))))"

definition published :: "CheckoutSession \<Rightarrow> CheckoutIntentUpdate" where
  "published session = \<lparr>ciu_ProviderSessionID = chs_ID session, ciu_ProviderURL = chs_URL session,
     ciu_CustomerID = chs_CustomerID session, ciu_Status = ''open''\<rparr>"

inductive checkout_moves ::
  "'w CommerceService \<Rightarrow> CommerceOffer \<Rightarrow> CheckoutIntentCreate \<Rightarrow> CheckoutIntent \<Rightarrow> commerce_call list \<Rightarrow>
   CreateCheckoutResult \<Rightarrow> go_error option \<Rightarrow> bool" for s offer create intent where
  refused: "e \<noteq> None \<Longrightarrow> checkout_moves s offer create intent [] r e"
| replayed: "ci_ProviderSessionID intent \<noteq> [] \<Longrightarrow> ci_ProviderURL intent \<noteq> [] \<Longrightarrow>
    chs_ID (ccr_Session r) = ci_ProviderSessionID intent \<Longrightarrow> chs_URL (ccr_Session r) = ci_ProviderURL intent \<Longrightarrow>
    checkout_moves s offer create intent [] r None"
| reconciled: "ciu_Status update \<in> {''expired'', ''completed'', ''failed''} \<Longrightarrow> e \<noteq> None \<Longrightarrow>
    checkout_moves s offer create intent [IntentUpdated (ci_ID intent) (cic_SubjectID create) update] r e"
| session_failed: "session_for s offer create intent request \<Longrightarrow> e \<noteq> None \<Longrightarrow>
    T = [] \<or> T = [CustomerSaved c] \<or> T = [IntentUpdated (ci_ID intent) (cic_SubjectID create) (published session)] \<or>
      T = [CustomerSaved c, IntentUpdated (ci_ID intent) (cic_SubjectID create) (published session)] \<Longrightarrow>
    checkout_moves s offer create intent (SessionRequested request session se # T) r e"
| session_opened: "session_for s offer create intent request \<Longrightarrow> T = [] \<or> T = [CustomerSaved c] \<Longrightarrow>
    bcr_AccountID c = cic_AccountID create \<Longrightarrow> ccr_Session r = session \<Longrightarrow>
    checkout_moves s offer create intent
      (SessionRequested request session None # T @ [IntentUpdated (ci_ID intent) (cic_SubjectID create) (published session)]) r None"

definition moves_from ::
  "'w CommerceService \<Rightarrow> CommerceOffer \<Rightarrow> CheckoutIntentCreate \<Rightarrow> CheckoutIntent \<Rightarrow> commerce_call list \<Rightarrow>
   (CreateCheckoutResult \<times> go_error option) \<times> 'w commerce_world \<Rightarrow> bool" where
  "moves_from s offer create intent l out \<longleftrightarrow>
     (\<exists>M. cw_log (state_of out) = l @ M \<and> checkout_moves s offer create intent M (result_of out) (error_of out))"

lemma save_customer_log:
  obtains e w' T where "save_customer s c w = (((), e), w')" "cw_log w' = cw_log w @ T" "T = [] \<or> T = [CustomerSaved c]"
proof -
  obtain u e w' where run: "save_customer s c w = ((u, e), w')" by (metis prod.collapse)
  then have "cw_log w' = cw_log w \<or> cw_log w' = cw_log w @ [CustomerSaved c]"
    by (auto simp: save_customer_def Let_def op_simps commerce_logged_def split: if_splits option.splits prod.splits)
  then show thesis using run that [of e w' "[]"] that [of e w' "[CustomerSaved c]"] by auto
qed

lemma update_intent_run:
  obtains e v where "update_intent s i subject u w =
    (((), e), w\<lparr>cw_state := v, cw_log := cw_log w @ [IntentUpdated i subject u]\<rparr>)"
  by (cases "cst_UpdateCheckoutIntent (cms_store s) i subject u (cw_state w)")
    (auto simp: update_intent_def commerce_logged_def)

lemma open_session_moves:
  assumes "session_for s offer create intent request"
  shows "moves_from s offer create intent (cw_log w) (open_session s provider request intent (cic_SubjectID create) w)"
proof -
  obtain ses se v where run: "hp_CreateCheckoutSession provider request (cw_state w) = ((ses, se), v)"
    by (metis prod.collapse)
  let ?w = "w\<lparr>cw_state := v, cw_log := cw_log w @ [SessionRequested request ses se]\<rparr>"
  let ?c = "\<lparr>bcr_Provider = hp_Name provider, bcr_ProviderCustomerID = trim_space (chs_CustomerID ses),
           bcr_AccountID = csr_AccountID request, bcr_Email = trim_space (csr_CustomerEmail request)\<rparr>"
  have account: "bcr_AccountID ?c = cic_AccountID create" using assms by (simp add: session_for_def)
  obtain ce w2 T where save: "save_customer s ?c ?w = (((), ce), w2)" "cw_log w2 = cw_log ?w @ T" "T = [] \<or> T = [CustomerSaved ?c]"
    by (rule save_customer_log)
  obtain ue x where upd: "update_intent s (ci_ID intent) (cic_SubjectID create) (published ses) w2 =
      (((), ue), w2\<lparr>cw_state := x, cw_log := cw_log w2 @
         [IntentUpdated (ci_ID intent) (cic_SubjectID create) (published ses)]\<rparr>)"
    by (rule update_intent_run)
  note failed = session_failed [OF assms, of _ _ ?c ses]
  show ?thesis
  proof (cases se)
    case (Some err)
    with run failed [of "Some err" "[]"] show ?thesis
      by (auto simp: moves_from_def open_session_def op_simps commerce_logged_def)
  next
    case se: None
    show ?thesis
    proof (cases ce)
      case (Some err)
      with run se save failed [of "Some err" T] show ?thesis
        by (auto simp: moves_from_def open_session_def op_simps commerce_logged_def)
    next
      case ce: None
      show ?thesis
      proof (cases ue)
        case (Some err)
        with run se ce save upd failed [of "Some err" "T @ [IntentUpdated (ci_ID intent) (cic_SubjectID create) (published ses)]"]
        show ?thesis
          by (auto simp: moves_from_def open_session_def op_simps commerce_logged_def published_def)
      next
        case None
        let ?res = "\<lparr>ccr_Intent = Some (intent\<lparr>ci_ProviderSessionID := chs_ID ses, ci_ProviderURL := chs_URL ses,
          ci_Status := ''open''\<rparr>), ccr_Session = ses\<rparr>"
        have "open_session s provider request intent (cic_SubjectID create) w = ((?res, None), w2\<lparr>cw_state := x,
            cw_log := cw_log w2 @ [IntentUpdated (ci_ID intent) (cic_SubjectID create) (published ses)]\<rparr>)"
          using run se ce save(1) upd None
          by (simp add: open_session_def op_simps commerce_logged_def published_def [symmetric])
        moreover have "checkout_moves s offer create intent (SessionRequested request ses None # T @
            [IntentUpdated (ci_ID intent) (cic_SubjectID create) (published ses)]) ?res None"
          by (rule session_opened [OF assms save(3) account]) simp
        ultimately show ?thesis using save(2) se by (auto simp: moves_from_def)
      qed
    qed
  qed
qed

lemma reconcile_run:
  assumes "resolveCheckoutStatus s intent subject w = ((status, e), w')"
  shows "cw_log w' = cw_log w \<or>
    (\<exists>u. cw_log w' = cw_log w @ [IntentUpdated (ci_ID intent) subject u] \<and> ciu_Status u \<in> {''expired'', ''completed'', ''failed''} \<and>
      (e = None \<longrightarrow> status \<in> {''succeeded'', ''expired'', ''failed''}))"
proof -
  have status: "provider_status x = Some (d, res) \<Longrightarrow>
      d \<in> {''expired'', ''completed'', ''failed''} \<and> res \<in> {''succeeded'', ''expired'', ''failed''}" for x d res
    by (auto simp: provider_status_def split: if_splits)
  show ?thesis
    using assms status
    by (auto simp: resolveCheckoutStatus_def reconcile_session_def Let_def op_simps commerce_now_def commerce_port_def
        update_intent_def commerce_logged_def expire_intent_def split: if_splits option.splits prod.splits)
qed

lemma replay_session_moves:
  assumes "ci_ProviderSessionID intent \<noteq> []" and "ci_ProviderURL intent \<noteq> []"
  shows "moves_from s offer create intent (cw_log w) (replay_session s intent (cic_SubjectID create) w)"
proof -
  obtain status e w' where run: "resolveCheckoutStatus s intent (cic_SubjectID create) w = ((status, e), w')"
    by (metis prod.collapse)
  let ?out = "replay_session s intent (cic_SubjectID create) w"
  have state: "state_of ?out = w'"
    using run by (cases e) (auto simp: replay_session_def op_simps)
  have failing: "error_of ?out \<noteq> None" if "e \<noteq> None \<or> status \<in> {''succeeded'', ''expired'', ''failed''}"
    using run that by (cases e) (auto simp: replay_session_def op_simps)
  show ?thesis
  proof (cases "e \<noteq> None \<or> status \<in> {''succeeded'', ''expired'', ''failed''}")
    case True
    from reconcile_run [OF run] show ?thesis
    proof
      assume "cw_log w' = cw_log w"
      with state refused [OF failing [OF True]] show ?thesis unfolding moves_from_def by (metis append_Nil2)
    next
      assume "\<exists>u. cw_log w' = cw_log w @ [IntentUpdated (ci_ID intent) (cic_SubjectID create) u] \<and>
        ciu_Status u \<in> {''expired'', ''completed'', ''failed''} \<and> (e = None \<longrightarrow> status \<in> {''succeeded'', ''expired'', ''failed''})"
      with state reconciled [OF _ failing [OF True]] show ?thesis unfolding moves_from_def by metis
    qed
  next
    case False
    then have "cw_log w' = cw_log w" using reconcile_run [OF run] by auto
    moreover have "?out = ((\<lparr>ccr_Intent = Some intent, ccr_Session = \<lparr>chs_ID = ci_ProviderSessionID intent,
        chs_URL = ci_ProviderURL intent, chs_CustomerID = []\<rparr>\<rparr>, None), w')"
      using run False by (simp add: replay_session_def op_simps)
    ultimately show ?thesis
      unfolding moves_from_def using assms by (intro exI [of _ "[]"]) (simp add: replayed)
  qed
qed

lemma continue_moves:
  assumes "\<And>request'. intent_check create intent = None \<Longrightarrow> ci_ProviderSessionID intent = [] \<or> ci_ProviderURL intent = [] \<Longrightarrow>
      request' = request\<lparr>csr_SuccessURL := replaceCheckoutIntentURL (csr_SuccessURL request) (ci_ID intent),
            csr_CancelURL := replaceCheckoutIntentURL (csr_CancelURL request) (ci_ID intent),
            csr_Metadata := map_put ''checkout_intent_id'' (ci_ID intent) (csr_Metadata request)\<rparr> \<Longrightarrow>
      session_for s offer create intent request'"
  shows "moves_from s offer create intent (cw_log w) (continue_checkout s provider create request intent w)"
proof (cases "intent_check create intent")
  case (Some err)
  then show ?thesis
    using refused [of "Some err"] by (auto simp: moves_from_def continue_checkout_def reject_def op_simps)
next
  case None
  obtain now v where now: "cms_now s (cw_state w) = (now, v)" by (metis prod.collapse)
  let ?w = "w\<lparr>cw_state := v\<rparr>"
  have log: "cw_log ?w = cw_log w" by simp
  let ?u = "update_intent s (ci_ID intent) (cic_SubjectID create) expire_intent ?w"
  obtain ue x where upd: "?u = (((), ue), ?w\<lparr>cw_state := x,
      cw_log := cw_log ?w @ [IntentUpdated (ci_ID intent) (cic_SubjectID create) expire_intent]\<rparr>)"
    by (rule update_intent_run)
  have expired: "ciu_Status expire_intent \<in> {''expired'', ''completed'', ''failed''}" by (simp add: expire_intent_def)
  let ?request = "request\<lparr>csr_SuccessURL := replaceCheckoutIntentURL (csr_SuccessURL request) (ci_ID intent),
            csr_CancelURL := replaceCheckoutIntentURL (csr_CancelURL request) (ci_ID intent),
            csr_Metadata := map_put ''checkout_intent_id'' (ci_ID intent) (csr_Metadata request)\<rparr>"
  have run: "continue_checkout s provider create request intent w =
      (if intent_expired intent now
       then case ?u of
         ((_, None), w') \<Rightarrow> ((with_intent (intent\<lparr>ci_Status := ''expired''\<rparr>), Some (conflict_error
           ''checkout operation expired; use a new idempotency key'' ErrorCodeCheckoutConflict intent [])), w')
       | ((_, Some err), w') \<Rightarrow> ((with_intent intent, Some err), w')
       else if ci_ProviderSessionID intent \<noteq> [] \<and> ci_ProviderURL intent \<noteq> []
       then replay_session s intent (cic_SubjectID create) ?w
       else open_session s provider ?request intent (cic_SubjectID create) ?w)"
    using None now
    by (simp add: continue_checkout_def reject_def op_simps commerce_now_def commerce_port_def split: prod.split option.split)
  consider (late) "intent_expired intent now" | (again) "\<not> intent_expired intent now" "ci_ProviderSessionID intent \<noteq> []"
      "ci_ProviderURL intent \<noteq> []"
    | (fresh) "\<not> intent_expired intent now" "ci_ProviderSessionID intent = [] \<or> ci_ProviderURL intent = []" by blast
  then show ?thesis
  proof cases
    case late
    with run upd log show ?thesis
      by (cases ue) (auto simp: moves_from_def intro!: reconciled [OF expired])
  next
    case again
    then show ?thesis using run replay_session_moves [OF again(2,3), of s offer create ?w] log by (simp only: if_True if_False simp_thms)
  next
    case fresh
    have "session_for s offer create intent ?request" by (rule assms [OF None fresh(2) refl])
    then show ?thesis using run fresh open_session_moves [of s offer create intent ?request ?w provider] log by auto
  qed
qed

lemma kept_reads:
  "keeps log_kept (account_state s accountID)"
  "keeps log_kept (no_blocking_subscription s offer accountID)"
  "keeps log_kept (provider_customer s accountID name customer)"
  "keeps log_kept (commerce_now s)"
  unfolding account_state_def no_blocking_subscription_def provider_customer_def commerce_now_def Let_def
  by (auto intro!: log_kept.keeps_return log_kept.keeps_try log_kept.keeps_require kept_port split: option.split)

lemma metadata_account: "map_of (checkout_metadata D offer accountID quantity m) ''bursar_account_id'' = Some accountID"
  by (simp add: checkout_metadata_def Let_def split: option.split)

definition checkout_outcome ::
  "(goval gomap \<Rightarrow> string) \<Rightarrow> 'w CommerceService \<Rightarrow> CreateCheckoutInput \<Rightarrow> CommerceOffer \<Rightarrow> commerce_call list \<Rightarrow>
   (CreateCheckoutResult \<times> go_error option) \<times> 'w commerce_world \<Rightarrow> bool" where
  "checkout_outcome digest s input offer l out \<longleftrightarrow>
     cw_log (state_of out) = l \<and> error_of out \<noteq> None \<or>
     (\<exists>create intent ie M. create_for digest input offer create \<and>
        cw_log (state_of out) = l @ IntentRequested create intent ie # M \<and>
        (if ie = None then checkout_moves s offer create intent M (result_of out) (error_of out)
         else M = [] \<and> error_of out \<noteq> None))"

lemma provider_customer_persisted:
  assumes "persisted_customer s accountID customer"
    and "provider_customer s accountID name customer w = ((c, None), w')"
  shows "persisted_customer s accountID c"
  using assms
  by (auto simp: provider_customer_def persisted_customer_def op_simps commerce_port_def
      split: option.splits if_splits prod.splits)

lemma account_state_persisted:
  assumes "account_state s accountID w = (((provider, customer), None), w')"
  shows "persisted_customer s accountID customer"
  using assms
  by (auto simp: account_state_def persisted_customer_def op_simps commerce_port_def Let_def
      split: option.splits if_splits prod.splits)

lemma start_outcome:
  assumes texts: "checkout_texts input = Inr (subjectID, accountID, offerKey, idempotencyKey)"
    and quantity: "checkoutQuantity offer (cin_Quantity input) = Inr quantity"
    and persisted: "persisted_customer s accountID customer"
  shows "checkout_outcome digest s input offer (cw_log w)
    (start_checkout digest D s input (subjectID, accountID, offerKey, idempotencyKey) offer quantity customer provider w)"
proof -
  have keys: "subjectID = trim_space (cin_SubjectID input)" "accountID = trim_space (cin_AccountID input)"
    "offerKey = trim_space (cin_OfferKey input)" "idempotencyKey = trim_space (cin_IdempotencyKey input)"
    "stable_key idempotencyKey"
    using texts by (auto simp: checkout_texts_def bind_err_Inr_iff requireText_Inr requireStableKey_Inr split: if_splits)
  obtain c ce w1 where c: "provider_customer s accountID (hp_Name provider) customer w = ((c, ce), w1)"
    by (metis prod.collapse)
  obtain now w2 where now: "commerce_now s w1 = ((now, None), w2)"
    by (cases "cms_now s (cw_state w1)") (auto simp: commerce_now_def commerce_port_def)
  have logs: "cw_log w1 = cw_log w" "cw_log w2 = cw_log w"
    using keptD [OF kept_reads(3) c] keptD [OF kept_reads(4) now] by simp_all
  show ?thesis
  proof (cases "ce = None \<and> (\<exists>product. offer_product offer offerKey (hp_Name provider) = Inr product)")
    case False
    with c logs(1) show ?thesis
      by (auto simp: checkout_outcome_def start_checkout_def op_simps require_def split: option.splits sum.splits)
  next
    case True
    then obtain product where ce: "ce = None" and product: "offer_product offer offerKey (hp_Name provider) = Inr product"
      by blast
    define metadata where "metadata = checkout_metadata D offer accountID quantity (cin_Metadata input)"
    define base where "base = checkout_create s input subjectID accountID offerKey idempotencyKey offer (hp_Name provider)
      quantity metadata now"
    define create where "create = base\<lparr>cic_RequestDigest := checkoutRequestDigest digest base\<rparr>"
    define request where "request = \<lparr>csr_AccountID = accountID, csr_ProductID = product, csr_Mode = checkoutMode (of_Type offer),
             csr_Quantity = quantity, csr_SuccessURL = cin_SuccessURL input, csr_CancelURL = cin_CancelURL input,
             csr_CustomerID = checkout_customer s c (cin_CustomerID input),
             csr_CustomerEmail = cin_CustomerEmail input, csr_Metadata = metadata, csr_IdempotencyKey = idempotencyKey\<rparr>"
    obtain intent ie v where intent: "cst_CreateOrGetCheckoutIntent (cms_store s) create (cw_state w2) = ((intent, ie), v)"
      by (metis prod.collapse)
    let ?w = "w2\<lparr>cw_state := v, cw_log := cw_log w2 @ [IntentRequested create intent ie]\<rparr>"
    have run: "start_checkout digest D s input (subjectID, accountID, offerKey, idempotencyKey) offer quantity customer provider w =
        (case ie of None \<Rightarrow> continue_checkout s provider create request intent ?w
         | Some err \<Rightarrow> ((zero_Checkout, Some err), ?w))"
      using c ce product now intent
      by (simp add: start_checkout_def op_simps Let_def commerce_logged_def metadata_def [symmetric] base_def [symmetric]
          create_def [symmetric] request_def [symmetric] split: option.split)
    have create: "create_for digest input offer create"
      using keys quantity by (simp add: create_for_def create_def base_def checkout_create_def checkoutRequestDigest_def)
    show ?thesis
    proof (cases ie)
      case (Some err)
      with run create logs show ?thesis by (auto simp: checkout_outcome_def)
    next
      case None
      have "moves_from s offer create intent (cw_log ?w) (continue_checkout s provider create request intent ?w)"
      proof (rule continue_moves)
        fix request'
        assume check: "intent_check create intent = None" and sess: "ci_ProviderSessionID intent = [] \<or> ci_ProviderURL intent = []"
          and req: "request' = request\<lparr>csr_SuccessURL := replaceCheckoutIntentURL (csr_SuccessURL request) (ci_ID intent),
            csr_CancelURL := replaceCheckoutIntentURL (csr_CancelURL request) (ci_ID intent),
            csr_Metadata := map_put ''checkout_intent_id'' (ci_ID intent) (csr_Metadata request)\<rparr>"
        have "cic_Provider create = hp_Name provider" by (simp add: create_def base_def checkout_create_def)
        with product have product': "\<exists>reference. map_of (of_Providers offer) (cic_Provider create) = Some reference \<and>
            product = providerProductID reference \<and> product \<noteq> []"
          by (auto simp: offer_product_def split: option.splits if_splits)
        have customer: "cms_state s \<noteq> None \<Longrightarrow> persisted_customer s accountID c \<and> csr_CustomerID request' =
            (case c of None \<Rightarrow> [] | Some b \<Rightarrow> trim_space (bcr_ProviderCustomerID b))"
          using provider_customer_persisted [OF persisted c [unfolded ce]]
          by (auto simp: req request_def checkout_customer_def Let_def split: option.split)
        then have customer': "cms_state s \<noteq> None \<Longrightarrow> \<exists>x. persisted_customer s accountID x \<and> csr_CustomerID request' =
            (case x of None \<Rightarrow> [] | Some b \<Rightarrow> trim_space (bcr_ProviderCustomerID b))" by blast
        from check have bound: "equal_fold (ci_RequestDigest intent) (cic_RequestDigest create)" "ci_RequestDigest intent \<noteq> []"
          "ci_Status intent = ''open''" by (auto simp: intent_check_def split: if_splits)
        show "session_for s offer create intent request'"
          unfolding session_for_def using bound sess customer' product'
          by (simp add: req request_def create_def base_def checkout_create_def metadata_def metadata_account)
      qed
      with run None create logs show ?thesis by (auto simp: checkout_outcome_def moves_from_def)
    qed
  qed
qed

text \<open>The decisions before the intent is asked for only read.\<close>

lemma checkout_outcome_quiet: "cw_log (state_of out) = l \<Longrightarrow> error_of out \<noteq> None \<Longrightarrow> checkout_outcome digest s input offer l out"
  by (simp add: checkout_outcome_def)

lemma checkout_outcome_select:
  assumes "\<And>provider w'. cw_log w' = cw_log w \<Longrightarrow> checkout_outcome digest s input offer (cw_log w) (k provider w')"
  shows "checkout_outcome digest s input offer (cw_log w) (commerce_Select s requested fallback compatible k zero_Checkout w)"
proof (cases "select_provider requested fallback compatible")
  case (Inl err)
  then show ?thesis by (simp add: commerce_Select_def op_simps require_def checkout_outcome_quiet)
next
  case (Inr name)
  obtain provider e w' where get: "commerce_port (cms_Get s name) w = ((provider, e), w')" by (metis prod.collapse)
  with keptD [OF kept_port get] assms [of w' provider] Inr show ?thesis
    by (cases e) (simp_all add: commerce_Select_def op_simps require_def checkout_outcome_quiet)
qed

lemma checkout_outcome_try:
  assumes "keeps log_kept m"
    and "\<And>x w'. m w = ((x, None), w') \<Longrightarrow> cw_log w' = cw_log w \<Longrightarrow> checkout_outcome digest s input offer (cw_log w) (k x w')"
  shows "checkout_outcome digest s input offer (cw_log w) (try_op m zero_Checkout k w)"
proof -
  obtain x e w' where run: "m w = ((x, e), w')" by (metis prod.collapse)
  with keptD [OF assms(1) run] assms(2) [of x w'] show ?thesis
    by (cases e) (simp_all add: op_simps checkout_outcome_quiet)
qed

lemma offer_outcome:
  assumes texts: "checkout_texts input = Inr (subjectID, accountID, offerKey, idempotencyKey)"
  shows "checkout_outcome digest s input offer (cw_log w)
    (reject (checkout_type_check offer offerKey (cin_Type input)) zero_Checkout (
     require (checkoutQuantity offer (cin_Quantity input)) zero_Checkout (\<lambda>quantity.
     try_op (account_state s accountID) zero_Checkout (\<lambda>(currentProvider, customer).
     try_op (no_blocking_subscription s offer accountID) zero_Checkout (\<lambda>_.
     commerce_Select s (cin_Provider input) (provider_fallback s currentProvider customer) (sortedProviderKeys (of_Providers offer))
       (start_checkout digest D s input (subjectID, accountID, offerKey, idempotencyKey) offer quantity customer)
       zero_Checkout)))) w)"
proof (cases "checkout_type_check offer offerKey (cin_Type input)")
  case (Some err)
  then show ?thesis by (simp add: reject_def op_simps checkout_outcome_quiet)
next
  case type_ok: None
  show ?thesis
  proof (cases "checkoutQuantity offer (cin_Quantity input)")
    case (Inl err)
    with type_ok show ?thesis by (simp add: reject_def require_def op_simps checkout_outcome_quiet)
  next
    case (Inr quantity)
    have "checkout_outcome digest s input offer (cw_log w)
      (try_op (account_state s accountID) zero_Checkout (\<lambda>(currentProvider, customer).
       try_op (no_blocking_subscription s offer accountID) zero_Checkout (\<lambda>_.
       commerce_Select s (cin_Provider input) (provider_fallback s currentProvider customer) (sortedProviderKeys (of_Providers offer))
         (start_checkout digest D s input (subjectID, accountID, offerKey, idempotencyKey) offer quantity customer)
         zero_Checkout)) w)"
    proof (rule checkout_outcome_try [OF kept_reads(1)], split prod.split, intro allI impI)
      fix x w1 currentProvider customer
      assume account: "account_state s accountID w = ((x, None), w1)" "x = (currentProvider, customer)"
        and log1: "cw_log w1 = cw_log w"
      have persisted: "persisted_customer s accountID customer" using account by (auto intro: account_state_persisted)
      show "checkout_outcome digest s input offer (cw_log w) (try_op (no_blocking_subscription s offer accountID) zero_Checkout (\<lambda>_.
       commerce_Select s (cin_Provider input) (provider_fallback s currentProvider customer) (sortedProviderKeys (of_Providers offer))
         (start_checkout digest D s input (subjectID, accountID, offerKey, idempotencyKey) offer quantity customer)
         zero_Checkout) w1)"
        unfolding log1 [symmetric]
        by (rule checkout_outcome_try [OF kept_reads(2)]; metis checkout_outcome_select start_outcome [OF texts Inr persisted])
    qed
    with type_ok Inr show ?thesis by (simp add: reject_def require_def op_simps)
  qed
qed

text \<open>
  C4. What \<open>CreateCheckout\<close> may do. Every failure before the intent leaves the store and the provider alone. Otherwise
  the offer is the catalogue's offer for the requested key, the store is asked for one intent, for the caller's subject,
  account, stable key, a permitted quantity and the digest of exactly that request, and then: a session is requested
  at most once, only when the returned intent is open, has no session and is bound to the same digest, for
  the catalogue's product at the selected provider, under the caller's idempotency key, with both identifiers in its
  metadata, and never for a customer identifier the caller supplied when there is a state store; success means that the
  session was published on the intent, or that the session already on the intent is returned without a new one.
\<close>

theorem checkout_session_safety:
  assumes "CreateCheckout digest D (Some s) input w = ((r, e), w')"
  shows "cw_log w' = cw_log w \<and> e \<noteq> None \<or>
    (\<exists>config x offer. cms_GetConfig s (cw_state w) = ((config, None), x) \<and>
       map_of (com_Offers (cfg_Commerce config)) (trim_space (cin_OfferKey input)) = Some offer \<and>
       checkout_outcome digest s input offer (cw_log w) ((r, e), w'))"
proof (cases "checkout_texts input")
  case (Inl err)
  with assms show ?thesis by (auto simp: CreateCheckout_def require_def op_simps)
next
  case (Inr texts)
  obtain subjectID accountID offerKey idempotencyKey where texts: "checkout_texts input = Inr (subjectID, accountID, offerKey, idempotencyKey)"
    using Inr by (cases texts) auto
  then have key: "offerKey = trim_space (cin_OfferKey input)"
    by (auto simp: checkout_texts_def bind_err_Inr_iff requireText_Inr split: if_splits)
  obtain config ce x where config: "cms_GetConfig s (cw_state w) = ((config, ce), x)" by (metis prod.collapse)
  show ?thesis
  proof (cases "ce = None \<and> map_of (com_Offers (cfg_Commerce config)) offerKey \<noteq> None")
    case False
    with assms texts config show ?thesis
      by (auto simp: CreateCheckout_def require_def op_simps commerce_port_def split: option.splits)
  next
    case True
    then obtain offer where offer: "ce = None" "map_of (com_Offers (cfg_Commerce config)) offerKey = Some offer" by blast
    have "checkout_outcome digest s input offer (cw_log w) ((r, e), w')"
      using offer_outcome [OF texts, of digest s offer "w\<lparr>cw_state := x\<rparr>" D] assms texts config offer
      by (simp add: CreateCheckout_def require_def op_simps commerce_port_def)
    with config offer key show ?thesis by blast
  qed
qed

text \<open>
  Only an event that the selected provider returned for the raw request reaches the billing service, unchanged, and
  every earlier failure leaves the billing log as it was.
\<close>

lemma HandleWebhook_verified:
  assumes "HandleWebhook (Some s) providerName request w = ((r, e), w')"
  shows "r = None \<and> e \<noteq> None \<and> bw_log w' = bw_log w \<or>
    (\<exists>name provider webhook event result w1 w2.
       billing_port (cms_Get s name) w = ((provider, None), w1) \<and>
       billing_port (hp_HandleWebhook provider request) w1 = ((webhook, None), w2) \<and> bw_log w2 = bw_log w \<and>
       wr_Event webhook = Some event \<and> Ingest (Some (cms_billing s)) event w2 = ((result, e), w') \<and>
       r = Some \<lparr>whr_Webhook = webhook, whr_Billing = (if e = None then result else zero_BillingResult)\<rparr>)"
proof -
  let ?selected = "if trim_space providerName \<noteq> [] then Some (trim_space providerName)
                 else case cms_providers s of [name] \<Rightarrow> Some name | _ \<Rightarrow> None"
  show ?thesis
  proof (cases ?selected)
    case None
    with assms show ?thesis by (auto simp: HandleWebhook_def op_simps Let_def)
  next
    case (Some name)
    obtain provider pe w1 where get: "billing_port (cms_Get s name) w = ((provider, pe), w1)" by (metis prod.collapse)
    obtain webhook we w2 where hook: "billing_port (hp_HandleWebhook provider request) w1 = ((webhook, we), w2)"
      by (metis prod.collapse)
    have logs: "bw_log w1 = bw_log w" "bw_log w2 = bw_log w"
      using get hook by (auto simp: billing_port_def split: prod.splits)
    show ?thesis
    proof (cases "pe = None \<and> we = None \<and> wr_Event webhook \<noteq> None")
      case False
      with assms Some get hook logs show ?thesis by (auto simp: HandleWebhook_def op_simps Let_def split: option.splits)
    next
      case True
      then obtain event where ok: "pe = None" "we = None" "wr_Event webhook = Some event" by blast
      obtain result ie w3 where ing: "Ingest (Some (cms_billing s)) event w2 = ((result, ie), w3)" by (metis prod.collapse)
      have "e = ie" "w' = w3" "r = Some \<lparr>whr_Webhook = webhook, whr_Billing = (if ie = None then result else zero_BillingResult)\<rparr>"
        using assms Some get hook ok ing by (auto simp: HandleWebhook_def op_simps Let_def split: option.splits)
      with get hook ok ing logs show ?thesis by blast
    qed
  qed
qed

section \<open>A checkout on a concrete service\<close>

definition pack_offer :: CommerceOffer where
  "pack_offer =
     \<lparr>of_Type = ''topup'', of_DisplayName = ''Pack'', of_Description = None, of_SortOrder = 0, of_Availability = None,
      of_Price = \<lparr>ofp_AmountMinor = 500, ofp_Currency = ''USD'', ofp_TaxBehavior = ''exclusive''\<rparr>,
      of_Providers = [(''stripe'', \<lparr>ref_Type = ''stripe_price'', ref_PriceID = Some ''price1'', ref_ProductID = None,
        ref_ObjectKind = None, ref_ExternalID = None\<rparr>)],
      of_Plan = None, of_BillingInterval = None, of_Trial = None, of_CycleGrant = None, of_CreditsPerUnit = None,
      of_Quantity = None, of_Bucket = None, of_Expiry = None, of_LotBehavior = []\<rparr>"

definition pack_config :: BursarConfig where
  "pack_config = sample_config\<lparr>cfg_Commerce := \<lparr>com_Providers = [], com_Offers = [(''pack'', pack_offer)],
     com_SubscriptionChanges = [], com_AutoRecharge = None\<rparr>\<rparr>"

definition pack_intent :: "CheckoutIntentCreate \<Rightarrow> CheckoutIntent" where
  "pack_intent create =
     \<lparr>ci_ID = ''i1'', ci_SubjectID = cic_SubjectID create, ci_OfferKey = cic_ProductKey create, ci_Provider = cic_Provider create,
      ci_CheckoutKind = cic_CheckoutKind create, ci_ProductKey = cic_ProductKey create, ci_ProviderSessionID = [],
      ci_ProviderURL = [], ci_Status = ''open'', ci_IdempotencyKey = cic_IdempotencyKey create,
      ci_RequestDigest = cic_RequestDigest create, ci_ExpiresAt = cic_ExpiresAt create, ci_CreatedAt = 0, ci_UpdatedAt = 0\<rparr>"

definition pack_provider :: "ledger HostedProvider" where
  "pack_provider =
     \<lparr>hp_Name = ''stripe'',
      hp_CreateCheckoutSession = (\<lambda>q. return_ok \<lparr>chs_ID = ''cs1'', chs_URL = ''https://pay'', chs_CustomerID = []\<rparr>),
      hp_HandleWebhook = (\<lambda>q. return_ok \<lparr>wr_Received = True, wr_Retryable = False, wr_Provider = ''stripe'', wr_EventID = ''e1'',
        wr_EventType = [], wr_Event = None\<rparr>),
      hp_GetCheckoutSessionStatus = None, hp_CreateCustomerPortalSession = None, hp_CreateUpdatePaymentMethodSession = None,
      hp_CreatePaymentMethodSetupSession = None, hp_CancelSubscription = None, hp_ReactivateSubscription = None,
      hp_PreviewPlanChange = None, hp_ChangePlan = None, hp_CancelScheduledPlanChange = None, hp_GetInvoiceURL = None,
      hp_ListPaymentMethods = None\<rparr>"

definition pack_reads :: "ledger credit_reads" where
  "pack_reads =
     \<lparr>crd_GetBalance = (\<lambda>a. return_ok zero_Balance), crd_GetAvailable = (\<lambda>a. return_ok zero_Available),
      crd_GetBucketBalances = (\<lambda>a. return_ok zero_Buckets), crd_GetUserPlan = (\<lambda>a. return_ok zero_UserPlan),
      crd_CheckAllowance = (\<lambda>a. return_ok None), crd_GetLedgerEntry = (\<lambda>a i. return_ok None),
      crd_ListLedgerEntries = (\<lambda>a options. return_ok zero_LedgerPage),
      crd_ListUsageCharges = (\<lambda>a options. return_ok zero_ChargePage)\<rparr>"

definition pack_service :: "ledger CommerceService" where
  "pack_service =
     \<lparr>cms_billing = billing_service, cms_GetConfig = return_ok pack_config, cms_credits = pack_reads,
      cms_store = \<lparr>cst_CreateOrGetCheckoutIntent = (\<lambda>create. return_ok (pack_intent create)),
        cst_UpdateCheckoutIntent = (\<lambda>i subject u. return_ok ()), cst_GetCheckoutIntent = (\<lambda>i subject. return_ok None),
        cst_UpsertBillingCustomer = None\<rparr>,
      cms_state = Some \<lparr>css_GetBillingCustomer = (\<lambda>a name. return_ok None), css_GetBillingSubscription = (\<lambda>a st. return_ok None),
        css_ListBillingSubscriptions = (\<lambda>a. return_ok []), css_ResolveBillingOffer = (\<lambda>n p q k. return_ok None),
        css_CreateBillingSubscriptionChange = (\<lambda>c. return_ok zero_Change),
        css_GetOpenBillingSubscriptionChange = (\<lambda>n i. return_ok None), css_UpdateBillingSubscriptionChange = (\<lambda>i u. return_ok ()),
        css_GetBillingPreferences = (\<lambda>a. return_ok None), css_UpsertBillingPreferences = (\<lambda>b. return_ok ()),
        css_ListBillingInvoices = (\<lambda>a. return_ok []),
        css_UpsertBillingCustomer = None\<rparr>,
      cms_providers = [''stripe''], cms_Get = (\<lambda>name. return_ok pack_provider), cms_defaultProvider = ''stripe'',
      cms_checkoutIntentTTL = 10,
      cms_preferenceDefaults = zero_Patch, cms_AutoRecharge_GetStatus = None, cms_now = (\<lambda>x. (5, x))\<rparr>"

definition pack_input :: CreateCheckoutInput where
  "pack_input =
     \<lparr>cin_SubjectID = ''u1'', cin_AccountID = ''a1'', cin_OfferKey = ''pack'', cin_Type = [], cin_Quantity = Some 2, cin_Region = [],
      cin_Provider = [], cin_SuccessURL = ''s'', cin_CancelURL = ''c'', cin_CustomerID = ''cus9'', cin_CustomerEmail = [],
      cin_IdempotencyKey = ''k1'', cin_Metadata = []\<rparr>"

definition pack_start :: "ledger commerce_world" where
  "pack_start = \<lparr>cw_state = [], cw_log = []\<rparr>"

lemma pack_trims:
  "trim_space ''u1'' = ''u1''" "trim_space ''a1'' = ''a1''" "trim_space ''pack'' = ''pack''" "trim_space ''k1'' = ''k1''"
  "trim_space ''s'' = ''s''" "trim_space ''c'' = ''c''" "trim_space ''stripe'' = ''stripe''" "trim_space ''price1'' = ''price1''"
  by (rule trim_space_graphic; simp add: graphic_def byte_def)+

definition pack_session :: CheckoutSession where
  "pack_session = \<lparr>chs_ID = ''cs1'', chs_URL = ''https://pay'', chs_CustomerID = []\<rparr>"

lemma pack_decisions:
  "checkout_texts pack_input = Inr (''u1'', ''a1'', ''pack'', ''k1'')"
  "checkout_type_check pack_offer ''pack'' (cin_Type pack_input) = None"
  "checkoutQuantity pack_offer (cin_Quantity pack_input) = Inr 2"
  "select_provider [] ''stripe'' (sortedProviderKeys (of_Providers pack_offer)) = Inr ''stripe''"
  "offer_product pack_offer ''pack'' ''stripe'' = Inr ''price1''"
  subgoal by (simp add: checkout_texts_def pack_input_def requireText_def requireStableKey_def bind_err_def pack_trims
      maxIdempotencyKeyLength_def)
  subgoal by (simp add: checkout_type_check_def pack_input_def Let_def)
  subgoal by (simp add: checkoutQuantity_def pack_offer_def pack_input_def)
  subgoal by (simp add: select_provider_def sortedProviderKeys_def pack_offer_def map_keys_def sort_by_def pack_trims Let_def)
  subgoal by (simp add: offer_product_def pack_offer_def providerProductID_def pack_trims)
  done

lemma pack_opens:
  "\<exists>r w'. CreateCheckout (\<lambda>m. ''d'') D (Some pack_service) pack_input pack_start = ((r, None), w') \<and>
     length (cw_log w') = 3 \<and> (\<exists>request. cw_log w' ! 1 = SessionRequested request pack_session None)"
proof -
  have offer: "cin_Provider pack_input = []" "of_Type pack_offer = ''topup''" by (simp_all add: pack_input_def pack_offer_def)
  have start: "\<exists>r w'. start_checkout (\<lambda>m. ''d'') D pack_service pack_input (''u1'', ''a1'', ''pack'', ''k1'') pack_offer 2 None
      pack_provider pack_start = ((r, None), w') \<and>
      length (cw_log w') = 3 \<and> (\<exists>request. cw_log w' ! 1 = SessionRequested request pack_session None)"
    using pack_decisions(5)
    by (simp add: start_checkout_def pack_service_def pack_start_def op_simps require_def reject_def commerce_port_def
        provider_customer_def pack_provider_def commerce_now_def commerce_logged_def continue_checkout_def intent_check_def
        pack_intent_def checkout_create_def checkoutRequestDigest_def equal_fold_def intent_expired_def open_session_def
        save_customer_def update_intent_def pack_session_def Let_def)
  have "CreateCheckout (\<lambda>m. ''d'') D (Some pack_service) pack_input pack_start =
      start_checkout (\<lambda>m. ''d'') D pack_service pack_input (''u1'', ''a1'', ''pack'', ''k1'') pack_offer 2 None
        pack_provider pack_start"
    using pack_decisions(1-4) offer
    by (simp add: CreateCheckout_def pack_service_def pack_start_def op_simps require_def reject_def commerce_port_def
        pack_config_def account_state_def no_blocking_subscription_def commerce_Select_def provider_fallback_def)
  with start show ?thesis by simp
qed

theorem checkout_session_safety_witness:
  "\<exists>r w' create intent M. CreateCheckout (\<lambda>m. ''d'') ref_decimal (Some pack_service) pack_input pack_start = ((r, None), w') \<and>
     create_for (\<lambda>m. ''d'') pack_input pack_offer create \<and> cw_log w' = IntentRequested create intent None # M \<and>
     checkout_moves pack_service pack_offer create intent M r None \<and>
     (\<exists>request. M ! 0 = SessionRequested request pack_session None)"
proof -
  obtain r w' request where run: "CreateCheckout (\<lambda>m. ''d'') ref_decimal (Some pack_service) pack_input pack_start = ((r, None), w')"
    and second: "cw_log w' ! 1 = SessionRequested request pack_session None"
    using pack_opens by blast
  have "trim_space (cin_OfferKey pack_input) = ''pack''" "cw_log pack_start = []"
    by (simp_all add: pack_input_def pack_trims pack_start_def)
  with checkout_session_safety [OF run] have "checkout_outcome (\<lambda>m. ''d'') pack_service pack_input pack_offer [] ((r, None), w')"
    by (auto simp: pack_service_def pack_config_def op_simps)
  with run second show ?thesis by (fastforce simp: checkout_outcome_def split: if_splits)
qed

end
