(* ===== verification/Subscriptions.thy ===== *)
theory Subscriptions
  imports Checkout Credits
begin

text \<open>
  \<open>commerce_management.go\<close>: cancelling and reactivating subscriptions, changing the plan of a subscription, the hosted
  portals, preferences and invoice links. Every operation starts from the account: the subscription, the customer and the
  invoices come from the state store. The hash of a scope (the first eight bytes of SHA-256 in hexadecimal) is the
  parameter \<open>hash\<close> of the definitions, the digest of a quote is the parameter \<open>digest\<close>, as for the checkout.
\<close>

section \<open>Types\<close>

record SubscriptionCommandInput =
  sci_AccountID :: string
  sci_SubscriptionID :: string
  sci_OperationKey :: string

record SubscriptionCommandResult =
  scr_OK :: bool
  scr_Pending :: bool

record SubscriptionCancellationResult =
  sxr_Provider :: string
  sxr_ProviderSubscriptionID :: string
  sxr_Canceled :: bool
  sxr_Error :: string

record CancelAllSubscriptionsResult =
  car_AccountID :: string
  car_CanceledCount :: int
  car_Subscriptions :: "SubscriptionCancellationResult list"

record AccountSubscriptionSummary =
  ass_AccountID :: string
  ass_PlanKey :: string
  ass_Status :: string
  ass_LifecycleState :: string
  ass_AccessState :: string
  ass_IsCurrent :: bool
  ass_IsEntitled :: bool
  ass_IsBlockingCheckout :: bool
  ass_IsCancellable :: bool
  ass_IsTerminal :: bool
  ass_Subscription :: "CommerceSubscription option"
  ass_PendingChange :: "BillingSubscriptionChange option"

datatype PlanChangeClassification =
    PlanChangeUnchanged
  | PlanChangeUpgrade
  | PlanChangeDowngrade
  | PlanChangeLateral
  | PlanChangeCadenceChange

record PreviewPlanChangeInput =
  pvi_AccountID :: string
  pvi_OfferKey :: string

record PlanChangePreviewResult =
  ppr_Unchanged :: bool
  ppr_Classification :: "PlanChangeClassification option"
  ppr_Scheduled :: bool
  ppr_PlanKey :: string
  ppr_Interval :: string
  ppr_Preview :: "PlanChangePreview option"
  ppr_QuoteFingerprint :: string

record ConfirmPlanChangeInput =
  cpi_AccountID :: string
  cpi_OfferKey :: string
  cpi_QuoteFingerprint :: string
  cpi_OperationKey :: string

record ConfirmPlanChangeResult =
  cpc_Success :: bool
  cpc_Unchanged :: bool
  cpc_Pending :: bool
  cpc_Scheduled :: bool
  cpc_EffectiveAt :: "gotime option"
  cpc_PlanKey :: string
  cpc_Interval :: string

record PortalSessionInput =
  psi_AccountID :: string
  psi_Purpose :: string
  psi_ReturnURL :: string
  psi_CancelURL :: string

record InvoiceDocumentLocator =
  idl_Kind :: string
  idl_Provider :: string
  idl_ProviderDocumentID :: string
  idl_LedgerEntryID :: string

record GetInvoiceLinkInput =
  gil_AccountID :: string
  gil_Document :: InvoiceDocumentLocator

record 'w commercePlanChangeContext =
  pcx_subscription :: CommerceSubscription
  pcx_provider :: "'w HostedProvider"
  pcx_offer :: BillingOffer
  pcx_targetPlan :: string
  pcx_targetInterval :: string
  pcx_classification :: PlanChangeClassification
  pcx_policy :: SubscriptionChangePolicy

definition zero_Command :: SubscriptionCommandResult where
  "zero_Command = \<lparr>scr_OK = False, scr_Pending = False\<rparr>"

definition zero_CancelAll :: CancelAllSubscriptionsResult where
  "zero_CancelAll = \<lparr>car_AccountID = [], car_CanceledCount = 0, car_Subscriptions = []\<rparr>"

definition zero_Summary :: AccountSubscriptionSummary where
  "zero_Summary = \<lparr>ass_AccountID = [], ass_PlanKey = [], ass_Status = [], ass_LifecycleState = [], ass_AccessState = [],
     ass_IsCurrent = False, ass_IsEntitled = False, ass_IsBlockingCheckout = False, ass_IsCancellable = False,
     ass_IsTerminal = False, ass_Subscription = None, ass_PendingChange = None\<rparr>"

definition zero_PreviewResult :: PlanChangePreviewResult where
  "zero_PreviewResult = \<lparr>ppr_Unchanged = False, ppr_Classification = None, ppr_Scheduled = False, ppr_PlanKey = [],
     ppr_Interval = [], ppr_Preview = None, ppr_QuoteFingerprint = []\<rparr>"

definition zero_Confirm :: ConfirmPlanChangeResult where
  "zero_Confirm = \<lparr>cpc_Success = False, cpc_Unchanged = False, cpc_Pending = False, cpc_Scheduled = False,
     cpc_EffectiveAt = None, cpc_PlanKey = [], cpc_Interval = []\<rparr>"

definition zero_Preferences :: BillingPreferences where
  "zero_Preferences = \<lparr>bpr_AccountID = [], bpr_AutoRecharge = False, bpr_OverageProtection = False,
     bpr_EmailNotifications = False, bpr_UsageAlerts = False, bpr_InvoiceReminders = False\<rparr>"

section \<open>Helpers\<close>

definition containsText :: "string list \<Rightarrow> string \<Rightarrow> bool" where
  "containsText values target \<longleftrightarrow> target \<in> set values"

definition providerCapabilityError :: "string \<Rightarrow> string \<Rightarrow> go_error" where
  "providerCapabilityError provider capability = detail_error (''provider does not support '' @ capability)
     ErrorCodeProviderCapabilityNotSupported ErrorCategoryInvalidRequest
     [(''provider'', VStr provider), (''capability'', VStr capability)]"

definition not_found :: "string \<Rightarrow> go_error" where
  "not_found message = NewError message (code_category ErrorCodeCommerceResourceNotFound ErrorCategoryNotFound)"

definition commerceScopedKey :: "(string \<Rightarrow> string) \<Rightarrow> string \<Rightarrow> string \<Rightarrow> go_error + string" where
  "commerceScopedKey hash operationKey scope =
     bind_err (requireStableKey operationKey ''operation key'') (\<lambda>key.
     requireStableKey (key @ '':'' @ hash scope) ''scoped operation key'')"

definition validateSubscriptionCommand :: "SubscriptionCommandInput \<Rightarrow> go_error + (string \<times> string)" where
  "validateSubscriptionCommand input =
     bind_err (requireText (sci_AccountID input) ''account ID'') (\<lambda>accountID.
     bind_err (requireStableKey (sci_OperationKey input) ''subscription operation key'') (\<lambda>operationKey.
     Inr (accountID, operationKey)))"

definition selected_subscription :: "string \<Rightarrow> string list \<Rightarrow> CommerceSubscription \<Rightarrow> bool" where
  "selected_subscription subscriptionID statuses sub \<longleftrightarrow>
     (csn_ID sub = subscriptionID \<or> csn_ProviderSubscriptionID sub = subscriptionID) \<and>
     (statuses = [] \<or> containsText statuses (csn_Status sub))"

definition subscriptionForCommand ::
  "'w CommerceService \<Rightarrow> string \<Rightarrow> string \<Rightarrow> string list \<Rightarrow> ('w commerce_world, CommerceSubscription option) op" where
  "subscriptionForCommand s accountID subscriptionID statuses =
     require (requireState (Some s)) None (\<lambda>state.
       if trim_space subscriptionID = []
       then commerce_port (css_GetBillingSubscription state accountID statuses)
       else try_op (commerce_port (css_ListBillingSubscriptions state accountID)) None (\<lambda>subscriptions.
         return_ok (find (selected_subscription subscriptionID statuses) subscriptions)))"

section \<open>Cancellation and reactivation\<close>

definition may_cancel :: "CommerceSubscription \<Rightarrow> bool" where
  "may_cancel sub \<longleftrightarrow> containsText cancellableSubscriptionStates (csn_Status sub) \<and> \<not> csn_CancelAtPeriodEnd sub"

definition CancelSubscription ::
  "'w CommerceService \<Rightarrow> SubscriptionCommandInput \<Rightarrow> ('w commerce_world, SubscriptionCommandResult) op" where
  "CancelSubscription s input =
     require (validateSubscriptionCommand input) zero_Command (\<lambda>(accountID, operationKey).
     try_op (subscriptionForCommand s accountID (sci_SubscriptionID input) currentSubscriptionStatuses) zero_Command (\<lambda>found.
       case found of
         None \<Rightarrow> return_err zero_Command (not_found ''no active subscription was found'')
       | Some subscription \<Rightarrow>
           if \<not> may_cancel subscription then return_ok (zero_Command\<lparr>scr_OK := True\<rparr>)
           else try_op (commerce_port (cms_Get s (csn_Provider subscription))) zero_Command (\<lambda>provider.
             case hp_CancelSubscription provider of
               None \<Rightarrow> return_err zero_Command (providerCapabilityError (hp_Name provider) ''cancel_subscription'')
             | Some cancel \<Rightarrow>
                 try_op (commerce_logged (\<lambda>_. CancelRequested (csn_ProviderSubscriptionID subscription) operationKey)
                     (cancel (csn_ProviderSubscriptionID subscription) operationKey)) zero_Command (\<lambda>_.
                   return_ok \<lparr>scr_OK = True, scr_Pending = True\<rparr>))))"

definition ReactivateSubscription ::
  "'w CommerceService \<Rightarrow> SubscriptionCommandInput \<Rightarrow> ('w commerce_world, SubscriptionCommandResult) op" where
  "ReactivateSubscription s input =
     require (validateSubscriptionCommand input) zero_Command (\<lambda>(accountID, operationKey).
     try_op (subscriptionForCommand s accountID (sci_SubscriptionID input) []) zero_Command (\<lambda>found.
       case found of
         None \<Rightarrow> return_err zero_Command (not_found ''no subscription was found'')
       | Some subscription \<Rightarrow>
           if csn_Status subscription = ''active'' \<and> \<not> csn_CancelAtPeriodEnd subscription
           then return_ok (zero_Command\<lparr>scr_OK := True\<rparr>)
           else try_op (commerce_port (cms_Get s (csn_Provider subscription))) zero_Command (\<lambda>provider.
             case hp_ReactivateSubscription provider of
               None \<Rightarrow> return_err zero_Command (providerCapabilityError (hp_Name provider) ''reactivate_subscription'')
             | Some reactivate \<Rightarrow>
                 try_op (commerce_logged (\<lambda>_. ReactivateRequested (csn_ProviderSubscriptionID subscription) operationKey)
                     (reactivate (csn_ProviderSubscriptionID subscription) operationKey)) zero_Command (\<lambda>_.
                   return_ok \<lparr>scr_OK = True, scr_Pending = True\<rparr>))))"

text \<open>\<open>sort.Slice\<close> by provider and provider identifier; subscriptions that agree in both keep no particular order in Go.\<close>

definition subscription_less :: "CommerceSubscription \<Rightarrow> CommerceSubscription \<Rightarrow> bool" where
  "subscription_less a b \<longleftrightarrow>
     (if csn_Provider a \<noteq> csn_Provider b then str_less (csn_Provider a) (csn_Provider b)
      else str_less (csn_ProviderSubscriptionID a) (csn_ProviderSubscriptionID b))"

definition cancel_item :: "CommerceSubscription \<Rightarrow> SubscriptionCommandResult \<Rightarrow> go_error option \<Rightarrow> SubscriptionCancellationResult" where
  "cancel_item sub command e =
     \<lparr>sxr_Provider = csn_Provider sub, sxr_ProviderSubscriptionID = csn_ProviderSubscriptionID sub,
      sxr_Canceled = (case e of None \<Rightarrow> scr_OK command | Some _ \<Rightarrow> False),
      sxr_Error = (case e of None \<Rightarrow> [] | Some err \<Rightarrow> error_text err)\<rparr>"

definition add_item :: "SubscriptionCancellationResult \<Rightarrow> CancelAllSubscriptionsResult \<Rightarrow> CancelAllSubscriptionsResult" where
  "add_item item result = result\<lparr>car_Subscriptions := car_Subscriptions result @ [item],
     car_CanceledCount := car_CanceledCount result + (if sxr_Canceled item then 1 else 0)\<rparr>"

fun cancel_each ::
  "(string \<Rightarrow> string) \<Rightarrow> 'w CommerceService \<Rightarrow> string \<Rightarrow> string \<Rightarrow> CommerceSubscription list \<Rightarrow> CancelAllSubscriptionsResult \<Rightarrow>
   ('w commerce_world, CancelAllSubscriptionsResult) op" where
  "cancel_each hash s accountID operationKey [] result = return_ok result"
| "cancel_each hash s accountID operationKey (sub # subs) result =
     (if \<not> may_cancel sub then cancel_each hash s accountID operationKey subs result
      else require (commerceScopedKey hash operationKey (csn_Provider sub @ '':'' @ csn_ProviderSubscriptionID sub)) result
        (\<lambda>childKey.
           bind_op (CancelSubscription s \<lparr>sci_AccountID = accountID, sci_SubscriptionID = csn_ProviderSubscriptionID sub,
               sci_OperationKey = childKey\<rparr>) (\<lambda>command e.
             cancel_each hash s accountID operationKey subs (add_item (cancel_item sub command e) result))))"

definition cancellation_failure :: "string \<Rightarrow> CancelAllSubscriptionsResult \<Rightarrow> go_error option" where
  "cancellation_failure accountID result =
     map_option (\<lambda>item. detail_error ''one or more subscriptions could not be cancelled'' ErrorCodeBilling
         ErrorCategoryUnavailable [(''account_id'', VStr accountID), (''failed_subscription'', VStr (sxr_ProviderSubscriptionID item))])
       (find (\<lambda>item. \<not> sxr_Canceled item) (car_Subscriptions result))"

definition CancelAllSubscriptions ::
  "(string \<Rightarrow> string) \<Rightarrow> 'w CommerceService \<Rightarrow> string \<Rightarrow> string \<Rightarrow> ('w commerce_world, CancelAllSubscriptionsResult) op" where
  "CancelAllSubscriptions hash s account key =
     require (requireText account ''account ID'') zero_CancelAll (\<lambda>accountID.
     require (requireStableKey key ''cancel all operation key'') zero_CancelAll (\<lambda>operationKey.
     require (requireState (Some s)) zero_CancelAll (\<lambda>state.
     try_op (commerce_port (css_ListBillingSubscriptions state accountID)) zero_CancelAll (\<lambda>subscriptions.
     bind_op (cancel_each hash s accountID operationKey (sort_by subscription_less subscriptions)
         (zero_CancelAll\<lparr>car_AccountID := accountID\<rparr>)) (\<lambda>result e.
       case e of
         Some err \<Rightarrow> return_err result err
       | None \<Rightarrow> (case cancellation_failure accountID result of
             None \<Rightarrow> return_ok result
           | Some err \<Rightarrow> return_err result err))))))"

section \<open>Summary\<close>

text \<open>The clock is read once for a summary; the code reads it only for a subscription that is past due.\<close>

definition in_grace :: "CommerceSubscription option \<Rightarrow> gotime \<Rightarrow> bool" where
  "in_grace subscription now \<longleftrightarrow>
     (case subscription of
        None \<Rightarrow> False
      | Some sub \<Rightarrow> csn_Status sub = ''past_due'' \<and> (case csn_GraceEndsAt sub of None \<Rightarrow> False | Some t \<Rightarrow> now < t))"

definition buildSubscriptionSummary ::
  "string \<Rightarrow> CommerceSubscription option \<Rightarrow> GetUserPlanResult \<Rightarrow> BillingSubscriptionChange option \<Rightarrow> gotime \<Rightarrow>
   AccountSubscriptionSummary" where
  "buildSubscriptionSummary accountID subscription entitlement pending now =
     (let status = (case subscription of None \<Rightarrow> [] | Some sub \<Rightarrow> csn_Status sub);
          planKey = (case subscription of
             None \<Rightarrow> gup_PlanKey entitlement
           | Some sub \<Rightarrow> if gup_PlanKey entitlement = [] then csn_PlanKey sub else gup_PlanKey entitlement);
          isEntitled = gup_PlanKey entitlement \<noteq> [];
          access = (if isEntitled then (if in_grace subscription now then ''grace'' else ''entitled'')
             else if status \<noteq> [] then ''blocked'' else ''none'')
      in \<lparr>ass_AccountID = accountID, ass_PlanKey = planKey, ass_Status = status,
          ass_LifecycleState = firstNonEmpty [status, ''none''], ass_AccessState = access,
          ass_IsCurrent = containsText currentSubscriptionStatuses status, ass_IsEntitled = isEntitled,
          ass_IsBlockingCheckout = containsText blockingSubscriptionStatuses status,
          ass_IsCancellable = (containsText cancellableSubscriptionStates status \<and>
            (case subscription of None \<Rightarrow> True | Some sub \<Rightarrow> \<not> csn_CancelAtPeriodEnd sub)),
          ass_IsTerminal = containsText terminalSubscriptionStatuses status,
          ass_Subscription = subscription, ass_PendingChange = pending\<rparr>)"

definition pending_change ::
  "'w CommerceStateStore \<Rightarrow> CommerceSubscription option \<Rightarrow> ('w commerce_world, BillingSubscriptionChange option) op" where
  "pending_change state subscription =
     (case subscription of
        None \<Rightarrow> return_ok None
      | Some sub \<Rightarrow>
          if csn_ProviderSubscriptionID sub = [] then return_ok None
          else commerce_port (css_GetOpenBillingSubscriptionChange state (csn_Provider sub) (csn_ProviderSubscriptionID sub)))"

definition GetAccountSubscriptionSummary ::
  "'w CommerceService \<Rightarrow> string \<Rightarrow> ('w commerce_world, AccountSubscriptionSummary) op" where
  "GetAccountSubscriptionSummary s account =
     require (requireText account ''account ID'') zero_Summary (\<lambda>accountID.
     require (requireState (Some s)) zero_Summary (\<lambda>state.
     try_op (commerce_port (css_GetBillingSubscription state accountID [])) zero_Summary (\<lambda>subscription.
     try_op (commerce_port (crd_GetUserPlan (cms_credits s) accountID)) zero_Summary (\<lambda>entitlement.
     try_op (pending_change state subscription) zero_Summary (\<lambda>pending.
     try_op (commerce_now s) zero_Summary (\<lambda>now.
       return_ok (buildSubscriptionSummary accountID subscription entitlement pending now)))))))"

section \<open>Plan changes\<close>

fun classification_text :: "PlanChangeClassification \<Rightarrow> string" where
  "classification_text PlanChangeUnchanged = ''unchanged''"
| "classification_text PlanChangeUpgrade = ''upgrade''"
| "classification_text PlanChangeDowngrade = ''downgrade''"
| "classification_text PlanChangeLateral = ''lateral''"
| "classification_text PlanChangeCadenceChange = ''cadence_change''"

definition classifyPlanChange ::
  "BursarConfig \<Rightarrow> string \<Rightarrow> string \<Rightarrow> string \<Rightarrow> string \<Rightarrow> go_error + PlanChangeClassification" where
  "classifyPlanChange config currentPlan currentInterval targetPlan targetInterval =
     (if currentPlan = targetPlan
      then Inr (if currentInterval = targetInterval then PlanChangeUnchanged else PlanChangeCadenceChange)
      else case (map_of (cfg_Plans config) currentPlan, map_of (cfg_Plans config) targetPlan) of
        (Some current, Some target) \<Rightarrow>
          Inr (if pd_Rank target > pd_Rank current then PlanChangeUpgrade
               else if pd_Rank target < pd_Rank current then PlanChangeDowngrade
               else PlanChangeLateral)
      | _ \<Rightarrow> Inl (NewError ''subscription plan is absent from the active catalog''
          ((code_category ErrorCodeCoreBillingDataUnavailable ErrorCategoryUnavailable)\<lparr>opt_Retryable := True\<rparr>)))"

definition providerReferenceIDs :: "ProviderReference \<Rightarrow> string \<times> string \<times> string" where
  "providerReferenceIDs reference =
     (case ref_ProductID reference of None \<Rightarrow> [] | Some v \<Rightarrow> v,
      case ref_PriceID reference of None \<Rightarrow> [] | Some v \<Rightarrow> v,
      case ref_ExternalID reference of None \<Rightarrow> [] | Some v \<Rightarrow> v)"

definition amountString :: "decimal_pkg \<Rightarrow> amount option \<Rightarrow> goval" where
  "amountString D a = (case a of None \<Rightarrow> VNil | Some v \<Rightarrow> VStr (dec_to_string D v))"

definition timeString :: "gotime option \<Rightarrow> goval" where
  "timeString t = (case t of None \<Rightarrow> VNil | Some v \<Rightarrow> VStr (rfc3339_nano v))"

definition quote_line :: "decimal_pkg \<Rightarrow> PlanChangeLineItem \<Rightarrow> goval" where
  "quote_line D line = VObj
     [(''currency'', VStr (to_upper (pli_Currency line))), (''productId'', VStr (pli_ProductID line)),
      (''prorationFactor'', VStr (dec_to_string D (pli_ProrationFactor line))), (''quantity'', VInt (pli_Quantity line)),
      (''subtotal'', VStr (dec_to_string D (pli_Subtotal line))), (''tax'', VStr (dec_to_string D (pli_Tax line))),
      (''unitPrice'', VStr (dec_to_string D (pli_UnitPrice line)))]"

definition planChangeQuoteFingerprint :: "(goval gomap \<Rightarrow> string) \<Rightarrow> decimal_pkg \<Rightarrow> PlanChangePreview \<Rightarrow> string" where
  "planChangeQuoteFingerprint digest D preview = digest
     [(''currency'', VStr (to_upper (pcp_Currency preview))), (''customerCredits'', amountString D (pcp_CustomerCredits preview)),
      (''lineItems'', VArr (map (quote_line D) (pcp_LineItems preview))),
      (''nextBillingDate'', timeString (pcp_NextBillingDate preview)),
      (''recurringAmount'', amountString D (pcp_RecurringAmount preview)),
      (''recurringCurrency'', VStr (to_upper (pcp_RecurringCurrency preview))),
      (''settlementAmount'', VStr (dec_to_string D (pcp_SettlementAmount preview))),
      (''taxAmount'', amountString D (pcp_TaxAmount preview)), (''totalAmount'', VStr (dec_to_string D (pcp_TotalAmount preview)))]"

definition providerRequest :: "'w commercePlanChangeContext \<Rightarrow> string \<Rightarrow> ProviderPlanChangeRequest" where
  "providerRequest c idempotencyKey =
     \<lparr>pcq_ProviderSubscriptionID = csn_ProviderSubscriptionID (pcx_subscription c),
      pcq_ProductID = firstNonEmpty [bof_PriceID (pcx_offer c), bof_ProductID (pcx_offer c), bof_LookupKey (pcx_offer c)],
      pcq_EffectiveAt = (if scp_Effective (pcx_policy c) = ''renewal'' then ''next_billing_date'' else ''immediately''),
      pcq_ProrationBillingMode = (if scp_Proration (pcx_policy c) = ''none'' then ''do_not_bill'' else ''prorated_immediately''),
      pcq_PaymentFailure = scp_PaymentFailure (pcx_policy c), pcq_Quantity = 1,
      pcq_Metadata = [(''bursar_account_id'', csn_AccountID (pcx_subscription c)), (''plan_slug'', pcx_targetPlan c),
        (''billing_interval'', pcx_targetInterval c)],
      pcq_IdempotencyKey = idempotencyKey\<rparr>"

text \<open>The target offer: a subscription offer of the catalogue with a plan and an interval.\<close>

definition target_offer :: "BursarConfig \<Rightarrow> string \<Rightarrow> go_error + (CommerceOffer \<times> string \<times> BillingInterval)" where
  "target_offer config offerKey =
     (let missing = Inl (detail_error ''target offer is not a subscription offer'' ErrorCodeUnknownOffer ErrorCategoryNotFound
            [(''offer_key'', VStr offerKey)])
      in case map_of (com_Offers (cfg_Commerce config)) offerKey of
           None \<Rightarrow> missing
         | Some target \<Rightarrow>
             if of_Type target \<noteq> ''subscription'' then missing
             else case (of_Plan target, of_BillingInterval target) of
               (Some plan, Some interval) \<Rightarrow> Inr (target, plan, interval)
             | _ \<Rightarrow> missing)"

definition no_policy :: SubscriptionChangePolicy where
  "no_policy = \<lparr>scp_Effective = [], scp_Proration = [], scp_PaymentFailure = []\<rparr>"

definition change_policy :: "BursarConfig \<Rightarrow> PlanChangeClassification \<Rightarrow> go_error + SubscriptionChangePolicy" where
  "change_policy config classification =
     (if classification = PlanChangeUnchanged then Inr no_policy
      else case map_of (com_SubscriptionChanges (cfg_Commerce config)) (classification_text classification) of
        None \<Rightarrow> Inl (NewError ''subscription change policy is missing''
          ((code_category ErrorCodePlanChangePolicyMissing ErrorCategoryUnavailable)\<lparr>opt_Retryable := True,
             opt_Details := [(''classification'', VStr (classification_text classification))]\<rparr>))
      | Some policy \<Rightarrow> Inr policy)"

text \<open>The part of \<open>planChangeContext\<close> that reads the account, up to its current plan.\<close>

definition current_subscription ::
  "'w CommerceStateStore \<Rightarrow> string \<Rightarrow> 'b \<Rightarrow> (CommerceSubscription \<Rightarrow> ('w commerce_world, 'b) op) \<Rightarrow> ('w commerce_world, 'b) op" where
  "current_subscription state accountID z k =
     try_op (commerce_port (css_GetBillingSubscription state accountID currentSubscriptionStatuses)) z (\<lambda>found.
       case found of
         None \<Rightarrow> return_err z (not_found ''no active subscription was found'')
       | Some sub \<Rightarrow>
           if trim_space (csn_ProviderSubscriptionID sub) = []
           then return_err z (not_found ''no active subscription was found'')
           else k sub)"

definition persisted_offer ::
  "'w CommerceStateStore \<Rightarrow> string \<Rightarrow> CommerceOffer \<Rightarrow> string \<Rightarrow> 'b \<Rightarrow> (BillingOffer \<Rightarrow> ('w commerce_world, 'b) op) \<Rightarrow>
   ('w commerce_world, 'b) op" where
  "persisted_offer state name target offerKey z k =
     (case map_of (of_Providers target) name of
        None \<Rightarrow> return_err z (detail_error ''target offer is unavailable from the subscription provider'' ErrorCodeUnknownOffer
          ErrorCategoryNotFound [(''offer_key'', VStr offerKey), (''provider'', VStr name)])
      | Some reference \<Rightarrow>
          (case providerReferenceIDs reference of (productID, priceID, lookupKey) \<Rightarrow>
             try_op (commerce_port (css_ResolveBillingOffer state name productID priceID lookupKey)) z (\<lambda>offer.
               case offer of
                 None \<Rightarrow> return_err z (not_found ''target offer is not available in persisted billing state'')
               | Some found \<Rightarrow> k found)))"

text \<open>The rest of the context, once the target offer is known: it is built, or \<open>z\<close> is returned with the error.\<close>

definition target_context ::
  "'w CommerceService \<Rightarrow> 'w CommerceStateStore \<Rightarrow> string \<Rightarrow> string \<Rightarrow> CommerceSubscription \<Rightarrow> BursarConfig \<Rightarrow>
   CommerceOffer \<times> string \<times> BillingInterval \<Rightarrow> 'b \<Rightarrow> ('w commercePlanChangeContext \<Rightarrow> ('w commerce_world, 'b) op) \<Rightarrow>
   ('w commerce_world, 'b) op" where
  "target_context s state accountID offerKey subscription config target z k =
     (case target of (target, plan, interval) \<Rightarrow>
     try_op (commerce_port (cms_Get s (csn_Provider subscription))) z (\<lambda>provider.
     persisted_offer state (hp_Name provider) target offerKey z (\<lambda>offer.
     try_op (commerce_port (crd_GetUserPlan (cms_credits s) accountID)) z (\<lambda>entitlement.
       let currentPlan = firstNonEmpty [gup_PlanKey entitlement, csn_PlanKey subscription] in
       if currentPlan = [] then return_err z (not_found ''current subscription plan is unknown'')
       else
     require (classifyPlanChange config currentPlan (csn_Interval subscription) plan (bi_Unit interval)) z (\<lambda>classification.
     require (change_policy config classification) z (\<lambda>policy.
       k \<lparr>pcx_subscription = subscription, pcx_provider = provider, pcx_offer = offer, pcx_targetPlan = plan,
          pcx_targetInterval = bi_Unit interval, pcx_classification = classification, pcx_policy = policy\<rparr>))))))"

definition planChangeContext ::
  "'w CommerceService \<Rightarrow> PreviewPlanChangeInput \<Rightarrow> 'b \<Rightarrow> ('w commercePlanChangeContext \<Rightarrow> ('w commerce_world, 'b) op) \<Rightarrow>
   ('w commerce_world, 'b) op" where
  "planChangeContext s input z k =
     require (requireText (pvi_AccountID input) ''account ID'') z (\<lambda>accountID.
     require (requireText (pvi_OfferKey input) ''target offer key'') z (\<lambda>offerKey.
     require (requireState (Some s)) z (\<lambda>state.
     current_subscription state accountID z (\<lambda>subscription.
     try_op (commerce_port (cms_GetConfig s)) z (\<lambda>config.
     require (target_offer config offerKey) z (\<lambda>target.
       target_context s state accountID offerKey subscription config target z k))))))"

text \<open>The provider's quote and its fingerprint.\<close>

definition plan_quote ::
  "(goval gomap \<Rightarrow> string) \<Rightarrow> decimal_pkg \<Rightarrow> 'w commercePlanChangeContext \<Rightarrow> 'b \<Rightarrow>
   (PlanChangePreview \<Rightarrow> string \<Rightarrow> ('w commerce_world, 'b) op) \<Rightarrow> ('w commerce_world, 'b) op" where
  "plan_quote digest D c z k =
     (case hp_PreviewPlanChange (pcx_provider c) of
        None \<Rightarrow> return_err z (providerCapabilityError (hp_Name (pcx_provider c)) ''preview_plan_change'')
      | Some quote \<Rightarrow>
          try_op (commerce_port (quote (providerRequest c []))) z (\<lambda>preview.
            k preview (planChangeQuoteFingerprint digest D preview)))"

definition PreviewPlanChange ::
  "(goval gomap \<Rightarrow> string) \<Rightarrow> decimal_pkg \<Rightarrow> 'w CommerceService \<Rightarrow> PreviewPlanChangeInput \<Rightarrow>
   ('w commerce_world, PlanChangePreviewResult) op" where
  "PreviewPlanChange digest D s input =
     planChangeContext s input zero_PreviewResult (\<lambda>c.
       if pcx_classification c = PlanChangeUnchanged
       then return_ok (zero_PreviewResult\<lparr>ppr_Unchanged := True, ppr_Classification := Some PlanChangeUnchanged,
         ppr_PlanKey := pcx_targetPlan c, ppr_Interval := pcx_targetInterval c\<rparr>)
       else plan_quote digest D c zero_PreviewResult (\<lambda>preview fingerprint.
         return_ok \<lparr>ppr_Unchanged = False, ppr_Classification = Some (pcx_classification c),
           ppr_Scheduled = (scp_Effective (pcx_policy c) = ''renewal''), ppr_PlanKey = pcx_targetPlan c,
           ppr_Interval = pcx_targetInterval c, ppr_Preview = Some preview, ppr_QuoteFingerprint = fingerprint\<rparr>))"

definition update_change ::
  "'w CommerceStateStore \<Rightarrow> string \<Rightarrow> BillingSubscriptionChangeUpdate \<Rightarrow> ('w commerce_world, unit) op" where
  "update_change state changeID update =
     commerce_logged (\<lambda>_ _. ChangeUpdated changeID update) (css_UpdateBillingSubscriptionChange state changeID update)"

definition failed_update :: "go_error \<Rightarrow> BillingSubscriptionChangeUpdate" where
  "failed_update failure =
     \<lparr>scu_State = Some ''failed'', scu_ProviderOperationID = None, scu_ErrorMessage = Some (error_text failure)\<rparr>"

text \<open>The change is marked as failed; the result of that update is ignored.\<close>

definition fail_change ::
  "'w CommerceStateStore \<Rightarrow> string \<Rightarrow> go_error \<Rightarrow> ('w commerce_world, ConfirmPlanChangeResult) op" where
  "fail_change state changeID failure =
     bind_op (update_change state changeID (failed_update failure)) (\<lambda>_ _. return_err zero_Confirm failure)"

definition keep_subscription ::
  "(string \<Rightarrow> string) \<Rightarrow> 'w CommerceStateStore \<Rightarrow> 'w commercePlanChangeContext \<Rightarrow> string \<Rightarrow> string \<Rightarrow>
   ('w commerce_world, ConfirmPlanChangeResult) op \<Rightarrow> ('w commerce_world, ConfirmPlanChangeResult) op" where
  "keep_subscription hash state c changeID operationKey k =
     (if \<not> csn_CancelAtPeriodEnd (pcx_subscription c) then k
      else case hp_ReactivateSubscription (pcx_provider c) of
        None \<Rightarrow> fail_change state changeID (providerCapabilityError (hp_Name (pcx_provider c)) ''reactivate_subscription'')
      | Some reactivate \<Rightarrow>
          (case commerceScopedKey hash operationKey ''keep-cancellation'' of
             Inl err \<Rightarrow> fail_change state changeID err
           | Inr keepKey \<Rightarrow>
               bind_op (commerce_logged (\<lambda>_. ReactivateRequested (csn_ProviderSubscriptionID (pcx_subscription c)) keepKey)
                   (reactivate (csn_ProviderSubscriptionID (pcx_subscription c)) keepKey)) (\<lambda>_ e.
                 case e of Some err \<Rightarrow> fail_change state changeID err | None \<Rightarrow> k)))"

text \<open>
  After a failed change the cancellation that was taken back is restored, if the provider can; a failure of that becomes
  part of the error.
\<close>

definition restore_cancellation ::
  "(string \<Rightarrow> string) \<Rightarrow> 'w commercePlanChangeContext \<Rightarrow> string \<Rightarrow> go_error \<Rightarrow> ('w commerce_world, go_error) op" where
  "restore_cancellation hash c operationKey providerErr =
     (if \<not> csn_CancelAtPeriodEnd (pcx_subscription c) then return_ok providerErr
      else case hp_CancelSubscription (pcx_provider c) of
        None \<Rightarrow> return_ok providerErr
      | Some cancel \<Rightarrow>
          (case commerceScopedKey hash operationKey ''restore-cancellation'' of
             Inl _ \<Rightarrow> return_ok providerErr
           | Inr restoreKey \<Rightarrow>
               bind_op (commerce_logged (\<lambda>_. CancelRequested (csn_ProviderSubscriptionID (pcx_subscription c)) restoreKey)
                   (cancel (csn_ProviderSubscriptionID (pcx_subscription c)) restoreKey)) (\<lambda>_ e.
                 case e of
                   None \<Rightarrow> return_ok providerErr
                 | Some restoreErr \<Rightarrow> return_ok (PlainError (''plan change failed: '' @ error_text providerErr @
                     ''; restoring cancellation: '' @ error_text restoreErr) [providerErr]))))"

definition request_change ::
  "(string \<Rightarrow> string) \<Rightarrow> 'w CommerceStateStore \<Rightarrow> 'w commercePlanChangeContext \<Rightarrow> string \<Rightarrow> string \<Rightarrow>
   (ProviderPlanChangeRequest \<Rightarrow> ('w, ProviderPlanChangeResult) op) \<Rightarrow> ConfirmPlanChangeResult \<Rightarrow>
   ('w commerce_world, ConfirmPlanChangeResult) op" where
  "request_change hash state c changeID operationKey change r =
     bind_op (commerce_logged (\<lambda>_. ChangeRequested (providerRequest c operationKey)) (change (providerRequest c operationKey)))
       (\<lambda>_ e.
         case e of
           None \<Rightarrow> return_ok r
         | Some providerErr \<Rightarrow>
             bind_op (restore_cancellation hash c operationKey providerErr) (\<lambda>failure _. fail_change state changeID failure))"

definition change_create ::
  "'w commercePlanChangeContext \<Rightarrow> string \<Rightarrow> gotime \<Rightarrow> string \<Rightarrow> BillingSubscriptionChangeCreate" where
  "change_create c offerKey effectiveAt operationKey =
     \<lparr>scc_Provider = csn_Provider (pcx_subscription c),
      scc_ProviderSubscriptionID = csn_ProviderSubscriptionID (pcx_subscription c), scc_ToOfferID = bof_ID (pcx_offer c),
      scc_ToOfferKey = offerKey, scc_ToPlanKey = pcx_targetPlan c, scc_ToInterval = pcx_targetInterval c,
      scc_Effective = scp_Effective (pcx_policy c), scc_EffectiveAt = effectiveAt,
      scc_ProrationBehavior = scp_Proration (pcx_policy c), scc_OperationKey = operationKey\<rparr>"

definition effective_date :: "'w commercePlanChangeContext \<Rightarrow> PlanChangePreview \<Rightarrow> go_error + gotime" where
  "effective_date c preview =
     (if scp_Effective (pcx_policy c) \<noteq> ''renewal'' then Inr (pcp_EffectiveAt preview)
      else case pcp_NextBillingDate preview of
        None \<Rightarrow> Inl (NewError ''provider did not return the scheduled change date''
          ((code_category ErrorCodeCoreBillingDataUnavailable ErrorCategoryUnavailable)\<lparr>opt_Retryable := True\<rparr>))
      | Some t \<Rightarrow> Inr t)"

definition quote_changed :: "string \<Rightarrow> go_error" where
  "quote_changed fingerprint = detail_error ''the financial preview changed'' ErrorCodeQuoteChanged ErrorCategoryConflict
     [(''quote_fingerprint'', VStr fingerprint)]"

definition apply_change ::
  "(string \<Rightarrow> string) \<Rightarrow> 'w CommerceStateStore \<Rightarrow> 'w commercePlanChangeContext \<Rightarrow> string \<Rightarrow> PlanChangePreview \<Rightarrow> string \<Rightarrow>
   ('w commerce_world, ConfirmPlanChangeResult) op" where
  "apply_change hash state c offerKey preview operationKey =
     require (effective_date c preview) zero_Confirm (\<lambda>effectiveAt.
       case hp_ChangePlan (pcx_provider c) of
         None \<Rightarrow> return_err zero_Confirm (providerCapabilityError (hp_Name (pcx_provider c)) ''change_plan'')
       | Some changePlan \<Rightarrow>
           let create = change_create c offerKey effectiveAt operationKey in
           try_op (commerce_logged (ChangeCreated create) (css_CreateBillingSubscriptionChange state create)) zero_Confirm (\<lambda>change.
             keep_subscription hash state c (sch_ID change) operationKey
               (request_change hash state c (sch_ID change) operationKey changePlan
                 \<lparr>cpc_Success = True, cpc_Unchanged = False, cpc_Pending = True,
                  cpc_Scheduled = (scp_Effective (pcx_policy c) = ''renewal''), cpc_EffectiveAt = Some effectiveAt,
                  cpc_PlanKey = pcx_targetPlan c, cpc_Interval = pcx_targetInterval c\<rparr>)))"

text \<open>The part of \<open>ConfirmPlanChange\<close> after the quote: no change may be open.\<close>

definition confirm_quoted ::
  "(string \<Rightarrow> string) \<Rightarrow> 'w CommerceService \<Rightarrow> ConfirmPlanChangeInput \<Rightarrow> string \<Rightarrow> 'w commercePlanChangeContext \<Rightarrow>
   PlanChangePreview \<Rightarrow> string \<Rightarrow> ('w commerce_world, ConfirmPlanChangeResult) op" where
  "confirm_quoted hash s input operationKey c preview fingerprint =
     (if trim_space (cpi_QuoteFingerprint input) = [] \<or> \<not> equal_fold (cpi_QuoteFingerprint input) fingerprint
      then return_err zero_Confirm (quote_changed fingerprint)
      else require (requireState (Some s)) zero_Confirm (\<lambda>state.
        try_op (commerce_port (css_GetOpenBillingSubscriptionChange state (csn_Provider (pcx_subscription c))
            (csn_ProviderSubscriptionID (pcx_subscription c)))) zero_Confirm (\<lambda>existing.
          case existing of
            Some e \<Rightarrow> return_err zero_Confirm (detail_error ''a subscription change is already pending''
              ErrorCodeCheckoutConflict ErrorCategoryConflict [(''subscription_change_id'', VStr (sch_ID e))])
          | None \<Rightarrow> apply_change hash state c (cpi_OfferKey input) preview operationKey)))"

definition ConfirmPlanChange ::
  "(goval gomap \<Rightarrow> string) \<Rightarrow> (string \<Rightarrow> string) \<Rightarrow> decimal_pkg \<Rightarrow> 'w CommerceService \<Rightarrow> ConfirmPlanChangeInput \<Rightarrow>
   ('w commerce_world, ConfirmPlanChangeResult) op" where
  "ConfirmPlanChange digest hash D s input =
     require (requireStableKey (cpi_OperationKey input) ''plan change operation key'') zero_Confirm (\<lambda>operationKey.
     planChangeContext s \<lparr>pvi_AccountID = cpi_AccountID input, pvi_OfferKey = cpi_OfferKey input\<rparr> zero_Confirm (\<lambda>c.
       if pcx_classification c = PlanChangeUnchanged
       then return_ok (zero_Confirm\<lparr>cpc_Success := True, cpc_Unchanged := True, cpc_PlanKey := pcx_targetPlan c,
         cpc_Interval := pcx_targetInterval c\<rparr>)
       else plan_quote digest D c zero_Confirm (confirm_quoted hash s input operationKey c)))"

definition CancelScheduledPlanChange ::
  "'w CommerceService \<Rightarrow> string \<Rightarrow> string \<Rightarrow> ('w commerce_world, unit) op" where
  "CancelScheduledPlanChange s account key =
     require (requireText account ''account ID'') () (\<lambda>accountID.
     require (requireStableKey key ''scheduled plan change operation key'') () (\<lambda>operationKey.
     try_op (subscriptionForCommand s accountID [] currentSubscriptionStatuses) () (\<lambda>found.
       case found of
         None \<Rightarrow> return_err () (not_found ''no active subscription was found'')
       | Some sub \<Rightarrow>
     require (requireState (Some s)) () (\<lambda>state.
     try_op (commerce_port (css_GetOpenBillingSubscriptionChange state (csn_Provider sub) (csn_ProviderSubscriptionID sub))) ()
       (\<lambda>open_change.
       case open_change of
         None \<Rightarrow> return_err () (not_found ''no scheduled plan change was found'')
       | Some change \<Rightarrow>
           if sch_State change \<noteq> ''scheduled'' \<or> sch_Effective change \<noteq> ''renewal''
           then return_err () (not_found ''no scheduled plan change was found'')
           else
     try_op (commerce_port (cms_Get s (csn_Provider sub))) () (\<lambda>provider.
       case hp_CancelScheduledPlanChange provider of
         None \<Rightarrow> return_err () (providerCapabilityError (hp_Name provider) ''cancel_scheduled_plan_change'')
       | Some cancel \<Rightarrow>
           try_op (commerce_logged (\<lambda>_. ScheduledCancelRequested (csn_ProviderSubscriptionID sub) (sch_ProviderOperationID change)
                 operationKey)
               (cancel (csn_ProviderSubscriptionID sub) (sch_ProviderOperationID change) operationKey)) () (\<lambda>_.
             update_change state (sch_ID change)
               \<lparr>scu_State = Some ''canceled'', scu_ProviderOperationID = None, scu_ErrorMessage = None\<rparr>)))))))"

section \<open>Portals, preferences and invoices\<close>

definition portal_url ::
  "'w HostedProvider \<Rightarrow> string \<Rightarrow> CommerceSubscription option \<Rightarrow> PortalSessionInput \<Rightarrow> ('w commerce_world, string) op" where
  "portal_url provider customerID subscription input =
     (let purpose = (if psi_Purpose input = [] then ''billing'' else psi_Purpose input);
          subscriptionID = (case subscription of None \<Rightarrow> [] | Some sub \<Rightarrow> csn_ProviderSubscriptionID sub);
          unsupported = (\<lambda>capability. return_err [] (providerCapabilityError (hp_Name provider) capability))
      in if purpose = ''payment_method'' then
           (if trim_space subscriptionID \<noteq> []
            then (case hp_CreateUpdatePaymentMethodSession provider of
                    None \<Rightarrow> unsupported ''create_update_payment_method_session''
                  | Some create \<Rightarrow> commerce_port (create customerID subscriptionID (psi_ReturnURL input)))
            else (case hp_CreatePaymentMethodSetupSession provider of
                    None \<Rightarrow> unsupported ''create_payment_method_setup_session''
                  | Some create \<Rightarrow> commerce_port (create customerID (psi_ReturnURL input) (psi_CancelURL input))))
         else if purpose \<noteq> ''billing''
         then return_err [] (NewError ''portal purpose is invalid'' (code_category ErrorCodeConfig ErrorCategoryInvalidRequest))
         else (case hp_CreateCustomerPortalSession provider of
                 None \<Rightarrow> unsupported ''customer_portal''
               | Some create \<Rightarrow> commerce_port (create customerID (psi_ReturnURL input))))"

definition CreatePortalSession :: "'w CommerceService \<Rightarrow> PortalSessionInput \<Rightarrow> ('w commerce_world, string) op" where
  "CreatePortalSession s input =
     require (requireText (psi_AccountID input) ''account ID'') [] (\<lambda>accountID.
       if trim_space (psi_ReturnURL input) = []
       then return_err [] (NewError ''portal return URL is required'' (code_category ErrorCodeConfig ErrorCategoryInvalidRequest))
       else
     require (requireState (Some s)) [] (\<lambda>state.
     try_op (commerce_port (css_GetBillingSubscription state accountID [])) [] (\<lambda>subscription.
       let providerName = (case subscription of None \<Rightarrow> [] | Some sub \<Rightarrow> csn_Provider sub) in
     try_op (commerce_port (css_GetBillingCustomer state accountID providerName)) [] (\<lambda>customer.
       case customer of
         None \<Rightarrow> return_err [] (not_found ''no billing customer was found'')
       | Some c \<Rightarrow>
           if trim_space (bcr_ProviderCustomerID c) = [] then return_err [] (not_found ''no billing customer was found'')
           else try_op (commerce_port (cms_Get s (bcr_Provider c))) [] (\<lambda>provider.
             portal_url provider (bcr_ProviderCustomerID c) subscription input)))))"

definition pref :: "bool option \<Rightarrow> bool \<Rightarrow> bool" where
  "pref p old = (case p of None \<Rightarrow> old | Some v \<Rightarrow> v)"

definition apply_patch :: "PreferencePatch \<Rightarrow> BillingPreferences \<Rightarrow> BillingPreferences" where
  "apply_patch patch b = b\<lparr>bpr_AutoRecharge := pref (ppt_AutoRecharge patch) (bpr_AutoRecharge b),
     bpr_OverageProtection := pref (ppt_OverageProtection patch) (bpr_OverageProtection b),
     bpr_EmailNotifications := pref (ppt_EmailNotifications patch) (bpr_EmailNotifications b),
     bpr_UsageAlerts := pref (ppt_UsageAlerts patch) (bpr_UsageAlerts b),
     bpr_InvoiceReminders := pref (ppt_InvoiceReminders patch) (bpr_InvoiceReminders b)\<rparr>"

definition defaultBillingPreferences :: "string \<Rightarrow> PreferencePatch \<Rightarrow> BillingPreferences" where
  "defaultBillingPreferences accountID patch = apply_patch patch
     \<lparr>bpr_AccountID = accountID, bpr_AutoRecharge = False, bpr_OverageProtection = True, bpr_EmailNotifications = True,
      bpr_UsageAlerts = True, bpr_InvoiceReminders = False\<rparr>"

definition current_preferences :: "'w CommerceService \<Rightarrow> string \<Rightarrow> BillingPreferences option \<Rightarrow> BillingPreferences" where
  "current_preferences s accountID current =
     (case current of
        None \<Rightarrow> defaultBillingPreferences accountID (cms_preferenceDefaults s)
      | Some b \<Rightarrow> b\<lparr>bpr_AccountID := accountID\<rparr>)"

definition UpdatePreferences ::
  "'w CommerceService \<Rightarrow> string \<Rightarrow> PreferencePatch \<Rightarrow> ('w commerce_world, BillingPreferences) op" where
  "UpdatePreferences s account patch =
     require (requireText account ''account ID'') zero_Preferences (\<lambda>accountID.
     require (requireState (Some s)) zero_Preferences (\<lambda>state.
     try_op (commerce_port (css_GetBillingPreferences state accountID)) zero_Preferences (\<lambda>current.
       let new = apply_patch patch (current_preferences s accountID current) in
       try_op (commerce_logged (\<lambda>_ _. PreferencesSaved new) (css_UpsertBillingPreferences state new)) zero_Preferences (\<lambda>_.
         return_ok new))))"

definition metadataText :: "goval gomap \<Rightarrow> string \<Rightarrow> string" where
  "metadataText metadata key = (case map_of metadata key of Some (VStr v) \<Rightarrow> trim_space v | _ \<Rightarrow> [])"

definition entry_document :: "LedgerEntry \<Rightarrow> string" where
  "entry_document entry = firstNonEmpty [metadataText (le_Metadata entry) ''provider_document_id'',
     metadataText (le_Metadata entry) ''provider_invoice_id'', metadataText (le_Metadata entry) ''provider_payment_id'']"

definition invoice_document ::
  "'w CommerceService \<Rightarrow> string \<Rightarrow> InvoiceDocumentLocator \<Rightarrow> ('w commerce_world, string \<times> string) op" where
  "invoice_document s accountID document =
     (if idl_Kind document = ''provider_invoice'' then
        require (requireState (Some s)) ([], []) (\<lambda>state.
        try_op (commerce_port (css_ListBillingInvoices state accountID)) ([], []) (\<lambda>invoices.
          return_ok (case find (\<lambda>i. Billing_Events.bi_Provider i = idl_Provider document \<and>
              Billing_Events.bi_ID i = idl_ProviderDocumentID document) invoices of
            None \<Rightarrow> ([], [])
          | Some i \<Rightarrow> (Billing_Events.bi_Provider i, Billing_Events.bi_ID i))))
      else if idl_Kind document = ''ledger_entry'' then
        try_op (commerce_port (crd_GetLedgerEntry (cms_credits s) accountID (idl_LedgerEntryID document))) ([], []) (\<lambda>entry.
          return_ok (case entry of
            None \<Rightarrow> ([], [])
          | Some e \<Rightarrow> (metadataText (le_Metadata e) ''provider'', entry_document e)))
      else return_err ([], []) (NewError ''invoice document kind is invalid''
        (code_category ErrorCodeConfig ErrorCategoryInvalidRequest)))"

definition GetInvoiceLink :: "'w CommerceService \<Rightarrow> GetInvoiceLinkInput \<Rightarrow> ('w commerce_world, string) op" where
  "GetInvoiceLink s input =
     require (requireText (gil_AccountID input) ''account ID'') [] (\<lambda>accountID.
     try_op (invoice_document s accountID (gil_Document input)) [] (\<lambda>(providerName, documentID).
       if trim_space providerName = [] \<or> trim_space documentID = []
       then return_err [] (not_found ''invoice was not found'')
       else try_op (commerce_port (cms_Get s providerName)) [] (\<lambda>provider.
         case hp_GetInvoiceURL provider of
           None \<Rightarrow> return_err [] (providerCapabilityError (hp_Name provider) ''invoice_url'')
         | Some get \<Rightarrow>
             try_op (commerce_port (get documentID)) [] (\<lambda>url.
               if trim_space url = [] then return_err [] (not_found ''provider returned no invoice URL'')
               else return_ok url))))"

section \<open>What a plan change does\<close>

text \<open>
  Rules for the reads of an operation: what holds for every error on the unchanged log, and for the rest of the operation,
  holds for the operation.
\<close>

lemma read_try:
  assumes "keeps log_kept m" and "cw_log w = l"
    and "\<And>x w1. m w = ((x, None), w1) \<Longrightarrow> cw_log w1 = l \<Longrightarrow> Q (k x w1)"
    and "\<And>err w1. cw_log w1 = l \<Longrightarrow> Q ((z, Some err), w1)"
  shows "Q (try_op m z k w)"
proof -
  obtain x e w1 where run: "m w = ((x, e), w1)" by (metis prod.collapse)
  with keptD [OF assms(1) run] assms(2-4) show ?thesis by (cases e) (simp_all add: op_simps)
qed

lemma read_require:
  assumes "cw_log w = l" and "\<And>x. r = Inr x \<Longrightarrow> Q (k x w)" and "\<And>err w1. cw_log w1 = l \<Longrightarrow> Q ((z, Some err), w1)"
  shows "Q (require r z k w)"
  using assms by (cases r) (simp_all add: op_simps)

lemmas read_rules = read_try [OF kept_port] read_require

lemma current_subscription_rule:
  assumes "cw_log w = l" and "\<And>err w1. cw_log w1 = l \<Longrightarrow> Q ((z, Some err), w1)"
    and "\<And>sub x x' w1. css_GetBillingSubscription state accountID currentSubscriptionStatuses x = ((Some sub, None), x') \<Longrightarrow>
      cw_log w1 = l \<Longrightarrow> Q (k sub w1)"
  shows "Q (current_subscription state accountID z k w)"
  unfolding current_subscription_def
proof (rule read_rules(1) [where Q = Q, OF assms(1)])
  fix found w1
  assume run: "commerce_port (css_GetBillingSubscription state accountID currentSubscriptionStatuses) w = ((found, None), w1)"
    and log: "cw_log w1 = l"
  obtain x where "css_GetBillingSubscription state accountID currentSubscriptionStatuses (cw_state w) = ((found, None), x)"
    using run by (auto simp: commerce_port_def split: prod.splits)
  with log show "Q ((case found of None \<Rightarrow> return_err z (not_found ''no active subscription was found'')
      | Some sub \<Rightarrow> if trim_space (csn_ProviderSubscriptionID sub) = []
           then return_err z (not_found ''no active subscription was found'') else k sub) w1)"
    using assms(2,3) by (auto simp: op_simps split: option.split)
qed (rule assms(2))

lemma persisted_offer_rule:
  assumes "cw_log w = l" and "\<And>err w1. cw_log w1 = l \<Longrightarrow> Q ((z, Some err), w1)"
    and "\<And>offer w1. cw_log w1 = l \<Longrightarrow> Q (k offer w1)"
  shows "Q (persisted_offer state name target offerKey z k w)"
proof (cases "map_of (of_Providers target) name")
  case None
  then show ?thesis using assms(1,2) by (simp add: persisted_offer_def op_simps)
next
  case (Some reference)
  obtain a b c where ids: "providerReferenceIDs reference = (a, b, c)" by (metis prod_cases3)
  have "Q (try_op (commerce_port (css_ResolveBillingOffer state name a b c)) z (\<lambda>offer.
      case offer of None \<Rightarrow> return_err z (not_found ''target offer is not available in persisted billing state'')
      | Some found \<Rightarrow> k found) w)"
    by (rule read_rules(1) [where Q = Q, OF assms(1)]) (auto simp: op_simps assms(2,3) split: option.split)
  with Some ids show ?thesis by (simp add: persisted_offer_def)
qed

lemma target_context_rule:
  assumes log: "cw_log w = l" and quiet: "\<And>err w1. cw_log w1 = l \<Longrightarrow> Q ((z, Some err), w1)"
    and built: "\<And>c w1. pcx_subscription c = sub \<Longrightarrow> cw_log w1 = l \<Longrightarrow> Q (k c w1)"
  shows "Q (target_context s state accountID offerKey sub config target z k w)"
proof -
  obtain offer plan interval where target: "target = (offer, plan, interval)" by (metis prod_cases3)
  show ?thesis
    unfolding target_context_def target prod.case Let_def
    by (rule read_rules(1) [where Q = Q, OF log _ quiet], rule persisted_offer_rule [where Q = Q, OF _ quiet], assumption+,
        rule read_rules(1) [where Q = Q, OF _ _ quiet], assumption)
      (auto simp: op_simps quiet built intro!: read_require [where Q = Q, OF _ _ quiet])
qed

lemma context_rule:
  fixes s :: "'w CommerceService"
  assumes log: "cw_log w = l" and quiet: "\<And>err w1. cw_log w1 = l \<Longrightarrow> Q ((z, Some err), w1)"
    and built: "\<And>c state x x' w1. cms_state s = Some state \<Longrightarrow>
      css_GetBillingSubscription state (trim_space (pvi_AccountID input)) currentSubscriptionStatuses x =
        ((Some (pcx_subscription c), None), x') \<Longrightarrow> cw_log w1 = l \<Longrightarrow> Q (k c w1)"
  shows "Q (planChangeContext s input z k w)"
  unfolding planChangeContext_def
proof (rule read_require [where Q = Q, OF log _ quiet], rule read_require [where Q = Q, OF log _ quiet],
    rule read_require [where Q = Q, OF log _ quiet], rule current_subscription_rule [where Q = Q, OF log quiet])
  fix accountID offerKey state sub x x' and w1 :: "'w commerce_world"
  assume key: "requireText (pvi_AccountID input) ''account ID'' = Inr accountID"
    and st: "requireState (Some s) = Inr state"
    and sub: "css_GetBillingSubscription state accountID currentSubscriptionStatuses x = ((Some sub, None), x')"
    and log1: "cw_log w1 = l"
  have state: "cms_state s = Some state" using st by (auto simp: requireState_def split: option.splits)
  have account: "accountID = trim_space (pvi_AccountID input)" using key by (simp add: requireText_Inr)
  have "Q (k c w2)" if "pcx_subscription c = sub" "cw_log w2 = l" for c w2
    by (rule built [OF state _ that(2), where x = x and x' = x']) (simp add: sub account [symmetric] that(1))
  then show "Q (try_op (commerce_port (cms_GetConfig s)) z (\<lambda>config. require (target_offer config offerKey) z (\<lambda>target.
      target_context s state accountID offerKey sub config target z k)) w1)"
    by (intro read_rules(1) [where Q = Q, OF log1 _ quiet] read_require [where Q = Q, OF _ _ quiet]
        target_context_rule [where Q = Q, OF _ quiet]) auto
qed

text \<open>
  The calls after the durable change has been created: the provider is asked once, with the operation key; a scheduled
  cancellation is taken back before and asked for again when the change fails; and every failure marks the change.
\<close>

inductive change_moves ::
  "(string \<Rightarrow> string) \<Rightarrow> 'w commercePlanChangeContext \<Rightarrow> string \<Rightarrow> string \<Rightarrow> commerce_call list \<Rightarrow> go_error option \<Rightarrow> bool"
  for hash c key changeID where
  accepted: "\<not> csn_CancelAtPeriodEnd (pcx_subscription c) \<Longrightarrow>
    change_moves hash c key changeID [ChangeRequested (providerRequest c key) None] None"
| declined: "\<not> csn_CancelAtPeriodEnd (pcx_subscription c) \<Longrightarrow>
    change_moves hash c key changeID
      [ChangeRequested (providerRequest c key) (Some err), ChangeUpdated changeID (failed_update err)] (Some err)"
| not_kept: "csn_CancelAtPeriodEnd (pcx_subscription c) \<Longrightarrow>
    change_moves hash c key changeID [ChangeUpdated changeID (failed_update err)] (Some err)"
| keep_failed: "csn_CancelAtPeriodEnd (pcx_subscription c) \<Longrightarrow> commerceScopedKey hash key ''keep-cancellation'' = Inr keepKey \<Longrightarrow>
    change_moves hash c key changeID
      [ReactivateRequested (csn_ProviderSubscriptionID (pcx_subscription c)) keepKey (Some err),
       ChangeUpdated changeID (failed_update err)] (Some err)"
| kept: "csn_CancelAtPeriodEnd (pcx_subscription c) \<Longrightarrow> commerceScopedKey hash key ''keep-cancellation'' = Inr keepKey \<Longrightarrow>
    change_moves hash c key changeID
      [ReactivateRequested (csn_ProviderSubscriptionID (pcx_subscription c)) keepKey None,
       ChangeRequested (providerRequest c key) None] None"
| unrestorable: "csn_CancelAtPeriodEnd (pcx_subscription c) \<Longrightarrow> commerceScopedKey hash key ''keep-cancellation'' = Inr keepKey \<Longrightarrow>
    hp_CancelSubscription (pcx_provider c) = None \<Longrightarrow>
    change_moves hash c key changeID
      [ReactivateRequested (csn_ProviderSubscriptionID (pcx_subscription c)) keepKey None,
       ChangeRequested (providerRequest c key) (Some err), ChangeUpdated changeID (failed_update err)] (Some err)"
| restored: "csn_CancelAtPeriodEnd (pcx_subscription c) \<Longrightarrow> commerceScopedKey hash key ''keep-cancellation'' = Inr keepKey \<Longrightarrow>
    commerceScopedKey hash key ''restore-cancellation'' = Inr restoreKey \<Longrightarrow> (restoreErr = None \<longrightarrow> err = providerErr) \<Longrightarrow>
    change_moves hash c key changeID
      [ReactivateRequested (csn_ProviderSubscriptionID (pcx_subscription c)) keepKey None,
       ChangeRequested (providerRequest c key) (Some providerErr),
       CancelRequested (csn_ProviderSubscriptionID (pcx_subscription c)) restoreKey restoreErr,
       ChangeUpdated changeID (failed_update err)] (Some err)"

text \<open>The hash of a scope: eight bytes in hexadecimal.\<close>

definition hex_hash :: "(string \<Rightarrow> string) \<Rightarrow> bool" where
  "hex_hash hash \<longleftrightarrow> (\<forall>x. length (hash x) = 16 \<and> set (hash x) \<subseteq> set ''0123456789abcdef'')"

text \<open>A key that has been trimmed stays as it is when a colon and a hash are put behind it.\<close>

lemma lead_len_0D:
  assumes "lead_len ws s = 0" and "\<And>w. w \<in> set ws \<Longrightarrow> w \<noteq> []" and "w \<in> set ws"
  shows "take (length w) s \<noteq> w"
proof (cases "find (\<lambda>w. take (length w) s = w) ws")
  case None
  with assms(3) show ?thesis by (auto simp: find_None_iff)
next
  case (Some v)
  then have "v \<in> set ws" by (auto simp: find_Some_iff)
  with Some assms(1,2) show ?thesis by (auto simp: lead_len_def)
qed

lemma lead_len_trimmed:
  assumes "trim_space k = k" and "k \<noteq> []"
  shows "lead_len space_encodings k = 0"
proof -
  let ?f = "strip_front space_encodings k"
  obtain u where u: "k = u @ ?f" using strip_front_done by blast
  have "length k \<le> length ?f"
    using assms(1) strip_front_length [of "map rev space_encodings" "rev ?f"] by (metis length_rev trim_space_def)
  with u have "?f = k" by (metis add_diff_cancel_right' append_Nil diff_is_0_eq length_0_conv length_append)
  with strip_front_done [of space_encodings k] assms(2) show ?thesis by auto
qed

lemma trim_space_scoped:
  assumes "trim_space k = k" and "k \<noteq> []" and "h \<noteq> []" and "graphic (last h)"
  shows "trim_space (k @ '':'' @ h) = k @ '':'' @ h"
proof -
  let ?E = space_encodings and ?s = "k @ '':'' @ h"
  have enc: "w \<noteq> []" "CHR '':'' \<notin> set w" "\<not> graphic (last w)" if "w \<in> set ?E" for w
  proof -
    have "list_all (\<lambda>w. w \<noteq> [] \<and> CHR '':'' \<notin> set w \<and> \<not> graphic (last w)) ?E" by code_simp
    with that show "w \<noteq> []" "CHR '':'' \<notin> set w" "\<not> graphic (last w)" by (auto simp: list_all_iff)
  qed
  have no: "take (length w) k \<noteq> w" if "w \<in> set ?E" for w
    by (rule lead_len_0D [OF lead_len_trimmed [OF assms(1,2)] _ that]) (rule enc(1))
  have "take (length w) ?s \<noteq> w" if w: "w \<in> set ?E" for w
  proof (cases "length w \<le> length k")
    case True
    then show ?thesis using no [OF w] by simp
  next
    case False
    then have "CHR '':'' \<in> set (take (length w) ?s)" by (cases "length w - length k") auto
    then show ?thesis using enc(2) [OF w] by metis
  qed
  then have "lead_len ?E ?s = 0" by (simp add: lead_len_def find_None_iff [THEN iffD2])
  then have front: "strip_front ?E ?s = ?s" by (simp add: strip_front_stop)
  have ending: "hd (rev ?s) = last h" using assms(3) by (simp add: hd_append hd_rev)
  have "lead_len (map rev ?E) (rev ?s) = 0"
  proof (rule lead_len_0)
    fix w
    assume "w \<in> set (map rev ?E)"
    then obtain v where "w = rev v" "v \<in> set ?E" by auto
    then show "w \<noteq> [] \<and> hd w \<noteq> hd (rev ?s)" using enc(1,3) [of v] assms(4) unfolding ending by (auto simp: hd_rev)
  qed simp
  then have "strip_front (map rev ?E) (rev ?s) = rev ?s" by (simp add: strip_front_stop)
  with front show ?thesis by (simp add: trim_space_def)
qed

lemma scoped_key:
  assumes "hex_hash hash"
  shows "commerceScopedKey hash key scope = Inr k \<longleftrightarrow>
    stable_key (trim_space key) \<and> k = trim_space key @ '':'' @ hash scope \<and> length (trim_space key) \<le> 238"
proof -
  have hex: "length (hash scope) = 16" "set (hash scope) \<subseteq> set ''0123456789abcdef''"
    using assms by (auto simp: hex_hash_def)
  then have h: "hash scope \<noteq> []" by auto
  then have "last (hash scope) \<in> set ''0123456789abcdef''" using hex(2) by (meson last_in_set subsetD)
  then have g: "graphic (last (hash scope))" by (auto simp: graphic_def byte_def)
  show ?thesis
  proof (cases "trim_space key = []")
    case True
    then show ?thesis by (auto simp: commerceScopedKey_def bind_err_Inr_iff requireStableKey_Inr stable_key_def)
  next
    case False
    then have "trim_space (trim_space key @ '':'' @ hash scope) = trim_space key @ '':'' @ hash scope"
      using trim_space_scoped [OF trim_space_idem _ h g] by blast
    then show ?thesis using hex(1)
      by (auto simp: commerceScopedKey_def bind_err_Inr_iff requireStableKey_Inr stable_key_def)
  qed
qed

lemma scoped_keys_alike:
  assumes "hex_hash hash" and "commerceScopedKey hash key a = Inr k"
  obtains k' where "commerceScopedKey hash key b = Inr k'"
  using assms by (simp add: scoped_key)

text \<open>The log of the calls that change something.\<close>

lemma logged_run:
  obtains r e v where "commerce_logged entry m w = ((r, e), w\<lparr>cw_state := v, cw_log := cw_log w @ [entry r e]\<rparr>)"
  by (cases "m (cw_state w)") (auto simp: commerce_logged_def)

lemma fail_change_run:
  obtains v where "fail_change state changeID err w =
    ((zero_Confirm, Some err), w\<lparr>cw_state := v, cw_log := cw_log w @ [ChangeUpdated changeID (failed_update err)]\<rparr>)"
proof -
  let ?entry = "\<lambda>_ _. ChangeUpdated changeID (failed_update err)"
  obtain r e v where "commerce_logged ?entry (css_UpdateBillingSubscriptionChange state changeID (failed_update err)) w =
      ((r, e), w\<lparr>cw_state := v, cw_log := cw_log w @ [ChangeUpdated changeID (failed_update err)]\<rparr>)"
    by (rule logged_run)
  with that show thesis by (simp add: fail_change_def update_change_def op_simps)
qed

definition moved :: "(string \<Rightarrow> string) \<Rightarrow> 'w commercePlanChangeContext \<Rightarrow> string \<Rightarrow> string \<Rightarrow> commerce_call list \<Rightarrow>
   (ConfirmPlanChangeResult \<times> go_error option) \<times> 'w commerce_world \<Rightarrow> bool" where
  "moved hash c key changeID l out \<longleftrightarrow>
     (\<exists>M. cw_log (state_of out) = l @ M \<and> change_moves hash c key changeID M (error_of out))"

lemma request_change_moves:
  assumes hex: "hex_hash hash"
    and keep: "csn_CancelAtPeriodEnd (pcx_subscription c) \<Longrightarrow> commerceScopedKey hash key ''keep-cancellation'' = Inr keepKey"
    and log: "cw_log w = l @ (if csn_CancelAtPeriodEnd (pcx_subscription c)
      then [ReactivateRequested (csn_ProviderSubscriptionID (pcx_subscription c)) keepKey None] else [])"
  shows "moved hash c key changeID l (request_change hash state c changeID key change r w)"
proof -
  let ?sub = "pcx_subscription c" and ?req = "providerRequest c key"
  obtain x e v where run: "commerce_logged (\<lambda>_. ChangeRequested ?req) (change ?req) w =
      ((x, e), w\<lparr>cw_state := v, cw_log := cw_log w @ [ChangeRequested ?req e]\<rparr>)" by (rule logged_run)
  let ?w = "w\<lparr>cw_state := v, cw_log := cw_log w @ [ChangeRequested ?req e]\<rparr>"
  show ?thesis
  proof (cases e)
    case None
    with run keep log show ?thesis
      by (cases "csn_CancelAtPeriodEnd ?sub") (auto simp: moved_def request_change_def op_simps intro: accepted kept)
  next
    case (Some providerErr)
    have step: "request_change hash state c changeID key change r w =
        bind_op (restore_cancellation hash c key providerErr) (\<lambda>failure _. fail_change state changeID failure) ?w"
      using run Some by (simp add: request_change_def op_simps)
    show ?thesis
    proof (cases "csn_CancelAtPeriodEnd ?sub \<and> hp_CancelSubscription (pcx_provider c) \<noteq> None")
      case False
      then have "restore_cancellation hash c key providerErr ?w = ((providerErr, None), ?w)"
        by (auto simp: restore_cancellation_def op_simps)
      moreover obtain v' where "fail_change state changeID providerErr ?w = ((zero_Confirm, Some providerErr),
          ?w\<lparr>cw_state := v', cw_log := cw_log ?w @ [ChangeUpdated changeID (failed_update providerErr)]\<rparr>)"
        by (rule fail_change_run)
      ultimately show ?thesis using step log Some keep False
        by (cases "csn_CancelAtPeriodEnd ?sub") (auto simp: moved_def op_simps intro: declined unrestorable)
    next
      case True
      then obtain cancel where cancel: "hp_CancelSubscription (pcx_provider c) = Some cancel" and ends: "csn_CancelAtPeriodEnd ?sub"
        by blast
      obtain restoreKey where key: "commerceScopedKey hash key ''restore-cancellation'' = Inr restoreKey"
        by (rule scoped_keys_alike [OF hex keep [OF ends]])
      obtain y re v2 where cancelled: "commerce_logged (\<lambda>_. CancelRequested (csn_ProviderSubscriptionID ?sub) restoreKey)
          (cancel (csn_ProviderSubscriptionID ?sub) restoreKey) ?w =
        ((y, re), ?w\<lparr>cw_state := v2, cw_log := cw_log ?w @ [CancelRequested (csn_ProviderSubscriptionID ?sub) restoreKey re]\<rparr>)"
        by (rule logged_run)
      let ?w2 = "?w\<lparr>cw_state := v2, cw_log := cw_log ?w @ [CancelRequested (csn_ProviderSubscriptionID ?sub) restoreKey re]\<rparr>"
      define err where "err = (case re of None \<Rightarrow> providerErr | Some restoreErr \<Rightarrow> PlainError (''plan change failed: '' @
        error_text providerErr @ ''; restoring cancellation: '' @ error_text restoreErr) [providerErr])"
      have "restore_cancellation hash c key providerErr ?w = ((err, None), ?w2)"
        using cancel ends key cancelled
        by (simp add: restore_cancellation_def op_simps err_def split: option.split)
      moreover obtain v' where "fail_change state changeID err ?w2 = ((zero_Confirm, Some err),
          ?w2\<lparr>cw_state := v', cw_log := cw_log ?w2 @ [ChangeUpdated changeID (failed_update err)]\<rparr>)"
        by (rule fail_change_run)
      ultimately show ?thesis using step log Some ends
        by (auto simp: moved_def op_simps err_def intro!: restored [OF ends keep [OF ends] key])
    qed
  qed
qed

lemma keep_subscription_moves:
  assumes hex: "hex_hash hash"
  shows "moved hash c key changeID (cw_log w) (keep_subscription hash state c changeID key
    (request_change hash state c changeID key change r) w)"
proof (cases "csn_CancelAtPeriodEnd (pcx_subscription c)")
  case False
  then show ?thesis
    using request_change_moves [OF hex, of c key "[]" w "cw_log w" changeID state change r] by (simp add: keep_subscription_def)
next
  case ends: True
  have fails: "moved hash c key changeID (cw_log w) (fail_change state changeID err w)" for err
    by (rule fail_change_run [of state changeID err w]) (auto simp: moved_def intro!: not_kept ends)
  show ?thesis
  proof (cases "hp_ReactivateSubscription (pcx_provider c)")
    case None
    with ends fails show ?thesis by (simp add: keep_subscription_def)
  next
    case (Some reactivate)
    show ?thesis
    proof (cases "commerceScopedKey hash key ''keep-cancellation''")
      case (Inl err)
      with ends Some fails show ?thesis by (simp add: keep_subscription_def)
    next
      case keep: (Inr keepKey)
      let ?id = "csn_ProviderSubscriptionID (pcx_subscription c)"
      obtain x e v where run: "commerce_logged (\<lambda>_. ReactivateRequested ?id keepKey) (reactivate ?id keepKey) w =
          ((x, e), w\<lparr>cw_state := v, cw_log := cw_log w @ [ReactivateRequested ?id keepKey e]\<rparr>)" by (rule logged_run)
      let ?w = "w\<lparr>cw_state := v, cw_log := cw_log w @ [ReactivateRequested ?id keepKey e]\<rparr>"
      show ?thesis
      proof (cases e)
        case None
        have "moved hash c key changeID (cw_log w) (request_change hash state c changeID key change r ?w)"
          by (rule request_change_moves [OF hex keep]) (simp add: None ends)
        with run ends Some keep None show ?thesis by (simp add: keep_subscription_def op_simps)
      next
        case err: (Some err)
        obtain v' where "fail_change state changeID err ?w = ((zero_Confirm, Some err),
            ?w\<lparr>cw_state := v', cw_log := cw_log ?w @ [ChangeUpdated changeID (failed_update err)]\<rparr>)"
          by (rule fail_change_run)
        with run ends Some keep err show ?thesis
          by (auto simp: keep_subscription_def op_simps moved_def intro!: keep_failed)
      qed
    qed
  qed
qed

text \<open>
  What must hold before the first call: the subscription is the account's current one, the provider quoted this very
  change, the caller confirmed the fingerprint of that quote, and no other change was open.
\<close>

definition confirmed ::
  "(goval gomap \<Rightarrow> string) \<Rightarrow> decimal_pkg \<Rightarrow> 'w CommerceService \<Rightarrow> ConfirmPlanChangeInput \<Rightarrow> 'w commercePlanChangeContext \<Rightarrow> bool" where
  "confirmed digest D s input c \<longleftrightarrow>
     pcx_classification c \<noteq> PlanChangeUnchanged \<and>
     (\<exists>state preview quote x1 x1' x2 x2' x3 x3'. cms_state s = Some state \<and>
        css_GetBillingSubscription state (trim_space (cpi_AccountID input)) currentSubscriptionStatuses x1 =
          ((Some (pcx_subscription c), None), x1') \<and>
        hp_PreviewPlanChange (pcx_provider c) = Some quote \<and> quote (providerRequest c []) x2 = ((preview, None), x2') \<and>
        trim_space (cpi_QuoteFingerprint input) \<noteq> [] \<and>
        equal_fold (cpi_QuoteFingerprint input) (planChangeQuoteFingerprint digest D preview) \<and>
        css_GetOpenBillingSubscriptionChange state (csn_Provider (pcx_subscription c))
          (csn_ProviderSubscriptionID (pcx_subscription c)) x3 = ((None, None), x3'))"

lemma confirmedI:
  assumes "pcx_classification c \<noteq> PlanChangeUnchanged" and "cms_state s = Some state"
    and "css_GetBillingSubscription state (trim_space (cpi_AccountID input)) currentSubscriptionStatuses x1 =
      ((Some (pcx_subscription c), None), x1')"
    and "hp_PreviewPlanChange (pcx_provider c) = Some quote" and "quote (providerRequest c []) x2 = ((preview, None), x2')"
    and "trim_space (cpi_QuoteFingerprint input) \<noteq> []"
    and "equal_fold (cpi_QuoteFingerprint input) (planChangeQuoteFingerprint digest D preview)"
    and "css_GetOpenBillingSubscriptionChange state (csn_Provider (pcx_subscription c))
      (csn_ProviderSubscriptionID (pcx_subscription c)) x3 = ((None, None), x3')"
  shows "confirmed digest D s input c"
  unfolding confirmed_def
  by (rule conjI, rule assms(1), rule exI [of _ state], rule exI [of _ preview], rule exI [of _ quote], rule exI [of _ x1],
      rule exI [of _ x1'], rule exI [of _ x2], rule exI [of _ x2'], rule exI [of _ x3], rule exI [of _ x3'])
    (intro conjI assms)

definition change_outcome ::
  "(string \<Rightarrow> string) \<Rightarrow> 'w commercePlanChangeContext \<Rightarrow> string \<Rightarrow> string \<Rightarrow> commerce_call list \<Rightarrow>
   (ConfirmPlanChangeResult \<times> go_error option) \<times> 'w commerce_world \<Rightarrow> bool" where
  "change_outcome hash c offerKey key l out \<longleftrightarrow>
     cw_log (state_of out) = l \<and> error_of out \<noteq> None \<or>
     (\<exists>effectiveAt change ce M. cw_log (state_of out) = l @ ChangeCreated (change_create c offerKey effectiveAt key) change ce # M \<and>
        (if ce = None then change_moves hash c key (sch_ID change) M (error_of out) else M = [] \<and> error_of out = ce))"

lemma change_outcomeI:
  assumes "moved hash c key (sch_ID change) (l @ [ChangeCreated (change_create c offerKey effectiveAt key) change None]) out"
  shows "change_outcome hash c offerKey key l out"
proof -
  obtain M where M: "cw_log (state_of out) = l @ ChangeCreated (change_create c offerKey effectiveAt key) change None # M"
    "change_moves hash c key (sch_ID change) M (error_of out)"
    using assms by (auto simp: moved_def)
  show ?thesis
    unfolding change_outcome_def
    by (rule disjI2, rule exI [of _ effectiveAt], rule exI [of _ change], rule exI [of _ None], rule exI [of _ M]) (simp add: M)
qed

lemma apply_change_outcome:
  assumes hex: "hex_hash hash"
  shows "change_outcome hash c offerKey key (cw_log w) (apply_change hash state c offerKey preview key w)"
proof (cases "effective_date c preview")
  case (Inl err)
  then show ?thesis by (simp add: apply_change_def op_simps change_outcome_def)
next
  case date: (Inr effectiveAt)
  show ?thesis
  proof (cases "hp_ChangePlan (pcx_provider c)")
    case None
    with date show ?thesis by (simp add: apply_change_def op_simps change_outcome_def)
  next
    case (Some changePlan)
    let ?create = "change_create c offerKey effectiveAt key"
    obtain change ce v where run: "commerce_logged (ChangeCreated ?create) (css_CreateBillingSubscriptionChange state ?create) w =
        ((change, ce), w\<lparr>cw_state := v, cw_log := cw_log w @ [ChangeCreated ?create change ce]\<rparr>)" by (rule logged_run)
    let ?w = "w\<lparr>cw_state := v, cw_log := cw_log w @ [ChangeCreated ?create change ce]\<rparr>"
    let ?r = "\<lparr>cpc_Success = True, cpc_Unchanged = False, cpc_Pending = True,
                  cpc_Scheduled = (scp_Effective (pcx_policy c) = ''renewal''), cpc_EffectiveAt = Some effectiveAt,
                  cpc_PlanKey = pcx_targetPlan c, cpc_Interval = pcx_targetInterval c\<rparr>"
    have "moved hash c key (sch_ID change) (cw_log ?w) (keep_subscription hash state c (sch_ID change) key
        (request_change hash state c (sch_ID change) key changePlan ?r) ?w)"
      by (rule keep_subscription_moves [OF hex])
    then show ?thesis
      using run date Some change_outcomeI [of hash c key change "cw_log w" offerKey effectiveAt]
      by (cases ce) (auto simp: apply_change_def op_simps Let_def change_outcome_def)
  qed
qed

lemma plan_quote_rule:
  assumes "cw_log w = l" and "\<And>err w1. cw_log w1 = l \<Longrightarrow> Q ((z, Some err), w1)"
    and "\<And>quote preview x x' w1. hp_PreviewPlanChange (pcx_provider c) = Some quote \<Longrightarrow>
      quote (providerRequest c []) x = ((preview, None), x') \<Longrightarrow> cw_log w1 = l \<Longrightarrow>
      Q (k preview (planChangeQuoteFingerprint digest D preview) w1)"
  shows "Q (plan_quote digest D c z k w)"
proof (cases "hp_PreviewPlanChange (pcx_provider c)")
  case None
  then show ?thesis using assms(1,2) by (simp add: plan_quote_def op_simps)
next
  case (Some quote)
  obtain preview e x where run: "quote (providerRequest c []) (cw_state w) = ((preview, e), x)" by (metis prod.collapse)
  with Some assms show ?thesis by (cases e) (simp_all add: plan_quote_def op_simps commerce_port_def)
qed

lemma confirm_quoted_rule:
  assumes "cms_state s = Some state" and "cw_log w = l" and "\<And>err w1. cw_log w1 = l \<Longrightarrow> Q ((zero_Confirm, Some err), w1)"
    and "\<And>x x' w1. trim_space (cpi_QuoteFingerprint input) \<noteq> [] \<Longrightarrow> equal_fold (cpi_QuoteFingerprint input) fingerprint \<Longrightarrow>
      css_GetOpenBillingSubscriptionChange state (csn_Provider (pcx_subscription c))
        (csn_ProviderSubscriptionID (pcx_subscription c)) x = ((None, None), x') \<Longrightarrow> cw_log w1 = l \<Longrightarrow>
      Q (apply_change hash state c (cpi_OfferKey input) preview key w1)"
  shows "Q (confirm_quoted hash s input key c preview fingerprint w)"
proof (cases "trim_space (cpi_QuoteFingerprint input) = [] \<or> \<not> equal_fold (cpi_QuoteFingerprint input) fingerprint")
  case True
  then show ?thesis using assms(2,3) by (simp add: confirm_quoted_def op_simps)
next
  case False
  obtain existing e x where run: "css_GetOpenBillingSubscriptionChange state (csn_Provider (pcx_subscription c))
      (csn_ProviderSubscriptionID (pcx_subscription c)) (cw_state w) = ((existing, e), x)" by (metis prod.collapse)
  with False assms show ?thesis
    by (cases e; cases existing) (simp_all add: confirm_quoted_def op_simps requireState_def commerce_port_def)
qed

text \<open>
  C5. Changing the plan of a subscription. A call that fails before the change is created, or that finds the plan
  unchanged, changes nothing anywhere. Otherwise the caller has confirmed the provider's current quote for the account's
  own current subscription, no other change was open, and one durable change is created under the caller's key before the
  provider hears of it. Then the provider is asked exactly once, with that key. When the subscription was about to end,
  the cancellation is taken back first; if the provider then declines, the cancellation is asked for again under a
  key of its own, whenever the provider can cancel at all. Every failure after the creation marks the change as failed
  with the error that is returned, and success is reported only if the provider accepted.
\<close>

theorem plan_change_protocol:
  assumes "hex_hash hash" and "ConfirmPlanChange digest hash D s input w = ((r, e), w')"
  shows "cw_log w' = cw_log w \<and> (e \<noteq> None \<or> cpc_Unchanged r) \<or>
    (\<exists>c. confirmed digest D s input c \<and>
       change_outcome hash c (cpi_OfferKey input) (trim_space (cpi_OperationKey input)) (cw_log w) ((r, e), w'))"
proof -
  define Q where "Q out \<longleftrightarrow> cw_log (state_of out) = cw_log w \<and> (error_of out \<noteq> None \<or> cpc_Unchanged (result_of out)) \<or>
      (\<exists>c. confirmed digest D s input c \<and>
         change_outcome hash c (cpi_OfferKey input) (trim_space (cpi_OperationKey input)) (cw_log w) out)"
    for out :: "(ConfirmPlanChangeResult \<times> go_error option) \<times> 'a commerce_world"
  have quiet: "Q ((z, Some err), w1)" if "cw_log w1 = cw_log w" for z err w1 using that by (simp add: Q_def)
  have "Q (ConfirmPlanChange digest hash D s input w)"
    unfolding ConfirmPlanChange_def
  proof (rule read_require [where Q = Q, OF refl _ quiet], rule context_rule [where Q = Q, OF refl quiet])
    fix operationKey state x1 x1' and c :: "'a commercePlanChangeContext" and w1 :: "'a commerce_world"
    assume key: "requireStableKey (cpi_OperationKey input) ''plan change operation key'' = Inr operationKey"
      and state: "cms_state s = Some state" and log1: "cw_log w1 = cw_log w"
      and sub: "css_GetBillingSubscription state
          (trim_space (pvi_AccountID \<lparr>pvi_AccountID = cpi_AccountID input, pvi_OfferKey = cpi_OfferKey input\<rparr>))
          currentSubscriptionStatuses x1 = ((Some (pcx_subscription c), None), x1')"
    have "Q (plan_quote digest D c zero_Confirm (confirm_quoted hash s input operationKey c) w1)"
      if changed: "pcx_classification c \<noteq> PlanChangeUnchanged"
    proof (rule plan_quote_rule [where Q = Q, OF log1 quiet])
      fix quote preview x2 x2' and w2 :: "'a commerce_world"
      assume quoted: "hp_PreviewPlanChange (pcx_provider c) = Some quote" "quote (providerRequest c []) x2 = ((preview, None), x2')"
        and log2: "cw_log w2 = cw_log w"
      show "Q (confirm_quoted hash s input operationKey c preview (planChangeQuoteFingerprint digest D preview) w2)"
      proof (rule confirm_quoted_rule [where Q = Q, OF state log2 quiet])
        fix x3 x3' and w3 :: "'a commerce_world"
        assume fp: "trim_space (cpi_QuoteFingerprint input) \<noteq> []"
            "equal_fold (cpi_QuoteFingerprint input) (planChangeQuoteFingerprint digest D preview)"
          and free: "css_GetOpenBillingSubscriptionChange state (csn_Provider (pcx_subscription c))
            (csn_ProviderSubscriptionID (pcx_subscription c)) x3 = ((None, None), x3')"
          and log3: "cw_log w3 = cw_log w"
        have "css_GetBillingSubscription state (trim_space (cpi_AccountID input)) currentSubscriptionStatuses x1 =
            ((Some (pcx_subscription c), None), x1')" using sub by simp
        from confirmedI [OF changed state this quoted fp free] have "confirmed digest D s input c" .
        moreover have "operationKey = trim_space (cpi_OperationKey input)" using key by (simp add: requireStableKey_Inr)
        ultimately show "Q (apply_change hash state c (cpi_OfferKey input) preview operationKey w3)"
          using apply_change_outcome [OF assms(1), of c "cpi_OfferKey input" operationKey w3 state preview]
          by (auto simp: Q_def log3)
      qed
    qed
    then show "Q ((if pcx_classification c = PlanChangeUnchanged
       then return_ok (zero_Confirm\<lparr>cpc_Success := True, cpc_Unchanged := True, cpc_PlanKey := pcx_targetPlan c,
         cpc_Interval := pcx_targetInterval c\<rparr>)
       else plan_quote digest D c zero_Confirm (confirm_quoted hash s input operationKey c)) w1)"
      by (auto simp: op_simps Q_def log1)
  qed auto
  with assms(2) show ?thesis by (simp add: Q_def)
qed

section \<open>Cancelling everything\<close>

text \<open>No cancellation of the subscription \<open>i\<close> is requested.\<close>

definition spared :: "string \<Rightarrow> 'w commerce_world \<Rightarrow> 'w commerce_world \<Rightarrow> bool" where
  "spared i w w' \<longleftrightarrow> (\<exists>L. cw_log w' = cw_log w @ L \<and> (\<forall>k err. CancelRequested i k err \<notin> set L))"

interpretation spared: op_frame "spared i" for i
proof
  show "spared i w w" for w :: "'a commerce_world" by (simp add: spared_def)
  show "spared i u w" if "spared i u v" "spared i v w" for u v w :: "'a commerce_world"
    using that by (fastforce simp: spared_def)
qed

lemma spared_port: "keeps (spared i) (commerce_port m)"
  by (simp add: keeps_def spared_def commerce_port_def split: prod.split)

lemma spared_cancel:
  assumes "j \<noteq> i"
  shows "keeps (spared i) (commerce_logged (\<lambda>_. CancelRequested j k) m)"
  using assms by (auto simp: keeps_def spared_def commerce_logged_def split: prod.split)

text \<open>
  A suspended subscription: unpaid or paused, identified, and the only one of the account's list with its identifier. The
  list does not change while it is read.
\<close>

definition suspended ::
  "'w CommerceStateStore \<Rightarrow> string \<Rightarrow> CommerceSubscription list \<Rightarrow> CommerceSubscription \<Rightarrow> bool" where
  "suspended state accountID subs sub \<longleftrightarrow>
     (\<forall>x. css_ListBillingSubscriptions state accountID x = ((subs, None), x)) \<and>
     sub \<in> set subs \<and> csn_Status sub \<in> {''unpaid'', ''paused''} \<and> trim_space (csn_ProviderSubscriptionID sub) \<noteq> [] \<and>
     (\<forall>t \<in> set subs. csn_ID t = csn_ProviderSubscriptionID sub \<or>
        csn_ProviderSubscriptionID t = csn_ProviderSubscriptionID sub \<longrightarrow> t = sub)"

lemma suspended_other:
  assumes "suspended state accountID subs sub" and "find (selected_subscription i currentSubscriptionStatuses) subs = Some t"
  shows "csn_ProviderSubscriptionID t \<noteq> csn_ProviderSubscriptionID sub"
proof
  assume same: "csn_ProviderSubscriptionID t = csn_ProviderSubscriptionID sub"
  have t: "t \<in> set subs" "containsText currentSubscriptionStatuses (csn_Status t)"
    using assms(2) by (auto simp: find_Some_iff selected_subscription_def currentSubscriptionStatuses_def)
  with same assms(1) have "t = sub" by (auto simp: suspended_def)
  with t(2) assms(1) show False by (auto simp: suspended_def currentSubscriptionStatuses_def containsText_def)
qed

lemma suspended_missing:
  assumes "suspended state accountID subs sub"
  shows "find (selected_subscription (csn_ProviderSubscriptionID sub) currentSubscriptionStatuses) subs = None"
  using assms
  by (auto simp: find_None_iff suspended_def selected_subscription_def currentSubscriptionStatuses_def containsText_def)

lemma suspended_list:
  "suspended state accountID subs sub \<Longrightarrow> commerce_port (css_ListBillingSubscriptions state accountID) w = ((subs, None), w)"
  by (simp add: commerce_port_def suspended_def)

lemma subscription_listed:
  assumes "suspended state accountID subs sub" and "cms_state s = Some state" and "trim_space i \<noteq> []"
  shows "subscriptionForCommand s accountID i statuses w = ((find (selected_subscription i statuses) subs, None), w)"
  using assms by (simp add: subscriptionForCommand_def requireState_def op_simps suspended_list)

lemma command_fails:
  assumes susp: "suspended state accountID subs sub" and state: "cms_state s = Some state"
    and account: "trim_space accountID = accountID"
  shows "error_of (CancelSubscription s \<lparr>sci_AccountID = accountID, sci_SubscriptionID = csn_ProviderSubscriptionID sub,
     sci_OperationKey = key\<rparr> w) \<noteq> None"
proof (cases "validateSubscriptionCommand \<lparr>sci_AccountID = accountID, sci_SubscriptionID = csn_ProviderSubscriptionID sub,
     sci_OperationKey = key\<rparr>")
  case (Inl err)
  then show ?thesis by (simp add: CancelSubscription_def op_simps)
next
  case (Inr a)
  then obtain k where a: "a = (accountID, k)"
    using account by (auto simp: validateSubscriptionCommand_def bind_err_Inr_iff requireText_Inr)
  have "trim_space (csn_ProviderSubscriptionID sub) \<noteq> []" using susp by (simp add: suspended_def)
  with Inr show ?thesis
    by (simp add: CancelSubscription_def op_simps a subscription_listed [OF susp state] suspended_missing [OF susp])
qed

lemma command_spares:
  assumes susp: "suspended state accountID subs sub" and state: "cms_state s = Some state"
    and account: "trim_space accountID = accountID" and i: "trim_space i \<noteq> []"
  shows "keeps (spared (csn_ProviderSubscriptionID sub))
    (CancelSubscription s \<lparr>sci_AccountID = accountID, sci_SubscriptionID = i, sci_OperationKey = key\<rparr>)"
  unfolding CancelSubscription_def
proof (rule spared.keeps_require, rule spared.keeps_prod)
  fix x a k
  assume v: "validateSubscriptionCommand \<lparr>sci_AccountID = accountID, sci_SubscriptionID = i, sci_OperationKey = key\<rparr> = Inr x"
    and x: "x = (a, k)"
  have a: "a = accountID"
    using v x account by (auto simp: validateSubscriptionCommand_def bind_err_Inr_iff requireText_Inr)
  let ?found = "find (selected_subscription i currentSubscriptionStatuses) subs"
  have listed: "subscriptionForCommand s a i currentSubscriptionStatuses w = ((?found, None), w)" for w
    unfolding a by (rule subscription_listed [OF susp state i])
  have quiet: "keeps (spared (csn_ProviderSubscriptionID sub)) (subscriptionForCommand s a i currentSubscriptionStatuses)"
    by (simp add: keeps_def listed spared.frame_refl)
  show "keeps (spared (csn_ProviderSubscriptionID sub)) (try_op (subscriptionForCommand s a
      (sci_SubscriptionID \<lparr>sci_AccountID = accountID, sci_SubscriptionID = i, sci_OperationKey = key\<rparr>)
      currentSubscriptionStatuses) zero_Command (\<lambda>found.
       case found of
         None \<Rightarrow> return_err zero_Command (not_found ''no active subscription was found'')
       | Some subscription \<Rightarrow>
           if \<not> may_cancel subscription then return_ok (zero_Command\<lparr>scr_OK := True\<rparr>)
           else try_op (commerce_port (cms_Get s (csn_Provider subscription))) zero_Command (\<lambda>provider.
             case hp_CancelSubscription provider of
               None \<Rightarrow> return_err zero_Command (providerCapabilityError (hp_Name provider) ''cancel_subscription'')
             | Some cancel \<Rightarrow>
                 try_op (commerce_logged (\<lambda>_. CancelRequested (csn_ProviderSubscriptionID subscription) k)
                     (cancel (csn_ProviderSubscriptionID subscription) k)) zero_Command (\<lambda>_.
                   return_ok \<lparr>scr_OK = True, scr_Pending = True\<rparr>))))"
    unfolding SubscriptionCommandInput.simps
  proof (rule spared.keeps_try_result [OF quiet], rule spared.keeps_option, rule spared.keeps_return)
    fix w found v t
    assume "subscriptionForCommand s a i currentSubscriptionStatuses w = ((found, None), v)" and "found = Some t"
    then have "?found = Some t" by (simp add: listed)
    from suspended_other [OF susp this] have "csn_ProviderSubscriptionID t \<noteq> csn_ProviderSubscriptionID sub" .
    then show "keeps (spared (csn_ProviderSubscriptionID sub)) (if \<not> may_cancel t then return_ok (zero_Command\<lparr>scr_OK := True\<rparr>)
           else try_op (commerce_port (cms_Get s (csn_Provider t))) zero_Command (\<lambda>provider.
             case hp_CancelSubscription provider of
               None \<Rightarrow> return_err zero_Command (providerCapabilityError (hp_Name provider) ''cancel_subscription'')
             | Some cancel \<Rightarrow>
                 try_op (commerce_logged (\<lambda>_. CancelRequested (csn_ProviderSubscriptionID t) k)
                     (cancel (csn_ProviderSubscriptionID t) k)) zero_Command (\<lambda>_.
                   return_ok \<lparr>scr_OK = True, scr_Pending = True\<rparr>)))"
      by (intro spared.keeps_if spared.keeps_try spared.keeps_option spared.keeps_return spared_port spared_cancel)
  qed
qed

text \<open>What the loop has collected stays in the result, and a suspended subscription leaves a failure in it.\<close>

lemma cancel_each_collects:
  assumes "cancel_each hash s accountID key xs result w = ((r, None), w')"
  shows "set (car_Subscriptions result) \<subseteq> set (car_Subscriptions r)"
  using assms
proof (induction hash s accountID key xs result arbitrary: w rule: cancel_each.induct)
  case (2 hash s accountID key sub subs result)
  show ?case
  proof (cases "may_cancel sub")
    case False
    with 2 show ?thesis by simp
  next
    case True
    with "2.prems" obtain k command e w1 where
      k: "commerceScopedKey hash key (csn_Provider sub @ '':'' @ csn_ProviderSubscriptionID sub) = Inr k" and
      step: "cancel_each hash s accountID key subs (add_item (cancel_item sub command e) result) w1 = ((r, None), w')"
      by (auto simp: require_def op_simps split: sum.splits prod.splits)
    from "2.IH"(2) [OF _ step] True show ?thesis by (auto simp: add_item_def)
  qed
qed (simp add: op_simps)

lemma cancel_each_fails:
  assumes susp: "suspended state accountID subs sub" and state: "cms_state s = Some state"
    and account: "trim_space accountID = accountID" and may: "may_cancel sub"
  shows "sub \<in> set xs \<Longrightarrow> cancel_each hash s accountID key xs result w = ((r, None), w') \<Longrightarrow>
    \<exists>item \<in> set (car_Subscriptions r). \<not> sxr_Canceled item"
proof (induction xs arbitrary: result w)
  case (Cons t xs)
  show ?case
  proof (cases "may_cancel t")
    case False
    with Cons may show ?thesis by auto
  next
    case True
    with Cons.prems(2) obtain k command e w1 where
      k: "commerceScopedKey hash key (csn_Provider t @ '':'' @ csn_ProviderSubscriptionID t) = Inr k" and
      run: "CancelSubscription s \<lparr>sci_AccountID = accountID, sci_SubscriptionID = csn_ProviderSubscriptionID t,
        sci_OperationKey = k\<rparr> w = ((command, e), w1)" and
      step: "cancel_each hash s accountID key xs (add_item (cancel_item t command e) result) w1 = ((r, None), w')"
      by (auto simp: require_def op_simps split: sum.splits prod.splits)
    show ?thesis
    proof (cases "t = sub")
      case False
      with Cons.IH [OF _ step] Cons.prems(1) show ?thesis by auto
    next
      case True
      with run command_fails [OF susp state account, of k w] obtain err where "e = Some err" by auto
      then have "cancel_item t command e \<in> set (car_Subscriptions r)" "\<not> sxr_Canceled (cancel_item t command e)"
        using cancel_each_collects [OF step] by (auto simp: add_item_def cancel_item_def)
      then show ?thesis by blast
    qed
  qed
qed simp

lemma cancel_each_spares:
  assumes susp: "suspended state accountID subs sub" and state: "cms_state s = Some state"
    and account: "trim_space accountID = accountID" and known: "\<forall>t \<in> set xs. may_cancel t \<longrightarrow> trim_space (csn_ProviderSubscriptionID t) \<noteq> []"
  shows "keeps (spared (csn_ProviderSubscriptionID sub)) (cancel_each hash s accountID key xs result)"
  using known
proof (induction xs arbitrary: result)
  case (Cons t xs)
  then show ?case
    by (auto intro!: spared.keeps_require spared.keeps_bind command_spares [OF susp state account])
qed (simp add: spared.keeps_return)


section \<open>Reads, preferences and classification\<close>

text \<open>Summaries, previews, portals and invoice links only read.\<close>

lemma context_keeps: "(\<And>c. keeps log_kept (k c)) \<Longrightarrow> keeps log_kept (planChangeContext s input z k)"
  unfolding keeps_def log_kept_def
  by (intro allI, rule context_rule [where Q = "\<lambda>out. cw_log (state_of out) = cw_log _", OF refl]) auto

lemma management_reads:
  "keeps log_kept (GetAccountSubscriptionSummary s account)"
  "keeps log_kept (PreviewPlanChange digest D s preview)"
  "keeps log_kept (CreatePortalSession s portal)"
  "keeps log_kept (GetInvoiceLink s link)"
proof -
  note rules = log_kept.keeps_return log_kept.keeps_try log_kept.keeps_require log_kept.keeps_option log_kept.keeps_prod
    log_kept.keeps_if kept_port context_keeps
  show "keeps log_kept (GetAccountSubscriptionSummary s account)"
    unfolding GetAccountSubscriptionSummary_def pending_change_def commerce_now_def by (intro rules)
  show "keeps log_kept (PreviewPlanChange digest D s preview)"
    unfolding PreviewPlanChange_def plan_quote_def by (intro rules)
  show "keeps log_kept (CreatePortalSession s portal)"
    unfolding CreatePortalSession_def portal_url_def Let_def by (intro rules)
  show "keeps log_kept (GetInvoiceLink s link)"
    unfolding GetInvoiceLink_def invoice_document_def by (intro rules)
qed

text \<open>A successful update saves and returns the patched preferences of the account: given fields win, the others stay.\<close>

lemma UpdatePreferences_saves:
  assumes "UpdatePreferences s account patch w = ((b, None), w')"
  shows "\<exists>current. cw_log w' = cw_log w @ [PreferencesSaved b] \<and> bpr_AccountID b = trim_space account \<and>
    b = apply_patch patch (current_preferences s (trim_space account) current)"
proof -
  obtain state where state: "cms_state s = Some state"
    using assms by (auto simp: UpdatePreferences_def requireText_def Let_def op_simps requireState_def split: option.splits if_splits)
  obtain current e1 x1 where get: "css_GetBillingPreferences state (trim_space account) (cw_state w) = ((current, e1), x1)"
    by (metis prod.collapse)
  let ?b = "apply_patch patch (current_preferences s (trim_space account) current)"
  obtain u e2 x2 where put: "css_UpsertBillingPreferences state ?b x1 = ((u, e2), x2)" by (metis prod.collapse)
  have "cw_log w' = cw_log w @ [PreferencesSaved b] \<and> b = ?b"
    using assms state get put
    by (auto simp: UpdatePreferences_def requireText_def Let_def op_simps requireState_def commerce_port_def commerce_logged_def
        split: option.splits if_splits)
  moreover have "bpr_AccountID ?b = trim_space account"
    by (simp add: apply_patch_def current_preferences_def defaultBillingPreferences_def split: option.split)
  ultimately show ?thesis by blast
qed

lemma classification_dual:
  "classifyPlanChange config a i b j = Inr PlanChangeUpgrade \<longleftrightarrow> classifyPlanChange config b j a i = Inr PlanChangeDowngrade"
  "classifyPlanChange config a i b j = Inr PlanChangeUnchanged \<longleftrightarrow> a = b \<and> i = j"
  by (auto simp: classifyPlanChange_def split: option.splits)

section \<open>Subscriptions on a concrete service\<close>

definition ending_subscription :: CommerceSubscription where
  "ending_subscription =
     \<lparr>csn_ID = ''s1'', csn_CatalogRevisionID = [], csn_Provider = ''stripe'', csn_ProviderSubscriptionID = ''sub1'',
      csn_AccountID = ''a1'', csn_ProviderCustomerID = [], csn_OfferID = [], csn_OfferKey = [], csn_PlanID = [],
      csn_PlanKey = ''pro'', csn_Status = ''active'', csn_Interval = ''month'', csn_IntervalCount = 1,
      csn_CurrentPeriodStart = None, csn_CurrentPeriodEnd = None, csn_TrialEnd = None, csn_CancelAt = None, csn_EndedAt = None,
      csn_CancelAtPeriodEnd = True, csn_GraceEndsAt = None, csn_GraceExpiredAt = None, csn_ProviderUpdatedAt = 0,
      csn_Metadata = []\<rparr>"

definition paused_subscription :: CommerceSubscription where
  "paused_subscription = ending_subscription\<lparr>csn_Status := ''paused'', csn_CancelAtPeriodEnd := False\<rparr>"

definition yearly_offer :: CommerceOffer where
  "yearly_offer = pack_offer\<lparr>of_Type := ''subscription'', of_Plan := Some ''pro'',
     of_BillingInterval := Some \<lparr>bi_Unit = ''year'', bi_Count = 1\<rparr>\<rparr>"

definition cadence_policy :: SubscriptionChangePolicy where
  "cadence_policy = \<lparr>scp_Effective = ''immediate'', scp_Proration = ''prorate'', scp_PaymentFailure = ''prevent_change''\<rparr>"

definition change_config :: BursarConfig where
  "change_config = sample_config\<lparr>cfg_Commerce := \<lparr>com_Providers = [], com_Offers = [(''pack'', yearly_offer)],
     com_SubscriptionChanges = [(''cadence_change'', cadence_policy)], com_AutoRecharge = None\<rparr>\<rparr>"

definition yearly_billing_offer :: BillingOffer where
  "yearly_billing_offer = \<lparr>bof_ID = ''o1'', bof_Provider = ''stripe'', bof_OfferKey = ''pack'', bof_PlanID = [], bof_PlanKey = ''pro'',
     bof_ProductID = [], bof_PriceID = ''price1'', bof_LookupKey = [], bof_Interval = ''year'', bof_IntervalCnt = 1,
     bof_Grant = None\<rparr>"

definition yearly_quote :: PlanChangePreview where
  "yearly_quote = \<lparr>pcp_TotalAmount = 0, pcp_SettlementAmount = 0, pcp_Currency = ''USD'', pcp_LineItems = [], pcp_EffectiveAt = 7,
     pcp_RecurringAmount = None, pcp_RecurringCurrency = [], pcp_NextBillingDate = None, pcp_TaxAmount = None,
     pcp_CustomerCredits = None\<rparr>"

definition declined_error :: go_error where
  "declined_error = PlainError ''declined'' []"

definition change_state :: "ledger CommerceStateStore" where
  "change_state =
     \<lparr>css_GetBillingCustomer = (\<lambda>a name. return_ok None),
      css_GetBillingSubscription = (\<lambda>a st. return_ok (Some ending_subscription)),
      css_ListBillingSubscriptions = (\<lambda>a. return_ok [paused_subscription]),
      css_ResolveBillingOffer = (\<lambda>n p q k. return_ok (Some yearly_billing_offer)),
      css_CreateBillingSubscriptionChange = (\<lambda>c. return_ok (zero_Change\<lparr>sch_ID := ''ch1''\<rparr>)),
      css_GetOpenBillingSubscriptionChange = (\<lambda>n i. return_ok None),
      css_UpdateBillingSubscriptionChange = (\<lambda>i u. return_ok ()), css_GetBillingPreferences = (\<lambda>a. return_ok None),
      css_UpsertBillingPreferences = (\<lambda>b. return_ok ()), css_ListBillingInvoices = (\<lambda>a. return_ok []),
      css_UpsertBillingCustomer = None\<rparr>"

definition change_provider :: "ledger HostedProvider" where
  "change_provider = pack_provider\<lparr>hp_CancelSubscription := Some (\<lambda>i k. return_ok ()),
     hp_ReactivateSubscription := Some (\<lambda>i k. return_ok ()), hp_PreviewPlanChange := Some (\<lambda>q. return_ok yearly_quote),
     hp_ChangePlan := Some (\<lambda>q. return_err [] declined_error)\<rparr>"

definition change_service :: "ledger CommerceService" where
  "change_service = pack_service\<lparr>cms_GetConfig := return_ok change_config, cms_state := Some change_state,
     cms_Get := (\<lambda>name. return_ok change_provider)\<rparr>"

definition change_input :: ConfirmPlanChangeInput where
  "change_input = \<lparr>cpi_AccountID = ''a1'', cpi_OfferKey = ''pack'', cpi_QuoteFingerprint = ''d'', cpi_OperationKey = ''k1''\<rparr>"

definition sample_hash :: "string \<Rightarrow> string" where
  "sample_hash x = ''0123456789abcdef''"

definition change_context :: "ledger commercePlanChangeContext" where
  "change_context = \<lparr>pcx_subscription = ending_subscription, pcx_provider = change_provider, pcx_offer = yearly_billing_offer,
     pcx_targetPlan = ''pro'', pcx_targetInterval = ''year'', pcx_classification = PlanChangeCadenceChange,
     pcx_policy = cadence_policy\<rparr>"

lemma change_trims:
  "trim_space ''pro'' = ''pro''" "trim_space ''sub1'' = ''sub1''" "trim_space ''d'' = ''d''"
  by (rule trim_space_graphic; simp add: graphic_def byte_def)+

lemma sample_hash_hex: "hex_hash sample_hash"
  by (auto simp: hex_hash_def sample_hash_def)

lemma change_context_run:
  "planChangeContext change_service \<lparr>pvi_AccountID = ''a1'', pvi_OfferKey = ''pack''\<rparr> z k pack_start = k change_context pack_start"
  by (simp add: planChangeContext_def requireText_def pack_trims change_trims op_simps requireState_def change_service_def
      current_subscription_def change_state_def commerce_port_def pack_start_def ending_subscription_def change_config_def
      target_offer_def yearly_offer_def target_context_def persisted_offer_def change_provider_def pack_provider_def
      pack_offer_def providerReferenceIDs_def pack_service_def pack_reads_def zero_UserPlan_def firstNonEmpty_def
      classifyPlanChange_def change_policy_def change_context_def Let_def)

lemma change_keys:
  "requireStableKey ''k1'' field = Inr ''k1''"
  "commerceScopedKey sample_hash ''k1'' scope = Inr ''k1:0123456789abcdef''"
  subgoal by (simp add: requireStableKey_def requireText_def pack_trims maxIdempotencyKeyLength_def)
  subgoal by (simp add: scoped_key [OF sample_hash_hex] pack_trims stable_key_def sample_hash_def)
  done

lemma change_runs:
  "\<exists>r w'. ConfirmPlanChange (\<lambda>m. ''d'') sample_hash D change_service change_input pack_start = ((r, Some declined_error), w') \<and>
     length (cw_log w') = 5 \<and> cw_log w' ! 3 = CancelRequested ''sub1'' ''k1:0123456789abcdef'' None"
proof -
  have "ConfirmPlanChange (\<lambda>m. ''d'') sample_hash D change_service change_input pack_start =
      plan_quote (\<lambda>m. ''d'') D change_context zero_Confirm (confirm_quoted sample_hash change_service change_input ''k1''
        change_context) pack_start"
    by (simp add: ConfirmPlanChange_def change_input_def change_keys op_simps change_context_run)
      (simp add: change_context_def)
  also have "\<dots> = apply_change sample_hash change_state change_context ''pack'' yearly_quote ''k1'' pack_start"
    by (simp add: plan_quote_def change_context_def change_provider_def op_simps commerce_port_def pack_start_def
        planChangeQuoteFingerprint_def confirm_quoted_def change_input_def change_trims equal_fold_def requireState_def
        change_service_def change_state_def)
  finally have "ConfirmPlanChange (\<lambda>m. ''d'') sample_hash D change_service change_input pack_start =
      apply_change sample_hash change_state change_context ''pack'' yearly_quote ''k1'' pack_start" .
  then show ?thesis
    by (simp add: apply_change_def effective_date_def change_context_def cadence_policy_def op_simps change_provider_def
        commerce_logged_def change_state_def pack_start_def keep_subscription_def ending_subscription_def change_keys
        request_change_def restore_cancellation_def fail_change_def update_change_def Let_def)
qed

theorem plan_change_protocol_witness:
  "\<exists>r w' c. ConfirmPlanChange (\<lambda>m. ''d'') sample_hash ref_decimal change_service change_input pack_start =
       ((r, Some declined_error), w') \<and>
     confirmed (\<lambda>m. ''d'') ref_decimal change_service change_input c \<and>
     change_outcome sample_hash c ''pack'' ''k1'' [] ((r, Some declined_error), w') \<and>
     cw_log w' ! 3 = CancelRequested ''sub1'' ''k1:0123456789abcdef'' None"
proof -
  obtain r w' where run: "ConfirmPlanChange (\<lambda>m. ''d'') sample_hash ref_decimal change_service change_input pack_start =
      ((r, Some declined_error), w')" and len: "length (cw_log w') = 5"
    and cancelled: "cw_log w' ! 3 = CancelRequested ''sub1'' ''k1:0123456789abcdef'' None"
    using change_runs by blast
  have start: "cw_log pack_start = []" by (simp add: pack_start_def)
  have input: "cpi_OfferKey change_input = ''pack''" "trim_space (cpi_OperationKey change_input) = ''k1''"
    by (simp_all add: change_input_def pack_trims)
  from plan_change_protocol [OF sample_hash_hex run] len obtain c where
    "confirmed (\<lambda>m. ''d'') ref_decimal change_service change_input c"
    "change_outcome sample_hash c ''pack'' ''k1'' [] ((r, Some declined_error), w')"
    unfolding start input by auto
  with run cancelled show ?thesis by blast
qed


end
