(* ===== verification/Spec2Isabelle.thy ===== *)
theory Spec2Isabelle
  imports Config_Properties Credits_Properties Outbox_Properties Runtime Catalog_Projection Accounts Auto_Recharge_Service
    Subscriptions
begin

text \<open>
  A verification development of Bursar, the SDK for credits and usage billing, in its Go version under \<open>src/golang\<close>.

  \<^bold>\<open>The program.\<close> An application publishes a catalogue: one versioned document with prices, plans, credit rules and offers.
  Usage of an operation is priced by the catalogue's engine and charged to an account in credits, at once or by a
  lease that is reserved before the work and settled after it. The ledger is a PostgreSQL schema behind the interface
  \<open>CreditStore\<close>. Money comes in through payment providers: hosted checkouts, verified webhooks that the billing service
  ingests once, and automatic recharges of a saved payment method when a balance falls below a threshold. An outbox worker
  delivers the events that the schema records, and a runtime starts and stops the parts of a process.

  \<^bold>\<open>Conventions.\<close> A struct is a record with a prefix on its fields, a pointer an option, a map an association list (\<open>gomap\<close>),
  a named string type a string, and \<open>any\<close> the datatype \<open>goval\<close>. Strings are lists of bytes, as in Go. A function that may fail is
  a sum with the error on the left; a method that acts on a state is an \<open>op\<close> (\<open>Go_Effects\<close>), which yields a value beside
  its error and the new state, so that every early return is a branch. Interfaces that the program only calls are records of
  their methods over an abstract state; where a theorem is about the order of effects, the world carries the log of the
  calls that matter. Machine integers are \<open>int\<close> with the wrap-around written out where the code can leave the range.

  \<^bold>\<open>Theories and sources.\<close>
  \<^item> \<open>Prelude\<close>, \<open>Errors\<close> (\<open>errors.go\<close>), \<open>Go_Effects\<close>: Go values, strings and maps, the structured errors, operations with effects, the
    frame locale \<open>op_frame\<close> and weakest preconditions.
  \<^item> \<open>Decimal\<close>, \<open>Decimal_Reference\<close>, \<open>Amount\<close> (\<open>amount.go\<close>, \<open>breakdown.go\<close>): the interface of the decimal package as the locale
    \<open>decimal_package\<close>, an implementation of it on which the locale is interpreted, and the money functions.
  \<^item> \<open>Expr_Parser\<close>, \<open>Expr_Eval\<close> (\<open>expr.go\<close>): the pricing expression language.
  \<^item> \<open>Config_Types\<close>, \<open>Config_Values\<close>, \<open>Pricing_Config\<close>, \<open>Config_Sections\<close>, \<open>Config_Commerce\<close>, \<open>Config_Plans\<close>, \<open>Config_Load\<close>
    (\<open>config.go\<close>): the configuration, section by section, its parser, its canonical form and the rollouts; \<open>Config_Closed\<close> and
    \<open>Config_Properties\<close> say what an accepted configuration guarantees.
  \<^item> \<open>Engine\<close> (\<open>engine.go\<close>, \<open>metrics.go\<close>): usage metrics, rule matching and every kind of charge.
  \<^item> \<open>Credit_Types\<close> (\<open>credit_types.go\<close>), \<open>Credit_Store\<close> (\<open>credit_store.go\<close>), \<open>Credit_Events\<close> (\<open>credit_events.go\<close>), \<open>Low_Balance\<close>,
    \<open>Service_World\<close>, \<open>Catalog\<close> (\<open>catalog.go\<close>), \<open>Credits\<close>, \<open>Credits_Usage\<close>, \<open>Credits_Properties\<close> (\<open>credits.go\<close>): the credits service
    with its store, its catalogue cache, its events and hooks. \<open>Reference_Store\<close> is a store in memory for the witnesses.
  \<^item> \<open>Catalog_Projection\<close> (\<open>catalog_projection.go\<close>), \<open>Retry\<close> (\<open>retry.go\<close>), \<open>Accounts\<close> (\<open>accounts.go\<close>).
  \<^item> \<open>Outbox\<close>, \<open>Outbox_Delivery\<close>, \<open>Outbox_Worker\<close>, \<open>Outbox_Properties\<close> (\<open>outbox_worker.go\<close>, \<open>storage_types.go\<close>): deliveries and the
    life of the worker. \<open>Runtime\<close> (\<open>runtime.go\<close>, parts of \<open>bursar.go\<close>): the process.
  \<^item> \<open>Calendar\<close>, \<open>Auto_Recharge\<close>, \<open>Auto_Recharge_Service\<close> (\<open>auto_recharge.go\<close>): policy windows and automatic recharges.
  \<^item> \<open>Provider_Registry\<close> (\<open>provider.go\<close>): lazy, single-flight loading of providers and their selection.
  \<^item> \<open>Billing_Events\<close>, \<open>Billing\<close> (\<open>billing.go\<close>, \<open>billing_lifecycle.go\<close>): normalised events and their ingestion.
  \<^item> \<open>Commerce_Types\<close>, \<open>Checkout\<close>, \<open>Subscriptions\<close> (\<open>commerce.go\<close>, \<open>commerce_state.go\<close>, \<open>commerce_management.go\<close>): hosted checkouts
    and webhooks; cancellation, plan changes, portals, preferences and invoice links.

  \<^bold>\<open>What the lemmas show.\<close>
  \<^item> Expressions: the parser returns on every input and reads back what a printer of trees writes; evaluation never
    indexes out of range and, after validation, meets no undefined variable.
  \<^item> Configuration: an accepted configuration has no dangling reference, every operation of a plan is priced, charges are
    well formed, the inheritance check accepts exactly the chains that end; the canonical form round-trips at six decimal
    places and loses smaller rates.
  \<^item> Prices: the graduated loop is the marginal price, an operation resolves to the nearest card of its chain, totals are on
    the money grid and not negative.
  \<^item> Credits: \<open>service_refines_store\<close> shows that any sequence of service calls moves the store only by calls the contract of
    the store permits; hooks run once for each new commit; a billed operation settles a bounded number of times under one
    key; leases are priced with the version they captured; the bounded low-balance state implements the set of reached thresholds.
  \<^item> Billing and commerce: an ingestion claims, works and completes in that order and a replay does no work; a recharge
    claims before it charges and charges once; a checkout requests a session at most once and only for an intent bound to
    the same request; a plan change is requested once, for the confirmed quote and after a durable record, and a
    cancellation that it took back is restored when it fails; cancelling all subscriptions misses the unpaid and the
    paused ones; the registry never has two loads of a name in flight.
  \<^item> Processes: every interleaving of deliveries accounts for each claimed event once; the worker's reachable states are
    consistent; components are closed in the reverse order of their start.

  \<^bold>\<open>Parameters.\<close> Code outside the repository is an argument of the definitions that use it: the decimal package, the time zone
  database and the RFC 3339 reader, regular expressions, the JSON schema validator, the backoff package, SHA-256 of a JSON
  object and of a scope. So are the stores, the payment providers, the application's handlers and hooks, clocks and schedulers. What a
  theorem needs of one of them is a hypothesis or an assumption of a locale, and a witness instantiates it.

  \<^bold>\<open>Fuel and bounds.\<close> The parser has one unit of fuel for each level of nesting and one for each token in its loops; it is
  proved that the units it is given are enough. All other loops are structural or have a measure. Durations and lifetimes in
  nanoseconds wrap at 64 bits where the code computes them without a check.

  \<^bold>\<open>Not modelled.\<close> The PostgreSQL stores, whose rules are SQL functions outside the Go code; the provider adapters, which
  call third-party SDKs; archives, analytics and telemetry, which are I/O; the readers of JSON and YAML bytes; the
  wiring of the facade from its options; and the forwarding methods of \<open>billing_management.go\<close>. Of the
  commerce service the account overview, its construction and \<open>commerce_auto_recharge.go\<close> are not modelled: they join reads and
  forward to services that are. Locks that make an operation atomic are
  not shown; where callers can interleave inside an operation (registry, outbox worker) the critical sections are steps.
\<close>

end
